(* ===== verification/Prelude.thy ===== *)
theory Prelude
  imports Main
begin

text \<open>
  Shared vocabulary of the development.

  \<^item> Python text is a list of Unicode code points (\<open>pystr\<close>); \<open>lit ''abc''\<close> is the
    literal \<open>"abc"\<close>.
  \<^item> The parts of Python's \<open>str\<close> and \<open>int\<close> that several components use: \<open>strip\<close>,
    \<open>upper\<close> on ASCII text, \<open>isdigit\<close>, \<open>int(text, base)\<close> and the padded
    integer formats \<open>{n:0wd}\<close> and \<open>{n:0wX}\<close>. The tables of white space, decimal digits
    and digit characters are those of the Unicode database shipped with Python 3.11.
  \<^item> A locale for positional numeral formats, interpreted for decimal and upper-case
    hexadecimal, whose one law (a rendered number reads back) gives the round trips of the
    tax id.
  \<^item> Lemma collections used by the component theories.
\<close>

named_theorems str_simps \<open>evaluation of text operations\<close>
named_theorems py_splits \<open>case splits for results of the model\<close>

section \<open>Text\<close>

type_synonym pystr = "nat list"

definition lit :: "string \<Rightarrow> pystr" where
  "lit s = map of_char s"

lemma lit_inj [simp]: "lit a = lit b \<longleftrightarrow> a = b"
  unfolding lit_def by (simp add: inj_map_eq_map inj_of_char)

lemma inj_of_char_nat: "(of_char c :: nat) = of_char d \<longleftrightarrow> c = d"
  by (rule of_char_eq_iff)

lemma lit_Nil [simp]: "lit [] = []" and lit_Cons: "lit (c # s) = of_char c # lit s"
  by (simp_all add: lit_def)

lemma lit_append: "lit (a @ b) = lit a @ lit b"
  by (simp add: lit_def)

lemma length_lit [simp]: "length (lit s) = length s"
  by (simp add: lit_def)

lemma lit_eq_Nil [simp]: "lit s = [] \<longleftrightarrow> s = []" "[] = lit s \<longleftrightarrow> s = []"
  by (simp_all add: lit_def)

text \<open>Python's \<open>str.isspace\<close> on one character.\<close>

definition space_points :: "nat list" where
  "space_points = [9, 10, 11, 12, 13, 28, 29, 30, 31, 32, 133, 160, 5760, 8192, 8193, 8194,
     8195, 8196, 8197, 8198, 8199, 8200, 8201, 8202, 8232, 8233, 8239, 8287, 12288]"

definition is_space :: "nat \<Rightarrow> bool" where
  "is_space c = (c \<in> set space_points)"

definition lstrip :: "pystr \<Rightarrow> pystr" where
  "lstrip s = dropWhile is_space s"

definition rstrip :: "pystr \<Rightarrow> pystr" where
  "rstrip s = rev (dropWhile is_space (rev s))"

definition strip :: "pystr \<Rightarrow> pystr" where
  "strip s = rstrip (lstrip s)"

lemma rstrip_id: "s = [] \<or> \<not> is_space (last s) \<Longrightarrow> rstrip s = s"
  by (cases s rule: rev_cases) (auto simp: rstrip_def)

lemma strip_no_space: "\<forall>c \<in> set s. \<not> is_space c \<Longrightarrow> strip s = s"
  unfolding strip_def lstrip_def
  by (cases s; cases s rule: rev_cases) (auto simp: rstrip_id)

lemma strip_Nil [simp]: "strip [] = []"
  by (simp add: strip_def rstrip_def lstrip_def)

lemma dropWhile_all_space: "dropWhile is_space s = [] \<longleftrightarrow> (\<forall>c \<in> set s. is_space c)"
  by (auto simp: dropWhile_eq_Nil_conv)

lemma strip_eq_Nil: "strip s = [] \<longleftrightarrow> (\<forall>c \<in> set s. is_space c)"
proof -
  have "strip s = [] \<longleftrightarrow> (\<forall>c \<in> set (dropWhile is_space s). is_space c)"
    by (simp add: strip_def rstrip_def lstrip_def dropWhile_all_space)
  also have "\<dots> \<longleftrightarrow> (\<forall>c \<in> set s. is_space c)"
  proof
    assume h: "\<forall>c \<in> set (dropWhile is_space s). is_space c"
    have "dropWhile is_space s = []"
    proof (rule ccontr)
      assume "dropWhile is_space s \<noteq> []"
      then have "\<not> is_space (hd (dropWhile is_space s))" by (rule hd_dropWhile)
      with h \<open>dropWhile is_space s \<noteq> []\<close> show False by simp
    qed
    then show "\<forall>c \<in> set s. is_space c" by (simp add: dropWhile_all_space)
  qed (auto dest: set_dropWhileD)
  finally show ?thesis .
qed

text \<open>A string that is absent or blank: \<open>not s.strip()\<close>.\<close>

definition is_blank :: "pystr \<Rightarrow> bool" where
  "is_blank s = (strip s = [])"

text \<open>ASCII classes and \<open>str.upper\<close> / \<open>str.lower\<close> on ASCII characters.\<close>

definition ascii_digit :: "nat \<Rightarrow> bool" where
  "ascii_digit c = (48 \<le> c \<and> c \<le> 57)"

definition ascii_upper_letter :: "nat \<Rightarrow> bool" where
  "ascii_upper_letter c = (65 \<le> c \<and> c \<le> 90)"

definition ascii_lower_letter :: "nat \<Rightarrow> bool" where
  "ascii_lower_letter c = (97 \<le> c \<and> c \<le> 122)"

definition ascii_alnum :: "nat \<Rightarrow> bool" where
  "ascii_alnum c = (ascii_digit c \<or> ascii_upper_letter c \<or> ascii_lower_letter c)"

lemmas ascii_defs = ascii_digit_def ascii_upper_letter_def ascii_lower_letter_def ascii_alnum_def

definition upper_point :: "nat \<Rightarrow> nat" where
  "upper_point c = (if ascii_lower_letter c then c - 32 else c)"

definition lower_point :: "nat \<Rightarrow> nat" where
  "lower_point c = (if ascii_upper_letter c then c + 32 else c)"

lemma upper_point_alnum:
  "ascii_alnum c \<Longrightarrow> ascii_digit (upper_point c) \<or> ascii_upper_letter (upper_point c)"
  by (auto simp: upper_point_def ascii_defs)

lemma upper_point_upper: "\<not> ascii_lower_letter c \<Longrightarrow> upper_point c = c"
  by (simp add: upper_point_def)

lemma upper_point_idem [simp]: "upper_point (upper_point c) = upper_point c"
  by (auto simp: upper_point_def ascii_defs)

section \<open>Digits of the Unicode database\<close>

text \<open>
  The code points of value zero of the decimal digits (category Nd); each starts a run of ten.
\<close>

definition decimal_zeros :: "nat list" where
  "decimal_zeros = [48, 1632, 1776, 1984, 2406, 2534, 2662, 2790, 2918, 3046, 3174, 3302, 3430,
     3558, 3664, 3792, 3872, 4160, 4240, 6112, 6160, 6470, 6608, 6784, 6800, 6992, 7088, 7232,
     7248, 42528, 43216, 43264, 43472, 43504, 43600, 44016, 65296, 66720, 68912, 69734, 69872,
     69942, 70096, 70384, 70736, 70864, 71248, 71360, 71472, 71904, 72016, 72784, 73040, 73120,
     92768, 92864, 93008, 120782, 120792, 120802, 120812, 120822, 123200, 123632, 125264, 130032]"

fun decimal_in :: "nat list \<Rightarrow> nat \<Rightarrow> nat option" where
  "decimal_in [] c = None"
| "decimal_in (z # zs) c = (if z \<le> c \<and> c < z + 10 then Some (c - z) else decimal_in zs c)"

definition decimal_value :: "nat \<Rightarrow> nat option" where
  "decimal_value c = decimal_in decimal_zeros c"

text \<open>Superscripts, circled and other digits: \<open>str.isdigit\<close> accepts them, \<open>int\<close> does not.\<close>

definition extra_digit_ranges :: "(nat \<times> nat) list" where
  "extra_digit_ranges = [(178, 179), (185, 185), (4969, 4977), (6618, 6618), (8304, 8304),
     (8308, 8313), (8320, 8329), (9312, 9320), (9332, 9340), (9352, 9360), (9450, 9450),
     (9461, 9469), (9471, 9471), (10102, 10110), (10112, 10120), (10122, 10130),
     (68160, 68163), (69216, 69224), (69714, 69722), (127232, 127242)]"

definition digit_char :: "nat \<Rightarrow> bool" where
  "digit_char c = (decimal_value c \<noteq> None \<or> (\<exists>(a, b) \<in> set extra_digit_ranges. a \<le> c \<and> c \<le> b))"

definition isdigit :: "pystr \<Rightarrow> bool" where
  "isdigit s = (s \<noteq> [] \<and> list_all digit_char s)"

lemma decimal_value_ascii: "ascii_digit c \<Longrightarrow> decimal_value c = Some (c - 48)"
  by (simp add: decimal_value_def decimal_zeros_def ascii_digit_def)

lemma digit_char_ascii: "ascii_digit c \<Longrightarrow> digit_char c"
  by (simp add: digit_char_def decimal_value_ascii)

lemma decimal_in_bound: "decimal_in zs c = Some d \<Longrightarrow> d < 10"
  by (induction zs c rule: decimal_in.induct) (auto split: if_splits)

lemma decimal_value_bound: "decimal_value c = Some d \<Longrightarrow> d < 10"
  unfolding decimal_value_def by (rule decimal_in_bound)

section \<open>Splitting\<close>

text \<open>\<open>s.split(sep)\<close> for a one-character separator.\<close>

fun split_on :: "nat \<Rightarrow> pystr \<Rightarrow> pystr list" where
  "split_on d [] = [[]]"
| "split_on d (c # s) =
     (if c = d then [] # split_on d s
      else case split_on d s of p # ps \<Rightarrow> (c # p) # ps | [] \<Rightarrow> [[c]])"

lemma split_on_none: "d \<notin> set s \<Longrightarrow> split_on d s = [s]"
  by (induction s) auto

lemma split_on_cons: "d \<notin> set s \<Longrightarrow> split_on d (s @ d # t) = s # split_on d t"
  by (induction s) auto

section \<open>Words\<close>

text \<open>\<open>str.split()\<close>\<close>

function words_of :: "pystr \<Rightarrow> pystr list" where
  "words_of s =
     (case dropWhile is_space s of
        [] \<Rightarrow> []
      | c # r \<Rightarrow> (c # takeWhile (\<lambda>x. \<not> is_space x) r) # words_of (dropWhile (\<lambda>x. \<not> is_space x) r))"
  by pat_completeness auto
termination
proof (relation "measure length")
  fix s c r
  assume "dropWhile is_space s = c # r"
  then have "length (c # r) \<le> length s" by (metis length_dropWhile_le)
  moreover have "length (dropWhile (\<lambda>x. \<not> is_space x) r) \<le> length r" by (rule length_dropWhile_le)
  ultimately show "(dropWhile (\<lambda>x. \<not> is_space x) r, s) \<in> measure length" by simp
qed simp

declare words_of.simps [simp del]

text \<open>\<open>sep.join\<close>, \<open>needle in s\<close>, and \<open>s or ""\<close>\<close>

fun joined_by :: "pystr \<Rightarrow> pystr list \<Rightarrow> pystr" where
  "joined_by sep [] = []"
| "joined_by sep [s] = s"
| "joined_by sep (s # t # ts) = s @ sep @ joined_by sep (t # ts)"

fun contains :: "nat list \<Rightarrow> nat list \<Rightarrow> bool" where
  "contains needle [] = (needle = [])"
| "contains needle (c # s) = (take (length needle) (c # s) = needle \<or> contains needle s)"

definition or_empty :: "pystr option \<Rightarrow> pystr" where
  "or_empty v = (case v of None \<Rightarrow> [] | Some s \<Rightarrow> s)"

section \<open>Insertion-ordered dicts\<close>

text \<open>\<open>d[k] = v\<close>: an existing key keeps its place. \<open>map_of\<close> is \<open>d.get\<close>.\<close>

fun dict_set :: "'k \<Rightarrow> 'v \<Rightarrow> ('k \<times> 'v) list \<Rightarrow> ('k \<times> 'v) list" where
  "dict_set k v [] = [(k, v)]"
| "dict_set k v ((k', v') # d) = (if k' = k then (k, v) # d else (k', v') # dict_set k v d)"

definition dict_del :: "'k \<Rightarrow> ('k \<times> 'v) list \<Rightarrow> ('k \<times> 'v) list" where
  "dict_del k d = filter (\<lambda>kv. fst kv \<noteq> k) d"

lemma map_of_dict_set [simp]: "map_of (dict_set k v d) = (map_of d)(k \<mapsto> v)"
  by (induction d) auto

lemma keys_dict_set: "fst ` set (dict_set k v d) = insert k (fst ` set d)"
proof (induction d)
  case (Cons kv d)
  then show ?case by (cases kv) (simp add: insert_commute)
qed simp

lemma distinct_dict_set: "distinct (map fst d) \<Longrightarrow> distinct (map fst (dict_set k v d))"
  by (induction d) (auto simp: keys_dict_set)

lemma dict_set_fresh: "k \<notin> fst ` set d \<Longrightarrow> dict_set k v d = d @ [(k, v)]"
  by (induction d) auto

lemma dict_of_distinct: "distinct (map fst (d @ xs)) \<Longrightarrow> foldl (\<lambda>d (k, v). dict_set k v d) d xs = d @ xs"
proof (induction xs arbitrary: d)
  case (Cons x xs)
  obtain k v where x: "x = (k, v)" by (cases x)
  then have "dict_set k v d = d @ [(k, v)]" using Cons.prems by (auto intro!: dict_set_fresh)
  then show ?case using Cons.IH [of "d @ [(k, v)]"] Cons.prems x by simp
qed simp

lemma set_dict_set: "kv \<in> set (dict_set k v d) \<Longrightarrow> kv = (k, v) \<or> kv \<in> set d"
  by (induction d) (auto split: if_splits)

lemma map_of_dict_del [simp]: "map_of (dict_del k d) = (map_of d)(k := None)"
  by (induction d) (auto simp: dict_del_def)

lemma distinct_dict_del: "distinct (map fst d) \<Longrightarrow> distinct (map fst (dict_del k d))"
  by (induction d) (auto simp: dict_del_def)

end
