(* ===== verification/Errors.thy ===== *)
theory Errors
  imports Prelude
begin

text \<open>
  The exceptions of \<open>errors.py\<close> as values, with the built-in exceptions that can escape
  from the modelled code. The prose of a message is not modelled; what a handler reads off an
  exception (status, codes, trace id, offending fields) is.
\<close>

section \<open>The exception hierarchy\<close>

record api_error =
  status_code :: "int option"
  api_errors :: "(pystr \<times> pystr) list"
  request_trace_id :: "pystr option"

datatype exn =
    CryptographyError
  | CertificateError
  | InvalidTaxIdError
  | InvoiceValidationError "pystr list"
  | ConfigurationError
  | TransportError
  | TaxApiError api_error
  | AuthenticationError api_error
  | UnknownResponseError api_error
  | ValueError
  | OverflowError
  | UnicodeDecodeError
  | KeyError
  | TypeError
  | IntegrityError
  | OSError
  | IndexError
  | AssertionError
  | AttributeError
  | HTTPException int

text \<open>\<open>isinstance(exc, MoadianError)\<close>.\<close>

fun is_moadian_error :: "exn \<Rightarrow> bool" where
  "is_moadian_error ValueError = False"
| "is_moadian_error OverflowError = False"
| "is_moadian_error UnicodeDecodeError = False"
| "is_moadian_error KeyError = False"
| "is_moadian_error TypeError = False"
| "is_moadian_error IntegrityError = False"
| "is_moadian_error OSError = False"
| "is_moadian_error IndexError = False"
| "is_moadian_error AssertionError = False"
| "is_moadian_error AttributeError = False"
| "is_moadian_error (HTTPException _) = False"
| "is_moadian_error _ = True"

text \<open>The subclass relations inside the package.\<close>

fun is_tax_api_error :: "exn \<Rightarrow> api_error option" where
  "is_tax_api_error (TaxApiError e) = Some e"
| "is_tax_api_error (AuthenticationError e) = Some e"
| "is_tax_api_error (UnknownResponseError e) = Some e"
| "is_tax_api_error _ = None"

fun is_cryptography_error :: "exn \<Rightarrow> bool" where
  "is_cryptography_error CryptographyError = True"
| "is_cryptography_error CertificateError = True"
| "is_cryptography_error _ = False"

text \<open>\<open>TaxApiError.codes\<close> and \<open>InvoiceValidationError.fields\<close>.\<close>

definition codes :: "api_error \<Rightarrow> pystr list" where
  "codes e = map fst (api_errors e)"

section \<open>Results\<close>

text \<open>A call that may raise: \<open>Inl\<close> the exception, \<open>Inr\<close> the value.\<close>

type_synonym 'a result = "exn + 'a"

definition bindE :: "'e + 'a \<Rightarrow> ('a \<Rightarrow> 'e + 'b) \<Rightarrow> 'e + 'b" where
  "bindE m f = (case m of Inl e \<Rightarrow> Inl e | Inr x \<Rightarrow> f x)"

lemma bindE_simps [simp]: "bindE (Inl e) f = Inl e" "bindE (Inr x) f = f x"
  by (simp_all add: bindE_def)

lemma bindE_eq_Inr [py_splits]:
  "bindE m f = Inr y \<longleftrightarrow> (\<exists>x. m = Inr x \<and> f x = Inr y)"
  by (cases m) auto

lemma bindE_eq_Inl [py_splits]:
  "bindE m f = Inl e \<longleftrightarrow> m = Inl e \<or> (\<exists>x. m = Inr x \<and> f x = Inl e)"
  by (cases m) auto

lemma bindE_cong [fundef_cong]:
  "m = m' \<Longrightarrow> (\<And>x. m' = Inr x \<Longrightarrow> f x = g x) \<Longrightarrow> bindE m f = bindE m' g"
  by (cases m') auto

text \<open>\<open>[f(x) for x in xs]\<close> where \<open>f\<close> may raise: the first exception ends it.\<close>

fun mapE :: "('a \<Rightarrow> 'e + 'b) \<Rightarrow> 'a list \<Rightarrow> 'e + 'b list" where
  "mapE f [] = Inr []"
| "mapE f (x # xs) = bindE (f x) (\<lambda>y. bindE (mapE f xs) (\<lambda>ys. Inr (y # ys)))"

lemma mapE_Inr: "\<forall>x \<in> set xs. f x = Inr (g x) \<Longrightarrow> mapE f xs = Inr (map g xs)"
  by (induction xs) simp_all

lemma mapE_map: "mapE f (map g xs) = mapE (f \<circ> g) xs"
  by (induction xs) simp_all

lemma mapE_length: "mapE f xs = Inr ys \<Longrightarrow> length ys = length xs"
  by (induction xs arbitrary: ys) (auto simp: py_splits)

lemma mapE_nth: "mapE f xs = Inr ys \<Longrightarrow> i < length xs \<Longrightarrow> f (xs ! i) = Inr (ys ! i)"
  by (induction xs arbitrary: ys i) (auto simp: py_splits nth_Cons split: nat.splits)

end
