(* ===== verification/PyFloat.thy ===== *)
theory PyFloat
  imports Complex_Main "HOL-Library.Log_Nat"
begin

text \<open>
  Python's \<open>float\<close>: IEEE 754 binary64 with rounding to nearest, ties to even, gradual
  underflow and overflow to the infinities. A finite value is the rational it denotes; the sign
  of zero is dropped, which no operation of the modelled code observes. The theory gives the
  rounding, the arithmetic the money rules use, and the three facts everything else rests on:
  rounding is monotone, leaves representable numbers alone (in particular the integers up to
  \<open>2 ^ 53\<close>), and always yields a representable number.
\<close>

section \<open>Rounding to an integer\<close>

definition round_half_even :: "rat \<Rightarrow> int" where
  "round_half_even x =
     (let f = \<lfloor>x\<rfloor>; d = x - of_int f in
      if d < 1 / 2 then f else if 1 / 2 < d then f + 1 else if even f then f else f + 1)"

lemma round_half_even_of_int [simp]: "round_half_even (of_int n) = n"
  by (simp add: round_half_even_def)

lemma round_half_even_cases: "round_half_even x = \<lfloor>x\<rfloor> \<or> round_half_even x = \<lfloor>x\<rfloor> + 1"
  by (auto simp: round_half_even_def Let_def)

lemma round_half_even_error: "\<bar>of_int (round_half_even x) - x\<bar> \<le> 1 / 2"
proof -
  have "of_int \<lfloor>x\<rfloor> \<le> x" "x < of_int \<lfloor>x\<rfloor> + 1" by linarith+
  then show ?thesis by (auto simp: round_half_even_def Let_def abs_le_iff)
qed

lemma round_half_even_mono: "x \<le> y \<Longrightarrow> round_half_even x \<le> round_half_even y"
proof -
  assume xy: "x \<le> y"
  then have f: "\<lfloor>x\<rfloor> \<le> \<lfloor>y\<rfloor>" by (rule floor_mono)
  show ?thesis
  proof (cases "\<lfloor>x\<rfloor> = \<lfloor>y\<rfloor>")
    case True
    with xy show ?thesis by (auto simp: round_half_even_def Let_def)
  next
    case False
    with f have "\<lfloor>x\<rfloor> + 1 \<le> \<lfloor>y\<rfloor>" by simp
    with round_half_even_cases [of x] round_half_even_cases [of y] show ?thesis by auto
  qed
qed

lemma round_half_even_minus [simp]: "round_half_even (- x) = - round_half_even x"
proof (cases "x = of_int \<lfloor>x\<rfloor>")
  case True
  then show ?thesis
    by (metis of_int_minus round_half_even_of_int)
next
  case False
  have "of_int \<lfloor>x\<rfloor> \<le> x" "x < of_int \<lfloor>x\<rfloor> + 1" by linarith+
  with False have "of_int \<lfloor>x\<rfloor> < x" by (metis less_le)
  with \<open>x < of_int \<lfloor>x\<rfloor> + 1\<close> have fl: "\<lfloor>- x\<rfloor> = - \<lfloor>x\<rfloor> - 1"
    by (intro floor_unique) auto
  then show ?thesis by (auto simp: round_half_even_def Let_def fl)
qed

section \<open>The exponent of a positive rational\<close>

definition ilog2 :: "rat \<Rightarrow> int" where
  "ilog2 x =
     (let (p, q) = quotient_of x; k = bitlen p - bitlen q in
      if 2 powi k \<le> x then k else k - 1)"

lemma powi_add2: "(2::rat) powi (a + b) = 2 powi a * 2 powi b"
  by (simp add: power_int_add)

lemma powi_pos [simp]: "0 < (2::rat) powi a"
  by simp

lemma powi_mono: "a \<le> b \<Longrightarrow> (2::rat) powi a \<le> 2 powi b"
  by (simp add: power_int_increasing)

lemma powi_less: "(2::rat) powi a < 2 powi b \<longleftrightarrow> a < b"
  by (metis one_less_numeral_iff power_int_strict_increasing semiring_norm(76)
      linorder_neq_iff order_less_asym)

lemma powi_nonneg: "0 \<le> a \<Longrightarrow> (2::rat) powi a = 2 ^ nat a"
  by (simp add: power_int_def)

lemma powi_int: "0 \<le> a \<Longrightarrow> (2::rat) powi a = of_int (2 ^ nat a)"
  by (simp add: power_int_def)

lemma ilog2_bounds:
  assumes "0 < x"
  shows "2 powi (ilog2 x) \<le> x" and "x < 2 powi (ilog2 x + 1)"
proof -
  obtain p q where pq: "quotient_of x = (p, q)" by (cases "quotient_of x")
  then have q: "0 < q" by (rule quotient_of_denom_pos)
  have x: "x = of_int p / of_int q" by (rule quotient_of_div [OF pq])
  with assms q have p: "0 < p" by (simp add: zero_less_divide_iff)
  let ?bp = "bitlen p" and ?bq = "bitlen q"
  have b: "0 < ?bp" "0 < ?bq"
    using p q bitlen_eq_zero_iff [of p] bitlen_eq_zero_iff [of q] bitlen_nonneg [of p]
      bitlen_nonneg [of q] by linarith+
  have "2 ^ nat (?bp - 1) \<le> p \<and> p < 2 ^ nat ?bp" "2 ^ nat (?bq - 1) \<le> q \<and> q < 2 ^ nat ?bq"
    using p q bitlen_bounds by blast+
  then have p1: "of_int (2 ^ nat (?bp - 1)) \<le> (of_int p :: rat)"
    and p2: "(of_int p :: rat) < of_int (2 ^ nat ?bp)"
    and q1: "of_int (2 ^ nat (?bq - 1)) \<le> (of_int q :: rat)"
    and q2: "(of_int q :: rat) < of_int (2 ^ nat ?bq)"
    by (simp_all only: of_int_le_iff of_int_less_iff)
  have P1: "2 powi (?bp - 1) \<le> (of_int p :: rat)" and P2: "(of_int p :: rat) < 2 powi ?bp"
    and Q1: "2 powi (?bq - 1) \<le> (of_int q :: rat)" and Q2: "(of_int q :: rat) < 2 powi ?bq"
    using p1 p2 q1 q2 b by (simp_all add: powi_int)
  have hi: "x < 2 powi (?bp - ?bq + 1)"
  proof -
    have "2 powi (?bp - ?bq + 1) * 2 powi (?bq - 1) = (2::rat) powi ?bp"
      by (simp flip: powi_add2)
    with P2 have "of_int p < 2 powi (?bp - ?bq + 1) * (2 powi (?bq - 1) :: rat)" by simp
    also have "\<dots> \<le> 2 powi (?bp - ?bq + 1) * of_int q" using Q1 by simp
    finally show ?thesis using q by (simp add: x divide_less_eq)
  qed
  have lo: "2 powi (?bp - ?bq - 1) \<le> x"
  proof -
    have "2 powi (?bp - ?bq - 1) * of_int q \<le> 2 powi (?bp - ?bq - 1) * (2 powi ?bq :: rat)"
      using Q2 by simp
    also have "\<dots> = 2 powi (?bp - 1)" by (simp flip: powi_add2)
    also have "\<dots> \<le> of_int p" by (rule P1)
    finally show ?thesis using q by (simp add: x le_divide_eq)
  qed
  show "2 powi (ilog2 x) \<le> x" using lo by (simp add: ilog2_def pq Let_def)
  show "x < 2 powi (ilog2 x + 1)" using hi by (auto simp: ilog2_def pq Let_def)
qed

lemma ilog2_unique:
  assumes "2 powi k \<le> x" "x < 2 powi (k + 1)"
  shows "ilog2 x = k"
proof -
  have pos: "0 < x" using assms(1) powi_pos less_le_trans by blast
  have "2 powi k < (2::rat) powi (ilog2 x + 1)" "2 powi (ilog2 x) < (2::rat) powi (k + 1)"
    using ilog2_bounds [OF pos] assms by linarith+
  then have "k < ilog2 x + 1" "ilog2 x < k + 1" unfolding powi_less .
  then show ?thesis by simp
qed

lemma ilog2_mono: "0 < x \<Longrightarrow> x \<le> y \<Longrightarrow> ilog2 x \<le> ilog2 y"
proof -
  assume "0 < x" "x \<le> y"
  then have "(2::rat) powi (ilog2 x) < 2 powi (ilog2 y + 1)"
    using ilog2_bounds(1) [of x] ilog2_bounds(2) [of y] by linarith
  then show ?thesis unfolding powi_less by simp
qed

section \<open>Rounding to binary64\<close>

text \<open>The exponent of the last bit kept: 53 bits, not below the least subnormal.\<close>

definition ulp_exp :: "rat \<Rightarrow> int" where
  "ulp_exp x = max (ilog2 \<bar>x\<bar> - 52) (- 1074)"

definition fl :: "rat \<Rightarrow> rat" where
  "fl x =
     (if x = 0 then 0
      else let e = ulp_exp x in of_int (round_half_even (x / 2 powi e)) * 2 powi e)"

definition representable :: "rat \<Rightarrow> bool" where
  "representable y \<longleftrightarrow> (\<exists>m e. y = of_int m * 2 powi e \<and> \<bar>m\<bar> \<le> 2 ^ 53 \<and> - 1074 \<le> e)"

lemma fl_zero [simp]: "fl 0 = 0"
  by (simp add: fl_def)

lemma fl_minus [simp]: "fl (- x) = - fl x"
  by (simp add: fl_def ulp_exp_def Let_def)

lemma abs_lt_ulp: "x \<noteq> 0 \<Longrightarrow> \<bar>x\<bar> < 2 ^ 53 * 2 powi (ulp_exp x)"
proof -
  assume "x \<noteq> 0"
  then have "\<bar>x\<bar> < 2 powi (ilog2 \<bar>x\<bar> + 1)" by (intro ilog2_bounds) simp
  also have "\<dots> \<le> 2 powi (53 + ulp_exp x)" by (intro powi_mono) (simp add: ulp_exp_def)
  also have "(2::rat) powi (53 + ulp_exp x) = 2 ^ 53 * 2 powi (ulp_exp x)"
    by (simp add: powi_add2 powi_nonneg)
  finally show ?thesis .
qed

lemma representable_fl: "representable (fl x)"
proof (cases "x = 0")
  case True
  then show ?thesis by (auto simp: representable_def intro!: exI [of _ 0])
next
  case False
  let ?e = "ulp_exp x" and ?m = "round_half_even (x / 2 powi (ulp_exp x))"
  have "x < 2 ^ 53 * 2 powi ?e" "- (2 ^ 53) * 2 powi ?e < x"
    using abs_lt_ulp [OF False] by (simp_all add: abs_less_iff)
  then have "x / 2 powi ?e \<le> of_int (2 ^ 53)" "of_int (- (2 ^ 53)) \<le> x / 2 powi ?e"
    by (simp_all add: divide_le_eq le_divide_eq)
  then have "?m \<le> 2 ^ 53" "- (2 ^ 53) \<le> ?m"
    using round_half_even_mono round_half_even_of_int by metis+
  then have "\<bar>?m\<bar> \<le> 2 ^ 53" by (simp add: abs_le_iff)
  moreover have "- 1074 \<le> ?e" by (simp add: ulp_exp_def)
  moreover have "fl x = of_int ?m * 2 powi ?e" using False by (simp add: fl_def Let_def)
  ultimately show ?thesis unfolding representable_def by blast
qed

text \<open>A rational that is a multiple of its own last bit is not changed.\<close>

lemma fl_exact:
  assumes "x = of_int k * 2 powi (ulp_exp x)"
  shows "fl x = x"
proof -
  let ?u = "(2::rat) powi (ulp_exp x)"
  have "?u \<noteq> 0" by simp
  with assms have "x / ?u = of_int k" by (metis nonzero_mult_div_cancel_right)
  then show ?thesis using assms by (simp add: fl_def Let_def)
qed

lemma fl_representable:
  assumes "representable y"
  shows "fl y = y"
proof (cases "y = 0")
  case False
  from assms obtain m e where y: "y = of_int m * 2 powi e" and m: "\<bar>m\<bar> \<le> 2 ^ 53" and e: "- 1074 \<le> e"
    by (auto simp: representable_def)
  show ?thesis
  proof (cases "ulp_exp y \<le> e")
    case True
    then have "y = of_int (m * 2 ^ nat (e - ulp_exp y)) * 2 powi (ulp_exp y)"
      by (simp add: y powi_nonneg [symmetric] mult.assoc flip: powi_add2)
    then show ?thesis by (rule fl_exact)
  next
    case False
    let ?L = "ilog2 \<bar>y\<bar>"
    from False e have u: "ulp_exp y = ?L - 52" and eL: "e + 53 \<le> ?L"
      by (auto simp: ulp_exp_def)
    have ay: "\<bar>y\<bar> = of_int \<bar>m\<bar> * 2 powi e" by (simp add: y abs_mult)
    have "2 powi (e + 53) \<le> \<bar>y\<bar>"
      using powi_mono [OF eL] ilog2_bounds(1) [of "\<bar>y\<bar>"] \<open>y \<noteq> 0\<close> by linarith
    then have "2 ^ 53 \<le> \<bar>m\<bar>"
      by (simp add: ay powi_add2 powi_nonneg)
    with m have m53: "\<bar>m\<bar> = 2 ^ 53" by simp
    then have y53: "\<bar>y\<bar> = 2 powi (e + 53)" by (simp add: ay powi_add2 powi_nonneg)
    then have "?L = e + 53" by (intro ilog2_unique) (simp_all add: powi_less)
    then have "ulp_exp y = e + 1" using u by simp
    moreover have "m = 2 ^ 53 \<or> m = - (2 ^ 53)" using m53 by (auto simp: abs_if split: if_splits)
    ultimately have "y = of_int (sgn m * 2 ^ 52) * 2 powi (ulp_exp y)"
      by (auto simp: y powi_add2)
    then show ?thesis by (rule fl_exact)
  qed
qed simp

lemma fl_idem [simp]: "fl (fl x) = fl x"
  by (rule fl_representable) (rule representable_fl)

lemma fl_nonneg: "0 \<le> x \<Longrightarrow> 0 \<le> fl x"
proof -
  assume "0 \<le> x"
  then have "0 \<le> round_half_even (x / 2 powi (ulp_exp x))"
    using round_half_even_mono [of 0 "x / 2 powi (ulp_exp x)"] round_half_even_of_int [of 0] by simp
  then show ?thesis by (simp add: fl_def Let_def)
qed

lemma fl_mono_pos:
  assumes "0 < x" "x \<le> y"
  shows "fl x \<le> fl y"
proof (cases "ulp_exp x = ulp_exp y")
  case True
  have "x / 2 powi (ulp_exp y) \<le> y / 2 powi (ulp_exp y)"
    using assms by (simp add: divide_right_mono)
  then have "round_half_even (x / 2 powi (ulp_exp y)) \<le> round_half_even (y / 2 powi (ulp_exp y))"
    by (rule round_half_even_mono)
  then show ?thesis using assms by (simp add: fl_def Let_def True)
next
  case False
  let ?b = "2 powi (ilog2 y) :: rat"
  have "ilog2 x \<le> ilog2 y" using assms by (rule ilog2_mono)
  with False assms have lt: "ulp_exp x < ulp_exp y" "ilog2 x < ilog2 y" and uy: "ulp_exp y = ilog2 y - 52"
    by (auto simp: ulp_exp_def)
  have "x \<le> ?b"
    using ilog2_bounds(2) [OF assms(1)] powi_mono [of "ilog2 x + 1" "ilog2 y"] lt by linarith
  have k: "?b / 2 powi (ulp_exp x) = of_int (2 ^ nat (ilog2 y - ulp_exp x))"
  proof -
    have "?b / 2 powi (ulp_exp x) = 2 powi (ilog2 y - ulp_exp x)" by (simp add: power_int_diff)
    also have "\<dots> = of_int (2 ^ nat (ilog2 y - ulp_exp x))" using lt uy by (intro powi_int) simp
    finally show ?thesis .
  qed
  have "round_half_even (x / 2 powi (ulp_exp x)) \<le> 2 ^ nat (ilog2 y - ulp_exp x)"
    using round_half_even_mono [OF divide_right_mono [OF \<open>x \<le> ?b\<close>, of "2 powi (ulp_exp x)"]]
    unfolding k round_half_even_of_int by simp
  then have "of_int (round_half_even (x / 2 powi (ulp_exp x))) \<le> ?b / 2 powi (ulp_exp x)"
    unfolding k by (simp only: of_int_le_iff)
  then have x1: "fl x \<le> ?b" using assms by (simp add: fl_def Let_def le_divide_eq)
  have k2: "?b / 2 powi (ulp_exp y) = of_int (2 ^ 52)"
    using uy by (simp add: power_int_diff powi_nonneg)
  have "?b \<le> y" using ilog2_bounds(1) assms by simp
  then have "2 ^ 52 \<le> round_half_even (y / 2 powi (ulp_exp y))"
    using round_half_even_mono [OF divide_right_mono [OF \<open>?b \<le> y\<close>, of "2 powi (ulp_exp y)"]]
    unfolding k2 round_half_even_of_int by simp
  then have "?b / 2 powi (ulp_exp y) \<le> of_int (round_half_even (y / 2 powi (ulp_exp y)))"
    unfolding k2 by (simp only: of_int_le_iff)
  then have "?b \<le> fl y" using assms by (simp add: fl_def Let_def divide_le_eq)
  with x1 show ?thesis by simp
qed

lemma fl_mono: "x \<le> y \<Longrightarrow> fl x \<le> fl y"
proof -
  assume xy: "x \<le> y"
  consider "0 < x" | "x \<le> 0" "0 \<le> y" | "y < 0" by linarith
  then show ?thesis
  proof cases
    case 1
    then show ?thesis using xy by (rule fl_mono_pos)
  next
    case 2
    then show ?thesis using fl_nonneg [of y] fl_nonneg [of "- x"] by simp
  next
    case 3
    then show ?thesis using xy fl_mono_pos [of "- y" "- x"] by simp
  qed
qed

lemma representable_int: "\<bar>n\<bar> \<le> 2 ^ 53 \<Longrightarrow> representable (of_int n)"
  unfolding representable_def by (rule exI [of _ n], rule exI [of _ 0]) simp

lemma fl_int: "\<bar>n\<bar> \<le> 2 ^ 53 \<Longrightarrow> fl (of_int n) = of_int n"
  by (rule fl_representable) (rule representable_int)

lemma representable_half: "representable (1 / 2)"
  unfolding representable_def
  by (rule exI [of _ 1], rule exI [of _ "- 1"]) (simp add: power_int_minus)

lemma fl_half: "fl (1 / 2) = 1 / 2"
  by (rule fl_representable) (rule representable_half)

lemma fl_between: "representable a \<Longrightarrow> representable b \<Longrightarrow> a \<le> x \<Longrightarrow> x \<le> b \<Longrightarrow> a \<le> fl x \<and> fl x \<le> b"
  using fl_mono [of a x] fl_mono [of x b] by (simp add: fl_representable)

text \<open>A representable number of magnitude at least \<open>2 ^ 52\<close> is an integer.\<close>

lemma representable_large_int:
  assumes "representable x" "2 ^ 52 \<le> \<bar>x\<bar>"
  shows "\<exists>k. x = of_int k"
proof -
  from assms(1) have "fl x = x" by (rule fl_representable)
  moreover have "x \<noteq> 0" using assms(2) by auto
  ultimately have x: "x = of_int (round_half_even (x / 2 powi (ulp_exp x))) * 2 powi (ulp_exp x)"
    by (simp add: fl_def Let_def)
  have "ilog2 (2 ^ 52) \<le> ilog2 \<bar>x\<bar>" using assms(2) by (intro ilog2_mono) simp_all
  moreover have "ilog2 (2 ^ 52) = 52" by (rule ilog2_unique) (simp_all add: powi_nonneg)
  ultimately have "0 \<le> ulp_exp x" by (simp add: ulp_exp_def)
  then show ?thesis using x by (metis of_int_mult powi_int)
qed

section \<open>Values and operations\<close>

datatype pyfloat = Fin rat | PInf | NInf | NaN

text \<open>Rounding an exact result: past the largest double it is an infinity.\<close>

definition double_limit :: rat where
  "double_limit = 2 ^ 1024"

definition rnd :: "rat \<Rightarrow> pyfloat" where
  "rnd x = (let y = fl x in
     if double_limit \<le> y then PInf else if y \<le> - double_limit then NInf else Fin y)"

text \<open>The finite doubles.\<close>

definition double :: "rat \<Rightarrow> bool" where
  "double y \<longleftrightarrow> representable y \<and> \<bar>y\<bar> < double_limit"

definition is_double :: "pyfloat \<Rightarrow> bool" where
  "is_double v = (case v of Fin y \<Rightarrow> double y | _ \<Rightarrow> True)"

fun fneg :: "pyfloat \<Rightarrow> pyfloat" where
  "fneg (Fin a) = Fin (- a)"
| "fneg PInf = NInf"
| "fneg NInf = PInf"
| "fneg NaN = NaN"

fun fadd :: "pyfloat \<Rightarrow> pyfloat \<Rightarrow> pyfloat" where
  "fadd (Fin a) (Fin b) = rnd (a + b)"
| "fadd NaN _ = NaN"
| "fadd _ NaN = NaN"
| "fadd PInf NInf = NaN"
| "fadd NInf PInf = NaN"
| "fadd PInf _ = PInf"
| "fadd _ PInf = PInf"
| "fadd NInf _ = NInf"
| "fadd _ NInf = NInf"

definition fsub :: "pyfloat \<Rightarrow> pyfloat \<Rightarrow> pyfloat" where
  "fsub a b = fadd a (fneg b)"

text \<open>An infinity times a finite value, by the sign of the latter.\<close>

definition signed_inf :: "rat \<Rightarrow> pyfloat" where
  "signed_inf a = (if a = 0 then NaN else if 0 < a then PInf else NInf)"

fun fmul :: "pyfloat \<Rightarrow> pyfloat \<Rightarrow> pyfloat" where
  "fmul (Fin a) (Fin b) = rnd (a * b)"
| "fmul NaN _ = NaN"
| "fmul _ NaN = NaN"
| "fmul (Fin a) PInf = signed_inf a"
| "fmul PInf (Fin a) = signed_inf a"
| "fmul (Fin a) NInf = signed_inf (- a)"
| "fmul NInf (Fin a) = signed_inf (- a)"
| "fmul PInf PInf = PInf"
| "fmul NInf NInf = PInf"
| "fmul PInf NInf = NInf"
| "fmul NInf PInf = NInf"

text \<open>Division by a positive finite constant.\<close>

fun fdiv_pos :: "pyfloat \<Rightarrow> rat \<Rightarrow> pyfloat" where
  "fdiv_pos (Fin a) c = rnd (a / c)"
| "fdiv_pos v c = v"

fun fabs :: "pyfloat \<Rightarrow> pyfloat" where
  "fabs (Fin a) = Fin \<bar>a\<bar>"
| "fabs NaN = NaN"
| "fabs _ = PInf"

text \<open>\<open>a < b\<close> and \<open>a <= b\<close>; every comparison with NaN is false.\<close>

fun flt :: "pyfloat \<Rightarrow> pyfloat \<Rightarrow> bool" where
  "flt (Fin a) (Fin b) = (a < b)"
| "flt NInf (Fin b) = True"
| "flt NInf PInf = True"
| "flt (Fin a) PInf = True"
| "flt _ _ = False"

fun fle :: "pyfloat \<Rightarrow> pyfloat \<Rightarrow> bool" where
  "fle NaN _ = False"
| "fle _ NaN = False"
| "fle a b = (\<not> flt b a)"

fun feq :: "pyfloat \<Rightarrow> pyfloat \<Rightarrow> bool" where
  "feq NaN _ = False"
| "feq _ NaN = False"
| "feq a b = (a = b)"

text \<open>\<open>float(n)\<close> of an integer: \<open>None\<close> is Python's OverflowError.\<close>

definition float_of_int :: "int \<Rightarrow> pyfloat option" where
  "float_of_int n = (case rnd (of_int n) of Fin y \<Rightarrow> Some (Fin y) | _ \<Rightarrow> None)"

text \<open>\<open>round(x)\<close>: \<open>None\<close> is the OverflowError or ValueError of an infinity or NaN.\<close>

fun py_round :: "pyfloat \<Rightarrow> int option" where
  "py_round (Fin a) = Some (round_half_even a)"
| "py_round _ = None"

subsection \<open>Facts\<close>

lemma double_limit_gt: "(2::rat) ^ 53 < double_limit" "1 / 2 < double_limit"
  by (simp_all add: double_limit_def)

lemma rnd_Fin_iff: "rnd x = Fin y \<longleftrightarrow> y = fl x \<and> \<bar>fl x\<bar> < double_limit"
  by (auto simp: rnd_def Let_def abs_less_iff)

lemma rnd_double: "double y \<Longrightarrow> rnd y = Fin y"
  by (simp add: rnd_Fin_iff double_def fl_representable)

lemma double_fl: "\<bar>fl x\<bar> < double_limit \<Longrightarrow> double (fl x)"
  by (simp add: double_def representable_fl)

lemma rnd_is_double: "is_double (rnd x)"
  by (auto simp: is_double_def rnd_Fin_iff double_fl split: pyfloat.split)

lemma double_int: "\<bar>n\<bar> \<le> 2 ^ 53 \<Longrightarrow> double (of_int n)"
proof -
  assume n: "\<bar>n\<bar> \<le> 2 ^ 53"
  then have "\<bar>of_int n :: rat\<bar> \<le> of_int (2 ^ 53)" by (simp only: of_int_abs [symmetric] of_int_le_iff)
  also have "\<dots> < double_limit" using double_limit_gt by simp
  finally show ?thesis using n by (simp add: double_def representable_int)
qed

lemma rnd_int: "\<bar>n\<bar> \<le> 2 ^ 53 \<Longrightarrow> rnd (of_int n) = Fin (of_int n)"
  by (rule rnd_double) (rule double_int)

lemma float_of_int_small: "\<bar>n\<bar> \<le> 2 ^ 53 \<Longrightarrow> float_of_int n = Some (Fin (of_int n))"
  by (simp add: float_of_int_def rnd_int)

lemma float_of_int_Some: "float_of_int n = Some v \<longleftrightarrow> v = Fin (fl (of_int n)) \<and> \<bar>fl (of_int n)\<bar> < double_limit"
proof (cases "\<bar>fl (of_int n)\<bar> < double_limit")
  case True
  then have "rnd (of_int n) = Fin (fl (of_int n))" by (simp add: rnd_Fin_iff)
  with True show ?thesis by (auto simp: float_of_int_def)
next
  case False
  then have "\<forall>y. rnd (of_int n) \<noteq> Fin y" by (simp add: rnd_Fin_iff)
  then show ?thesis using False by (cases "rnd (of_int n)") (auto simp: float_of_int_def)
qed

lemma float_of_int_double: "float_of_int n = Some v \<Longrightarrow> is_double v"
  by (auto simp: float_of_int_Some is_double_def double_fl)

lemma fadd_double: "is_double a \<Longrightarrow> is_double b \<Longrightarrow> is_double (fadd a b)"
  by (cases "(a, b)" rule: fadd.cases) (auto simp: rnd_is_double [unfolded is_double_def] is_double_def)

lemma fneg_double: "is_double a \<Longrightarrow> is_double (fneg a)"
proof (cases a)
  case (Fin y)
  assume "is_double a"
  with Fin obtain m e where "y = of_int m * 2 powi e" "\<bar>m\<bar> \<le> 2 ^ 53" "- 1074 \<le> e" "\<bar>y\<bar> < double_limit"
    by (auto simp: is_double_def double_def representable_def)
  then have "representable (- y)" unfolding representable_def
    by (intro exI [of _ "- m"] exI [of _ e]) simp
  with Fin \<open>\<bar>y\<bar> < _\<close> show ?thesis by (simp add: is_double_def double_def)
qed (simp_all add: is_double_def)

lemma fsub_double: "is_double a \<Longrightarrow> is_double b \<Longrightarrow> is_double (fsub a b)"
  by (simp add: fsub_def fadd_double fneg_double)

lemma signed_inf_double [simp]: "is_double (signed_inf a)"
  by (simp add: signed_inf_def is_double_def)

lemma fmul_double: "is_double (fmul a b)"
  by (cases "(a, b)" rule: fmul.cases) (auto simp: rnd_is_double is_double_def [of PInf]
      is_double_def [of NInf] is_double_def [of NaN])

lemma fdiv_pos_double: "is_double a \<Longrightarrow> is_double (fdiv_pos a c)"
  by (cases a) (auto simp: rnd_is_double)

text \<open>
  The fact behind recomputation: rounding a double to an integer, converting that back to a
  double and subtracting leaves a difference of at most one half.
\<close>

lemma round_back:
  assumes x: "double x" and r: "float_of_int (round_half_even x) = Some v"
  shows "\<exists>d. fsub v (Fin x) = Fin d \<and> \<bar>d\<bar> \<le> 1 / 2"
proof -
  let ?r = "round_half_even x"
  have rep: "representable x" using x by (simp add: double_def)
  have "fl (of_int ?r) = of_int ?r \<and> \<bar>of_int ?r - x\<bar> \<le> 1 / 2"
  proof (cases "2 ^ 52 \<le> \<bar>x\<bar>")
    case True
    then obtain k where "x = of_int k" using representable_large_int [OF rep] by blast
    with rep show ?thesis by (simp add: fl_representable)
  next
    case False
    have "\<bar>of_int ?r :: rat\<bar> \<le> of_int (2 ^ 53)"
      using False round_half_even_error [of x] unfolding abs_le_iff not_le abs_less_iff by simp
    then have "\<bar>?r\<bar> \<le> 2 ^ 53" by (simp only: of_int_abs [symmetric] of_int_le_iff)
    then show ?thesis using round_half_even_error by (simp add: fl_int)
  qed
  then have v: "v = Fin (of_int ?r)" and err: "\<bar>of_int ?r - x\<bar> \<le> 1 / 2"
    using r by (auto simp: float_of_int_Some)
  have half: "representable (1 / 2)" "representable (- (1 / 2))"
    using representable_half representable_fl [of "- (1 / 2)"] by (simp_all add: fl_half)
  have d: "\<bar>fl (of_int ?r - x)\<bar> \<le> 1 / 2"
    using fl_between [OF half(2,1), of "of_int ?r - x"] err unfolding abs_le_iff by linarith
  also have "(1 / 2 :: rat) < double_limit" by (rule double_limit_gt)
  finally have "rnd (of_int ?r - x) = Fin (fl (of_int ?r - x))" by (simp add: rnd_Fin_iff)
  with d show ?thesis by (simp add: v fsub_def)
qed

end
