(* ===== verification/PyInt.thy ===== *)
theory PyInt
  imports Prelude
begin

text \<open>
  Integers as text: Python's \<open>int(text, base)\<close> and the padded formats \<open>{n:0wd}\<close> and
  \<open>{n:0wX}\<close>. The two rendered formats are instances of one positional format, whose
  laws are proved once in the locale \<open>numeral_format\<close>.
\<close>

section \<open>Positional digits\<close>

function digits_of :: "nat \<Rightarrow> nat \<Rightarrow> nat list" where
  "digits_of b n = (if b < 2 \<or> n < b then [n] else digits_of b (n div b) @ [n mod b])"
  by pat_completeness auto
termination
  by (relation "measure (\<lambda>(b, n). n)") auto

declare digits_of.simps [simp del]

definition digits_value :: "nat \<Rightarrow> nat list \<Rightarrow> nat" where
  "digits_value b ds = foldl (\<lambda>a d. a * b + d) 0 ds"

lemma digits_value_snoc [simp]: "digits_value b (ds @ [d]) = digits_value b ds * b + d"
  by (simp add: digits_value_def)

lemma digits_value_Nil [simp]: "digits_value b [] = 0"
  by (simp add: digits_value_def)

lemma digits_value_append:
  "digits_value b (xs @ ys) = digits_value b xs * b ^ length ys + digits_value b ys"
proof (induction ys rule: rev_induct)
  case Nil
  then show ?case by simp
next
  case (snoc y ys)
  have "digits_value b (xs @ ys @ [y]) = digits_value b (xs @ ys) * b + y"
    by (simp flip: append_assoc)
  with snoc show ?case by (simp add: algebra_simps)
qed

lemma digits_value_zeros [simp]: "digits_value b (replicate k 0) = 0"
  by (induction k) (simp_all add: digits_value_def)

lemma digits_value_digits_of [simp]: "digits_value b (digits_of b n) = n"
proof (induction b n rule: digits_of.induct)
  case (1 b n)
  show ?case
  proof (cases "b < 2 \<or> n < b")
    case True
    then show ?thesis by (subst digits_of.simps) (simp add: digits_value_def)
  next
    case False
    with "1.IH" show ?thesis by (subst digits_of.simps) simp
  qed
qed

lemma digits_of_lt: "2 \<le> b \<Longrightarrow> \<forall>d \<in> set (digits_of b n). d < b"
proof (induction b n rule: digits_of.induct)
  case (1 b n)
  show ?case
  proof (cases "n < b")
    case True
    then show ?thesis by (subst digits_of.simps) simp
  next
    case False
    with 1 have "\<forall>d \<in> set (digits_of b (n div b)). d < b" by simp
    with False "1.prems" show ?thesis by (subst digits_of.simps) auto
  qed
qed

lemma digits_of_nonempty [simp]: "digits_of b n \<noteq> []"
  by (subst digits_of.simps) simp

lemma length_digits_of: "2 \<le> b \<Longrightarrow> n < b ^ k \<Longrightarrow> 0 < k \<Longrightarrow> length (digits_of b n) \<le> k"
proof (induction b n arbitrary: k rule: digits_of.induct)
  case (1 b n)
  show ?case
  proof (cases "n < b")
    case True
    with "1.prems" show ?thesis by (subst digits_of.simps) simp
  next
    case False
    from "1.prems" False have "1 < k"
      by (cases "k = 1") auto
    then obtain j where k: "k = Suc j" "0 < j" by (cases k) auto
    with "1.prems" have "n div b < b ^ j"
      by (simp add: less_mult_imp_div_less mult.commute)
    with 1 False k have "length (digits_of b (n div b)) \<le> j" by simp
    with False k "1.prems" show ?thesis by (subst digits_of.simps) simp
  qed
qed

text \<open>\<open>{n:0w...}\<close>: at least \<open>w\<close> digits, zeros in front.\<close>

definition render :: "nat \<Rightarrow> (nat \<Rightarrow> nat) \<Rightarrow> nat \<Rightarrow> nat \<Rightarrow> pystr" where
  "render b enc w n =
     (let ds = digits_of b n in map enc (replicate (w - length ds) 0 @ ds))"

lemma length_render: "2 \<le> b \<Longrightarrow> n < b ^ w \<Longrightarrow> 0 < w \<Longrightarrow> length (render b enc w n) = w"
  using length_digits_of [of b n w] by (simp add: render_def Let_def)

lemma render_nonempty [simp]: "render b enc w n \<noteq> []"
  by (simp add: render_def Let_def)

text \<open>Reading digit characters: \<open>None\<close> if one of them is not a digit of the base.\<close>

definition read_digits :: "nat \<Rightarrow> (nat \<Rightarrow> nat option) \<Rightarrow> pystr \<Rightarrow> nat option" where
  "read_digits b dec s = map_option (digits_value b) (those (map dec s))"

lemma those_map_enc:
  "\<forall>d \<in> set ds. dec (enc d) = Some d \<Longrightarrow> those (map dec (map enc ds)) = Some ds"
  by (induction ds) auto

locale numeral_format =
  fixes base :: nat and enc :: "nat \<Rightarrow> nat" and dec :: "nat \<Rightarrow> nat option"
  assumes base_ge_2: "2 \<le> base"
    and dec_enc: "d < base \<Longrightarrow> dec (enc d) = Some d"
begin

lemma read_render: "read_digits base dec (render base enc w n) = Some n"
proof -
  let ?ds = "replicate (w - length (digits_of base n)) 0 @ digits_of base n"
  have "\<forall>d \<in> set ?ds. d < base"
    using digits_of_lt [OF base_ge_2, of n] base_ge_2 by auto
  then have "those (map dec (map enc ?ds)) = Some ?ds"
    by (intro those_map_enc) (auto simp: dec_enc)
  moreover have "digits_value base ?ds = n"
    by (simp add: digits_value_append)
  ultimately show ?thesis
    by (simp add: read_digits_def render_def Let_def del: map_append)
qed

lemma render_inj: "render base enc w m = render base enc w n \<longleftrightarrow> m = n"
  by (metis option.inject read_render)

lemma render_chars: "c \<in> set (render base enc w n) \<Longrightarrow> \<exists>d < base. c = enc d"
proof -
  assume "c \<in> set (render base enc w n)"
  then obtain d where "d = 0 \<or> d \<in> set (digits_of base n)" "c = enc d"
    by (auto simp: render_def Let_def split: if_splits)
  moreover have "\<forall>d \<in> set (digits_of base n). d < base"
    by (rule digits_of_lt [OF base_ge_2])
  ultimately have "d < base" using base_ge_2 by auto
  with \<open>c = enc d\<close> show ?thesis by blast
qed

lemma render_length: "n < base ^ w \<Longrightarrow> 0 < w \<Longrightarrow> length (render base enc w n) = w"
  using length_render base_ge_2 by blast

end

section \<open>Decimal and hexadecimal\<close>

definition dec_char :: "nat \<Rightarrow> nat" where
  "dec_char d = 48 + d"

definition hex_char :: "nat \<Rightarrow> nat" where
  "hex_char d = (if d < 10 then 48 + d else 55 + d)"

definition alnum_value :: "nat \<Rightarrow> nat option" where
  "alnum_value c =
     (if ascii_digit c then Some (c - 48)
      else if ascii_upper_letter c then Some (c - 55)
      else if ascii_lower_letter c then Some (c - 87)
      else None)"

definition base_digit :: "nat \<Rightarrow> nat \<Rightarrow> nat option" where
  "base_digit b c = (case alnum_value c of Some d \<Rightarrow> if d < b then Some d else None | None \<Rightarrow> None)"

definition fmt_dec :: "nat \<Rightarrow> nat \<Rightarrow> pystr" where
  "fmt_dec w n = render 10 dec_char w n"

definition fmt_hex :: "nat \<Rightarrow> nat \<Rightarrow> pystr" where
  "fmt_hex w n = render 16 hex_char w n"

interpretation decimal: numeral_format 10 dec_char "base_digit 10"
  by unfold_locales (auto simp: base_digit_def alnum_value_def dec_char_def ascii_defs)

interpretation hexadecimal: numeral_format 16 hex_char "base_digit 16"
  by unfold_locales (auto simp: base_digit_def alnum_value_def hex_char_def ascii_defs)

lemma hex_char_upper: "d < 16 \<Longrightarrow> ascii_digit (hex_char d) \<or> ascii_upper_letter (hex_char d)"
  by (auto simp: hex_char_def ascii_defs)

lemma fmt_hex_alnum:
  "c \<in> set (fmt_hex w n) \<Longrightarrow> ascii_digit c \<or> ascii_upper_letter c"
  unfolding fmt_hex_def using hexadecimal.render_chars hex_char_upper by blast

lemma fmt_hex_le_F: "c \<in> set (fmt_hex w n) \<Longrightarrow> c \<le> 70"
  unfolding fmt_hex_def using hexadecimal.render_chars by (fastforce simp: hex_char_def)

lemma fmt_dec_digits: "c \<in> set (fmt_dec w n) \<Longrightarrow> ascii_digit c"
  unfolding fmt_dec_def using decimal.render_chars by (fastforce simp: dec_char_def ascii_defs)

text \<open>Evaluation of the formats on numerals.\<close>

lemma replicate_numeral: "replicate (numeral k) x = x # replicate (pred_numeral k) x"
  by (simp add: numeral_eq_Suc)

lemmas fmt_eval = fmt_hex_def fmt_dec_def render_def digits_of.simps hex_char_def dec_char_def
  replicate_numeral lit_def

section \<open>\<open>int(text, base)\<close>\<close>

text \<open>
  CPython first rewrites the characters beyond ASCII (a space character becomes a blank, a
  decimal digit its ASCII digit, anything else a question mark), trims the C-locale white
  space, and then reads a sign, for base 16 an optional \<open>0x\<close>, and digits with single
  underscores between them. A decimal text of more than 4300 digits is refused.
\<close>

definition to_ascii_digit :: "nat \<Rightarrow> nat" where
  "to_ascii_digit c =
     (if c < 128 then c
      else if is_space c then 32
      else case decimal_value c of Some d \<Rightarrow> 48 + d | None \<Rightarrow> 63)"

definition c_space :: "nat \<Rightarrow> bool" where
  "c_space c = (c = 32 \<or> (9 \<le> c \<and> c \<le> 13))"

definition c_trim :: "pystr \<Rightarrow> pystr" where
  "c_trim s = rev (dropWhile c_space (rev (dropWhile c_space s)))"

fun take_sign :: "pystr \<Rightarrow> bool \<times> pystr" where
  "take_sign (c # s) = (if c = 45 then (True, s) else if c = 43 then (False, s) else (False, c # s))"
| "take_sign [] = (False, [])"

text \<open>After the prefix one underscore is allowed.\<close>

fun take_prefix :: "nat \<Rightarrow> pystr \<Rightarrow> pystr" where
  "take_prefix b (z # x # s) =
     (if b = 16 \<and> z = 48 \<and> (x = 120 \<or> x = 88)
      then (case s of u # t \<Rightarrow> if u = 95 then t else s | [] \<Rightarrow> s)
      else z # x # s)"
| "take_prefix b s = s"

text \<open>Digits with single underscores between them; the digit values, first one first.\<close>

fun read_body :: "nat \<Rightarrow> pystr \<Rightarrow> nat list option" where
  "read_body b [] = None"
| "read_body b [c] = map_option (\<lambda>d. [d]) (base_digit b c)"
| "read_body b (c # c' # s) =
     (case base_digit b c of
        None \<Rightarrow> None
      | Some d \<Rightarrow> map_option (\<lambda>ds. d # ds) (if c' = 95 then read_body b s else read_body b (c' # s)))"

definition max_int_digits :: nat where
  "max_int_digits = 4300"

definition py_int :: "nat \<Rightarrow> pystr \<Rightarrow> int option" where
  "py_int b s =
     (let (neg, t) = take_sign (c_trim (map to_ascii_digit s)) in
      case read_body b (take_prefix b t) of
        None \<Rightarrow> None
      | Some ds \<Rightarrow>
          if b = 10 \<and> max_int_digits < length ds then None
          else Some (if neg then - int (digits_value b ds) else int (digits_value b ds)))"

lemma read_body_digits:
  "s \<noteq> [] \<Longrightarrow> those (map (base_digit b) s) = Some ds \<Longrightarrow> 95 \<notin> set s \<Longrightarrow> read_body b s = Some ds"
  by (induction b s arbitrary: ds rule: read_body.induct) (auto split: option.splits)

lemma c_trim_id: "\<forall>c \<in> set s. \<not> c_space c \<Longrightarrow> c_trim s = s"
proof -
  assume h: "\<forall>c \<in> set s. \<not> c_space c"
  then have "dropWhile c_space s = s" by (cases s) auto
  moreover from h have "dropWhile c_space (rev s) = rev s" by (cases "rev s") (auto simp: set_rev)
  ultimately show ?thesis by (simp add: c_trim_def)
qed

text \<open>A text of plain digits of the base, with no \<open>0x\<close> in front, is read as its value.\<close>

lemma py_int_plain:
  assumes ne: "s \<noteq> []" and ok: "\<forall>c \<in> set s. ascii_alnum c"
    and nox: "\<not> (b = 16 \<and> (\<exists>x t. s = 48 # x # t \<and> (x = 120 \<or> x = 88)))"
    and small: "length s \<le> max_int_digits"
    and rd: "read_digits b (base_digit b) s = Some n"
  shows "py_int b s = Some (int n)"
proof -
  from rd obtain ds where ds: "those (map (base_digit b) s) = Some ds" and n: "digits_value b ds = n"
    by (auto simp: read_digits_def)
  from ok have m: "map to_ascii_digit s = s"
    by (intro map_idI) (auto simp: to_ascii_digit_def ascii_defs)
  from ok have t: "c_trim s = s"
    by (intro c_trim_id) (auto simp: c_space_def ascii_defs)
  from ok ne have sg: "take_sign s = (False, s)"
    by (cases s) (auto simp: ascii_defs)
  from nox have p: "take_prefix b s = s"
    by (cases "(b, s)" rule: take_prefix.cases) auto
  from ok have "95 \<notin> set s" by (auto simp: ascii_defs)
  with ne ds have rb: "read_body b s = Some ds" by (rule read_body_digits)
  have "length ds = length s" using ds by (induction s arbitrary: ds) (auto split: option.splits)
  with small show ?thesis
    by (simp add: py_int_def m t sg p rb n)
qed

lemma py_int_fmt_hex:
  assumes "length (fmt_hex w n) \<le> max_int_digits"
  shows "py_int 16 (fmt_hex w n) = Some (int n)"
proof (rule py_int_plain)
  show "fmt_hex w n \<noteq> []" by (simp add: fmt_hex_def)
  show "\<forall>c \<in> set (fmt_hex w n). ascii_alnum c"
    using fmt_hex_alnum by (auto simp: ascii_alnum_def)
  show "\<not> (16 = (16::nat) \<and> (\<exists>x t. fmt_hex w n = 48 # x # t \<and> (x = 120 \<or> x = 88)))"
  proof
    assume "16 = (16::nat) \<and> (\<exists>x t. fmt_hex w n = 48 # x # t \<and> (x = 120 \<or> x = 88))"
    then obtain x t where f: "fmt_hex w n = 48 # x # t" and x: "x = 120 \<or> x = 88" by blast
    from f have "x \<in> set (fmt_hex w n)" by simp
    then have "x \<le> 70" by (rule fmt_hex_le_F)
    with x show False by auto
  qed
  show "read_digits 16 (base_digit 16) (fmt_hex w n) = Some n"
    unfolding fmt_hex_def by (rule hexadecimal.read_render)
qed (rule assms)

lemma py_int_fmt_dec:
  assumes "length (fmt_dec w n) \<le> max_int_digits"
  shows "py_int 10 (fmt_dec w n) = Some (int n)"
proof (rule py_int_plain)
  show "fmt_dec w n \<noteq> []" by (simp add: fmt_dec_def)
  show "\<forall>c \<in> set (fmt_dec w n). ascii_alnum c"
    using fmt_dec_digits by (auto simp: ascii_alnum_def)
  show "read_digits 10 (base_digit 10) (fmt_dec w n) = Some n"
    unfolding fmt_dec_def by (rule decimal.read_render)
  show "\<not> (10 = (16::nat) \<and> (\<exists>x t. fmt_dec w n = 48 # x # t \<and> (x = 120 \<or> x = 88)))"
    by simp
qed (rule assms)

end
