(* ===== verification/Json.thy ===== *)
theory Json
  imports Errors PyFloat PyInt
begin

text \<open>
  JSON values as Python holds them and \<open>crypto/canonical.py\<close>, the bytes that get signed.

  A \<open>dict\<close> is an association list in insertion order. \<open>json.dumps\<close> with compact
  separators and \<open>ensure_ascii=False\<close> is written out, except for the shortest decimal text of
  a float, which is the parameter \<open>float_text\<close>. Bytes are natural numbers below 256.

  Theorems: what is signed holds no null member and no number outside JSON, and the only error is
  \<open>CryptographyError\<close>, raised exactly for a non-finite float or a lone surrogate.
\<close>

section \<open>Values\<close>

datatype json =
    JNull
  | JBool bool
  | JInt int
  | JFloat pyfloat
  | JStr pystr
  | JList "json list"
  | JObj "(pystr \<times> json) list"

text \<open>\<open>d.get(key)\<close>, also on a value that is no dict.\<close>

fun jget :: "pystr \<Rightarrow> json \<Rightarrow> json option" where
  "jget key (JObj kvs) = map_of kvs key"
| "jget key _ = None"

section \<open>Dropping nulls\<close>

fun strip_nulls :: "json \<Rightarrow> json" where
  "strip_nulls (JObj kvs) =
     JObj (map (\<lambda>(k, v). (k, strip_nulls v)) (filter (\<lambda>(k, v). v \<noteq> JNull) kvs))"
| "strip_nulls (JList vs) = JList (map strip_nulls vs)"
| "strip_nulls v = v"

text \<open>No member of a dict is null, at any depth.\<close>

fun null_free :: "json \<Rightarrow> bool" where
  "null_free (JObj kvs) = list_all (\<lambda>(k, v). v \<noteq> JNull \<and> null_free v) kvs"
| "null_free (JList vs) = list_all null_free vs"
| "null_free v = True"

section \<open>Writing\<close>

definition hex_lower :: "nat \<Rightarrow> nat" where
  "hex_lower d = (if d < 10 then 48 + d else 87 + d)"

text \<open>A character inside a JSON string: \<open>ESCAPE\<close> of the standard encoder.\<close>

definition escape_char :: "nat \<Rightarrow> pystr" where
  "escape_char c =
     (if c = 34 then [92, 34]
      else if c = 92 then [92, 92]
      else if c = 10 then [92, 110]
      else if c = 13 then [92, 114]
      else if c = 9 then [92, 116]
      else if c = 12 then [92, 102]
      else if c = 8 then [92, 98]
      else if c < 32 then [92, 117, 48, 48, hex_lower (c div 16), hex_lower (c mod 16)]
      else [c])"

definition json_string :: "pystr \<Rightarrow> pystr" where
  "json_string s = 34 # concat (map escape_char s) @ [34]"

fun int_text :: "int \<Rightarrow> pystr" where
  "int_text n = (if n < 0 then 45 # fmt_dec 0 (nat (- n)) else fmt_dec 0 (nat n))"

fun joined :: "nat \<Rightarrow> pystr list \<Rightarrow> pystr" where
  "joined sep [] = []"
| "joined sep [x] = x"
| "joined sep (x # y # ys) = x @ sep # joined sep (y # ys)"

text \<open>\<open>json.dumps(..., allow_nan=False)\<close>: \<open>None\<close> is its \<open>ValueError\<close>.\<close>

fun dumps :: "(rat \<Rightarrow> pystr) \<Rightarrow> json \<Rightarrow> pystr option" where
  "dumps ft JNull = Some (lit ''null'')"
| "dumps ft (JBool b) = Some (if b then lit ''true'' else lit ''false'')"
| "dumps ft (JInt n) = Some (int_text n)"
| "dumps ft (JFloat (Fin x)) = Some (ft x)"
| "dumps ft (JFloat _) = None"
| "dumps ft (JStr s) = Some (json_string s)"
| "dumps ft (JList vs) =
     (case those (map (dumps ft) vs) of
        None \<Rightarrow> None
      | Some ts \<Rightarrow> Some (91 # joined 44 ts @ [93]))"
| "dumps ft (JObj kvs) =
     (case those (map (\<lambda>(k, v). map_option (\<lambda>t. json_string k @ 58 # t) (dumps ft v)) kvs) of
        None \<Rightarrow> None
      | Some ts \<Rightarrow> Some (123 # joined 44 ts @ [125]))"

text \<open>\<open>.encode("utf-8")\<close>: a lone surrogate is a \<open>UnicodeEncodeError\<close>, a \<open>ValueError\<close>.\<close>

definition utf8_char :: "nat \<Rightarrow> nat list option" where
  "utf8_char c =
     (if c < 0x80 then Some [c]
      else if c < 0x800 then Some [0xC0 + c div 64, 0x80 + c mod 64]
      else if 0xD800 \<le> c \<and> c < 0xE000 then None
      else if c < 0x10000 then Some [0xE0 + c div 4096, 0x80 + c div 64 mod 64, 0x80 + c mod 64]
      else Some [0xF0 + c div 262144, 0x80 + c div 4096 mod 64, 0x80 + c div 64 mod 64, 0x80 + c mod 64])"

definition utf8 :: "pystr \<Rightarrow> nat list option" where
  "utf8 s = map_option concat (those (map utf8_char s))"

definition canonical_json :: "(rat \<Rightarrow> pystr) \<Rightarrow> json \<Rightarrow> nat list result" where
  "canonical_json ft obj =
     (case dumps ft (strip_nulls obj) of
        None \<Rightarrow> Inl CryptographyError
      | Some t \<Rightarrow> (case utf8 t of None \<Rightarrow> Inl CryptographyError | Some bytes \<Rightarrow> Inr bytes))"

section \<open>Facts\<close>

lemma strip_nulls_eq_JNull [simp]: "strip_nulls v = JNull \<longleftrightarrow> v = JNull"
  by (cases v) auto

lemma null_free_strip_nulls: "null_free (strip_nulls v)"
proof (induction v rule: strip_nulls.induct)
  case (1 kvs)
  show ?case using 1 by (auto simp: list_all_iff)
next
  case (2 vs)
  then show ?case by (auto simp: list_all_iff)
qed simp_all

lemma strip_nulls_id: "null_free v \<Longrightarrow> strip_nulls v = v"
proof (induction v rule: strip_nulls.induct)
  case (1 kvs)
  then have "filter (\<lambda>(k, v). v \<noteq> JNull) kvs = kvs"
    by (auto simp: list_all_iff filter_id_conv)
  with 1 show ?case by (auto simp: list_all_iff intro!: map_idI)
next
  case (2 vs)
  then show ?case by (auto simp: list_all_iff intro: map_idI)
qed simp_all

lemma those_eq_None: "those xs = None \<longleftrightarrow> None \<in> set xs"
  by (induction xs) (auto split: option.splits)

text \<open>The floats of a value, and the characters of its strings and keys.\<close>

fun json_floats :: "json \<Rightarrow> pyfloat list" where
  "json_floats (JFloat x) = [x]"
| "json_floats (JList vs) = concat (map json_floats vs)"
| "json_floats (JObj kvs) = concat (map (\<lambda>(k, v). json_floats v) kvs)"
| "json_floats _ = []"

definition finite_float :: "pyfloat \<Rightarrow> bool" where
  "finite_float x = (case x of Fin _ \<Rightarrow> True | _ \<Rightarrow> False)"

lemma dumps_JList_None: "dumps ft (JList vs) = None \<longleftrightarrow> (\<exists>v \<in> set vs. dumps ft v = None)"
proof -
  have "dumps ft (JList vs) = None \<longleftrightarrow> None \<in> set (map (dumps ft) vs)"
    unfolding those_eq_None [symmetric] by (auto split: option.split)
  then show ?thesis by force
qed

lemma dumps_JObj_None: "dumps ft (JObj kvs) = None \<longleftrightarrow> (\<exists>(k, v) \<in> set kvs. dumps ft v = None)"
proof -
  let ?f = "\<lambda>(k, v). map_option (\<lambda>t. json_string k @ 58 # t) (dumps ft v)"
  have "dumps ft (JObj kvs) = None \<longleftrightarrow> None \<in> set (map ?f kvs)"
    unfolding those_eq_None [symmetric] by (auto split: option.split)
  then show ?thesis by force
qed

lemma dumps_eq_None: "dumps ft v = None \<longleftrightarrow> \<not> list_all finite_float (json_floats v)"
proof (induction v)
  case (JFloat x)
  then show ?case by (cases x) (simp_all add: finite_float_def)
next
  case (JList vs)
  then show ?case unfolding dumps_JList_None by (fastforce simp: list_all_iff)
next
  case (JObj kvs)
  then have "(\<exists>(k, v) \<in> set kvs. dumps ft v = None) \<longleftrightarrow>
      (\<exists>(k, v) \<in> set kvs. \<not> list_all finite_float (json_floats v))"
    by (intro bex_cong) (auto simp: snds.simps)
  then show ?case unfolding dumps_JObj_None by (fastforce simp: list_all_iff)
qed simp_all

definition surrogate :: "nat \<Rightarrow> bool" where
  "surrogate c = (0xD800 \<le> c \<and> c < 0xE000)"

lemma utf8_eq_None: "utf8 s = None \<longleftrightarrow> (\<exists>c \<in> set s. surrogate c)"
  by (force simp: utf8_def those_eq_None utf8_char_def surrogate_def split: if_splits)

definition byte_list :: "nat list \<Rightarrow> bool" where
  "byte_list bs = list_all (\<lambda>b. b < 256) bs"

lemma utf8_ascii:
  assumes "\<forall>c \<in> set s. c < 128"
  shows "utf8 s = Some s"
proof -
  have "those (map utf8_char s) = Some (map (\<lambda>c. [c]) s)"
    using assms by (induction s) (simp_all add: utf8_char_def)
  moreover have "concat (map (\<lambda>c. [c]) s) = s" by (induction s) simp_all
  ultimately show ?thesis by (simp add: utf8_def)
qed

lemma utf8_char_bytes: "utf8_char c = Some u \<Longrightarrow> c < 0x110000 \<Longrightarrow> byte_list u"
proof -
  assume u: "utf8_char c = Some u" "c < 0x110000"
  have "c < 0x800 \<Longrightarrow> c div 64 < 32" "c < 0x10000 \<Longrightarrow> c div 4096 < 16" "c div 262144 < 5" using u(2) by auto
  moreover have "a mod 64 < 64" for a :: nat by simp
  ultimately show ?thesis using u by (auto simp: utf8_char_def byte_list_def split: if_splits)
qed

lemma utf8_bytes:
  "utf8 s = Some bs \<Longrightarrow> \<forall>c \<in> set s. c < 0x110000 \<Longrightarrow> byte_list bs"
proof (induction s arbitrary: bs)
  case (Cons c s)
  then obtain u us where u: "utf8_char c = Some u" "those (map utf8_char s) = Some us" "bs = u @ concat us"
    by (auto simp: utf8_def split: option.splits)
  then have "utf8 s = Some (concat us)" by (simp add: utf8_def)
  with Cons have "byte_list (concat us)" by simp
  moreover have "byte_list u" using utf8_char_bytes u(1) Cons.prems(2) by simp
  ultimately show ?case by (simp add: u(3) byte_list_def)
qed (simp add: utf8_def byte_list_def)

text \<open>
  \<open>canonical_json\<close> fails with nothing but \<open>CryptographyError\<close>, and exactly when a float
  that would be written is infinite or not a number, or the text holds a lone surrogate: bytes
  that are no valid JSON are never signed.
\<close>

theorem canonical_json_error:
  "canonical_json ft obj = Inl e \<longleftrightarrow>
     e = CryptographyError \<and>
     (list_ex (\<lambda>x. \<not> finite_float x) (json_floats (strip_nulls obj)) \<or>
      (\<exists>t. dumps ft (strip_nulls obj) = Some t \<and> (\<exists>c \<in> set t. surrogate c)))"
  using dumps_eq_None [of ft "strip_nulls obj"]
  by (auto simp: canonical_json_def utf8_eq_None [symmetric] list_all_iff list_ex_iff split: option.splits)

text \<open>The characters of the texts and keys of a value; nothing else but ASCII is written.\<close>

fun json_chars :: "json \<Rightarrow> nat set" where
  "json_chars (JStr s) = set s"
| "json_chars (JList vs) = (\<Union>v \<in> set vs. json_chars v)"
| "json_chars (JObj kvs) = (\<Union>(k, v) \<in> set kvs. set k \<union> json_chars v)"
| "json_chars _ = {}"

lemma those_Some_set: "those xs = Some ys \<Longrightarrow> y \<in> set ys \<Longrightarrow> Some y \<in> set xs"
  by (induction xs arbitrary: ys) (auto split: option.splits)

lemma set_joined: "c \<in> set (joined sep ts) \<Longrightarrow> c = sep \<or> (\<exists>t \<in> set ts. c \<in> set t)"
  by (induction sep ts rule: joined.induct) auto

lemma hex_lower_lt: "d < 16 \<Longrightarrow> hex_lower d < 127"
  by (simp add: hex_lower_def)

lemma escape_char_chars: "c \<in> set (escape_char d) \<Longrightarrow> c < 127 \<or> c = d"
proof (cases "d < 32")
  case True
  then have "hex_lower (d div 16) < 127" "hex_lower (d mod 16) < 127" by (simp_all add: hex_lower_lt)
  moreover assume "c \<in> set (escape_char d)"
  ultimately show ?thesis unfolding escape_char_def by (auto split: if_splits)
next
  case False
  moreover assume "c \<in> set (escape_char d)"
  ultimately show ?thesis unfolding escape_char_def by (auto split: if_splits)
qed

lemma set_json_string: "c \<in> set (json_string s) \<Longrightarrow> c < 127 \<or> c \<in> set s"
  using escape_char_chars by (fastforce simp: json_string_def)

lemma set_int_text: "c \<in> set (int_text n) \<Longrightarrow> c < 127"
  by (auto simp: ascii_digit_def dest!: fmt_dec_digits split: if_splits)

lemma dumps_chars:
  "dumps ft v = Some t \<Longrightarrow> c \<in> set t \<Longrightarrow> c < 127 \<or> c \<in> json_chars v \<or> (\<exists>x. c \<in> set (ft x))"
proof (induction v arbitrary: t)
  case (JFloat x)
  then show ?case by (cases x) auto
next
  case (JInt n)
  then show ?case using set_int_text [of c n] by simp
next
  case (JStr s)
  then show ?case using set_json_string by auto
next
  case (JList vs)
  then obtain ts where ts: "those (map (dumps ft) vs) = Some ts" "t = 91 # joined 44 ts @ [93]"
    by (auto split: option.splits)
  from JList.prems(2) ts(2) consider "c < 127" | u where "u \<in> set ts" "c \<in> set u"
    by (auto dest: set_joined)
  then show ?case
  proof cases
    case 2
    with those_Some_set [OF ts(1)] obtain v where "v \<in> set vs" "dumps ft v = Some u" by force
    with JList.IH 2 show ?thesis by fastforce
  qed simp
next
  case (JObj kvs)
  let ?f = "\<lambda>(k, v). map_option (\<lambda>t. json_string k @ 58 # t) (dumps ft v)"
  from JObj obtain ts where ts: "those (map ?f kvs) = Some ts" "t = 123 # joined 44 ts @ [125]"
    by (auto split: option.splits)
  from JObj.prems(2) ts(2) consider "c < 127" | u where "u \<in> set ts" "c \<in> set u"
    by (auto dest: set_joined)
  then show ?case
  proof cases
    case 2
    have "Some u \<in> set (map ?f kvs)" by (rule those_Some_set [OF ts(1) 2(1)])
    then obtain k v where kv0: "(k, v) \<in> set kvs"
      "Some u = map_option (\<lambda>t. json_string k @ 58 # t) (dumps ft v)" by auto
    then obtain w where kv: "(k, v) \<in> set kvs" "dumps ft v = Some w" "u = json_string k @ 58 # w"
      by (cases "dumps ft v") auto
    from kv(3) 2(2) consider "c \<in> set (json_string k)" | "c = 58" | "c \<in> set w" by auto
    then show ?thesis
    proof cases
      case 1
      with kv(1) set_json_string show ?thesis by fastforce
    next
      case 3
      have "c < 127 \<or> c \<in> json_chars v \<or> (\<exists>x. c \<in> set (ft x))"
        using JObj.IH kv 3 by (force simp: snds.simps)
      with kv(1) show ?thesis by force
    qed simp
  qed simp
qed (auto simp: lit_def split: if_splits)

lemma json_chars_strip_nulls: "json_chars (strip_nulls v) \<subseteq> json_chars v"
proof (induction v rule: strip_nulls.induct)
  case (1 kvs)
  then show ?case by fastforce
next
  case (2 vs)
  then show ?case by fastforce
qed auto

lemma json_floats_strip_nulls: "set (json_floats (strip_nulls v)) \<subseteq> set (json_floats v)"
proof (induction v rule: strip_nulls.induct)
  case (1 kvs)
  then show ?case by fastforce
next
  case (2 vs)
  then show ?case by fastforce
qed auto

text \<open>A value of finite floats and proper characters is always written.\<close>

lemma canonical_json_total:
  assumes "\<forall>x \<in> set (json_floats v). finite_float x" "\<forall>c \<in> json_chars v. \<not> surrogate c"
    and "\<forall>x. \<forall>c \<in> set (ft x). \<not> surrogate c"
  shows "\<exists>bytes. canonical_json ft v = Inr bytes"
proof -
  have "list_all finite_float (json_floats (strip_nulls v))"
    using assms(1) json_floats_strip_nulls [of v] by (auto simp: list_all_iff)
  then obtain t where t: "dumps ft (strip_nulls v) = Some t" using dumps_eq_None [of ft "strip_nulls v"] by auto
  have "\<not> surrogate c" if "c \<in> set t" for c
    using dumps_chars [OF t that] assms(2,3) json_chars_strip_nulls [of v]
    by (auto simp: surrogate_def)
  then have "utf8 t \<noteq> None" by (simp add: utf8_eq_None)
  with t show ?thesis by (auto simp: canonical_json_def)
qed

text \<open>A number of 64 bits reads back from its text.\<close>

lemma py_int_int_text:
  assumes "0 \<le> i" "i < 2 ^ 63"
  shows "py_int 10 (int_text i) = Some i"
proof -
  have "length (fmt_dec 0 (nat i)) \<le> 19"
    using length_digits_of [of 10 "nat i" 19] assms by (simp add: fmt_dec_def render_def Let_def)
  then show ?thesis using py_int_fmt_dec [of 0 "nat i"] assms(1) by (simp add: max_int_digits_def)
qed

end
