(* ===== verification/Persian.thy ===== *)
theory Persian
  imports Prelude
begin

text \<open>
  \<open>persian.py\<close>: folding text for search and folding the digits of identifiers. Unicode
  normalisation (\<open>nfc\<close>) and case folding (\<open>casefold\<close>) rest on tables outside the repository
  and are parameters.

  Theorems: folding the digits of an identifier keeps its numeric value and makes it ASCII; and
  \<open>fold\<close> is not idempotent, although its documentation says so.
\<close>

definition persian_characters :: "(nat \<times> nat list) list" where
  "persian_characters =
    [(1610, [1740]), (1609, [1740]), (1746, [1740]), (1574, [1740]),
     (1603, [1705]),
     (1570, [1575]), (1571, [1575]), (1573, [1575]), (1649, [1575]),
     (1577, [1607]),
     (1572, [1608]),
     (8204, [32]), (8205, [32]), (8206, [32]), (8207, [32]), (1600, [])]"

definition persian_digits :: "(nat \<times> nat list) list" where
  "persian_digits =
     map (\<lambda>n. (0x06F0 + n, [48 + n])) [0..<10] @ map (\<lambda>n. (0x0660 + n, [48 + n])) [0..<10]"

text \<open>\<open>str.translate\<close>.\<close>

definition translate :: "(nat \<times> nat list) list \<Rightarrow> pystr \<Rightarrow> pystr" where
  "translate table s =
     concat (map (\<lambda>c. case map_of table c of None \<Rightarrow> [c] | Some r \<Rightarrow> r) s)"

definition is_mark :: "nat \<Rightarrow> bool" where
  "is_mark c = ((0x64B \<le> c \<and> c \<le> 0x655) \<or> c = 0x670)"

text \<open>Each run of white space becomes one blank.\<close>

fun collapse_space :: "pystr \<Rightarrow> pystr" where
  "collapse_space [] = []"
| "collapse_space [c] = (if is_space c then [32] else [c])"
| "collapse_space (c # d # s) =
     (if is_space c then (if is_space d then collapse_space (d # s) else 32 # collapse_space (d # s))
      else c # collapse_space (d # s))"

definition fold_text :: "(pystr \<Rightarrow> pystr) \<Rightarrow> (pystr \<Rightarrow> pystr) \<Rightarrow> pystr \<Rightarrow> pystr" where
  "fold_text nfc casefold text =
     (if text = [] then []
      else
        let t = translate (persian_characters @ persian_digits) (nfc text);
            t = filter (\<lambda>c. \<not> is_mark c) t in
        strip (collapse_space (casefold t)))"

definition fold_digits_text :: "(pystr \<Rightarrow> pystr) \<Rightarrow> pystr \<Rightarrow> pystr" where
  "fold_digits_text nfc text =
     (if text = [] then [] else strip (translate persian_digits (nfc text)))"

definition is_digits :: "(pystr \<Rightarrow> pystr) \<Rightarrow> pystr \<Rightarrow> bool" where
  "is_digits nfc text = (let folded = filter (\<lambda>c. c \<noteq> 32) (fold_digits_text nfc text) in isdigit folded)"

section \<open>Digits\<close>

lemma persian_digits_table:
  "persian_digits = map (\<lambda>n. (0x06F0 + n, [48 + n])) [0,1,2,3,4,5,6,7,8,9]
      @ map (\<lambda>n. (0x0660 + n, [48 + n])) [0,1,2,3,4,5,6,7,8,9]"
  by (simp add: persian_digits_def upt_rec)

definition persian_or_ascii_digit :: "nat \<Rightarrow> bool" where
  "persian_or_ascii_digit c = (ascii_digit c \<or> (0x6F0 \<le> c \<and> c \<le> 0x6F9) \<or> (0x660 \<le> c \<and> c \<le> 0x669))"

lemma persian_digit_cases:
  assumes "persian_or_ascii_digit c"
  shows "\<exists>d. ascii_digit d \<and> decimal_value d = decimal_value c \<and>
    (case map_of persian_digits c of None \<Rightarrow> [c] | Some r \<Rightarrow> r) = [d]"
proof -
  note table = persian_digits_table
  consider "ascii_digit c" | "0x6F0 \<le> c" "c \<le> 0x6F9" | "0x660 \<le> c" "c \<le> 0x669"
    using assms unfolding persian_or_ascii_digit_def by blast
  then show ?thesis
  proof cases
    case 1
    then have "map_of persian_digits c = None"
      by (simp add: map_of_eq_None_iff table ascii_digit_def)
    with 1 show ?thesis by auto
  next
    case 2
    define k where "k = c - 0x6F0"
    with 2 have k: "c = 0x6F0 + k" "k < 10" by auto
    then have "map_of persian_digits c = Some [48 + k]"
      by (simp add: table)
    moreover have "decimal_value c = Some k" using k
      by (simp add: decimal_value_def decimal_zeros_def)
    ultimately show ?thesis using k
      by (auto simp: ascii_digit_def decimal_value_ascii intro!: exI [of _ "48 + k"])
  next
    case 3
    define k where "k = c - 0x660"
    with 3 have k: "c = 0x660 + k" "k < 10" by auto
    then have "map_of persian_digits c = Some [48 + k]"
      by (simp add: table)
    moreover have "decimal_value c = Some k" using k
      by (simp add: decimal_value_def decimal_zeros_def)
    ultimately show ?thesis using k
      by (auto simp: ascii_digit_def decimal_value_ascii intro!: exI [of _ "48 + k"])
  qed
qed

lemma translate_digits:
  "list_all persian_or_ascii_digit s \<Longrightarrow>
   list_all ascii_digit (translate persian_digits s) \<and>
   map decimal_value (translate persian_digits s) = map decimal_value s"
proof (induction s)
  case (Cons c s)
  then obtain d where "ascii_digit d" "decimal_value d = decimal_value c"
    "(case map_of persian_digits c of None \<Rightarrow> [c] | Some r \<Rightarrow> r) = [d]"
    using persian_digit_cases [of c] by auto
  with Cons show ?case by (simp add: translate_def)
qed (simp add: translate_def)

text \<open>
  A code typed in Persian, Arabic-Indic or ASCII digits is folded to ASCII digits of the same
  values, position by position: the identifier sent is the one that was typed.
\<close>

theorem fold_digits_keeps_value:
  assumes "nfc s = s" "list_all persian_or_ascii_digit s"
  shows "list_all ascii_digit (fold_digits_text nfc s) \<and>
    map decimal_value (fold_digits_text nfc s) = map decimal_value s"
proof (cases "s = []")
  case False
  have t: "list_all ascii_digit (translate persian_digits s)"
    "map decimal_value (translate persian_digits s) = map decimal_value s"
    using translate_digits [OF assms(2)] by simp_all
  have "\<not> is_space c" if "ascii_digit c" for c
    using that by (auto simp: is_space_def space_points_def ascii_digit_def)
  then have "strip (translate persian_digits s) = translate persian_digits s"
    using t(1) by (intro strip_no_space) (auto simp: list_all_iff)
  then show ?thesis using t False by (simp add: fold_digits_text_def assms(1))
qed (simp add: fold_digits_text_def)

theorem fold_digits_keeps_value_witness:
  "list_all ascii_digit (fold_digits_text id [0x6F1, 0x666, 52]) \<and>
   map decimal_value (fold_digits_text id [0x6F1, 0x666, 52]) = map decimal_value [0x6F1, 0x666, 52]"
  by (rule fold_digits_keeps_value) (simp_all add: persian_or_ascii_digit_def ascii_digit_def)

section \<open>Folding twice\<close>

text \<open>
  \<open>fold\<close> is not idempotent: where a tatweel stands between a letter and a combining accent,
  the first pass removes the tatweel after normalising, and the second pass then composes the
  pair. The hypotheses are the Unicode compositions involved (\<open>e\<close> with U+0301 is U+00E9).
\<close>

theorem fold_text_not_idempotent:
  assumes "nfc [101, 0x640, 0x301] = [101, 0x640, 0x301]" "nfc [101, 0x301] = [0xE9]"
    and "casefold [101, 0x301] = [101, 0x301]" "casefold [0xE9] = [0xE9]"
  shows "fold_text nfc casefold (fold_text nfc casefold [101, 0x640, 0x301])
    \<noteq> fold_text nfc casefold [101, 0x640, 0x301]"
  by (simp add: fold_text_def assms translate_def persian_characters_def persian_digits_table
      is_mark_def is_space_def space_points_def strip_def lstrip_def rstrip_def)

theorem fold_text_not_idempotent_witness:
  "let nfc = (\<lambda>s. if s = [101, 0x301] then [0xE9] else s) in
   fold_text nfc id (fold_text nfc id [101, 0x640, 0x301]) \<noteq> fold_text nfc id [101, 0x640, 0x301]"
  using fold_text_not_idempotent [of "\<lambda>s. if s = [101, 0x301] then [0xE9] else s" id]
  by (simp add: Let_def)

end
