(* ===== verification/Invoice.thy ===== *)
theory Invoice
  imports Json Persian
begin

text \<open>
  \<open>models/invoice.py\<close>: the invoice as records with the wire names of the source (\<open>in_\<close>,
  here \<open>in_alias\<close>, travels as \<open>in\<close>), its dump into a JSON dict, and
  \<open>to_wire_dict\<close>. Pydantic's parsing of a request body is not under the repository; what
  the model says of it is the types of the fields, and \<open>ascii_digits\<close>, the one validator
  the source defines.

  Theorems: the wire dict carries no null and no blank text, at any depth, and loses nothing
  else: a field is on the wire exactly when it is set and not blank, with its own value.
\<close>

section \<open>The records\<close>

record shipping_good =
  sgid :: "pystr option"
  sgt :: "pystr option"

record invoice_header =
  taxid :: pystr
  indatim :: int
  ins :: int
  indati2m :: "int option"
  inty :: "int option"
  ft :: "int option"
  inno :: "pystr option"
  irtaxid :: "pystr option"
  scln :: "pystr option"
  setm :: "int option"
  inp :: "int option"
  billid :: "pystr option"
  tins :: "pystr option"
  bpc :: "pystr option"
  scc :: "pystr option"
  sbc :: "pystr option"
  cap :: "int option"
  bid :: "pystr option"
  insp :: "int option"
  tvop :: "int option"
  tax17 :: "int option"
  tprdis :: "int option"
  tdis :: "int option"
  tadis :: "int option"
  tvam :: "int option"
  todam :: "int option"
  tbill :: "int option"
  tob :: "int option"
  tinb :: "pystr option"
  bbc :: "pystr option"
  bpn :: "pystr option"
  crn :: "pystr option"
  cdcn :: "pystr option"
  cdcd :: "int option"
  tonw :: "pyfloat option"
  torv :: "int option"
  tocv :: "pyfloat option"
  tinc :: "pystr option"
  lno :: "pystr option"
  lrno :: "pystr option"
  ocu :: "pystr option"
  oci :: "pystr option"
  dco :: "pystr option"
  dci :: "pystr option"
  tid :: "pystr option"
  rid :: "pystr option"
  lt :: "int option"
  cno :: "pystr option"
  did :: "pystr option"
  sg :: "shipping_good list option"
  asn :: "pystr option"
  asd :: "int option"
  in_alias :: "pystr option"
  an :: "pystr option"
  insr :: "int option"
  nti1 :: "pystr option"
  nti2 :: "pystr option"

record invoice_body_item =
  sstid :: pystr
  sstt :: "pystr option"
  mu :: "pystr option"
  am :: "pyfloat option"
  fee :: "pyfloat option"
  cfee :: "pyfloat option"
  cut :: "pystr option"
  exr :: "int option"
  prdis :: "int option"
  dis :: "int option"
  adis :: "int option"
  vra :: "pyfloat option"
  vam :: "int option"
  odt :: "pystr option"
  odr :: "pyfloat option"
  odam :: "int option"
  olt :: "pystr option"
  olr :: "pyfloat option"
  olam :: "int option"
  consfee :: "int option"
  spro :: "int option"
  bros :: "int option"
  tcpbs :: "int option"
  cop :: "int option"
  bsrn :: "pystr option"
  vop :: "int option"
  tsstam :: "int option"
  nw :: "pyfloat option"
  ssrv :: "int option"
  sscv :: "pyfloat option"
  cui :: "pyfloat option"
  hs :: "pystr option"
  cpr :: "pyfloat option"
  sovat :: "int option"
  vba :: "pyfloat option"

record invoice_payment =
  iinn :: "pystr option"
  acn :: "pystr option"
  trmn :: "pystr option"
  trn :: "pystr option"
  pcn :: "pystr option"
  pid :: "pystr option"
  vatpid :: "pystr option"
  vatbid :: "pystr option"
  pdt :: "int option"
  pmt :: "int option"
  pv :: "int option"

record invoice =
  header :: invoice_header
  body :: "invoice_body_item list"
  payments :: "invoice_payment list"
  extension :: "json list option"

section \<open>The declared defaults\<close>

text \<open>\<open>InvoiceHeader(indatim=..., ins=...)\<close>, \<open>InvoiceBodyItem(sstid=...)\<close>,
  \<open>InvoicePayment()\<close> and \<open>Invoice(header=..., body=...)\<close>, every other field at its default.\<close>

definition new_header :: "int \<Rightarrow> int \<Rightarrow> invoice_header" where
  "new_header date settlement_kind =
    \<lparr>taxid = [], indatim = date, ins = settlement_kind, indati2m = None, inty = None, ft = None,
     inno = None, irtaxid = None, scln = None, setm = None, inp = None, billid = None, tins =
     None, bpc = None, scc = None, sbc = None, cap = None, bid = None, insp = None, tvop = None,
     tax17 = None, tprdis = None, tdis = None, tadis = None, tvam = None, todam = None, tbill =
     None, tob = None, tinb = None, bbc = None, bpn = None, crn = None, cdcn = None, cdcd = None,
     tonw = None, torv = None, tocv = None, tinc = None, lno = None, lrno = None, ocu = None, oci
     = None, dco = None, dci = None, tid = None, rid = None, lt = None, cno = None, did = None,
     sg = None, asn = None, asd = None, in_alias = None, an = None, insr = None, nti1 = None,
     nti2 = None\<rparr>"

definition new_item :: "pystr \<Rightarrow> invoice_body_item" where
  "new_item stuff_id =
    \<lparr>sstid = stuff_id, sstt = None, mu = None, am = None, fee = None, cfee = None, cut = None,
     exr = None, prdis = None, dis = None, adis = None, vra = None, vam = None, odt = None, odr =
     None, odam = None, olt = None, olr = None, olam = None, consfee = None, spro = None, bros =
     None, tcpbs = None, cop = None, bsrn = None, vop = None, tsstam = None, nw = None, ssrv =
     None, sscv = None, cui = None, hs = None, cpr = None, sovat = None, vba = None\<rparr>"

definition new_payment :: invoice_payment where
  "new_payment =
    \<lparr>iinn = None, acn = None, trmn = None, trn = None, pcn = None, pid = None, vatpid = None,
     vatbid = None, pdt = None, pmt = None, pv = None\<rparr>"

definition new_invoice :: "invoice_header \<Rightarrow> invoice_body_item list \<Rightarrow> invoice" where
  "new_invoice h b = \<lparr>header = h, body = b, payments = [], extension = None\<rparr>"

text \<open>The validator of \<open>sstid\<close> and \<open>mu\<close>, applied when an item is built.\<close>

definition ascii_digits :: "(pystr \<Rightarrow> pystr) \<Rightarrow> invoice_body_item \<Rightarrow> invoice_body_item" where
  "ascii_digits nfc item =
     item\<lparr>sstid := fold_digits_text nfc (sstid item), mu := map_option (fold_digits_text nfc) (mu item)\<rparr>"

section \<open>Dumping\<close>

abbreviation jint :: "int option \<Rightarrow> json option" where "jint \<equiv> map_option JInt"
abbreviation jstr :: "pystr option \<Rightarrow> json option" where "jstr \<equiv> map_option JStr"
abbreviation jfloat :: "pyfloat option \<Rightarrow> json option" where "jfloat \<equiv> map_option JFloat"

text \<open>\<open>model_dump(exclude_none=True, by_alias=True)\<close> of the fields of one model.\<close>

fun present :: "(pystr \<times> json option) list \<Rightarrow> (pystr \<times> json) list" where
  "present [] = []"
| "present ((k, None) # fs) = present fs"
| "present ((k, Some v) # fs) = (k, v) # present fs"

definition shipping_good_items :: "shipping_good \<Rightarrow> (pystr \<times> json option) list" where
  "shipping_good_items g = [
    (lit ''sgid'', jstr (sgid g)),
    (lit ''sgt'', jstr (sgt g))]"

definition shipping_good_dict :: "shipping_good \<Rightarrow> json" where
  "shipping_good_dict g = JObj (present (shipping_good_items g))"

definition header_items :: "invoice_header \<Rightarrow> (pystr \<times> json option) list" where
  "header_items h = [
    (lit ''taxid'', Some (JStr (taxid h))),
    (lit ''indatim'', Some (JInt (indatim h))),
    (lit ''ins'', Some (JInt (ins h))),
    (lit ''indati2m'', jint (indati2m h)),
    (lit ''inty'', jint (inty h)),
    (lit ''ft'', jint (ft h)),
    (lit ''inno'', jstr (inno h)),
    (lit ''irtaxid'', jstr (irtaxid h)),
    (lit ''scln'', jstr (scln h)),
    (lit ''setm'', jint (setm h)),
    (lit ''inp'', jint (inp h)),
    (lit ''billid'', jstr (billid h)),
    (lit ''tins'', jstr (tins h)),
    (lit ''bpc'', jstr (bpc h)),
    (lit ''scc'', jstr (scc h)),
    (lit ''sbc'', jstr (sbc h)),
    (lit ''cap'', jint (cap h)),
    (lit ''bid'', jstr (bid h)),
    (lit ''insp'', jint (insp h)),
    (lit ''tvop'', jint (tvop h)),
    (lit ''tax17'', jint (tax17 h)),
    (lit ''tprdis'', jint (tprdis h)),
    (lit ''tdis'', jint (tdis h)),
    (lit ''tadis'', jint (tadis h)),
    (lit ''tvam'', jint (tvam h)),
    (lit ''todam'', jint (todam h)),
    (lit ''tbill'', jint (tbill h)),
    (lit ''tob'', jint (tob h)),
    (lit ''tinb'', jstr (tinb h)),
    (lit ''bbc'', jstr (bbc h)),
    (lit ''bpn'', jstr (bpn h)),
    (lit ''crn'', jstr (crn h)),
    (lit ''cdcn'', jstr (cdcn h)),
    (lit ''cdcd'', jint (cdcd h)),
    (lit ''tonw'', jfloat (tonw h)),
    (lit ''torv'', jint (torv h)),
    (lit ''tocv'', jfloat (tocv h)),
    (lit ''tinc'', jstr (tinc h)),
    (lit ''lno'', jstr (lno h)),
    (lit ''lrno'', jstr (lrno h)),
    (lit ''ocu'', jstr (ocu h)),
    (lit ''oci'', jstr (oci h)),
    (lit ''dco'', jstr (dco h)),
    (lit ''dci'', jstr (dci h)),
    (lit ''tid'', jstr (tid h)),
    (lit ''rid'', jstr (rid h)),
    (lit ''lt'', jint (lt h)),
    (lit ''cno'', jstr (cno h)),
    (lit ''did'', jstr (did h)),
    (lit ''sg'', map_option (\<lambda>gs. JList (map shipping_good_dict gs)) (sg h)),
    (lit ''asn'', jstr (asn h)),
    (lit ''asd'', jint (asd h)),
    (lit ''in'', jstr (in_alias h)),
    (lit ''an'', jstr (an h)),
    (lit ''insr'', jint (insr h)),
    (lit ''nti1'', jstr (nti1 h)),
    (lit ''nti2'', jstr (nti2 h))]"

definition body_items :: "invoice_body_item \<Rightarrow> (pystr \<times> json option) list" where
  "body_items b = [
    (lit ''sstid'', Some (JStr (sstid b))),
    (lit ''sstt'', jstr (sstt b)),
    (lit ''mu'', jstr (mu b)),
    (lit ''am'', jfloat (am b)),
    (lit ''fee'', jfloat (fee b)),
    (lit ''cfee'', jfloat (cfee b)),
    (lit ''cut'', jstr (cut b)),
    (lit ''exr'', jint (exr b)),
    (lit ''prdis'', jint (prdis b)),
    (lit ''dis'', jint (dis b)),
    (lit ''adis'', jint (adis b)),
    (lit ''vra'', jfloat (vra b)),
    (lit ''vam'', jint (vam b)),
    (lit ''odt'', jstr (odt b)),
    (lit ''odr'', jfloat (odr b)),
    (lit ''odam'', jint (odam b)),
    (lit ''olt'', jstr (olt b)),
    (lit ''olr'', jfloat (olr b)),
    (lit ''olam'', jint (olam b)),
    (lit ''consfee'', jint (consfee b)),
    (lit ''spro'', jint (spro b)),
    (lit ''bros'', jint (bros b)),
    (lit ''tcpbs'', jint (tcpbs b)),
    (lit ''cop'', jint (cop b)),
    (lit ''bsrn'', jstr (bsrn b)),
    (lit ''vop'', jint (vop b)),
    (lit ''tsstam'', jint (tsstam b)),
    (lit ''nw'', jfloat (nw b)),
    (lit ''ssrv'', jint (ssrv b)),
    (lit ''sscv'', jfloat (sscv b)),
    (lit ''cui'', jfloat (cui b)),
    (lit ''hs'', jstr (hs b)),
    (lit ''cpr'', jfloat (cpr b)),
    (lit ''sovat'', jint (sovat b)),
    (lit ''vba'', jfloat (vba b))]"

definition payment_items :: "invoice_payment \<Rightarrow> (pystr \<times> json option) list" where
  "payment_items p = [
    (lit ''iinn'', jstr (iinn p)),
    (lit ''acn'', jstr (acn p)),
    (lit ''trmn'', jstr (trmn p)),
    (lit ''trn'', jstr (trn p)),
    (lit ''pcn'', jstr (pcn p)),
    (lit ''pid'', jstr (pid p)),
    (lit ''vatpid'', jstr (vatpid p)),
    (lit ''vatbid'', jstr (vatbid p)),
    (lit ''pdt'', jint (pdt p)),
    (lit ''pmt'', jint (pmt p)),
    (lit ''pv'', jint (pv p))]"

definition invoice_items :: "invoice \<Rightarrow> (pystr \<times> json option) list" where
  "invoice_items ivc = [
    (lit ''header'', Some (JObj (present (header_items (header ivc))))),
    (lit ''body'', Some (JList (map (\<lambda>b. JObj (present (body_items b))) (body ivc)))),
    (lit ''payments'', Some (JList (map (\<lambda>p. JObj (present (payment_items p))) (payments ivc)))),
    (lit ''extension'', map_option JList (extension ivc))]"

text \<open>\<open>_without_blanks\<close>.\<close>

definition blank_text :: "json \<Rightarrow> bool" where
  "blank_text v = (case v of JStr s \<Rightarrow> is_blank s | _ \<Rightarrow> False)"

fun without_blanks :: "json \<Rightarrow> json" where
  "without_blanks (JObj kvs) =
     JObj (map (\<lambda>(k, v). (k, without_blanks v)) (filter (\<lambda>(k, v). \<not> blank_text v) kvs))"
| "without_blanks (JList vs) = JList (map without_blanks vs)"
| "without_blanks v = v"

definition to_wire_dict :: "invoice \<Rightarrow> json" where
  "to_wire_dict ivc = without_blanks (JObj (present (invoice_items ivc)))"

section \<open>What travels\<close>

fun blank_free :: "json \<Rightarrow> bool" where
  "blank_free (JObj kvs) = list_all (\<lambda>(k, v). \<not> blank_text v \<and> blank_free v) kvs"
| "blank_free (JList vs) = list_all blank_free vs"
| "blank_free v = True"

lemma blank_text_simps [simp]:
  "\<not> blank_text JNull" "\<not> blank_text (JBool b)" "\<not> blank_text (JInt n)" "\<not> blank_text (JFloat x)"
  "blank_text (JStr s) = is_blank s" "\<not> blank_text (JList vs)" "\<not> blank_text (JObj kvs)"
  by (simp_all add: blank_text_def)

lemma blank_text_without_blanks [simp]: "blank_text (without_blanks v) = blank_text v"
  by (cases v) auto

lemma blank_free_without_blanks: "blank_free (without_blanks v)"
proof (induction v rule: without_blanks.induct)
  case (1 kvs)
  then show ?case by (auto simp: list_all_iff)
next
  case (2 vs)
  then show ?case by (auto simp: list_all_iff)
qed simp_all

lemma without_blanks_id: "blank_free v \<Longrightarrow> without_blanks v = v"
proof (induction v rule: without_blanks.induct)
  case (1 kvs)
  then have "filter (\<lambda>(k, v). \<not> blank_text v) kvs = kvs"
    by (auto simp: list_all_iff filter_id_conv)
  with 1 show ?case by (auto simp: list_all_iff intro!: map_idI)
next
  case (2 vs)
  then show ?case by (auto simp: list_all_iff intro: map_idI)
qed simp_all

lemma set_present: "(k, v) \<in> set (present fs) \<longleftrightarrow> (k, Some v) \<in> set fs"
  by (induction fs rule: present.induct) auto

lemma map_of_present:
  "distinct (map fst fs) \<Longrightarrow> map_of (present fs) k = (case map_of fs k of Some (Some v) \<Rightarrow> Some v | _ \<Rightarrow> None)"
proof (induction fs rule: present.induct)
  case (2 k' fs)
  then have "map_of fs k' = None" by (simp add: map_of_eq_None_iff)
  with 2 show ?case by auto
qed auto

lemma map_of_without_blanks:
  "distinct (map fst kvs) \<Longrightarrow>
   map_of (map (\<lambda>(k, v). (k, without_blanks v)) (filter (\<lambda>(k, v). \<not> blank_text v) kvs)) k =
   (case map_of kvs k of Some v \<Rightarrow> if blank_text v then None else Some (without_blanks v) | None \<Rightarrow> None)"
proof (induction kvs)
  case (Cons kv kvs)
  then have "map_of kvs (fst kv) = None" by (simp add: map_of_eq_None_iff)
  with Cons show ?case by (cases kv) (auto split: option.splits)
qed simp

lemma distinct_keys:
  "distinct (map fst (shipping_good_items g))" "distinct (map fst (header_items h))"
  "distinct (map fst (body_items b))" "distinct (map fst (payment_items p))"
  by (simp_all add: shipping_good_items_def header_items_def body_items_def payment_items_def)

lemma distinct_present: "distinct (map fst fs) \<Longrightarrow> distinct (map fst (present fs))"
proof (induction fs rule: present.induct)
  case (3 k v fs)
  then show ?case by (force simp: set_present)
qed auto

text \<open>One model on the wire: the set fields that are not blank text, without the blanks in them.\<close>

definition wire_field :: "(pystr \<times> json option) list \<Rightarrow> pystr \<Rightarrow> json option" where
  "wire_field fs k =
     (case map_of fs k of
        Some (Some v) \<Rightarrow> if blank_text v then None else Some (without_blanks v)
      | _ \<Rightarrow> None)"

lemma jget_without_blanks:
  "distinct (map fst fs) \<Longrightarrow> jget k (without_blanks (JObj (present fs))) = wire_field fs k"
  by (simp add: map_of_without_blanks distinct_present map_of_present wire_field_def
      split: option.split)

lemma distinct_invoice_items: "distinct (map fst (invoice_items ivc))"
  by (simp add: invoice_items_def)

lemma jget_to_wire_dict: "jget k (to_wire_dict ivc) = wire_field (invoice_items ivc) k"
  unfolding to_wire_dict_def by (rule jget_without_blanks [OF distinct_invoice_items])

lemma wire_dict_fields:
  "blank_free (to_wire_dict ivc) \<and>
   (\<exists>h bs ps. jget (lit ''header'') (to_wire_dict ivc) = Some h \<and>
      jget (lit ''body'') (to_wire_dict ivc) = Some (JList bs) \<and>
      jget (lit ''payments'') (to_wire_dict ivc) = Some (JList ps) \<and>
      (\<forall>k. jget k h = wire_field (header_items (header ivc)) k) \<and>
      map (\<lambda>b k. jget k b) bs = map (\<lambda>b. wire_field (body_items b)) (body ivc) \<and>
      map (\<lambda>p k. jget k p) ps = map (\<lambda>p. wire_field (payment_items p)) (payments ivc))"
proof -
  let ?w = "\<lambda>fs. without_blanks (JObj (present fs))"
  have "blank_free (to_wire_dict ivc)"
    unfolding to_wire_dict_def by (rule blank_free_without_blanks)
  moreover have "jget (lit ''header'') (to_wire_dict ivc) = Some (?w (header_items (header ivc)))"
    "jget (lit ''body'') (to_wire_dict ivc) = Some (JList (map (\<lambda>b. ?w (body_items b)) (body ivc)))"
    "jget (lit ''payments'') (to_wire_dict ivc) =
       Some (JList (map (\<lambda>p. ?w (payment_items p)) (payments ivc)))"
    by (simp_all add: jget_to_wire_dict wire_field_def invoice_items_def comp_def)
  ultimately show ?thesis
    by (simp add: jget_without_blanks distinct_keys comp_def fun_eq_iff
        del: without_blanks.simps jget.simps)
qed


text \<open>With no extension there is no null either: what is signed is the wire dict itself.\<close>

lemma null_free_without_blanks: "null_free v \<Longrightarrow> null_free (without_blanks v)"
proof (induction v rule: without_blanks.induct)
  case (1 kvs)
  have "without_blanks v \<noteq> JNull" if "v \<noteq> JNull" for v using that by (cases v) auto
  with 1 show ?case by (force simp: list_all_iff)
next
  case (2 vs)
  then show ?case by (auto simp: list_all_iff)
qed simp_all

lemma null_free_present:
  "(\<And>k v. (k, Some v) \<in> set fs \<Longrightarrow> v \<noteq> JNull \<and> null_free v) \<Longrightarrow> null_free (JObj (present fs))"
  unfolding null_free.simps list_all_iff Ball_def split_paired_All prod.case set_present by blast

lemma Some_eq_map_option: "Some y = map_option f x \<longleftrightarrow> (\<exists>a. x = Some a \<and> y = f a)"
  by (cases x) auto

lemma null_free_items:
  "null_free (JObj (present (shipping_good_items g)))" "null_free (JObj (present (header_items h)))"
  "null_free (JObj (present (body_items b)))" "null_free (JObj (present (payment_items p)))"
proof -
  show g: "null_free (JObj (present (shipping_good_items g)))" for g
    by (rule null_free_present) (auto simp: shipping_good_items_def Some_eq_map_option)
  show "null_free (JObj (present (header_items h)))"
    using g by (intro null_free_present)
      (auto simp: header_items_def list_all_iff shipping_good_dict_def Some_eq_map_option
        simp del: null_free.simps(1))
  show "null_free (JObj (present (body_items b)))" "null_free (JObj (present (payment_items p)))"
    by (rule null_free_present; auto simp: body_items_def payment_items_def Some_eq_map_option)+
qed

lemma to_wire_dict_null_free:
  assumes "case extension ivc of None \<Rightarrow> True | Some xs \<Rightarrow> list_all null_free xs"
  shows "strip_nulls (to_wire_dict ivc) = to_wire_dict ivc"
proof -
  have "null_free (JObj (present (invoice_items ivc)))"
    using assms null_free_items
    by (intro null_free_present)
      (auto simp: invoice_items_def list_all_iff Some_eq_map_option simp del: null_free.simps(1)
        split: option.splits)
  then show ?thesis
    unfolding to_wire_dict_def by (intro strip_nulls_id null_free_without_blanks)
qed

lemma json_chars_without_blanks: "json_chars (without_blanks v) \<subseteq> json_chars v"
proof (induction v rule: without_blanks.induct)
  case (1 kvs)
  then show ?case by fastforce
next
  case (2 vs)
  then show ?case by fastforce
qed auto

lemma json_floats_without_blanks: "set (json_floats (without_blanks v)) \<subseteq> set (json_floats v)"
proof (induction v rule: without_blanks.induct)
  case (1 kvs)
  then show ?case by fastforce
next
  case (2 vs)
  then show ?case by fastforce
qed auto

lemma canonical_wire_total:
  assumes "\<forall>x \<in> set (json_floats (JObj (present (invoice_items ivc)))). finite_float x"
    and "\<forall>c \<in> json_chars (JObj (present (invoice_items ivc))). \<not> surrogate c"
    and "\<forall>x. \<forall>c \<in> set (float_text x). \<not> surrogate c"
  shows "\<exists>bytes. canonical_json float_text (to_wire_dict ivc) = Inr bytes"
proof (rule canonical_json_total)
  show "\<forall>x \<in> set (json_floats (to_wire_dict ivc)). finite_float x"
    unfolding to_wire_dict_def using assms(1) json_floats_without_blanks by blast
  show "\<forall>c \<in> json_chars (to_wire_dict ivc). \<not> surrogate c"
    unfolding to_wire_dict_def using assms(2) json_chars_without_blanks by blast
qed (rule assms(3))

end
