(* ===== verification/Arithmetic.thy ===== *)
theory Arithmetic
  imports Invoice "HOL-Library.Monad_Syntax"
begin

text \<open>
  \<open>rules/violations.py\<close> (the data) and \<open>rules/arithmetic.py\<close>: the money rules over
  doubles and \<open>recompute\<close>. A computation is an option: \<open>None\<close> is the exception that escapes,
  \<open>OverflowError\<close> of \<open>float(n)\<close> or of \<open>round(inf)\<close>, \<open>ValueError\<close> of
  \<open>round(nan)\<close>. A violation is the finding a program can read: field, rule id, severity,
  line, expected and actual amount; its Persian prose and the clause it cites are not modelled.
  \<open>sum\<close> adds from left to right, as in Python 3.11.

  Theorems: recomputing an invoice leaves no money rule it fills in violated, whatever the
  rounding; the float totals decide exactly the integer rule on amounts up to \<open>2 ^ 53\<close>; what an
  accepted cash and credit split satisfies.
\<close>

section \<open>Violations\<close>

datatype severity = ERROR | WARNING

record violation =
  v_field :: pystr
  v_rule :: pystr
  v_severity :: severity
  v_expected :: "pyfloat option"
  v_actual :: "pyfloat option"
  v_line :: "nat option"

definition new_violation :: "pystr \<Rightarrow> pystr \<Rightarrow> violation" where
  "new_violation fld rule = \<lparr>v_field = fld, v_rule = rule, v_severity = ERROR, v_expected = None,
     v_actual = None, v_line = None\<rparr>"

record validation_report =
  violations :: "violation list"

definition errors_of :: "validation_report \<Rightarrow> violation list" where
  "errors_of r = filter (\<lambda>v. v_severity v = ERROR) (violations r)"

definition warnings_of :: "validation_report \<Rightarrow> violation list" where
  "warnings_of r = filter (\<lambda>v. v_severity v = WARNING) (violations r)"

definition report_ok :: "validation_report \<Rightarrow> bool" where
  "report_ok r = (errors_of r = [])"

definition raise_if_invalid :: "validation_report \<Rightarrow> unit result" where
  "raise_if_invalid r =
     (if report_ok r then Inr () else Inl (InvoiceValidationError (map v_field (errors_of r))))"

text \<open>A rule that yields its violation when it is broken.\<close>

definition broken :: "bool \<Rightarrow> violation \<Rightarrow> violation list" where
  "broken b v = (if b then [v] else [])"

section \<open>Amounts\<close>

definition tolerance_rial :: pyfloat where
  "tolerance_rial = Fin 1"

definition zero_vat_patterns :: "int list" where
  "zero_vat_patterns = [7, 11, 14]"

text \<open>\<open>_n\<close>, on a float field and on an integer field.\<close>

definition n_float :: "pyfloat option \<Rightarrow> pyfloat" where
  "n_float v = (case v of None \<Rightarrow> Fin 0 | Some x \<Rightarrow> x)"

definition n_int :: "int option \<Rightarrow> pyfloat option" where
  "n_int v = (case v of None \<Rightarrow> Some (Fin 0) | Some k \<Rightarrow> float_of_int k)"

text \<open>\<open>_off\<close>, on an amount already read by \<open>_n\<close>.\<close>

definition off_by :: "pyfloat \<Rightarrow> pyfloat \<Rightarrow> bool" where
  "off_by actual expected = flt tolerance_rial (fabs (fsub actual expected))"

definition line_total :: "invoice_body_item \<Rightarrow> int \<Rightarrow> pyfloat option" where
  "line_total item pattern = do {
     base \<leftarrow> (if pattern = 7 then n_int (ssrv item) else n_int (adis item));
     v \<leftarrow> n_int (vam item);
     o1 \<leftarrow> n_int (odam item);
     o2 \<leftarrow> n_int (olam item);
     Some (fadd (fadd (fadd base v) o1) o2)}"

definition pre_discount :: "invoice_body_item \<Rightarrow> int \<Rightarrow> pyfloat option" where
  "pre_discount item pattern =
     (if pattern = 2 then do { x \<leftarrow> n_int (exr item); Some (fmul (n_float (cfee item)) x) }
      else if pattern = 6 then Some (n_float (fee item))
      else Some (fmul (n_float (am item)) (n_float (fee item))))"

definition after_discount :: "invoice_body_item \<Rightarrow> int \<Rightarrow> pyfloat option" where
  "after_discount item pattern = do {
     base \<leftarrow> pre_discount item pattern;
     base \<leftarrow> (if pattern = 3 then do { t \<leftarrow> n_int (tcpbs item); Some (fadd base t) } else Some base);
     d \<leftarrow> n_int (dis item);
     Some (fsub base d)}"

definition vat :: "invoice_body_item \<Rightarrow> int \<Rightarrow> pyfloat option" where
  "vat item pattern =
     (let rate = n_float (vra item) in
      if pattern = 3 then do {
        t \<leftarrow> n_int (tcpbs item);
        es \<leftarrow> pre_discount item pattern;
        Some (fadd (fdiv_pos (fmul t (Fin 10)) 100) (fdiv_pos (fmul es rate) 100))}
      else if pattern = 2 then do {
        s \<leftarrow> n_int (sovat item);
        Some (fdiv_pos (fmul s rate) 100)}
      else do {
        a \<leftarrow> n_int (adis item);
        Some (fdiv_pos (fmul a rate) 100)})"

section \<open>The rules of a line\<close>

definition line_violation :: "nat \<Rightarrow> pystr \<Rightarrow> pystr \<Rightarrow> pyfloat option \<Rightarrow> pyfloat \<Rightarrow> violation" where
  "line_violation index fld rule e a =
     (new_violation fld rule)\<lparr>v_line := Some index, v_expected := e, v_actual := Some a\<rparr>"

definition check_line :: "invoice_body_item \<Rightarrow> nat \<Rightarrow> int \<Rightarrow> violation list option" where
  "check_line item index pattern = do {
     expected_prdis \<leftarrow> pre_discount item pattern;
     p \<leftarrow> n_int (prdis item);
     d \<leftarrow> n_int (dis item);
     expected_adis \<leftarrow> after_discount item pattern;
     a \<leftarrow> n_int (adis item);
     let rate = n_float (vra item);
     expected_vam \<leftarrow> vat item pattern;
     v \<leftarrow> n_int (vam item);
     expected_tsstam \<leftarrow> line_total item pattern;
     t \<leftarrow> n_int (tsstam item);
     Some (
       broken (off_by p expected_prdis)
         (line_violation index (lit ''prdis'') (lit ''arithmetic.prdis'') (Some expected_prdis) p) @
       broken (fle p (Fin 0))
         (line_violation index (lit ''prdis'') (lit ''arithmetic.prdis.positive'') None p) @
       (if flt d (Fin 0) then [line_violation index (lit ''dis'') (lit ''arithmetic.dis.non_negative'') None d]
        else broken (flt (fadd p tolerance_rial) d)
          (line_violation index (lit ''dis'') (lit ''arithmetic.dis.at_most_prdis'') (Some p) d)) @
       broken (off_by a expected_adis)
         (line_violation index (lit ''adis'') (lit ''arithmetic.adis'') (Some expected_adis) a) @
       broken (flt a (Fin 0))
         (line_violation index (lit ''adis'') (lit ''arithmetic.adis.non_negative'') None a) @
       broken (flt rate (Fin 0))
         (line_violation index (lit ''vra'') (lit ''arithmetic.vra.non_negative'') None rate) @
       broken (pattern \<in> set zero_vat_patterns \<and> \<not> feq rate (Fin 0))
         (line_violation index (lit ''vra'') (lit ''arithmetic.vra.zero_for_pattern'') (Some (Fin 0)) rate) @
       broken (off_by v expected_vam)
         (line_violation index (lit ''vam'') (lit ''arithmetic.vam'') (Some expected_vam) v) @
       broken (off_by t expected_tsstam)
         (line_violation index (lit ''tsstam'') (lit ''arithmetic.tsstam'') (Some expected_tsstam) t))}"

section \<open>The totals\<close>

fun sum_from :: "pyfloat \<Rightarrow> (invoice_body_item \<Rightarrow> int option) \<Rightarrow> invoice_body_item list \<Rightarrow> pyfloat option" where
  "sum_from acc attr [] = Some acc"
| "sum_from acc attr (x # xs) = do { v \<leftarrow> n_int (attr x); sum_from (fadd acc v) attr xs }"

definition sum_attr :: "invoice_body_item list \<Rightarrow> (invoice_body_item \<Rightarrow> int option) \<Rightarrow> pyfloat option" where
  "sum_attr items attr = sum_from (Fin 0) attr items"

definition total_violation :: "string \<Rightarrow> int option \<Rightarrow> pyfloat \<Rightarrow> violation list option" where
  "total_violation name amount expected = do {
     a \<leftarrow> n_int amount;
     Some (broken (off_by a expected)
       ((new_violation (lit name) (lit (''arithmetic.'' @ name)))\<lparr>v_expected := Some expected, v_actual := Some a\<rparr>))}"

definition check_totals :: "invoice \<Rightarrow> violation list option" where
  "check_totals ivc = do {
     let b = body ivc;
     let h = header ivc;
     e \<leftarrow> sum_attr b prdis;  v1 \<leftarrow> total_violation ''tprdis'' (tprdis h) e;
     e \<leftarrow> sum_attr b dis;    v2 \<leftarrow> total_violation ''tdis'' (tdis h) e;
     e \<leftarrow> sum_attr b adis;   v3 \<leftarrow> total_violation ''tadis'' (tadis h) e;
     e \<leftarrow> sum_attr b vam;    v4 \<leftarrow> total_violation ''tvam'' (tvam h) e;
     e \<leftarrow> sum_attr b tsstam; v5 \<leftarrow> total_violation ''tbill'' (tbill h) e;
     e1 \<leftarrow> sum_attr b odam;
     e2 \<leftarrow> sum_attr b olam;
     v6 \<leftarrow> total_violation ''todam'' (todam h) (fadd e1 e2);
     t \<leftarrow> n_int (tprdis h);
     Some (v1 @ v2 @ v3 @ v4 @ v5 @ v6 @
       broken (fle t (Fin 0))
         ((new_violation (lit ''tprdis'') (lit ''arithmetic.tprdis.positive''))\<lparr>v_actual := Some t\<rparr>))}"

section \<open>The settlement method\<close>

definition split_required :: "string \<Rightarrow> int option \<Rightarrow> violation list" where
  "split_required name v = broken (v = None) (new_violation (lit name) (lit ''settlement.split_required''))"

definition amount_violation :: "string \<Rightarrow> string \<Rightarrow> pyfloat option \<Rightarrow> pyfloat \<Rightarrow> violation" where
  "amount_violation fld rule e a = (new_violation (lit fld) (lit rule))\<lparr>v_expected := e, v_actual := Some a\<rparr>"

definition check_settlement :: "invoice \<Rightarrow> violation list option" where
  "check_settlement ivc =
     (let h = header ivc in
      case setm h of
        None \<Rightarrow> Some []
      | Some m \<Rightarrow>
          if m \<noteq> 1 \<and> m \<noteq> 2 \<and> m \<noteq> 3 then do {
            a \<leftarrow> float_of_int m;
            Some [amount_violation ''setm'' ''settlement.method'' None a]}
          else if m \<noteq> 3 then Some []
          else do {
            c \<leftarrow> n_int (cap h);
            i \<leftarrow> n_int (insp h);
            b \<leftarrow> n_int (tbill h);
            split \<leftarrow>
              (if cap h = None \<or> insp h = None then Some []
               else do {
                 o2 \<leftarrow> n_int (todam h);
                 v \<leftarrow> n_int (tvam h);
                 let expected_cap = fsub (fsub (fsub b o2) v) i;
                 Some (
                   broken (off_by c expected_cap)
                     (amount_violation ''cap'' ''settlement.split_balances'' (Some expected_cap) c) @
                   broken (fle b c)
                     (amount_violation ''cap'' ''settlement.cap.below_total'' (Some b) c) @
                   broken (fle b i)
                     (amount_violation ''insp'' ''settlement.insp.below_total'' (Some b) i))});
            Some (
              split_required ''cap'' (cap h) @
              split_required ''insp'' (insp h) @
              broken (cap h \<noteq> None \<and> fle c (Fin 0))
                (amount_violation ''cap'' ''settlement.cap.positive'' None c) @
              broken (insp h \<noteq> None \<and> fle i (Fin 0))
                (amount_violation ''insp'' ''settlement.insp.positive'' None i) @
              split)})"

section \<open>All of them, and the calculate action\<close>

fun check_lines :: "nat \<Rightarrow> invoice_body_item list \<Rightarrow> int \<Rightarrow> violation list option" where
  "check_lines i [] pattern = Some []"
| "check_lines i (item # items) pattern = do {
     vs \<leftarrow> check_line item i pattern;
     ws \<leftarrow> check_lines (Suc i) items pattern;
     Some (vs @ ws)}"

definition check_arithmetic :: "invoice \<Rightarrow> int \<Rightarrow> violation list option" where
  "check_arithmetic ivc pattern = do {
     l \<leftarrow> check_lines 0 (body ivc) pattern;
     t \<leftarrow> check_totals ivc;
     s \<leftarrow> check_settlement ivc;
     Some (l @ t @ s)}"

text \<open>\<open>item.f = round(x)\<close>, one assignment after the other.\<close>

definition recompute_line :: "int \<Rightarrow> invoice_body_item \<Rightarrow> invoice_body_item option" where
  "recompute_line pattern item = do {
     x \<leftarrow> pre_discount item pattern;  n \<leftarrow> py_round x;
     let item = item\<lparr>prdis := Some n\<rparr>;
     x \<leftarrow> after_discount item pattern; n \<leftarrow> py_round x;
     let item = item\<lparr>adis := Some n\<rparr>;
     x \<leftarrow> vat item pattern; n \<leftarrow> py_round x;
     let item = item\<lparr>vam := Some n\<rparr>;
     x \<leftarrow> line_total item pattern; n \<leftarrow> py_round x;
     Some (item\<lparr>tsstam := Some n\<rparr>)}"

fun recompute_lines :: "int \<Rightarrow> invoice_body_item list \<Rightarrow> invoice_body_item list option" where
  "recompute_lines pattern [] = Some []"
| "recompute_lines pattern (item # items) = do {
     item' \<leftarrow> recompute_line pattern item;
     items' \<leftarrow> recompute_lines pattern items;
     Some (item' # items')}"

definition recompute :: "invoice \<Rightarrow> int \<Rightarrow> invoice option" where
  "recompute ivc pattern = do {
     b \<leftarrow> recompute_lines pattern (body ivc);
     let h = header ivc;
     x \<leftarrow> sum_attr b prdis; n \<leftarrow> py_round x; let h = h\<lparr>tprdis := Some n\<rparr>;
     x \<leftarrow> sum_attr b dis;   n \<leftarrow> py_round x; let h = h\<lparr>tdis := Some n\<rparr>;
     x \<leftarrow> sum_attr b adis;  n \<leftarrow> py_round x; let h = h\<lparr>tadis := Some n\<rparr>;
     x \<leftarrow> sum_attr b vam;   n \<leftarrow> py_round x; let h = h\<lparr>tvam := Some n\<rparr>;
     x \<leftarrow> sum_attr b odam;
     y \<leftarrow> sum_attr b olam;
     n \<leftarrow> py_round (fadd x y); let h = h\<lparr>todam := Some n\<rparr>;
     x \<leftarrow> sum_attr b tsstam; n \<leftarrow> py_round x; let h = h\<lparr>tbill := Some n\<rparr>;
     Some (ivc\<lparr>header := h, body := b\<rparr>)}"

section \<open>Recomputing settles the rules\<close>

lemma float_of_int_round:
  assumes "double x"
  shows "\<exists>v. float_of_int (round_half_even x) = Some v"
proof -
  have rep: "representable x" and lt: "\<bar>x\<bar> < double_limit" using assms by (simp_all add: double_def)
  show ?thesis
  proof (cases "2 ^ 52 \<le> \<bar>x\<bar>")
    case True
    then obtain k where k: "x = of_int k" using representable_large_int [OF rep] by blast
    then have "fl (of_int k) = of_int k" using rep by (simp add: fl_representable)
    then show ?thesis using lt by (simp add: k float_of_int_Some)
  next
    case False
    then have "\<bar>of_int (round_half_even x) :: rat\<bar> \<le> of_int (2 ^ 53)"
      using round_half_even_error [of x] unfolding abs_le_iff not_le abs_less_iff by simp
    then have "\<bar>round_half_even x\<bar> \<le> 2 ^ 53" by (simp only: of_int_abs [symmetric] of_int_le_iff)
    then show ?thesis by (auto simp: float_of_int_small)
  qed
qed

text \<open>The amount written by \<open>round(x)\<close> is read back, and is not off.\<close>

lemma round_settles:
  assumes "is_double x" "py_round x = Some n"
  shows "\<exists>v. n_int (Some n) = Some v \<and> \<not> off_by v x"
proof -
  from assms obtain a where a: "x = Fin a" "double a" "n = round_half_even a"
    by (cases x) (auto simp: is_double_def)
  obtain v where v: "float_of_int (round_half_even a) = Some v" using float_of_int_round [OF a(2)] by blast
  obtain d where "fsub v (Fin a) = Fin d" "\<bar>d\<bar> \<le> 1 / 2" using round_back [OF a(2) v] by blast
  then show ?thesis using v by (simp add: n_int_def a off_by_def tolerance_rial_def)
qed

lemma n_int_double: "n_int v = Some x \<Longrightarrow> is_double x"
  using double_int [of 0] by (auto simp: n_int_def is_double_def float_of_int_double [unfolded is_double_def] split: option.splits)

lemma sum_from_double: "sum_from acc attr xs = Some s \<Longrightarrow> is_double acc \<Longrightarrow> is_double s"
  by (induction acc attr xs rule: sum_from.induct)
    (auto simp: bind_eq_Some_conv fadd_double n_int_double)

lemma sum_attr_double: "sum_attr xs attr = Some s \<Longrightarrow> is_double s"
  unfolding sum_attr_def using double_int [of 0] by (auto elim: sum_from_double simp: is_double_def [of "Fin 0"])

lemma pre_discount_double:
  "pre_discount item p = Some x \<Longrightarrow> is_double (n_float (fee item)) \<Longrightarrow> is_double x"
  by (auto simp: pre_discount_def fmul_double bind_eq_Some_conv split: if_splits)

lemma after_discount_double:
  "after_discount item p = Some x \<Longrightarrow> is_double (n_float (fee item)) \<Longrightarrow> is_double x"
  by (auto simp: after_discount_def bind_eq_Some_conv split: if_splits
      intro!: fsub_double fadd_double intro: n_int_double pre_discount_double)

lemma vat_double: "vat item p = Some x \<Longrightarrow> is_double x"
  by (auto simp: vat_def Let_def bind_eq_Some_conv split: if_splits
      intro!: fadd_double fdiv_pos_double fmul_double)

lemma line_total_double: "line_total item p = Some x \<Longrightarrow> is_double x"
  by (auto simp: line_total_def bind_eq_Some_conv split: if_splits intro!: fadd_double intro: n_int_double)

lemmas stage_defs = pre_discount_def after_discount_def vat_def line_total_def

lemma stages_stable [simp]:
  "pre_discount (item\<lparr>prdis := a\<rparr>) p = pre_discount item p"
  "pre_discount (item\<lparr>adis := a\<rparr>) p = pre_discount item p"
  "pre_discount (item\<lparr>vam := a\<rparr>) p = pre_discount item p"
  "pre_discount (item\<lparr>tsstam := a\<rparr>) p = pre_discount item p"
  "after_discount (item\<lparr>prdis := a\<rparr>) p = after_discount item p"
  "after_discount (item\<lparr>adis := a\<rparr>) p = after_discount item p"
  "after_discount (item\<lparr>vam := a\<rparr>) p = after_discount item p"
  "after_discount (item\<lparr>tsstam := a\<rparr>) p = after_discount item p"
  "vat (item\<lparr>vam := a\<rparr>) p = vat item p"
  "vat (item\<lparr>tsstam := a\<rparr>) p = vat item p"
  "line_total (item\<lparr>tsstam := a\<rparr>) p = line_total item p"
  by (simp_all add: stage_defs Let_def)

definition filled_rules :: "pystr set" where
  "filled_rules = lit ` {''arithmetic.prdis'', ''arithmetic.adis'', ''arithmetic.vam'',
     ''arithmetic.tsstam'', ''arithmetic.tprdis'', ''arithmetic.tdis'', ''arithmetic.tadis'',
     ''arithmetic.tvam'', ''arithmetic.todam'', ''arithmetic.tbill''}"

definition filled_ok :: "violation list \<Rightarrow> bool" where
  "filled_ok vs = (\<forall>v \<in> set vs. v_rule v \<notin> filled_rules)"

lemma filled_ok_simps [simp]:
  "filled_ok []" "filled_ok (vs @ ws) \<longleftrightarrow> filled_ok vs \<and> filled_ok ws"
  "filled_ok [v] \<longleftrightarrow> v_rule v \<notin> filled_rules"
  by (auto simp: filled_ok_def)

lemma filled_ok_broken: "\<not> b \<or> v_rule v \<notin> filled_rules \<Longrightarrow> filled_ok (broken b v)"
  by (auto simp: broken_def)

lemma v_rule_line_violation [simp]: "v_rule (line_violation i f r e a) = r"
  by (simp add: line_violation_def new_violation_def)

lemma not_filled:
  "lit ''arithmetic.prdis.positive'' \<notin> filled_rules" "lit ''arithmetic.dis.non_negative'' \<notin> filled_rules"
  "lit ''arithmetic.dis.at_most_prdis'' \<notin> filled_rules" "lit ''arithmetic.adis.non_negative'' \<notin> filled_rules"
  "lit ''arithmetic.vra.non_negative'' \<notin> filled_rules"
  "lit ''arithmetic.vra.zero_for_pattern'' \<notin> filled_rules"
  "lit ''arithmetic.tprdis.positive'' \<notin> filled_rules" "lit ''settlement.method'' \<notin> filled_rules"
  "lit ''settlement.split_required'' \<notin> filled_rules" "lit ''settlement.cap.positive'' \<notin> filled_rules"
  "lit ''settlement.insp.positive'' \<notin> filled_rules" "lit ''settlement.split_balances'' \<notin> filled_rules"
  "lit ''settlement.cap.below_total'' \<notin> filled_rules" "lit ''settlement.insp.below_total'' \<notin> filled_rules"
  by (simp_all add: filled_rules_def)

lemma recompute_line_settled:
  assumes fee: "is_double (n_float (fee item))"
    and r: "recompute_line pattern item = Some item'"
  shows "\<exists>vs. check_line item' i pattern = Some vs \<and> filled_ok vs"
proof -
  from r obtain es x1 n1 "is" x2 n2 ks x3 n3 os x4 n4 where
    1: "pre_discount item pattern = Some es" "py_round es = Some n1" and
    2: "after_discount item pattern = Some is" "py_round is = Some n2" and
    3: "vat (item\<lparr>prdis := Some n1, adis := Some n2\<rparr>) pattern = Some ks" "py_round ks = Some n3" and
    4: "line_total (item\<lparr>prdis := Some n1, adis := Some n2, vam := Some n3\<rparr>) pattern = Some os"
       "py_round os = Some n4" and
    item': "item' = item\<lparr>prdis := Some n1, adis := Some n2, vam := Some n3, tsstam := Some n4\<rparr>"
    by (auto simp: recompute_line_def bind_eq_Some_conv Let_def)
  obtain p where p: "n_int (Some n1) = Some p" "\<not> off_by p es"
    using round_settles [OF pre_discount_double [OF 1(1) fee] 1(2)] by blast
  obtain a where a: "n_int (Some n2) = Some a" "\<not> off_by a is"
    using round_settles [OF after_discount_double [OF 2(1) fee] 2(2)] by blast
  obtain v where v: "n_int (Some n3) = Some v" "\<not> off_by v ks"
    using round_settles [OF vat_double [OF 3(1)] 3(2)] by blast
  obtain t where t: "n_int (Some n4) = Some t" "\<not> off_by t os"
    using round_settles [OF line_total_double [OF 4(1)] 4(2)] by blast
  obtain d where d: "n_int (dis item) = Some d"
    using 2(1) by (auto simp: after_discount_def bind_eq_Some_conv)
  have stages: "pre_discount item' pattern = Some es" "after_discount item' pattern = Some is"
    "vat item' pattern = Some ks" "line_total item' pattern = Some os"
    using 1 2 3 4 by (simp_all add: item')
  have amounts: "n_int (prdis item') = Some p" "n_int (dis item') = Some d" "n_int (adis item') = Some a"
    "n_int (vam item') = Some v" "n_int (tsstam item') = Some t"
    using p a v t d by (simp_all add: item')
  show ?thesis
    unfolding check_line_def
    by (simp add: stages amounts Let_def not_filled p a v t filled_ok_broken)
qed

lemma recompute_lines_settled:
  assumes "recompute_lines pattern items = Some items'"
    and "\<forall>item \<in> set items. is_double (n_float (fee item))"
  shows "\<exists>vs. check_lines i items' pattern = Some vs \<and> filled_ok vs"
  using assms
proof (induction items arbitrary: items' i)
  case (Cons item items)
  then obtain x xs where x: "recompute_line pattern item = Some x"
    and xs: "recompute_lines pattern items = Some xs" and items': "items' = x # xs"
    by (auto simp: bind_eq_Some_conv)
  from Cons.prems have "\<forall>item \<in> set items. is_double (n_float (fee item))" by simp
  from Cons.IH [OF xs this] obtain ws where "check_lines (Suc i) xs pattern = Some ws" "filled_ok ws"
    by blast
  moreover obtain vs where "check_line x i pattern = Some vs" "filled_ok vs"
    using recompute_line_settled [OF _ x] Cons.prems(2) by auto
  ultimately show ?case by (simp add: items')
qed simp

lemma total_settled:
  assumes "is_double x" "py_round x = Some n"
  shows "total_violation name (Some n) x = Some []"
  using round_settles [OF assms] by (auto simp: total_violation_def broken_def)

text \<open>What \<open>recompute\<close> does, as one equation per total.\<close>

lemma recompute_Some:
  assumes "recompute ivc pattern = Some ivc'"
  obtains b h s1 n1 s2 n2 s3 n3 s4 n4 s5 s6 n5 s7 n7 where
    "recompute_lines pattern (body ivc) = Some b"
    "sum_attr b prdis = Some s1" "py_round s1 = Some n1"
    "sum_attr b dis = Some s2" "py_round s2 = Some n2"
    "sum_attr b adis = Some s3" "py_round s3 = Some n3"
    "sum_attr b vam = Some s4" "py_round s4 = Some n4"
    "sum_attr b odam = Some s5" "sum_attr b olam = Some s6" "py_round (fadd s5 s6) = Some n5"
    "sum_attr b tsstam = Some s7" "py_round s7 = Some n7"
    "ivc' = ivc\<lparr>header := (header ivc)\<lparr>tprdis := Some n1, tdis := Some n2, tadis := Some n3,
       tvam := Some n4, todam := Some n5, tbill := Some n7\<rparr>, body := b\<rparr>"
  using assms by (auto simp: recompute_def bind_eq_Some_conv Let_def)

lemma recompute_totals_settled:
  assumes "recompute ivc pattern = Some ivc'"
  shows "\<exists>vs. check_totals ivc' = Some vs \<and> filled_ok vs"
  using assms
proof (rule recompute_Some)
  fix b h s1 n1 s2 n2 s3 n3 s4 n4 s5 s6 n5 s7 n7
  assume s: "sum_attr b prdis = Some s1" "sum_attr b dis = Some s2" "sum_attr b adis = Some s3"
    "sum_attr b vam = Some s4" "sum_attr b odam = Some s5" "sum_attr b olam = Some s6"
    "sum_attr b tsstam = Some s7"
    and n: "py_round s1 = Some n1" "py_round s2 = Some n2" "py_round s3 = Some n3"
    "py_round s4 = Some n4" "py_round (fadd s5 s6) = Some n5" "py_round s7 = Some n7"
    and ivc': "ivc' = ivc\<lparr>header := (header ivc)\<lparr>tprdis := Some n1, tdis := Some n2,
       tadis := Some n3, tvam := Some n4, todam := Some n5, tbill := Some n7\<rparr>, body := b\<rparr>"
  obtain t where t: "n_int (Some n1) = Some t"
    using round_settles [OF sum_attr_double [OF s(1)] n(1)] by blast
  have "is_double (fadd s5 s6)" using s by (intro fadd_double sum_attr_double)
  note settled = this [THEN total_settled, OF n(5)]
    total_settled [OF sum_attr_double [OF s(1)] n(1)] total_settled [OF sum_attr_double [OF s(2)] n(2)]
    total_settled [OF sum_attr_double [OF s(3)] n(3)] total_settled [OF sum_attr_double [OF s(4)] n(4)]
    total_settled [OF sum_attr_double [OF s(7)] n(6)]
  show ?thesis
    by (simp add: ivc' check_totals_def s Let_def settled t filled_ok_broken new_violation_def not_filled)
qed

lemma filled_ok_settlement: "check_settlement ivc = Some vs \<Longrightarrow> filled_ok vs"
  by (auto simp: check_settlement_def Let_def bind_eq_Some_conv filled_ok_broken not_filled
      amount_violation_def new_violation_def split_required_def split: option.splits if_splits)

lemma settlement_total:
  assumes "n_int (setm (header ivc)) \<noteq> None" "n_int (cap (header ivc)) \<noteq> None"
    "n_int (insp (header ivc)) \<noteq> None" "n_int (tbill (header ivc)) \<noteq> None"
    "n_int (todam (header ivc)) \<noteq> None" "n_int (tvam (header ivc)) \<noteq> None"
  shows "\<exists>vs. check_settlement ivc = Some vs"
  using assms by (auto simp: check_settlement_def Let_def n_int_def [of "setm _"] split: option.splits)


section \<open>The float rules against the integer rules\<close>

definition amount :: "int option \<Rightarrow> int" where
  "amount v = (case v of None \<Rightarrow> 0 | Some k \<Rightarrow> k)"

definition column :: "invoice_body_item list \<Rightarrow> (invoice_body_item \<Rightarrow> int option) \<Rightarrow> int" where
  "column items attr = (\<Sum>x \<leftarrow> items. amount (attr x))"

definition column_abs :: "invoice_body_item list \<Rightarrow> (invoice_body_item \<Rightarrow> int option) \<Rightarrow> int" where
  "column_abs items attr = (\<Sum>x \<leftarrow> items. \<bar>amount (attr x)\<bar>)"

lemma n_int_exact: "\<bar>amount v\<bar> \<le> 2 ^ 53 \<Longrightarrow> n_int v = Some (Fin (of_int (amount v)))"
  by (cases v) (simp_all add: n_int_def amount_def float_of_int_small)

lemma fadd_int: "\<bar>a + b\<bar> \<le> 2 ^ 53 \<Longrightarrow> fadd (Fin (of_int a)) (Fin (of_int b)) = Fin (of_int (a + b))"
  using rnd_int [of "a + b"] by simp

lemma fsub_int: "\<bar>a - b\<bar> \<le> 2 ^ 53 \<Longrightarrow> fsub (Fin (of_int a)) (Fin (of_int b)) = Fin (of_int (a - b))"
  using rnd_int [of "a - b"] by (simp add: fsub_def)

lemma off_by_int:
  "\<bar>a - b\<bar> \<le> 2 ^ 53 \<Longrightarrow> off_by (Fin (of_int a)) (Fin (of_int b)) \<longleftrightarrow> 1 < \<bar>a - b\<bar>"
proof -
  assume "\<bar>a - b\<bar> \<le> 2 ^ 53"
  then have "off_by (Fin (of_int a)) (Fin (of_int b)) \<longleftrightarrow> (1::rat) < of_int \<bar>a - b\<bar>"
    by (simp add: off_by_def fsub_int tolerance_rial_def)
  then show ?thesis by (metis of_int_1 of_int_less_iff)
qed

lemma fle_int: "fle (Fin (of_int a)) (Fin (of_int b)) \<longleftrightarrow> a \<le> b"
  by (simp add: not_less)

lemma fle_int_0: "fle (Fin (of_int a)) (Fin 0) \<longleftrightarrow> a \<le> 0"
  using fle_int [of a 0] by simp

lemma column_abs_nonneg: "0 \<le> column_abs xs f"
  by (induction xs) (simp_all add: column_abs_def)

lemma column_le_abs: "\<bar>column xs f\<bar> \<le> column_abs xs f"
proof (induction xs)
  case (Cons x xs)
  then show ?case by (simp add: column_def column_abs_def)
qed (simp add: column_def column_abs_def)

lemma sum_from_exact:
  "\<bar>a\<bar> + column_abs xs f \<le> 2 ^ 53 \<Longrightarrow> sum_from (Fin (of_int a)) f xs = Some (Fin (of_int (a + column xs f)))"
proof (induction xs arbitrary: a)
  case (Cons x xs)
  let ?k = "amount (f x)"
  have c: "column_abs (x # xs) f = \<bar>?k\<bar> + column_abs xs f" "column (x # xs) f = ?k + column xs f"
    by (simp_all add: column_abs_def column_def)
  have k: "\<bar>?k\<bar> \<le> 2 ^ 53" "\<bar>a + ?k\<bar> \<le> 2 ^ 53" "\<bar>a + ?k\<bar> + column_abs xs f \<le> 2 ^ 53"
    using Cons.prems column_abs_nonneg [of xs f] unfolding c by linarith+
  have "sum_from (Fin (of_int a)) f (x # xs) = sum_from (Fin (of_int (a + ?k))) f xs"
    by (simp only: sum_from.simps n_int_exact [OF k(1)] fadd_int [OF k(2)] bind.bind_lunit)
  also have "\<dots> = Some (Fin (of_int (a + ?k + column xs f)))" by (rule Cons.IH [OF k(3)])
  finally show ?case by (simp only: c add.assoc)
qed (simp add: column_def)

lemma sum_attr_exact: "column_abs xs f \<le> 2 ^ 53 \<Longrightarrow> sum_attr xs f = Some (Fin (of_int (column xs f)))"
  using sum_from_exact [of 0 xs f] by (simp add: sum_attr_def)

definition total_off :: "int option \<Rightarrow> int \<Rightarrow> bool" where
  "total_off t expected = (1 < \<bar>amount t - expected\<bar>)"

lemma total_violation_exact:
  assumes "\<bar>amount t\<bar> \<le> 2 ^ 51" "\<bar>e\<bar> \<le> 2 ^ 52"
  shows "total_violation name t (Fin (of_int e)) = Some (broken (total_off t e)
    ((new_violation (lit name) (lit (''arithmetic.'' @ name)))
      \<lparr>v_expected := Some (Fin (of_int e)), v_actual := Some (Fin (of_int (amount t)))\<rparr>))"
proof -
  have "\<bar>amount t\<bar> \<le> 2 ^ 53" "\<bar>amount t - e\<bar> \<le> 2 ^ 53" using assms by simp_all
  then show ?thesis by (simp add: total_violation_def n_int_exact off_by_int total_off_def)
qed

lemma map_rule_broken: "map v_rule (broken b v) = (if b then [v_rule v] else [])"
  by (simp add: broken_def)

lemma v_rule_violation [simp]: "v_rule (new_violation f r) = r"
  by (simp add: new_violation_def)

definition bounded_totals :: "invoice \<Rightarrow> bool" where
  "bounded_totals ivc = (let h = header ivc; b = body ivc in
     (\<forall>t \<in> {tprdis h, tdis h, tadis h, tvam h, tbill h, todam h}. \<bar>amount t\<bar> \<le> 2 ^ 51) \<and>
     (\<forall>f \<in> {prdis, dis, adis, vam, tsstam, odam, olam}. column_abs b f \<le> 2 ^ 51))"

text \<open>
  C33. On amounts up to \<open>2 ^ 51\<close> the totals computed in doubles decide exactly the integer
  rule: a header total is reported when and only when it differs from the integer sum of its
  column by more than one rial, and \<open>tprdis\<close> when it is not positive.
\<close>

theorem check_totals_exact:
  assumes "bounded_totals ivc"
  shows "\<exists>vs. check_totals ivc = Some vs \<and> map v_rule vs =
    (let h = header ivc; b = body ivc; rule = (\<lambda>broken name. if broken then [lit (''arithmetic.'' @ name)] else []) in
     rule (total_off (tprdis h) (column b prdis)) ''tprdis'' @
     rule (total_off (tdis h) (column b dis)) ''tdis'' @
     rule (total_off (tadis h) (column b adis)) ''tadis'' @
     rule (total_off (tvam h) (column b vam)) ''tvam'' @
     rule (total_off (tbill h) (column b tsstam)) ''tbill'' @
     rule (total_off (todam h) (column b odam + column b olam)) ''todam'' @
     rule (amount (tprdis h) \<le> 0) ''tprdis.positive'')"
proof -
  let ?h = "header ivc" and ?b = "body ivc"
  have t: "\<bar>amount (tprdis ?h)\<bar> \<le> 2 ^ 51" "\<bar>amount (tdis ?h)\<bar> \<le> 2 ^ 51" "\<bar>amount (tadis ?h)\<bar> \<le> 2 ^ 51"
    "\<bar>amount (tvam ?h)\<bar> \<le> 2 ^ 51" "\<bar>amount (tbill ?h)\<bar> \<le> 2 ^ 51" "\<bar>amount (todam ?h)\<bar> \<le> 2 ^ 51"
    and c: "column_abs ?b prdis \<le> 2 ^ 51" "column_abs ?b dis \<le> 2 ^ 51" "column_abs ?b adis \<le> 2 ^ 51"
      "column_abs ?b vam \<le> 2 ^ 51" "column_abs ?b tsstam \<le> 2 ^ 51" "column_abs ?b odam \<le> 2 ^ 51"
      "column_abs ?b olam \<le> 2 ^ 51"
    using assms by (simp_all add: bounded_totals_def Let_def)
  have s: "sum_attr ?b f = Some (Fin (of_int (column ?b f)))" and cb: "\<bar>column ?b f\<bar> \<le> 2 ^ 51"
    if "column_abs ?b f \<le> 2 ^ 51" for f
    using that sum_attr_exact [of ?b f] column_le_abs [of ?b f] by simp_all
  have cb': "\<bar>column ?b f\<bar> \<le> 2 ^ 52" if "column_abs ?b f \<le> 2 ^ 51" for f
    using cb [OF that] by simp
  have o: "\<bar>column ?b odam + column ?b olam\<bar> \<le> 2 ^ 52"
    using cb [OF c(6)] cb [OF c(7)] by simp
  have o': "\<bar>column ?b odam + column ?b olam\<bar> \<le> 2 ^ 53" using o by simp
  have n: "n_int (tprdis ?h) = Some (Fin (of_int (amount (tprdis ?h))))"
    using t(1) by (intro n_int_exact) simp
  note v = total_violation_exact [OF t(1) cb' [OF c(1)]] total_violation_exact [OF t(2) cb' [OF c(2)]]
    total_violation_exact [OF t(3) cb' [OF c(3)]] total_violation_exact [OF t(4) cb' [OF c(4)]]
    total_violation_exact [OF t(5) cb' [OF c(5)]] total_violation_exact [OF t(6) o]
  note sums = s [OF c(1)] s [OF c(2)] s [OF c(3)] s [OF c(4)] s [OF c(5)] s [OF c(6)] s [OF c(7)]
  show ?thesis
    unfolding check_totals_def Let_def sums bind.bind_lunit fadd_int [OF o'] v n fle_int_0
      option.inject ex_simps
    by (simp add: map_rule_broken)
qed

section \<open>The settlement split\<close>

lemma broken_eq_Nil [simp]: "broken b v = [] \<longleftrightarrow> \<not> b"
  by (simp add: broken_def)

definition bounded_settlement :: "invoice_header \<Rightarrow> bool" where
  "bounded_settlement h =
     (\<forall>t \<in> {setm h, cap h, insp h, tbill h, todam h, tvam h}. \<bar>amount t\<bar> \<le> 2 ^ 50)"

lemma settlement_exact:
  assumes "bounded_settlement h"
  shows "n_int (setm h) = Some (Fin (of_int (amount (setm h))))"
    "n_int (cap h) = Some (Fin (of_int (amount (cap h))))"
    "n_int (insp h) = Some (Fin (of_int (amount (insp h))))"
    "n_int (tbill h) = Some (Fin (of_int (amount (tbill h))))"
    "n_int (todam h) = Some (Fin (of_int (amount (todam h))))"
    "n_int (tvam h) = Some (Fin (of_int (amount (tvam h))))"
    "fsub (fsub (fsub (Fin (of_int (amount (tbill h)))) (Fin (of_int (amount (todam h)))))
       (Fin (of_int (amount (tvam h))))) (Fin (of_int (amount (insp h)))) =
     Fin (of_int (amount (tbill h) - amount (todam h) - amount (tvam h) - amount (insp h)))"
    "\<bar>amount (cap h) - (amount (tbill h) - amount (todam h) - amount (tvam h) - amount (insp h))\<bar> \<le> 2 ^ 53"
proof -
  have b: "\<bar>amount (setm h)\<bar> \<le> 2 ^ 50" "\<bar>amount (cap h)\<bar> \<le> 2 ^ 50" "\<bar>amount (insp h)\<bar> \<le> 2 ^ 50"
    "\<bar>amount (tbill h)\<bar> \<le> 2 ^ 50" "\<bar>amount (todam h)\<bar> \<le> 2 ^ 50" "\<bar>amount (tvam h)\<bar> \<le> 2 ^ 50"
    using assms by (simp_all add: bounded_settlement_def)
  show "n_int (setm h) = Some (Fin (of_int (amount (setm h))))"
    "n_int (cap h) = Some (Fin (of_int (amount (cap h))))"
    "n_int (insp h) = Some (Fin (of_int (amount (insp h))))"
    "n_int (tbill h) = Some (Fin (of_int (amount (tbill h))))"
    "n_int (todam h) = Some (Fin (of_int (amount (todam h))))"
    "n_int (tvam h) = Some (Fin (of_int (amount (tvam h))))"
    using b by (simp_all add: n_int_exact)
  have "\<bar>amount (tbill h) - amount (todam h)\<bar> \<le> 2 ^ 53"
    "\<bar>amount (tbill h) - amount (todam h) - amount (tvam h)\<bar> \<le> 2 ^ 53"
    "\<bar>amount (tbill h) - amount (todam h) - amount (tvam h) - amount (insp h)\<bar> \<le> 2 ^ 53"
    using b by simp_all
  then show "fsub (fsub (fsub (Fin (of_int (amount (tbill h)))) (Fin (of_int (amount (todam h)))))
       (Fin (of_int (amount (tvam h))))) (Fin (of_int (amount (insp h)))) =
     Fin (of_int (amount (tbill h) - amount (todam h) - amount (tvam h) - amount (insp h)))"
    by (simp only: fsub_int)
  show "\<bar>amount (cap h) - (amount (tbill h) - amount (todam h) - amount (tvam h) - amount (insp h))\<bar> \<le> 2 ^ 53"
    using b by simp
qed

text \<open>
  The settlement rules accept an invoice exactly when no method is given, or it is cash or
  credit, or it is split with both parts given, positive, below the total, and adding up with
  the taxes to the total within one rial (amounts up to \<open>2 ^ 50\<close>).
\<close>

theorem check_settlement_accepts:
  assumes "bounded_settlement (header ivc)"
  shows "check_settlement ivc = Some [] \<longleftrightarrow>
    (let h = header ivc in
     setm h = None \<or> setm h = Some 1 \<or> setm h = Some 2 \<or>
     (setm h = Some 3 \<and>
      (\<exists>c i. cap h = Some c \<and> insp h = Some i \<and> 0 < c \<and> 0 < i \<and>
         c < amount (tbill h) \<and> i < amount (tbill h) \<and>
         \<bar>c + i + amount (tvam h) + amount (todam h) - amount (tbill h)\<bar> \<le> 1)))"
proof -
  let ?h = "header ivc"
  note x = settlement_exact [OF assms]
  show ?thesis
  proof (cases "setm ?h")
    case None
    then show ?thesis by (simp add: check_settlement_def Let_def)
  next
    case (Some m)
    have m: "float_of_int m = Some (Fin (of_int m))"
      using x(1) by (simp add: Some n_int_def amount_def)
    consider "m = 1 \<or> m = 2" | "m \<noteq> 1" "m \<noteq> 2" "m \<noteq> 3" | "m = 3" by blast
    then show ?thesis
    proof cases
      case 1
      then show ?thesis using Some by (auto simp: check_settlement_def Let_def)
    next
      case 2
      then show ?thesis using Some m by (simp add: check_settlement_def Let_def)
    next
      case 3
      have set3: "setm ?h = Some 3" using 3 Some by simp
      show ?thesis
      proof (cases "cap ?h = None \<or> insp ?h = None")
        case True
        then show ?thesis
          by (auto simp: check_settlement_def Let_def set3 x split_required_def)
      next
        case False
        then obtain c i where ci: "cap ?h = Some c" "insp ?h = Some i" by auto
        have c: "amount (cap ?h) = c" "amount (insp ?h) = i" using ci by (simp_all add: amount_def)
        note y = x [unfolded c]
        have "check_settlement ivc = Some [] \<longleftrightarrow>
          \<not> 1 < \<bar>c - (amount (tbill ?h) - amount (todam ?h) - amount (tvam ?h) - i)\<bar> \<and>
          \<not> amount (tbill ?h) \<le> c \<and> \<not> amount (tbill ?h) \<le> i \<and> \<not> c \<le> 0 \<and> \<not> i \<le> 0"
          unfolding check_settlement_def Let_def set3 option.case y bind.bind_lunit
            off_by_int [OF y(8)] fle_int fle_int_0
          by (auto simp: ci split_required_def)
        also have "\<dots> \<longleftrightarrow> 0 < c \<and> 0 < i \<and> c < amount (tbill ?h) \<and> i < amount (tbill ?h) \<and>
          \<bar>c + i + amount (tvam ?h) + amount (todam ?h) - amount (tbill ?h)\<bar> \<le> 1"
          by (auto simp: abs_le_iff not_less not_le)
        finally show ?thesis by (simp add: Let_def set3 ci)
      qed
    qed
  qed
qed

section \<open>Concrete invoices\<close>

lemma rnd_numeral:
  "numeral k \<le> (2::int) ^ 53 \<Longrightarrow> rnd (numeral k) = Fin (numeral k)" "rnd 0 = Fin 0" "rnd 1 = Fin 1"
  using rnd_int [of "numeral k"] rnd_int [of 0] rnd_int [of 1] by simp_all

definition sample_invoice :: invoice where
  "sample_invoice = new_invoice (new_header 1665490063447 1)
     [(new_item (lit ''2720000114542''))\<lparr>am := Some (Fin 2), fee := Some (Fin 150), vra := Some (Fin 9)\<rparr>]"

lemma round_half_even_numeral [simp]: "round_half_even (numeral k) = numeral k" "round_half_even 0 = 0"
  using round_half_even_of_int [of "numeral k"] round_half_even_of_int [of 0] by simp_all

lemma n_int_numeral [simp]:
  "numeral k \<le> (2::int) ^ 53 \<Longrightarrow> n_int (Some (numeral k)) = Some (Fin (numeral k))" "n_int None = Some (Fin 0)"
  using n_int_exact [of "Some (numeral k)"] by (simp_all add: amount_def n_int_def)

lemmas money_eval = new_invoice_def new_header_def new_item_def stage_defs Let_def n_float_def
  rnd_numeral fsub_def sum_attr_def

lemma sample_recompute:
  "\<exists>ivc'. recompute sample_invoice 1 = Some ivc' \<and> tbill (header ivc') = Some 327"
  by (simp add: sample_invoice_def recompute_def recompute_line_def money_eval)

definition sample_filed :: invoice where
  "sample_filed = new_invoice
     ((new_header 1665490063447 1)\<lparr>tprdis := Some 300, tbill := Some 330, setm := Some 3, cap := Some 130, insp := Some 200\<rparr>)
     [(new_item (lit ''2720000114542''))\<lparr>prdis := Some 300, tsstam := Some 327\<rparr>]"

theorem check_totals_exact_witness:
  "\<exists>vs. check_totals sample_filed = Some vs \<and> map v_rule vs = [lit ''arithmetic.tbill'']"
  using check_totals_exact [of sample_filed]
  by (simp add: sample_filed_def new_invoice_def new_header_def new_item_def bounded_totals_def
      Let_def amount_def column_def column_abs_def total_off_def)

theorem check_settlement_accepts_witness: "check_settlement sample_filed = Some []"
  using check_settlement_accepts [of sample_filed]
  by (simp add: sample_filed_def new_invoice_def new_header_def bounded_settlement_def
      Let_def amount_def)

end
