(* ===== verification/Rules.thy ===== *)
theory Rules
  imports Json
begin

text \<open>
  \<open>rules/spec.py\<close>: the obligation matrix as typed rules and its loader. The parsed YAML
  document is a \<open>json\<close> value whose integer keys are written in decimal, which \<open>int(key)\<close> reads
  back. Titles, messages and references are display text and not modelled.

  Theorem: a rule set that loads holds no condition the engine cannot evaluate.
\<close>

section \<open>The rules\<close>

datatype obligation = REQUIRED | OPTIONAL | CONDITIONAL | NOT_APPLICABLE

text \<open>\<open>Obligation(value)\<close>.\<close>

definition obligation_of :: "json \<Rightarrow> obligation result" where
  "obligation_of v =
     (if v = JStr (lit ''required'') then Inr REQUIRED
      else if v = JStr (lit ''optional'') then Inr OPTIONAL
      else if v = JStr (lit ''conditional'') then Inr CONDITIONAL
      else if v = JStr (lit ''not_applicable'') then Inr NOT_APPLICABLE
      else Inl ValueError)"

definition conditions :: "(pystr \<times> ((pystr \<times> json) list \<Rightarrow> bool)) list" where
  "conditions =
    [(lit ''setm == 3'', \<lambda>h. map_of h (lit ''setm'') = Some (JInt 3)),
     (lit ''insr == 1'', \<lambda>h. map_of h (lit ''insr'') = Some (JInt 1)),
     (lit ''ins in (2, 3, 4)'', \<lambda>h. map_of h (lit ''ins'') \<in> {Some (JInt 2), Some (JInt 3), Some (JInt 4)})]"

definition UNSPECIFIED :: json where
  "UNSPECIFIED = JStr (lit ''unspecified'')"

record field_rule =
  f_name :: pystr
  f_obligation :: obligation
  f_when :: json
  f_by_type :: "(int \<times> obligation) list"

definition for_type :: "field_rule \<Rightarrow> int option \<Rightarrow> obligation" where
  "for_type r invoice_type =
     (case invoice_type of
        None \<Rightarrow> f_obligation r
      | Some t \<Rightarrow> (case map_of (f_by_type r) t of Some ob \<Rightarrow> ob | None \<Rightarrow> f_obligation r))"

text \<open>\<open>_CONDITIONS.get(when)\<close>.\<close>

definition condition_of :: "json \<Rightarrow> ((pystr \<times> json) list \<Rightarrow> bool) option" where
  "condition_of w = (case w of JStr s \<Rightarrow> map_of conditions s | _ \<Rightarrow> None)"

definition rule_applies :: "field_rule \<Rightarrow> (pystr \<times> json) list \<Rightarrow> bool" where
  "rule_applies r h =
     (if f_obligation r \<noteq> CONDITIONAL then True
      else if f_when r = JNull \<or> f_when r = UNSPECIFIED then False
      else case condition_of (f_when r) of None \<Rightarrow> False | Some predicate \<Rightarrow> predicate h)"

type_synonym section_rules = "(pystr \<times> field_rule) list"

record pattern_spec =
  p_number :: int
  p_header :: section_rules
  p_body :: section_rules
  p_payment :: section_rules
  p_sg :: section_rules
  p_types :: "int list"
  p_coverage :: json

text \<open>\<open>PatternSpec.section\<close> on one of its four names.\<close>

definition section_of :: "pattern_spec \<Rightarrow> pystr \<Rightarrow> section_rules" where
  "section_of ps s =
     (if s = lit ''header'' then p_header ps else if s = lit ''body'' then p_body ps
      else if s = lit ''payment'' then p_payment ps else p_sg ps)"

definition is_complete :: "pattern_spec \<Rightarrow> bool" where
  "is_complete p = (p_coverage p = JStr (lit ''complete''))"

definition required_fields :: "section_rules \<Rightarrow> pystr list" where
  "required_fields rules = map fst (filter (\<lambda>(n, r). f_obligation r = REQUIRED) rules)"

record enum_rule =
  e_values :: "int list"

record rule_set =
  rs_version :: int
  rs_patterns :: "(int \<times> pattern_spec) list"
  rs_enums :: "(pystr \<times> enum_rule) list"
  rs_default :: obligation

definition pattern_of :: "rule_set \<Rightarrow> int \<Rightarrow> pattern_spec option" where
  "pattern_of rs number = map_of (rs_patterns rs) number"

section \<open>Loading\<close>

text \<open>Truth of a value, \<open>int(value)\<close>, and iteration over \<open>(value or {}).items()\<close>.\<close>

fun truthy :: "json \<Rightarrow> bool" where
  "truthy JNull = False"
| "truthy (JBool b) = b"
| "truthy (JInt n) = (n \<noteq> 0)"
| "truthy (JFloat x) = (x \<noteq> Fin 0)"
| "truthy (JStr s) = (s \<noteq> [])"
| "truthy (JList vs) = (vs \<noteq> [])"
| "truthy (JObj kvs) = (kvs \<noteq> [])"

definition truncate_float :: "pyfloat \<Rightarrow> int result" where
  "truncate_float x =
     (case x of
        Fin a \<Rightarrow> Inr (if 0 \<le> a then \<lfloor>a\<rfloor> else \<lceil>a\<rceil>)
      | NaN \<Rightarrow> Inl ValueError
      | _ \<Rightarrow> Inl OverflowError)"

fun int_of :: "json \<Rightarrow> int result" where
  "int_of (JInt n) = Inr n"
| "int_of (JBool b) = Inr (if b then 1 else 0)"
| "int_of (JFloat x) = truncate_float x"
| "int_of (JStr s) = (case py_int 10 s of Some n \<Rightarrow> Inr n | None \<Rightarrow> Inl ValueError)"
| "int_of _ = Inl TypeError"

definition items_of :: "json option \<Rightarrow> (pystr \<times> json) list result" where
  "items_of v =
     (case v of
        None \<Rightarrow> Inr []
      | Some (JObj kvs) \<Rightarrow> Inr kvs
      | Some x \<Rightarrow> if truthy x then Inl TypeError else Inr [])"

definition elements_of :: "json \<Rightarrow> json list result" where
  "elements_of v = (case v of JList vs \<Rightarrow> Inr vs | JObj kvs \<Rightarrow> Inr (map (JStr \<circ> fst) kvs)
     | JStr s \<Rightarrow> Inr (map (\<lambda>c. JStr [c]) s) | _ \<Rightarrow> Inl TypeError)"

text \<open>A missing or invalid obligation becomes a \<open>ConfigurationError\<close>.\<close>

definition read_obligation :: "(pystr \<times> json) list \<Rightarrow> obligation result" where
  "read_obligation spec =
     (case map_of spec (lit ''obligation'') of
        None \<Rightarrow> Inl ConfigurationError
      | Some v \<Rightarrow> (case obligation_of v of Inl _ \<Rightarrow> Inl ConfigurationError | Inr ob \<Rightarrow> Inr ob))"

definition hashable :: "json \<Rightarrow> bool" where
  "hashable v = (case v of JList _ \<Rightarrow> False | JObj _ \<Rightarrow> False | _ \<Rightarrow> True)"

definition check_when :: "obligation \<Rightarrow> json \<Rightarrow> unit result" where
  "check_when ob w =
     (if ob = CONDITIONAL \<and> w \<noteq> UNSPECIFIED then
        (if \<not> truthy w then Inl ConfigurationError
         else if \<not> hashable w then Inl TypeError
         else if condition_of w = None then Inl ConfigurationError
         else Inr ())
      else Inr ())"

definition read_by_type :: "json option \<Rightarrow> (int \<times> obligation) list result" where
  "read_by_type v =
     bindE (items_of v) (\<lambda>kvs.
     bindE (mapE (\<lambda>(t, ob). bindE (int_of (JStr t)) (\<lambda>n. bindE (obligation_of ob) (\<lambda>ob. Inr (n, ob)))) kvs)
       (\<lambda>xs. Inr (foldl (\<lambda>d (k, v). dict_set k v d) [] xs)))"

definition get_or_null :: "(pystr \<times> json) list \<Rightarrow> string \<Rightarrow> json" where
  "get_or_null d key = (case map_of d (lit key) of None \<Rightarrow> JNull | Some v \<Rightarrow> v)"

definition read_rule :: "pystr \<Rightarrow> json \<Rightarrow> field_rule result" where
  "read_rule name spec =
     (case spec of
        JObj d \<Rightarrow>
          bindE (read_obligation d) (\<lambda>ob.
          bindE (check_when ob (get_or_null d ''when'')) (\<lambda>_.
          bindE (read_by_type (map_of d (lit ''by_type''))) (\<lambda>bt.
            Inr \<lparr>f_name = name, f_obligation = ob, f_when = get_or_null d ''when'', f_by_type = bt\<rparr>)))
      | _ \<Rightarrow> Inl TypeError)"

definition field_rules :: "json option \<Rightarrow> section_rules result" where
  "field_rules raw =
     bindE (items_of raw) (\<lambda>kvs. mapE (\<lambda>(name, spec). bindE (read_rule name spec) (\<lambda>r. Inr (name, r))) kvs)"

definition excluded_rule :: "pystr \<Rightarrow> field_rule" where
  "excluded_rule wire = \<lparr>f_name = wire, f_obligation = NOT_APPLICABLE, f_when = JNull, f_by_type = []\<rparr>"

fun wire_names :: "json list \<Rightarrow> pystr list result" where
  "wire_names [] = Inr []"
| "wire_names (JStr s # vs) = bindE (wire_names vs) (\<lambda>ns. Inr (s # ns))"
| "wire_names (v # vs) = Inl TypeError"

definition exclude :: "json option \<Rightarrow> section_rules \<Rightarrow> section_rules result" where
  "exclude names rules =
     (case names of
        None \<Rightarrow> Inr rules
      | Some v \<Rightarrow>
          bindE (elements_of v) (\<lambda>vs. bindE (wire_names vs) (\<lambda>ns.
            Inr (foldl (\<lambda>rs wire. dict_set wire (excluded_rule wire) rs) rules ns))))"

definition read_types :: "json option \<Rightarrow> int list result" where
  "read_types v =
     (case v of
        None \<Rightarrow> Inr [1]
      | Some x \<Rightarrow> if \<not> truthy x then Inr [1] else bindE (elements_of x) (mapE int_of))"

definition read_pattern :: "pystr \<Rightarrow> json \<Rightarrow> (int \<times> pattern_spec) result" where
  "read_pattern number spec =
     (case spec of
        JObj d \<Rightarrow>
          bindE (int_of (JStr number)) (\<lambda>n.
          bindE (field_rules (map_of d (lit ''header''))) (\<lambda>h.
          bindE (field_rules (map_of d (lit ''body''))) (\<lambda>b.
          bindE (field_rules (map_of d (lit ''payment''))) (\<lambda>p.
          bindE (field_rules (map_of d (lit ''sg''))) (\<lambda>s.
          bindE (items_of (map_of d (lit ''excluded''))) (\<lambda>ex.
          bindE (exclude (map_of ex (lit ''header'')) h) (\<lambda>h.
          bindE (exclude (map_of ex (lit ''body'')) b) (\<lambda>b.
          bindE (exclude (map_of ex (lit ''payment'')) p) (\<lambda>p.
          bindE (exclude (map_of ex (lit ''sg'')) s) (\<lambda>s.
          bindE (read_types (map_of d (lit ''types''))) (\<lambda>ts.
            Inr (n, \<lparr>p_number = n, p_header = h, p_body = b, p_payment = p, p_sg = s, p_types = ts,
              p_coverage = (case map_of d (lit ''coverage'') of None \<Rightarrow> JStr (lit ''partial'') | Some c \<Rightarrow> c)\<rparr>))))))))))))
      | _ \<Rightarrow> Inl TypeError)"

definition read_enum :: "pystr \<Rightarrow> json \<Rightarrow> (pystr \<times> enum_rule) result" where
  "read_enum name spec =
     (case spec of
        JObj d \<Rightarrow>
          (case map_of d (lit ''values'') of
             None \<Rightarrow> Inl KeyError
           | Some v \<Rightarrow> bindE (elements_of v) (\<lambda>vs. bindE (mapE int_of vs) (\<lambda>ns. Inr (name, \<lparr>e_values = ns\<rparr>))))
      | _ \<Rightarrow> Inl TypeError)"

text \<open>\<open>load_rules\<close> on the parsed document; \<open>None\<close> is a file that cannot be read or parsed.\<close>

definition load_rules :: "json option \<Rightarrow> rule_set result" where
  "load_rules document =
     (case document of
        Some (JObj raw) \<Rightarrow>
          bindE (items_of (map_of raw (lit ''patterns''))) (\<lambda>ps.
          bindE (mapE (\<lambda>(number, spec). read_pattern number spec) ps) (\<lambda>patterns.
          bindE (items_of (map_of raw (lit ''enums''))) (\<lambda>es.
          bindE (mapE (\<lambda>(name, spec). read_enum name spec) es) (\<lambda>enums.
          bindE (items_of (map_of raw (lit ''defaults''))) (\<lambda>ds.
          bindE (obligation_of (case map_of ds (lit ''obligation'') of
              None \<Rightarrow> JStr (lit ''optional'') | Some v \<Rightarrow> v)) (\<lambda>default.
          bindE (int_of (case map_of raw (lit ''version'') of None \<Rightarrow> JInt 1 | Some v \<Rightarrow> v)) (\<lambda>version.
            Inr \<lparr>rs_version = version,
              rs_patterns = foldl (\<lambda>d (k, v). dict_set k v d) [] patterns,
              rs_enums = enums, rs_default = default\<rparr>)))))))
      | _ \<Rightarrow> Inl ConfigurationError)"

section \<open>What loading guarantees\<close>

definition evaluable :: "field_rule \<Rightarrow> bool" where
  "evaluable r \<longleftrightarrow>
     (f_obligation r = CONDITIONAL \<longrightarrow> f_when r = UNSPECIFIED \<or> condition_of (f_when r) \<noteq> None)"

definition section_ok :: "section_rules \<Rightarrow> bool" where
  "section_ok rules = (\<forall>(name, r) \<in> set rules. f_name r = name \<and> evaluable r)"

lemma read_rule_ok: "read_rule name spec = Inr r \<Longrightarrow> f_name r = name \<and> evaluable r"
  by (auto simp: read_rule_def evaluable_def check_when_def py_splits split: json.splits if_splits)

lemma mapE_set: "mapE f xs = Inr ys \<Longrightarrow> y \<in> set ys \<Longrightarrow> \<exists>x \<in> set xs. f x = Inr y"
  by (induction xs arbitrary: ys) (auto simp: py_splits)

lemma field_rules_ok: "field_rules raw = Inr rules \<Longrightarrow> section_ok rules"
  by (fastforce simp: field_rules_def section_ok_def py_splits dest!: mapE_set dest: read_rule_ok)

lemma section_ok_dict_set: "section_ok rules \<Longrightarrow> section_ok (dict_set w (excluded_rule w) rules)"
  by (fastforce simp: section_ok_def excluded_rule_def evaluable_def dest: set_dict_set)

lemma section_ok_excluded:
  "section_ok rules \<Longrightarrow> section_ok (foldl (\<lambda>rs wire. dict_set wire (excluded_rule wire) rs) rules ns)"
  by (induction ns arbitrary: rules) (simp_all add: section_ok_dict_set)

lemma exclude_ok: "exclude names rules = Inr rules' \<Longrightarrow> section_ok rules \<Longrightarrow> section_ok rules'"
  by (auto simp: exclude_def py_splits section_ok_excluded split: option.splits)

definition pattern_ok :: "pattern_spec \<Rightarrow> bool" where
  "pattern_ok p = (section_ok (p_header p) \<and> section_ok (p_body p) \<and> section_ok (p_payment p) \<and> section_ok (p_sg p))"

lemma read_pattern_ok: "read_pattern number spec = Inr (n, p) \<Longrightarrow> p_number p = n \<and> pattern_ok p"
  by (cases spec) (auto simp: read_pattern_def pattern_ok_def py_splits dest!: field_rules_ok exclude_ok)

lemma set_dict_of_list:
  "kv \<in> set (foldl (\<lambda>d (k, v). dict_set k v d) d xs) \<Longrightarrow> kv \<in> set d \<or> kv \<in> set xs"
proof (induction xs arbitrary: d)
  case (Cons x xs)
  obtain k v where x: "x = (k, v)" by (cases x)
  from Cons.prems have "kv \<in> set (foldl (\<lambda>d (k, v). dict_set k v d) (dict_set k v d) xs)" by (simp add: x)
  from Cons.IH [OF this] set_dict_set [of kv k v d] show ?case by (auto simp: x)
qed simp

lemma load_rules_patterns:
  assumes "load_rules document = Inr rs" "(n, p) \<in> set (rs_patterns rs)"
  shows "\<exists>number spec. read_pattern number spec = Inr (n, p)"
proof -
  from assms(1) obtain raw ps xs where "mapE (\<lambda>(number, spec). read_pattern number spec) ps = Inr xs"
    "rs_patterns rs = foldl (\<lambda>d (k, v). dict_set k v d) [] xs"
    by (auto simp: load_rules_def py_splits split: option.splits json.splits)
  with assms(2) show ?thesis
    by (auto dest!: set_dict_of_list mapE_set)
qed

text \<open>
  C38. A rule set that loads can be evaluated: every pattern is filed under its own number, and
  every conditional rule in it carries the "unspecified" mark or one of the known conditions, so
  no rule is silently skipped because of a misspelt condition.
\<close>

theorem load_rules_evaluable:
  assumes "load_rules document = Inr rs" "pattern_of rs n = Some p"
  shows "p_number p = n \<and>
    (\<forall>rules \<in> {p_header p, p_body p, p_payment p, p_sg p}. \<forall>(name, r) \<in> set rules.
       f_name r = name \<and> (f_obligation r = CONDITIONAL \<longrightarrow>
         f_when r = UNSPECIFIED \<or> condition_of (f_when r) \<noteq> None))"
proof -
  have "(n, p) \<in> set (rs_patterns rs)" using assms(2) by (simp add: pattern_of_def map_of_SomeD)
  from load_rules_patterns [OF assms(1) this]
  obtain number spec where "read_pattern number spec = Inr (n, p)" by blast
  then have "p_number p = n" "pattern_ok p" using read_pattern_ok by blast+
  then show ?thesis by (simp add: pattern_ok_def section_ok_def evaluable_def)
qed

definition sample_document :: json where
  "sample_document = JObj [(lit ''patterns'', JObj [(lit ''1'', JObj
     [(lit ''header'', JObj
        [(lit ''cap'', JObj [(lit ''obligation'', JStr (lit ''conditional'')), (lit ''when'', JStr (lit ''setm == 3''))]),
         (lit ''tob'', JObj [(lit ''obligation'', JStr (lit ''required'')),
            (lit ''by_type'', JObj [(lit ''2'', JStr (lit ''optional''))])])]),
      (lit ''excluded'', JObj [(lit ''header'', JList [JStr (lit ''sg'')])])])])]"

theorem load_rules_evaluable_witness:
  "\<exists>rs p. load_rules (Some sample_document) = Inr rs \<and> pattern_of rs 1 = Some p \<and> p_number p = 1"
proof -
  let ?rs = "projr (load_rules (Some sample_document))"
  have l: "load_rules (Some sample_document) = Inr ?rs" by code_simp
  have "pattern_of ?rs 1 \<noteq> None" by code_simp
  then obtain p where p: "pattern_of ?rs 1 = Some p" by blast
  show ?thesis using load_rules_evaluable [OF l p] l p by blast
qed

end
