(* ===== verification/Units.thy ===== *)
theory Units
  imports Prelude
begin

text \<open>
  \<open>units.py\<close>: the unit-of-measure codes with their Persian names, transcribed as code points
  in the order of the source.
\<close>

definition UNITS :: "(pystr \<times> pystr) list" where
  "UNITS = [
    (lit ''1611'', [1604, 1606, 1711, 1607]),
    (lit ''1612'', [1593, 1583, 1604]),
    (lit ''1613'', [1580, 1593, 1576, 1607]),
    (lit ''1618'', [1578, 1608, 1662]),
    (lit ''1619'', [1587, 1578]),
    (lit ''1620'', [1583, 1587, 1578]),
    (lit ''1624'', [1705, 1575, 1585, 1578, 1606]),
    (lit ''1627'', [1593, 1583, 1583]),
    (lit ''1628'', [1576, 1587, 1578, 1607]),
    (lit ''1629'', [1662, 1575, 1705, 1578]),
    (lit ''1631'', [1583, 1587, 1578, 1711, 1575, 1607]),
    (lit ''1640'', [1578, 1582, 1578, 1607]),
    (lit ''1641'', [1585, 1608, 1604]),
    (lit ''1642'', [1591, 1575, 1602, 1607]),
    (lit ''1643'', [1580, 1601, 1578]),
    (lit ''1645'', [1605, 1578, 1585, 32, 1605, 1585, 1576, 1593]),
    (lit ''1649'', [1662, 1575, 1604, 1578]),
    (lit ''1661'', [1583, 1608, 1580, 1740, 1606]),
    (lit ''1668'', [1581, 1604, 1602, 1607, 32, 40, 1585, 1740, 1606, 1711, 41]),
    (lit ''1673'', [1602, 1585, 1575, 1589]),
    (lit ''1694'', [1602, 1585, 1575, 1589, 1607, 32, 40, 98, 117, 110, 100, 108, 101, 41]),
    (lit ''1637'', [1604, 1740, 1578, 1585]),
    (lit ''1650'', [1587, 1575, 1588, 1607]),
    (lit ''1683'', [1705, 1662, 1587, 1608, 1604]),
    (lit ''1656'', [1576, 1606, 1583, 1740, 1604]),
    (lit ''1630'', [1581, 1604, 1602, 1607, 32, 40, 1585, 1608, 1604, 41]),
    (lit ''163'', [1602, 1575, 1604, 1576]),
    (lit ''1660'', [1588, 1575, 1606, 1607]),
    (lit ''1647'', [1605, 1578, 1585, 32, 1605, 1705, 1593, 1576]),
    (lit ''1689'', [1579, 1608, 1576]),
    (lit ''1690'', [1606, 1740, 1605, 32, 1583, 1608, 1580, 1740, 1606]),
    (lit ''1635'', [1602, 1585, 1602, 1585, 1607]),
    (lit ''164'', [1705, 1740, 1604, 1608, 1711, 1585, 1605]),
    (lit ''1638'', [1576, 1591, 1585, 1740]),
    (lit ''161'', [1576, 1585, 1711]),
    (lit ''1625'', [1587, 1591, 1604]),
    (lit ''1654'', [1608, 1585, 1602]),
    (lit ''1646'', [1588, 1575, 1582, 1607]),
    (lit ''1644'', [1602, 1608, 1591, 1740]),
    (lit ''1617'', [1580, 1604, 1583]),
    (lit ''162'', [1578, 1740, 1608, 1576]),
    (lit ''165'', [1605, 1578, 1585]),
    (lit ''1610'', [1705, 1604, 1575, 1601]),
    (lit ''1615'', [1705, 1740, 1587, 1607]),
    (lit ''1680'', [1591, 1594, 1585, 1575]),
    (lit ''1639'', [1576, 1588, 1705, 1607]),
    (lit ''1614'', [1711, 1575, 1604, 1606]),
    (lit ''1687'', [1601, 1575, 1602, 1583, 32, 1576, 1587, 1578, 1607, 32, 1576, 1606, 1583, 1740]),
    (lit ''1693'', [1705, 1575, 1585, 1578, 1606, 32, 40, 99, 97, 115, 101, 32, 109, 97, 115, 116, 101, 114, 41]),
    (lit ''166'', [1589, 1601, 1581, 1607]),
    (lit ''1666'', [1605, 1582, 1586, 1606]),
    (lit ''1626'', [1578, 1575, 1606, 1705, 1585]),
    (lit ''1648'', [1583, 1576, 1607]),
    (lit ''1684'', [1587, 1576, 1583]),
    (lit ''169'', [1578, 1606]),
    (lit ''1651'', [1576, 1575, 1606, 1705, 1607]),
    (lit ''1633'', [1587, 1740, 1604, 1606, 1583, 1585]),
    (lit ''1679'', [1601, 1608, 1578, 32, 1605, 1585, 1576, 1593]),
    (lit ''168'', [1581, 1604, 1576]),
    (lit ''1665'', [1588, 1740, 1578]),
    (lit ''1659'', [1670, 1604, 1740, 1705]),
    (lit ''1636'', [1580, 1575, 1605]),
    (lit ''1622'', [1711, 1585, 1605]),
    (lit ''1616'', [1606, 1582]),
    (lit ''1652'', [1588, 1593, 1604, 1607]),
    (lit ''1678'', [1602, 1740, 1585, 1575, 1591]),
    (lit ''16100'', [1605, 1740, 1604, 1740, 32, 1604, 1740, 1578, 1585]),
    (lit ''16101'', [1605, 1740, 1604, 1740, 32, 1605, 1578, 1585]),
    (lit ''16102'', [1605, 1740, 1604, 1740, 32, 1711, 1585, 1605]),
    (lit ''16103'', [1587, 1575, 1593, 1578]),
    (lit ''16104'', [1585, 1608, 1586]),
    (lit ''16105'', [1578, 1606, 32, 1705, 1740, 1604, 1608, 1605, 1578, 1585]),
    (lit ''1669'', [1705, 1740, 1604, 1608, 1608, 1575, 1578, 32, 1587, 1575, 1593, 1578]),
    (lit ''1676'', [1606, 1601, 1585]),
    (lit ''16110'', [1579, 1575, 1606, 1740, 1607]),
    (lit ''16111'', [1583, 1602, 1740, 1602, 1607]),
    (lit ''16112'', [1605, 1575, 1607]),
    (lit ''16113'', [1587, 1575, 1604]),
    (lit ''16114'', [1602, 1591, 1593, 1607]),
    (lit ''16115'', [1587, 1575, 1606, 1578, 1740, 32, 1605, 1578, 1585]),
    (lit ''16116'', [1587, 1575, 1606, 1578, 1740, 32, 1605, 1578, 1585, 32, 1605, 1585, 1576, 1593]),
    (lit ''1632'', [1601, 1585, 1608, 1606, 1583]),
    (lit ''1653'', [1608, 1575, 1581, 1583]),
    (lit ''16108'', [1604, 1740, 1608, 1575, 1606]),
    (lit ''16117'', [1606, 1608, 1576, 1578]),
    (lit ''16118'', [1605, 1711, 1575, 32, 1608, 1575, 1578, 32, 1587, 1575, 1593, 1578]),
    (lit ''16119'', [1711, 1740, 1711, 1575, 32, 1576, 1575, 1740, 1578, 32, 1576, 1585, 32, 1579, 1575, 1606, 1740, 1607]),
    (lit ''1681'', [1608, 1740, 1575, 1604]),
    (lit ''1667'', [1581, 1604, 1602, 1607, 32, 40, 1583, 1740, 1587, 1705, 41]),
    (lit ''16120'', [1606, 1587, 1582, 1607, 32, 40, 1580, 1604, 1583, 41]),
    (lit ''16121'', [1606, 1601, 1585, 45, 1587, 1575, 1593, 1578]),
    (lit ''16122'', [1705, 1740, 1604, 1608, 1605, 1578, 1585]),
    (lit ''16125'', [1570, 1605, 1662, 1585]),
    (lit ''16126'', [1605, 1740, 1604, 1740, 32, 1570, 1605, 1662, 1585]),
    (lit ''16127'', [1605, 1579, 1602, 1575, 1604]),
    (lit ''16128'', [1587, 1740, 1585]),
    (lit ''16129'', [1583, 1601, 1593, 1607, 32, 40, 116, 105, 109, 101, 41]),
    (lit ''16130'', [1605, 1711, 1575, 32, 1740, 1608, 1606, 1740, 1578]),
    (lit ''16131'', [1705, 1575, 1583, 1585]),
    (lit ''16132'', [1662, 1585, 1587]),
    (lit ''16133'', [1576, 1604, 1608, 1705]),
    (lit ''16134'', [1606, 1601, 1585, 45, 1605, 1575, 1607])]"

definition DEFAULT_UNIT :: pystr where
  "DEFAULT_UNIT = lit ''1627''"

text \<open>\<open>UNITS.get((code or "").strip()) or None\<close>.\<close>

definition unit_name :: "pystr option \<Rightarrow> pystr option" where
  "unit_name code =
     (case map_of UNITS (strip (case code of None \<Rightarrow> [] | Some c \<Rightarrow> c)) of
        None \<Rightarrow> None
      | Some name \<Rightarrow> if name = [] then None else Some name)"

end
