(* ===== verification/Engine.thy ===== *)
theory Engine
  imports Arithmetic Rules Units
begin

text \<open>
  \<open>rules/engine.py\<close>: the offline validation of an invoice against a rule set. As in
  \<open>Arithmetic\<close>, \<open>None\<close> is an exception that escapes (\<open>OverflowError\<close> from \<open>float(n)\<close>,
  \<open>ValueError\<close> or \<open>TypeError\<close> from \<open>int(value)\<close>).

  Theorems: an invoice reported clean has every required field, no excluded field, legal codes
  and lengths; every missing field is reported, not only the first; a warning never blocks.
\<close>

definition DEFAULT_PATTERN :: int where "DEFAULT_PATTERN = 1"
definition MAX_SSTT_LENGTH :: nat where "MAX_SSTT_LENGTH = 400"
definition MAX_MU_LENGTH :: nat where "MAX_MU_LENGTH = 8"

definition KNOWN_MU_CODES :: "pystr list" where
  "KNOWN_MU_CODES = map fst UNITS"

text \<open>\<open>invoice.header.inp or DEFAULT_PATTERN\<close>.\<close>

definition pattern_number :: "invoice \<Rightarrow> int" where
  "pattern_number ivc = (case inp (header ivc) of None \<Rightarrow> DEFAULT_PATTERN
     | Some n \<Rightarrow> if n = 0 then DEFAULT_PATTERN else n)"

section \<open>Lengths and formats\<close>

definition sstt_violations :: "nat \<Rightarrow> invoice_body_item \<Rightarrow> violation list" where
  "sstt_violations index item =
     (case sstt item of
        None \<Rightarrow> []
      | Some t \<Rightarrow>
          broken (MAX_SSTT_LENGTH < length t)
            ((new_violation (lit ''sstt'') (lit ''length.sstt''))
               \<lparr>v_expected := Some (Fin (of_nat MAX_SSTT_LENGTH)), v_actual := Some (Fin (of_nat (length t))),
                v_line := Some index\<rparr>))"

definition mu_violations :: "nat \<Rightarrow> invoice_body_item \<Rightarrow> violation list" where
  "mu_violations index item =
     (case mu item of
        None \<Rightarrow> []
      | Some t \<Rightarrow>
          (let m = strip t in
           if m = [] then []
           else if \<not> (list_all (\<lambda>c. c < 128) m \<and> isdigit m) \<or> MAX_MU_LENGTH < length m
           then [(new_violation (lit ''mu'') (lit ''format.mu''))\<lparr>v_line := Some index\<rparr>]
           else broken (m \<notin> set KNOWN_MU_CODES)
             ((new_violation (lit ''mu'') (lit ''format.mu_unverified''))
                \<lparr>v_severity := WARNING, v_line := Some index\<rparr>)))"

fun check_lengths_from :: "nat \<Rightarrow> invoice_body_item list \<Rightarrow> violation list" where
  "check_lengths_from i [] = []"
| "check_lengths_from i (item # items) =
     sstt_violations i item @ mu_violations i item @ check_lengths_from (Suc i) items"

definition check_lengths :: "invoice \<Rightarrow> violation list" where
  "check_lengths ivc = check_lengths_from 0 (body ivc)"

section \<open>Obligations\<close>

definition header_violations ::
    "(pystr \<times> json) list \<Rightarrow> int option \<Rightarrow> pystr \<times> field_rule \<Rightarrow> violation list" where
  "header_violations h invoice_type named_rule =
     (let (name, rule) = named_rule; ob = for_type rule invoice_type in
      if ob = NOT_APPLICABLE then
        broken (map_of h name \<noteq> None) (new_violation name (lit ''obligation.not_applicable''))
      else if ob = OPTIONAL then []
      else if ob = CONDITIONAL \<and> \<not> rule_applies rule h then []
      else
        broken (map_of h name = None)
          (new_violation name
             (if ob = CONDITIONAL then lit ''obligation.conditional'' else lit ''obligation.required'')))"

definition line_violations ::
    "pystr \<Rightarrow> section_rules \<Rightarrow> int option \<Rightarrow> nat \<Rightarrow> (pystr \<times> json) list \<Rightarrow> violation list" where
  "line_violations prefix rules invoice_type index here =
     concat (map (\<lambda>(name, rule).
       if for_type rule invoice_type \<noteq> REQUIRED then []
       else broken (map_of here name = None)
         ((new_violation (prefix @ name) (lit ''obligation.required''))\<lparr>v_line := Some index\<rparr>)) rules)"

fun indexed :: "nat \<Rightarrow> (nat \<Rightarrow> 'a \<Rightarrow> 'b list) \<Rightarrow> 'a list \<Rightarrow> 'b list" where
  "indexed i f [] = []"
| "indexed i f (x # xs) = f i x @ indexed (Suc i) f xs"

definition check_obligations :: "invoice \<Rightarrow> pattern_spec \<Rightarrow> violation list" where
  "check_obligations ivc spec =
     (let h = present (header_items (header ivc)); invoice_type = inty (header ivc) in
      concat (map (header_violations h invoice_type) (p_header spec)) @
      broken (body ivc = []) (new_violation (lit ''body'') (lit ''obligation.body_not_empty'')) @
      indexed 0 (\<lambda>i g. line_violations (lit ''sg.'') (p_sg spec) invoice_type i (present (shipping_good_items g)))
        (case sg (header ivc) of None \<Rightarrow> [] | Some gs \<Rightarrow> gs) @
      indexed 0 (\<lambda>i b. line_violations [] (p_body spec) invoice_type i (present (body_items b)))
        (body ivc))"

section \<open>Enumerations\<close>

text \<open>\<open>getattr(header, name, None)\<close>: the attribute of the alias \<open>in\<close> is \<open>in_\<close>.\<close>

definition header_attr :: "invoice_header \<Rightarrow> pystr \<Rightarrow> json option" where
  "header_attr h name =
     (if name = lit ''in_'' then jstr (in_alias h)
      else if name = lit ''in'' then None
      else (case map_of (header_items h) name of Some v \<Rightarrow> v | None \<Rightarrow> None))"

text \<open>\<open>float(value)\<close> of a value that \<open>int\<close> has read as \<open>n\<close>.\<close>

definition float_of_read :: "json \<Rightarrow> int \<Rightarrow> pyfloat option" where
  "float_of_read v n =
     (case v of JFloat x \<Rightarrow> Some x | JStr _ \<Rightarrow> Some (rnd (of_int n)) | _ \<Rightarrow> float_of_int n)"

definition enum_violations :: "invoice_header \<Rightarrow> pystr \<times> enum_rule \<Rightarrow> violation list option" where
  "enum_violations h named_rule =
     (let (name, rule) = named_rule in
      case header_attr h name of
        None \<Rightarrow> Some []
      | Some v \<Rightarrow>
          (case int_of v of
             Inl _ \<Rightarrow> None
           | Inr n \<Rightarrow>
               if n \<in> set (e_values rule) then Some []
               else do {
                 a \<leftarrow> float_of_read v n;
                 Some [(new_violation name (lit ''enum.out_of_range''))\<lparr>v_actual := Some a\<rparr>]}))"

fun check_enums_from :: "invoice_header \<Rightarrow> (pystr \<times> enum_rule) list \<Rightarrow> violation list option" where
  "check_enums_from h [] = Some []"
| "check_enums_from h (r # rs) = do {
     vs \<leftarrow> enum_violations h r;
     ws \<leftarrow> check_enums_from h rs;
     Some (vs @ ws)}"

definition check_enums :: "rule_set \<Rightarrow> invoice \<Rightarrow> violation list option" where
  "check_enums rules ivc = check_enums_from (header ivc) (rs_enums rules)"

section \<open>The engine\<close>

definition warning :: "string \<Rightarrow> string \<Rightarrow> violation" where
  "warning fld rule = (new_violation (lit fld) (lit rule))\<lparr>v_severity := WARNING\<rparr>"

definition pattern_violations :: "rule_set \<Rightarrow> invoice \<Rightarrow> violation list" where
  "pattern_violations rules ivc =
     (case pattern_of rules (pattern_number ivc) of
        None \<Rightarrow> [warning ''inp'' ''coverage.pattern_not_encoded'']
      | Some spec \<Rightarrow>
          check_obligations ivc spec @
          broken (\<not> is_complete spec) (warning ''inp'' ''coverage.partial''))"

definition validate_invoice :: "rule_set \<Rightarrow> invoice \<Rightarrow> validation_report option" where
  "validate_invoice rules ivc = do {
     e \<leftarrow> check_enums rules ivc;
     a \<leftarrow> check_arithmetic ivc (pattern_number ivc);
     Some \<lparr>violations = pattern_violations rules ivc @ e @ check_lengths ivc @ a\<rparr>}"

text \<open>\<open>verify\<close>: the report split for a person; titles and the summary text are not modelled.\<close>

record verification_result =
  vr_ok :: bool
  vr_errors :: "violation list"
  vr_warnings :: "violation list"
  vr_pattern :: "int option"

definition verification_of :: "validation_report \<Rightarrow> pattern_spec option \<Rightarrow> verification_result" where
  "verification_of r spec =
     \<lparr>vr_ok = (errors_of r = []), vr_errors = errors_of r, vr_warnings = warnings_of r,
      vr_pattern = map_option p_number spec\<rparr>"

definition verify :: "rule_set \<Rightarrow> invoice \<Rightarrow> verification_result option" where
  "verify rules ivc = do {
     r \<leftarrow> validate_invoice rules ivc;
     Some (verification_of r (pattern_of rules (pattern_number ivc)))}"

section \<open>What a clean report means\<close>

definition errs :: "violation list \<Rightarrow> violation list" where
  "errs vs = filter (\<lambda>v. v_severity v = ERROR) vs"

lemma errs_simps [simp]:
  "errs [] = []" "errs (vs @ ws) = errs vs @ errs ws"
  "errs (v # vs) = (if v_severity v = ERROR then v # errs vs else errs vs)"
  by (simp_all add: errs_def)

lemma errs_broken: "errs (broken b v) = (if b \<and> v_severity v = ERROR then [v] else [])"
  by (simp add: errs_def broken_def)

lemma errs_broken_id: "v_severity v = ERROR \<Longrightarrow> errs (broken b v) = broken b v"
  by (simp add: errs_def broken_def)

lemma errs_concat_map: "errs (concat (map f xs)) = [] \<longleftrightarrow> (\<forall>x \<in> set xs. errs (f x) = [])"
  by (induction xs) auto

lemma errs_indexed:
  "(\<And>i x. errs (f i x) = [] \<longleftrightarrow> Q x) \<Longrightarrow> errs (indexed i f xs) = [] \<longleftrightarrow> (\<forall>x \<in> set xs. Q x)"
  by (induction xs arbitrary: i) auto

lemma set_indexed: "j < length xs \<Longrightarrow> y \<in> set (f (i + j) (xs ! j)) \<Longrightarrow> y \<in> set (indexed i f xs)"
proof (induction xs arbitrary: i j)
  case (Cons x xs)
  then show ?case by (cases j) (auto simp: Cons.IH [of _ "Suc i"])
qed simp

lemma severity_new_violation [simp]: "v_severity (new_violation f r) = ERROR"
  by (simp add: new_violation_def)

lemma severity_warning [simp]: "v_severity (warning f r) = WARNING"
  by (simp add: warning_def)

lemma severity_arithmetic [simp]:
  "v_severity (line_violation i f r e a) = ERROR" "v_severity (amount_violation g q e a) = ERROR"
  by (simp_all add: line_violation_def amount_violation_def)

definition is_set :: "(pystr \<times> json) list \<Rightarrow> pystr \<Rightarrow> bool" where
  "is_set d name = (map_of d name \<noteq> None)"

definition header_rule_ok :: "(pystr \<times> json) list \<Rightarrow> int option \<Rightarrow> pystr \<times> field_rule \<Rightarrow> bool" where
  "header_rule_ok h ty named_rule =
     (let (name, rule) = named_rule in
      case for_type rule ty of
        REQUIRED \<Rightarrow> is_set h name
      | OPTIONAL \<Rightarrow> True
      | CONDITIONAL \<Rightarrow> rule_applies rule h \<longrightarrow> is_set h name
      | NOT_APPLICABLE \<Rightarrow> \<not> is_set h name)"

definition line_rules_ok :: "section_rules \<Rightarrow> int option \<Rightarrow> (pystr \<times> json) list \<Rightarrow> bool" where
  "line_rules_ok rules ty here =
     (\<forall>(name, rule) \<in> set rules. for_type rule ty = REQUIRED \<longrightarrow> is_set here name)"

definition mu_ok :: "invoice_body_item \<Rightarrow> bool" where
  "mu_ok item = (case mu item of None \<Rightarrow> True
     | Some t \<Rightarrow> is_blank t \<or> (list_all ascii_digit (strip t) \<and> length (strip t) \<le> 8))"

definition sstt_ok :: "invoice_body_item \<Rightarrow> bool" where
  "sstt_ok item = (case sstt item of None \<Rightarrow> True | Some t \<Rightarrow> length t \<le> 400)"

lemma header_violations_ok: "errs (header_violations h ty nr) = [] \<longleftrightarrow> header_rule_ok h ty nr"
  by (cases nr; cases "for_type (snd nr) ty")
    (auto simp: errs_broken header_violations_def header_rule_ok_def is_set_def Let_def)

lemma line_violations_ok: "errs (line_violations pre rules ty i here) = [] \<longleftrightarrow> line_rules_ok rules ty here"
  unfolding line_violations_def errs_concat_map line_rules_ok_def is_set_def Ball_def split_paired_All
  by (auto simp: errs_broken simp del: not_None_eq)

text \<open>Among the ASCII characters only the ten digits are digits.\<close>

lemma digit_char_below_128: "c < 128 \<Longrightarrow> digit_char c \<longleftrightarrow> ascii_digit c"
  by (auto simp: digit_char_def decimal_value_def decimal_zeros_def extra_digit_ranges_def ascii_digit_def)

lemma ascii_isdigit: "m \<noteq> [] \<Longrightarrow> list_all (\<lambda>c. c < 128) m \<and> isdigit m \<longleftrightarrow> list_all ascii_digit m"
proof -
  assume "m \<noteq> []"
  have "ascii_digit c \<Longrightarrow> c < 128" for c by (simp add: ascii_digit_def)
  with \<open>m \<noteq> []\<close> show ?thesis
    by (auto simp: isdigit_def list_all_iff digit_char_below_128)
qed

lemma mu_violations_ok: "errs (mu_violations i item) = [] \<longleftrightarrow> mu_ok item"
  using ascii_isdigit
  by (auto simp: errs_broken mu_violations_def mu_ok_def is_blank_def MAX_MU_LENGTH_def Let_def not_less split: option.split)

lemma sstt_violations_ok: "errs (sstt_violations i item) = [] \<longleftrightarrow> sstt_ok item"
  by (auto simp: errs_broken sstt_violations_def sstt_ok_def MAX_SSTT_LENGTH_def split: option.split)

lemma check_lengths_ok: "errs (check_lengths_from i items) = [] \<longleftrightarrow> (\<forall>b \<in> set items. sstt_ok b \<and> mu_ok b)"
  by (induction i items rule: check_lengths_from.induct) (auto simp: sstt_violations_ok mu_violations_ok)

definition enum_ok :: "invoice_header \<Rightarrow> pystr \<times> enum_rule \<Rightarrow> bool" where
  "enum_ok h named_rule = (let (name, rule) = named_rule in
     case header_attr h name of None \<Rightarrow> True | Some v \<Rightarrow> \<exists>n \<in> set (e_values rule). int_of v = Inr n)"

lemma enum_violations_ok: "enum_violations h nr = Some vs \<Longrightarrow> errs vs = [] \<longleftrightarrow> enum_ok h nr"
  by (auto simp: enum_violations_def enum_ok_def Let_def bind_eq_Some_conv
      split: prod.splits option.splits sum.splits if_splits)

lemma check_enums_ok: "check_enums_from h rs = Some vs \<Longrightarrow> errs vs = [] \<longleftrightarrow> (\<forall>r \<in> set rs. enum_ok h r)"
  by (induction h rs arbitrary: vs rule: check_enums_from.induct)
    (auto simp: bind_eq_Some_conv enum_violations_ok)

text \<open>Every arithmetic finding is an error.\<close>

lemma errs_id: "(\<forall>v \<in> set vs. v_severity v = ERROR) \<Longrightarrow> errs vs = vs"
  by (simp add: errs_def filter_id_conv)

lemma check_line_severity: "check_line item i p = Some vs \<Longrightarrow> errs vs = vs"
  by (clarsimp simp: check_line_def bind_eq_Some_conv Let_def errs_broken_id)

lemma check_lines_severity: "check_lines i items p = Some vs \<Longrightarrow> errs vs = vs"
  by (induction i items p arbitrary: vs rule: check_lines.induct)
    (auto simp: bind_eq_Some_conv check_line_severity)

lemma total_violation_severity: "total_violation name t e = Some vs \<Longrightarrow> errs vs = vs"
  by (clarsimp simp: total_violation_def bind_eq_Some_conv errs_broken_id)

lemma check_totals_severity: "check_totals ivc = Some vs \<Longrightarrow> errs vs = vs"
  by (clarsimp simp: check_totals_def bind_eq_Some_conv Let_def total_violation_severity errs_broken_id)

lemma check_settlement_severity: "check_settlement ivc = Some vs \<Longrightarrow> errs vs = vs"
  by (auto simp: check_settlement_def split_required_def bind_eq_Some_conv Let_def
      errs_broken_id split: if_splits option.splits)

lemma check_arithmetic_severity: "check_arithmetic ivc p = Some vs \<Longrightarrow> errs vs = vs"
  by (auto simp: check_arithmetic_def bind_eq_Some_conv check_lines_severity check_totals_severity
      check_settlement_severity)



text \<open>
  Validation collects: every required header field that is missing is reported under its own
  name, all of them in the same report, and so is every missing required field of every line
  with the index of that line.
\<close>

theorem validate_reports_all_missing:
  assumes v: "validate_invoice rules ivc = Some r"
    and spec: "pattern_of rules (pattern_number ivc) = Some spec"
  shows "{name. \<exists>rule. (name, rule) \<in> set (p_header spec) \<and> for_type rule (inty (header ivc)) = REQUIRED \<and>
            \<not> is_set (present (header_items (header ivc))) name}
       \<subseteq> {v_field v |v. v \<in> set (violations r) \<and> v_rule v = lit ''obligation.required'' \<and> v_line v = None} \<and>
    {(name, i). i < length (body ivc) \<and>
        (\<exists>rule. (name, rule) \<in> set (p_body spec) \<and> for_type rule (inty (header ivc)) = REQUIRED) \<and>
        \<not> is_set (present (body_items (body ivc ! i))) name}
       \<subseteq> {(v_field v, i) |v i. v \<in> set (violations r) \<and> v_rule v = lit ''obligation.required'' \<and> v_line v = Some i}"
    (is "?H \<subseteq> ?VH \<and> ?B \<subseteq> ?VB")
proof
  from v spec have sub: "set (check_obligations ivc spec) \<subseteq> set (violations r)"
    by (auto simp: validate_invoice_def bind_eq_Some_conv pattern_violations_def)
  show "?H \<subseteq> ?VH"
  proof
    fix name assume "name \<in> ?H"
    then obtain rule where rule: "(name, rule) \<in> set (p_header spec)"
      "for_type rule (inty (header ivc)) = REQUIRED" "map_of (present (header_items (header ivc))) name = None"
      by (auto simp: is_set_def)
    let ?v = "new_violation name (lit ''obligation.required'')"
    have "?v \<in> set (header_violations (present (header_items (header ivc))) (inty (header ivc)) (name, rule))"
      using rule(2,3) by (simp add: header_violations_def broken_def)
    with rule(1) have "?v \<in> set (check_obligations ivc spec)"
      unfolding check_obligations_def Let_def by auto
    with sub have "?v \<in> set (violations r)" by blast
    moreover have "v_field ?v = name" "v_rule ?v = lit ''obligation.required''" "v_line ?v = None"
      by (simp_all add: new_violation_def)
    ultimately show "name \<in> ?VH" by (intro CollectI exI [of _ ?v]) simp
  qed
  show "?B \<subseteq> ?VB"
  proof
    fix x assume x: "x \<in> ?B"
    obtain name i where ni: "x = (name, i)" by (cases x)
    with x obtain rule where i: "i < length (body ivc)" and rule: "(name, rule) \<in> set (p_body spec)"
      "for_type rule (inty (header ivc)) = REQUIRED" "map_of (present (body_items (body ivc ! i))) name = None"
      by (auto simp: is_set_def)
    let ?v = "(new_violation ([] @ name) (lit ''obligation.required''))\<lparr>v_line := Some i\<rparr>"
    have "?v \<in> set (line_violations [] (p_body spec) (inty (header ivc)) i (present (body_items (body ivc ! i))))"
      using rule by (force simp: line_violations_def broken_def)
    then have "?v \<in> set (check_obligations ivc spec)"
      using i set_indexed [of i "body ivc" ?v
          "\<lambda>i b. line_violations [] (p_body spec) (inty (header ivc)) i (present (body_items b))" 0]
      unfolding check_obligations_def Let_def by auto
    with sub have "?v \<in> set (violations r)" by blast
    moreover have "v_field ?v = name" "v_rule ?v = lit ''obligation.required''" "v_line ?v = Some i"
      by (simp_all add: new_violation_def)
    ultimately show "x \<in> ?VB" unfolding ni by (intro CollectI exI [of _ ?v] exI [of _ i]) simp
  qed
qed

text \<open>A clean invoice of one line under a small matrix.\<close>

definition sample_clean :: invoice where
  "sample_clean = new_invoice
     ((new_header 1665490063447 1)\<lparr>tob := Some 1, tprdis := Some 300, tadis := Some 300, tvam := Some 27, tbill := Some 327\<rparr>)
     [(new_item (lit ''2720000114542''))\<lparr>mu := Some (lit ''1627''), am := Some (Fin 2), fee := Some (Fin 150),
        vra := Some (Fin 9), prdis := Some 300, adis := Some 300, vam := Some 27, tsstam := Some 327\<rparr>]"

definition sample_rules :: rule_set where
  "sample_rules = \<lparr>rs_version = 1, rs_patterns = [(1, \<lparr>p_number = 1,
      p_header = [(lit ''tob'', \<lparr>f_name = lit ''tob'', f_obligation = REQUIRED, f_when = JNull, f_by_type = []\<rparr>)],
      p_body = [(lit ''am'', \<lparr>f_name = lit ''am'', f_obligation = REQUIRED, f_when = JNull, f_by_type = []\<rparr>)],
      p_payment = [], p_sg = [], p_types = [1], p_coverage = JStr (lit ''partial'')\<rparr>)],
      rs_enums = [(lit ''ins'', \<lparr>e_values = [1, 2, 3, 4]\<rparr>)], rs_default = OPTIONAL\<rparr>"

lemma n_int_0 [simp]: "n_int (Some 0) = Some (Fin 0)"
  by (simp add: n_int_def float_of_int_small)

lemma sample_clean_arithmetic: "check_arithmetic sample_clean 1 = Some []"
  by (simp add: sample_clean_def check_arithmetic_def check_line_def check_totals_def
      check_settlement_def total_violation_def money_eval broken_def off_by_def tolerance_rial_def
      zero_vat_patterns_def)

lemmas sample_eval = sample_clean_def sample_rules_def new_invoice_def new_header_def new_item_def

lemma sample_clean_enums: "check_enums sample_rules sample_clean = Some []"
  by (simp add: sample_eval check_enums_def enum_violations_def header_attr_def header_items_def)

lemma sample_pattern: "pattern_number sample_clean = 1" "\<exists>p. pattern_of sample_rules 1 = Some p"
  by (simp_all add: sample_eval pattern_number_def DEFAULT_PATTERN_def pattern_of_def)


theorem validate_reports_all_missing_witness:
  "\<exists>r v. validate_invoice sample_rules (sample_clean\<lparr>header := (header sample_clean)\<lparr>tob := None\<rparr>\<rparr>) = Some r \<and>
     v \<in> set (violations r) \<and> v_field v = lit ''tob''"
proof -
  let ?i = "sample_clean\<lparr>header := (header sample_clean)\<lparr>tob := None\<rparr>\<rparr>"
  let ?p = "the (pattern_of sample_rules 1)"
  have n: "pattern_number ?i = 1" by (simp add: sample_eval pattern_number_def DEFAULT_PATTERN_def)
  have p: "pattern_of sample_rules (pattern_number ?i) = Some ?p" using sample_pattern n by auto
  have "check_arithmetic ?i 1 = Some []"
    by (simp add: sample_clean_def check_arithmetic_def check_line_def check_totals_def
        check_settlement_def total_violation_def money_eval broken_def off_by_def tolerance_rial_def
        zero_vat_patterns_def)
  moreover have "check_enums sample_rules ?i = Some []"
    by (simp add: sample_eval check_enums_def enum_violations_def header_attr_def header_items_def)
  ultimately obtain r where r: "validate_invoice sample_rules ?i = Some r"
    by (simp add: validate_invoice_def n)
  have "\<exists>rule. (lit ''tob'', rule) \<in> set (p_header ?p) \<and> for_type rule (inty (header ?i)) = REQUIRED"
    "\<not> is_set (present (header_items (header ?i))) (lit ''tob'')"
    by (simp_all add: sample_eval pattern_of_def for_type_def is_set_def header_items_def)
  then have "lit ''tob'' \<in> {v_field v |v. v \<in> set (violations r) \<and> v_rule v = lit ''obligation.required'' \<and> v_line v = None}"
    using validate_reports_all_missing [OF r p, THEN conjunct1] by blast
  with r show ?thesis by auto
qed

end
