(* ===== verification/Verhoeff.thy ===== *)
theory Verhoeff
  imports Errors
begin

text \<open>
  \<open>taxid/verhoeff.py\<close>: the check digit over the dihedral group of order ten. The tables are
  transcribed; \<open>check_digit\<close> and \<open>validate\<close> run over the reversed digits and refuse an
  empty text and any character that is not an ASCII digit. Theorems: a number carrying its own
  check digit validates, and validation detects every single-digit error and every
  transposition of two neighbours.
\<close>

section \<open>The tables\<close>

definition D_table :: "nat list list" where
  "D_table =
    [[0, 1, 2, 3, 4, 5, 6, 7, 8, 9],
     [1, 2, 3, 4, 0, 6, 7, 8, 9, 5],
     [2, 3, 4, 0, 1, 7, 8, 9, 5, 6],
     [3, 4, 0, 1, 2, 8, 9, 5, 6, 7],
     [4, 0, 1, 2, 3, 9, 5, 6, 7, 8],
     [5, 9, 8, 7, 6, 0, 4, 3, 2, 1],
     [6, 5, 9, 8, 7, 1, 0, 4, 3, 2],
     [7, 6, 5, 9, 8, 2, 1, 0, 4, 3],
     [8, 7, 6, 5, 9, 3, 2, 1, 0, 4],
     [9, 8, 7, 6, 5, 4, 3, 2, 1, 0]]"

definition P_table :: "nat list list" where
  "P_table =
    [[0, 1, 2, 3, 4, 5, 6, 7, 8, 9],
     [1, 5, 7, 6, 2, 8, 3, 0, 9, 4],
     [5, 8, 0, 3, 7, 9, 6, 1, 4, 2],
     [8, 9, 1, 6, 0, 4, 3, 5, 2, 7],
     [9, 4, 5, 3, 1, 2, 6, 8, 7, 0],
     [4, 2, 8, 6, 5, 7, 3, 9, 0, 1],
     [2, 7, 9, 3, 8, 0, 6, 4, 1, 5],
     [7, 0, 4, 6, 9, 1, 3, 2, 5, 8]]"

definition INV_table :: "nat list" where
  "INV_table = [0, 4, 3, 2, 1, 5, 6, 7, 8, 9]"

definition d5_mult :: "nat \<Rightarrow> nat \<Rightarrow> nat" where
  "d5_mult c x = (D_table ! c) ! x"

definition perm :: "nat \<Rightarrow> nat \<Rightarrow> nat" where
  "perm i d = (P_table ! (i mod 8)) ! d"

definition d5_inv :: "nat \<Rightarrow> nat" where
  "d5_inv c = INV_table ! c"

section \<open>The operations\<close>

definition reversed_digits :: "pystr \<Rightarrow> nat list result" where
  "reversed_digits number =
     (if number = [] then Inl ValueError
      else if \<not> list_all ascii_digit number then Inl ValueError
      else Inr (map (\<lambda>ch. ch - 48) (rev number)))"

text \<open>The loop of both operations; \<open>i\<close> is the row of \<open>perm\<close> for the first digit.\<close>

fun fold_digits :: "nat \<Rightarrow> nat \<Rightarrow> nat list \<Rightarrow> nat" where
  "fold_digits c i [] = c"
| "fold_digits c i (d # ds) = fold_digits (d5_mult c (perm i d)) (Suc i) ds"

definition check_digit :: "pystr \<Rightarrow> pystr result" where
  "check_digit number =
     bindE (reversed_digits number) (\<lambda>ds. Inr [48 + d5_inv (fold_digits 0 1 ds)])"

definition validate :: "pystr \<Rightarrow> bool result" where
  "validate number = bindE (reversed_digits number) (\<lambda>ds. Inr (fold_digits 0 0 ds = 0))"

section \<open>Facts of the tables\<close>

abbreviation digits10 :: "nat list" where "digits10 \<equiv> [0, 1, 2, 3, 4, 5, 6, 7, 8, 9]"
abbreviation rows8 :: "nat list" where "rows8 \<equiv> [0, 1, 2, 3, 4, 5, 6, 7]"

lemma in_digits10: "d < 10 \<longleftrightarrow> d \<in> set digits10"
  by auto

lemma mod8_in_rows8: "i mod 8 \<in> set rows8"
  by auto

lemma P_mod [simp]: "perm (i mod 8) d = perm i d"
  by (simp add: perm_def)

lemma D_range_table: "\<forall>c \<in> set digits10. \<forall>x \<in> set digits10. d5_mult c x < 10"
  by code_simp

lemma D_inj_left_table: "\<forall>x \<in> set digits10. distinct (map (\<lambda>c. d5_mult c x) digits10)"
  by code_simp

lemma D_inj_right_table: "\<forall>c \<in> set digits10. distinct (map (d5_mult c) digits10)"
  by code_simp

lemma P_range_table: "\<forall>i \<in> set rows8. \<forall>d \<in> set digits10. perm i d < 10"
  by code_simp

lemma P_inj_table: "\<forall>i \<in> set rows8. distinct (map (perm i) digits10)"
  by code_simp

lemma INV_table_inv: "\<forall>c \<in> set digits10. d5_inv c < 10 \<and> d5_mult (d5_inv c) c = 0"
  by code_simp

lemma D_assoc_table:
  "\<forall>a \<in> set digits10. \<forall>b \<in> set digits10. \<forall>c \<in> set digits10. d5_mult (d5_mult a b) c = d5_mult a (d5_mult b c)"
  by code_simp

lemma swap_table:
  "\<forall>i \<in> set rows8. \<forall>a \<in> set digits10. \<forall>b \<in> set digits10.
     a \<noteq> b \<longrightarrow> d5_mult (perm i a) (perm (Suc i) b) \<noteq> d5_mult (perm i b) (perm (Suc i) a)"
  by code_simp

lemma D_range: "c < 10 \<Longrightarrow> x < 10 \<Longrightarrow> d5_mult c x < 10"
  using D_range_table unfolding in_digits10 by blast

lemma D_assoc: "a < 10 \<Longrightarrow> b < 10 \<Longrightarrow> c < 10 \<Longrightarrow> d5_mult (d5_mult a b) c = d5_mult a (d5_mult b c)"
  using D_assoc_table unfolding in_digits10 by blast

lemma D_inj_left: "c < 10 \<Longrightarrow> c' < 10 \<Longrightarrow> x < 10 \<Longrightarrow> d5_mult c x = d5_mult c' x \<longleftrightarrow> c = c'"
  using D_inj_left_table unfolding in_digits10 distinct_map inj_on_def by blast

lemma D_inj_right: "c < 10 \<Longrightarrow> x < 10 \<Longrightarrow> y < 10 \<Longrightarrow> d5_mult c x = d5_mult c y \<longleftrightarrow> x = y"
  using D_inj_right_table unfolding in_digits10 distinct_map inj_on_def by blast

lemma P_range: "d < 10 \<Longrightarrow> perm i d < 10"
  using P_range_table mod8_in_rows8 [of i] P_mod [of i d] unfolding in_digits10 by metis

lemma P_inj: "a < 10 \<Longrightarrow> b < 10 \<Longrightarrow> perm i a = perm i b \<longleftrightarrow> a = b"
  using P_inj_table mod8_in_rows8 [of i] P_mod [of i]
  unfolding in_digits10 distinct_map inj_on_def by metis

lemma INV_range: "c < 10 \<Longrightarrow> d5_inv c < 10"
  and INV_left: "c < 10 \<Longrightarrow> d5_mult (d5_inv c) c = 0"
  using INV_table_inv unfolding in_digits10 by blast+

lemma P_Suc_mod: "perm (Suc (i mod 8)) d = perm (Suc i) d"
  by (simp add: perm_def mod_Suc_eq)

lemma swap_detected:
  "a < 10 \<Longrightarrow> b < 10 \<Longrightarrow> a \<noteq> b \<Longrightarrow> d5_mult (perm i a) (perm (Suc i) b) \<noteq> d5_mult (perm i b) (perm (Suc i) a)"
  using swap_table mod8_in_rows8 [of i] P_mod [of i] P_Suc_mod [of i]
  unfolding in_digits10 by metis

lemma D_zero_left: "x < 10 \<Longrightarrow> d5_mult 0 x = x"
  and P_zero_row: "x < 10 \<Longrightarrow> perm 0 x = x"
  unfolding in_digits10 by (auto simp: d5_mult_def perm_def D_table_def P_table_def)

section \<open>The fold\<close>

lemmas table_ranges = D_range P_range INV_range

lemma fold_digits_append:
  "fold_digits c i (xs @ ys) = fold_digits (fold_digits c i xs) (i + length xs) ys"
  by (induction xs arbitrary: c i) auto

lemma fold_digits_range: "c < 10 \<Longrightarrow> \<forall>d \<in> set ds. d < 10 \<Longrightarrow> fold_digits c i ds < 10"
  by (induction ds arbitrary: c i) (auto simp: table_ranges)

lemma fold_digits_inj:
  "c < 10 \<Longrightarrow> c' < 10 \<Longrightarrow> \<forall>d \<in> set ds. d < 10 \<Longrightarrow>
   fold_digits c i ds = fold_digits c' i ds \<longleftrightarrow> c = c'"
  by (induction ds arbitrary: c c' i) (auto simp: table_ranges D_inj_left)

lemma fold_digits_start:
  "c < 10 \<Longrightarrow> \<forall>d \<in> set ds. d < 10 \<Longrightarrow> fold_digits c i ds = d5_mult c (fold_digits 0 i ds)"
proof (induction ds arbitrary: c i)
  case Nil
  then show ?case by (auto simp: d5_mult_def D_table_def in_digits10)
next
  case (Cons d ds)
  let ?p = "perm i d"
  have p: "?p < 10" and ds: "\<forall>d \<in> set ds. d < 10" using Cons.prems by (simp_all add: P_range)
  have "fold_digits c i (d # ds) = d5_mult (d5_mult c ?p) (fold_digits 0 (Suc i) ds)"
    using Cons.IH [of "d5_mult c ?p"] Cons.prems p ds by (simp add: D_range)
  also have "\<dots> = d5_mult c (d5_mult ?p (fold_digits 0 (Suc i) ds))"
    using Cons.prems p ds by (simp add: D_assoc fold_digits_range)
  also have "d5_mult ?p (fold_digits 0 (Suc i) ds) = fold_digits 0 i (d # ds)"
    using Cons.IH [of ?p "Suc i"] p ds by (simp add: D_zero_left)
  finally show ?case .
qed

lemma fold_digits_update:
  "c < 10 \<Longrightarrow> \<forall>d \<in> set ds. d < 10 \<Longrightarrow> k < length ds \<Longrightarrow> d < 10 \<Longrightarrow> d \<noteq> ds ! k \<Longrightarrow>
   fold_digits c i (ds[k := d]) \<noteq> fold_digits c i ds"
proof (induction ds arbitrary: c i k)
  case (Cons e es)
  show ?case
  proof (cases k)
    case 0
    with Cons.prems show ?thesis
      by (simp add: fold_digits_inj table_ranges D_inj_right P_inj)
  next
    case (Suc j)
    with Cons show ?thesis by (simp add: table_ranges)
  qed
qed simp

lemma fold_digits_swap:
  assumes "c < 10" "\<forall>d \<in> set (xs @ [a, b] @ ys). d < 10" "a \<noteq> b"
  shows "fold_digits c i (xs @ [a, b] @ ys) \<noteq> fold_digits c i (xs @ [b, a] @ ys)"
proof -
  let ?c = "fold_digits c i xs" and ?i = "i + length xs"
  have c: "?c < 10" using assms by (simp add: fold_digits_range)
  from assms have ab: "a < 10" "b < 10" by simp_all
  have "d5_mult (d5_mult ?c (perm ?i a)) (perm (Suc ?i) b) \<noteq> d5_mult (d5_mult ?c (perm ?i b)) (perm (Suc ?i) a)"
    using c ab assms(3) swap_detected [of a b ?i]
    by (simp add: D_assoc P_range D_inj_right D_range)
  then show ?thesis
    using assms c ab by (simp add: fold_digits_append fold_digits_inj table_ranges)
qed

section \<open>Reading the digits\<close>

lemma ascii_digit_value: "ascii_digit c \<Longrightarrow> c - 48 < 10"
  by (auto simp: ascii_digit_def)

lemma reversed_digits_Inr:
  "reversed_digits s = Inr ds \<longleftrightarrow>
     s \<noteq> [] \<and> list_all ascii_digit s \<and> ds = map (\<lambda>ch. ch - 48) (rev s)"
  by (auto simp: reversed_digits_def)

lemma reversed_digits_lt: "reversed_digits s = Inr ds \<Longrightarrow> \<forall>d \<in> set ds. d < 10"
  by (auto simp: reversed_digits_Inr list_all_iff ascii_digit_def)

lemma validate_Inr:
  "validate s = Inr b \<longleftrightarrow> (\<exists>ds. reversed_digits s = Inr ds \<and> b = (fold_digits 0 0 ds = 0))"
  by (auto simp: validate_def py_splits)

lemma check_digit_Inr:
  "check_digit s = Inr c \<longleftrightarrow>
     (\<exists>ds. reversed_digits s = Inr ds \<and> c = [48 + d5_inv (fold_digits 0 1 ds)])"
  by (auto simp: check_digit_def py_splits)

lemma check_digit_total:
  "s \<noteq> [] \<Longrightarrow> list_all ascii_digit s \<Longrightarrow> \<exists>c. check_digit s = Inr [c] \<and> ascii_digit c"
proof -
  assume s: "s \<noteq> []" "list_all ascii_digit s"
  let ?ds = "map (\<lambda>ch. ch - 48) (rev s)"
  have r: "reversed_digits s = Inr ?ds" using s by (simp add: reversed_digits_Inr)
  then have "d5_inv (fold_digits 0 1 ?ds) < 10"
    by (intro INV_range fold_digits_range reversed_digits_lt) auto
  with r show ?thesis by (auto simp: check_digit_Inr ascii_digit_def)
qed

section \<open>What the check digit promises\<close>

text \<open>
  A number carrying the digit that \<open>check_digit\<close> computes for it is accepted by
  \<open>validate\<close>.
\<close>

theorem check_digit_validates:
  assumes "check_digit number = Inr c"
  shows "validate (number @ c) = Inr True"
proof -
  from assms obtain ds where ds: "reversed_digits number = Inr ds"
    and c: "c = [48 + d5_inv (fold_digits 0 1 ds)]" by (auto simp: check_digit_Inr)
  let ?x = "fold_digits 0 1 ds"
  have lt: "\<forall>d \<in> set ds. d < 10" by (rule reversed_digits_lt [OF ds])
  then have x: "?x < 10" by (simp add: fold_digits_range)
  then have i: "d5_inv ?x < 10" by (rule INV_range)
  have "reversed_digits (number @ c) = Inr (d5_inv ?x # ds)"
    using ds c i by (auto simp: reversed_digits_Inr ascii_digit_def)
  moreover have "fold_digits (d5_inv ?x) 1 ds = d5_mult (d5_inv ?x) ?x"
    by (rule fold_digits_start [OF i lt])
  then have "fold_digits 0 0 (d5_inv ?x # ds) = 0"
    using i x by (simp add: D_zero_left P_zero_row INV_left)
  ultimately show ?thesis by (auto simp: validate_Inr)
qed

theorem check_digit_validates_witness:
  "check_digit (lit ''236'') = Inr (lit ''3'') \<and> validate (lit ''2363'') = Inr True"
proof -
  have c: "check_digit (lit ''236'') = Inr (lit ''3'')" by code_simp
  then have "validate (lit ''236'' @ lit ''3'') = Inr True" by (rule check_digit_validates)
  with c show ?thesis by (simp add: lit_append [symmetric])
qed

text \<open>
  Validation detects every single wrong digit: changing one digit of an accepted number
  to a different digit makes \<open>validate\<close> answer \<open>False\<close>.
\<close>

theorem validate_detects_substitution:
  assumes "validate s = Inr True" "i < length s" "ascii_digit d" "d \<noteq> s ! i"
  shows "validate (s[i := d]) = Inr False"
proof -
  from assms(1) obtain ds where ds: "reversed_digits s = Inr ds" and z: "fold_digits 0 0 ds = 0"
    by (auto simp: validate_Inr)
  let ?k = "length s - Suc i"
  from ds have s: "s \<noteq> []" "list_all ascii_digit s" "ds = map (\<lambda>ch. ch - 48) (rev s)"
    by (simp_all add: reversed_digits_Inr)
  have all: "list_all ascii_digit (s[i := d])"
    using s(2) assms(3) by (auto simp: list_all_iff dest: set_update_subset_insert [THEN subsetD])
  have upd: "reversed_digits (s[i := d]) = Inr (ds[?k := d - 48])"
    using s all assms(2) by (auto simp: reversed_digits_Inr rev_update map_update)
  have "ds ! ?k = s ! i - 48" using s assms(2) by (simp add: rev_nth)
  moreover have "ascii_digit (s ! i)" using s assms(2) by (simp add: list_all_length)
  ultimately have "d - 48 \<noteq> ds ! ?k" "d - 48 < 10"
    using assms(3,4) by (auto simp: ascii_digit_def)
  then have "fold_digits 0 0 (ds[?k := d - 48]) \<noteq> fold_digits 0 0 ds"
    using s assms(2) reversed_digits_lt [OF ds] by (intro fold_digits_update) auto
  with z upd show ?thesis by (auto simp: validate_Inr)
qed

theorem validate_detects_substitution_witness:
  "validate (lit ''2363'') = Inr True \<and> validate ((lit ''2363'')[1 := 52]) = Inr False"
proof -
  have v: "validate (lit ''2363'') = Inr True" by code_simp
  have "validate ((lit ''2363'')[1 := 52]) = Inr False"
    by (rule validate_detects_substitution [OF v]) (simp_all add: lit_def ascii_digit_def)
  with v show ?thesis by simp
qed

text \<open>
  Validation detects every transposition of two neighbouring digits that differ.
\<close>

theorem validate_detects_transposition:
  assumes "validate (xs @ [a, b] @ ys) = Inr True" "a \<noteq> b"
  shows "validate (xs @ [b, a] @ ys) = Inr False"
proof -
  let ?r = "\<lambda>s. map (\<lambda>ch. ch - 48) (rev s) :: nat list"
  from assms(1) have all: "list_all ascii_digit (xs @ [a, b] @ ys)"
    and z: "fold_digits 0 0 (?r (xs @ [a, b] @ ys)) = 0"
    by (auto simp: validate_Inr reversed_digits_Inr)
  from all have "\<forall>c \<in> set (xs @ [a, b] @ ys). c - 48 < 10"
    unfolding list_all_iff using ascii_digit_value by blast
  then have lt: "\<forall>d \<in> set (?r ys @ [b - 48, a - 48] @ ?r xs). d < 10"
    by auto
  have "b - 48 \<noteq> a - 48" using all assms(2) by (auto simp: ascii_digit_def)
  with lt have "fold_digits 0 0 (?r ys @ [b - 48, a - 48] @ ?r xs)
      \<noteq> fold_digits 0 0 (?r ys @ [a - 48, b - 48] @ ?r xs)"
    by (intro fold_digits_swap) auto
  with z all show ?thesis by (auto simp: validate_Inr reversed_digits_Inr)
qed

theorem validate_detects_transposition_witness:
  "validate (lit ''2363'') = Inr True \<and> validate (lit ''3263'') = Inr False"
proof -
  have v: "validate ([] @ [50, 51] @ lit ''63'') = Inr True" by code_simp
  have "validate ([] @ [51, 50] @ lit ''63'') = Inr False"
    by (rule validate_detects_transposition [OF v]) simp
  with v show ?thesis by (simp add: lit_def)
qed

end
