(* ===== verification/TaxId.thy ===== *)
theory TaxId
  imports Verhoeff PyInt PyFloat
begin

text \<open>
  \<open>taxid/provider.py\<close> and the reader \<open>serial_of\<close> of \<open>tools/serial.py\<close>.

  A \<open>datetime\<close> is an instant (\<open>Aware\<close>, microseconds since the Unix epoch) or a wall
  clock reading (\<open>Naive\<close>, microseconds since the epoch of the same reading in UTC). The time
  zone database is not part of the repository: \<open>tehran_offset\<close> is a parameter giving, for a
  wall clock reading in Tehran, the offset from UTC in microseconds. \<open>upper\<close>, the parameter of
  \<open>serial_of\<close>, is \<open>str.upper\<close> on arbitrary Unicode text; the theorems only assume that
  it acts on ASCII text as documented.

  Theorems: when an id is produced and which error is raised otherwise; its shape; that its parts
  read back (round trip), hence distinct serials, days or memories give distinct ids; and that
  the float detour of the day computation is exact.
\<close>

section \<open>Time\<close>

datatype moment = Naive int | Aware int

text \<open>\<open>_to_tehran\<close>: the instant, in microseconds, of the anchored moment.\<close>

fun to_tehran :: "(int \<Rightarrow> int) \<Rightarrow> moment \<Rightarrow> int" where
  "to_tehran tehran_offset (Naive wall) = wall - tehran_offset wall"
| "to_tehran tehran_offset (Aware us) = us"

text \<open>\<open>datetime.timestamp\<close>: a double number of seconds.\<close>

definition timestamp :: "int \<Rightarrow> pyfloat" where
  "timestamp us = rnd (of_int us / 10 ^ 6)"

fun math_floor :: "pyfloat \<Rightarrow> int result" where
  "math_floor (Fin a) = Inr \<lfloor>a\<rfloor>"
| "math_floor NaN = Inl ValueError"
| "math_floor _ = Inl OverflowError"

definition seconds_per_day :: int where
  "seconds_per_day = 86400"

definition day_range :: "(int \<Rightarrow> int) \<Rightarrow> moment \<Rightarrow> int result" where
  "day_range tehran_offset issued_at =
     bindE (math_floor (timestamp (to_tehran tehran_offset issued_at)))
       (\<lambda>s. Inr (s div seconds_per_day))"

section \<open>The tax id\<close>

definition tax_id_length :: nat where
  "tax_id_length = 22"

definition max_serial :: int where
  "max_serial = 0xFFFFFFFFFF"

definition max_day_range :: int where
  "max_day_range = 0xFFFFF"

text \<open>\<open>str(n)\<close> and \<open>{n:0wd}\<close>, \<open>{n:0wX}\<close> of a Python integer.\<close>

definition fmt_int :: "nat \<Rightarrow> int \<Rightarrow> pystr" where
  "fmt_int w n = (if n < 0 then 45 # fmt_dec (w - 1) (nat (- n)) else fmt_dec w (nat n))"

definition fmt_HEX :: "nat \<Rightarrow> int \<Rightarrow> pystr" where
  "fmt_HEX w n = (if n < 0 then 45 # fmt_hex (w - 1) (nat (- n)) else fmt_hex w (nat n))"

definition decimalise :: "pystr \<Rightarrow> pystr" where
  "decimalise memory_id =
     concat (map (\<lambda>ch. if ascii_digit ch then [ch] else fmt_dec 0 ch) memory_id)"

definition memory_id_ok :: "pystr \<Rightarrow> bool" where
  "memory_id_ok s = (length s = 6 \<and> list_all ascii_alnum s)"

definition validate_memory_id :: "pystr \<Rightarrow> pystr result" where
  "validate_memory_id s =
     (if \<not> memory_id_ok s then Inl InvalidTaxIdError else Inr (map upper_point s))"

definition validate_serial :: "int \<Rightarrow> int result" where
  "validate_serial n =
     (if n < 0 then Inl InvalidTaxIdError
      else if max_serial < n then Inl InvalidTaxIdError
      else Inr n)"

definition control_text :: "pystr \<Rightarrow> int \<Rightarrow> int \<Rightarrow> pystr" where
  "control_text memory_id day serial = decimalise memory_id @ fmt_int 6 day @ fmt_int 12 serial"

definition generate_tax_id :: "(int \<Rightarrow> int) \<Rightarrow> pystr \<Rightarrow> int \<Rightarrow> moment \<Rightarrow> pystr result" where
  "generate_tax_id tehran_offset memory_id serial issued_at =
     bindE (validate_memory_id memory_id) (\<lambda>memory_id.
     bindE (validate_serial serial) (\<lambda>serial.
     bindE (day_range tehran_offset issued_at) (\<lambda>day.
       if \<not> (0 \<le> day \<and> day \<le> max_day_range) then Inl InvalidTaxIdError
       else bindE (check_digit (control_text memory_id day serial)) (\<lambda>c.
         Inr (memory_id @ fmt_HEX 5 day @ fmt_HEX 10 serial @ c)))))"

definition invoice_serial_hex :: "int \<Rightarrow> pystr result" where
  "invoice_serial_hex serial = bindE (validate_serial serial) (\<lambda>n. Inr (fmt_HEX 10 n))"

section \<open>Reading a tax id\<close>

definition serial_start :: nat where "serial_start = 11"
definition serial_end :: nat where "serial_end = 21"

definition slice :: "nat \<Rightarrow> nat \<Rightarrow> 'a list \<Rightarrow> 'a list" where
  "slice i j xs = take (j - i) (drop i xs)"

definition serial_of :: "(pystr \<Rightarrow> pystr) \<Rightarrow> pystr \<Rightarrow> (pystr \<times> int) result" where
  "serial_of upper tax_id =
     (let t = upper (strip tax_id) in
      if length t \<noteq> tax_id_length then Inl ValueError
      else
        let memory_id = take 6 t;
            day_hex = slice 6 serial_start t;
            serial_hex = slice serial_start serial_end t in
        case (py_int 16 day_hex, py_int 16 serial_hex) of
          (Some day, Some serial) \<Rightarrow>
            bindE (check_digit (control_text memory_id day serial)) (\<lambda>expected.
              if [last t] \<noteq> expected then Inl ValueError else Inr (memory_id, serial))
        | _ \<Rightarrow> Inl ValueError)"

section \<open>Facts of the parts\<close>

lemma fmt_int_nonneg [simp]: "0 \<le> n \<Longrightarrow> fmt_int w n = fmt_dec w (nat n)"
  and fmt_HEX_nonneg [simp]: "0 \<le> n \<Longrightarrow> fmt_HEX w n = fmt_hex w (nat n)"
  by (simp_all add: fmt_int_def fmt_HEX_def)

lemma fmt_dec_all_digits: "list_all ascii_digit (fmt_dec w n)"
  by (auto simp: list_all_iff fmt_dec_digits)

lemma fmt_dec_nonempty [simp]: "fmt_dec w n \<noteq> []"
  by (simp add: fmt_dec_def)

lemma decimalise_digits: "list_all ascii_digit (decimalise s)"
  by (auto simp: decimalise_def list_all_iff fmt_dec_digits split: if_splits)

lemma control_text_check:
  "0 \<le> day \<Longrightarrow> 0 \<le> serial \<Longrightarrow> \<exists>c. check_digit (control_text m day serial) = Inr [c] \<and> ascii_digit c"
  by (rule check_digit_total) (simp_all add: control_text_def decimalise_digits fmt_dec_all_digits)

lemma length_fmt_HEX_5: "0 \<le> n \<Longrightarrow> n \<le> max_day_range \<Longrightarrow> length (fmt_HEX 5 n) = 5"
  by (simp add: fmt_hex_def max_day_range_def) (rule hexadecimal.render_length, auto)

lemma length_fmt_HEX_10: "0 \<le> n \<Longrightarrow> n \<le> max_serial \<Longrightarrow> length (fmt_HEX 10 n) = 10"
  by (simp add: fmt_hex_def max_serial_def) (rule hexadecimal.render_length, auto)

lemma fmt_HEX_inj: "0 \<le> m \<Longrightarrow> 0 \<le> n \<Longrightarrow> fmt_HEX w m = fmt_HEX w n \<longleftrightarrow> m = n"
  by (simp add: fmt_hex_def hexadecimal.render_inj eq_nat_nat_iff)

lemma fmt_HEX_alnum: "0 \<le> n \<Longrightarrow> c \<in> set (fmt_HEX w n) \<Longrightarrow> ascii_digit c \<or> ascii_upper_letter c"
  by (simp add: fmt_hex_alnum)

lemma validate_serial_Inr: "validate_serial n = Inr k \<longleftrightarrow> k = n \<and> 0 \<le> n \<and> n \<le> max_serial"
  by (auto simp: validate_serial_def)

lemma validate_memory_id_Inr:
  "validate_memory_id s = Inr m \<longleftrightarrow> m = map upper_point s \<and> memory_id_ok s"
  by (auto simp: validate_memory_id_def)

lemma upper_memory_id:
  assumes "memory_id_ok s"
  shows "length (map upper_point s) = 6"
    and "c \<in> set (map upper_point s) \<Longrightarrow> ascii_digit c \<or> ascii_upper_letter c"
  using assms upper_point_alnum by (auto simp: memory_id_ok_def list_all_iff)

text \<open>The anatomy of a produced id.\<close>

lemma generate_tax_id_Inr:
  "generate_tax_id off m serial issued = Inr t \<longleftrightarrow>
     memory_id_ok m \<and> 0 \<le> serial \<and> serial \<le> max_serial \<and>
     (\<exists>day c. day_range off issued = Inr day \<and> 0 \<le> day \<and> day \<le> max_day_range \<and>
        check_digit (control_text (map upper_point m) day serial) = Inr [c] \<and>
        t = map upper_point m @ fmt_HEX 5 day @ fmt_HEX 10 serial @ [c])" (is "?l \<longleftrightarrow> ?r")
proof
  assume ?l
  then obtain day c where *: "memory_id_ok m" "0 \<le> serial" "serial \<le> max_serial"
    "day_range off issued = Inr day" "0 \<le> day" "day \<le> max_day_range"
    "check_digit (control_text (map upper_point m) day serial) = Inr c"
    "t = map upper_point m @ fmt_HEX 5 day @ fmt_HEX 10 serial @ c"
    by (auto simp: generate_tax_id_def py_splits validate_memory_id_Inr validate_serial_Inr
        split: if_splits)
  with control_text_check [of day serial "map upper_point m"] show ?r by auto
next
  assume ?r
  then show ?l
    by (auto simp: generate_tax_id_def py_splits validate_memory_id_Inr validate_serial_Inr)
qed

section \<open>The day\<close>

lemma fl_floor_seconds:
  fixes us :: int
  assumes "0 \<le> us" "us < 2 ^ 33 * 10 ^ 6"
  shows "\<lfloor>fl (of_int us / 10 ^ 6)\<rfloor> = us div 10 ^ 6"
proof -
  let ?s = "us div 10 ^ 6" and ?x = "of_int us / 10 ^ 6 :: rat"
  have s: "0 \<le> ?s" "?s < 2 ^ 33" using assms by (auto simp: div_less_iff_less_mult)
  have us: "?s * 10 ^ 6 \<le> us" "us \<le> ?s * 10 ^ 6 + 999999"
    using div_mult_mod_eq [of us "10 ^ 6"] pos_mod_bound [of "10 ^ 6" us] pos_mod_sign [of "10 ^ 6" us]
    by simp_all
  let ?m = "(?s + 1) * 2 ^ 20 - 1"
  let ?y = "of_int ?m * 2 powi (- 20) :: rat"
  have m: "\<bar>?m\<bar> \<le> 2 ^ 53" using s by (simp add: abs_le_iff)
  have ry: "representable ?y" unfolding representable_def
    using m by (intro exI [of _ ?m] exI [of _ "- 20"]) simp
  have rs: "representable (of_int ?s)" using s by (intro representable_int) simp
  have y: "?y = of_int (?s + 1) - 1 / 2 ^ 20"
    by (simp add: power_int_minus field_simps)
  have lo: "of_int ?s \<le> ?x"
  proof -
    have "of_int (?s * 10 ^ 6) \<le> (of_int us :: rat)" using us(1) by (simp only: of_int_le_iff)
    then show ?thesis by (simp add: le_divide_eq)
  qed
  have hi: "?x \<le> ?y"
  proof -
    have "(of_int us :: rat) \<le> of_int (?s * 10 ^ 6 + 999999)" using us(2) by (simp only: of_int_le_iff)
    then have "?x \<le> of_int ?s + 999999 / 10 ^ 6" by (simp add: divide_le_eq)
    then show ?thesis unfolding y by simp
  qed
  have "of_int ?s \<le> fl ?x" "fl ?x \<le> ?y" using fl_between [OF rs ry lo hi] by simp_all
  moreover have "?y < of_int (?s + 1)" unfolding y by simp
  ultimately show ?thesis by (intro floor_unique) simp_all
qed

lemma timestamp_floor:
  assumes "0 \<le> us" "us < 2 ^ 33 * 10 ^ 6"
  shows "math_floor (timestamp us) = Inr (us div 10 ^ 6)"
proof -
  let ?x = "of_int us / 10 ^ 6 :: rat"
  have "of_int us \<le> (of_int (2 ^ 33 * 10 ^ 6) :: rat)" using assms by (simp only: of_int_le_iff)
  then have x: "0 \<le> ?x" "?x \<le> of_int (2 ^ 33)" using assms(1) by (simp_all add: divide_le_eq)
  have "0 \<le> fl ?x \<and> fl ?x \<le> of_int (2 ^ 33)"
    using fl_between [of 0 "of_int (2 ^ 33)" ?x] x representable_int [of 0] representable_int [of "2 ^ 33"]
    by simp
  moreover have "(of_int (2 ^ 33) :: rat) < double_limit" by (simp add: double_limit_def)
  ultimately have "rnd ?x = Fin (fl ?x)" by (simp add: rnd_Fin_iff)
  then show ?thesis using fl_floor_seconds [OF assms] by (simp add: timestamp_def)
qed

text \<open>
  The day of an instant between 1970 and 2242 is exactly the number of whole days since the
  epoch: the detour over a double-precision number of seconds loses nothing.
\<close>

theorem day_range_exact:
  assumes "to_tehran off issued = us" "0 \<le> us" "us < 2 ^ 33 * 10 ^ 6"
  shows "day_range off issued = Inr (us div (86400 * 10 ^ 6))"
proof -
  have "us div 10 ^ 6 div 86400 = us div (10 ^ 6 * 86400)" by (simp add: zdiv_zmult2_eq)
  then show ?thesis
    using assms timestamp_floor [of us] by (simp add: day_range_def seconds_per_day_def mult.commute)
qed

theorem day_range_exact_witness:
  "day_range (\<lambda>_. 12600 * 10 ^ 6) (Naive (1665490000 * 10 ^ 6 + 999999)) = Inr 19276"
  using day_range_exact [of "\<lambda>_. 12600 * 10 ^ 6" "Naive (1665490000 * 10 ^ 6 + 999999)"] by simp

section \<open>Producing and reading an id\<close>

lemma tax_id_outcome:
  "generate_tax_id off m serial issued =
     (if memory_id_ok m \<and> 0 \<le> serial \<and> serial \<le> max_serial then
        (case day_range off issued of
           Inl e \<Rightarrow> Inl e
         | Inr day \<Rightarrow>
             if day < 0 \<or> max_day_range < day then Inl InvalidTaxIdError
             else Inr (map upper_point m @ fmt_HEX 5 day @ fmt_HEX 10 serial @
               projr (check_digit (control_text (map upper_point m) day serial))))
      else Inl InvalidTaxIdError)"
  using control_text_check [of "projr (day_range off issued)" serial "map upper_point m"]
  by (auto simp: generate_tax_id_def validate_memory_id_def validate_serial_def not_le
      split: sum.splits)

text \<open>
  \<open>generate_tax_id\<close> produces an id exactly when the memory id is six ASCII alphanumerics,
  the serial fits ten hex digits and the day fits five; every refusal is an
  \<open>InvalidTaxIdError\<close>, unless the timestamp itself cannot be floored.
\<close>

theorem generate_tax_id_outcome:
  "generate_tax_id off m serial issued =
     (if memory_id_ok m \<and> 0 \<le> serial \<and> serial \<le> max_serial then
        (case day_range off issued of
           Inl e \<Rightarrow> Inl e
         | Inr day \<Rightarrow>
             if day < 0 \<or> max_day_range < day then Inl InvalidTaxIdError
             else Inr (map upper_point m @ fmt_HEX 5 day @ fmt_HEX 10 serial @
               projr (check_digit (control_text (map upper_point m) day serial))))
      else Inl InvalidTaxIdError)"
  by (rule tax_id_outcome)

lemma tax_id_shape:
  assumes "generate_tax_id off m serial issued = Inr t"
  shows "length t = tax_id_length \<and> (\<forall>c \<in> set t. ascii_digit c \<or> ascii_upper_letter c) \<and>
    invoice_serial_hex serial = Inr (slice serial_start serial_end t)"
proof -
  from assms obtain day c where m: "memory_id_ok m" and s: "0 \<le> serial" "serial \<le> max_serial"
    and day: "0 \<le> day" "day \<le> max_day_range"
    and c: "check_digit (control_text (map upper_point m) day serial) = Inr [c]"
    and t: "t = map upper_point m @ fmt_HEX 5 day @ fmt_HEX 10 serial @ [c]"
    unfolding generate_tax_id_Inr by blast
  have len: "length (map upper_point m) = 6" by (rule upper_memory_id [OF m])
  note l = length_fmt_HEX_5 [OF day] length_fmt_HEX_10 [OF s]
  have "ascii_digit c" using control_text_check [OF day(1) s(1), of "map upper_point m"] c by auto
  then have "\<forall>c \<in> set t. ascii_digit c \<or> ascii_upper_letter c"
    unfolding t set_append ball_Un
    using upper_memory_id(2) [OF m] fmt_HEX_alnum [OF s(1)] fmt_HEX_alnum [OF day(1)] by simp
  moreover have "length t = tax_id_length" "slice serial_start serial_end t = fmt_HEX 10 serial"
    using len l by (simp_all add: t tax_id_length_def slice_def serial_start_def serial_end_def
        del: fmt_HEX_nonneg)
  moreover have "validate_serial serial = Inr serial" using s by (simp add: validate_serial_Inr)
  ultimately show ?thesis by (simp add: invoice_serial_hex_def del: fmt_HEX_nonneg)
qed

text \<open>
  A tax id has 22 characters, all of them ASCII digits or capitals, and characters 11 to 20
  are exactly the \<open>inno\<close> serial of the invoice.
\<close>

theorem generate_tax_id_shape:
  assumes "generate_tax_id off m serial issued = Inr t"
  shows "length t = tax_id_length \<and> (\<forall>c \<in> set t. ascii_digit c \<or> ascii_upper_letter c) \<and>
    invoice_serial_hex serial = Inr (slice serial_start serial_end t)"
  using assms by (rule tax_id_shape)

text \<open>A concrete invoice: noon of 2022-10-11 UTC on memory \<open>a11216\<close>, serial 10001.\<close>

definition sample_moment :: moment where
  "sample_moment = Aware (1665489600 * 10 ^ 6)"

lemma sample_day: "day_range (\<lambda>_. 0) sample_moment = Inr 19276"
  by (simp add: day_range_def timestamp_floor sample_moment_def seconds_per_day_def)

lemma sample_tax_id:
  "generate_tax_id (\<lambda>_. 0) (lit ''a11216'') 10001 sample_moment = Inr (lit ''A1121604B4C00000027112'')"
proof -
  have ok: "memory_id_ok (lit ''a11216'')" by code_simp
  have up: "map upper_point (lit ''a11216'') = lit ''A11216''" by code_simp
  have ctl: "control_text (lit ''A11216'') 19276 10001 = lit ''6511216019276000000010001''"
    by (simp add: control_text_def decimalise_def fmt_eval ascii_digit_def)
  have check: "check_digit (lit ''6511216019276000000010001'') = Inr (lit ''2'')" by code_simp
  have hex: "lit ''A11216'' @ fmt_HEX 5 19276 @ fmt_HEX 10 10001 @ lit ''2'' = lit ''A1121604B4C00000027112''"
    by (simp add: fmt_eval)
  show ?thesis
    using tax_id_outcome [of "\<lambda>_. 0" "lit ''a11216''" 10001 sample_moment]
    by (simp add: ok up ctl check hex sample_day max_serial_def max_day_range_def del: fmt_HEX_nonneg)
qed

theorem generate_tax_id_shape_witness:
  "length (lit ''A1121604B4C00000027112'') = tax_id_length \<and>
   invoice_serial_hex 10001 = Inr (slice serial_start serial_end (lit ''A1121604B4C00000027112''))"
  using generate_tax_id_shape [OF sample_tax_id] by blast

text \<open>What \<open>strip\<close> and \<open>upper\<close> leave alone.\<close>

lemma capitals_not_space: "ascii_digit c \<or> ascii_upper_letter c \<Longrightarrow> \<not> is_space c"
  by (auto simp: is_space_def space_points_def ascii_defs)

lemma capitals_fixed:
  assumes "\<forall>c \<in> set t. ascii_digit c \<or> ascii_upper_letter c"
  shows "strip t = t" "map upper_point t = t" "list_all (\<lambda>c. c < 128) t"
proof -
  show "strip t = t" using assms capitals_not_space by (intro strip_no_space) blast
  show "map upper_point t = t" using assms by (intro map_idI upper_point_upper) (auto simp: ascii_defs)
  show "list_all (\<lambda>c. c < 128) t" using assms by (fastforce simp: list_all_iff ascii_defs)
qed

lemma tax_id_reads_back:
  assumes upper: "\<And>s. list_all (\<lambda>c. c < 128) s \<Longrightarrow> upper s = map upper_point s"
    and gen: "generate_tax_id off m serial issued = Inr t"
  shows "serial_of upper t = Inr (map upper_point m, serial)"
proof -
  from gen obtain day c where m: "memory_id_ok m" and s: "0 \<le> serial" "serial \<le> max_serial"
    and day: "0 \<le> day" "day \<le> max_day_range"
    and c: "check_digit (control_text (map upper_point m) day serial) = Inr [c]"
    and t: "t = map upper_point m @ fmt_HEX 5 day @ fmt_HEX 10 serial @ [c]"
    unfolding generate_tax_id_Inr by blast
  from tax_id_shape [OF gen] have len: "length t = tax_id_length"
    and caps: "\<forall>c \<in> set t. ascii_digit c \<or> ascii_upper_letter c" by simp_all
  have u: "upper (strip t) = t"
    using capitals_fixed [OF caps] upper by simp
  have l6: "length (map upper_point m) = 6" by (rule upper_memory_id [OF m])
  note l = length_fmt_HEX_5 [OF day] length_fmt_HEX_10 [OF s]
  have parts: "take 6 t = map upper_point m" "slice 6 serial_start t = fmt_HEX 5 day"
    "slice serial_start serial_end t = fmt_HEX 10 serial" "last t = c"
    using l6 l by (simp_all add: t slice_def serial_start_def serial_end_def del: fmt_HEX_nonneg)
  have "py_int 16 (fmt_HEX 5 day) = Some day" "py_int 16 (fmt_HEX 10 serial) = Some serial"
    using day s l by (simp_all add: py_int_fmt_hex max_int_digits_def)
  with c len show ?thesis by (simp add: serial_of_def u parts Let_def del: fmt_HEX_nonneg)
qed

text \<open>
  C4. Round trip: the reader of the serial tool recovers the memory (in capitals) and the
  serial from every id that \<open>generate_tax_id\<close> produces.
\<close>

theorem serial_of_generate_tax_id:
  assumes upper: "\<And>s. list_all (\<lambda>c. c < 128) s \<Longrightarrow> upper s = map upper_point s"
    and gen: "generate_tax_id off m serial issued = Inr t"
  shows "serial_of upper t = Inr (map upper_point m, serial)"
  using assms by (rule tax_id_reads_back)

theorem serial_of_generate_tax_id_witness:
  "serial_of (map upper_point) (lit ''A1121604B4C00000027112'') = Inr (map upper_point (lit ''a11216''), 10001)"
  by (rule serial_of_generate_tax_id [OF _ sample_tax_id]) simp

lemma tax_id_inj:
  assumes "generate_tax_id off m1 s1 at1 = Inr t" "generate_tax_id off m2 s2 at2 = Inr t"
  shows "map upper_point m1 = map upper_point m2 \<and> s1 = s2 \<and> day_range off at1 = day_range off at2"
proof -
  from assms(1) obtain d1 c1 where 1: "memory_id_ok m1" "0 \<le> s1" "s1 \<le> max_serial"
    "day_range off at1 = Inr d1" "0 \<le> d1" "d1 \<le> max_day_range"
    "t = map upper_point m1 @ fmt_HEX 5 d1 @ fmt_HEX 10 s1 @ [c1]"
    unfolding generate_tax_id_Inr by blast
  from assms(2) obtain d2 c2 where 2: "memory_id_ok m2" "0 \<le> s2" "s2 \<le> max_serial"
    "day_range off at2 = Inr d2" "0 \<le> d2" "d2 \<le> max_day_range"
    "t = map upper_point m2 @ fmt_HEX 5 d2 @ fmt_HEX 10 s2 @ [c2]"
    unfolding generate_tax_id_Inr by blast
  have "map upper_point m1 = map upper_point m2 \<and> fmt_HEX 5 d1 = fmt_HEX 5 d2 \<and> fmt_HEX 10 s1 = fmt_HEX 10 s2"
    using 1(7) 2(7) upper_memory_id(1) [OF 1(1)] upper_memory_id(1) [OF 2(1)]
      length_fmt_HEX_5 [OF 1(5,6)] length_fmt_HEX_5 [OF 2(5,6)]
      length_fmt_HEX_10 [OF 1(2,3)] length_fmt_HEX_10 [OF 2(2,3)]
    by (simp add: append_eq_append_conv del: fmt_HEX_nonneg)
  then show ?thesis using 1 2 by (simp add: fmt_HEX_inj del: fmt_HEX_nonneg)
qed

text \<open>
  Tax ids are unique: two invoices with the same id have the same memory up to case, the
  same serial and the same day. Distinct serials of one memory therefore never collide.
\<close>

theorem generate_tax_id_inj:
  assumes "generate_tax_id off m1 s1 at1 = Inr t" "generate_tax_id off m2 s2 at2 = Inr t"
  shows "map upper_point m1 = map upper_point m2 \<and> s1 = s2 \<and> day_range off at1 = day_range off at2"
  using assms by (rule tax_id_inj)

theorem generate_tax_id_inj_witness:
  "map upper_point (lit ''a11216'') = map upper_point (lit ''a11216'') \<and> (10001::int) = 10001 \<and>
   day_range (\<lambda>_. 0) sample_moment = day_range (\<lambda>_. 0) sample_moment"
  by (rule generate_tax_id_inj [OF sample_tax_id sample_tax_id])

end
