(* ===== verification/Counter.thy ===== *)
theory Counter
  imports TaxId
begin

text \<open>
  \<open>MonotonicSerialCounter\<close> of \<open>pipeline.py\<close> and the repair tool \<open>tools/serial.py\<close>.

  The state is the counter file. Calls are serialised by the thread lock and the advisory file
  lock, so a history is a sequence of atomic calls (\<open>Locking\<close> proves it of their interleavings).
  A write goes to a temporary file that is renamed over the counter: if it fails, the file holds
  the old value or already the new one (the directory could not be synced), and the call raises
  either way; this choice is \<open>write_outcome\<close>.

  The locale \<open>serial_source\<close> states what the pipeline needs of a counter; it is interpreted by
  the file counter. Theorems: serials never repeat over any history with failing writes; the
  value written is the value read back; the tool lowers a counter only when forced.
\<close>

section \<open>The interface\<close>

text \<open>The serials returned by a sequence of calls, failures left out.\<close>

fun draws :: "('c \<Rightarrow> 's \<Rightarrow> int result \<times> 's) \<Rightarrow> 'c list \<Rightarrow> 's \<Rightarrow> int list \<times> 's" where
  "draws draw [] s = ([], s)"
| "draws draw (c # cs) s =
     (case draw c s of
        (Inr n, s') \<Rightarrow> (let (ns, t) = draws draw cs s' in (n # ns, t))
      | (Inl e, s') \<Rightarrow> draws draw cs s')"

text \<open>
  A source of serials: \<open>level\<close> is the last serial that may have been issued. A call that returns
  raises it to the serial it returns, a call that fails may raise it but never lowers it.
\<close>

locale serial_source =
  fixes draw :: "'c \<Rightarrow> 's \<Rightarrow> int result \<times> 's" and level :: "'s \<Rightarrow> int" and limit :: int
    and valid :: "'s \<Rightarrow> bool"
  assumes draw_Inr: "valid s \<Longrightarrow> draw c s = (Inr n, s') \<Longrightarrow> level s < n \<and> n \<le> limit \<and> level s' = n \<and> valid s'"
    and draw_Inl: "valid s \<Longrightarrow> draw c s = (Inl e, s') \<Longrightarrow> level s \<le> level s' \<and> valid s'"
begin

lemma draws_above:
  "valid s \<Longrightarrow> draws draw cs s = (ns, t) \<Longrightarrow>
   valid t \<and> level s \<le> level t \<and> (\<forall>n \<in> set ns. level s < n \<and> n \<le> limit \<and> n \<le> level t)"
proof (induction cs arbitrary: s ns)
  case (Cons c cs)
  obtain r s' where d: "draw c s = (r, s')" by (cases "draw c s")
  show ?case
  proof (cases r)
    case (Inl e)
    with d Cons.prems have "level s \<le> level s'" "valid s'" using draw_Inl by blast+
    moreover from d Inl Cons.prems have "draws draw cs s' = (ns, t)" by simp
    ultimately show ?thesis using Cons.IH [of s' ns] by fastforce
  next
    case (Inr n)
    with d Cons.prems have n: "level s < n" "n \<le> limit" "level s' = n" "valid s'" using draw_Inr by blast+
    from d Inr Cons.prems obtain ms where ms: "draws draw cs s' = (ms, t)" "ns = n # ms"
      by (auto split: prod.splits)
    from Cons.IH [OF n(4) ms(1)] n ms(2) show ?thesis by fastforce
  qed
qed auto

lemma draws_increasing: "valid s \<Longrightarrow> draws draw cs s = (ns, t) \<Longrightarrow> sorted_wrt (<) ns"
proof (induction cs arbitrary: s ns)
  case (Cons c cs)
  obtain r s' where d: "draw c s = (r, s')" by (cases "draw c s")
  show ?case
  proof (cases r)
    case (Inl e)
    with d Cons.prems have "valid s'" using draw_Inl by blast
    with Cons d Inl show ?thesis by simp
  next
    case (Inr n)
    with d Cons.prems have n: "level s' = n" "valid s'" using draw_Inr by blast+
    from d Inr Cons.prems obtain ms where ms: "draws draw cs s' = (ms, t)" "ns = n # ms"
      by (auto split: prod.splits)
    from draws_above [OF n(2) ms(1)] Cons.IH [OF n(2) ms(1)] n ms(2) show ?thesis by auto
  qed
qed simp

end

section \<open>The counter file\<close>

text \<open>The content is the bytes of the file.\<close>

datatype counter_file = Absent | Unreadable | Content "nat list"

definition read_counter :: "counter_file \<Rightarrow> int result" where
  "read_counter f =
     (case f of
        Absent \<Rightarrow> Inr 0
      | Unreadable \<Rightarrow> Inl ConfigurationError
      | Content bytes \<Rightarrow>
          if \<not> list_all (\<lambda>b. b < 128) bytes then Inl UnicodeDecodeError
          else (case py_int 10 (strip bytes) of
                  None \<Rightarrow> Inl ConfigurationError
                | Some v \<Rightarrow> if v < 0 then Inl ConfigurationError else Inr v))"

datatype write_outcome = Written | Failed_before | Failed_after

definition counter_text :: "int \<Rightarrow> nat list" where
  "counter_text serial = fmt_int 0 serial @ [10]"

definition write_counter :: "write_outcome \<Rightarrow> int \<Rightarrow> counter_file \<Rightarrow> unit result \<times> counter_file" where
  "write_counter w serial f =
     (case w of
        Written \<Rightarrow> (Inr (), Content (counter_text serial))
      | Failed_before \<Rightarrow> (Inl OSError, f)
      | Failed_after \<Rightarrow> (Inl OSError, Content (counter_text serial)))"

definition next_serial :: "write_outcome \<Rightarrow> counter_file \<Rightarrow> int result \<times> counter_file" where
  "next_serial w f =
     (case read_counter f of
        Inl e \<Rightarrow> (Inl e, f)
      | Inr v \<Rightarrow>
          let serial = v + 1 in
          if max_serial < serial then (Inl ConfigurationError, f)
          else (case write_counter w serial f of
                  (Inl e, f') \<Rightarrow> (Inl e, f')
                | (Inr _, f') \<Rightarrow> (Inr serial, f')))"

definition counter_current :: "counter_file \<Rightarrow> int result" where
  "counter_current f = read_counter f"

section \<open>Writing and reading\<close>

lemma py_int_counter_text:
  assumes "0 \<le> n" "length (fmt_dec 0 (nat n)) \<le> max_int_digits"
  shows "read_counter (Content (counter_text n)) = Inr n"
proof -
  let ?t = "fmt_dec 0 (nat n)"
  have dig: "c \<in> set ?t \<Longrightarrow> ascii_digit c" for c by (rule fmt_dec_digits)
  have nsp: "\<not> is_space c" if "c \<in> set ?t" for c using dig [OF that] by (intro capitals_not_space) simp
  have ne: "?t \<noteq> []" by simp
  have "lstrip (?t @ [10]) = ?t @ [10]"
    using ne nsp [of "hd ?t"] by (simp add: lstrip_def dropWhile_eq_self_iff hd_append)
  moreover have "rstrip (?t @ [10]) = ?t"
  proof -
    have "dropWhile is_space (rev ?t) = rev ?t"
      using nsp [of "last ?t"] ne by (simp add: dropWhile_eq_self_iff hd_rev)
    moreover have "is_space 10" by (simp add: is_space_def space_points_def)
    ultimately show ?thesis by (simp add: rstrip_def)
  qed
  ultimately have st: "strip (?t @ [10]) = ?t" by (simp add: strip_def)
  have "list_all (\<lambda>b. b < 128) (?t @ [10])"
    using dig by (fastforce simp: list_all_iff ascii_digit_def)
  then show ?thesis
    using assms st by (simp add: read_counter_def counter_text_def py_int_fmt_dec)
qed

lemma length_fmt_dec: "n < 10 ^ k \<Longrightarrow> 0 < k \<Longrightarrow> length (fmt_dec 0 n) \<le> k"
  using length_digits_of [of 10 n k] by (simp add: fmt_dec_def render_def Let_def)

lemma serial_reads_back: "0 \<le> n \<Longrightarrow> n \<le> max_serial \<Longrightarrow> read_counter (Content (counter_text n)) = Inr n"
proof (rule py_int_counter_text)
  assume "0 \<le> n" "n \<le> max_serial"
  then have "nat n < 10 ^ 13" by (simp add: max_serial_def)
  then have "length (fmt_dec 0 (nat n)) \<le> 13" by (rule length_fmt_dec) simp
  then show "length (fmt_dec 0 (nat n)) \<le> max_int_digits" by (simp add: max_int_digits_def)
qed

text \<open>The level of a file: the last serial it may have issued; unreadable files issue none.\<close>

definition counter_level :: "counter_file \<Rightarrow> int" where
  "counter_level f = (case read_counter f of Inr v \<Rightarrow> v | Inl _ \<Rightarrow> 0)"

lemma read_counter_nonneg: "read_counter f = Inr v \<Longrightarrow> 0 \<le> v"
  by (auto simp: read_counter_def split: counter_file.splits option.splits if_splits)

lemma next_serial_Inr:
  "next_serial w f = (Inr n, f') \<longleftrightarrow>
     w = Written \<and> read_counter f = Inr (n - 1) \<and> n \<le> max_serial \<and> f' = Content (counter_text n)"
  by (cases w) (auto simp: next_serial_def write_counter_def Let_def split: sum.splits if_splits)

interpretation file_counter: serial_source next_serial counter_level max_serial "\<lambda>_. True"
proof
  fix s c n s'
  assume d: "next_serial c s = (Inr n, s')"
  then have r: "read_counter s = Inr (n - 1)" "n \<le> max_serial" "s' = Content (counter_text n)"
    by (simp_all add: next_serial_Inr)
  with read_counter_nonneg [OF r(1)] have "read_counter s' = Inr n" by (simp add: serial_reads_back)
  with r show "counter_level s < n \<and> n \<le> max_serial \<and> counter_level s' = n \<and> True"
    by (simp add: counter_level_def)
next
  fix s c e s'
  assume d: "next_serial c s = (Inl e, s')"
  show "counter_level s \<le> counter_level s' \<and> True"
  proof (cases "s' = s")
    case False
    with d obtain v where v: "read_counter s = Inr v" "v + 1 \<le> max_serial" "s' = Content (counter_text (v + 1))"
      by (cases c) (auto simp: next_serial_def write_counter_def Let_def split: sum.splits if_splits)
    with read_counter_nonneg [OF v(1)] have "read_counter s' = Inr (v + 1)" by (simp add: serial_reads_back)
    with v show ?thesis by (simp add: counter_level_def)
  qed simp
qed

text \<open>
  C6. No serial is ever issued twice: over any history of calls, with writes failing before or
  after the rename, the serials returned increase strictly, exceed what the file held at the
  start and fit ten hex digits.
\<close>

theorem counter_never_repeats:
  assumes "draws next_serial ws f = (ns, f')"
  shows "sorted_wrt (<) ns \<and> (\<forall>n \<in> set ns. counter_level f < n \<and> n \<le> max_serial \<and> n \<le> counter_level f')"
  using file_counter.draws_increasing [OF _ assms] file_counter.draws_above [OF _ assms] by simp

lemma first_serial: "next_serial Written Absent = (Inr 1, Content (counter_text 1))"
  by (simp add: next_serial_Inr read_counter_def max_serial_def)

theorem counter_never_repeats_witness:
  "sorted_wrt (<) [1, 3::int] \<and> counter_level Absent < 1"
proof -
  have 3: "next_serial Written (Content (counter_text 2)) = (Inr 3, Content (counter_text 3))"
    by (simp add: next_serial_Inr serial_reads_back max_serial_def)
  have 2: "next_serial Failed_after (Content (counter_text 1)) = (Inl OSError, Content (counter_text 2))"
    by (simp add: next_serial_def serial_reads_back max_serial_def write_counter_def)
  have "draws next_serial [Written, Failed_after, Written] Absent = ([1, 3], Content (counter_text 3))"
    by (simp add: first_serial 2 3)
  from counter_never_repeats [OF this] show ?thesis by simp
qed

section \<open>The repair tool\<close>

text \<open>
  \<open>main\<close> of \<open>tools/serial.py\<close>: the exit code, or the exception that ends the program, with
  the counter file of the memory after it. \<open>from_taxid\<close> is the empty list when the option is
  not given.
\<close>

fun best_serial :: "(pystr \<Rightarrow> pystr) \<Rightarrow> pystr \<Rightarrow> int \<Rightarrow> pystr list \<Rightarrow> int option" where
  "best_serial upper memory best [] = Some best"
| "best_serial upper memory best (t # ts) =
     (case serial_of upper t of
        Inl _ \<Rightarrow> None
      | Inr (m, serial) \<Rightarrow>
          if m \<noteq> memory then None else best_serial upper memory (max best serial) ts)"

definition set_counter ::
    "write_outcome \<Rightarrow> int \<Rightarrow> int \<Rightarrow> bool \<Rightarrow> counter_file \<Rightarrow> int result \<times> counter_file" where
  "set_counter w target current force f =
     (if target < 0 \<or> max_serial < target then (Inr 1, f)
      else if target = current then (Inr 0, f)
      else if target < current \<and> \<not> force then (Inr 1, f)
      else (case write_counter w target f of
              (Inl e, f') \<Rightarrow> (Inl e, f')
            | (Inr _, f') \<Rightarrow> (Inr 0, f')))"

definition serial_main ::
    "(pystr \<Rightarrow> pystr) \<Rightarrow> write_outcome \<Rightarrow> pystr \<Rightarrow> pystr list \<Rightarrow> int option \<Rightarrow> bool \<Rightarrow>
     counter_file \<Rightarrow> int result \<times> counter_file" where
  "serial_main upper w memory from_taxid to_set force f =
     (if to_set \<noteq> None \<and> from_taxid \<noteq> [] then (Inr 2, f)
      else
        case counter_current f of
          Inl e \<Rightarrow> (if is_moadian_error e then Inr 1 else Inl e, f)
        | Inr current \<Rightarrow>
            if from_taxid \<noteq> [] then
              (case best_serial upper memory 0 from_taxid of
                 None \<Rightarrow> (Inr 1, f)
               | Some target \<Rightarrow> set_counter w target current force f)
            else
              (case to_set of
                 None \<Rightarrow> (Inr 0, f)
               | Some target \<Rightarrow> set_counter w target current force f))"

lemma set_counter_level:
  assumes "set_counter w target current False f = (r, f')" "read_counter f = Inr current"
  shows "counter_level f \<le> counter_level f'"
  using assms
  by (cases w) (auto simp: set_counter_def write_counter_def counter_level_def serial_reads_back
      split: if_splits)

text \<open>
  The repair tool lowers a counter only under \<open>--force\<close>: without it the last serial issued
  never decreases, whatever the arguments and even if the write fails.
\<close>

theorem serial_main_never_lowers:
  assumes "serial_main upper w memory ids to_set False f = (r, f')"
  shows "counter_level f \<le> counter_level f'"
proof (cases "counter_current f")
  case (Inr current)
  then have "f' = f \<or> (\<exists>target. set_counter w target current False f = (r, f'))"
    using assms by (auto simp: serial_main_def split: if_splits option.splits)
  with Inr show ?thesis by (auto simp: counter_current_def set_counter_level)
qed (use assms in \<open>auto simp: serial_main_def split: if_splits\<close>)

lemma best_serial_ge: "best_serial upper m b ts = Some n \<Longrightarrow> b \<le> n \<and>
   (\<forall>t \<in> set ts. \<exists>k. serial_of upper t = Inr (m, k) \<and> k \<le> n)"
  by (induction upper m b ts rule: best_serial.induct) (auto split: sum.splits if_splits)

text \<open>
  After a successful repair from filed tax ids the next invoice takes a serial above every
  one of theirs, all of which belong to the memory being repaired.
\<close>

theorem serial_main_covers_filed_ids:
  assumes r: "serial_main upper w memory ids None force f = (Inr 0, f')" and ids: "ids \<noteq> []"
    and d: "next_serial w' f' = (Inr n, f'')"
  shows "\<forall>t \<in> set ids. \<exists>k. serial_of upper t = Inr (memory, k) \<and> k < n"
proof -
  from r ids obtain current target where c: "read_counter f = Inr current"
    and b: "best_serial upper memory 0 ids = Some target"
    and s: "set_counter w target current force f = (Inr 0, f')"
    by (auto simp: serial_main_def counter_current_def split: sum.splits option.splits if_splits)
  from s c have "read_counter f' = Inr target"
    by (cases w) (auto simp: set_counter_def write_counter_def serial_reads_back split: if_splits)
  then have "n = target + 1" using d by (simp add: next_serial_Inr)
  then show ?thesis using best_serial_ge [OF b] by force
qed

text \<open>The sample invoice of \<open>TaxId\<close>, filed with serial 10001.\<close>

lemma sample_best:
  "best_serial (map upper_point) (lit ''A11216'') 0 [lit ''A1121604B4C00000027112''] = Some 10001"
proof -
  have "serial_of (map upper_point) (lit ''A1121604B4C00000027112'') = Inr (map upper_point (lit ''a11216''), 10001)"
    by (rule tax_id_reads_back [OF _ sample_tax_id]) simp
  moreover have "map upper_point (lit ''a11216'') = lit ''A11216''" by code_simp
  ultimately show ?thesis by simp
qed

lemma sample_repair:
  "serial_main (map upper_point) Written (lit ''A11216'') [lit ''A1121604B4C00000027112''] None False Absent =
     (Inr 0, Content (counter_text 10001))"
  by (simp add: serial_main_def counter_current_def read_counter_def sample_best set_counter_def
      write_counter_def max_serial_def del: best_serial.simps)

theorem serial_main_never_lowers_witness:
  "counter_level Absent \<le> counter_level (Content (counter_text 10001))"
  by (rule serial_main_never_lowers [OF sample_repair])

theorem serial_main_covers_filed_ids_witness:
  "\<exists>k. serial_of (map upper_point) (lit ''A1121604B4C00000027112'') = Inr (lit ''A11216'', k) \<and> k < 10002"
proof -
  have "next_serial Written (Content (counter_text 10001)) = (Inr 10002, Content (counter_text 10002))"
    by (simp add: next_serial_Inr serial_reads_back max_serial_def)
  from serial_main_covers_filed_ids [OF sample_repair _ this] show ?thesis by simp
qed

end
