(* ===== verification/Responses.thy ===== *)
theory Responses
  imports Json
begin

text \<open>
  The wire records of \<open>models/packet.py\<close>, \<open>models/responses.py\<close> and the closed value sets of
  \<open>models/enums.py\<close>, with the validators \<open>responses.py\<close> itself defines (pydantic's own
  coercions are not under the repository).
\<close>

record packet_header =
  requestTraceId :: pystr
  fiscalId :: pystr

record packet =
  payload :: pystr
  packet_head :: packet_header

section \<open>Closed value sets\<close>

datatype request_status = IN_PROGRESS | SUCCESS | FAILED | TIMEOUT | NOT_FOUND

definition request_status_name :: "request_status \<Rightarrow> pystr" where
  "request_status_name s =
     (case s of IN_PROGRESS \<Rightarrow> lit ''IN_PROGRESS'' | SUCCESS \<Rightarrow> lit ''SUCCESS''
      | FAILED \<Rightarrow> lit ''FAILED'' | TIMEOUT \<Rightarrow> lit ''TIMEOUT'' | NOT_FOUND \<Rightarrow> lit ''NOT_FOUND'')"

definition invoice_status_names :: "pystr list" where
  "invoice_status_names = [lit ''REJECTED'', lit ''APPROVED'', lit ''SYSTEMIC_APPROVED'',
     lit ''IMPOSSIBLE_REACTION'', lit ''AWAITING_REACTION'', lit ''NO_NEED_REACTION'', lit ''CANCELED'']"

section \<open>Responses\<close>

record nonce_response =
  nonce :: pystr
  expDate :: pystr

record public_key =
  pk_key :: pystr
  pk_id :: pystr
  pk_algorithm :: "pystr option"
  pk_purpose :: "int option"

record server_information =
  serverTime :: int
  publicKeys :: "public_key list"

record submit_result =
  sr_uid :: pystr
  sr_packetType :: "pystr option"
  sr_referenceNumber :: "pystr option"
  sr_data :: "pystr option"

record batch_response =
  br_timestamp :: int
  br_result :: "submit_result list"

text \<open>A status or a class of details outside the documented set stays as it came.\<close>

record error_entry =
  ee_code :: pystr
  ee_message :: pystr
  ee_errorType :: "pystr option"

record validation_detail =
  vd_error :: "error_entry list"
  vd_warning :: "error_entry list"
  vd_success :: bool

datatype inquiry_data = Detail validation_detail | OtherData "(pystr \<times> json) list"

record inquiry_result =
  ir_referenceNumber :: "pystr option"
  ir_uid :: "pystr option"
  ir_status :: "pystr option"
  ir_data :: "inquiry_data option"
  ir_packetType :: "pystr option"
  ir_fiscalId :: "pystr option"
  ir_sign :: "pystr option"

section \<open>The validators\<close>

text \<open>\<open>_code_to_str\<close>: a numeric code becomes its text, a boolean stays what it is.\<close>

definition code_to_str :: "json \<Rightarrow> json" where
  "code_to_str v =
     (case v of
        JInt n \<Rightarrow> JStr (int_text n)
      | JFloat (Fin x) \<Rightarrow> if x = of_int \<lfloor>x\<rfloor> then JStr (int_text \<lfloor>x\<rfloor>) else v
      | _ \<Rightarrow> v)"

definition null_to_empty_text :: "json \<Rightarrow> json" where
  "null_to_empty_text v = (if v = JNull then JStr [] else v)"

definition drop_null_entries :: "json \<Rightarrow> json" where
  "drop_null_entries v =
     (case v of
        JNull \<Rightarrow> JList []
      | JList vs \<Rightarrow> JList (filter (\<lambda>x. x \<noteq> JNull) vs)
      | _ \<Rightarrow> v)"

text \<open>\<open>_require_a_known_field\<close>: whether a body passes for an error envelope.\<close>

definition known_envelope :: "json \<Rightarrow> bool" where
  "known_envelope v =
     (case v of
        JObj kvs \<Rightarrow> \<exists>k \<in> set [lit ''timestamp'', lit ''requestTraceId'', lit ''errors'']. k \<in> fst ` set kvs
      | _ \<Rightarrow> True)"

end
