(* ===== verification/Pipeline.thy ===== *)
theory Pipeline
  imports Engine Counter Effects Responses
begin

text \<open>
  \<open>InvoicePipeline\<close> of \<open>pipeline.py\<close>: validate, draw a serial, derive the tax id, canonicalise,
  seal, submit in chunks, match the answers up, and poll for results.

  What lies outside the repository or is modelled elsewhere is a field of \<open>services\<close>: the
  serial source, \<open>uuid4\<close>, the client's calls, the signature and encryption of the canonical
  bytes, the clock. The state of a pipeline is the cached server key and the state \<open>'w\<close> of
  these services. A value \<open>None\<close> of the rule engine is an exception that escapes; it is raised
  as \<open>OverflowError\<close>.
\<close>

section \<open>The services and the pipeline\<close>

record server_key =
  sk_id :: pystr
  sk_key :: pystr
  sk_algorithm :: pystr
  sk_purpose :: int

record 'w services =
  draw_serial :: "('w, int) io"
  new_uid :: "('w, pystr) io"
  get_server_information :: "('w, server_information) io"
  load_key :: "server_key \<Rightarrow> unit result"
  seal :: "server_key \<Rightarrow> nat list \<Rightarrow> ('w, pystr) io"
  submit_invoices :: "packet list \<Rightarrow> ('w, batch_response) io"
  inquiry_by_reference_id :: "pystr list \<Rightarrow> ('w, inquiry_result list) io"
  sleep :: "rat \<Rightarrow> 'w \<Rightarrow> 'w"
  monotonic :: "'w \<Rightarrow> rat"
  tehran_offset :: "int \<Rightarrow> int"
  float_text :: "rat \<Rightarrow> pystr"

record pipeline_config =
  memory_id :: pystr
  validate_first :: bool
  rules_of :: rule_set

record invoice_submission =
  s_uid :: pystr
  s_tax_id :: pystr
  s_reference_number :: "pystr option"
  s_raw :: "submit_result option"

definition MAX_PACKETS :: nat where "MAX_PACKETS = 1000"
definition MAX_INQUIRY_IDS :: nat where "MAX_INQUIRY_IDS = 100"

section \<open>The identity of an invoice\<close>

text \<open>\<open>indatim / 1000\<close> and \<open>datetime.fromtimestamp(x, tz=UTC)\<close>, in microseconds.\<close>

definition seconds_of_millis :: "int \<Rightarrow> rat result" where
  "seconds_of_millis ms = (case rnd (of_int ms / 1000) of Fin y \<Rightarrow> Inr y | _ \<Rightarrow> Inl OverflowError)"

definition trunc :: "rat \<Rightarrow> int" where
  "trunc x = (if 0 \<le> x then \<lfloor>x\<rfloor> else \<lceil>x\<rceil>)"

definition micros_of_seconds :: "rat \<Rightarrow> int" where
  "micros_of_seconds x =
     (case rnd ((x - of_int (trunc x)) * 10 ^ 6) of
        Fin f \<Rightarrow> trunc x * 10 ^ 6 + round_half_even f
      | _ \<Rightarrow> trunc x * 10 ^ 6)"

definition fromtimestamp :: "rat \<Rightarrow> int result" where
  "fromtimestamp x =
     (let us = micros_of_seconds x; s = us div 10 ^ 6 in
      if s < - (2 ^ 63) \<or> 2 ^ 63 \<le> s then Inl OverflowError
      else if s < - 62135596800 \<or> 253402300799 < s then Inl ValueError
      else Inr us)"

definition issued_at :: "int \<Rightarrow> moment result" where
  "issued_at indatim_ms =
     bindE (seconds_of_millis indatim_ms) (\<lambda>x. bindE (fromtimestamp x) (\<lambda>us. Inr (Aware us)))"

definition with_identity :: "'w services \<Rightarrow> pipeline_config \<Rightarrow> invoice \<Rightarrow> ('w, invoice) io" where
  "with_identity sv cfg ivc =
     (if taxid (header ivc) \<noteq> [] then returnM ivc
      else
        bindM (draw_serial sv) (\<lambda>serial.
        bindM (liftM (issued_at (indatim (header ivc)))) (\<lambda>at_moment.
        bindM (liftM (generate_tax_id (tehran_offset sv) (memory_id cfg) serial at_moment)) (\<lambda>tid.
        bindM (liftM (invoice_serial_hex serial)) (\<lambda>sno.
          returnM (ivc\<lparr>header := (header ivc)\<lparr>taxid := tid, inno := Some sno\<rparr>\<rparr>))))))"

section \<open>Building and sending\<close>

definition validated :: "pipeline_config \<Rightarrow> invoice \<Rightarrow> unit result" where
  "validated cfg ivc =
     (if validate_first cfg then
        (case validate_invoice (rules_of cfg) ivc of
           None \<Rightarrow> Inl OverflowError
         | Some r \<Rightarrow> raise_if_invalid r)
      else Inr ())"

definition build_packet :: "'w services \<Rightarrow> server_key \<Rightarrow> json \<Rightarrow> pystr \<Rightarrow> pystr \<Rightarrow> ('w, packet) io" where
  "build_packet sv key wire fiscal_id uid =
     bindM (liftM (canonical_json (float_text sv) wire)) (\<lambda>bytes.
     bindM (seal sv key bytes) (\<lambda>jwe.
       returnM \<lparr>payload = jwe, packet_head = \<lparr>requestTraceId = uid, fiscalId = fiscal_id\<rparr>\<rparr>))"

definition build_one ::
    "'w services \<Rightarrow> pipeline_config \<Rightarrow> server_key \<Rightarrow> invoice \<Rightarrow> ('w, packet \<times> pystr \<times> pystr) io" where
  "build_one sv cfg key ivc =
     bindM (liftM (validated cfg ivc)) (\<lambda>_.
     bindM (with_identity sv cfg ivc) (\<lambda>complete.
     bindM (new_uid sv) (\<lambda>uid.
     bindM (build_packet sv key (to_wire_dict complete) (memory_id cfg) uid) (\<lambda>p.
       returnM (p, uid, taxid (header complete))))))"

definition build_packets ::
    "'w services \<Rightarrow> pipeline_config \<Rightarrow> server_key \<Rightarrow> invoice list \<Rightarrow>
     ('w, packet list \<times> (pystr \<times> pystr) list) io" where
  "build_packets sv cfg key ivcs =
     bindM (mapM (build_one sv cfg key) ivcs) (\<lambda>built. returnM (map fst built, map snd built))"

text \<open>\<open>{r.uid: r for r in results}\<close>: the last result of a uid wins.\<close>

definition by_uid :: "submit_result list \<Rightarrow> pystr \<Rightarrow> submit_result option" where
  "by_uid results = map_of (rev (map (\<lambda>r. (sr_uid r, r)) results))"

definition submission_of :: "submit_result list \<Rightarrow> pystr \<times> pystr \<Rightarrow> invoice_submission" where
  "submission_of results identity =
     (let (uid, tax_id) = identity; r = by_uid results uid in
      \<lparr>s_uid = uid, s_tax_id = tax_id,
       s_reference_number = (case r of None \<Rightarrow> None | Some x \<Rightarrow> sr_referenceNumber x), s_raw = r\<rparr>)"

definition submit_batch ::
    "'w services \<Rightarrow> pipeline_config \<Rightarrow> server_key \<Rightarrow> invoice list \<Rightarrow> ('w, invoice_submission list) io" where
  "submit_batch sv cfg key ivcs =
     bindM (build_packets sv cfg key ivcs) (\<lambda>(packets, identities).
     bindM (submit_invoices sv packets) (\<lambda>response.
       returnM (map (submission_of (br_result response)) identities)))"

text \<open>\<open>server_key\<close>: fetched once and kept.\<close>

definition choose_key :: "server_information \<Rightarrow> server_key result" where
  "choose_key information =
     (case publicKeys information of
        [] \<Rightarrow> Inl (UnknownResponseError \<lparr>status_code = None, api_errors = [], request_trace_id = None\<rparr>)
      | k # _ \<Rightarrow>
          Inr \<lparr>sk_id = pk_id k, sk_key = pk_key k,
            sk_algorithm = (case pk_algorithm k of None \<Rightarrow> lit ''RSA'' | Some a \<Rightarrow> if a = [] then lit ''RSA'' else a),
            sk_purpose = (case pk_purpose k of None \<Rightarrow> 1 | Some p \<Rightarrow> p)\<rparr>)"

definition get_server_key :: "'w services \<Rightarrow> ('w \<times> server_key option, server_key) io" where
  "get_server_key sv = (\<lambda>(w, cache).
     case cache of
       Some k \<Rightarrow> (Inr k, (w, cache))
     | None \<Rightarrow>
         (case bindM (get_server_information sv) (\<lambda>i. liftM (choose_key i)) w of
            (Inl e, w') \<Rightarrow> (Inl e, (w', None))
          | (Inr k, w') \<Rightarrow> (Inr k, (w', Some k))))"

definition on_world :: "('w, 'a) io \<Rightarrow> ('w \<times> 'c, 'a) io" where
  "on_world m = (\<lambda>(w, c). case m w of (r, w') \<Rightarrow> (r, (w', c)))"

definition submit ::
    "'w services \<Rightarrow> pipeline_config \<Rightarrow> invoice list \<Rightarrow> ('w \<times> server_key option, invoice_submission list) io" where
  "submit sv cfg ivcs =
     (if ivcs = [] then returnM []
      else
        bindM (get_server_key sv) (\<lambda>key.
        bindM (liftM (load_key sv key)) (\<lambda>_.
        bindM (on_world (mapM (submit_batch sv cfg key) (chunks MAX_PACKETS ivcs))) (\<lambda>rs.
          returnM (concat rs)))))"

section \<open>Polling\<close>

definition inquire :: "'w services \<Rightarrow> pystr list \<Rightarrow> ('w, inquiry_result list) io" where
  "inquire sv references =
     bindM (mapM (inquiry_by_reference_id sv) (chunks MAX_INQUIRY_IDS references)) (\<lambda>rs. returnM (concat rs))"

definition in_progress :: "inquiry_result \<Rightarrow> bool" where
  "in_progress r = (ir_status r = Some (request_status_name IN_PROGRESS))"

text \<open>The polling loop; \<open>None\<close> is a loop that has not ended within the fuel.\<close>

fun poll ::
    "nat \<Rightarrow> 'w services \<Rightarrow> rat \<Rightarrow> rat \<Rightarrow> pystr list \<Rightarrow> 'w \<Rightarrow> (inquiry_result list result \<times> 'w) option" where
  "poll 0 sv interval deadline references w = None"
| "poll (Suc fuel) sv interval deadline references w =
     (case inquire sv references w of
        (Inl e, w') \<Rightarrow> Some (Inl e, w')
      | (Inr results, w') \<Rightarrow>
          if \<not> list_ex in_progress results then Some (Inr results, w')
          else
            let remaining = deadline - monotonic sv w' in
            if remaining \<le> 0 then Some (Inr results, w')
            else poll fuel sv interval deadline references (sleep sv (min interval remaining) w'))"

definition references_of :: "invoice_submission list \<Rightarrow> pystr list" where
  "references_of subs =
     concat (map (\<lambda>s. case s_reference_number s of None \<Rightarrow> [] | Some r \<Rightarrow> if r = [] then [] else [r]) subs)"

definition await_results ::
    "nat \<Rightarrow> 'w services \<Rightarrow> rat \<Rightarrow> rat \<Rightarrow> rat \<Rightarrow> invoice_submission list \<Rightarrow> 'w \<Rightarrow>
     (inquiry_result list result \<times> 'w) option" where
  "await_results fuel sv min_wait interval timeout subs w =
     (let references = references_of subs in
      if references = [] then Some (Inr [], w)
      else
        let deadline = monotonic sv w + timeout in
        poll fuel sv interval deadline references (sleep sv min_wait w))"

section \<open>Minting identities\<close>

text \<open>
  \<open>minted off mem lo ivcs ids hi\<close>: the ids are those given by the caller, or generated from
  serials that increase strictly from above \<open>lo\<close> up to \<open>hi\<close>.
\<close>

fun minted :: "(int \<Rightarrow> int) \<Rightarrow> pystr \<Rightarrow> int \<Rightarrow> invoice list \<Rightarrow> pystr list \<Rightarrow> int \<Rightarrow> bool" where
  "minted off mem lo [] [] hi = (lo \<le> hi)"
| "minted off mem lo (i # is) (t # ts) hi =
     (if taxid (header i) \<noteq> [] then t = taxid (header i) \<and> minted off mem lo is ts hi
      else \<exists>n m. lo < n \<and> n \<le> max_serial \<and> issued_at (indatim (header i)) = Inr m \<and>
        generate_tax_id off mem n m = Inr t \<and> minted off mem n is ts hi)"
| "minted off mem lo _ _ hi = False"

lemma minted_length: "minted off mem lo is ts hi \<Longrightarrow> length ts = length is"
  by (induction off mem lo "is" ts hi rule: minted.induct) (auto split: if_splits)

lemma minted_le: "minted off mem lo is ts hi \<Longrightarrow> lo \<le> hi"
  by (induction off mem lo "is" ts hi rule: minted.induct) (force split: if_splits)+

lemma minted_weaken: "minted off mem lo is ts hi \<Longrightarrow> lo' \<le> lo \<Longrightarrow> minted off mem lo' is ts hi"
  by (induction off mem lo "is" ts hi arbitrary: lo' rule: minted.induct) (force split: if_splits)+

lemma minted_append:
  "minted off mem lo is ts mid \<Longrightarrow> minted off mem mid js us hi \<Longrightarrow> minted off mem lo (is @ js) (ts @ us) hi"
proof (induction off mem lo "is" ts mid rule: minted.induct)
  case (1 off mem lo hi)
  then show ?case by (auto intro: minted_weaken)
next
  case (2 off mem lo i "is" t ts hi)
  then show ?case by (force split: if_splits)
qed simp_all

text \<open>The ids that were generated, left to right.\<close>

definition generated :: "invoice list \<Rightarrow> pystr list \<Rightarrow> pystr list" where
  "generated is ts = map snd (filter (\<lambda>(i, t). taxid (header i) = []) (zip is ts))"

lemma generated_simps [simp]:
  "generated [] ts = []"
  "generated (i # is) (t # ts) = (if taxid (header i) = [] then t # generated is ts else generated is ts)"
  by (simp_all add: generated_def)

lemma minted_generated:
  "minted off mem lo is ts hi \<Longrightarrow>
   \<forall>t \<in> set (generated is ts). \<exists>n m. lo < n \<and> n \<le> hi \<and> generate_tax_id off mem n m = Inr t"
proof (induction off mem lo "is" ts hi rule: minted.induct)
  case (2 off mem lo i "is" t ts hi)
  show ?case
  proof (cases "taxid (header i) = []")
    case True
    with 2 obtain n m where n: "lo < n" "generate_tax_id off mem n m = Inr t" "minted off mem n is ts hi"
      by auto
    with True 2 have "\<forall>t \<in> set (generated is ts). \<exists>k m. n < k \<and> k \<le> hi \<and> generate_tax_id off mem k m = Inr t"
      by blast
    then have later: "\<exists>k m. lo < k \<and> k \<le> hi \<and> generate_tax_id off mem k m = Inr u"
      if "u \<in> set (generated is ts)" for u using that n(1) by (meson less_trans)
    have "\<exists>k m. lo < k \<and> k \<le> hi \<and> generate_tax_id off mem k m = Inr t"
      using n minted_le [OF n(3)] by blast
    with later True show ?thesis by simp
  next
    case False
    with 2 show ?thesis by simp
  qed
qed auto

lemma minted_given:
  "minted off mem lo is ts hi \<Longrightarrow> list_all2 (\<lambda>i t. taxid (header i) \<noteq> [] \<longrightarrow> t = taxid (header i)) is ts"
  by (induction off mem lo "is" ts hi rule: minted.induct) (auto split: if_splits)

lemma minted_distinct: "minted off mem lo is ts hi \<Longrightarrow> distinct (generated is ts)"
proof (induction off mem lo "is" ts hi rule: minted.induct)
  case (2 off mem lo i "is" t ts hi)
  show ?case
  proof (cases "taxid (header i) = []")
    case True
    with 2 obtain n m where n: "generate_tax_id off mem n m = Inr t" "minted off mem n is ts hi"
      by auto
    have "t \<notin> set (generated is ts)"
    proof
      assume "t \<in> set (generated is ts)"
      with minted_generated [OF n(2)] obtain k m' where "n < k" "generate_tax_id off mem k m' = Inr t"
        by blast
      with tax_id_inj [OF n(1)] show False by blast
    qed
    with 2 True n(2) show ?thesis by auto
  next
    case False
    with 2 show ?thesis by simp
  qed
qed auto

lemma on_world_simp [simp]: "on_world m (w, c) = (r, (w', c')) \<longleftrightarrow> m w = (r, w') \<and> c' = c"
  by (auto simp: on_world_def split: prod.splits)

section \<open>The pipeline over an interface\<close>

text \<open>
  What the pipeline needs of its services: a serial source, and that no other service touches
  the serials.
\<close>

locale pipeline_services =
  fixes sv :: "'w services" and level :: "'w \<Rightarrow> int"
  assumes serial_Inr: "draw_serial sv w = (Inr n, w') \<Longrightarrow> level w < n \<and> n \<le> max_serial \<and> level w' = n"
    and serial_Inl: "draw_serial sv w = (Inl e, w') \<Longrightarrow> level w \<le> level w'"
    and level_uid: "level (snd (new_uid sv w)) = level w"
    and level_seal: "level (snd (seal sv key bytes w)) = level w"
    and level_submit: "level (snd (submit_invoices sv packets w)) = level w"
    and level_information: "level (snd (get_server_information sv w)) = level w"

sublocale pipeline_services \<subseteq> serial_source "\<lambda>_ :: unit. draw_serial sv" level max_serial "\<lambda>_. True"
  by unfold_locales (use serial_Inr serial_Inl in auto)

context pipeline_services
begin

lemma with_identity_minted:
  assumes "with_identity sv cfg ivc w = (Inr c, w')"
  shows "minted (tehran_offset sv) (memory_id cfg) (level w) [ivc] [taxid (header c)] (level w')"
  using assms serial_Inr by (fastforce simp: with_identity_def py_splits split: if_splits)

lemma build_one_minted:
  assumes "build_one sv cfg key ivc w = (Inr (p, uid, txid), w')"
  shows "minted (tehran_offset sv) (memory_id cfg) (level w) [ivc] [txid] (level w')"
proof -
  from assms obtain c w1 w2 where c: "with_identity sv cfg ivc w = (Inr c, w1)" and txid: "txid = taxid (header c)"
    and u: "new_uid sv w1 = (Inr uid, w2)"
    and b: "build_packet sv key (to_wire_dict c) (memory_id cfg) uid w2 = (Inr p, w')"
    by (auto simp: build_one_def py_splits)
  from b obtain bytes jwe where "seal sv key bytes w2 = (Inr jwe, w')"
    by (auto simp: build_packet_def py_splits)
  with u level_uid [of w1] level_seal [of key bytes w2] have "level w' = level w1" by simp
  with with_identity_minted [OF c] txid show ?thesis by simp
qed

lemma build_list_minted:
  "mapM (build_one sv cfg key) ivcs w = (Inr built, w') \<Longrightarrow>
   minted (tehran_offset sv) (memory_id cfg) (level w) ivcs (map (snd \<circ> snd) built) (level w')"
proof (induction ivcs arbitrary: w built)
  case (Cons i "is")
  then obtain p uid txid w1 bs where b: "build_one sv cfg key i w = (Inr (p, uid, txid), w1)"
    and bs: "mapM (build_one sv cfg key) is w1 = (Inr bs, w')" and built: "built = (p, uid, txid) # bs"
    by (auto simp: py_splits)
  from minted_append [OF build_one_minted [OF b] Cons.IH [OF bs]] show ?case by (simp add: built)
qed simp

lemma submit_batch_minted:
  assumes "submit_batch sv cfg key ivcs w = (Inr subs, w')"
  shows "minted (tehran_offset sv) (memory_id cfg) (level w) ivcs (map s_tax_id subs) (level w')"
proof -
  from assms obtain built w1 resp where
    m: "mapM (build_one sv cfg key) ivcs w = (Inr built, w1)" and
    r: "submit_invoices sv (map fst built) w1 = (Inr resp, w')" and
    subs: "subs = map (submission_of (br_result resp)) (map snd built)"
    by (auto simp: submit_batch_def build_packets_def py_splits)
  have "level w' = level w1" using r level_submit [of "map fst built" w1] by simp
  moreover have "map s_tax_id subs = map (snd \<circ> snd) built"
    by (auto simp: subs submission_of_def Let_def split: prod.splits)
  ultimately show ?thesis using build_list_minted [OF m] by simp
qed

lemma submit_chunks_minted:
  "mapM (submit_batch sv cfg key) cs w = (Inr rs, w') \<Longrightarrow>
   minted (tehran_offset sv) (memory_id cfg) (level w) (concat cs) (map s_tax_id (concat rs)) (level w')"
proof (induction cs arbitrary: w rs)
  case (Cons c cs)
  then obtain r w1 rs' where r: "submit_batch sv cfg key c w = (Inr r, w1)"
    and rs': "mapM (submit_batch sv cfg key) cs w1 = (Inr rs', w')" and rs: "rs = r # rs'"
    by (auto simp: py_splits)
  from minted_append [OF submit_batch_minted [OF r] Cons.IH [OF rs']] show ?case by (simp add: rs)
qed simp

lemma submit_minted:
  assumes "submit sv cfg ivcs (w, cache) = (Inr subs, (w', cache'))"
  shows "minted (tehran_offset sv) (memory_id cfg) (level w) ivcs (map s_tax_id subs) (level w')"
proof (cases "ivcs = []")
  case False
  with assms obtain key w1 c1 rs where
    k: "get_server_key sv (w, cache) = (Inr key, (w1, c1))" and
    m: "mapM (submit_batch sv cfg key) (chunks MAX_PACKETS ivcs) w1 = (Inr rs, w')" and
    subs: "subs = concat rs"
    by (auto simp: submit_def py_splits)
  have "level w1 = level w"
    using k level_information [of w]
    by (auto simp: get_server_key_def bindM_def split: option.splits prod.splits sum.splits)
  with submit_chunks_minted [OF m] show ?thesis
    by (simp add: subs concat_chunks MAX_PACKETS_def)
qed (use assms in \<open>simp add: submit_def\<close>)

end

section \<open>The pipeline over the counter file\<close>

text \<open>
  The wiring of the application: the serial source is the counter file of the memory, everything
  else lives in an environment \<open>'e\<close>.
\<close>

definition in_env :: "('e, 'a) io \<Rightarrow> (counter_file \<times> 'e, 'a) io" where
  "in_env m = (\<lambda>(f, e). case m e of (r, e') \<Rightarrow> (r, (f, e')))"

definition file_services :: "'e services \<Rightarrow> (counter_file \<times> 'e) services" where
  "file_services env =
     \<lparr>draw_serial = (\<lambda>(f, e). case next_serial Written f of (r, f') \<Rightarrow> (r, (f', e))),
      new_uid = in_env (new_uid env),
      get_server_information = in_env (get_server_information env),
      load_key = load_key env,
      seal = (\<lambda>key bytes. in_env (seal env key bytes)),
      submit_invoices = (\<lambda>ps. in_env (submit_invoices env ps)),
      inquiry_by_reference_id = (\<lambda>rs. in_env (inquiry_by_reference_id env rs)),
      sleep = (\<lambda>d (f, e). (f, sleep env d e)),
      monotonic = (\<lambda>(f, e). monotonic env e),
      tehran_offset = tehran_offset env,
      float_text = float_text env\<rparr>"

lemma fst_in_env [simp]: "fst (snd (in_env m w)) = fst w"
  by (cases w) (simp add: in_env_def split: prod.splits)

interpretation file_pipeline: pipeline_services "file_services env" "\<lambda>w. counter_level (fst w)"
  for env :: "'e services"
proof
  fix w :: "counter_file \<times> 'e" and n w'
  assume d: "draw_serial (file_services env) w = (Inr n, w')"
  then have "next_serial Written (fst w) = (Inr n, fst w')"
    by (cases w) (auto simp: file_services_def split: prod.splits)
  from file_counter.draw_Inr [OF _ this]
  show "counter_level (fst w) < n \<and> n \<le> max_serial \<and> counter_level (fst w') = n" by simp
next
  fix w :: "counter_file \<times> 'e" and e w'
  assume d: "draw_serial (file_services env) w = (Inl e, w')"
  then have "next_serial Written (fst w) = (Inl e, fst w')"
    by (cases w) (auto simp: file_services_def split: prod.splits)
  from file_counter.draw_Inl [OF _ this] show "counter_level (fst w) \<le> counter_level (fst w')" by simp
qed (simp_all add: file_services_def)

text \<open>
  C5. A submission answers with one result per invoice, in order. An id the caller gave is kept;
  every generated id comes from a serial that the counter file had not issued before, and no two
  generated ids are equal.
\<close>

theorem submit_unique_ids:
  assumes "submit (file_services env) cfg ivcs ((f, e), cache) = (Inr subs, ((f', e'), cache'))"
  shows "length subs = length ivcs \<and>
    list_all2 (\<lambda>i s. taxid (header i) \<noteq> [] \<longrightarrow> s_tax_id s = taxid (header i)) ivcs subs \<and>
    distinct (generated ivcs (map s_tax_id subs)) \<and>
    (\<forall>t \<in> set (generated ivcs (map s_tax_id subs)). \<exists>n m.
       counter_level f < n \<and> n \<le> counter_level f' \<and>
       generate_tax_id (tehran_offset env) (memory_id cfg) n m = Inr t)"
proof -
  from file_pipeline.submit_minted [OF assms]
  have m: "minted (tehran_offset env) (memory_id cfg) (counter_level f) ivcs (map s_tax_id subs) (counter_level f')"
    by (simp add: file_services_def)
  from minted_given [OF m] have "list_all2 (\<lambda>i s. taxid (header i) \<noteq> [] \<longrightarrow> s_tax_id s = taxid (header i)) ivcs subs"
    by (simp add: list_all2_map2)
  with minted_length [OF m] minted_distinct [OF m] minted_generated [OF m] show ?thesis by simp
qed

text \<open>
  The tax id and the \<open>inno\<close> that the pipeline fills in agree: the serial in the id is the
  invoice's own serial, and nothing else of the invoice changes.
\<close>

theorem with_identity_agrees:
  assumes "with_identity sv cfg ivc w = (Inr filled, w')" "taxid (header ivc) = []"
  shows "\<exists>txid. filled = ivc\<lparr>header := (header ivc)\<lparr>taxid := txid,
      inno := Some (slice serial_start serial_end txid)\<rparr>\<rparr> \<and> length txid = tax_id_length"
  using assms by (auto simp: with_identity_def py_splits dest!: tax_id_shape)

section \<open>The date of an invoice\<close>

lemma seconds_of_millis_bounds:
  assumes "0 \<le> ms" "ms < 2 ^ 33 * 1000"
  shows "\<exists>x. seconds_of_millis ms = Inr x \<and> of_int (ms div 1000) \<le> x \<and> x \<le> of_int (ms div 1000) + 4093 / 4096"
proof -
  let ?s = "ms div 1000" and ?x = "of_int ms / 1000 :: rat"
  have s: "0 \<le> ?s" "?s < 2 ^ 33" using assms by (auto simp: div_less_iff_less_mult)
  have ms: "?s * 1000 \<le> ms" "ms \<le> ?s * 1000 + 999"
    using div_mult_mod_eq [of ms 1000] pos_mod_bound [of 1000 ms] pos_mod_sign [of 1000 ms] by simp_all
  let ?y = "of_int (?s * 4096 + 4093) * 2 powi (- 12) :: rat"
  have "\<bar>?s * 4096 + 4093\<bar> \<le> 2 ^ 53" using s by simp
  then have ry: "representable ?y" unfolding representable_def
    by (intro exI [of _ "?s * 4096 + 4093"] exI [of _ "- 12"]) simp
  have rs: "representable (of_int ?s)" using s by (intro representable_int) simp
  have y: "?y = of_int ?s + 4093 / 4096" by (simp add: power_int_minus field_simps)
  have "of_int (?s * 1000) \<le> (of_int ms :: rat)" "(of_int ms :: rat) \<le> of_int (?s * 1000 + 999)"
    using ms by (simp_all only: of_int_le_iff)
  then have lo: "of_int ?s \<le> ?x" and hi: "?x \<le> ?y"
    by (simp_all add: y le_divide_eq divide_le_eq)
  have b: "of_int ?s \<le> fl ?x" "fl ?x \<le> ?y" using fl_between [OF rs ry lo hi] by simp_all
  have "(of_int ?s :: rat) \<le> of_int (2 ^ 33)" using s by (simp only: of_int_le_iff)
  moreover have "(0::rat) \<le> of_int ?s" using s by simp
  ultimately have "\<bar>fl ?x\<bar> < double_limit" using b y by (simp add: double_limit_def abs_less_iff)
  then have "rnd ?x = Fin (fl ?x)" by (simp add: rnd_Fin_iff)
  then show ?thesis using b y by (simp add: seconds_of_millis_def)
qed

lemma micros_of_seconds_bounds:
  assumes "of_int s \<le> x" "x \<le> of_int s + 4093 / 4096" "0 \<le> s"
  shows "micros_of_seconds x div 10 ^ 6 = s"
proof -
  have "\<lfloor>x\<rfloor> = s" using assms by (intro floor_unique) auto
  moreover have "0 \<le> x" using assms by (meson of_int_0_le_iff order_trans)
  ultimately have t: "trunc x = s" by (simp add: trunc_def)
  let ?f = "(x - of_int s) * 10 ^ 6"
  have "of_int 0 \<le> ?f" "?f \<le> of_int 999268" using assms by simp_all
  then have b: "of_int 0 \<le> fl ?f \<and> fl ?f \<le> of_int 999268"
    by (intro fl_between representable_int) simp_all
  then have "\<bar>fl ?f\<bar> < double_limit" by (simp add: double_limit_def)
  then have r: "rnd ?f = Fin (fl ?f)" by (simp add: rnd_Fin_iff)
  have "0 \<le> round_half_even (fl ?f)" "round_half_even (fl ?f) \<le> 999268"
    using b round_half_even_mono [of "of_int 0" "fl ?f"] round_half_even_mono [of "fl ?f" "of_int 999268"]
    unfolding round_half_even_of_int by auto
  then have "(s * 10 ^ 6 + round_half_even (fl ?f)) div 10 ^ 6 = s" by simp
  then show ?thesis unfolding micros_of_seconds_def t r pyfloat.case .
qed

lemma day_of_millis:
  assumes "0 \<le> ms" "ms < 2 ^ 33 * 1000"
  shows "\<exists>m. issued_at ms = Inr m \<and> day_range off m = Inr (ms div 86400000)"
proof -
  let ?s = "ms div 1000"
  have s: "0 \<le> ?s" "?s < 2 ^ 33" using assms by (auto simp: div_less_iff_less_mult)
  obtain x where x: "seconds_of_millis ms = Inr x" "of_int ?s \<le> x" "x \<le> of_int ?s + 4093 / 4096"
    using seconds_of_millis_bounds [OF assms] by blast
  let ?us = "micros_of_seconds x"
  have us: "?us div 10 ^ 6 = ?s" using x s by (intro micros_of_seconds_bounds)
  then have "fromtimestamp x = Inr ?us" using s by (simp add: fromtimestamp_def Let_def)
  then have i: "issued_at ms = Inr (Aware ?us)" using x by (simp add: issued_at_def)
  have "0 \<le> ?us div 10 ^ 6" "?us div 10 ^ 6 < 2 ^ 33" using s us by simp_all
  then have "0 \<le> ?us" "?us < 2 ^ 33 * 10 ^ 6"
    by (auto simp: pos_imp_zdiv_nonneg_iff div_less_iff_less_mult)
  then have "day_range off (Aware ?us) = Inr (?us div 10 ^ 6 div 86400)"
    by (simp add: day_range_def timestamp_floor seconds_per_day_def)
  also have "?us div 10 ^ 6 div 86400 = ms div (1000 * 86400)" unfolding us by (simp add: zdiv_zmult2_eq)
  finally show ?thesis using i by simp
qed

text \<open>
  C36. The day in the tax id is the day of \<open>indatim\<close>: for every time between 1970 and 2242 the
  conversions from milliseconds over double seconds and microseconds lose nothing.
\<close>

theorem issued_day_exact:
  assumes "0 \<le> ms" "ms < 2 ^ 33 * 1000"
  shows "\<exists>m. issued_at ms = Inr m \<and> day_range off m = Inr (ms div 86400000)"
  using assms by (rule day_of_millis)

theorem issued_day_exact_witness:
  "\<exists>m. issued_at 1665490063447 = Inr m \<and> day_range (\<lambda>_. 0) m = Inr 19276"
  using issued_day_exact [of 1665490063447 "\<lambda>_. 0"] by simp

section \<open>Limits of the requests\<close>

text \<open>
  The client's own guards: \<open>submit_invoices\<close> refuses an oversized batch before it sends anything;
  an inquiry of more than 100 references would be refused by the API with error 4141.
\<close>

definition too_many :: "string \<Rightarrow> exn" where
  "too_many code = TaxApiError \<lparr>status_code = None, api_errors = [(lit code, [])], request_trace_id = None\<rparr>"

definition capped :: "nat \<Rightarrow> exn \<Rightarrow> ('b list \<Rightarrow> ('w, 'a) io) \<Rightarrow> 'b list \<Rightarrow> ('w, 'a) io" where
  "capped n e call xs = (if n < length xs then raiseM e else call xs)"

definition capped_services :: "'w services \<Rightarrow> 'w services" where
  "capped_services sv =
     sv\<lparr>submit_invoices := capped MAX_PACKETS (too_many ''4143'') (submit_invoices sv),
        inquiry_by_reference_id := capped MAX_INQUIRY_IDS (too_many ''4141'') (inquiry_by_reference_id sv)\<rparr>"

lemma capped_small: "length xs \<le> n \<Longrightarrow> capped n e call xs = call xs"
  by (simp add: capped_def)

lemma bindM_cong: "(\<And>x w'. m w = (Inr x, w') \<Longrightarrow> f x w' = g x w') \<Longrightarrow> bindM m f w = bindM m g w"
  by (auto simp: bindM_def split: prod.splits sum.splits)

lemma mapM_cong: "(\<And>x. x \<in> set xs \<Longrightarrow> f x = g x) \<Longrightarrow> mapM f xs = mapM g xs"
  by (induction xs) simp_all

lemma build_one_capped: "build_one (capped_services sv) cfg key = build_one sv cfg key"
  by (rule ext) (simp add: build_one_def with_identity_def build_packet_def capped_services_def
      cong: if_cong)

lemma build_capped: "build_packets (capped_services sv) cfg key ivcs = build_packets sv cfg key ivcs"
  by (simp add: build_packets_def build_one_capped)

lemma submit_batch_capped:
  assumes "length ivcs \<le> MAX_PACKETS"
  shows "submit_batch (capped_services sv) cfg key ivcs = submit_batch sv cfg key ivcs"
proof
  fix w
  have "length ps = length ivcs" if "build_packets sv cfg key ivcs w = (Inr (ps, ids), w')" for ps ids w'
    using that by (auto simp: build_packets_def py_splits dest: mapM_length)
  then show "submit_batch (capped_services sv) cfg key ivcs w = submit_batch sv cfg key ivcs w"
    unfolding submit_batch_def build_capped using assms
    by (intro bindM_cong) (auto simp: capped_services_def capped_small)
qed

lemma get_server_key_capped: "get_server_key (capped_services sv) = get_server_key sv"
  by (simp add: get_server_key_def capped_services_def cong: option.case_cong)

text \<open>
  The pipeline never exceeds the limits of the API: with clients that refuse more than 1000
  packets or more than 100 references, submitting and inquiring behave exactly as without them,
  for lists of any length.
\<close>

theorem pipeline_respects_limits:
  "submit (capped_services sv) cfg ivcs = submit sv cfg ivcs \<and>
   inquire (capped_services sv) references = inquire sv references"
proof
  have "mapM (submit_batch (capped_services sv) cfg key) (chunks MAX_PACKETS ivcs) =
      mapM (submit_batch sv cfg key) (chunks MAX_PACKETS ivcs)" for key
    by (rule mapM_cong) (auto dest: length_chunk simp: submit_batch_capped)
  then show "submit (capped_services sv) cfg ivcs = submit sv cfg ivcs"
    by (simp add: submit_def get_server_key_capped) (simp add: capped_services_def)
  have "mapM (inquiry_by_reference_id (capped_services sv)) (chunks MAX_INQUIRY_IDS references) =
      mapM (inquiry_by_reference_id sv) (chunks MAX_INQUIRY_IDS references)"
    by (rule mapM_cong) (auto dest: length_chunk simp: capped_services_def capped_small)
  then show "inquire (capped_services sv) references = inquire sv references"
    by (simp add: inquire_def)
qed

section \<open>Serials that are spent for nothing\<close>

text \<open>
  An invoice that does not pass validation spends nothing: when it is the first of its
  batch, the services are left exactly as they were and the error carries the fields at fault.
\<close>

theorem invalid_spends_nothing:
  assumes "validate_first cfg" "validate_invoice (rules_of cfg) ivc = Some r" "\<not> report_ok r"
  shows "submit_batch sv cfg key (ivc # ivcs) w =
    (Inl (InvoiceValidationError (map v_field (errors_of r))), w)"
  using assms
  by (simp add: submit_batch_def build_packets_def build_one_def validated_def raise_if_invalid_def bindM_def)

text \<open>
  Validation interleaves with drawing serials: when a later invoice of the same batch is
  invalid, the batch is not sent, yet the serials and tax ids of the invoices before it are
  spent, since the state after the error is the state in which they were drawn.
\<close>

theorem later_invalid_wastes_serials:
  assumes "validate_first cfg" "validate_invoice (rules_of cfg) bad = Some r" "\<not> report_ok r"
    and "mapM (build_one sv cfg key) good w = (Inr built, w')"
  shows "submit_batch sv cfg key (good @ bad # rest) w =
    (Inl (InvoiceValidationError (map v_field (errors_of r))), w')"
proof -
  have bad: "build_one sv cfg key bad v = (Inl (InvoiceValidationError (map v_field (errors_of r))), v)" for v
    using assms(1-3) by (simp add: build_one_def validated_def raise_if_invalid_def bindM_def)
  have "mapM (build_one sv cfg key) (good @ bad # rest) w =
      (Inl (InvoiceValidationError (map v_field (errors_of r))), w')"
    using assms(4)
  proof (induction good arbitrary: w built)
    case Nil
    then show ?case by (simp add: bindM_Inl [OF bad])
  next
    case (Cons i good)
    then obtain y w1 ys where "build_one sv cfg key i w = (Inr y, w1)"
      "mapM (build_one sv cfg key) good w1 = (Inr ys, w')" by (auto simp: py_splits)
    with Cons.IH show ?case by (simp add: bindM_Inr bindM_Inl)
  qed
  then show ?thesis by (simp add: submit_batch_def build_packets_def bindM_Inl)
qed

text \<open>
  The date is only checked after the serial is drawn: for an invoice dated before 1970 (or
  after the last representable day) the call fails and the serial is spent.
\<close>

theorem bad_date_wastes_serial:
  assumes "taxid (header ivc) = []" "draw_serial sv w = (Inr n, w')"
    and "issued_at (indatim (header ivc)) = Inr m" "day_range (tehran_offset sv) m = Inr day"
    and "day < 0 \<or> max_day_range < day"
  shows "with_identity sv cfg ivc w = (Inl InvalidTaxIdError, w')"
proof -
  have "generate_tax_id (tehran_offset sv) (memory_id cfg) n m = Inl InvalidTaxIdError"
    using assms(4,5) by (auto simp: tax_id_outcome)
  then show ?thesis using assms by (simp add: with_identity_def bindM_def)
qed

section \<open>Polling ends\<close>

lemma poll_terminates:
  assumes clock: "\<And>d w. 0 \<le> d \<Longrightarrow> monotonic sv w + d \<le> monotonic sv (sleep sv d w)"
    and calls: "\<And>w. monotonic sv w \<le> monotonic sv (snd (inquire sv refs w))"
    and pos: "0 < interval"
  shows "deadline - monotonic sv w \<le> of_nat k * interval \<Longrightarrow>
    \<exists>out. poll (Suc k) sv interval deadline refs w = Some out"
proof (induction k arbitrary: w)
  case 0
  obtain r w' where i: "inquire sv refs w = (r, w')" by (cases "inquire sv refs w")
  with calls [of w] have "monotonic sv w \<le> monotonic sv w'" by simp
  with 0 i show ?case by (auto simp: Let_def split: sum.split)
next
  case (Suc k)
  obtain r w' where i: "inquire sv refs w = (r, w')" by (cases "inquire sv refs w")
  have mono: "monotonic sv w \<le> monotonic sv w'" using calls [of w] i by simp
  let ?rem = "deadline - monotonic sv w'"
  show ?case
  proof (cases "0 < ?rem")
    case True
    let ?w = "sleep sv (min interval ?rem) w'"
    have "monotonic sv w' + min interval ?rem \<le> monotonic sv ?w"
      using True pos by (intro clock) simp
    moreover define c where "c = of_nat k * interval"
    moreover have "0 \<le> c" using pos by (simp add: c_def)
    moreover have "deadline - monotonic sv w \<le> c + interval"
      using Suc.prems by (simp add: c_def algebra_simps)
    ultimately have "deadline - monotonic sv ?w \<le> c" using mono by (auto simp: min_def split: if_splits)
    then have "deadline - monotonic sv ?w \<le> of_nat k * interval" by (simp add: c_def)
    from Suc.IH [OF this] i True show ?thesis
      by (auto simp: Let_def simp del: poll.simps(2) simp add: poll.simps(2) [of "Suc k"] split: sum.split)
  next
    case False
    with i show ?thesis by (auto simp: Let_def split: sum.split)
  qed
qed

lemma poll_result:
  "poll fuel sv interval deadline refs w = Some (Inr rs, w') \<Longrightarrow>
   \<not> list_ex in_progress rs \<or> deadline \<le> monotonic sv w'"
  by (induction fuel sv interval deadline refs w rule: poll.induct)
    (auto simp: Let_def split: prod.splits sum.splits if_splits)

text \<open>
  C37. Waiting for results ends: if the clock does not run backwards and sleeping advances it, the
  polling loop returns after at most \<open>timeout / poll_interval\<close> further polls, and what it
  returns has nothing left in progress unless the deadline has passed.
\<close>

theorem await_results_ends:
  assumes clock: "\<And>d w. 0 \<le> d \<Longrightarrow> monotonic sv w + d \<le> monotonic sv (sleep sv d w)"
    and calls: "\<And>refs w. monotonic sv w \<le> monotonic sv (snd (inquire sv refs w))"
    and "0 < interval" "0 \<le> min_wait" "0 \<le> timeout"
    and fuel: "fuel = Suc (nat \<lceil>timeout / interval\<rceil>)"
  shows "\<exists>r w'. await_results fuel sv min_wait interval timeout subs w = Some (r, w') \<and>
    (\<forall>rs. r = Inr rs \<longrightarrow> \<not> list_ex in_progress rs \<or> monotonic sv w + timeout \<le> monotonic sv w')"
proof (cases "references_of subs = []")
  case True
  then show ?thesis by (simp add: await_results_def)
next
  case False
  let ?k = "nat \<lceil>timeout / interval\<rceil>" and ?w = "sleep sv min_wait w"
  let ?deadline = "monotonic sv w + timeout"
  have "monotonic sv w + min_wait \<le> monotonic sv ?w" using assms(4) by (rule clock)
  then have "?deadline - monotonic sv ?w \<le> timeout" using assms(4) by linarith
  also have "timeout = timeout / interval * interval" using assms(3) by simp
  also have "\<dots> \<le> of_nat ?k * interval"
    using assms(3,5) by (intro mult_right_mono) (auto simp: of_nat_ceiling)
  finally obtain out where "poll (Suc ?k) sv interval ?deadline (references_of subs) ?w = Some out"
    using poll_terminates [OF clock calls assms(3)] by blast
  moreover obtain r w' where "out = (r, w')" by (cases out)
  ultimately have p: "poll fuel sv interval ?deadline (references_of subs) ?w = Some (r, w')"
    by (simp add: fuel)
  then have "await_results fuel sv min_wait interval timeout subs w = Some (r, w')"
    using False by (simp add: await_results_def Let_def)
  moreover have "\<not> list_ex in_progress rs \<or> ?deadline \<le> monotonic sv w'" if "r = Inr rs" for rs
    using p unfolding that by (rule poll_result)
  ultimately show ?thesis by blast
qed

section \<open>A concrete pipeline\<close>

text \<open>
  An environment that seals nothing, accepts every packet under its own uid and whose clock is a
  counter; the pattern of uids is the number of packets sent so far.
\<close>

definition sample_env :: "rat services" where
  "sample_env =
     \<lparr>draw_serial = (\<lambda>w. (Inl ConfigurationError, w)),
      new_uid = (\<lambda>w. (Inr [nat \<lfloor>w\<rfloor>], w + 1)),
      get_server_information = (\<lambda>w. (Inr \<lparr>serverTime = 0, publicKeys =
        [\<lparr>pk_key = lit ''key'', pk_id = lit ''kid'', pk_algorithm = None, pk_purpose = None\<rparr>]\<rparr>, w)),
      load_key = (\<lambda>k. Inr ()),
      seal = (\<lambda>k bytes w. (Inr bytes, w)),
      submit_invoices = (\<lambda>ps w. (Inr \<lparr>br_timestamp = 0, br_result = []\<rparr>, w)),
      inquiry_by_reference_id = (\<lambda>rs w. (Inr [], w)),
      sleep = (\<lambda>d w. w + d),
      monotonic = (\<lambda>w. w),
      tehran_offset = (\<lambda>_. 0),
      float_text = (\<lambda>_. lit ''0'')\<rparr>"

lemma sample_inquire: "inquire sample_env refs w = (Inr [], w)"
proof -
  have "mapM (inquiry_by_reference_id sample_env) cs w = (Inr (map (\<lambda>_. []) cs), w)" for cs
    by (induction cs) (simp_all add: sample_env_def bindM_def)
  then show ?thesis by (simp add: inquire_def bindM_def map_replicate_const)
qed

theorem await_results_ends_witness:
  "\<exists>r w'. await_results 25 sample_env 10 5 120
     [\<lparr>s_uid = lit ''u'', s_tax_id = lit ''t'', s_reference_number = Some (lit ''r''), s_raw = None\<rparr>] 0 = Some (r, w')"
  using await_results_ends [of sample_env 5 10 120 25
      "[\<lparr>s_uid = lit ''u'', s_tax_id = lit ''t'', s_reference_number = Some (lit ''r''), s_raw = None\<rparr>]" 0]
  by (simp add: sample_inquire) (auto simp: sample_env_def)

definition sample_cfg :: pipeline_config where
  "sample_cfg = \<lparr>memory_id = lit ''A11216'', validate_first = False, rules_of = sample_rules\<rparr>"

definition strict_cfg :: pipeline_config where
  "strict_cfg = sample_cfg\<lparr>validate_first := True\<rparr>"

text \<open>The id of the first invoice ever issued by memory A11216 on the sample day.\<close>

lemma sample_first_id:
  assumes "day_range (\<lambda>_. 0) m = Inr 19276"
  shows "generate_tax_id (\<lambda>_. 0) (lit ''A11216'') 1 m = Inr (lit ''A1121604B4C00000000010'')"
proof -
  have ok: "memory_id_ok (lit ''A11216'')" by code_simp
  have up: "map upper_point (lit ''A11216'') = lit ''A11216''" by code_simp
  have ctl: "control_text (lit ''A11216'') 19276 1 = lit ''6511216019276000000000001''"
    by (simp add: control_text_def decimalise_def fmt_eval ascii_digit_def)
  have check: "check_digit (lit ''6511216019276000000000001'') = Inr (lit ''0'')" by code_simp
  have hex: "lit ''A11216'' @ fmt_HEX 5 19276 @ fmt_HEX 10 1 @ lit ''0'' = lit ''A1121604B4C00000000010''"
    by (simp add: fmt_eval)
  show ?thesis
    using tax_id_outcome [of "\<lambda>_. 0" "lit ''A11216''" 1 m]
    by (simp add: ok up ctl check hex assms max_serial_def max_day_range_def del: fmt_HEX_nonneg)
qed

lemma sample_identity:
  "with_identity (file_services sample_env) cfg' sample_clean (Absent, e) =
     (Inr (sample_clean\<lparr>header := (header sample_clean)\<lparr>taxid := lit ''A1121604B4C00000000010'',
        inno := Some (lit ''0000000001'')\<rparr>\<rparr>), (Content (counter_text 1), e))"
  if "memory_id cfg' = lit ''A11216''"
proof -
  obtain m where m: "issued_at 1665490063447 = Inr m" "day_range (\<lambda>_. 0) m = Inr 19276"
    using day_of_millis [of 1665490063447 "\<lambda>_. 0"] by auto
  have h: "taxid (header sample_clean) = []" "indatim (header sample_clean) = 1665490063447"
    by (simp_all add: sample_eval)
  have sno: "invoice_serial_hex 1 = Inr (lit ''0000000001'')"
    by (simp add: invoice_serial_hex_def validate_serial_def max_serial_def fmt_eval)
  have draw: "draw_serial (file_services sample_env) (Absent, e) = (Inr 1, (Content (counter_text 1), e))"
    by (simp add: file_services_def first_serial)
  have off: "tehran_offset (file_services sample_env) = (\<lambda>_. 0)"
    by (simp add: file_services_def sample_env_def)
  show ?thesis
    using that sample_first_id [OF m(2)] by (simp add: with_identity_def bindM_def h m(1) draw sno off)
qed

text \<open>The sample invoice is written whatever its id: its texts are ASCII.\<close>

lemma sample_wire:
  "\<exists>bytes. canonical_json (\<lambda>_. lit ''0'') (to_wire_dict (sample_clean\<lparr>header := (header sample_clean)\<lparr>
     taxid := lit ''A1121604B4C00000000010'', inno := Some (lit ''0000000001'')\<rparr>\<rparr>)) = Inr bytes"
  (is "\<exists>bytes. canonical_json ?ft (to_wire_dict ?i) = Inr bytes")
proof (rule canonical_wire_total)
  let ?d = "JObj (present (invoice_items ?i))"
  have d: "json_floats ?d = [Fin 2, Fin 150, Fin 9]" "\<forall>c \<in> json_chars ?d. c < 128"
    by (simp_all add: sample_eval invoice_items_def header_items_def body_items_def lit_def)
  show "\<forall>x \<in> set (json_floats ?d). finite_float x" unfolding d(1) by (simp add: finite_float_def)
  show "\<forall>c \<in> json_chars ?d. \<not> surrogate c" using d(2) by (fastforce simp: surrogate_def simp del: json_chars.simps)
  show "\<forall>x. \<forall>c \<in> set (?ft x). \<not> surrogate c" by (simp add: lit_def surrogate_def)
qed

lemma submit_sample:
  assumes "memory_id cfg = lit ''A11216''" and v: "validated cfg sample_clean = Inr ()"
  shows "\<exists>subs w. submit (file_services sample_env) cfg [sample_clean] ((Absent, 0), None) =
     (Inr subs, ((Content (counter_text 1), w), Some \<lparr>sk_id = lit ''kid'', sk_key = lit ''key'',
        sk_algorithm = lit ''RSA'', sk_purpose = 1\<rparr>)) \<and>
     map s_tax_id subs = [lit ''A1121604B4C00000000010'']"
proof -
  define filled where "filled = sample_clean\<lparr>header := (header sample_clean)\<lparr>
     taxid := lit ''A1121604B4C00000000010'', inno := Some (lit ''0000000001'')\<rparr>\<rparr>"
  obtain bytes where b: "canonical_json (\<lambda>_. lit ''0'') (to_wire_dict filled) = Inr bytes"
    using sample_wire unfolding filled_def by blast
  have t: "taxid (header filled) = lit ''A1121604B4C00000000010''" by (simp add: filled_def)
  have c: "chunks MAX_PACKETS [sample_clean] = [[sample_clean]]"
    by (rule chunks_small) (simp_all add: MAX_PACKETS_def)
  have i: "with_identity (file_services sample_env) cfg sample_clean (Absent, e) =
     (Inr filled, (Content (counter_text 1), e))" for e
    unfolding filled_def using assms(1) by (rule sample_identity)
  let ?key = "\<lparr>sk_id = lit ''kid'', sk_key = lit ''key'', sk_algorithm = lit ''RSA'', sk_purpose = 1\<rparr>"
  have k: "get_server_key (file_services sample_env) ((Absent, 0), None) = (Inr ?key, ((Absent, 0), Some ?key))"
    by (simp add: get_server_key_def file_services_def sample_env_def in_env_def bindM_def choose_key_def)
  have f: "float_text (file_services sample_env) = (\<lambda>_. lit ''0'')"
    "load_key (file_services sample_env) = (\<lambda>_. Inr ())"
    "new_uid (file_services sample_env) (g, e) = (Inr [nat \<lfloor>e\<rfloor>], (g, e + 1))"
    "seal (file_services sample_env) key bs (g, e) = (Inr bs, (g, e))"
    "submit_invoices (file_services sample_env) ps (g, e) = (Inr \<lparr>br_timestamp = 0, br_result = []\<rparr>, (g, e))"
    for key bs ps g e
    by (simp_all add: file_services_def sample_env_def in_env_def)
  show ?thesis
    by (simp add: submit_def c k f on_world_def submit_batch_def build_packets_def build_one_def
        build_packet_def v i b t bindM_def submission_of_def by_uid_def)
qed

lemma sample_submit:
  "\<exists>subs w. submit (file_services sample_env) sample_cfg [sample_clean] ((Absent, 0), None) =
     (Inr subs, ((Content (counter_text 1), w), Some \<lparr>sk_id = lit ''kid'', sk_key = lit ''key'',
        sk_algorithm = lit ''RSA'', sk_purpose = 1\<rparr>)) \<and>
     map s_tax_id subs = [lit ''A1121604B4C00000000010'']"
  by (rule submit_sample) (simp_all add: validated_def sample_cfg_def)

theorem submit_unique_ids_witness:
  "\<exists>subs f' e' cache'. submit (file_services sample_env) sample_cfg [sample_clean] ((Absent, 0), None) =
     (Inr subs, ((f', e'), cache')) \<and> length subs = 1 \<and> distinct (generated [sample_clean] (map s_tax_id subs))"
proof -
  obtain subs w c where s: "submit (file_services sample_env) sample_cfg [sample_clean] ((Absent, 0), None) =
     (Inr subs, ((Content (counter_text 1), w), c))" using sample_submit by blast
  from submit_unique_ids [OF s] s show ?thesis by auto
qed

theorem with_identity_agrees_witness:
  "\<exists>txid. length txid = tax_id_length \<and> Some (lit ''0000000001'') = Some (slice serial_start serial_end txid)"
proof -
  have i: "with_identity (file_services sample_env) sample_cfg sample_clean (Absent, 0) =
     (Inr (sample_clean\<lparr>header := (header sample_clean)\<lparr>taxid := lit ''A1121604B4C00000000010'',
        inno := Some (lit ''0000000001'')\<rparr>\<rparr>), (Content (counter_text 1), 0))"
    by (rule sample_identity) (simp add: sample_cfg_def)
  have "taxid (header sample_clean) = []" by (simp add: sample_eval)
  from with_identity_agrees [OF i this] obtain txid where
    e: "sample_clean\<lparr>header := (header sample_clean)\<lparr>taxid := lit ''A1121604B4C00000000010'',
        inno := Some (lit ''0000000001'')\<rparr>\<rparr> = sample_clean\<lparr>header := (header sample_clean)\<lparr>taxid := txid,
      inno := Some (slice serial_start serial_end txid)\<rparr>\<rparr>" and l: "length txid = tax_id_length" by blast
  from arg_cong [OF e, of "\<lambda>i. inno (header i)"]
  have "Some (lit ''0000000001'') = Some (slice serial_start serial_end txid)" by simp
  with l show ?thesis by blast
qed

text \<open>The sample invoice without its lines is refused.\<close>

lemma sample_refused: "\<exists>r. validate_invoice sample_rules (sample_clean\<lparr>body := []\<rparr>) = Some r \<and> \<not> report_ok r"
proof -
  let ?i = "sample_clean\<lparr>body := []\<rparr>"
  have a: "\<exists>money. check_arithmetic ?i 1 = Some money"
    by (simp add: sample_clean_def check_arithmetic_def check_totals_def check_settlement_def
        total_violation_def money_eval broken_def off_by_def tolerance_rial_def)
  have e: "check_enums sample_rules ?i = Some []"
    by (simp add: sample_eval check_enums_def enum_violations_def header_attr_def header_items_def)
  have n: "pattern_number ?i = 1" by (simp add: sample_eval pattern_number_def DEFAULT_PATTERN_def)
  from a e n obtain r where r: "validate_invoice sample_rules ?i = Some r"
    by (auto simp: validate_invoice_def)
  obtain p where p: "pattern_of sample_rules 1 = Some p" using sample_pattern by blast
  from r have "errs (pattern_violations sample_rules ?i) \<noteq> [] \<Longrightarrow> \<not> report_ok r"
    by (auto simp: validate_invoice_def bind_eq_Some_conv report_ok_def errors_of_def errs_def)
  moreover have "errs (pattern_violations sample_rules ?i) \<noteq> []"
    by (simp add: pattern_violations_def n p check_obligations_def Let_def errs_broken)
  ultimately show ?thesis using r by blast
qed

theorem invalid_spends_nothing_witness:
  "\<exists>e. submit_batch sample_env strict_cfg \<lparr>sk_id = [], sk_key = [], sk_algorithm = [], sk_purpose = 1\<rparr>
     [sample_clean\<lparr>body := []\<rparr>] 7 = (Inl e, 7)"
proof -
  obtain r where r: "validate_invoice sample_rules (sample_clean\<lparr>body := []\<rparr>) = Some r" "\<not> report_ok r"
    using sample_refused by blast
  have c: "validate_first strict_cfg" "rules_of strict_cfg = sample_rules"
    by (simp_all add: strict_cfg_def sample_cfg_def)
  have v: "validate_invoice (rules_of strict_cfg) (sample_clean\<lparr>body := []\<rparr>) = Some r"
    by (simp only: c r)
  show ?thesis by (rule exI) (rule invalid_spends_nothing [OF c(1) v r(2)])
qed

lemma sample_accepted: "\<exists>r. validate_invoice sample_rules sample_clean = Some r \<and> report_ok r"
proof -
  have n: "pattern_number sample_clean = 1" by (simp add: sample_pattern)
  have v: "validate_invoice sample_rules sample_clean =
      Some \<lparr>violations = pattern_violations sample_rules sample_clean @ check_lengths sample_clean\<rparr>"
    by (simp add: validate_invoice_def n sample_clean_arithmetic sample_clean_enums)
  have "errs (pattern_violations sample_rules sample_clean) = []"
    by (simp add: pattern_violations_def n) (simp add: sample_eval pattern_of_def is_complete_def
        check_obligations_def header_violations_def line_violations_def for_type_def header_items_def
        body_items_def errs_broken)
  moreover have "errs (check_lengths sample_clean) = []"
    by (simp add: check_lengths_def sample_eval sstt_violations_ok mu_violations_ok sstt_ok_def mu_ok_def lit_def
        strip_no_space ascii_digit_def is_space_def space_points_def)
  ultimately show ?thesis by (simp add: v report_ok_def errors_of_def flip: errs_def)
qed

text \<open>One good invoice of the sample environment over the counter file.\<close>

lemma sample_build_one:
  "\<exists>x e. build_one (file_services sample_env) strict_cfg
     \<lparr>sk_id = [], sk_key = [], sk_algorithm = [], sk_purpose = 1\<rparr> sample_clean (Absent, 0) =
     (Inr x, (Content (counter_text 1), e))"
proof -
  define filled where "filled = sample_clean\<lparr>header := (header sample_clean)\<lparr>
     taxid := lit ''A1121604B4C00000000010'', inno := Some (lit ''0000000001'')\<rparr>\<rparr>"
  obtain bytes where b: "canonical_json (\<lambda>_. lit ''0'') (to_wire_dict filled) = Inr bytes"
    using sample_wire unfolding filled_def by blast
  have i: "with_identity (file_services sample_env) strict_cfg sample_clean (Absent, e) =
     (Inr filled, (Content (counter_text 1), e))" for e
    unfolding filled_def by (rule sample_identity) (simp add: strict_cfg_def sample_cfg_def)
  have f: "float_text (file_services sample_env) = (\<lambda>_. lit ''0'')"
    "new_uid (file_services sample_env) (g, e) = (Inr [nat \<lfloor>e\<rfloor>], (g, e + 1))"
    "seal (file_services sample_env) key bs (g, e) = (Inr bs, (g, e))" for key bs g e
    by (simp_all add: file_services_def sample_env_def in_env_def)
  have v: "validated strict_cfg sample_clean = Inr ()"
    using sample_accepted by (auto simp: validated_def strict_cfg_def sample_cfg_def raise_if_invalid_def)
  show ?thesis by (simp add: build_one_def build_packet_def v i f b bindM_def)
qed

theorem later_invalid_wastes_serials_witness:
  "\<exists>err e. submit_batch (file_services sample_env) strict_cfg
     \<lparr>sk_id = [], sk_key = [], sk_algorithm = [], sk_purpose = 1\<rparr>
     [sample_clean, sample_clean\<lparr>body := []\<rparr>] (Absent, 0) = (Inl err, (Content (counter_text 1), e))"
proof -
  let ?key = "\<lparr>sk_id = [], sk_key = [], sk_algorithm = [], sk_purpose = 1\<rparr>"
  obtain r where r: "validate_invoice sample_rules (sample_clean\<lparr>body := []\<rparr>) = Some r" "\<not> report_ok r"
    using sample_refused by blast
  have c: "validate_first strict_cfg" "rules_of strict_cfg = sample_rules"
    by (simp_all add: strict_cfg_def sample_cfg_def)
  obtain x e where "build_one (file_services sample_env) strict_cfg ?key sample_clean (Absent, 0) =
     (Inr x, (Content (counter_text 1), e))" using sample_build_one by blast
  then have built: "mapM (build_one (file_services sample_env) strict_cfg ?key) [sample_clean] (Absent, 0) =
     (Inr [x], (Content (counter_text 1), e))" by (simp add: bindM_def)
  have v: "validate_invoice (rules_of strict_cfg) (sample_clean\<lparr>body := []\<rparr>) = Some r"
    by (simp only: c r)
  show ?thesis using later_invalid_wastes_serials [OF c(1) v r(2) built, of "[]"] by auto
qed

lemma sample_bad_date: "issued_at (- 86400000) = Inr (Aware (- 86400000000))"
  "day_range off (Aware (- 86400000000)) = Inr (- 1)"
proof -
  have r: "rnd (- 86400) = Fin (- 86400)" "rnd 0 = Fin 0"
    using rnd_int [of "- 86400"] rnd_int [of 0] by simp_all
  have h: "round_half_even 0 = 0" using round_half_even_of_int [of 0] by simp
  show "issued_at (- 86400000) = Inr (Aware (- 86400000000))"
    by (simp add: issued_at_def seconds_of_millis_def r h fromtimestamp_def micros_of_seconds_def trunc_def)
  show "day_range off (Aware (- 86400000000)) = Inr (- 1)"
    by (simp add: day_range_def timestamp_def r seconds_per_day_def)
qed

theorem bad_date_wastes_serial_witness:
  "with_identity (file_services sample_env) sample_cfg
     (sample_clean\<lparr>header := (header sample_clean)\<lparr>indatim := - 86400000\<rparr>\<rparr>) (Absent, 0) =
     (Inl InvalidTaxIdError, (Content (counter_text 1), 0))"
proof (rule bad_date_wastes_serial)
  show "taxid (header (sample_clean\<lparr>header := (header sample_clean)\<lparr>indatim := - 86400000\<rparr>\<rparr>)) = []"
    by (simp add: sample_eval)
  show "draw_serial (file_services sample_env) (Absent, 0) = (Inr 1, (Content (counter_text 1), 0))"
    by (simp add: file_services_def first_serial)
  show "issued_at (indatim (header (sample_clean\<lparr>header := (header sample_clean)\<lparr>indatim := - 86400000\<rparr>\<rparr>))) =
    Inr (Aware (- 86400000000))" by (simp add: sample_bad_date)
  show "day_range (tehran_offset (file_services sample_env)) (Aware (- 86400000000)) = Inr (- 1)"
    by (rule sample_bad_date)
qed simp

end
