(* ===== verification/Tables.thy ===== *)
theory Tables
  imports Prelude
begin

text \<open>
  A table with an \<open>INTEGER PRIMARY KEY AUTOINCREMENT\<close>: the rows in the order of their ids and the
  largest id ever handed out. The interface \<open>row_store\<close> states what the stores rely on; the table
  provides it.
\<close>

record 'r table =
  t_rows :: "(int \<times> 'r) list"
  t_seq :: int

definition empty_table :: "'r table" where
  "empty_table = \<lparr>t_rows = [], t_seq = 0\<rparr>"

definition get_row :: "'r table \<Rightarrow> int \<Rightarrow> 'r option" where
  "get_row t = map_of (t_rows t)"

definition insert_row :: "'r \<Rightarrow> 'r table \<Rightarrow> int \<times> 'r table" where
  "insert_row r t = (t_seq t + 1, \<lparr>t_rows = t_rows t @ [(t_seq t + 1, r)], t_seq = t_seq t + 1\<rparr>)"

text \<open>\<open>UPDATE ... WHERE id = ?\<close>, without effect when there is no such row.\<close>

definition update_row :: "int \<Rightarrow> ('r \<Rightarrow> 'r) \<Rightarrow> 'r table \<Rightarrow> 'r table" where
  "update_row i f t = t\<lparr>t_rows := map (\<lambda>(j, r). (j, if j = i then f r else r)) (t_rows t)\<rparr>"

definition update_all :: "('r \<Rightarrow> 'r) \<Rightarrow> 'r table \<Rightarrow> 'r table" where
  "update_all f t = t\<lparr>t_rows := map (\<lambda>(j, r). (j, f r)) (t_rows t)\<rparr>"

definition delete_row :: "int \<Rightarrow> 'r table \<Rightarrow> 'r table" where
  "delete_row i t = t\<lparr>t_rows := filter (\<lambda>(j, r). j \<noteq> i) (t_rows t)\<rparr>"

text \<open>Every id was handed out once, in increasing order.\<close>

definition table_ok :: "'r table \<Rightarrow> bool" where
  "table_ok t = (sorted_wrt (<) (map fst (t_rows t)) \<and> (\<forall>i \<in> fst ` set (t_rows t). i \<le> t_seq t))"

locale row_store =
  fixes ok :: "'s \<Rightarrow> bool"
    and get :: "'s \<Rightarrow> int \<Rightarrow> 'r option"
    and insert :: "'r \<Rightarrow> 's \<Rightarrow> int \<times> 's"
    and update :: "int \<Rightarrow> ('r \<Rightarrow> 'r) \<Rightarrow> 's \<Rightarrow> 's"
    and delete :: "int \<Rightarrow> 's \<Rightarrow> 's"
    and issued :: "'s \<Rightarrow> int"
  assumes insert_law: "ok s \<Longrightarrow> insert r s = (i, s') \<Longrightarrow>
        ok s' \<and> issued s < i \<and> issued s' = i \<and> get s' = (get s)(i \<mapsto> r)"
    and update_law: "ok s \<Longrightarrow> ok (update i f s) \<and> issued (update i f s) = issued s \<and>
        get (update i f s) = (get s)(i := map_option f (get s i))"
    and delete_law: "ok s \<Longrightarrow> ok (delete i s) \<and> issued (delete i s) = issued s \<and>
        get (delete i s) = (get s)(i := None)"
    and get_issued: "ok s \<Longrightarrow> get s i = Some r \<Longrightarrow> i \<le> issued s"
begin

lemma insert_fresh: "ok s \<Longrightarrow> insert r s = (i, s') \<Longrightarrow> get s i = None"
  using insert_law [of s r i s'] get_issued [of s i] by (cases "get s i") force+

lemma insert_keeps: "ok s \<Longrightarrow> insert r s = (i, s') \<Longrightarrow> get s j = Some x \<Longrightarrow> get s' j = Some x"
  using insert_law insert_fresh by (metis fun_upd_other option.distinct(1))

text \<open>A deleted id is never handed out again.\<close>

lemma deleted_not_reused:
  assumes "ok s" "get s i = Some r" "insert x (delete i s) = (j, s')"
  shows "j \<noteq> i"
  using assms delete_law [of s i] insert_law [of "delete i s" x j s'] get_issued [of s i r] by force

end

lemma table_ok_distinct: "table_ok t \<Longrightarrow> distinct (map fst (t_rows t))"
  by (auto simp: table_ok_def strict_sorted_iff)

lemma table_ok_empty [simp]: "table_ok empty_table"
  by (simp add: table_ok_def empty_table_def)

lemma map_of_update_rows:
  "map_of (map (\<lambda>(j, r). (j, if j = i then f r else r)) rs) = (map_of rs)(i := map_option f (map_of rs i))"
  by (induction rs) (auto simp: fun_eq_iff)

lemma map_of_delete_rows: "map_of (filter (\<lambda>(j, r). j \<noteq> i) rs) = (map_of rs)(i := None)"
  by (induction rs) (auto simp: fun_eq_iff)

lemma map_fst_update_rows [simp]: "map fst (map (\<lambda>(j, r). (j, f j r)) rs) = map fst rs"
  by (induction rs) auto

lemma table_ok_ids:
  assumes "map fst (t_rows t') = map fst (t_rows t)" "t_seq t' = t_seq t"
  shows "table_ok t' = table_ok t"
proof -
  have "fst ` set (t_rows t') = fst ` set (t_rows t)" using assms(1) by (metis set_map)
  with assms show ?thesis by (simp add: table_ok_def)
qed

lemma table_ok_update_row: "table_ok t \<Longrightarrow> table_ok (update_row i f t)"
  by (subst table_ok_ids [of _ t]) (simp_all add: update_row_def del: map_map)

lemma table_ok_update_all: "table_ok t \<Longrightarrow> table_ok (update_all f t)"
  by (subst table_ok_ids [of _ t]) (simp_all add: update_all_def del: map_map)

lemma table_ok_delete_row: "table_ok t \<Longrightarrow> table_ok (delete_row i t)"
  unfolding table_ok_def delete_row_def
  by (auto simp: sorted_wrt_map intro: sorted_wrt_filter)

lemma table_ok_insert_row: "table_ok t \<Longrightarrow> insert_row r t = (i, t') \<Longrightarrow> table_ok t'"
  unfolding table_ok_def insert_row_def by (clarsimp simp: sorted_wrt_append) force

lemma get_insert_row: "table_ok t \<Longrightarrow> insert_row r t = (i, t') \<Longrightarrow> get_row t' = (get_row t)(i \<mapsto> r)"
proof -
  assume t: "table_ok t" and i: "insert_row r t = (i, t')"
  then have "i \<notin> fst ` set (t_rows t)" by (force simp: table_ok_def insert_row_def)
  then have "map_of (t_rows t) i = None" by (simp add: map_of_eq_None_iff)
  with i show ?thesis by (auto simp: get_row_def insert_row_def map_add_def fun_eq_iff split: option.splits)
qed

interpretation table: row_store table_ok get_row insert_row update_row delete_row t_seq
proof
  fix t :: "'a table" and r i t'
  assume "table_ok t" "insert_row r t = (i, t')"
  then show "table_ok t' \<and> t_seq t < i \<and> t_seq t' = i \<and> get_row t' = (get_row t)(i \<mapsto> r)"
    using table_ok_insert_row get_insert_row by (fastforce simp: insert_row_def)
next
  fix t :: "'a table" and i f
  assume "table_ok t"
  then show "table_ok (update_row i f t) \<and> t_seq (update_row i f t) = t_seq t \<and>
      get_row (update_row i f t) = (get_row t)(i := map_option f (get_row t i))"
    by (simp add: table_ok_update_row get_row_def map_of_update_rows)
       (simp add: get_row_def update_row_def map_of_update_rows)
next
  fix t :: "'a table" and i
  assume "table_ok t"
  then show "table_ok (delete_row i t) \<and> t_seq (delete_row i t) = t_seq t \<and>
      get_row (delete_row i t) = (get_row t)(i := None)"
    by (simp add: table_ok_delete_row) (simp add: get_row_def delete_row_def map_of_delete_rows)
next
  fix t :: "'a table" and i r
  assume "table_ok t" "get_row t i = Some r"
  then show "i \<le> t_seq t" by (force simp: table_ok_def get_row_def dest: map_of_SomeD)
qed

end
