(* ===== verification/Profiles.thy ===== *)
theory Profiles
  imports Json TaxId
begin

text \<open>
  \<open>config/environment.py\<close> and \<open>config/profiles.py\<close>: the two deployments, the profile of a fiscal
  memory, and the store that keeps the profiles in one encrypted file.

  The file is its parsed JSON envelope with the fields decoded from base64; the key derivation
  and the cipher are the parameters \<open>derive_key\<close>, \<open>encrypt\<close> and \<open>decrypt\<close> (the \<open>cryptography\<close>
  package), and the plaintext is the JSON value itself. The certificate of a profile and the file
  system (temporary file, rename) are not modelled.
\<close>

section \<open>Environments\<close>

datatype environment = SANDBOX | PRODUCTION

definition ALIASES :: "(pystr \<times> environment) list" where
  "ALIASES =
     [(lit ''sandbox'', SANDBOX), (lit ''sandboxrc'', SANDBOX), (lit ''production'', PRODUCTION),
      (lit ''prod'', PRODUCTION), (lit ''operational'', PRODUCTION), (lit ''tp'', PRODUCTION)]"

definition environment_text :: "environment \<Rightarrow> pystr" where
  "environment_text e = (case e of SANDBOX \<Rightarrow> lit ''sandbox'' | PRODUCTION \<Rightarrow> lit ''production'')"

text \<open>
  \<open>str(value).strip().lower()\<close>: the only character outside ASCII that lowers to an ASCII letter is
  the Kelvin sign, and no alias contains a \<open>k\<close>.
\<close>

definition parse_environment :: "pystr \<Rightarrow> environment result" where
  "parse_environment s =
     (case map_of ALIASES (map lower_point (strip s)) of
        Some e \<Rightarrow> Inr e
      | None \<Rightarrow> Inl ConfigurationError)"

definition host :: "environment \<Rightarrow> pystr" where
  "host e = (if e = SANDBOX then lit ''sandboxrc'' else lit ''tp'') @ lit ''.tax.gov.ir''"

definition environment_base_url :: "environment \<Rightarrow> pystr" where
  "environment_base_url e = lit ''https://'' @ host e @ lit ''/requestsmanager''"

definition is_production :: "environment \<Rightarrow> bool" where
  "is_production e = (e = PRODUCTION)"

section \<open>Profiles\<close>

record profile =
  prof_name :: pystr
  prof_memory_id :: pystr
  prof_environment :: environment
  prof_economic_code :: "pystr option"
  prof_base_url_override :: "pystr option"

text \<open>\<open>re.compile(r"^[A-Z0-9]{6}$").match(s)\<close>: \<open>$\<close> also matches before a final newline.\<close>

definition memory_char :: "nat \<Rightarrow> bool" where
  "memory_char c = (ascii_digit c \<or> ascii_upper_letter c)"

definition memory_id_matches :: "pystr \<Rightarrow> bool" where
  "memory_id_matches s =
     (list_all memory_char (take 6 s) \<and> (length s = 6 \<or> length s = 7 \<and> last s = 10))"

definition startswith :: "pystr \<Rightarrow> pystr \<Rightarrow> bool" where
  "startswith s prefix = (take (length prefix) s = prefix)"

definition base_url :: "profile \<Rightarrow> pystr" where
  "base_url p =
     (case prof_base_url_override p of
        None \<Rightarrow> environment_base_url (prof_environment p)
      | Some u \<Rightarrow> if u = [] then environment_base_url (prof_environment p) else u)"

definition validate_profile :: "profile \<Rightarrow> unit result" where
  "validate_profile p =
     (if prof_name p = [] \<or> is_blank (prof_name p) then Inl ConfigurationError
      else if \<not> memory_id_matches (prof_memory_id p) then Inl ConfigurationError
      else if \<not> (startswith (base_url p) (lit ''http://'') \<or> startswith (base_url p) (lit ''https://''))
        then Inl ConfigurationError
      else if base_url p \<noteq> [] \<and> last (base_url p) = 47 then Inl ConfigurationError
      else if (case prof_economic_code p of None \<Rightarrow> False | Some c \<Rightarrow> \<not> isdigit c)
        then Inl ConfigurationError
      else Inr ())"

definition opt_text :: "pystr option \<Rightarrow> json" where
  "opt_text v = (case v of None \<Rightarrow> JNull | Some s \<Rightarrow> JStr s)"

definition profile_to_json :: "profile \<Rightarrow> json" where
  "profile_to_json p = JObj
     [(lit ''name'', JStr (prof_name p)),
      (lit ''memory_id'', JStr (prof_memory_id p)),
      (lit ''environment'', JStr (environment_text (prof_environment p))),
      (lit ''base_url_override'', opt_text (prof_base_url_override p)),
      (lit ''economic_code'', opt_text (prof_economic_code p))]"

text \<open>
  \<open>_from_json\<close>: a missing field is refused, \<open>data.get\<close> of an optional one is \<open>None\<close>. A value of
  another type than the writer produces is a \<open>TypeError\<close> of the model.
\<close>

definition text_field :: "pystr \<Rightarrow> json \<Rightarrow> pystr result" where
  "text_field k data =
     (case jget k data of Some (JStr s) \<Rightarrow> Inr s | Some _ \<Rightarrow> Inl TypeError | None \<Rightarrow> Inl ConfigurationError)"

definition optional_field :: "pystr \<Rightarrow> json \<Rightarrow> pystr option result" where
  "optional_field k data =
     (case jget k data of
        Some (JStr s) \<Rightarrow> Inr (Some s) | Some JNull \<Rightarrow> Inr None | None \<Rightarrow> Inr None | Some _ \<Rightarrow> Inl TypeError)"

definition profile_from_json :: "json \<Rightarrow> profile result" where
  "profile_from_json data =
     bindE (text_field (lit ''name'') data) (\<lambda>name.
     bindE (text_field (lit ''memory_id'') data) (\<lambda>memory.
     bindE (text_field (lit ''environment'') data) (\<lambda>e.
     bindE (parse_environment e) (\<lambda>environment.
     bindE (optional_field (lit ''economic_code'') data) (\<lambda>code.
     bindE (optional_field (lit ''base_url_override'') data) (\<lambda>url.
       Inr \<lparr>prof_name = name, prof_memory_id = memory, prof_environment = environment,
         prof_economic_code = code, prof_base_url_override = url\<rparr>))))))"

section \<open>The encrypted store\<close>

type_synonym bytes = "nat list"
type_synonym profiles = "(pystr \<times> profile) list"

record kdf_params =
  kdf_n :: int
  kdf_r :: int
  kdf_p :: int

record 'c envelope =
  env_version :: int
  env_kdf :: kdf_params
  env_salt :: bytes
  env_nonce :: bytes
  env_ciphertext :: 'c

datatype 'c store_file = NoFile | Unreadable | Envelope "'c envelope"

record ('k, 'c) cipher =
  derive_key :: "bytes \<Rightarrow> kdf_params \<Rightarrow> 'k"
  encrypt :: "'k \<Rightarrow> bytes \<Rightarrow> json \<Rightarrow> 'c"
  decrypt :: "'k \<Rightarrow> bytes \<Rightarrow> 'c \<Rightarrow> json option"

definition FILE_VERSION :: int where "FILE_VERSION = 1"

definition SCRYPT :: kdf_params where
  "SCRYPT = \<lparr>kdf_n = 2 ^ 15, kdf_r = 8, kdf_p = 1\<rparr>"

definition profiles_to_json :: "profiles \<Rightarrow> json" where
  "profiles_to_json ps = JObj [(lit ''profiles'', JObj (map (\<lambda>(n, p). (n, profile_to_json p)) ps))]"

definition profiles_from_json :: "json \<Rightarrow> profiles result" where
  "profiles_from_json payload =
     (case jget (lit ''profiles'') payload of
        None \<Rightarrow> Inr []
      | Some (JObj kvs) \<Rightarrow> mapE (\<lambda>(n, data). bindE (profile_from_json data) (\<lambda>p. Inr (n, p))) kvs
      | Some _ \<Rightarrow> Inl TypeError)"

definition read_all :: "('k, 'c) cipher \<Rightarrow> 'c store_file \<Rightarrow> profiles result" where
  "read_all c f =
     (case f of
        NoFile \<Rightarrow> Inr []
      | Unreadable \<Rightarrow> Inl ConfigurationError
      | Envelope e \<Rightarrow>
          if env_version e \<noteq> FILE_VERSION then Inl ConfigurationError
          else
            (case decrypt c (derive_key c (env_salt e) (env_kdf e)) (env_nonce e) (env_ciphertext e) of
               None \<Rightarrow> Inl ConfigurationError
             | Some payload \<Rightarrow> profiles_from_json payload))"

text \<open>A write draws a fresh salt and a fresh nonce.\<close>

definition write_all :: "('k, 'c) cipher \<Rightarrow> bytes \<Rightarrow> bytes \<Rightarrow> profiles \<Rightarrow> 'c store_file" where
  "write_all c salt nonce ps =
     Envelope \<lparr>env_version = FILE_VERSION, env_kdf = SCRYPT, env_salt = salt, env_nonce = nonce,
       env_ciphertext = encrypt c (derive_key c salt SCRYPT) nonce (profiles_to_json ps)\<rparr>"

definition save_profile ::
    "('k, 'c) cipher \<Rightarrow> bytes \<Rightarrow> bytes \<Rightarrow> profile \<Rightarrow> 'c store_file \<Rightarrow> 'c store_file result" where
  "save_profile c salt nonce p f =
     bindE (validate_profile p) (\<lambda>_.
     bindE (read_all c f) (\<lambda>ps.
       Inr (write_all c salt nonce (dict_set (prof_name p) p ps))))"

definition load_profile :: "('k, 'c) cipher \<Rightarrow> pystr \<Rightarrow> 'c store_file \<Rightarrow> profile result" where
  "load_profile c name f =
     bindE (read_all c f) (\<lambda>ps.
       (case map_of ps name of Some p \<Rightarrow> Inr p | None \<Rightarrow> Inl ConfigurationError))"

definition delete_profile ::
    "('k, 'c) cipher \<Rightarrow> bytes \<Rightarrow> bytes \<Rightarrow> pystr \<Rightarrow> 'c store_file \<Rightarrow> 'c store_file result" where
  "delete_profile c salt nonce name f =
     bindE (read_all c f) (\<lambda>ps.
       (if map_of ps name = None then Inl ConfigurationError
        else Inr (write_all c salt nonce (dict_del name ps))))"

section \<open>Facts\<close>

lemma parse_environment_text [simp]: "parse_environment (environment_text e) = Inr e"
  by (cases e) (simp_all add: parse_environment_def environment_text_def strip_def lstrip_def rstrip_def
      is_space_def space_points_def ALIASES_def lit_def lower_point_def ascii_defs)

lemma profile_json_roundtrip [simp]: "profile_from_json (profile_to_json p) = Inr p"
  by (cases p) (simp add: profile_from_json_def profile_to_json_def text_field_def optional_field_def
      opt_text_def split: option.splits)

lemma mapE_roundtrip:
  "mapE (\<lambda>(n, data). bindE (profile_from_json data) (\<lambda>p. Inr (n, p)))
     (map (\<lambda>(n, p). (n, profile_to_json p)) ps) = Inr ps"
  by (induction ps) (auto split: prod.splits)

lemma profiles_json_roundtrip [simp]: "profiles_from_json (profiles_to_json ps) = Inr ps"
  by (simp add: profiles_from_json_def profiles_to_json_def mapE_roundtrip)

lemma read_all_write_all:
  "(\<And>k n x. decrypt c k n (encrypt c k n x) = Some x) \<Longrightarrow> read_all c (write_all c salt nonce ps) = Inr ps"
  by (simp add: read_all_def write_all_def)

text \<open>
  A profile that was saved is the one that is loaded under its name, every other name loads
  what it loaded before, and only a valid profile is ever stored.
\<close>

theorem save_profile_roundtrip:
  assumes "\<And>k n x. decrypt c k n (encrypt c k n x) = Some x"
    and "save_profile c salt nonce p f = Inr f'"
  shows "load_profile c name f' = (if name = prof_name p then Inr p else load_profile c name f) \<and>
    validate_profile p = Inr ()"
proof -
  from assms(2) obtain ps where "validate_profile p = Inr ()" "read_all c f = Inr ps"
    and f': "f' = write_all c salt nonce (dict_set (prof_name p) p ps)"
    by (auto simp: save_profile_def py_splits)
  with assms(1) show ?thesis by (auto simp: load_profile_def read_all_write_all)
qed

definition sample_cipher :: "(unit, json) cipher" where
  "sample_cipher = \<lparr>derive_key = (\<lambda>_ _. ()), encrypt = (\<lambda>_ _ x. x), decrypt = (\<lambda>_ _ y. Some y)\<rparr>"

definition sample_profile :: profile where
  "sample_profile = \<lparr>prof_name = lit ''shop'', prof_memory_id = lit ''A11216'', prof_environment = SANDBOX,
     prof_economic_code = None, prof_base_url_override = None\<rparr>"

lemma sample_texts:
  "is_blank (lit ''shop'') = False" "memory_id_matches (lit ''A11216'') = True"
  "memory_id_matches (lit ''A11216'' @ [10]) = True"
  "startswith (environment_base_url SANDBOX) (lit ''https://'') = True"
  "last (environment_base_url SANDBOX) \<noteq> 47"
  by (simp_all add: is_blank_def strip_def lstrip_def rstrip_def is_space_def space_points_def
      memory_id_matches_def memory_char_def ascii_defs startswith_def environment_base_url_def host_def lit_def)

lemma sample_profile_valid [simp]:
  "validate_profile sample_profile = Inr ()"
  "validate_profile (sample_profile\<lparr>prof_memory_id := lit ''A11216'' @ [10]\<rparr>) = Inr ()"
  by (simp_all add: validate_profile_def sample_profile_def base_url_def sample_texts)

theorem save_profile_roundtrip_witness:
  "load_profile sample_cipher (lit ''shop'')
     (projr (save_profile sample_cipher [1] [2] sample_profile NoFile)) = Inr sample_profile"
proof -
  have s: "save_profile sample_cipher [1] [2] sample_profile NoFile =
      Inr (projr (save_profile sample_cipher [1] [2] sample_profile NoFile))"
    by (simp add: save_profile_def read_all_def)
  show ?thesis
    using save_profile_roundtrip [OF _ s, of "lit ''shop''"]
    by (simp add: sample_cipher_def sample_profile_def)
qed

text \<open>
  The pattern for the memory id lets a final newline through: such a profile passes
  \<open>validate\<close>, but no tax id can be made for it.
\<close>

theorem newline_memory_id_unusable:
  assumes "validate_profile p = Inr ()" and "last (prof_memory_id p) = 10"
  shows "memory_id_matches (prof_memory_id p) \<and>
    generate_tax_id off (prof_memory_id p) n m = Inl InvalidTaxIdError"
proof -
  from assms(1) have m: "memory_id_matches (prof_memory_id p)"
    by (auto simp: validate_profile_def split: if_splits)
  then have "prof_memory_id p \<noteq> []" by (auto simp: memory_id_matches_def)
  with assms(2) have "10 \<in> set (prof_memory_id p)" by (metis last_in_set)
  then have "\<not> memory_id_ok (prof_memory_id p)"
    by (auto simp: memory_id_ok_def list_all_iff ascii_defs intro!: bexI [of _ 10])
  with m show ?thesis by (simp add: tax_id_outcome)
qed

theorem newline_memory_id_unusable_witness:
  "generate_tax_id (\<lambda>_. 0) (lit ''A11216'' @ [10]) 1 (Aware 0) = Inl InvalidTaxIdError"
  using newline_memory_id_unusable [OF sample_profile_valid(2), of "\<lambda>_. 0" 1 "Aware 0"] by simp

end
