(* ===== verification/Records.thy ===== *)
theory Records
  imports Tables Effects Engine Responses Profiles "HOL-Library.List_Lexorder" "HOL-Library.Product_Lexorder"
begin

text \<open>
  \<open>store/records.py\<close>: the buyers and the goods, shared by all profiles, and the invoice records of
  each profile. A table is a \<open>table\<close> of \<open>Tables\<close>; the text columns \<open>payload\<close> and \<open>detail\<close> hold
  their JSON values (the standard library writes and reads them back), a write that raises leaves
  the store as it was (the transaction of \<open>_write\<close>), and \<open>now\<close> is the text of \<open>_now()\<close>. The lock
  makes every operation one step; failures of the database itself are not modelled.
\<close>

section \<open>The states of an invoice\<close>

datatype invoice_state = DRAFT | INVALID | SENT | CONFIRMED | REJECTED | CANCELLED

instantiation invoice_state :: enum
begin

text \<open>\<open>InvoiceState.ALL\<close>.\<close>

definition enum_invoice_state :: "invoice_state list" where
  "enum_invoice_state = [DRAFT, INVALID, SENT, CONFIRMED, REJECTED, CANCELLED]"

definition enum_all_invoice_state :: "(invoice_state \<Rightarrow> bool) \<Rightarrow> bool" where
  "enum_all_invoice_state P = list_all P (enum_class.enum :: invoice_state list)"

definition enum_ex_invoice_state :: "(invoice_state \<Rightarrow> bool) \<Rightarrow> bool" where
  "enum_ex_invoice_state P = list_ex P (enum_class.enum :: invoice_state list)"

lemma UNIV_invoice_state: "(UNIV :: invoice_state set) = set enum_class.enum"
  unfolding enum_invoice_state_def using invoice_state.exhaust by auto

instance
  by standard (simp_all add: UNIV_invoice_state enum_all_invoice_state_def enum_ex_invoice_state_def
      list_all_iff list_ex_iff enum_invoice_state_def)

end

definition state_text :: "invoice_state \<Rightarrow> pystr" where
  "state_text s =
     (case s of DRAFT \<Rightarrow> lit ''draft'' | INVALID \<Rightarrow> lit ''invalid'' | SENT \<Rightarrow> lit ''sent''
      | CONFIRMED \<Rightarrow> lit ''confirmed'' | REJECTED \<Rightarrow> lit ''rejected'' | CANCELLED \<Rightarrow> lit ''cancelled'')"

section \<open>The rows\<close>

record buyer =
  b_name :: pystr
  b_national_id :: pystr
  b_economic_code :: "pystr option"
  b_person_type :: int
  b_postal_code :: "pystr option"
  b_branch_code :: "pystr option"
  b_note :: "pystr option"
  b_id :: "int option"
  b_created_at :: "pystr option"

record goods_service =
  g_stuff_id :: pystr
  g_description :: pystr
  g_unit :: "pystr option"
  g_vat_rate :: "pyfloat option"
  g_default_fee :: "pyfloat option"
  g_is_default :: bool
  g_id :: "int option"
  g_created_at :: "pystr option"

text \<open>
  The parts of a record's \<open>detail\<close>: the verification report, the answer of the organization under
  the key \<open>inquiry\<close>, and \<open>cancelledBy\<close>.
\<close>

record inquiry_block =
  ib_status :: "pystr option"
  ib_checked_at :: pystr
  ib_reference_number :: "pystr option"
  ib_uid :: "pystr option"
  ib_errors :: "json list"
  ib_warnings :: "json list"

record cancelled_by =
  cb_id :: "int option"
  cb_tax_id :: "pystr option"
  cb_at :: pystr

record record_detail =
  d_report :: "verification_result option"
  d_inquiry :: "inquiry_block option"
  d_cancelled_by :: "cancelled_by option"

definition no_detail :: record_detail where
  "no_detail = \<lparr>d_report = None, d_inquiry = None, d_cancelled_by = None\<rparr>"

record invoice_record =
  rec_profile :: pystr
  rec_state :: invoice_state
  rec_payload :: json
  rec_tax_id :: "pystr option"
  rec_uid :: "pystr option"
  rec_reference_number :: "pystr option"
  rec_detail :: "record_detail option"
  rec_id :: "int option"
  rec_created_at :: "pystr option"
  rec_updated_at :: "pystr option"

record record_store =
  buyers :: "buyer table"
  goods :: "goods_service table"
  invoices :: "invoice_record table"

definition empty_store :: record_store where
  "empty_store = \<lparr>buyers = empty_table, goods = empty_table, invoices = empty_table\<rparr>"

section \<open>Buyers\<close>

definition validate_buyer :: "buyer \<Rightarrow> unit result" where
  "validate_buyer b =
     (if is_blank (b_name b) then Inl ConfigurationError
      else if is_blank (b_national_id b) then Inl ConfigurationError
      else if \<not> isdigit (b_national_id b) then Inl ConfigurationError
      else if b_person_type b \<notin> {1, 2, 3, 4, 5} then Inl ConfigurationError
      else Inr ())"

definition buyer_of_row :: "int \<times> buyer \<Rightarrow> buyer" where
  "buyer_of_row = (\<lambda>(i, b). b\<lparr>b_id := Some i\<rparr>)"

definition list_buyers :: "record_store \<Rightarrow> buyer list" where
  "list_buyers s = map buyer_of_row (sort_key (b_name \<circ> snd) (t_rows (buyers s)))"

definition add_buyer :: "pystr \<Rightarrow> buyer \<Rightarrow> (record_store, buyer) io" where
  "add_buyer now b =
     bindM (liftM (validate_buyer b)) (\<lambda>_ s.
       if b_national_id b \<in> (b_national_id \<circ> snd) ` set (t_rows (buyers s)) then (Inl ConfigurationError, s)
       else
         let (i, t) = insert_row (b\<lparr>b_created_at := Some now\<rparr>) (buyers s) in
         (Inr (b\<lparr>b_id := Some i, b_created_at := Some now\<rparr>), s\<lparr>buyers := t\<rparr>))"

definition delete_buyer :: "int \<Rightarrow> (record_store, unit) io" where
  "delete_buyer i = (\<lambda>s.
     if get_row (buyers s) i = None then (Inl ConfigurationError, s)
     else (Inr (), s\<lparr>buyers := delete_row i (buyers s)\<rparr>))"

section \<open>Goods\<close>

definition negative :: "pyfloat \<Rightarrow> bool" where
  "negative v = (case v of Fin x \<Rightarrow> x < 0 | NInf \<Rightarrow> True | _ \<Rightarrow> False)"

definition validate_goods :: "goods_service \<Rightarrow> unit result" where
  "validate_goods g =
     (if is_blank (g_stuff_id g) then Inl ConfigurationError
      else if is_blank (g_description g) then Inl ConfigurationError
      else if (case g_vat_rate g of None \<Rightarrow> False | Some v \<Rightarrow> negative v) then Inl ConfigurationError
      else Inr ())"

text \<open>SQLite stores a NaN in a \<open>REAL\<close> column as \<open>NULL\<close>.\<close>

definition real_column :: "pyfloat option \<Rightarrow> pyfloat option" where
  "real_column v = (if v = Some NaN then None else v)"

definition goods_of_row :: "int \<times> goods_service \<Rightarrow> goods_service" where
  "goods_of_row = (\<lambda>(i, g). g\<lparr>g_id := Some i\<rparr>)"

definition list_goods :: "record_store \<Rightarrow> goods_service list" where
  "list_goods s = map goods_of_row
     (sort_key (\<lambda>(i, g). (\<not> g_is_default g, g_description g)) (t_rows (goods s)))"

definition undefault :: "goods_service \<Rightarrow> goods_service" where
  "undefault g = g\<lparr>g_is_default := False\<rparr>"

definition add_goods :: "pystr \<Rightarrow> goods_service \<Rightarrow> (record_store, goods_service) io" where
  "add_goods now g =
     bindM (liftM (validate_goods g)) (\<lambda>_ s.
       let t = if g_is_default g then update_all undefault (goods s) else goods s in
       if g_stuff_id g \<in> (g_stuff_id \<circ> snd) ` set (t_rows t) then (Inl ConfigurationError, s)
       else
         let (i, t') = insert_row (g\<lparr>g_vat_rate := real_column (g_vat_rate g),
               g_default_fee := real_column (g_default_fee g), g_created_at := Some now\<rparr>) t in
         (Inr (g\<lparr>g_id := Some i, g_created_at := Some now\<rparr>), s\<lparr>goods := t'\<rparr>))"

definition set_default_goods :: "int \<Rightarrow> (record_store, unit) io" where
  "set_default_goods i = (\<lambda>s.
     let t = update_all undefault (goods s) in
     if get_row t i = None then (Inl ConfigurationError, s)
     else (Inr (), s\<lparr>goods := update_row i (\<lambda>g. g\<lparr>g_is_default := True\<rparr>) t\<rparr>))"

definition delete_goods :: "int \<Rightarrow> (record_store, unit) io" where
  "delete_goods i = (\<lambda>s.
     if get_row (goods s) i = None then (Inl ConfigurationError, s)
     else (Inr (), s\<lparr>goods := delete_row i (goods s)\<rparr>))"

section \<open>Invoices\<close>

definition invoice_of_row :: "int \<times> invoice_record \<Rightarrow> invoice_record" where
  "invoice_of_row = (\<lambda>(i, r). r\<lparr>rec_id := Some i\<rparr>)"

text \<open>The columns an \<open>UPDATE\<close> sets: not the profile and not the time of creation.\<close>

definition update_columns :: "pystr \<Rightarrow> invoice_record \<Rightarrow> invoice_record \<Rightarrow> invoice_record" where
  "update_columns now r row =
     row\<lparr>rec_state := rec_state r, rec_tax_id := rec_tax_id r, rec_uid := rec_uid r,
       rec_reference_number := rec_reference_number r, rec_payload := rec_payload r,
       rec_detail := rec_detail r, rec_updated_at := Some now\<rparr>"

definition save_invoice :: "pystr \<Rightarrow> invoice_record \<Rightarrow> (record_store, invoice_record) io" where
  "save_invoice now r = (\<lambda>s.
     case rec_id r of
        None \<Rightarrow>
          let (i, t) = insert_row (r\<lparr>rec_created_at := Some now, rec_updated_at := Some now\<rparr>) (invoices s) in
          (Inr (r\<lparr>rec_id := Some i, rec_created_at := Some now, rec_updated_at := Some now\<rparr>), s\<lparr>invoices := t\<rparr>)
      | Some i \<Rightarrow>
          (Inr (r\<lparr>rec_updated_at := Some now\<rparr>),
           s\<lparr>invoices := update_row i (update_columns now r) (invoices s)\<rparr>))"

text \<open>\<open>LIMIT ?\<close>: a negative bound is none.\<close>

definition limited :: "int \<Rightarrow> 'a list \<Rightarrow> 'a list" where
  "limited n xs = (if n < 0 then xs else take (nat n) xs)"

definition list_invoices :: "pystr \<Rightarrow> pystr option \<Rightarrow> int \<Rightarrow> record_store \<Rightarrow> invoice_record list" where
  "list_invoices prof st bound s =
     map invoice_of_row (limited bound (rev (filter (\<lambda>(i, r).
       rec_profile r = prof \<and>
       (case st of None \<Rightarrow> True | Some x \<Rightarrow> x = [] \<or> state_text (rec_state r) = x)) (t_rows (invoices s)))))"

definition has_reference :: "invoice_record \<Rightarrow> bool" where
  "has_reference r = (case rec_reference_number r of None \<Rightarrow> False | Some x \<Rightarrow> x \<noteq> [])"

definition list_awaiting_inquiry :: "pystr \<Rightarrow> int \<Rightarrow> record_store \<Rightarrow> invoice_record list" where
  "list_awaiting_inquiry prof bound s =
     map invoice_of_row (limited bound (filter (\<lambda>(i, r).
       rec_profile r = prof \<and> rec_state r = SENT \<and> has_reference r) (t_rows (invoices s))))"

definition find_by_tax_id :: "pystr \<Rightarrow> pystr \<Rightarrow> record_store \<Rightarrow> invoice_record option" where
  "find_by_tax_id prof tax_id s =
     map_option invoice_of_row (List.find (\<lambda>(i, r).
       rec_profile r = prof \<and> rec_tax_id r = Some tax_id) (rev (t_rows (invoices s))))"

definition get_invoice :: "int \<Rightarrow> record_store \<Rightarrow> invoice_record option" where
  "get_invoice i s = map_option (\<lambda>r. r\<lparr>rec_id := Some i\<rparr>) (get_row (invoices s) i)"

definition delete_invoice_row :: "int \<Rightarrow> (record_store, unit) io" where
  "delete_invoice_row i = (\<lambda>s.
     if get_row (invoices s) i = None then (Inl ConfigurationError, s)
     else (Inr (), s\<lparr>invoices := delete_row i (invoices s)\<rparr>))"

definition count_state :: "pystr \<Rightarrow> record_store \<Rightarrow> invoice_state \<Rightarrow> nat" where
  "count_state prof s st =
     length (filter (\<lambda>(i, r). rec_profile r = prof \<and> rec_state r = st) (t_rows (invoices s)))"

definition counts_by_state :: "pystr \<Rightarrow> record_store \<Rightarrow> (pystr \<times> nat) list" where
  "counts_by_state prof s =
     map (\<lambda>st. (state_text st, count_state prof s st)) enum_class.enum @
     [(lit ''total'', sum_list (map (count_state prof s) enum_class.enum))]"

section \<open>The upgrade from version 1\<close>

text \<open>
  Rows with their old ids, in the order of the ids. \<open>first_of\<close> is
  \<open>WHERE id IN (SELECT MIN(id) ... GROUP BY key)\<close>.
\<close>

fun first_of :: "('r \<Rightarrow> 'k) \<Rightarrow> 'r list \<Rightarrow> 'r list" where
  "first_of key [] = []"
| "first_of key (r # rs) = r # filter (\<lambda>x. key x \<noteq> key r) (first_of key rs)"

definition insert_rows :: "'r list \<Rightarrow> 'r table \<Rightarrow> 'r table" where
  "insert_rows rs t = fold (\<lambda>r t. snd (insert_row r t)) rs t"

fun keep_first_default :: "(int \<times> goods_service) list \<Rightarrow> (int \<times> goods_service) list" where
  "keep_first_default [] = []"
| "keep_first_default ((i, g) # rs) =
     (if g_is_default g then (i, g) # map (\<lambda>(j, x). (j, undefault x)) rs
      else (i, g) # keep_first_default rs)"

definition migrate_buyers :: "buyer list \<Rightarrow> buyer table" where
  "migrate_buyers rows = insert_rows (first_of b_national_id rows) empty_table"

definition migrate_goods :: "goods_service list \<Rightarrow> goods_service table" where
  "migrate_goods rows =
     (let t = insert_rows (first_of g_stuff_id rows) empty_table in
      t\<lparr>t_rows := keep_first_default (t_rows t)\<rparr>)"

section \<open>The invariant of the store\<close>

definition keys_unique :: "('r \<Rightarrow> 'k) \<Rightarrow> 'r table \<Rightarrow> bool" where
  "keys_unique key t = distinct (map (key \<circ> snd) (t_rows t))"

definition defaults :: "goods_service table \<Rightarrow> int list" where
  "defaults t = map fst (filter (g_is_default \<circ> snd) (t_rows t))"

definition store_ok :: "record_store \<Rightarrow> bool" where
  "store_ok s =
     (table_ok (buyers s) \<and> keys_unique b_national_id (buyers s) \<and>
      table_ok (goods s) \<and> keys_unique g_stuff_id (goods s) \<and> length (defaults (goods s)) \<le> 1 \<and>
      table_ok (invoices s))"

lemma keys_unique_insert:
  "insert_row r t = (i, t') \<Longrightarrow> keys_unique key t \<Longrightarrow> key r \<notin> (\<lambda>x. key (snd x)) ` set (t_rows t) \<Longrightarrow> keys_unique key t'"
  by (auto simp: keys_unique_def insert_row_def)

lemma keys_unique_delete: "keys_unique key t \<Longrightarrow> keys_unique key (delete_row i t)"
  by (auto simp: keys_unique_def delete_row_def intro: distinct_map_filter)

lemma keys_unique_update_all:
  "(\<And>r. key (f r) = key r) \<Longrightarrow> keys_unique key (update_all f t) = keys_unique key t"
  by (simp add: keys_unique_def update_all_def comp_def case_prod_beta)

lemma keys_unique_update_row:
  "(\<And>r. key (f r) = key r) \<Longrightarrow> keys_unique key (update_row i f t) = keys_unique key t"
  by (simp add: keys_unique_def update_row_def comp_def case_prod_beta if_distrib cong: if_cong)

lemma keys_undefault: "(g_stuff_id \<circ> snd) ` set (t_rows (update_all undefault t)) = (g_stuff_id \<circ> snd) ` set (t_rows t)"
  by (force simp: update_all_def undefault_def image_iff)

lemma defaults_undefault [simp]: "defaults (update_all undefault t) = []"
  by (auto simp: defaults_def update_all_def undefault_def filter_empty_conv)

lemma defaults_insert:
  "insert_row g t = (i, t') \<Longrightarrow> defaults t' = defaults t @ (if g_is_default g then [i] else [])"
  by (auto simp: defaults_def insert_row_def)

lemma length_filter_conj: "length (filter (\<lambda>x. Q x \<and> P x) xs) \<le> length (filter P xs)"
  by (induction xs) auto

lemma defaults_delete: "length (defaults (delete_row i t)) \<le> length (defaults t)"
  by (simp add: defaults_def delete_row_def length_filter_conj comp_def)

lemma filter_eq_distinct: "distinct xs \<Longrightarrow> i \<in> set xs \<Longrightarrow> filter (\<lambda>x. x = i) xs = [i]"
  by (induction xs) (auto simp: filter_empty_conv)

lemma defaults_mark:
  assumes "table_ok t" "get_row t i \<noteq> None" "defaults t = []"
  shows "defaults (update_row i (\<lambda>g. g\<lparr>g_is_default := True\<rparr>) t) = [i]"
proof -
  have mark: "\<forall>x \<in> set rs. \<not> g_is_default (snd x) \<Longrightarrow> map fst (filter (g_is_default \<circ> snd)
        (map (\<lambda>(j, r). (j, if j = i then r\<lparr>g_is_default := True\<rparr> else r)) rs)) = filter (\<lambda>j. j = i) (map fst rs)" for rs
    by (induction rs) (auto split: if_splits)
  have "\<forall>x \<in> set (t_rows t). \<not> g_is_default (snd x)"
    using assms(3) by (auto simp: defaults_def filter_empty_conv)
  then have "defaults (update_row i (\<lambda>g. g\<lparr>g_is_default := True\<rparr>) t) = filter (\<lambda>j. j = i) (map fst (t_rows t))"
    using mark [of "t_rows t"] by (simp add: defaults_def update_row_def)
  moreover have "i \<in> set (map fst (t_rows t))" using assms(2) by (force simp: get_row_def dest: map_of_SomeD)
  ultimately show ?thesis
    using table_ok_distinct [OF assms(1)] by (simp add: filter_eq_distinct del: set_map)
qed

section \<open>Every operation keeps the invariant\<close>

lemmas table_intros = table_ok_insert_row table_ok_update_row table_ok_update_all table_ok_delete_row
  keys_unique_delete

lemma buyer_unique:
  assumes "insert_row (b\<lparr>b_created_at := c\<rparr>) t = (i, t')" "keys_unique b_national_id t"
    "b_national_id b \<notin> (\<lambda>x. b_national_id (snd x)) ` set (t_rows t)"
  shows "keys_unique b_national_id t'"
  using keys_unique_insert [where key = b_national_id, OF assms(1,2)] assms(3) by simp

lemma keeps_add_buyer: "keeps store_ok (add_buyer now b)"
  unfolding add_buyer_def
  by (rule keeps_bindM)
    (auto simp: keeps_def store_ok_def dest: table_ok_insert_row buyer_unique
      split: prod.splits)

lemma keeps_delete_buyer: "keeps store_ok (delete_buyer i)"
  by (auto simp: keeps_def delete_buyer_def store_ok_def intro: table_intros)

lemma keeps_add_goods: "keeps store_ok (add_goods now g)"
  unfolding add_goods_def
proof (rule keeps_bindM)
  fix u :: unit
  have "store_ok (s\<lparr>goods := t'\<rparr>)"
    if s: "store_ok s" and t: "t = (if g_is_default g then update_all undefault (goods s) else goods s)"
    and n: "g_stuff_id g \<notin> (g_stuff_id \<circ> snd) ` set (t_rows t)"
    and ins: "insert_row (g\<lparr>g_vat_rate := real_column (g_vat_rate g),
        g_default_fee := real_column (g_default_fee g), g_created_at := Some now\<rparr>) t = (i, t')"
    for s t i t'
  proof -
    have "keys_unique g_stuff_id t" using s by (simp add: t store_ok_def keys_unique_update_all undefault_def)
    with keys_unique_insert [where key = g_stuff_id, OF ins] n have "keys_unique g_stuff_id t'" by simp
    moreover have "table_ok t'" using table_ok_insert_row [OF _ ins] s
      by (simp add: t store_ok_def table_ok_update_all)
    moreover have "length (defaults t') \<le> 1" using defaults_insert [OF ins] s by (simp add: t store_ok_def)
    ultimately show ?thesis using s by (simp add: store_ok_def)
  qed
  then show "keeps store_ok (\<lambda>s.
       let t = if g_is_default g then update_all undefault (goods s) else goods s in
       if g_stuff_id g \<in> (g_stuff_id \<circ> snd) ` set (t_rows t) then (Inl ConfigurationError, s)
       else
         let (i, t') = insert_row (g\<lparr>g_vat_rate := real_column (g_vat_rate g),
               g_default_fee := real_column (g_default_fee g), g_created_at := Some now\<rparr>) t in
         (Inr (g\<lparr>g_id := Some i, g_created_at := Some now\<rparr>), s\<lparr>goods := t'\<rparr>))"
    unfolding keeps_def Let_def by (auto split: prod.splits)
qed simp

lemma keeps_set_default: "keeps store_ok (set_default_goods i)"
  unfolding keeps_def
proof (intro allI impI)
  fix s
  assume s: "store_ok s"
  let ?t = "update_all undefault (goods s)"
  have k: "keys_unique g_stuff_id ?t" "table_ok ?t"
    using s by (simp_all add: store_ok_def keys_unique_update_all undefault_def table_ok_update_all)
  moreover from k have "keys_unique g_stuff_id (update_row i (\<lambda>g. g\<lparr>g_is_default := True\<rparr>) ?t)"
    by (simp add: keys_unique_update_row)
  ultimately show "store_ok (snd (set_default_goods i s))"
    using s by (simp add: set_default_goods_def Let_def store_ok_def defaults_mark table_ok_update_row)
qed

lemma keeps_delete_goods: "keeps store_ok (delete_goods i)"
  by (auto simp: keeps_def delete_goods_def store_ok_def intro: table_intros order_trans [OF defaults_delete])

lemma keeps_save_invoice: "keeps store_ok (save_invoice now r)"
  by (auto simp: keeps_def save_invoice_def store_ok_def intro: table_intros split: option.splits prod.splits)

lemma keeps_delete_invoice: "keeps store_ok (delete_invoice_row i)"
  by (auto simp: keeps_def delete_invoice_row_def store_ok_def intro: table_intros)


text \<open>
  Making a row the default makes it the only default; for an id without a row the call raises
  and the default stays what it was.
\<close>

theorem set_default_goods_exact:
  assumes "table_ok (goods s)"
  shows "set_default_goods i s =
    (if get_row (goods s) i = None then (Inl ConfigurationError, s)
     else (Inr (), snd (set_default_goods i s))) \<and>
    defaults (goods (snd (set_default_goods i s))) =
      (if get_row (goods s) i = None then defaults (goods s) else [i])"
proof -
  have "get_row (update_all undefault t) i = map_option undefault (get_row t i)" for t
    by (simp add: get_row_def update_all_def map_of_map)
  with assms show ?thesis
    by (simp add: set_default_goods_def Let_def defaults_mark table_ok_update_all)
qed

definition sample_goods :: goods_service where
  "sample_goods = \<lparr>g_stuff_id = lit ''2330001'', g_description = lit ''tea'', g_unit = None,
     g_vat_rate = Some (Fin 10), g_default_fee = None, g_is_default = True, g_id = None, g_created_at = None\<rparr>"

definition sample_store :: record_store where
  "sample_store = empty_store\<lparr>goods := insert_rows [sample_goods, sample_goods\<lparr>g_stuff_id := lit ''2330002'',
     g_is_default := False\<rparr>] empty_table\<rparr>"

theorem set_default_goods_exact_witness:
  "defaults (goods (snd (set_default_goods 2 sample_store))) = [2] \<and>
   defaults (goods (snd (set_default_goods 7 sample_store))) = [1]"
proof -
  have t: "table_ok (goods sample_store)"
    by (simp add: sample_store_def table_ok_def insert_rows_def insert_row_def empty_table_def)
  have "get_row (goods sample_store) 2 \<noteq> None" "get_row (goods sample_store) 7 = None"
    "defaults (goods sample_store) = [1]"
    by (simp_all add: sample_store_def get_row_def insert_rows_def insert_row_def empty_table_def
        defaults_def sample_goods_def)
  with set_default_goods_exact [OF t, of 2] set_default_goods_exact [OF t, of 7] show ?thesis by simp
qed

text \<open>
  The dashboard counts every record of the profile exactly once: the counts of the six states
  add up to the number of its records.
\<close>

theorem counts_by_state_total:
  "map_of (counts_by_state prof s) (lit ''total'') =
     Some (length (filter (\<lambda>(i, r). rec_profile r = prof) (t_rows (invoices s)))) \<and>
   map_of (counts_by_state prof s) (state_text st) = Some (count_state prof s st)"
proof -
  have n: "length (filter (\<lambda>(i, r). rec_profile r = prof) rs) =
      sum_list (map (\<lambda>st. length (filter (\<lambda>(i, r). rec_profile r = prof \<and> rec_state r = st) rs)) enum_class.enum)" for rs
  proof (induction rs)
    case (Cons x rs)
    then show ?case by (cases x; cases "rec_state (snd x)") (auto simp: enum_invoice_state_def)
  qed (simp add: enum_invoice_state_def)
  show ?thesis
    by (cases st) (simp_all add: counts_by_state_def n count_state_def enum_invoice_state_def state_text_def)
qed

section \<open>The upgrade keeps the oldest row of every key\<close>

lemma first_of_find: "List.find (\<lambda>x. key x = k) (first_of key rs) = List.find (\<lambda>x. key x = k) rs"
proof (induction rs)
  case (Cons r rs)
  have "List.find (\<lambda>x. key x = k) (filter (\<lambda>x. key x \<noteq> key r) xs) = List.find (\<lambda>x. key x = k) xs"
    if "key r \<noteq> k" for xs using that by (induction xs) auto
  with Cons show ?case by simp
qed simp

lemma first_of_distinct: "distinct (map key (first_of key rs))"
  by (induction rs) (auto intro: distinct_map_filter)

lemma insert_rows_snd: "map snd (t_rows (insert_rows rs t)) = map snd (t_rows t) @ rs"
  by (induction rs arbitrary: t) (auto simp: insert_rows_def insert_row_def)

lemma insert_rows_ok: "table_ok t \<Longrightarrow> table_ok (insert_rows rs t)"
proof (induction rs arbitrary: t)
  case (Cons r rs)
  from Cons.prems have "table_ok (snd (insert_row r t))"
    by (metis prod.collapse table_ok_insert_row)
  with Cons.IH show ?case by (simp add: insert_rows_def)
qed (simp add: insert_rows_def)

lemma keep_first_default_ids [simp]: "map fst (keep_first_default rs) = map fst rs"
  by (induction rs rule: keep_first_default.induct) (auto simp: comp_def case_prod_beta)

lemma keep_first_default_rows:
  "map (undefault \<circ> snd) (keep_first_default rs) = map (undefault \<circ> snd) rs"
  by (induction rs rule: keep_first_default.induct) (auto simp: comp_def case_prod_beta undefault_def)

lemma keep_first_default_one: "length (filter (g_is_default \<circ> snd) (keep_first_default rs)) \<le> 1"
proof (induction rs rule: keep_first_default.induct)
  case (2 i g rs)
  then show ?case by (auto simp: filter_empty_conv undefault_def split: prod.splits)
qed simp

text \<open>
  The upgrade from version 1 keeps one row for every national id and every goods code, the
  oldest one, changes nothing in it but the default flag, and leaves at most one default.
\<close>

theorem migration_keeps_oldest:
  "List.find (\<lambda>b. b_national_id b = k) (map snd (t_rows (migrate_buyers bs))) =
     List.find (\<lambda>b. b_national_id b = k) bs \<and>
   map_option undefault (List.find (\<lambda>g. g_stuff_id g = k) (map snd (t_rows (migrate_goods gs)))) =
     map_option undefault (List.find (\<lambda>g. g_stuff_id g = k) gs) \<and>
   store_ok \<lparr>buyers = migrate_buyers bs, goods = migrate_goods gs, invoices = empty_table\<rparr>"
proof -
  have b: "map snd (t_rows (migrate_buyers bs)) = first_of b_national_id bs"
    by (simp add: migrate_buyers_def insert_rows_snd) (simp add: empty_table_def)
  let ?t = "insert_rows (first_of g_stuff_id gs) empty_table"
  have t: "map snd (t_rows ?t) = first_of g_stuff_id gs"
    by (simp add: insert_rows_snd) (simp add: empty_table_def)
  have "map undefault (map snd (t_rows (migrate_goods gs))) = map undefault (map snd (t_rows ?t))"
    by (simp add: migrate_goods_def Let_def keep_first_default_rows)
  then have g: "map undefault (map snd (t_rows (migrate_goods gs))) = map undefault (first_of g_stuff_id gs)"
    by (simp only: t)
  have key: "g_stuff_id (undefault x) = g_stuff_id x" for x by (simp add: undefault_def)
  have find: "map_option undefault (List.find (\<lambda>g. g_stuff_id g = k) xs) =
      List.find (\<lambda>g. g_stuff_id g = k) (map undefault xs)" for xs
    by (induction xs) (auto simp: key)
  have keys: "map g_stuff_id (map snd (t_rows (migrate_goods gs))) = map g_stuff_id (first_of g_stuff_id gs)"
    using arg_cong [OF g, of "map g_stuff_id"] by (simp add: comp_def key)
  have "table_ok (migrate_goods gs) = table_ok ?t"
    by (rule table_ok_ids) (simp_all add: migrate_goods_def Let_def)
  then have tg: "table_ok (migrate_goods gs)" by (simp add: insert_rows_ok)
  have tb: "table_ok (migrate_buyers bs)" by (simp add: migrate_buyers_def insert_rows_ok)
  have kb: "keys_unique b_national_id (migrate_buyers bs)"
    unfolding keys_unique_def map_map [symmetric] b by (rule first_of_distinct)
  have kg: "keys_unique g_stuff_id (migrate_goods gs)"
    unfolding keys_unique_def map_map [symmetric] keys by (rule first_of_distinct)
  have d: "length (defaults (migrate_goods gs)) \<le> 1"
    using keep_first_default_one by (simp add: defaults_def migrate_goods_def Let_def)
  have "store_ok \<lparr>buyers = migrate_buyers bs, goods = migrate_goods gs, invoices = empty_table\<rparr>"
    using tg tb kb kg d by (simp add: store_ok_def)
  moreover have "List.find (\<lambda>b. b_national_id b = k) (map snd (t_rows (migrate_buyers bs))) =
      List.find (\<lambda>b. b_national_id b = k) bs"
    unfolding b by (rule first_of_find)
  moreover have "map_option undefault (List.find (\<lambda>g. g_stuff_id g = k) (map snd (t_rows (migrate_goods gs)))) =
      map_option undefault (List.find (\<lambda>g. g_stuff_id g = k) gs)"
    unfolding find g unfolding find [symmetric] first_of_find ..
  ultimately show ?thesis by blast
qed

end
