(* ===== verification/InvoiceApi.thy ===== *)
theory InvoiceApi
  imports Pipeline Records
begin

text \<open>
  The invoice operations of \<open>api/app.py\<close>: drafts, filing, inquiry with its verdicts and
  cancellations, and the seeding of a referring invoice.

  The state is the record store with the state \<open>'w\<close> of everything outside it. A handler answers
  with a value or raises; the text of an \<open>HTTPException\<close> is not modelled, its status is. Between
  two \<open>await\<close>s a handler is one step, so \<open>submit_invoice\<close> is put together from what it does
  before, during and after the network calls.
\<close>

section \<open>The environment of a handler\<close>

text \<open>
  \<open>services_for p\<close> is the client, the signatory and the serial counter of the profile \<open>p\<close>,
  \<open>open_client p\<close> is \<open>_client_for\<close> with the entry of its \<open>async with\<close>.
\<close>

record 'w api =
  services_for :: "profile \<Rightarrow> 'w services"
  open_client :: "profile \<Rightarrow> ('w, unit) io"
  utc_now :: "'w \<Rightarrow> pystr"
  now_millis :: "'w \<Rightarrow> int"
  api_rules :: rule_set

type_synonym 'w desk = "record_store \<times> 'w"

definition in_store :: "(record_store, 'a) io \<Rightarrow> ('w desk, 'a) io" where
  "in_store m = (\<lambda>(s, w). case m s of (r, s') \<Rightarrow> (r, (s', w)))"

definition in_world :: "('w, 'a) io \<Rightarrow> ('w desk, 'a) io" where
  "in_world m = (\<lambda>(s, w). case m w of (r, w') \<Rightarrow> (r, (s, w')))"

definition clock :: "'w api \<Rightarrow> ('w desk, pystr) io" where
  "clock api = (\<lambda>(s, w). (Inr (utc_now api w), (s, w)))"

definition store_get :: "int \<Rightarrow> ('w desk, invoice_record option) io" where
  "store_get i = (\<lambda>(s, w). (Inr (get_invoice i s), (s, w)))"

definition store_save :: "'w api \<Rightarrow> invoice_record \<Rightarrow> ('w desk, invoice_record) io" where
  "store_save api r = bindM (clock api) (\<lambda>now. in_store (save_invoice now r))"

text \<open>The status of the reply an exception becomes (the handlers of \<open>create_app\<close>).\<close>

definition reply_status :: "exn \<Rightarrow> int" where
  "reply_status e =
     (case e of
        HTTPException n \<Rightarrow> n
      | InvoiceValidationError _ \<Rightarrow> 422
      | TransportError \<Rightarrow> 504
      | ConfigurationError \<Rightarrow> 400
      | _ \<Rightarrow> if is_tax_api_error e \<noteq> None then 502 else if is_cryptography_error e then 400 else 500)"

section \<open>Drafts\<close>

definition editable :: "invoice_state \<Rightarrow> bool" where
  "editable st = (st \<in> {DRAFT, INVALID})"

definition report_of :: "'w api \<Rightarrow> invoice \<Rightarrow> verification_result result" where
  "report_of api ivc = (case verify (api_rules api) ivc of None \<Rightarrow> Inl OverflowError | Some r \<Rightarrow> Inr r)"

definition report_detail :: "verification_result \<Rightarrow> record_detail option" where
  "report_detail rep = Some (no_detail\<lparr>d_report := Some rep\<rparr>)"

definition draft_state :: "verification_result \<Rightarrow> invoice_state" where
  "draft_state rep = (if vr_ok rep then DRAFT else INVALID)"

definition or_none :: "pystr \<Rightarrow> pystr option" where
  "or_none s = (if s = [] then None else Some s)"

definition new_record :: "profile \<Rightarrow> invoice_state \<Rightarrow> json \<Rightarrow> invoice_record" where
  "new_record p st wire =
     \<lparr>rec_profile = prof_name p, rec_state = st, rec_payload = wire, rec_tax_id = None, rec_uid = None,
      rec_reference_number = None, rec_detail = None, rec_id = None, rec_created_at = None, rec_updated_at = None\<rparr>"

definition save_draft ::
    "'w api \<Rightarrow> profile \<Rightarrow> invoice \<Rightarrow> ('w desk, invoice_record \<times> verification_result) io" where
  "save_draft api p ivc =
     bindM (liftM (report_of api ivc)) (\<lambda>rep.
     bindM (store_save api ((new_record p (draft_state rep) (to_wire_dict ivc))
        \<lparr>rec_tax_id := or_none (taxid (header ivc)), rec_detail := report_detail rep\<rparr>)) (\<lambda>r.
       returnM (r, rep)))"

text \<open>The lookup all handlers of one record share, and the guard on its state.\<close>

definition owned_record :: "profile \<Rightarrow> int \<Rightarrow> ('w desk, invoice_record) io" where
  "owned_record p i =
     bindM (store_get i) (\<lambda>r.
       case r of
         None \<Rightarrow> raiseM (HTTPException 404)
       | Some r \<Rightarrow> if rec_profile r \<noteq> prof_name p then raiseM (HTTPException 404) else returnM r)"

definition owned_draft :: "profile \<Rightarrow> int \<Rightarrow> ('w desk, invoice_record) io" where
  "owned_draft p i =
     bindM (owned_record p i) (\<lambda>r.
       if \<not> editable (rec_state r) then raiseM (HTTPException 409) else returnM r)"

definition update_draft ::
    "'w api \<Rightarrow> profile \<Rightarrow> int \<Rightarrow> invoice \<Rightarrow> ('w desk, invoice_record \<times> verification_result) io" where
  "update_draft api p i ivc =
     bindM (owned_draft p i) (\<lambda>r.
     bindM (liftM (report_of api ivc)) (\<lambda>rep.
     bindM (store_save api (r\<lparr>rec_state := draft_state rep, rec_payload := to_wire_dict ivc,
        rec_tax_id := or_none (taxid (header ivc)), rec_detail := report_detail rep\<rparr>)) (\<lambda>r'.
       returnM (r', rep))))"

definition delete_draft :: "profile \<Rightarrow> int \<Rightarrow> ('w desk, unit) io" where
  "delete_draft p i = bindM (owned_draft p i) (\<lambda>_. in_store (delete_invoice_row i))"

section \<open>Filing\<close>

definition config_for :: "'w api \<Rightarrow> profile \<Rightarrow> pipeline_config" where
  "config_for api p = \<lparr>memory_id = prof_memory_id p, validate_first = True, rules_of = api_rules api\<rparr>"

text \<open>Before the first \<open>await\<close>: the record is resolved and the invoice verified.\<close>

definition submit_open ::
    "'w api \<Rightarrow> profile \<Rightarrow> int option \<Rightarrow> invoice \<Rightarrow>
     ('w desk, invoice_record option \<times> verification_result) io" where
  "submit_open api p draft_id ivc =
     bindM (case draft_id of
              None \<Rightarrow> returnM None
            | Some i \<Rightarrow> bindM (owned_draft p i) (\<lambda>r. returnM (Some r))) (\<lambda>found.
     bindM (liftM (report_of api ivc)) (\<lambda>rep.
       if \<not> vr_ok rep then
         bindM (store_save api ((case found of None \<Rightarrow> new_record p INVALID (to_wire_dict ivc) | Some r \<Rightarrow> r)
           \<lparr>rec_state := INVALID, rec_payload := to_wire_dict ivc, rec_detail := report_detail rep\<rparr>))
           (\<lambda>_. raiseM (HTTPException 422))
       else returnM (found, rep)))"

text \<open>A pipeline of its own for every request: its key cache starts empty.\<close>

definition submit_send :: "'w api \<Rightarrow> profile \<Rightarrow> invoice \<Rightarrow> ('w, invoice_submission) io" where
  "submit_send api p ivc =
     bindM (open_client api p) (\<lambda>_ w.
       case submit (services_for api p) (config_for api p) [ivc] (w, None) of
         (Inl e, (w', _)) \<Rightarrow> (Inl e, w')
       | (Inr [], (w', _)) \<Rightarrow> (Inl IndexError, w')
       | (Inr (sub # _), (w', _)) \<Rightarrow> (Inr sub, w'))"

definition filed_record ::
    "profile \<Rightarrow> invoice \<Rightarrow> invoice_record option \<Rightarrow> verification_result \<Rightarrow> invoice_submission \<Rightarrow> invoice_record" where
  "filed_record p ivc found rep sub =
     (case found of None \<Rightarrow> new_record p SENT (to_wire_dict ivc) | Some r \<Rightarrow> r)
       \<lparr>rec_state := SENT, rec_payload := to_wire_dict ivc, rec_tax_id := Some (s_tax_id sub),
        rec_uid := Some (s_uid sub), rec_reference_number := s_reference_number sub,
        rec_detail := report_detail rep\<rparr>"

definition submit_close ::
    "'w api \<Rightarrow> profile \<Rightarrow> invoice \<Rightarrow> invoice_record option \<Rightarrow> verification_result \<Rightarrow> invoice_submission \<Rightarrow>
     ('w desk, invoice_record) io" where
  "submit_close api p ivc found rep sub = store_save api (filed_record p ivc found rep sub)"

definition submit_invoice ::
    "'w api \<Rightarrow> profile \<Rightarrow> int option \<Rightarrow> invoice \<Rightarrow> ('w desk, invoice_record) io" where
  "submit_invoice api p draft_id ivc =
     bindM (submit_open api p draft_id ivc) (\<lambda>(found, rep).
     bindM (in_world (submit_send api p ivc)) (\<lambda>sub.
       submit_close api p ivc found rep sub))"

section \<open>Inquiry\<close>

text \<open>\<open>_VERDICTS\<close>.\<close>

definition verdict_of :: "pystr option \<Rightarrow> invoice_state option" where
  "verdict_of status =
     map_of [(request_status_name SUCCESS, CONFIRMED), (request_status_name FAILED, REJECTED)]
       (case status of None \<Rightarrow> [] | Some s \<Rightarrow> s)"

definition entry_json :: "error_entry \<Rightarrow> json" where
  "entry_json e = JObj ([(lit ''code'', JStr (ee_code e)), (lit ''message'', JStr (ee_message e))] @
     (case ee_errorType e of None \<Rightarrow> [] | Some t \<Rightarrow> [(lit ''errorType'', JStr t)]))"

text \<open>\<open>list(data.get(key) or [])\<close> of a decoded JSON value.\<close>

definition as_list :: "json option \<Rightarrow> json list result" where
  "as_list v =
     (case v of
        None \<Rightarrow> Inr []
      | Some JNull \<Rightarrow> Inr []
      | Some (JBool b) \<Rightarrow> if b then Inl TypeError else Inr []
      | Some (JInt n) \<Rightarrow> if n = 0 then Inr [] else Inl TypeError
      | Some (JFloat x) \<Rightarrow> if x = Fin 0 then Inr [] else Inl TypeError
      | Some (JStr s) \<Rightarrow> Inr (map (\<lambda>c. JStr [c]) s)
      | Some (JList vs) \<Rightarrow> Inr vs
      | Some (JObj kvs) \<Rightarrow> Inr (map (JStr \<circ> fst) kvs))"

definition inquiry_block :: "pystr \<Rightarrow> inquiry_result \<Rightarrow> inquiry_block result" where
  "inquiry_block now result =
     bindE (case ir_data result of
              Some (Detail d) \<Rightarrow> Inr (map entry_json (vd_error d), map entry_json (vd_warning d))
            | Some (OtherData kvs) \<Rightarrow>
                bindE (as_list (map_of kvs (lit ''error''))) (\<lambda>es.
                bindE (as_list (map_of kvs (lit ''warning''))) (\<lambda>ws. Inr (es, ws)))
            | None \<Rightarrow> Inr ([], [])) (\<lambda>(es, ws).
       Inr \<lparr>ib_status = ir_status result, ib_checked_at = now, ib_reference_number = ir_referenceNumber result,
         ib_uid = ir_uid result, ib_errors = es, ib_warnings = ws\<rparr>)"

text \<open>
  The invoice an \<open>\<open>ins = 3\<close>\<close> record voids. The payloads come from \<open>to_wire_dict\<close>, where \<open>irtaxid\<close>
  is a text.
\<close>

definition voided_tax_id :: "json \<Rightarrow> pystr option" where
  "voided_tax_id wire =
     (case jget (lit ''header'') wire of
        None \<Rightarrow> None
      | Some h \<Rightarrow>
          if jget (lit ''ins'') h \<notin> {Some (JInt 3), Some (JFloat (Fin 3))} then None
          else (case jget (lit ''irtaxid'') h of Some (JStr t) \<Rightarrow> or_none t | _ \<Rightarrow> None))"

definition detail_of :: "invoice_record \<Rightarrow> record_detail" where
  "detail_of r = (case rec_detail r of None \<Rightarrow> no_detail | Some d \<Rightarrow> d)"

definition apply_cancellation ::
    "'w api \<Rightarrow> profile \<Rightarrow> invoice_record \<Rightarrow> ('w desk, pystr option) io" where
  "apply_cancellation api p r =
     (case voided_tax_id (rec_payload r) of
        None \<Rightarrow> returnM None
      | Some t \<Rightarrow>
          (\<lambda>(s, w).
             case find_by_tax_id (prof_name p) t s of
               None \<Rightarrow> (Inr None, (s, w))
             | Some target \<Rightarrow>
                 if rec_id target = rec_id r \<or> rec_state target = CANCELLED then (Inr None, (s, w))
                 else
                   bindM (store_save api (target\<lparr>rec_state := CANCELLED,
                     rec_detail := Some ((detail_of target)\<lparr>d_cancelled_by :=
                       Some \<lparr>cb_id = rec_id r, cb_tax_id = rec_tax_id r, cb_at = utc_now api w\<rparr>\<rparr>)\<rparr>))
                     (\<lambda>_. returnM (Some t)) (s, w)))"

record reconciled =
  rc_id :: "int option"
  rc_tax_id :: "pystr option"
  rc_reference_number :: "pystr option"
  rc_previous :: invoice_state
  rc_state :: invoice_state
  rc_inquiry :: inquiry_block
  rc_cancelled :: "pystr option"

text \<open>\<open>by_reference\<close>: the last answer for a reference wins.\<close>

definition by_reference :: "inquiry_result list \<Rightarrow> pystr \<Rightarrow> inquiry_result option" where
  "by_reference results ref =
     (if ref = [] then None
      else map_of (rev (map (\<lambda>r. (ir_referenceNumber r, r)) results)) (Some ref))"

definition reference_text :: "invoice_record \<Rightarrow> pystr" where
  "reference_text r = (case rec_reference_number r of None \<Rightarrow> [] | Some x \<Rightarrow> x)"

definition settled_record :: "invoice_record \<Rightarrow> inquiry_block \<Rightarrow> invoice_record" where
  "settled_record r block =
     r\<lparr>rec_detail := Some ((detail_of r)\<lparr>d_inquiry := Some block\<rparr>),
       rec_state := (case verdict_of (ib_status block) of None \<Rightarrow> rec_state r | Some st \<Rightarrow> st)\<rparr>"

definition settle_one ::
    "'w api \<Rightarrow> profile \<Rightarrow> inquiry_result list \<Rightarrow> invoice_record \<Rightarrow> ('w desk, reconciled option) io" where
  "settle_one api p results r =
     (case by_reference results (reference_text r) of
        None \<Rightarrow> returnM None
      | Some result \<Rightarrow>
          bindM (clock api) (\<lambda>now.
          bindM (liftM (inquiry_block now result)) (\<lambda>block.
          bindM (store_save api (settled_record r block)) (\<lambda>r'.
          bindM (if rec_state r' = CONFIRMED then apply_cancellation api p r' else returnM None) (\<lambda>cancelled.
            returnM (Some \<lparr>rc_id = rec_id r', rc_tax_id = rec_tax_id r', rc_reference_number = rec_reference_number r',
              rc_previous = rec_state r, rc_state = rec_state r', rc_inquiry = block, rc_cancelled = cancelled\<rparr>))))))"

record outcome =
  oc_checked :: nat
  oc_updated :: nat
  oc_records :: "reconciled list"

definition outcome_of :: "nat \<Rightarrow> reconciled option list \<Rightarrow> outcome" where
  "outcome_of n rs =
     (let reported = List.map_filter id rs in
      \<lparr>oc_checked = n, oc_updated = length (filter (\<lambda>x. rc_state x \<noteq> rc_previous x) reported),
       oc_records = reported\<rparr>)"

definition reconcile :: "'w api \<Rightarrow> profile \<Rightarrow> invoice_record list \<Rightarrow> ('w desk, outcome) io" where
  "reconcile api p records =
     (let pending = filter has_reference records in
      if pending = [] then returnM (outcome_of 0 [])
      else
        bindM (in_world (bindM (open_client api p) (\<lambda>_.
          inquire (services_for api p) (map reference_text pending)))) (\<lambda>results.
        bindM (mapM (settle_one api p results) pending) (\<lambda>rs.
          returnM (outcome_of (length pending) rs))))"

definition inquire_pending :: "'w api \<Rightarrow> profile \<Rightarrow> int \<Rightarrow> ('w desk, outcome) io" where
  "inquire_pending api p bound =
     (\<lambda>(s, w). reconcile api p (list_awaiting_inquiry (prof_name p) bound s) (s, w))"

definition inquire_one :: "'w api \<Rightarrow> profile \<Rightarrow> int \<Rightarrow> ('w desk, reconciled) io" where
  "inquire_one api p i =
     bindM (owned_record p i) (\<lambda>r.
       if \<not> has_reference r then raiseM (HTTPException 400)
       else
         bindM (reconcile api p [r]) (\<lambda>oc.
           case oc_records oc of [] \<Rightarrow> raiseM (HTTPException 502) | x # _ \<Rightarrow> returnM x))"

section \<open>Seeding a referring invoice\<close>

definition opt_json :: "json option \<Rightarrow> json" where
  "opt_json v = (case v of None \<Rightarrow> JNull | Some x \<Rightarrow> x)"

definition referring_header :: "json \<Rightarrow> int \<Rightarrow> pystr \<Rightarrow> int \<Rightarrow> (pystr \<times> json) list" where
  "referring_header h subject tax_id millis =
     filter (\<lambda>(k, v). v \<noteq> JNull)
       ([(lit ''inty'', case jget (lit ''inty'') h of None \<Rightarrow> JInt 1 | Some v \<Rightarrow> v),
         (lit ''inp'', case jget (lit ''inp'') h of None \<Rightarrow> JInt 1 | Some v \<Rightarrow> v),
         (lit ''ins'', JInt subject), (lit ''irtaxid'', JStr tax_id), (lit ''indatim'', JInt millis)] @
        map (\<lambda>k. (k, opt_json (jget k h)))
          [lit ''tins'', lit ''tob'', lit ''bid'', lit ''tinb'', lit ''bpc'', lit ''setm''])"

definition referring_draft :: "json \<Rightarrow> int \<Rightarrow> pystr \<Rightarrow> int \<Rightarrow> json" where
  "referring_draft source subject tax_id millis = JObj
     [(lit ''header'', JObj (referring_header (opt_json (jget (lit ''header'') source)) subject tax_id millis)),
      (lit ''body'', if subject = 3 then JList []
         else case jget (lit ''body'') source of Some (JList items) \<Rightarrow> JList items | _ \<Rightarrow> JList []),
      (lit ''payments'', JList [])]"

definition referring_invoice :: "'w api \<Rightarrow> profile \<Rightarrow> int \<Rightarrow> int \<Rightarrow> ('w desk, json) io" where
  "referring_invoice api p i subject =
     (if subject \<notin> {2, 3, 4} then raiseM (HTTPException 400)
      else
        bindM (owned_record p i) (\<lambda>r (s, w).
          case rec_tax_id r of
            None \<Rightarrow> (Inl (HTTPException 400), (s, w))
          | Some t \<Rightarrow>
              if t = [] then (Inl (HTTPException 400), (s, w))
              else (Inr (referring_draft (rec_payload r) subject t (now_millis api w)), (s, w))))"

section \<open>Requests\<close>

datatype request =
    SaveDraft invoice
  | UpdateDraft int invoice
  | DeleteDraft int
  | SubmitInvoice "int option" invoice
  | InquirePending int
  | InquireOne int
  | ReferringInvoice int int

definition done_with :: "('w desk, 'a) io \<Rightarrow> ('w desk, unit) io" where
  "done_with m = bindM m (\<lambda>_. returnM ())"

fun handle_request :: "'w api \<Rightarrow> profile \<Rightarrow> request \<Rightarrow> ('w desk, unit) io" where
  "handle_request api p (SaveDraft ivc) = done_with (save_draft api p ivc)"
| "handle_request api p (UpdateDraft i ivc) = done_with (update_draft api p i ivc)"
| "handle_request api p (DeleteDraft i) = delete_draft p i"
| "handle_request api p (SubmitInvoice draft_id ivc) = done_with (submit_invoice api p draft_id ivc)"
| "handle_request api p (InquirePending bound) = done_with (inquire_pending api p bound)"
| "handle_request api p (InquireOne i) = done_with (inquire_one api p i)"
| "handle_request api p (ReferringInvoice i subject) = done_with (referring_invoice api p i subject)"

end
