(* ===== verification/Lifecycle.thy ===== *)
theory Lifecycle
  imports InvoiceApi
begin

text \<open>
  The life of an invoice record under the handlers of \<open>InvoiceApi\<close>: the handlers as a step relation,
  its invariant, and what follows from it for filed records. \<open>lawful\<close> is proved handler by handler,
  for the stores a handler meets between its own reads and writes.
\<close>

section \<open>The life of a record\<close>

text \<open>What filing fixes.\<close>

definition same_filing :: "invoice_record \<Rightarrow> invoice_record \<Rightarrow> bool" where
  "same_filing r r' =
     (rec_profile r' = rec_profile r \<and> rec_payload r' = rec_payload r \<and> rec_tax_id r' = rec_tax_id r \<and>
      rec_uid r' = rec_uid r \<and> rec_reference_number r' = rec_reference_number r)"

text \<open>\<open>kept old new\<close>: what may become of a row. A draft may go; a filed record stays filed.\<close>

fun kept :: "invoice_record option \<Rightarrow> invoice_record option \<Rightarrow> bool" where
  "kept None x = (x = None)"
| "kept (Some r) None = editable (rec_state r)"
| "kept (Some r) (Some r') =
     (if editable (rec_state r) then rec_profile r' = rec_profile r
      else \<not> editable (rec_state r') \<and> same_filing r r')"

definition evolves :: "record_store \<Rightarrow> record_store \<Rightarrow> bool" where
  "evolves s s' =
     (t_seq (invoices s) \<le> t_seq (invoices s') \<and>
      (\<forall>i. i \<le> t_seq (invoices s) \<longrightarrow> kept (get_row (invoices s) i) (get_row (invoices s') i)))"

text \<open>Nothing but records of the profile changes.\<close>

definition isolated :: "pystr \<Rightarrow> record_store \<Rightarrow> record_store \<Rightarrow> bool" where
  "isolated prof s s' =
     (\<forall>i r. get_row (invoices s) i = Some r \<longrightarrow> rec_profile r \<noteq> prof \<longrightarrow> get_row (invoices s') i = Some r)"

text \<open>Ids are handed out once, and only a filed record carries what the organization answered.\<close>

definition unanswered :: "invoice_record \<Rightarrow> bool" where
  "unanswered r = (rec_uid r = None \<and> rec_reference_number r = None)"

definition desk_ok :: "record_store \<Rightarrow> bool" where
  "desk_ok s =
     (table_ok (invoices s) \<and>
      (\<forall>i r. get_row (invoices s) i = Some r \<longrightarrow> editable (rec_state r) \<longrightarrow> unanswered r))"

text \<open>No record gets the uid of a submission.\<close>

definition quiet :: "record_store \<Rightarrow> record_store \<Rightarrow> bool" where
  "quiet s s' =
     (\<forall>i r'. get_row (invoices s') i = Some r' \<longrightarrow> rec_uid r' \<noteq> None \<longrightarrow>
        (\<exists>r. get_row (invoices s) i = Some r \<and> rec_uid r \<noteq> None))"

definition follows :: "pystr \<Rightarrow> bool \<Rightarrow> record_store \<Rightarrow> record_store \<Rightarrow> bool" where
  "follows prof q s s' = (desk_ok s' \<and> evolves s s' \<and> isolated prof s s' \<and> (q \<longrightarrow> quiet s s'))"

fun_cases keptE: "kept (Some r) None" "kept (Some r) (Some r')" "kept None x"

lemma same_filing_refl [simp]: "same_filing r r"
  by (simp add: same_filing_def)

lemma same_filing_trans: "same_filing a b \<Longrightarrow> same_filing b c \<Longrightarrow> same_filing a c"
  by (simp add: same_filing_def)

lemma kept_refl [simp]: "kept x x"
  by (cases x) auto

lemma kept_trans: "kept x y \<Longrightarrow> kept y z \<Longrightarrow> kept x z"
  by (cases x; cases y; cases z) (auto split: if_splits intro: same_filing_trans simp: same_filing_def)

lemma evolves_refl [simp]: "evolves s s"
  by (simp add: evolves_def)

lemma evolves_trans: "evolves s s' \<Longrightarrow> evolves s' s'' \<Longrightarrow> evolves s s''"
  unfolding evolves_def by (meson kept_trans order_trans)

lemma follows_refl [simp]: "follows prof q s s = desk_ok s"
  by (auto simp: follows_def isolated_def quiet_def)

lemma quiet_trans: "quiet s s' \<Longrightarrow> quiet s' s'' \<Longrightarrow> quiet s s''"
  unfolding quiet_def by meson

lemma follows_trans: "follows prof q s s' \<Longrightarrow> follows prof q s' s'' \<Longrightarrow> follows prof q s s''"
  unfolding follows_def by (auto intro: evolves_trans quiet_trans) (auto simp: isolated_def)

text \<open>\<open>lawful prof q P m\<close>: from a good store where \<open>P\<close> holds, \<open>m\<close> leads to a good store that follows it.\<close>

definition lawful :: "pystr \<Rightarrow> bool \<Rightarrow> (record_store \<Rightarrow> bool) \<Rightarrow> ('w desk, 'a) io \<Rightarrow> bool" where
  "lawful prof q P m = (\<forall>s w. desk_ok s \<longrightarrow> P s \<longrightarrow> follows prof q s (fst (snd (m (s, w)))))"

lemma lawfulD:
  "lawful prof q P m \<Longrightarrow> desk_ok s \<Longrightarrow> P s \<Longrightarrow> m (s, w) = (r, (s', w')) \<Longrightarrow> follows prof q s s'"
  unfolding lawful_def by (metis fst_conv snd_conv)

lemma lawful_unchanged: "(\<And>s w. fst (snd (m (s, w))) = s) \<Longrightarrow> lawful prof q P m"
  by (simp add: lawful_def)

lemma lawful_simps [simp]:
  "lawful prof q P (returnM x)" "lawful prof q P (raiseM e)" "lawful prof q P (liftM r)" "lawful prof q P (in_world m')" "lawful prof q P (clock api)"
  "lawful prof q P (store_get i)"
  by (simp_all add: lawful_def in_world_def clock_def store_get_def split: prod.splits)

lemma lawful_bindM:
  assumes "lawful prof q P m" "\<And>s w x s' w'. desk_ok s \<Longrightarrow> P s \<Longrightarrow> m (s, w) = (Inr x, (s', w')) \<Longrightarrow> lawful prof q ((=) s') (f x)"
  shows "lawful prof q P (bindM m f)"
  unfolding lawful_def
proof (intro allI impI)
  fix s w
  assume s: "desk_ok s" "P s"
  obtain r s' w' where m: "m (s, w) = (r, (s', w'))" by (metis prod.collapse)
  have 1: "follows prof q s s'" using lawfulD [OF assms(1) s m] by auto
  then have ok: "desk_ok s'" by (simp add: follows_def)
  show "follows prof q s (fst (snd (bindM m f (s, w))))"
  proof (cases r)
    case (Inl e)
    then show ?thesis using 1 m by (simp add: bindM_def)
  next
    case (Inr x)
    obtain r2 s2 w2 where f: "f x (s', w') = (r2, (s2, w2))" by (metis prod.collapse)
    from m s have "lawful prof q ((=) s') (f x)" by (auto simp: Inr intro: assms(2))
    from lawfulD [OF this ok refl f] 1 show ?thesis
      by (auto simp: bindM_def m Inr f intro: follows_trans)
  qed
qed

text \<open>The two ways a handler writes a record.\<close>

lemma desk_ok_row: "desk_ok s \<Longrightarrow> get_row (invoices s) i = Some r \<Longrightarrow> editable (rec_state r) \<Longrightarrow> unanswered r"
  by (simp add: desk_ok_def)

lemma insert_evolves:
  assumes "desk_ok s" "insert_row r (invoices s) = (i, t)" "editable (rec_state r) \<Longrightarrow> unanswered r"
    "q \<Longrightarrow> rec_uid r = None"
  shows "follows prof q s (s\<lparr>invoices := t\<rparr>)"
proof -
  have ok: "table_ok (invoices s)" using assms(1) by (simp add: desk_ok_def)
  from table.insert_law [OF ok assms(2)] have "table_ok t" "t_seq (invoices s) < i" "t_seq t = i"
    "get_row t = (get_row (invoices s))(i \<mapsto> r)" by auto
  moreover from table.insert_fresh [OF ok assms(2)] have "get_row (invoices s) i = None" .
  ultimately show ?thesis using assms(1,3,4)
    by (auto simp: desk_ok_def evolves_def follows_def isolated_def quiet_def)
qed

lemma update_evolves:
  assumes "desk_ok s"
    and "\<And>row. get_row (invoices s) i = Some row \<Longrightarrow>
        rec_profile row = prof \<and> kept (Some row) (Some (f row)) \<and>
        (editable (rec_state (f row)) \<longrightarrow> unanswered (f row)) \<and> (q \<longrightarrow> rec_uid (f row) = None \<or> rec_uid row \<noteq> None)"
  shows "follows prof q s (s\<lparr>invoices := update_row i f (invoices s)\<rparr>)"
proof -
  have ok: "table_ok (invoices s)" using assms(1) by (simp add: desk_ok_def)
  have "kept (get_row (invoices s) i) (map_option f (get_row (invoices s) i))"
    using assms(2) by (cases "get_row (invoices s) i") auto
  with table.update_law [OF ok, of i f] assms show ?thesis
    unfolding desk_ok_def evolves_def follows_def isolated_def quiet_def by (auto split: if_splits)
qed

lemma delete_evolves:
  assumes "desk_ok s" "get_row (invoices s) i = Some r" "editable (rec_state r)" "rec_profile r = prof"
  shows "follows prof q s (s\<lparr>invoices := delete_row i (invoices s)\<rparr>)"
proof -
  have ok: "table_ok (invoices s)" using assms(1) by (simp add: desk_ok_def)
  from table.delete_law [OF ok, of i] assms show ?thesis
    unfolding desk_ok_def evolves_def follows_def isolated_def quiet_def by (auto split: if_splits)
qed

lemma lawful_save_new:
  assumes "rec_id r = None" "editable (rec_state r) \<Longrightarrow> unanswered r" "q \<Longrightarrow> rec_uid r = None"
  shows "lawful prof q P (store_save api r)"
  unfolding store_save_def
proof (rule lawful_bindM)
  fix now
  show "lawful prof q ((=) s') (in_store (save_invoice now r) :: ('a desk, _) io)" for s'
    unfolding lawful_def
  proof (intro allI impI)
    fix s :: record_store and w :: 'a
    assume s: "desk_ok s"
    obtain i t where ins: "insert_row (r\<lparr>rec_created_at := Some now, rec_updated_at := Some now\<rparr>) (invoices s) = (i, t)"
      by (metis prod.collapse)
    have "follows prof q s (s\<lparr>invoices := t\<rparr>)"
      by (rule insert_evolves [OF s ins]) (use assms(2,3) in \<open>simp_all add: unanswered_def\<close>)
    then show "follows prof q s (fst (snd (in_store (save_invoice now r) (s, w))))"
      by (simp add: in_store_def save_invoice_def assms(1) ins)
  qed
qed simp

text \<open>\<open>writable s r\<close>: the row of \<open>r\<close>, if it is still there, may become \<open>r\<close>.\<close>

definition writable :: "pystr \<Rightarrow> bool \<Rightarrow> invoice_record \<Rightarrow> record_store \<Rightarrow> bool" where
  "writable prof q r s =
     (\<exists>i. rec_id r = Some i \<and> (editable (rec_state r) \<longrightarrow> unanswered r) \<and>
       (case get_row (invoices s) i of
          None \<Rightarrow> True
        | Some row \<Rightarrow> rec_profile row = prof \<and> (q \<longrightarrow> rec_uid r = None \<or> rec_uid row \<noteq> None) \<and>
            (\<not> editable (rec_state row) \<longrightarrow> \<not> editable (rec_state r) \<and> same_filing row r)))"

lemma lawful_save_old: "(\<And>s. P s \<Longrightarrow> writable prof q r s) \<Longrightarrow> lawful prof q P (store_save api r)"
  unfolding store_save_def
proof (rule lawful_bindM)
  fix now s w x s' w'
  assume P: "\<And>s. P s \<Longrightarrow> writable prof q r s" "P s" and "clock api (s, w) = (Inr x, (s', w'))"
  then have w: "writable prof q r s'" by (simp add: clock_def)
  show "lawful prof q ((=) s') (in_store (save_invoice x r) :: ('a desk, _) io)"
    unfolding lawful_def
  proof (intro allI impI)
    fix s :: record_store and w :: 'a
    assume s: "desk_ok s" and eq: "s' = s"
    from w eq obtain i where i: "rec_id r = Some i" "editable (rec_state r) \<longrightarrow> unanswered r"
      "case get_row (invoices s) i of None \<Rightarrow> True
        | Some row \<Rightarrow> rec_profile row = prof \<and> (q \<longrightarrow> rec_uid r = None \<or> rec_uid row \<noteq> None) \<and>
            (\<not> editable (rec_state row) \<longrightarrow> \<not> editable (rec_state r) \<and> same_filing row r)"
      unfolding writable_def by blast
    have "follows prof q s (s\<lparr>invoices := update_row i (update_columns x r) (invoices s)\<rparr>)"
      by (rule update_evolves [OF s]) (use i(2,3) in \<open>auto simp: update_columns_def unanswered_def same_filing_def\<close>)
    then show "follows prof q s (fst (snd (in_store (save_invoice x r) (s, w))))"
      by (simp add: in_store_def save_invoice_def i(1))
  qed
qed simp

section \<open>Every handler is lawful\<close>

lemma lawful_save_draft: "lawful (prof_name p) q P (save_draft api p ivc)"
  unfolding save_draft_def
  by (auto intro!: lawful_bindM lawful_save_new simp: new_record_def unanswered_def)

lemma owned_record_Inr:
  "owned_record p i (s, w) = (Inr r, (s', w')) \<longleftrightarrow>
     s' = s \<and> w' = w \<and> get_invoice i s = Some r \<and> rec_profile r = prof_name p"
  by (auto simp: owned_record_def bindM_def store_get_def split: option.splits if_splits)

lemma owned_draft_Inr:
  "owned_draft p i (s, w) = (Inr r, (s', w')) \<longleftrightarrow>
     s' = s \<and> w' = w \<and> get_invoice i s = Some r \<and> rec_profile r = prof_name p \<and> editable (rec_state r)"
  by (auto simp: owned_draft_def bindM_eq_Inr owned_record_Inr split: if_splits)

lemma lawful_owned: "lawful (prof_name p) q P (owned_record p i)" "lawful (prof_name p) q P (owned_draft p i)"
  by (rule lawful_unchanged; simp add: owned_draft_def owned_record_def bindM_def store_get_def
      split: option.splits)+

text \<open>A draft just read from the store may be written back with the fields an edit or a filing changes.\<close>

lemma draft_writable:
  assumes "desk_ok s" "get_invoice i s = Some r" "editable (rec_state r)" "rec_id r' = rec_id r"
    "editable (rec_state r') \<or> q \<Longrightarrow> rec_uid r' = rec_uid r \<and> rec_reference_number r' = rec_reference_number r"
  shows "writable (rec_profile r) q r' s"
proof -
  from assms(2) obtain row where row: "get_row (invoices s) i = Some row" and r: "r = row\<lparr>rec_id := Some i\<rparr>"
    by (auto simp: get_invoice_def)
  with assms have "unanswered row" "editable (rec_state row)" by (auto intro: desk_ok_row)
  with assms row r show ?thesis by (auto simp: writable_def unanswered_def)
qed

lemma lawful_update_draft: "lawful (prof_name p) q P (update_draft api p i ivc)"
  unfolding update_draft_def
proof (rule lawful_bindM [OF lawful_owned(2)])
  fix s w r s' w'
  assume s: "desk_ok s" and o: "owned_draft p i (s, w) = (Inr r, (s', w'))"
  then have w: "writable (prof_name p) q (r\<lparr>rec_state := draft_state rep, rec_payload := to_wire_dict ivc,
      rec_tax_id := or_none (taxid (header ivc)), rec_detail := report_detail rep\<rparr>) s'" for rep
    using draft_writable [of s i r "r\<lparr>rec_state := draft_state rep, rec_payload := to_wire_dict ivc,
      rec_tax_id := or_none (taxid (header ivc)), rec_detail := report_detail rep\<rparr>"]
    by (auto simp: owned_draft_Inr)
  show "lawful (prof_name p) q ((=) s') (bindM (liftM (report_of api ivc)) (\<lambda>rep.
     bindM (store_save api (r\<lparr>rec_state := draft_state rep, rec_payload := to_wire_dict ivc,
        rec_tax_id := or_none (taxid (header ivc)), rec_detail := report_detail rep\<rparr>)) (\<lambda>r'.
       returnM (r', rep))) :: ('a desk, _) io)"
    by (intro lawful_bindM lawful_save_old) (use w in \<open>auto simp: bindM_def\<close>)
qed

lemma lawful_delete_draft: "lawful (prof_name p) q P (delete_draft p i)"
  unfolding delete_draft_def
proof (rule lawful_bindM [OF lawful_owned(2)])
  fix s w r s' w'
  assume s: "desk_ok s" and o: "owned_draft p i (s, w) = (Inr r, (s', w'))"
  then obtain row where "get_row (invoices s) i = Some row" "editable (rec_state row)" "rec_profile row = prof_name p" "s' = s"
    by (auto simp: owned_draft_Inr get_invoice_def)
  with s delete_evolves [of s i row "prof_name p"] show "lawful (prof_name p) q ((=) s') (in_store (delete_invoice_row i) :: ('a desk, _) io)"
    by (auto simp: lawful_def in_store_def delete_invoice_row_def)
qed

text \<open>A record resolved for filing: none, or a draft of the store.\<close>

definition resolved :: "profile \<Rightarrow> invoice_record option \<Rightarrow> record_store \<Rightarrow> bool" where
  "resolved p found s =
     (case found of
        None \<Rightarrow> True
      | Some r \<Rightarrow> (\<exists>i. get_invoice i s = Some r) \<and> rec_profile r = prof_name p \<and> editable (rec_state r))"

lemma lawful_write_resolved:
  assumes "desk_ok s" "resolved p found s"
    and "\<And>r. editable (rec_state (f r)) \<or> q \<Longrightarrow> rec_uid (f r) = rec_uid r \<and> rec_reference_number (f r) = rec_reference_number r"
    and "\<And>r. rec_id (f r) = rec_id r"
  shows "lawful (prof_name p) q ((=) s) (store_save api (f (case found of None \<Rightarrow> new_record p st wire | Some r \<Rightarrow> r)))"
proof (cases found)
  case None
  have "unanswered (new_record p st wire)" "rec_id (new_record p st wire) = None"
    by (simp_all add: unanswered_def new_record_def)
  with assms(3,4) None show ?thesis by (auto intro!: lawful_save_new simp: unanswered_def)
next
  case (Some r)
  with assms(1,2) obtain i where "get_invoice i s = Some r" "editable (rec_state r)" "desk_ok s"
    and prof: "rec_profile r = prof_name p"
    by (auto simp: resolved_def)
  then have "writable (prof_name p) q (f r) s"
    unfolding prof [symmetric] by (rule_tac draft_writable) (use assms(3,4) in auto)
  with Some show ?thesis by (auto intro: lawful_save_old)
qed

lemma submit_resolve_Inr:
  "(case draft_id of None \<Rightarrow> returnM None | Some i \<Rightarrow> bindM (owned_draft p i) (\<lambda>r. returnM (Some r))) (s, w) =
     (Inr found, (s', w')) \<Longrightarrow> s' = s \<and> w' = w \<and> resolved p found s"
  by (auto simp: py_splits owned_draft_Inr resolved_def split: option.splits)

lemma lawful_resolve:
  "lawful (prof_name p) q P (case draft_id of None \<Rightarrow> returnM None | Some i \<Rightarrow> bindM (owned_draft p i) (\<lambda>r. returnM (Some r)))"
  by (cases draft_id) (auto intro!: lawful_bindM lawful_owned)

lemma lawful_submit_open: "lawful (prof_name p) q P (submit_open api p draft_id ivc)"
  unfolding submit_open_def
proof (rule lawful_bindM [OF lawful_resolve])
  fix s w found s' w'
  assume s: "desk_ok s" and
    o: "(case draft_id of None \<Rightarrow> returnM None | Some i \<Rightarrow> bindM (owned_draft p i) (\<lambda>r. returnM (Some r))) (s, w) =
     (Inr found, (s', w'))"
  from submit_resolve_Inr [OF o] s have r: "desk_ok s'" "resolved p found s'" by auto
  have "lawful (prof_name p) q ((=) s') (store_save api ((case found of None \<Rightarrow> new_record p INVALID (to_wire_dict ivc) | Some r \<Rightarrow> r)
           \<lparr>rec_state := INVALID, rec_payload := to_wire_dict ivc, rec_detail := report_detail rep\<rparr>))" for rep
    by (rule lawful_write_resolved [OF r]) simp_all
  then show "lawful (prof_name p) q ((=) s') (bindM (liftM (report_of api ivc)) (\<lambda>rep.
       if \<not> vr_ok rep then
         bindM (store_save api ((case found of None \<Rightarrow> new_record p INVALID (to_wire_dict ivc) | Some r \<Rightarrow> r)
           \<lparr>rec_state := INVALID, rec_payload := to_wire_dict ivc, rec_detail := report_detail rep\<rparr>))
           (\<lambda>_. raiseM (HTTPException 422))
       else returnM (found, rep)))"
    by (auto intro!: lawful_bindM)
qed

lemma submit_open_Inr:
  "submit_open api p draft_id ivc (s, w) = (Inr (found, rep), (s', w')) \<Longrightarrow>
   s' = s \<and> w' = w \<and> resolved p found s \<and> report_of api ivc = Inr rep \<and> vr_ok rep"
  by (auto simp: submit_open_def py_splits split: if_splits dest!: submit_resolve_Inr)

lemma editable_simps [simp]:
  "editable DRAFT" "editable INVALID" "\<not> editable SENT" "\<not> editable CONFIRMED" "\<not> editable REJECTED"
  "\<not> editable CANCELLED"
  by (simp_all add: editable_def)

lemma lawful_submit_close:
  "desk_ok s \<Longrightarrow> resolved p found s \<Longrightarrow> lawful (prof_name p) False ((=) s) (submit_close api p ivc found rep sub)"
  unfolding submit_close_def filed_record_def by (rule lawful_write_resolved) simp_all

lemma lawful_submit_invoice: "lawful (prof_name p) False P (submit_invoice api p draft_id ivc)"
  unfolding submit_invoice_def
proof (rule lawful_bindM [OF lawful_submit_open])
  fix s w x s' w'
  assume s: "desk_ok s" and o: "submit_open api p draft_id ivc (s, w) = (Inr x, (s', w'))"
  obtain found rep where x: "x = (found, rep)" by (cases x)
  have r: "desk_ok s'" "resolved p found s'" using submit_open_Inr [OF o [unfolded x]] s by auto
  show "lawful (prof_name p) False ((=) s') (case x of (found, rep) \<Rightarrow>
      bindM (in_world (submit_send api p ivc)) (\<lambda>sub. submit_close api p ivc found rep sub))"
    unfolding x prod.case
  proof (rule lawful_bindM)
    fix s1 w1 sub s2 w2
    assume "s' = s1" "in_world (submit_send api p ivc) (s1, w1) = (Inr sub, (s2, w2))"
    then have "s2 = s'" by (auto simp: in_world_def split: prod.splits)
    with r show "lawful (prof_name p) False ((=) s2) (submit_close api p ivc found rep sub)" by (simp add: lawful_submit_close)
  qed simp
qed

text \<open>A filed record held by a handler, while the store goes on under it.\<close>

definition tracks :: "profile \<Rightarrow> invoice_record \<Rightarrow> record_store \<Rightarrow> bool" where
  "tracks p r s =
     (\<exists>i row. rec_id r = Some i \<and> get_row (invoices s) i = Some row \<and> rec_profile row = prof_name p \<and>
       \<not> editable (rec_state row) \<and> \<not> editable (rec_state r) \<and> same_filing row r)"

lemma tracks_evolves:
  assumes "desk_ok s" "tracks p r s" "evolves s s'"
  shows "tracks p r s'"
proof -
  from assms(2) obtain i row where i: "rec_id r = Some i" "get_row (invoices s) i = Some row"
    "\<not> editable (rec_state row)" "\<not> editable (rec_state r)" "same_filing row r" "rec_profile row = prof_name p"
    by (auto simp: tracks_def)
  have "i \<le> t_seq (invoices s)" using table.get_issued [OF _ i(2)] assms(1) by (simp add: desk_ok_def)
  with assms(3) i have "kept (Some row) (get_row (invoices s') i)" by (auto simp: evolves_def)
  with i show ?thesis
    by (cases "get_row (invoices s') i") (auto simp: tracks_def same_filing_def)
qed

lemma find_by_tax_id_get:
  assumes "table_ok (invoices s)" "find_by_tax_id prof t s = Some r"
  shows "\<exists>i. rec_id r = Some i \<and> get_invoice i s = Some r \<and> rec_profile r = prof \<and> rec_tax_id r = Some t"
proof -
  from assms(2) obtain i row where f: "List.find (\<lambda>(i, r). rec_profile r = prof \<and> rec_tax_id r = Some t)
      (rev (t_rows (invoices s))) = Some (i, row)" and r: "r = row\<lparr>rec_id := Some i\<rparr>"
    by (auto simp: find_by_tax_id_def invoice_of_row_def)
  from f have m: "(i, row) \<in> set (t_rows (invoices s))" "rec_profile row = prof" "rec_tax_id row = Some t"
    by (auto simp: find_Some_iff) (metis nth_mem length_rev set_rev)
  with table_ok_distinct [OF assms(1)] have "get_row (invoices s) i = Some row"
    by (simp add: get_row_def)
  with m r show ?thesis by (auto simp: get_invoice_def)
qed

lemma lawful_apply_cancellation: "lawful (prof_name p) q P (apply_cancellation api p r)"
proof (cases "voided_tax_id (rec_payload r)")
  case None
  then show ?thesis by (simp add: apply_cancellation_def)
next
  case (Some t)
  show ?thesis
    unfolding lawful_def
  proof (intro allI impI)
    fix s :: record_store and w :: 'a
    assume s: "desk_ok s"
    show "follows (prof_name p) q s (fst (snd (apply_cancellation api p r (s, w))))"
    proof (cases "find_by_tax_id (prof_name p) t s")
      case None
      with s Some show ?thesis by (simp add: apply_cancellation_def)
    next
      case target: (Some target)
      let ?new = "target\<lparr>rec_state := CANCELLED, rec_detail := Some ((detail_of target)\<lparr>d_cancelled_by :=
            Some \<lparr>cb_id = rec_id r, cb_tax_id = rec_tax_id r, cb_at = utc_now api w\<rparr>\<rparr>)\<rparr>"
      from find_by_tax_id_get [OF _ target] s obtain i where "rec_id target = Some i" "get_invoice i s = Some target"
        "rec_profile target = prof_name p"
        by (auto simp: desk_ok_def)
      then have "writable (prof_name p) q ?new s" by (auto simp: writable_def get_invoice_def same_filing_def)
      then have "lawful (prof_name p) q ((=) s) (store_save api ?new)" by (auto intro: lawful_save_old)
      then have "lawful (prof_name p) q ((=) s) (bindM (store_save api ?new) (\<lambda>_. returnM (Some t)))"
        by (auto intro: lawful_bindM)
      from lawfulD [OF this s refl]
      have "follows (prof_name p) q s (fst (snd (bindM (store_save api ?new) (\<lambda>_. returnM (Some t)) (s, w))))"
        by (metis prod.collapse)
      with s Some target show ?thesis by (simp add: apply_cancellation_def)
    qed
  qed
qed

lemma settled_filed: "\<not> editable (rec_state r) \<Longrightarrow> \<not> editable (rec_state (settled_record r block))"
  by (auto simp: settled_record_def verdict_of_def request_status_name_def split: option.splits if_splits)

lemma lawful_settle_one: "lawful (prof_name p) q (tracks p r) (settle_one api p results r)"
proof (cases "by_reference results (reference_text r)")
  case (Some result)
  have w: "writable (prof_name p) q (settled_record r block) s" if "tracks p r s" for block s
    using that settled_filed [of r block]
    by (auto simp: tracks_def writable_def same_filing_def settled_record_def)
  have c: "s' = s" if "clock api (s, w) = (Inr now, (s', w'))" for s w now s' w'
    using that by (simp add: clock_def)
  show ?thesis
    unfolding settle_one_def Some option.case
    by (rule lawful_bindM, simp, rule lawful_bindM, simp, rule lawful_bindM, rule lawful_save_old)
       (auto dest!: c intro!: w lawful_bindM lawful_apply_cancellation)
qed (simp add: settle_one_def)

lemma lawful_settle_all:
  "lawful (prof_name p) q (\<lambda>s. \<forall>r \<in> set rs. tracks p r s) (mapM (settle_one api p results) rs)"
proof (induction rs)
  case (Cons r rs)
  have 1: "lawful (prof_name p) q (\<lambda>s. \<forall>r \<in> set (r # rs). tracks p r s) (settle_one api p results r)"
    using lawful_settle_one [of p q r api results] by (auto simp: lawful_def)
  have "lawful (prof_name p) q ((=) s') (mapM (settle_one api p results) rs)"
    if "desk_ok s" "\<forall>r \<in> set (r # rs). tracks p r s" "settle_one api p results r (s, w) = (Inr x, (s', w'))"
    for s w x s' w'
  proof -
    from lawfulD [OF 1 that] have "desk_ok s'" "evolves s s'" by (auto simp: follows_def)
    with that have "\<forall>r \<in> set rs. tracks p r s'" by (auto intro: tracks_evolves)
    with Cons show ?thesis by (auto simp: lawful_def)
  qed
  then have "lawful (prof_name p) q ((=) s') (bindM (mapM (settle_one api p results) rs) (\<lambda>ys. returnM (y # ys)))"
    if "desk_ok s" "\<forall>r \<in> set (r # rs). tracks p r s" "settle_one api p results r (s, w) = (Inr y, (s', w'))"
    for s w y s' w'
    using that by (auto intro: lawful_bindM)
  then show ?case unfolding mapM.simps by (rule lawful_bindM [OF 1])
qed (rule lawful_unchanged, simp)

lemma lawful_reconcile:
  "lawful (prof_name p) q (\<lambda>s. \<forall>r \<in> set (filter has_reference rs). tracks p r s) (reconcile api p rs)"
proof (cases "filter has_reference rs = []")
  case True
  then show ?thesis by (simp add: reconcile_def)
next
  case False
  have w: "s' = s" if "in_world m (s, w) = (Inr x, (s', w'))" for m :: "('a, 'b) io" and s w x s' w'
    using that by (auto simp: in_world_def split: prod.splits)
  have "lawful (prof_name p) q ((=) s') (mapM (settle_one api p results) (filter has_reference rs))"
    if "\<forall>r \<in> set (filter has_reference rs). tracks p r s'" for s' results
    using lawful_settle_all [of p q "filter has_reference rs" api results] that by (auto simp: lawful_def)
  then show ?thesis
    unfolding reconcile_def Let_def using False by (auto intro!: lawful_bindM dest!: w)
qed

lemma tracks_awaiting:
  assumes "desk_ok s" "r \<in> set (list_awaiting_inquiry (prof_name p) bound s)"
  shows "tracks p r s"
proof -
  have "set (limited n xs) \<subseteq> set xs" for n and xs :: "'x list"
    by (auto simp: limited_def dest: in_set_takeD)
  with assms(2) obtain i row where m: "(i, row) \<in> set (t_rows (invoices s))" "rec_state row = SENT"
      "rec_profile row = prof_name p" and r: "r = row\<lparr>rec_id := Some i\<rparr>"
    by (fastforce simp: list_awaiting_inquiry_def invoice_of_row_def)
  have "get_row (invoices s) i = Some row"
    using m(1) table_ok_distinct [of "invoices s"] assms(1) by (simp add: get_row_def desk_ok_def)
  with m r show ?thesis by (auto simp: tracks_def same_filing_def)
qed

lemma lawful_inquire_pending: "lawful (prof_name p) q P (inquire_pending api p bound)"
proof -
  have "lawful (prof_name p) q (\<lambda>s'. s' = s) (reconcile api p (list_awaiting_inquiry (prof_name p) bound s))" if "desk_ok s" for s
    using lawful_reconcile [of p q "list_awaiting_inquiry (prof_name p) bound s" api] tracks_awaiting that
    by (auto simp: lawful_def)
  then show ?thesis by (auto simp: lawful_def inquire_pending_def)
qed

lemma lawful_inquire_one: "lawful (prof_name p) q P (inquire_one api p i)"
  unfolding inquire_one_def
proof (rule lawful_bindM [OF lawful_owned(1)])
  fix s w r s' w'
  assume s: "desk_ok s" and o: "owned_record p i (s, w) = (Inr r, (s', w'))"
  from o obtain row where row: "get_row (invoices s) i = Some row" and r: "r = row\<lparr>rec_id := Some i\<rparr>" and "s' = s"
    and prof: "rec_profile row = prof_name p" by (auto simp: owned_record_Inr get_invoice_def)
  have "tracks p r s'" if "has_reference r"
  proof -
    have "\<not> unanswered row" using that r by (auto simp: has_reference_def unanswered_def)
    with s row r prof \<open>s' = s\<close> show ?thesis by (auto simp: tracks_def desk_ok_def same_filing_def)
  qed
  then have "lawful (prof_name p) q ((=) s') (reconcile api p [r])" if "has_reference r"
    using lawful_reconcile [of p q "[r]" api] that by (auto simp: lawful_def)
  then show "lawful (prof_name p) q ((=) s') (if \<not> has_reference r then raiseM (HTTPException 400)
       else bindM (reconcile api p [r]) (\<lambda>oc.
           case oc_records oc of [] \<Rightarrow> raiseM (HTTPException 502) | x # _ \<Rightarrow> returnM x))"
    by (auto intro!: lawful_bindM split: list.splits)
qed

lemma lawful_referring: "lawful (prof_name p) q P (referring_invoice api p i subject)"
proof (cases "subject \<in> {2, 3, 4}")
  case True
  show ?thesis
    unfolding referring_invoice_def not_not if_not_P [of "subject \<notin> {2, 3, 4}", unfolded not_not, OF True]
    by (rule lawful_bindM [OF lawful_owned(1)]) (auto intro!: lawful_unchanged split: option.splits)
qed (simp add: referring_invoice_def)

lemma lawful_done_with: "lawful (prof_name p) q P m \<Longrightarrow> lawful (prof_name p) q P (done_with m)"
  unfolding done_with_def by (rule lawful_bindM) simp_all

fun files :: "request \<Rightarrow> bool" where
  "files (SubmitInvoice _ _) = True"
| "files _ = False"

lemma lawful_handle_request: "(q \<Longrightarrow> \<not> files rq) \<Longrightarrow> lawful (prof_name p) q P (handle_request api p rq)"
  by (cases q; cases rq) (auto intro: lawful_done_with lawful_save_draft lawful_update_draft lawful_delete_draft
      lawful_submit_invoice lawful_inquire_pending lawful_inquire_one lawful_referring)

section \<open>Histories\<close>

text \<open>
  One request, or anything that leaves the invoices alone: time, the counter, the address book.
\<close>

inductive api_step :: "'w api \<Rightarrow> 'w desk \<Rightarrow> 'w desk \<Rightarrow> bool" for api where
  request: "handle_request api p rq st = (r, st') \<Longrightarrow> api_step api st st'"
| elsewhere: "invoices s' = invoices s \<Longrightarrow> api_step api (s, w) (s', w')"

inductive reachable :: "'w api \<Rightarrow> 'w desk \<Rightarrow> bool" for api where
  start: "reachable api (empty_store, w)"
| more: "reachable api st \<Longrightarrow> api_step api st st' \<Longrightarrow> reachable api st'"

inductive_cases api_stepE: "api_step api (s, w) st'"
inductive_simps reachable_iff: "reachable api st"

lemma step_follows:
  assumes "api_step api st st'" "desk_ok (fst st)"
  shows "desk_ok (fst st') \<and> evolves (fst st) (fst st')"
  using assms(1)
proof (cases rule: api_step.cases)
  case (request p rq r)
  then show ?thesis
    using lawfulD [OF lawful_handle_request [of False rq p "\<lambda>_. True"] assms(2), of api "snd st" r "fst st'" "snd st'"]
    by (simp add: follows_def)
next
  case (elsewhere s' s w w')
  with assms(2) show ?thesis by (simp add: desk_ok_def evolves_def)
qed

lemma reachable_ok: "reachable api st \<Longrightarrow> desk_ok (fst st)"
proof (induction rule: reachable.induct)
  case (start w)
  show ?case by (simp add: desk_ok_def empty_store_def) (simp add: empty_table_def get_row_def)
next
  case (more st st')
  then show ?case using step_follows by blast
qed

lemma steps_follow: "(api_step api)\<^sup>*\<^sup>* st st' \<Longrightarrow> desk_ok (fst st) \<Longrightarrow> desk_ok (fst st') \<and> evolves (fst st) (fst st')"
proof (induction rule: rtranclp_induct)
  case (step st1 st2)
  then show ?case using step_follows [OF step.hyps(2)] by (auto intro: evolves_trans)
qed simp

lemma filed_stays_filed:
  assumes "desk_ok s" "evolves s s'" "get_invoice i s = Some r" "\<not> editable (rec_state r)"
  shows "\<exists>r'. get_invoice i s' = Some r' \<and> \<not> editable (rec_state r') \<and> same_filing r r'"
proof -
  from assms(3) obtain row where row: "get_row (invoices s) i = Some row" "r = row\<lparr>rec_id := Some i\<rparr>"
    by (auto simp: get_invoice_def)
  have "i \<le> t_seq (invoices s)" using table.get_issued [OF _ row(1)] assms(1) by (simp add: desk_ok_def)
  with assms(2) row have "kept (Some row) (get_row (invoices s') i)" by (auto simp: evolves_def)
  with row assms(4) show ?thesis
    by (cases "get_row (invoices s') i") (auto simp: get_invoice_def same_filing_def)
qed

section \<open>A sample history\<close>

definition sample_api :: "(counter_file \<times> rat) api" where
  "sample_api = \<lparr>services_for = (\<lambda>_. file_services sample_env), open_client = (\<lambda>_. returnM ()),
     utc_now = (\<lambda>_. lit ''2024''), now_millis = (\<lambda>_. 0), api_rules = sample_rules\<rparr>"

lemma sample_report: "\<exists>rep. report_of sample_api sample_clean = Inr rep \<and> vr_ok rep"
  using sample_accepted
  by (auto simp: report_of_def verify_def sample_api_def verification_of_def report_ok_def)

lemma sample_send:
  "\<exists>sub w. submit_send sample_api sample_profile sample_clean (Absent, 0) = (Inr sub, (Content (counter_text 1), w)) \<and>
     s_tax_id sub = lit ''A1121604B4C00000000010''"
proof -
  have m: "memory_id (config_for sample_api sample_profile) = lit ''A11216''"
    by (simp add: config_for_def sample_profile_def)
  have v: "validated (config_for sample_api sample_profile) sample_clean = Inr ()"
    using sample_accepted by (auto simp: validated_def config_for_def sample_api_def raise_if_invalid_def)
  from submit_sample [OF m v] show ?thesis
    by (auto simp: submit_send_def sample_api_def bindM_def map_eq_Cons_conv)
qed

lemma sample_history:
  "\<exists>s w r. submit_invoice sample_api sample_profile None sample_clean (empty_store, (Absent, 0)) = (Inr r, (s, w)) \<and>
     get_invoice 1 s = Some r \<and> rec_state r = SENT \<and> rec_profile r = lit ''shop'' \<and>
     rec_tax_id r = Some (lit ''A1121604B4C00000000010'')"
proof -
  obtain rep where rep: "report_of sample_api sample_clean = Inr rep" "vr_ok rep" using sample_report by blast
  obtain sub w where sub: "submit_send sample_api sample_profile sample_clean (Absent, 0) = (Inr sub, (Content (counter_text 1), w))"
    "s_tax_id sub = lit ''A1121604B4C00000000010''" using sample_send by blast
  then show ?thesis
    by (simp add: submit_invoice_def submit_open_def rep bindM_def in_world_def submit_close_def store_save_def
        clock_def in_store_def save_invoice_def filed_record_def new_record_def insert_row_def empty_store_def
        empty_table_def get_invoice_def get_row_def sample_profile_def)
qed

lemma sample_reachable:
  "\<exists>s w r. reachable sample_api (s, w) \<and> get_invoice 1 s = Some r \<and> \<not> editable (rec_state r) \<and> rec_profile r = lit ''shop''"
proof -
  obtain s w r where h: "submit_invoice sample_api sample_profile None sample_clean (empty_store, (Absent, 0)) = (Inr r, (s, w))"
    "get_invoice 1 s = Some r" "rec_state r = SENT" "rec_profile r = lit ''shop''" using sample_history by blast
  then have "handle_request sample_api sample_profile (SubmitInvoice None sample_clean) (empty_store, (Absent, 0)) = (Inr (), (s, w))"
    by (simp add: done_with_def bindM_def)
  from more [OF start request [OF this]] have "reachable sample_api (s, w)" .
  with h show ?thesis by (intro exI [of _ s] exI [of _ w] exI [of _ r]) auto
qed

section \<open>Filed records\<close>

text \<open>
  C8. Whatever requests follow, a record that was filed is never deleted, never becomes a draft
  again, and keeps its profile, its payload, its tax id, its uid and its reference number.
\<close>

theorem filed_record_fixed:
  assumes "reachable api (s, w)" and "(api_step api)\<^sup>*\<^sup>* (s, w) (s', w')"
    and "get_invoice i s = Some r" and "\<not> editable (rec_state r)"
  shows "\<exists>r'. get_invoice i s' = Some r' \<and> \<not> editable (rec_state r') \<and> same_filing r r'"
  using filed_stays_filed steps_follow [OF assms(2)] reachable_ok [OF assms(1)] assms(3,4) by simp

theorem filed_record_fixed_witness:
  "\<exists>s w r r'. reachable sample_api (s, w) \<and> get_invoice 1 s = Some r \<and> same_filing r r'"
proof -
  obtain s w r where "reachable sample_api (s, w)" "get_invoice 1 s = Some r" "\<not> editable (rec_state r)"
    using sample_reachable by blast
  then show ?thesis using filed_record_fixed [of sample_api s w s w 1 r] by blast
qed

lemma filed_refused:
  assumes "get_invoice i s = Some r" "\<not> editable (rec_state r)"
  shows "\<exists>n \<in> {404, 409}. owned_draft p i (s, w) = (Inl (HTTPException n), (s, w))"
  using assms by (auto simp: owned_draft_def owned_record_def store_get_def bindM_def)

lemma refused_handlers:
  assumes "owned_draft p i (s, w) = (Inl e, (s, w))"
  shows "submit_invoice api p (Some i) ivc (s, w) = (Inl e, (s, w))"
    "update_draft api p i ivc (s, w) = (Inl e, (s, w))" "delete_draft p i (s, w) = (Inl e, (s, w))"
  using assms by (simp_all add: submit_invoice_def submit_open_def update_draft_def delete_draft_def bindM_def)

text \<open>
  C2. An invoice is filed once: after it was filed, and whatever happened since, submitting, editing
  or deleting its record is refused with 404 or 409 and touches neither the store nor the services.
\<close>

theorem filed_never_refiled:
  assumes "reachable api (s, w)" and "(api_step api)\<^sup>*\<^sup>* (s, w) (s', w')"
    and "get_invoice i s = Some r" and "\<not> editable (rec_state r)"
  shows "\<exists>n. (n = 404 \<or> n = 409) \<and>
    submit_invoice api p (Some i) ivc (s', w') = (Inl (HTTPException n), (s', w')) \<and>
    update_draft api p i ivc (s', w') = (Inl (HTTPException n), (s', w')) \<and>
    delete_draft p i (s', w') = (Inl (HTTPException n), (s', w'))"
proof -
  obtain r' where "get_invoice i s' = Some r'" "\<not> editable (rec_state r')"
    using filed_stays_filed steps_follow [OF assms(2)] reachable_ok [OF assms(1)] assms(3,4) by fastforce
  from filed_refused [OF this, of p w'] obtain n where "n \<in> {404, 409}"
    and o: "owned_draft p i (s', w') = (Inl (HTTPException n), (s', w'))" by blast
  then have "n = 404 \<or> n = 409" by simp
  with refused_handlers [OF o] show ?thesis by blast
qed

theorem filed_never_refiled_witness:
  "\<exists>s w n. reachable sample_api (s, w) \<and>
     submit_invoice sample_api sample_profile (Some 1) sample_clean (s, w) = (Inl (HTTPException n), (s, w))"
proof -
  obtain s w r where "reachable sample_api (s, w)" "get_invoice 1 s = Some r" "\<not> editable (rec_state r)"
    using sample_reachable by blast
  then show ?thesis using filed_never_refiled [of sample_api s w s w 1 r sample_profile sample_clean] by blast
qed

text \<open>
  A request under one profile never changes a record of another profile.
\<close>

theorem profiles_isolated:
  assumes "reachable api (s, w)" and "handle_request api p rq (s, w) = (res, (s', w'))"
    and "get_invoice i s = Some r" and "rec_profile r \<noteq> prof_name p"
  shows "get_invoice i s' = Some r"
proof -
  have "isolated (prof_name p) s s'"
    using lawfulD [OF lawful_handle_request [of False rq p "\<lambda>_. True"] _ _ assms(2)] reachable_ok [OF assms(1)]
    by (simp add: follows_def)
  with assms(3,4) show ?thesis by (auto simp: isolated_def get_invoice_def)
qed

theorem profiles_isolated_witness:
  "\<exists>s w s' w' res r. handle_request sample_api (sample_profile\<lparr>prof_name := lit ''other''\<rparr>) (DeleteDraft 1) (s, w) =
     (res, (s', w')) \<and> get_invoice 1 s' = Some r"
proof -
  obtain s w r where s: "reachable sample_api (s, w)" "get_invoice 1 s = Some r" "rec_profile r = lit ''shop''"
    using sample_reachable by blast
  let ?p = "sample_profile\<lparr>prof_name := lit ''other''\<rparr>"
  obtain res s' w' where h: "handle_request sample_api ?p (DeleteDraft 1) (s, w) = (res, (s', w'))"
    by (metis prod.collapse)
  have "rec_profile r \<noteq> prof_name ?p" by (simp add: s)
  from profiles_isolated [OF s(1) h s(2) this] h show ?thesis by blast
qed

end
