(* ===== verification/Filing.thy ===== *)
theory Filing
  imports Lifecycle
begin

text \<open>
  What one request of \<open>InvoiceApi\<close> does: the record a filing writes and the filings that spend
  nothing, two filings of one draft that overlap, and what an inquiry does to cancellations.
\<close>

section \<open>Filing a draft\<close>

lemma save_existing:
  assumes "rec_id r = Some i"
  shows "save_invoice now r s =
    (Inr (r\<lparr>rec_updated_at := Some now\<rparr>), s\<lparr>invoices := update_row i (update_columns now r) (invoices s)\<rparr>)"
  by (simp add: save_invoice_def assms)

lemma get_updated:
  assumes "table_ok (invoices s)"
  shows "get_invoice j (s\<lparr>invoices := update_row i f (invoices s)\<rparr>) =
    (if j = i then map_option (\<lambda>r. (f r)\<lparr>rec_id := Some i\<rparr>) (get_row (invoices s) i) else get_invoice j s)"
  using table.update_law [OF assms, of i f] by (auto simp: get_invoice_def option.map_comp comp_def)

lemma get_invoice_id: "get_invoice i s = Some r \<Longrightarrow> rec_id r = Some i"
  by (auto simp: get_invoice_def)

text \<open>The record in hand may be older than the row it is written to.\<close>

lemma overwrite_existing:
  assumes "get_invoice i s0 = Some r" "get_invoice i s = Some r0" "table_ok (invoices s)"
  shows "\<exists>s' r'. submit_close api p ivc (Some r) rep sub (s, w) =
      (Inr ((filed_record p ivc (Some r) rep sub)\<lparr>rec_updated_at := Some (utc_now api w)\<rparr>), (s', w)) \<and>
    get_invoice i s' = Some r' \<and> table_ok (invoices s') \<and> t_seq (invoices s') = t_seq (invoices s) \<and>
    r' = update_columns (utc_now api w) (filed_record p ivc (Some r) rep sub) r0 \<and>
    (\<forall>j. j \<noteq> i \<longrightarrow> get_invoice j s' = get_invoice j s)"
proof -
  let ?f = "filed_record p ivc (Some r) rep sub"
  have id: "rec_id ?f = Some i" using get_invoice_id [OF assms(1)] by (simp add: filed_record_def)
  let ?u = "update_columns (utc_now api w) ?f"
  let ?s = "s\<lparr>invoices := update_row i ?u (invoices s)\<rparr>"
  have "submit_close api p ivc (Some r) rep sub (s, w) =
      (Inr (?f\<lparr>rec_updated_at := Some (utc_now api w)\<rparr>), (?s, w))"
    by (simp add: submit_close_def store_save_def bindM_def clock_def in_store_def save_existing [OF id])
  moreover obtain row where row: "get_row (invoices s) i = Some row" "r0 = row\<lparr>rec_id := Some i\<rparr>"
    using assms(2) by (auto simp: get_invoice_def)
  have "get_invoice i ?s = Some (?u r0)"
    by (simp add: get_updated [OF assms(3)] row(1)) (simp add: row(2) update_columns_def)
  moreover have "get_invoice j ?s = get_invoice j s" if "j \<noteq> i" for j
    using that by (simp add: get_updated [OF assms(3)])
  moreover have "table_ok (invoices ?s)" "t_seq (invoices ?s) = t_seq (invoices s)"
    using table.update_law [OF assms(3), of i ?u] by simp_all
  ultimately show ?thesis by (intro exI [of _ ?s] exI [of _ "?u r0"]) simp
qed

lemma close_existing:
  assumes "get_invoice i s = Some r" "table_ok (invoices s)"
  shows "\<exists>s' r'. submit_close api p ivc (Some r) rep sub (s, w) = (Inr r', (s', w)) \<and>
    get_invoice i s' = Some r' \<and> table_ok (invoices s') \<and> t_seq (invoices s') = t_seq (invoices s) \<and>
    rec_state r' = SENT \<and> rec_payload r' = to_wire_dict ivc \<and> rec_tax_id r' = Some (s_tax_id sub) \<and>
    rec_uid r' = Some (s_uid sub) \<and> rec_reference_number r' = s_reference_number sub \<and>
    rec_profile r' = rec_profile r \<and> (\<forall>j. j \<noteq> i \<longrightarrow> get_invoice j s' = get_invoice j s)"
proof -
  let ?f = "filed_record p ivc (Some r) rep sub"
  have "update_columns (utc_now api w) ?f r = ?f\<lparr>rec_updated_at := Some (utc_now api w)\<rparr>"
    by (simp add: filed_record_def update_columns_def)
  moreover obtain s' r' where "submit_close api p ivc (Some r) rep sub (s, w) =
      (Inr (?f\<lparr>rec_updated_at := Some (utc_now api w)\<rparr>), (s', w))"
    "get_invoice i s' = Some r'" "table_ok (invoices s')" "t_seq (invoices s') = t_seq (invoices s)"
    "r' = update_columns (utc_now api w) ?f r" "\<forall>j. j \<noteq> i \<longrightarrow> get_invoice j s' = get_invoice j s"
    using overwrite_existing [OF assms(1,1,2), of api p ivc rep sub w] by blast
  ultimately show ?thesis
    by (intro exI [of _ s'] exI [of _ r']) (simp, simp add: filed_record_def)
qed

lemma submit_open_Some:
  assumes "submit_open api p (Some i) ivc (s, w) = (Inr (found, rep), st)"
  shows "\<exists>x. found = Some x \<and> get_invoice i s = Some x \<and> rec_profile x = prof_name p \<and> editable (rec_state x)"
proof -
  from assms obtain x s1 w1 where o: "owned_draft p i (s, w) = (Inr x, (s1, w1))" and "found = Some x"
    by (auto simp: submit_open_def py_splits split: if_splits)
  then show ?thesis by (simp add: owned_draft_Inr)
qed

lemma submit_invoice_Inr:
  assumes "submit_invoice api p (Some i) ivc (s, w) = (Inr r, (s', w'))"
  shows "\<exists>found rep sub. get_invoice i s = Some found \<and> rec_profile found = prof_name p \<and> editable (rec_state found) \<and>
    submit_send api p ivc w = (Inr sub, w') \<and> submit_close api p ivc (Some found) rep sub (s, w') = (Inr r, (s', w'))"
proof -
  from assms obtain found rep s1 w1 sub s2 w2 where
    o: "submit_open api p (Some i) ivc (s, w) = (Inr (found, rep), (s1, w1))" and
    n: "in_world (submit_send api p ivc) (s1, w1) = (Inr sub, (s2, w2))" and
    c: "submit_close api p ivc found rep sub (s2, w2) = (Inr r, (s', w'))"
    by (auto simp: submit_invoice_def py_splits)
  from submit_open_Some [OF o] obtain x where x: "found = Some x" "get_invoice i s = Some x"
    "rec_profile x = prof_name p" "editable (rec_state x)" by blast
  have 1: "s1 = s \<and> w1 = w" using submit_open_Inr [OF o] by blast
  with n have 2: "submit_send api p ivc w = (Inr sub, w2) \<and> s2 = s" by (auto simp: in_world_def split: prod.splits)
  have "w' = w2" using c by (auto simp: submit_close_def store_save_def py_splits clock_def in_store_def split: prod.splits)
  with x 2 c show ?thesis by blast
qed

text \<open>
  Filing a draft moves its record: the row of that id becomes \<open>SENT\<close> with the id, the uid and the
  reference number of the submission, it keeps its profile, no other record changes and none is added.
\<close>

theorem submit_moves_record:
  assumes "submit_invoice api p (Some i) ivc (s, w) = (Inr r, (s', w'))" and "table_ok (invoices s)"
  shows "\<exists>sub. submit_send api p ivc w = (Inr sub, w') \<and>
    get_invoice i s' = Some r \<and> rec_state r = SENT \<and> rec_tax_id r = Some (s_tax_id sub) \<and>
    rec_uid r = Some (s_uid sub) \<and> rec_reference_number r = s_reference_number sub \<and>
    rec_payload r = to_wire_dict ivc \<and> rec_profile r = prof_name p \<and>
    (\<forall>j. j \<noteq> i \<longrightarrow> get_invoice j s' = get_invoice j s) \<and> t_seq (invoices s') = t_seq (invoices s)"
proof -
  from submit_invoice_Inr [OF assms(1)] obtain found rep sub where
    f: "get_invoice i s = Some found" "rec_profile found = prof_name p" and
    n: "submit_send api p ivc w = (Inr sub, w')" and
    c: "submit_close api p ivc (Some found) rep sub (s, w') = (Inr r, (s', w'))" by blast
  from close_existing [OF f(1) assms(2), of api p ivc rep sub w'] c f(2) n show ?thesis by auto
qed

lemma owned_draft_refuses:
  assumes "\<not> (\<exists>r. get_invoice i s = Some r \<and> rec_profile r = prof_name p \<and> editable (rec_state r))"
  shows "\<exists>n. owned_draft p i (s, w) = (Inl (HTTPException n), (s, w)) \<and> (n = 404 \<or> n = 409)"
proof (cases "get_invoice i s")
  case None
  then show ?thesis by (simp add: owned_draft_def owned_record_def bindM_def store_get_def)
next
  case (Some r)
  with assms show ?thesis
    by (cases "rec_profile r = prof_name p") (auto simp: owned_draft_def owned_record_def bindM_def store_get_def)
qed

text \<open>
  An invoice that fails the rules costs nothing: the request is refused with 404, 409 or 422 before
  anything outside the store is touched.
\<close>

theorem refused_submission_spends_nothing:
  assumes "report_of api ivc = Inr rep" and "\<not> vr_ok rep"
  shows "\<exists>n s'. submit_invoice api p draft_id ivc (s, w) = (Inl (HTTPException n), (s', w)) \<and>
    (n = 404 \<or> n = 409 \<or> n = 422)"
proof -
  have save: "\<exists>x s'. store_save api r (s, w) = (Inr x, (s', w))" for r
    by (cases "rec_id r") (auto simp: store_save_def bindM_def clock_def in_store_def save_invoice_def Let_def
        split: prod.splits)
  have "\<exists>n s'. submit_open api p draft_id ivc (s, w) = (Inl (HTTPException n), (s', w)) \<and> (n = 404 \<or> n = 409 \<or> n = 422)"
  proof (cases draft_id)
    case None
    obtain x s' where v: "store_save api ((new_record p INVALID (to_wire_dict ivc))
        \<lparr>rec_state := INVALID, rec_payload := to_wire_dict ivc, rec_detail := report_detail rep\<rparr>) (s, w) = (Inr x, (s', w))"
      using save by blast
    have "submit_open api p None ivc (s, w) = (Inl (HTTPException 422), (s', w))"
      by (simp add: submit_open_def bindM_def v assms)
    with None show ?thesis by blast
  next
    case (Some i)
    show ?thesis
    proof (cases "\<exists>r. get_invoice i s = Some r \<and> rec_profile r = prof_name p \<and> editable (rec_state r)")
      case True
      then obtain r where o: "owned_draft p i (s, w) = (Inr r, (s, w))" by (auto simp: owned_draft_Inr)
      obtain x s' where v: "store_save api (r\<lparr>rec_state := INVALID, rec_payload := to_wire_dict ivc,
          rec_detail := report_detail rep\<rparr>) (s, w) = (Inr x, (s', w))" using save by blast
      have "submit_open api p (Some i) ivc (s, w) = (Inl (HTTPException 422), (s', w))"
        by (simp add: submit_open_def bindM_def o v assms)
      with Some show ?thesis by blast
    next
      case False
      from owned_draft_refuses [OF this, of w]
      obtain n where n: "owned_draft p i (s, w) = (Inl (HTTPException n), (s, w))" "n = 404 \<or> n = 409" by blast
      from n(1) have "submit_open api p (Some i) ivc (s, w) = (Inl (HTTPException n), (s, w))"
        by (simp add: submit_open_def bindM_def)
      with n(2) Some show ?thesis by (intro exI [of _ n] exI [of _ s]) auto
    qed
  qed
  then obtain n s' where "submit_open api p draft_id ivc (s, w) = (Inl (HTTPException n), (s', w))"
    and n: "n = 404 \<or> n = 409 \<or> n = 422" by blast
  then have "submit_invoice api p draft_id ivc (s, w) = (Inl (HTTPException n), (s', w))"
    by (simp add: submit_invoice_def bindM_def)
  with n show ?thesis by (intro exI [of _ n] exI [of _ s']) auto
qed

text \<open>A store with one draft of the sample profile.\<close>

definition one_draft :: record_store where
  "one_draft = empty_store\<lparr>invoices := snd (insert_row (new_record sample_profile DRAFT (JObj [])) empty_table)\<rparr>"

lemma one_draft_table: "table_ok (invoices one_draft)"
  by (simp add: one_draft_def table_ok_def insert_row_def empty_table_def)

lemma one_draft_row: "get_invoice 1 one_draft = Some ((new_record sample_profile DRAFT (JObj []))\<lparr>rec_id := Some 1\<rparr>)"
  by (simp add: one_draft_def get_invoice_def get_row_def insert_row_def empty_table_def)

lemma submit_draft_runs:
  assumes "get_invoice i s = Some r" "rec_profile r = prof_name p" "editable (rec_state r)"
    and "report_of api ivc = Inr rep" "vr_ok rep" "submit_send api p ivc w = (Inr sub, w')"
  shows "submit_open api p (Some i) ivc (s, w) = (Inr (Some r, rep), (s, w))"
    "submit_invoice api p (Some i) ivc (s, w) = submit_close api p ivc (Some r) rep sub (s, w')"
proof -
  have "owned_draft p i (s, w) = (Inr r, (s, w))" using assms by (simp add: owned_draft_Inr)
  then show o: "submit_open api p (Some i) ivc (s, w) = (Inr (Some r, rep), (s, w))"
    using assms by (simp add: submit_open_def bindM_def)
  show "submit_invoice api p (Some i) ivc (s, w) = submit_close api p ivc (Some r) rep sub (s, w')"
    by (simp add: submit_invoice_def bindM_def o in_world_def assms)
qed

lemma sample_submit_draft:
  "\<exists>r s' w'. submit_invoice sample_api sample_profile (Some 1) sample_clean (one_draft, (Absent, 0)) = (Inr r, (s', w'))"
proof -
  obtain rep where rep: "report_of sample_api sample_clean = Inr rep" "vr_ok rep" using sample_report by blast
  obtain sub w where sub: "submit_send sample_api sample_profile sample_clean (Absent, 0) = (Inr sub, (Content (counter_text 1), w))"
    using sample_send by blast
  have r: "rec_profile ((new_record sample_profile DRAFT (JObj []))\<lparr>rec_id := Some 1\<rparr>) = prof_name sample_profile"
    "editable (rec_state ((new_record sample_profile DRAFT (JObj []))\<lparr>rec_id := Some 1\<rparr>))"
    by (simp_all add: new_record_def)
  show ?thesis
    unfolding submit_draft_runs(2) [OF one_draft_row r rep sub]
    using close_existing [OF one_draft_row one_draft_table, of sample_api sample_profile sample_clean rep sub
        "(Content (counter_text 1), w)"] by blast
qed

theorem submit_moves_record_witness:
  "\<exists>r s' w'. submit_invoice sample_api sample_profile (Some 1) sample_clean (one_draft, (Absent, 0)) = (Inr r, (s', w')) \<and>
     get_invoice 1 s' = Some r \<and> rec_state r = SENT"
proof -
  obtain r s' w' where "submit_invoice sample_api sample_profile (Some 1) sample_clean (one_draft, (Absent, 0)) = (Inr r, (s', w'))"
    using sample_submit_draft by blast
  with submit_moves_record [OF this one_draft_table] show ?thesis by blast
qed

theorem refused_submission_spends_nothing_witness:
  "\<exists>n s'. submit_invoice sample_api sample_profile (Some 1) (sample_clean\<lparr>body := []\<rparr>) (one_draft, (Absent, 0)) =
     (Inl (HTTPException n), (s', (Absent, 0)))"
proof -
  obtain r where r: "validate_invoice sample_rules (sample_clean\<lparr>body := []\<rparr>) = Some r" "\<not> report_ok r"
    using sample_refused by blast
  then obtain rep where rep: "report_of sample_api (sample_clean\<lparr>body := []\<rparr>) = Inr rep" "\<not> vr_ok rep"
    by (auto simp: report_of_def verify_def sample_api_def verification_of_def report_ok_def)
  from refused_submission_spends_nothing [OF this, of sample_profile "Some 1" one_draft "(Absent, 0)"]
  show ?thesis by blast
qed

section \<open>What is stored is not what was signed\<close>

lemma stored_payload:
  assumes "submit_invoice api p draft_id ivc (s, w) = (Inr r, st)"
  shows "rec_payload r = to_wire_dict ivc \<and> rec_tax_id r \<noteq> None \<and> rec_uid r \<noteq> None"
proof -
  from assms obtain found rep sub st1 where "submit_close api p ivc found rep sub st1 = (Inr r, st)"
    by (auto simp: submit_invoice_def py_splits)
  then show ?thesis
    by (cases found) (auto simp: submit_close_def store_save_def py_splits clock_def in_store_def save_invoice_def
        filed_record_def new_record_def split: prod.splits option.splits)
qed

lemma wire_taxid: "jget (lit ''header'') (to_wire_dict ivc) = Some h \<Longrightarrow>
    jget (lit ''taxid'') h = (if is_blank (taxid (header ivc)) then None else Some (JStr (taxid (header ivc))))"
proof -
  assume h: "jget (lit ''header'') (to_wire_dict ivc) = Some h"
  obtain h' where "jget (lit ''header'') (to_wire_dict ivc) = Some h'"
    and t: "\<forall>k. jget k h' = wire_field (header_items (header ivc)) k"
    using wire_dict_fields [of ivc] by blast
  with h have "jget (lit ''taxid'') h = wire_field (header_items (header ivc)) (lit ''taxid'')" by simp
  then show ?thesis by (simp add: wire_field_def header_items_def)
qed

text \<open>
  The payload kept of a filed invoice is the invoice as it was entered: when the id was minted on
  the way, the stored payload has no \<open>taxid\<close>, while the signed one did.
\<close>

theorem stored_payload_lacks_tax_id:
  assumes "submit_invoice api p draft_id ivc (s, w) = (Inr r, st)" and "taxid (header ivc) = []"
  shows "\<exists>h. jget (lit ''header'') (rec_payload r) = Some h \<and> jget (lit ''taxid'') h = None \<and> rec_tax_id r \<noteq> None"
proof -
  obtain h where h: "jget (lit ''header'') (to_wire_dict ivc) = Some h" using wire_dict_fields [of ivc] by blast
  with wire_taxid [OF h] stored_payload [OF assms(1)] assms(2) show ?thesis by (auto simp: is_blank_def)
qed

theorem stored_payload_lacks_tax_id_witness:
  "\<exists>r st h. submit_invoice sample_api sample_profile None sample_clean (empty_store, (Absent, 0)) = (Inr r, st) \<and>
     jget (lit ''header'') (rec_payload r) = Some h \<and> jget (lit ''taxid'') h = None"
proof -
  obtain r s w where "submit_invoice sample_api sample_profile None sample_clean (empty_store, (Absent, 0)) = (Inr r, (s, w))"
    using sample_history by blast
  with stored_payload_lacks_tax_id [OF this] show ?thesis by (auto simp: sample_eval)
qed

section \<open>The ledger of filings\<close>

text \<open>
  The abstract view: which record stands for which filing. It is never changed, only appended to.
\<close>

record filing =
  f_profile :: pystr
  f_payload :: json
  f_tax_id :: "pystr option"
  f_uid :: pystr
  f_reference :: "pystr option"

type_synonym ledger = "int \<Rightarrow> filing option"

definition filing_of :: "invoice_record \<Rightarrow> filing option" where
  "filing_of r = map_option (\<lambda>u. \<lparr>f_profile = rec_profile r, f_payload = rec_payload r,
     f_tax_id = rec_tax_id r, f_uid = u, f_reference = rec_reference_number r\<rparr>) (rec_uid r)"

definition ledger_of :: "record_store \<Rightarrow> ledger" where
  "ledger_of s = (\<lambda>i. Option.bind (get_row (invoices s) i) filing_of)"

inductive ledger_step :: "ledger \<Rightarrow> ledger \<Rightarrow> bool" where
  stay: "ledger_step l l"
| append: "l i = None \<Longrightarrow> ledger_step l (l(i \<mapsto> f))"

inductive_cases ledger_stepE: "ledger_step l l'"

lemma quiet_ledger:
  assumes "desk_ok s" "evolves s s'" "quiet s s'"
  shows "ledger_of s' = ledger_of s"
proof
  fix i
  show "ledger_of s' i = ledger_of s i"
  proof (cases "ledger_of s i")
    case None
    have "ledger_of s' i = None"
    proof (rule ccontr)
      assume "ledger_of s' i \<noteq> None"
      then obtain r' where "get_row (invoices s') i = Some r'" "rec_uid r' \<noteq> None"
        by (auto simp: ledger_of_def filing_of_def bind_eq_Some_conv)
      with assms(3) obtain r where "get_row (invoices s) i = Some r" "rec_uid r \<noteq> None"
        unfolding quiet_def by blast
      with None show False by (simp add: ledger_of_def filing_of_def)
    qed
    with None show ?thesis by simp
  next
    case (Some f)
    then obtain r where r: "get_row (invoices s) i = Some r" "rec_uid r \<noteq> None"
      by (auto simp: ledger_of_def filing_of_def bind_eq_Some_conv)
    with assms(1) have n: "\<not> editable (rec_state r)" by (auto simp: desk_ok_def unanswered_def)
    have "i \<le> t_seq (invoices s)" using table.get_issued [OF _ r(1)] assms(1) by (simp add: desk_ok_def)
    with assms(2) r(1) have "kept (Some r) (get_row (invoices s') i)" by (auto simp: evolves_def)
    with n obtain r' where "get_row (invoices s') i = Some r'" "same_filing r r'"
      by (cases "get_row (invoices s') i") auto
    with r show ?thesis by (simp add: ledger_of_def filing_of_def same_filing_def)
  qed
qed

lemma close_ledger:
  assumes "desk_ok s" "resolved p found s" "submit_close api p ivc found rep sub (s, w) = (res, (s', w'))"
  shows "ledger_step (ledger_of s) (ledger_of s')"
proof (cases found)
  case None
  let ?f = "filed_record p ivc found rep sub"
  have id: "rec_id ?f = None" by (simp add: None filed_record_def new_record_def)
  obtain i t where ins: "insert_row (?f\<lparr>rec_created_at := Some (utc_now api w), rec_updated_at := Some (utc_now api w)\<rparr>)
      (invoices s) = (i, t)" by (metis prod.collapse)
  have s': "s' = s\<lparr>invoices := t\<rparr>"
    using assms(3) by (simp add: submit_close_def store_save_def bindM_def clock_def in_store_def save_invoice_def id ins)
  have ok: "table_ok (invoices s)" using assms(1) by (simp add: desk_ok_def)
  from table.insert_law [OF ok ins] table.insert_fresh [OF ok ins]
  have g: "get_row t = (get_row (invoices s))(i \<mapsto> ?f\<lparr>rec_created_at := Some (utc_now api w), rec_updated_at := Some (utc_now api w)\<rparr>)"
    "get_row (invoices s) i = None" by simp_all
  have "ledger_of s' = (ledger_of s)(i := filing_of (?f\<lparr>rec_created_at := Some (utc_now api w), rec_updated_at := Some (utc_now api w)\<rparr>))"
    by (simp add: ledger_of_def fun_eq_iff s' g(1))
  moreover have "ledger_of s i = None" by (simp add: ledger_of_def g(2))
  ultimately show ?thesis by (auto simp: filing_of_def filed_record_def intro: ledger_step.append)
next
  case (Some r)
  with assms(2) obtain i where i: "get_invoice i s = Some r" "editable (rec_state r)" by (auto simp: resolved_def)
  then obtain row where row: "get_row (invoices s) i = Some row" "editable (rec_state row)" by (auto simp: get_invoice_def)
  with assms(1) have "rec_uid row = None" by (auto simp: desk_ok_def unanswered_def)
  with row have free: "ledger_of s i = None" by (simp add: ledger_of_def filing_of_def)
  let ?f = "filed_record p ivc found rep sub"
  have id: "rec_id ?f = Some i" using get_invoice_id [OF i(1)] by (simp add: Some filed_record_def)
  let ?u = "update_columns (utc_now api w) ?f"
  have s': "s' = s\<lparr>invoices := update_row i ?u (invoices s)\<rparr>"
    using assms(3) by (auto simp: submit_close_def store_save_def bindM_def clock_def in_store_def save_existing [OF id])
  have "table_ok (invoices s)" using assms(1) by (simp add: desk_ok_def)
  from table.update_law [OF this, of i ?u] have "ledger_of s' = (ledger_of s)(i := filing_of (?u row))"
    by (simp add: ledger_of_def fun_eq_iff s' row(1))
  with free show ?thesis
    by (auto simp: filing_of_def filed_record_def update_columns_def intro: ledger_step.append)
qed

lemma submit_ledger:
  assumes "desk_ok s" "submit_invoice api p draft_id ivc (s, w) = (res, (s', w'))"
  shows "ledger_step (ledger_of s) (ledger_of s')"
proof -
  obtain o1 s1 w1 where o: "submit_open api p draft_id ivc (s, w) = (o1, (s1, w1))" by (metis prod.collapse)
  have f: "follows (prof_name p) True s s1"
    using lawfulD [OF lawful_submit_open [of p True "\<lambda>_. True"] assms(1) _ o] by simp
  show ?thesis
  proof (cases o1)
    case (Inl e)
    with assms(2) o have "s' = s1" by (auto simp: submit_invoice_def bindM_def)
    with f quiet_ledger [OF assms(1)] show ?thesis by (simp add: follows_def stay)
  next
    case (Inr x)
    obtain found rep where x: "x = (found, rep)" by (cases x)
    from submit_open_Inr o Inr x have s1: "s1 = s" "resolved p found s" by (metis)+
    obtain n w2 where n: "submit_send api p ivc w1 = (n, w2)" by (metis prod.collapse)
    show ?thesis
    proof (cases n)
      case (Inl e)
      with assms(2) o Inr x n s1 have "s' = s" by (auto simp: submit_invoice_def bindM_def in_world_def)
      then show ?thesis by (simp add: stay)
    next
      case sub: (Inr sub)
      with assms(2) o Inr x n s1 have "submit_close api p ivc found rep sub (s, w2) = (res, (s', w'))"
        by (auto simp: submit_invoice_def bindM_def in_world_def)
      from close_ledger [OF assms(1) s1(2) this] show ?thesis .
    qed
  qed
qed

text \<open>
  C3. The handlers refine the ledger: seen through \<open>ledger_of\<close>, every step of the application either
  leaves the filings as they are or appends one under an id that had none.
\<close>

theorem api_refines_ledger:
  assumes "reachable api (s, w)" and "api_step api (s, w) (s', w')"
  shows "ledger_step (ledger_of s) (ledger_of s')"
  using assms(2)
proof (cases rule: api_step.cases)
  case (request p rq r)
  have ok: "desk_ok s" using reachable_ok [OF assms(1)] by simp
  show ?thesis
  proof (cases "files rq")
    case True
    then obtain draft_id ivc where "rq = SubmitInvoice draft_id ivc" by (cases rq) auto
    with request obtain res where "submit_invoice api p draft_id ivc (s, w) = (res, (s', w'))"
      by (auto simp: done_with_def bindM_def split: prod.splits sum.splits)
    from submit_ledger [OF ok this] show ?thesis .
  next
    case False
    have "follows (prof_name p) True s s'"
      using lawfulD [OF lawful_handle_request [of True rq p "\<lambda>_. True"] ok _ request] False by simp
    with quiet_ledger [OF ok] show ?thesis by (simp add: follows_def stay)
  qed
next
  case elsewhere
  then have "ledger_of s' = ledger_of s" by (simp add: ledger_of_def)
  then show ?thesis by (simp add: stay)
qed

theorem api_refines_ledger_witness:
  "\<exists>s w r. handle_request sample_api sample_profile (SubmitInvoice None sample_clean) (empty_store, (Absent, 0)) =
     (r, (s, w)) \<and> ledger_step (ledger_of empty_store) (ledger_of s) \<and> ledger_of s 1 \<noteq> None"
proof -
  obtain s w r where h: "submit_invoice sample_api sample_profile None sample_clean (empty_store, (Absent, 0)) = (Inr r, (s, w))"
    "get_invoice 1 s = Some r" using sample_history by blast
  have "rec_uid r \<noteq> None" using stored_payload [OF h(1)] by simp
  with h(2) have "ledger_of s 1 \<noteq> None" by (auto simp: ledger_of_def filing_of_def get_invoice_def)
  moreover have q: "handle_request sample_api sample_profile (SubmitInvoice None sample_clean) (empty_store, (Absent, 0)) =
     (Inr (), (s, w))" using h by (simp add: done_with_def bindM_def)
  ultimately show ?thesis using api_refines_ledger [OF start request [OF q]] by blast
qed

end
