(* ===== verification/Overlaps.thy ===== *)
theory Overlaps
  imports Filing
begin

text \<open>
  Requests that overlap at an \<open>await\<close>, and what inquiries do to cancellations.

  Two filings of one draft both pass the guard, because nothing is written before the network call;
  a filing that starts after the first one ended is refused.
\<close>

section \<open>Two filings of one draft\<close>

lemma submit_send_Inr:
  assumes "submit_send api p ivc w = (Inr sub, w')"
  shows "\<exists>w1 subs cache. open_client api p w = (Inr (), w1) \<and>
    submit (services_for api p) (config_for api p) [ivc] (w1, None) = (Inr (sub # subs), (w', cache))"
proof -
  obtain x w1 where o: "open_client api p w = (x, w1)" by (metis prod.collapse)
  obtain res w2 cache where s: "submit (services_for api p) (config_for api p) [ivc] (w1, None) = (res, (w2, cache))"
    by (metis prod.collapse)
  from assms show ?thesis
    by (cases x; cases res; cases "projr res") (simp_all add: submit_send_def bindM_def o s)
qed

lemma send_minted:
  assumes "services_for api p = file_services env" and "taxid (header ivc) = []"
    and "\<And>w. fst (snd (open_client api p w)) = fst w"
    and "submit_send api p ivc w = (Inr sub, w')"
  shows "\<exists>n m. counter_level (fst w) < n \<and> n \<le> counter_level (fst w') \<and>
    generate_tax_id (tehran_offset env) (prof_memory_id p) n m = Inr (s_tax_id sub)"
proof -
  from submit_send_Inr [OF assms(4)] obtain w1 subs cache where o: "open_client api p w = (Inr (), w1)"
    and s: "submit (file_services env) (config_for api p) [ivc] (w1, None) = (Inr (sub # subs), (w', cache))"
    unfolding assms(1) by blast
  have "fst w1 = fst w" using assms(3) [of w] o by simp
  moreover from file_pipeline.submit_minted [OF s] assms(2)
  have "\<exists>n m. counter_level (fst w1) < n \<and> n \<le> counter_level (fst w') \<and>
      generate_tax_id (tehran_offset env) (prof_memory_id p) n m = Inr (s_tax_id sub)"
    by (cases subs) (auto simp: config_for_def file_services_def dest: minted_le)
  ultimately show ?thesis by simp
qed

text \<open>
  C32. Two requests that file the same draft at the same time both pass the guard: the second opens on
  the unchanged record while the first is sending. Two different tax ids are filed, and the record ends
  with the second one only.
\<close>

theorem concurrent_submit_files_twice:
  assumes env: "services_for api p = file_services env" "\<And>w. fst (snd (open_client api p w)) = fst w"
    and new: "taxid (header ivc) = []" and ok: "table_ok (invoices s)"
    and first: "submit_open api p (Some i) ivc (s, w) = (Inr (found, rep), st)"
    and sends: "submit_send api p ivc w = (Inr a, w1)" "submit_send api p ivc w1 = (Inr b, w2)"
  shows "st = (s, w) \<and> submit_open api p (Some i) ivc st = (Inr (found, rep), st) \<and>
    s_tax_id a \<noteq> s_tax_id b \<and>
    (\<exists>r1 s1 r2 s2. submit_close api p ivc found rep a (s, w1) = (Inr r1, (s1, w1)) \<and>
       submit_close api p ivc found rep b (s1, w2) = (Inr r2, (s2, w2)) \<and>
       map_option rec_tax_id (get_invoice i s2) = Some (Some (s_tax_id b)) \<and>
       (\<forall>j. j \<noteq> i \<longrightarrow> get_invoice j s2 = get_invoice j s))"
proof -
  have st: "st = (s, w)" using submit_open_Inr first by (metis prod.collapse)
  have o: "submit_open api p (Some i) ivc (s, w) = (Inr (found, rep), (s, w))" using first st by simp
  from submit_open_Some [OF o] obtain x where x: "found = Some x" "get_invoice i s = Some x" by blast
  obtain n m where a: "n \<le> counter_level (fst w1)" "generate_tax_id (tehran_offset env) (prof_memory_id p) n m = Inr (s_tax_id a)"
    using send_minted [OF env(1) new env(2) sends(1)] by blast
  obtain k l where b: "counter_level (fst w1) < k" "generate_tax_id (tehran_offset env) (prof_memory_id p) k l = Inr (s_tax_id b)"
    using send_minted [OF env(1) new env(2) sends(2)] by blast
  have "s_tax_id a \<noteq> s_tax_id b"
  proof
    assume "s_tax_id a = s_tax_id b"
    with tax_id_inj [OF a(2), of "prof_memory_id p" k l] a b show False by simp
  qed
  obtain s1 r1 where c1: "submit_close api p ivc found rep a (s, w1) = (Inr r1, (s1, w1))"
    and g1: "get_invoice i s1 = Some r1" and t1: "table_ok (invoices s1)"
    and f1: "\<forall>j. j \<noteq> i \<longrightarrow> get_invoice j s1 = get_invoice j s"
    using close_existing [OF x(2) ok, of api p ivc rep a w1] x(1) by blast
  obtain s2 r where c2: "submit_close api p ivc found rep b (s1, w2) =
      (Inr ((filed_record p ivc found rep b)\<lparr>rec_updated_at := Some (utc_now api w2)\<rparr>), (s2, w2))"
    and g2: "get_invoice i s2 = Some r" and x2: "r = update_columns (utc_now api w2) (filed_record p ivc found rep b) r1"
    and f2: "\<forall>j. j \<noteq> i \<longrightarrow> get_invoice j s2 = get_invoice j s1"
    using overwrite_existing [OF x(2) g1 t1, of api p ivc rep b w2] unfolding x(1) by blast
  have "rec_tax_id r = Some (s_tax_id b)" by (simp add: x2 filed_record_def update_columns_def)
  with g2 f1 f2 have "map_option rec_tax_id (get_invoice i s2) = Some (Some (s_tax_id b))"
    "\<forall>j. j \<noteq> i \<longrightarrow> get_invoice j s2 = get_invoice j s" by simp_all
  with c1 c2 have "\<exists>r1 s1 r2 s2. submit_close api p ivc found rep a (s, w1) = (Inr r1, (s1, w1)) \<and>
       submit_close api p ivc found rep b (s1, w2) = (Inr r2, (s2, w2)) \<and>
       map_option rec_tax_id (get_invoice i s2) = Some (Some (s_tax_id b)) \<and>
       (\<forall>j. j \<noteq> i \<longrightarrow> get_invoice j s2 = get_invoice j s)" by blast
  with o st \<open>s_tax_id a \<noteq> s_tax_id b\<close> show ?thesis by simp
qed

text \<open>The sample environment files the sample invoice under any serial.\<close>

lemma sample_wire_any:
  assumes "\<forall>c \<in> set t \<union> set sno. c < 128"
  shows "\<exists>bytes. canonical_json (\<lambda>_. lit ''0'') (to_wire_dict (sample_clean\<lparr>header := (header sample_clean)\<lparr>
     taxid := t, inno := Some sno\<rparr>\<rparr>)) = Inr bytes"
  (is "\<exists>bytes. canonical_json ?ft (to_wire_dict ?i) = Inr bytes")
proof (rule canonical_wire_total)
  let ?d = "JObj (present (invoice_items ?i))"
  have d: "json_floats ?d = [Fin 2, Fin 150, Fin 9]" "\<forall>c \<in> json_chars ?d. c < 128"
    using assms by (simp_all add: sample_eval invoice_items_def header_items_def body_items_def lit_def ball_Un)
  show "\<forall>x \<in> set (json_floats ?d). finite_float x" unfolding d(1) by (simp add: finite_float_def)
  show "\<forall>c \<in> json_chars ?d. \<not> surrogate c" using d(2) by (fastforce simp: surrogate_def simp del: json_chars.simps)
  show "\<forall>x. \<forall>c \<in> set (?ft x). \<not> surrogate c" by (simp add: lit_def surrogate_def)
qed

lemma sample_identity_any:
  assumes "next_serial Written f = (Inr n, f')" "memory_id cfg = lit ''A11216''"
  shows "\<exists>t sno. with_identity (file_services sample_env) cfg sample_clean (f, e) =
      (Inr (sample_clean\<lparr>header := (header sample_clean)\<lparr>taxid := t, inno := Some sno\<rparr>\<rparr>), (f', e)) \<and>
      (\<forall>c \<in> set t \<union> set sno. c < 128)"
proof -
  obtain m where m: "issued_at 1665490063447 = Inr m" "day_range (\<lambda>_. 0) m = Inr 19276"
    using day_of_millis [of 1665490063447 "\<lambda>_. 0"] by auto
  have n: "0 \<le> n" "n \<le> max_serial"
    using assms(1) read_counter_nonneg [of f "n - 1"] by (auto simp: next_serial_Inr)
  have "memory_id_ok (lit ''A11216'')" by code_simp
  with n m(2) obtain t where t: "generate_tax_id (\<lambda>_. 0) (lit ''A11216'') n m = Inr t"
    by (simp add: tax_id_outcome max_day_range_def)
  have sh: "\<forall>c \<in> set t. ascii_digit c \<or> ascii_upper_letter c" "invoice_serial_hex n = Inr (slice serial_start serial_end t)"
    using tax_id_shape [OF t] by auto
  have "\<forall>c \<in> set t \<union> set (slice serial_start serial_end t). c < 128"
    using sh(1) by (force simp: ascii_defs slice_def dest: in_set_dropD in_set_takeD)
  moreover have h: "taxid (header sample_clean) = []" "indatim (header sample_clean) = 1665490063447"
    by (simp_all add: sample_eval)
  have "draw_serial (file_services sample_env) (f, e) = (Inr n, (f', e))" "tehran_offset (file_services sample_env) = (\<lambda>_. 0)"
    by (simp_all add: file_services_def assms(1)) (simp add: sample_env_def)
  then have "with_identity (file_services sample_env) cfg sample_clean (f, e) =
      (Inr (sample_clean\<lparr>header := (header sample_clean)\<lparr>taxid := t, inno := Some (slice serial_start serial_end t)\<rparr>\<rparr>), (f', e))"
    by (simp add: with_identity_def bindM_def h m(1) assms(2) t sh(2))
  ultimately show ?thesis by blast
qed

lemma sample_send_any:
  assumes "next_serial Written f = (Inr n, f')"
  shows "\<exists>sub w. submit_send sample_api sample_profile sample_clean (f, e) = (Inr sub, (f', w))"
proof -
  let ?cfg = "config_for sample_api sample_profile"
  have m: "memory_id ?cfg = lit ''A11216''" by (simp add: config_for_def sample_profile_def)
  have v: "validated ?cfg sample_clean = Inr ()"
    using sample_accepted by (auto simp: validated_def config_for_def sample_api_def raise_if_invalid_def)
  obtain t sno where i: "with_identity (file_services sample_env) ?cfg sample_clean (f, e) =
      (Inr (sample_clean\<lparr>header := (header sample_clean)\<lparr>taxid := t, inno := Some sno\<rparr>\<rparr>), (f', e))"
    and a: "\<forall>c \<in> set t \<union> set sno. c < 128"
    using sample_identity_any [OF assms m] by blast
  obtain bytes where b: "canonical_json (\<lambda>_. lit ''0'') (to_wire_dict (sample_clean\<lparr>header := (header sample_clean)\<lparr>
     taxid := t, inno := Some sno\<rparr>\<rparr>)) = Inr bytes" using sample_wire_any [OF a] by blast
  have c: "chunks MAX_PACKETS [sample_clean] = [[sample_clean]]"
    by (rule chunks_small) (simp_all add: MAX_PACKETS_def)
  let ?key = "\<lparr>sk_id = lit ''kid'', sk_key = lit ''key'', sk_algorithm = lit ''RSA'', sk_purpose = 1\<rparr>"
  have k: "get_server_key (file_services sample_env) ((f, e), None) = (Inr ?key, ((f, e), Some ?key))"
    by (simp add: get_server_key_def file_services_def sample_env_def in_env_def bindM_def choose_key_def)
  have f: "float_text (file_services sample_env) = (\<lambda>_. lit ''0'')"
    "load_key (file_services sample_env) = (\<lambda>_. Inr ())"
    "new_uid (file_services sample_env) (g, e) = (Inr [nat \<lfloor>e\<rfloor>], (g, e + 1))"
    "seal (file_services sample_env) key bs (g, e) = (Inr bs, (g, e))"
    "submit_invoices (file_services sample_env) ps (g, e) = (Inr \<lparr>br_timestamp = 0, br_result = []\<rparr>, (g, e))"
    for key bs ps g e
    by (simp_all add: file_services_def sample_env_def in_env_def)
  have "\<exists>sub. submit (file_services sample_env) ?cfg [sample_clean] ((f, e), None) = (Inr [sub], ((f', e + 1), Some ?key))"
    by (simp add: submit_def c k f on_world_def submit_batch_def build_packets_def build_one_def
        build_packet_def v i b bindM_def submission_of_def by_uid_def)
  then show ?thesis by (auto simp: submit_send_def bindM_def sample_api_def)
qed

theorem concurrent_submit_files_twice_witness:
  "\<exists>a b w1 w2. submit_send sample_api sample_profile sample_clean (Absent, 0) = (Inr a, w1) \<and>
     submit_send sample_api sample_profile sample_clean w1 = (Inr b, w2) \<and> s_tax_id a \<noteq> s_tax_id b"
proof -
  have n: "next_serial Written (Content (counter_text 1)) = (Inr 2, Content (counter_text 2))"
    by (simp add: next_serial_Inr serial_reads_back max_serial_def)
  obtain a x where a: "submit_send sample_api sample_profile sample_clean (Absent, 0) = (Inr a, (Content (counter_text 1), x))"
    using sample_send_any [OF first_serial] by blast
  obtain b y where b: "submit_send sample_api sample_profile sample_clean (Content (counter_text 1), x) = (Inr b, y)"
    using sample_send_any [OF n] by blast
  obtain rep where rep: "report_of sample_api sample_clean = Inr rep" "vr_ok rep" using sample_report by blast
  let ?r = "(new_record sample_profile DRAFT (JObj []))\<lparr>rec_id := Some 1\<rparr>"
  have r: "rec_profile ?r = prof_name sample_profile" "editable (rec_state ?r)" by (simp_all add: new_record_def)
  have e: "services_for sample_api sample_profile = file_services sample_env"
    "\<And>w. fst (snd (open_client sample_api sample_profile w)) = fst w" "taxid (header sample_clean) = []"
    by (simp_all add: sample_api_def sample_eval)
  show ?thesis
    using concurrent_submit_files_twice [OF e one_draft_table submit_draft_runs(1) [OF one_draft_row r rep a] a b] a b
    by blast
qed

end
