(* ===== verification/Verdicts.thy ===== *)
theory Verdicts
  imports Filing
begin

text \<open>
  What inquiries do: verdicts drain the pending records, a confirmed cancellation marks the invoice
  it voids, and two ways in which a cancellation gets lost again. Also the draft that seeds a
  referring invoice.
\<close>

section \<open>Cancellations\<close>

lemma store_save_existing:
  assumes "rec_id r = Some i" "table_ok (invoices s)" "get_invoice i s = Some r0"
  shows "\<exists>s'. store_save api r (s, w) = (Inr (r\<lparr>rec_updated_at := Some (utc_now api w)\<rparr>), (s', w)) \<and>
    table_ok (invoices s') \<and> get_invoice i s' = Some (update_columns (utc_now api w) r r0) \<and>
    (\<forall>j. j \<noteq> i \<longrightarrow> get_invoice j s' = get_invoice j s)"
proof -
  let ?u = "update_columns (utc_now api w) r"
  let ?s = "s\<lparr>invoices := update_row i ?u (invoices s)\<rparr>"
  have "store_save api r (s, w) = (Inr (r\<lparr>rec_updated_at := Some (utc_now api w)\<rparr>), (?s, w))"
    by (simp add: store_save_def bindM_def clock_def in_store_def save_existing [OF assms(1)])
  moreover obtain row where row: "get_row (invoices s) i = Some row" "r0 = row\<lparr>rec_id := Some i\<rparr>"
    using assms(3) by (auto simp: get_invoice_def)
  have "get_invoice i ?s = Some (?u r0)"
    by (simp add: get_updated [OF assms(2)] row(1)) (simp add: row(2) update_columns_def)
  moreover have "get_invoice j ?s = get_invoice j s" if "j \<noteq> i" for j
    using that by (simp add: get_updated [OF assms(2)])
  moreover have "table_ok (invoices ?s)" using table.update_law [OF assms(2), of i ?u] by simp
  ultimately show ?thesis by (intro exI [of _ ?s]) simp
qed

text \<open>
  When a record voids another invoice of the profile, that invoice's latest record is marked
  \<open>CANCELLED\<close> with a note of who voided it, keeps everything that was filed, and nothing else changes.
\<close>

theorem cancellation_marks_target:
  assumes "table_ok (invoices s)" and "voided_tax_id (rec_payload r) = Some t"
    and "find_by_tax_id (prof_name p) t s = Some target" and "rec_id target \<noteq> rec_id r" and "rec_state target \<noteq> CANCELLED"
  shows "\<exists>s' i r'. apply_cancellation api p r (s, w) = (Inr (Some t), (s', w)) \<and> rec_id target = Some i \<and>
    get_invoice i s' = Some r' \<and> rec_state r' = CANCELLED \<and> same_filing target r' \<and>
    map_option cb_id (d_cancelled_by (detail_of r')) = Some (rec_id r) \<and>
    (\<forall>j. j \<noteq> i \<longrightarrow> get_invoice j s' = get_invoice j s)"
proof -
  let ?new = "target\<lparr>rec_state := CANCELLED, rec_detail := Some ((detail_of target)\<lparr>d_cancelled_by :=
      Some \<lparr>cb_id = rec_id r, cb_tax_id = rec_tax_id r, cb_at = utc_now api w\<rparr>\<rparr>)\<rparr>"
  from find_by_tax_id_get [OF assms(1,3)] obtain i where i: "rec_id target = Some i" "get_invoice i s = Some target"
    by blast
  from i(1) have "rec_id ?new = Some i" by simp
  from store_save_existing [OF this assms(1) i(2), of api w] obtain s' where
    s': "store_save api ?new (s, w) = (Inr (?new\<lparr>rec_updated_at := Some (utc_now api w)\<rparr>), (s', w))"
      "get_invoice i s' = Some (update_columns (utc_now api w) ?new target)"
      "\<forall>j. j \<noteq> i \<longrightarrow> get_invoice j s' = get_invoice j s" by blast
  have "apply_cancellation api p r (s, w) = (Inr (Some t), (s', w))"
    by (simp add: apply_cancellation_def assms(2-5) bindM_def s'(1))
  with s' i(1) show ?thesis
    by (intro exI [of _ s'] exI [of _ i] exI [of _ "update_columns (utc_now api w) ?new target"])
       (simp add: update_columns_def same_filing_def detail_of_def)
qed

section \<open>Verdicts drain the pending records\<close>

definition awaiting :: "profile \<Rightarrow> record_store \<Rightarrow> int set" where
  "awaiting p s =
     {i. \<exists>r. get_invoice i s = Some r \<and> rec_profile r = prof_name p \<and> rec_state r = SENT \<and> has_reference r}"

lemma awaiting_listed:
  assumes "table_ok (invoices s)"
  shows "{i. \<exists>r \<in> set (list_awaiting_inquiry (prof_name p) (- 1) s). rec_id r = Some i} = awaiting p s"
proof -
  have "(i, r) \<in> set (t_rows (invoices s)) \<longleftrightarrow> get_row (invoices s) i = Some r" for i r
    using table_ok_distinct [OF assms] by (simp add: get_row_def)
  then show ?thesis
    by (auto simp: awaiting_def list_awaiting_inquiry_def limited_def invoice_of_row_def get_invoice_def has_reference_def)
qed

lemma awaiting_overwrite:
  assumes "get_invoice i s' = Some r'" "rec_state r' \<noteq> SENT" "\<forall>j. j \<noteq> i \<longrightarrow> get_invoice j s' = get_invoice j s"
  shows "awaiting p s' \<subseteq> awaiting p s - {i}"
proof
  fix j
  assume "j \<in> awaiting p s'"
  then obtain r where r: "get_invoice j s' = Some r" "rec_profile r = prof_name p" "rec_state r = SENT" "has_reference r"
    by (auto simp: awaiting_def)
  with assms have "j \<noteq> i" by auto
  with r assms(3) show "j \<in> awaiting p s - {i}" by (auto simp: awaiting_def)
qed

lemma cancellation_awaiting:
  assumes "table_ok (invoices s)" "apply_cancellation api p r (s, w) = (res, (s', w'))"
  shows "awaiting p s' \<subseteq> awaiting p s \<and> table_ok (invoices s') \<and> (\<forall>j. get_invoice j s \<noteq> None \<longrightarrow> get_invoice j s' \<noteq> None)"
proof (cases "s' = s")
  case True
  then show ?thesis using assms(1) by simp
next
  case False
  with assms(2) obtain t target where c: "voided_tax_id (rec_payload r) = Some t"
    "find_by_tax_id (prof_name p) t s = Some target" "rec_id target \<noteq> rec_id r" "rec_state target \<noteq> CANCELLED"
    by (auto simp: apply_cancellation_def split: option.splits if_splits)
  let ?new = "target\<lparr>rec_state := CANCELLED, rec_detail := Some ((detail_of target)\<lparr>d_cancelled_by :=
      Some \<lparr>cb_id = rec_id r, cb_tax_id = rec_tax_id r, cb_at = utc_now api w\<rparr>\<rparr>)\<rparr>"
  from find_by_tax_id_get [OF assms(1) c(2)] obtain i where i: "rec_id ?new = Some i" "get_invoice i s = Some target"
    by auto
  from store_save_existing [OF i(1) assms(1) i(2), of api w] obtain s1 where
    s1: "store_save api ?new (s, w) = (Inr (?new\<lparr>rec_updated_at := Some (utc_now api w)\<rparr>), (s1, w))"
      "table_ok (invoices s1)" "get_invoice i s1 = Some (update_columns (utc_now api w) ?new target)"
      "\<forall>j. j \<noteq> i \<longrightarrow> get_invoice j s1 = get_invoice j s" by blast
  have "s' = s1" using assms(2) by (simp add: apply_cancellation_def c bindM_def s1(1))
  moreover have "awaiting p s1 \<subseteq> awaiting p s - {i}"
    by (rule awaiting_overwrite [OF s1(3) _ s1(4)]) (simp add: update_columns_def)
  moreover have "get_invoice j s1 \<noteq> None" if "get_invoice j s \<noteq> None" for j
    using that s1(3,4) by (cases "j = i") auto
  ultimately show ?thesis using s1(2) by blast
qed

text \<open>A record that gets a verdict is no longer awaiting one, and none starts to.\<close>

lemma settle_awaiting:
  assumes ok: "table_ok (invoices s)" and id: "rec_id r = Some i" "get_invoice i s \<noteq> None"
    and res: "settle_one api p results r (s, w) = (Inr (Some x), (s', w'))"
    and v: "verdict_of (ib_status (rc_inquiry x)) \<noteq> None"
  shows "awaiting p s' \<subseteq> awaiting p s - {i} \<and> table_ok (invoices s') \<and>
    (\<forall>j. get_invoice j s \<noteq> None \<longrightarrow> get_invoice j s' \<noteq> None)"
proof -
  from id(2) obtain r0 where r0: "get_invoice i s = Some r0" by blast
  from res obtain result block where result: "by_reference results (reference_text r) = Some result"
    and block: "inquiry_block (utc_now api w) result = Inr block"
    by (auto simp: settle_one_def py_splits clock_def split: option.splits)
  let ?f = "settled_record r block"
  have "rec_id ?f = Some i" using id(1) by (simp add: settled_record_def)
  from store_save_existing [OF this ok r0, of api w] obtain s1 where
    s1: "store_save api ?f (s, w) = (Inr (?f\<lparr>rec_updated_at := Some (utc_now api w)\<rparr>), (s1, w))"
      "table_ok (invoices s1)" "get_invoice i s1 = Some (update_columns (utc_now api w) ?f r0)"
      "\<forall>j. j \<noteq> i \<longrightarrow> get_invoice j s1 = get_invoice j s" by blast
  let ?r = "?f\<lparr>rec_updated_at := Some (utc_now api w)\<rparr>"
  obtain c s2 w2 where c: "(if rec_state ?r = CONFIRMED then apply_cancellation api p ?r else returnM None) (s1, w) = (Inr c, (s2, w2))"
    and x: "x = \<lparr>rc_id = rec_id ?r, rc_tax_id = rec_tax_id ?r, rc_reference_number = rec_reference_number ?r,
              rc_previous = rec_state r, rc_state = rec_state ?r, rc_inquiry = block, rc_cancelled = c\<rparr>" and s': "s' = s2"
    using res by (auto simp: settle_one_def result clock_def py_splits block s1(1))
  have "rec_state ?f \<noteq> SENT" using v by (auto simp: x settled_record_def verdict_of_def split: if_splits)
  then have a1: "awaiting p s1 \<subseteq> awaiting p s - {i}"
    by (intro awaiting_overwrite [OF s1(3) _ s1(4)]) (simp add: update_columns_def)
  have g1: "get_invoice j s1 \<noteq> None" if "get_invoice j s \<noteq> None" for j
    using that s1(3,4) by (cases "j = i") auto
  have "awaiting p s2 \<subseteq> awaiting p s1 \<and> table_ok (invoices s2) \<and> (\<forall>j. get_invoice j s1 \<noteq> None \<longrightarrow> get_invoice j s2 \<noteq> None)"
  proof (cases "rec_state ?r = CONFIRMED")
    case True
    with c cancellation_awaiting [OF s1(2)] show ?thesis by simp
  next
    case False
    with c s1(2) show ?thesis by simp
  qed
  with a1 g1 show ?thesis unfolding s' by blast
qed

lemma settle_all_awaiting:
  assumes "table_ok (invoices s)" "\<forall>r \<in> set rs. \<exists>i. rec_id r = Some i \<and> get_invoice i s \<noteq> None"
    and "mapM (settle_one api p results) rs (s, w) = (Inr xs, (s', w'))"
    and "\<forall>x \<in> set xs. \<exists>y. x = Some y \<and> verdict_of (ib_status (rc_inquiry y)) \<noteq> None"
  shows "awaiting p s' \<subseteq> awaiting p s - {i. \<exists>r \<in> set rs. rec_id r = Some i} \<and> table_ok (invoices s')"
  using assms
proof (induction rs arbitrary: s w xs)
  case (Cons r rs)
  from Cons.prems(3) obtain x s1 w1 ys where h: "settle_one api p results r (s, w) = (Inr x, (s1, w1))"
    and t: "mapM (settle_one api p results) rs (s1, w1) = (Inr ys, (s', w'))" and xs: "xs = x # ys"
    by (auto simp: py_splits)
  from Cons.prems(4) xs obtain y where y: "x = Some y" "verdict_of (ib_status (rc_inquiry y)) \<noteq> None" by auto
  from Cons.prems(2) obtain i where i: "rec_id r = Some i" "get_invoice i s \<noteq> None" by auto
  from settle_awaiting [OF Cons.prems(1) i h [unfolded y(1)] y(2)]
  have a: "awaiting p s1 \<subseteq> awaiting p s - {i}" "table_ok (invoices s1)"
    "\<forall>j. get_invoice j s \<noteq> None \<longrightarrow> get_invoice j s1 \<noteq> None" by auto
  have "\<forall>r \<in> set rs. \<exists>i. rec_id r = Some i \<and> get_invoice i s1 \<noteq> None"
    using Cons.prems(2) a(3) by (metis list.set_intros(2))
  from Cons.IH [OF a(2) this t] Cons.prems(4) xs
  have "awaiting p s' \<subseteq> awaiting p s1 - {i. \<exists>r \<in> set rs. rec_id r = Some i} \<and> table_ok (invoices s')" by simp
  with a(1) i(1) show ?case by auto
qed simp

lemma map_filter_full: "length (List.map_filter id xs) = length xs \<Longrightarrow> \<forall>x \<in> set xs. x \<noteq> None"
proof (induction xs)
  case (Cons a xs)
  have "length (List.map_filter id xs) \<le> length xs" by (simp add: map_filter_def)
  with Cons show ?case by (cases a) (auto simp: map_filter_simps id_def)
qed simp

text \<open>When as many records are answered as were asked, every answer is there.\<close>

lemma outcome_complete:
  assumes "length (oc_records (outcome_of n xs)) = n" "length xs = n"
  shows "\<forall>x \<in> set xs. \<exists>y \<in> set (oc_records (outcome_of n xs)). x = Some y"
proof
  fix x
  assume x: "x \<in> set xs"
  have "length (List.map_filter id xs) = length xs"
    using assms by (simp add: outcome_of_def Let_def)
  with map_filter_full x obtain y where y: "x = Some y" by blast
  with x have "y \<in> set (List.map_filter id xs)" by (force simp: map_filter_def)
  with y show "\<exists>y \<in> set (oc_records (outcome_of n xs)). x = Some y" by (simp add: outcome_of_def Let_def)
qed

lemma listed_known:
  fixes p :: profile
  assumes "table_ok (invoices s)" "r \<in> set (list_awaiting_inquiry (prof_name p) (- 1) s)"
  shows "\<exists>i. rec_id r = Some i \<and> get_invoice i s \<noteq> None"
proof -
  obtain i where i: "rec_id r = Some i"
    using assms(2) by (auto simp: list_awaiting_inquiry_def limited_def invoice_of_row_def)
  with assms(2) awaiting_listed [OF assms(1), of p] have "i \<in> awaiting p s" by blast
  with i show ?thesis by (auto simp: awaiting_def)
qed

lemma none_listed:
  fixes p :: profile
  assumes "table_ok (invoices s)" "awaiting p s = {}"
  shows "list_awaiting_inquiry (prof_name p) (- 1) s = []"
proof (cases "list_awaiting_inquiry (prof_name p) (- 1) s")
  case (Cons r rs)
  then have r: "r \<in> set (list_awaiting_inquiry (prof_name p) (- 1) s)" by simp
  then obtain i where "rec_id r = Some i" using listed_known [OF assms(1) r] by blast
  with r awaiting_listed [OF assms(1), of p] assms(2) show ?thesis by blast
qed


section \<open>Two lost cancellations\<close>

text \<open>
  Two filed records of the sample profile: the first voids the second. The organization accepts the
  first and is still busy with the second.
\<close>

definition answer :: "(pystr \<Rightarrow> request_status) \<Rightarrow> pystr \<Rightarrow> inquiry_result" where
  "answer st ref =
     \<lparr>ir_referenceNumber = Some ref, ir_uid = None, ir_status = Some (request_status_name (st ref)), ir_data = None,
      ir_packetType = None, ir_fiscalId = None, ir_sign = None\<rparr>"

definition answering :: "(pystr \<Rightarrow> request_status) \<Rightarrow> unit services" where
  "answering st =
     \<lparr>draw_serial = raiseM ConfigurationError, new_uid = returnM [], get_server_information = raiseM ConfigurationError,
      load_key = (\<lambda>_. Inr ()), seal = (\<lambda>_ _. returnM []), submit_invoices = (\<lambda>_. raiseM ConfigurationError),
      inquiry_by_reference_id = (\<lambda>refs. returnM (map (answer st) refs)),
      sleep = (\<lambda>_ w. w), monotonic = (\<lambda>_. 0), tehran_offset = (\<lambda>_. 0), float_text = (\<lambda>_. [])\<rparr>"

definition answering_api :: "(pystr \<Rightarrow> request_status) \<Rightarrow> unit api" where
  "answering_api st = \<lparr>services_for = (\<lambda>_. answering st), open_client = (\<lambda>_. returnM ()),
     utc_now = (\<lambda>_. lit ''2024''), now_millis = (\<lambda>_. 0), api_rules = sample_rules\<rparr>"

definition filed_row :: "pystr \<Rightarrow> pystr \<Rightarrow> json \<Rightarrow> invoice_state \<Rightarrow> invoice_record" where
  "filed_row tax_id ref wire st = (new_record sample_profile st wire)
     \<lparr>rec_tax_id := Some tax_id, rec_uid := Some (lit ''u''), rec_reference_number := Some ref\<rparr>"

definition voiding :: "pystr \<Rightarrow> json" where
  "voiding t = JObj [(lit ''header'', JObj [(lit ''ins'', JInt 3), (lit ''irtaxid'', JStr t)])]"

definition two_pending :: record_store where
  "two_pending = empty_store\<lparr>invoices :=
     \<lparr>t_rows = [(1, filed_row (lit ''T1'') (lit ''r1'') (voiding (lit ''T2'')) SENT),
               (2, filed_row (lit ''T2'') (lit ''r2'') (JObj []) SENT)], t_seq = 2\<rparr>\<rparr>"

lemma inquire_answering: "refs \<noteq> [] \<Longrightarrow> length refs \<le> 100 \<Longrightarrow> inquire (answering st) refs w =
    (Inr (map (answer st) refs), w)"
  by (simp add: inquire_def chunks_small MAX_INQUIRY_IDS_def bindM_def answering_def)

lemmas desk_eval = inquire_pending_def inquire_one_def reconcile_def list_awaiting_inquiry_def limited_def invoice_of_row_def
  has_reference_def reference_text_def owned_record_def store_get_def get_invoice_def get_row_def
  in_world_def bindM_def inquire_answering answer_def answering_api_def settle_one_def
  by_reference_def clock_def inquiry_block_def store_save_def in_store_def save_invoice_def settled_record_def
  verdict_of_def request_status_name_def detail_of_def no_detail_def update_row_def update_columns_def
  apply_cancellation_def voided_tax_id_def find_by_tax_id_def or_none_def outcome_of_def map_filter_simps
  two_pending_def filed_row_def voiding_def new_record_def empty_store_def sample_profile_def

text \<open>
  A pending record that was read before the cancellation of its invoice is written back as it was
  read: the run reports the invoice as cancelled and leaves it \<open>SENT\<close>.
\<close>

theorem late_answer_drops_cancellation:
  "\<exists>oc s'. inquire_pending (answering_api (\<lambda>ref. if ref = lit ''r1'' then SUCCESS else IN_PROGRESS)) sample_profile (- 1)
      (two_pending, ()) = (Inr oc, (s', ())) \<and>
    map rc_cancelled (oc_records oc) = [Some (lit ''T2''), None] \<and>
    map_option rec_state (get_invoice 2 s') = Some SENT"
  by (simp add: desk_eval Let_def)

text \<open>
  Inquiring about a cancelled invoice once more confirms it again: the organization still answers
  \<open>SUCCESS\<close> for the filing itself.
\<close>

theorem inquire_one_uncancels:
  "\<exists>x s'. inquire_one (answering_api (\<lambda>_. SUCCESS)) sample_profile 1
      (empty_store\<lparr>invoices := \<lparr>t_rows = [(1, filed_row (lit ''T2'') (lit ''r2'') (JObj []) CANCELLED)], t_seq = 1\<rparr>\<rparr>, ()) =
      (Inr x, (s', ())) \<and>
    rc_previous x = CANCELLED \<and> map_option rec_state (get_invoice 1 s') = Some CONFIRMED"
  by (simp add: desk_eval Let_def)

theorem cancellation_marks_target_witness:
  "\<exists>s' i r'. apply_cancellation (answering_api (\<lambda>_. SUCCESS)) sample_profile
      (filed_row (lit ''T1'') (lit ''r1'') (voiding (lit ''T2'')) CONFIRMED) (two_pending, ()) = (Inr (Some (lit ''T2'')), (s', ())) \<and>
    get_invoice i s' = Some r' \<and> rec_state r' = CANCELLED"
proof -
  let ?r = "filed_row (lit ''T1'') (lit ''r1'') (voiding (lit ''T2'')) CONFIRMED"
  have t: "table_ok (invoices two_pending)" by (simp add: two_pending_def table_ok_def)
  have v: "voided_tax_id (rec_payload ?r) = Some (lit ''T2'')"
    by (simp add: filed_row_def voiding_def new_record_def voided_tax_id_def or_none_def)
  have f: "find_by_tax_id (prof_name sample_profile) (lit ''T2'') two_pending =
      Some ((filed_row (lit ''T2'') (lit ''r2'') (JObj []) SENT)\<lparr>rec_id := Some 2\<rparr>)"
    by (simp add: desk_eval)
  have "rec_id ?r = None" by (simp add: filed_row_def new_record_def)
  with cancellation_marks_target [OF t v f, of "answering_api (\<lambda>_. SUCCESS)" "()"] show ?thesis
    by (auto simp: filed_row_def new_record_def)
qed


section \<open>Referring invoices\<close>

lemma map_of_nonnull:
  "distinct (map fst kvs) \<Longrightarrow> map_of (filter (\<lambda>(k, v). v \<noteq> JNull) kvs) k =
     (case map_of kvs k of None \<Rightarrow> None | Some v \<Rightarrow> if v = JNull then None else Some v)"
proof (induction kvs)
  case (Cons kv kvs)
  obtain k' v where "kv = (k', v)" by (cases kv)
  with Cons show ?case by (auto simp: map_of_eq_None_iff split: option.splits)
qed simp

lemma referring_header_fields:
  "jget (lit ''ins'') (JObj (referring_header h subject t millis)) = Some (JInt subject)"
  "jget (lit ''irtaxid'') (JObj (referring_header h subject t millis)) = Some (JStr t)"
  unfolding referring_header_def jget.simps by (subst map_of_nonnull, simp, simp)+

text \<open>
  The draft seeded against an invoice voids exactly that invoice when its subject is a
  cancellation, and none for a correction or a return; only a cancellation starts with no lines.
\<close>

theorem referring_draft_voids:
  "voided_tax_id (referring_draft source subject t millis) = (if subject = 3 then or_none t else None) \<and>
   jget (lit ''body'') (referring_draft source subject t millis) =
     Some (if subject = 3 then JList []
           else case jget (lit ''body'') source of Some (JList items) \<Rightarrow> JList items | _ \<Rightarrow> JList [])"
proof -
  have h: "jget (lit ''header'') (referring_draft source subject t millis) =
      Some (JObj (referring_header (opt_json (jget (lit ''header'') source)) subject t millis))"
    by (simp add: referring_draft_def)
  then have "voided_tax_id (referring_draft source subject t millis) = (if subject = 3 then or_none t else None)"
    by (simp only: voided_tax_id_def h option.case referring_header_fields json.case) simp
  then show ?thesis by (simp add: referring_draft_def)
qed

end
