(* ===== verification/ErrorCodes.thy ===== *)
theory ErrorCodes
  imports Prelude
begin

text \<open>
  The catalogue of \<open>errors.py\<close>: the organization's error codes with their messages,
  transcribed as code points in the order of the source, and \<open>describe\<close>.
\<close>

definition ERROR_CODES :: "(pystr \<times> pystr) list" where
  "ERROR_CODES = [
    (lit ''4100'', [1605, 1578, 1583, 32, 1583, 1585, 1582, 1608, 1575, 1587, 1578, 32, 1575, 1585, 1587, 1575, 1604, 1740, 32, 1662, 1588, 1578, 1740, 1576, 1575, 1606, 1740, 32, 1606, 1605, 1740, 8204, 1588, 1608, 1583, 46]),
    (lit ''4101'', [1587, 1575, 1582, 1578, 1575, 1585, 32, 112, 97, 121, 108, 111, 97, 100, 32, 1583, 1585, 32, 1578, 1608, 1705, 1606, 32, 74, 87, 84, 32, 1601, 1585, 1587, 1578, 1575, 1583, 1607, 32, 1588, 1583, 1607, 32, 1605, 1591, 1575, 1576, 1602, 32, 1576, 1575, 32, 1587, 1575, 1582, 1578, 1575, 1585, 32, 123, 34, 110, 111, 110, 99, 101, 34, 58, 34, 115, 116, 114, 105, 110, 103, 34, 44, 34, 99, 108, 105, 101, 110, 116, 73, 100, 34, 58, 34, 115, 116, 114, 105, 110, 103, 34, 125, 32, 1606, 1605, 1740, 8204, 1576, 1575, 1588, 1583, 46]),
    (lit ''4102'', [1670, 1575, 1604, 1588, 32, 1578, 1589, 1575, 1583, 1601, 1740, 32, 1575, 1605, 1590, 1575, 32, 1588, 1583, 1607, 32, 1583, 1585, 32, 1578, 1608, 1705, 1606, 32, 74, 87, 84, 32, 1605, 1593, 1578, 1576, 1585, 32, 1606, 1605, 1740, 8204, 1576, 1575, 1588, 1583, 32, 40, 1602, 1576, 1604, 1575, 32, 1575, 1587, 1578, 1601, 1575, 1583, 1607, 32, 1588, 1583, 1607, 32, 1740, 1575, 32, 1586, 1605, 1575, 1606, 32, 1575, 1587, 1578, 1601, 1575, 1583, 1607, 32, 1570, 1606, 32, 1711, 1584, 1588, 1578, 1607, 32, 1575, 1587, 1578, 41, 46]),
    (lit ''4103'', [1705, 1583, 32, 1605, 1604, 1740, 32, 1711, 1608, 1575, 1607, 1740, 32, 1575, 1605, 1590, 1575, 1740, 1740, 32, 1705, 1607, 32, 1578, 1608, 1705, 1606, 32, 74, 87, 84, 32, 1576, 1575, 32, 1570, 1606, 32, 1575, 1605, 1590, 1575, 32, 1588, 1583, 1607, 32, 1576, 1575, 32, 1705, 1583, 32, 1605, 1604, 1740, 32, 1605, 1585, 1576, 1608, 1591, 32, 1576, 1607, 32, 1588, 1606, 1575, 1587, 1607, 32, 1705, 1604, 1575, 1740, 1606, 1578, 32, 1602, 1585, 1575, 1585, 32, 1583, 1575, 1583, 1607, 32, 1588, 1583, 1607, 32, 1583, 1585, 32, 1578, 1608, 1705, 1606, 32, 1605, 1591, 1575, 1576, 1602, 1578, 32, 1606, 1583, 1575, 1585, 1583, 46]),
    (lit ''4110'', [1588, 1606, 1575, 1587, 1607, 32, 1705, 1604, 1575, 1740, 1606, 1578, 32, 40, 1588, 1606, 1575, 1587, 1607, 32, 1581, 1575, 1601, 1592, 1607, 41, 32, 1608, 1575, 1585, 1583, 32, 1588, 1583, 1607, 32, 1583, 1585, 32, 1578, 1608, 1705, 1606, 32, 74, 87, 84, 32, 1740, 1575, 1601, 1578, 32, 1606, 1588, 1583, 46]),
    (lit ''4120'', [1588, 1606, 1575, 1587, 1607, 32, 1705, 1604, 1575, 1740, 1606, 1578, 32, 40, 1588, 1606, 1575, 1587, 1607, 32, 1588, 1585, 1705, 1578, 32, 1605, 1593, 1578, 1605, 1583, 41, 32, 1608, 1575, 1585, 1583, 32, 1588, 1583, 1607, 32, 1583, 1585, 32, 1578, 1608, 1705, 1606, 32, 74, 87, 84, 32, 1740, 1575, 1601, 1578, 32, 1606, 1588, 1583, 46]),
    (lit ''4130'', [1587, 1575, 1582, 1578, 1575, 1585, 32, 1578, 1608, 1705, 1606, 32, 74, 87, 84, 32, 1601, 1585, 1587, 1578, 1575, 1583, 1607, 32, 1588, 1583, 1607, 32, 1589, 1581, 1740, 1581, 32, 1606, 1740, 1587, 1578, 46]),
    (lit ''4131'', [1575, 1605, 1590, 1575, 1740, 32, 1578, 1608, 1705, 1606, 32, 74, 87, 84, 32, 1740, 1575, 32, 1711, 1608, 1575, 1607, 1740, 32, 1575, 1605, 1590, 1575, 1740, 32, 1601, 1585, 1587, 1578, 1575, 1583, 1607, 32, 1588, 1583, 1607, 32, 1605, 1593, 1578, 1576, 1585, 32, 1606, 1605, 1740, 8204, 1576, 1575, 1588, 1583, 46]),
    (lit ''4132'', [1705, 1604, 1740, 1583, 32, 1593, 1605, 1608, 1605, 1740, 32, 1605, 1593, 1578, 1576, 1585, 32, 1740, 1575, 1601, 1578, 32, 1606, 1588, 1583, 46]),
    (lit ''4133'', [1575, 1605, 1590, 1575, 32, 1606, 1575, 1605, 1593, 1578, 1576, 1585, 32, 1575, 1587, 1578, 46]),
    (lit ''4134'', [69, 110, 99, 111, 100, 105, 110, 103, 32, 1576, 1585, 1575, 1576, 1585, 32, 1576, 1575, 32, 85, 84, 70, 45, 56, 32, 1606, 1740, 1587, 1578, 46]),
    (lit ''4135'', [1711, 1608, 1575, 1607, 1740, 32, 1575, 1605, 1590, 1575, 1740, 1740, 32, 1583, 1585, 32, 1601, 1740, 1604, 1583, 32, 120, 53, 99, 32, 1740, 1575, 1601, 1578, 32, 1606, 1588, 1583, 46]),
    (lit ''4136'', [1601, 1585, 1605, 1578, 32, 1711, 1608, 1575, 1607, 1740, 32, 1575, 1605, 1590, 1575, 1740, 32, 1575, 1585, 1587, 1575, 1604, 1740, 32, 1583, 1585, 32, 1601, 1740, 1604, 1583, 32, 120, 53, 99, 32, 1605, 1593, 1578, 1576, 1585, 32, 1606, 1605, 1740, 8204, 1576, 1575, 1588, 1583, 46]),
    (lit ''4137'', [1705, 1604, 1740, 1583, 32, 1593, 1605, 1608, 1605, 1740, 32, 1605, 1585, 1576, 1608, 1591, 32, 1576, 1607, 32, 1588, 1606, 1575, 1587, 1607, 32, 1740, 1705, 1578, 1575, 32, 1605, 1593, 1578, 1576, 1585, 32, 1606, 1605, 1740, 8204, 1576, 1575, 1588, 1583, 46, 32, 1604, 1591, 1601, 1575, 32, 1575, 1586, 32, 1591, 1585, 1740, 1602, 32, 1705, 1575, 1585, 1662, 1608, 1588, 1607, 32, 1605, 1580, 1583, 1583, 1575, 32, 1705, 1604, 1740, 1583, 32, 1593, 1605, 1608, 1605, 1740, 32, 1582, 1608, 1583, 32, 1585, 1575, 32, 1570, 1662, 1604, 1608, 1583, 32, 1606, 1605, 1575, 1740, 1740, 1583, 46]),
    (lit ''4146'', [1586, 1605, 1575, 1606, 32, 1575, 1593, 1578, 1576, 1575, 1585, 32, 1670, 1575, 1604, 1588, 32, 1578, 1589, 1575, 1583, 1601, 1740, 32, 1576, 1575, 1740, 1583, 32, 1576, 1740, 1606, 32, 49, 48, 32, 1578, 1575, 32, 50, 48, 48, 32, 1579, 1575, 1606, 1740, 1607, 32, 1576, 1575, 1588, 1583, 46]),
    (lit ''4148'', [1588, 1606, 1575, 1587, 1607, 32, 1740, 1705, 1578, 1575, 1740, 32, 1575, 1585, 1587, 1575, 1604, 1740, 32, 1606, 1575, 1605, 1593, 1578, 1576, 1585, 32, 1575, 1587, 1578, 46]),
    (lit ''5119'', [1605, 1588, 1705, 1604, 32, 1594, 1740, 1585, 1605, 1606, 1578, 1592, 1585, 1607, 32, 1583, 1585, 32, 1583, 1585, 1740, 1575, 1601, 1578, 32, 1575, 1591, 1604, 1575, 1593, 1575, 1578, 32, 1662, 1585, 1608, 1606, 1583, 1607, 32, 1605, 1575, 1604, 1740, 1575, 1578, 1740, 32, 1585, 1582, 32, 1583, 1575, 1583, 46]),
    (lit ''5129'', [1605, 1588, 1705, 1604, 32, 1594, 1740, 1585, 1605, 1606, 1578, 1592, 1585, 1607, 32, 1583, 1585, 32, 1583, 1585, 1740, 1575, 1601, 1578, 32, 1575, 1591, 1604, 1575, 1593, 1575, 1578, 32, 1588, 1585, 1705, 1578, 32, 1605, 1593, 1578, 1605, 1583, 32, 1585, 1582, 32, 1583, 1575, 1583, 46]),
    (lit ''5139'', [1582, 1591, 1575, 1740, 32, 1594, 1740, 1585, 1605, 1606, 1578, 1592, 1585, 1607, 8204, 1575, 1740, 32, 1583, 1585, 32, 1576, 1585, 1585, 1587, 1740, 32, 1589, 1581, 1578, 32, 1575, 1605, 1590, 1575, 1740, 32, 1578, 1608, 1705, 1606, 32, 74, 87, 84, 32, 1585, 1582, 32, 1583, 1575, 1583, 46]),
    (lit ''4143'', [1583, 1585, 32, 1740, 1705, 32, 1583, 1585, 1582, 1608, 1575, 1587, 1578, 32, 1606, 1605, 1740, 8204, 1578, 1608, 1575, 1606, 1740, 1583, 32, 1576, 1740, 1588, 1578, 1585, 32, 1575, 1586, 32, 49, 48, 48, 48, 32, 1589, 1608, 1585, 1578, 1581, 1587, 1575, 1576, 32, 1575, 1585, 1587, 1575, 1604, 32, 1606, 1605, 1575, 1740, 1740, 1583, 46]),
    (lit ''4144'', [1576, 1583, 1606, 1607, 8204, 1740, 32, 1583, 1585, 1582, 1608, 1575, 1587, 1578, 32, 1575, 1585, 1587, 1575, 1604, 1740, 32, 1582, 1575, 1604, 1740, 32, 1575, 1587, 1578, 32, 1740, 1575, 32, 1575, 1586, 32, 1606, 1592, 1585, 32, 1587, 1575, 1582, 1578, 1575, 1585, 32, 74, 83, 79, 78, 32, 1605, 1593, 1578, 1576, 1585, 32, 1606, 1740, 1587, 1578, 46]),
    (lit ''4145'', [1583, 1585, 32, 1576, 1583, 1606, 1607, 8204, 1740, 32, 1583, 1585, 1582, 1608, 1575, 1587, 1578, 32, 1575, 1585, 1587, 1575, 1604, 1740, 1548, 32, 1576, 1593, 1590, 1740, 32, 1575, 1586, 32, 1601, 1740, 1604, 1583, 1607, 1575, 1740, 32, 1590, 1585, 1608, 1585, 1740, 32, 1582, 1575, 1604, 1740, 32, 1575, 1587, 1578, 32, 40, 1576, 1585, 1575, 1740, 32, 1607, 1585, 32, 1589, 1608, 1585, 1578, 1581, 1587, 1575, 1576, 32, 1576, 1575, 1740, 1583, 32, 112, 97, 121, 108, 111, 97, 100, 1548, 32, 114, 101, 113, 117, 101, 115, 116, 84, 114, 97, 99, 101, 73, 100, 32, 1608, 32, 102, 105, 115, 99, 97, 108, 73, 100, 32, 1605, 1608, 1580, 1608, 1583, 32, 1576, 1575, 1588, 1583, 41, 46]),
    (lit ''4162'', [1588, 1606, 1575, 1587, 1607, 32, 1583, 1585, 1582, 1608, 1575, 1587, 1578, 32, 40, 114, 101, 113, 117, 101, 115, 116, 84, 114, 97, 99, 101, 73, 100, 41, 32, 1583, 1575, 1582, 1604, 32, 1583, 1585, 1582, 1608, 1575, 1587, 1578, 32, 1605, 1593, 1578, 1576, 1585, 32, 1606, 1605, 1740, 8204, 1576, 1575, 1588, 1583, 46]),
    (lit ''4163'', [1583, 1585, 32, 1583, 1585, 1582, 1608, 1575, 1587, 1578, 32, 1575, 1585, 1587, 1575, 1604, 1740, 32, 1588, 1606, 1575, 1587, 1607, 32, 1583, 1585, 1582, 1608, 1575, 1587, 1578, 32, 1578, 1705, 1585, 1575, 1585, 1740, 32, 1608, 1580, 1608, 1583, 32, 1583, 1575, 1585, 1583, 46]),
    (lit ''4140'', [1586, 1605, 1575, 1606, 32, 1588, 1585, 1608, 1593, 32, 1576, 1575, 1586, 1607, 8204, 1740, 32, 1575, 1587, 1578, 1593, 1604, 1575, 1605, 32, 1576, 1575, 1740, 1583, 32, 1602, 1576, 1604, 32, 1575, 1586, 32, 1586, 1605, 1575, 1606, 32, 1662, 1575, 1740, 1575, 1606, 32, 1570, 1606, 32, 1576, 1575, 1588, 1583, 46]),
    (lit ''4141'', [1606, 1605, 1740, 8204, 1578, 1608, 1575, 1606, 1740, 1583, 32, 1583, 1585, 32, 1740, 1705, 32, 1583, 1585, 1582, 1608, 1575, 1587, 1578, 32, 1608, 1590, 1593, 1740, 1578, 32, 1576, 1740, 1588, 32, 1575, 1586, 32, 49, 48, 48, 32, 1589, 1608, 1585, 1578, 1581, 1587, 1575, 1576, 32, 1585, 1575, 32, 1575, 1587, 1578, 1593, 1604, 1575, 1605, 32, 1576, 1711, 1740, 1585, 1740, 1583, 46]),
    (lit ''4142'', [1605, 1602, 1583, 1575, 1585, 32, 115, 116, 97, 116, 117, 115, 32, 1608, 1575, 1585, 1583, 32, 1588, 1583, 1607, 32, 1606, 1575, 1605, 1593, 1578, 1576, 1585, 32, 1575, 1587, 1578, 46, 32, 1605, 1602, 1575, 1583, 1740, 1585, 32, 1605, 1580, 1575, 1586, 58, 32, 91, 83, 85, 67, 67, 69, 83, 83, 44, 32, 70, 65, 73, 76, 69, 68, 44, 32, 73, 78, 95, 80, 82, 79, 71, 82, 69, 83, 83, 44, 32, 84, 73, 77, 69, 79, 85, 84, 93]),
    (lit ''4164'', [1576, 1575, 1586, 1607, 32, 1586, 1605, 1575, 1606, 1740, 32, 1575, 1587, 1578, 1593, 1604, 1575, 1605, 32, 1581, 1583, 1575, 1705, 1579, 1585, 32, 1740, 1705, 32, 1607, 1601, 1578, 1607, 32, 1575, 1587, 1578, 46]),
    (lit ''4147'', [1601, 1585, 1605, 1578, 32, 1608, 1585, 1608, 1583, 1740, 8204, 1607, 1575, 1740, 32, 1583, 1585, 1582, 1608, 1575, 1587, 1578, 32, 1606, 1575, 1583, 1585, 1587, 1578, 32, 1605, 1740, 8204, 1576, 1575, 1588, 1583, 46]),
    (lit ''4160'', [1583, 1587, 1578, 1585, 1587, 1740, 32, 1605, 1588, 1575, 1607, 1583, 1607, 32, 1575, 1591, 1604, 1575, 1593, 1575, 1578, 32, 1588, 1606, 1575, 1587, 1607, 32, 1740, 1705, 1578, 1575, 1740, 32, 1583, 1585, 1582, 1608, 1575, 1587, 1578, 32, 1588, 1583, 1607, 32, 1605, 1605, 1705, 1606, 32, 1606, 1740, 1587, 1578, 46]),
    (lit ''4170'', [1588, 1605, 1575, 1585, 1607, 32, 1575, 1602, 1578, 1589, 1575, 1583, 1740, 32, 1608, 1575, 1585, 1583, 32, 1588, 1583, 1607, 32, 1740, 1575, 1601, 1578, 32, 1606, 1588, 1583, 46]),
    (lit ''4171'', [1588, 1605, 1575, 1585, 1607, 32, 1575, 1602, 1578, 1589, 1575, 1583, 1740, 32, 1608, 1575, 1585, 1583, 32, 1588, 1583, 1607, 32, 1575, 1586, 32, 1606, 1592, 1585, 32, 1591, 1608, 1604, 32, 1605, 1593, 1578, 1576, 1585, 32, 1606, 1740, 1587, 1578, 46]),
    (lit ''5199'', [1582, 1591, 1575, 1740, 32, 1594, 1740, 1585, 32, 1605, 1606, 1578, 1592, 1585, 1607, 8204, 1575, 1740, 32, 1583, 1585, 32, 1575, 1606, 1580, 1575, 1605, 32, 1583, 1585, 1582, 1608, 1575, 1587, 1578, 32, 1585, 1582, 32, 1583, 1575, 1583, 46]),
    (lit ''04111'', [1602, 1585, 1575, 1585, 1583, 1575, 1583, 32, 1588, 1606, 1575, 1587, 1607, 32, 1740, 1705, 1578, 1575, 32, 1608, 32, 1588, 1585, 1705, 1578, 32, 1605, 1593, 1578, 1605, 1583, 32, 1740, 1575, 1601, 1578, 32, 1606, 1588, 1583, 46]),
    (lit ''04130'', [1587, 1575, 1582, 1578, 1575, 1585, 32, 1576, 1587, 1578, 1607, 8204, 1740, 32, 1589, 1608, 1585, 1578, 1581, 1587, 1575, 1576, 32, 40, 101, 110, 99, 114, 121, 112, 116, 101, 100, 32, 112, 97, 121, 108, 111, 97, 100, 41, 32, 1575, 1605, 1590, 1575, 32, 1588, 1583, 1607, 32, 1589, 1581, 1740, 1581, 32, 1606, 1740, 1587, 1578, 46]),
    (lit ''04131'', [1575, 1605, 1590, 1575, 1740, 32, 1589, 1608, 1585, 1578, 1581, 1587, 1575, 1576, 32, 1575, 1585, 1587, 1575, 1604, 1740, 32, 1740, 1575, 32, 1711, 1608, 1575, 1607, 1740, 32, 1575, 1605, 1590, 1575, 1740, 1740, 32, 1705, 1607, 32, 1589, 1608, 1585, 1578, 1581, 1587, 1575, 1576, 32, 1576, 1575, 32, 1570, 1606, 32, 1575, 1605, 1590, 1575, 32, 1588, 1583, 1607, 32, 1605, 1593, 1578, 1576, 1585, 32, 1606, 1605, 1740, 8204, 1576, 1575, 1588, 1583, 46]),
    (lit ''04132'', [1711, 1608, 1575, 1607, 1740, 32, 1575, 1605, 1590, 1575, 1740, 1740, 32, 1705, 1607, 32, 1589, 1608, 1585, 1578, 1581, 1587, 1575, 1576, 32, 1576, 1575, 32, 1570, 1606, 32, 1575, 1605, 1590, 1575, 32, 1588, 1583, 1607, 1548, 32, 1583, 1587, 1578, 1585, 1587, 1740, 32, 1589, 1583, 1608, 1585, 32, 1608, 32, 1575, 1605, 1590, 1575, 1740, 32, 1589, 1608, 1585, 1578, 1581, 1587, 1575, 1576, 32, 1576, 1585, 1575, 1740, 32, 1575, 1740, 1606, 32, 1588, 1606, 1575, 1587, 1607, 32, 1740, 1705, 1578, 1575, 32, 1585, 1575, 32, 1606, 1583, 1575, 1585, 1583, 46]),
    (lit ''04133'', [1588, 1606, 1575, 1587, 1607, 32, 1581, 1575, 1601, 1592, 1607, 32, 1575, 1605, 1590, 1575, 1705, 1606, 1606, 1583, 1607, 8204, 1740, 32, 1589, 1608, 1585, 1578, 1581, 1587, 1575, 1576, 32, 1740, 1575, 1601, 1578, 32, 1606, 1588, 1583, 47, 1594, 1740, 1585, 32, 1601, 1593, 1575, 1604, 32, 1605, 1740, 8204, 1576, 1575, 1588, 1583, 46]),
    (lit ''04134'', [1588, 1606, 1575, 1587, 1607, 32, 1588, 1585, 1705, 1578, 32, 1605, 1593, 1578, 1605, 1583, 32, 1575, 1605, 1590, 1575, 1705, 1606, 1606, 1583, 1607, 8204, 1740, 32, 1589, 1608, 1585, 1578, 1581, 1587, 1575, 1576, 32, 1740, 1575, 1601, 1578, 32, 1606, 1588, 1583, 47, 1594, 1740, 1585, 1601, 1593, 1575, 1604, 32, 1605, 1740, 8204, 1576, 1575, 1588, 1583, 46]),
    (lit ''04148'', [1588, 1606, 1575, 1587, 1607, 32, 1740, 1705, 1578, 1575, 1740, 32, 1575, 1585, 1587, 1575, 1604, 1740, 32, 1606, 1575, 1605, 1593, 1578, 1576, 1585, 32, 1575, 1587, 1578, 46]),
    (lit ''04150'', [1576, 1587, 1578, 1607, 8204, 1740, 32, 74, 87, 69, 32, 1589, 1608, 1585, 1578, 1581, 1587, 1575, 1576, 32, 1575, 1585, 1587, 1575, 1604, 1740, 32, 1575, 1586, 32, 1606, 1592, 1585, 32, 1587, 1575, 1582, 1578, 1575, 1585, 1740, 32, 1605, 1593, 1578, 1576, 1585, 32, 1606, 1605, 1740, 8204, 1576, 1575, 1588, 1583, 32, 1608, 32, 1575, 1605, 1705, 1575, 1606, 32, 1585, 1605, 1586, 1711, 1588, 1575, 1740, 1740, 32, 1570, 1606, 32, 1608, 1580, 1608, 1583, 32, 1606, 1583, 1575, 1585, 1583, 46]),
    (lit ''04152'', [1575, 1604, 1711, 1608, 1585, 1740, 1578, 1605, 32, 1605, 1608, 1585, 1583, 32, 1575, 1587, 1578, 1601, 1575, 1583, 1607, 32, 1576, 1585, 1575, 1740, 32, 1585, 1605, 1586, 1606, 1711, 1575, 1585, 1740, 32, 1605, 1593, 1578, 1576, 1585, 32, 1606, 1605, 1740, 8204, 1576, 1575, 1588, 1583, 46]),
    (lit ''04153'', [1591, 1608, 1604, 32, 1601, 1740, 1604, 1583, 32, 73, 86, 32, 1576, 1575, 1740, 1583, 32, 57, 54, 32, 1576, 1740, 1578, 32, 1576, 1575, 1588, 1583, 46]),
    (lit ''05139'', [1582, 1591, 1575, 1740, 32, 1594, 1740, 1585, 1605, 1606, 1578, 1592, 1585, 1607, 8204, 1575, 1740, 32, 1583, 1585, 32, 1601, 1585, 1570, 1740, 1606, 1583, 32, 1576, 1585, 1585, 1587, 1740, 32, 1575, 1605, 1590, 1575, 1740, 32, 1589, 1608, 1585, 1578, 1581, 1587, 1575, 1576, 32, 1585, 1582, 32, 1583, 1575, 1583, 46]),
    (lit ''05151'', [1582, 1591, 1575, 1740, 1740, 32, 1594, 1740, 1585, 32, 1605, 1606, 1578, 1592, 1585, 1607, 32, 1583, 1585, 32, 1585, 1605, 1586, 1711, 1588, 1575, 1740, 1740, 32, 1589, 1608, 1585, 1578, 1581, 1587, 1575, 1576, 32, 1575, 1585, 1587, 1575, 1604, 1740, 32, 1585, 1582, 32, 1583, 1575, 1583, 46]),
    (lit ''05159'', [1582, 1591, 1575, 1740, 32, 1594, 1740, 1585, 1605, 1606, 1578, 1592, 1585, 1607, 8204, 1575, 1740, 32, 1583, 1585, 32, 1601, 1585, 1570, 1740, 1606, 1583, 32, 1576, 1585, 1585, 1587, 1740, 32, 1583, 1587, 1578, 1585, 1587, 1740, 32, 1575, 1605, 1590, 1575, 1705, 1606, 1606, 1583, 1607, 32, 1589, 1608, 1585, 1578, 1581, 1587, 1575, 1576, 32, 1585, 1582, 32, 1583, 1575, 1583, 46]),
    (lit ''4001'', [1587, 1575, 1582, 1578, 1575, 1585, 32, 74, 83, 79, 78, 32, 1583, 1585, 1582, 1608, 1575, 1587, 1578, 32, 1583, 1575, 1583, 1607, 32, 1588, 1583, 1607, 32, 1575, 1588, 1578, 1576, 1575, 1607, 32, 1575, 1587, 1578, 46]),
    (lit ''4002'', [1606, 1608, 1593, 32, 1576, 1587, 1578, 1607, 32, 1576, 1575, 32, 1605, 1581, 1578, 1608, 1575, 1740, 32, 1576, 1587, 1578, 1607, 32, 1740, 1705, 1587, 1575, 1606, 32, 1606, 1740, 1587, 1578, 46]),
    (lit ''4003'', [1576, 1587, 1578, 1607, 32, 1575, 1585, 1587, 1575, 1604, 1740, 32, 1662, 1588, 1578, 1740, 1576, 1575, 1606, 1740, 32, 1606, 1605, 1740, 8204, 1588, 1608, 1583, 46]),
    (lit ''4004'', [1576, 1585, 1575, 1740, 32, 1575, 1740, 1606, 32, 1606, 1608, 1593, 32, 1576, 1587, 1578, 1607, 1548, 32, 1575, 1585, 1587, 1575, 1604, 32, 1607, 1583, 1585, 32, 65, 117, 116, 104, 111, 114, 105, 122, 97, 116, 105, 111, 110, 32, 1575, 1604, 1586, 1575, 1605, 1740, 32, 1605, 1740, 8204, 1576, 1575, 1588, 1583, 46]),
    (lit ''4005'', [1575, 1585, 1587, 1575, 1604, 32, 1575, 1740, 1606, 32, 1606, 1608, 1593, 32, 1576, 1587, 1578, 1607, 32, 1576, 1607, 32, 1589, 1608, 1585, 1578, 32, 1607, 1605, 1711, 1575, 1605, 32, 1605, 1580, 1575, 1586, 32, 1606, 1605, 1740, 8204, 1576, 1575, 1588, 1583, 46]),
    (lit ''4006'', [1575, 1585, 1587, 1575, 1604, 32, 1575, 1740, 1606, 32, 1576, 1587, 1578, 1607, 32, 1576, 1607, 32, 1589, 1608, 1585, 1578, 32, 1594, 1740, 1585, 1607, 1605, 1711, 1575, 1605, 32, 1605, 1580, 1575, 1586, 32, 1606, 1605, 1740, 8204, 1576, 1575, 1588, 1583, 46]),
    (lit ''4007'', [1576, 1585, 1575, 1740, 32, 1575, 1740, 1606, 32, 1606, 1608, 1593, 32, 1576, 1587, 1578, 1607, 1548, 32, 1575, 1585, 1587, 1575, 1604, 32, 1575, 1605, 1590, 1575, 32, 1575, 1604, 1586, 1575, 1605, 1740, 32, 1605, 1740, 8204, 1576, 1575, 1588, 1583, 46]),
    (lit ''4008'', [1588, 1606, 1575, 1587, 1607, 32, 1705, 1604, 1740, 1583, 32, 1585, 1605, 1586, 1606, 1711, 1575, 1585, 1740, 32, 1575, 1588, 1578, 1576, 1575, 1607, 32, 1575, 1587, 1578, 46]),
    (lit ''4009'', [1588, 1606, 1575, 1587, 1607, 32, 1581, 1575, 1601, 1592, 1607, 32, 1583, 1585, 32, 1576, 1587, 1578, 1607, 32, 1575, 1604, 1586, 1575, 1605, 1740, 32, 1575, 1587, 1578, 46]),
    (lit ''4010'', [1587, 1575, 1582, 1578, 1575, 1585, 32, 74, 83, 79, 78, 32, 1576, 1587, 1578, 1607, 32, 1583, 1575, 1583, 1607, 32, 1588, 1583, 1607, 32, 1575, 1588, 1578, 1576, 1575, 1607, 32, 1575, 1587, 1578, 46]),
    (lit ''4011'', [1575, 1605, 1590, 1575, 1740, 32, 1576, 1587, 1578, 1607, 32, 1589, 1581, 1740, 1581, 32, 1606, 1605, 1740, 8204, 1576, 1575, 1588, 1583, 46, 32, 40, 1583, 1585, 32, 65, 80, 73, 1607, 1575, 1740, 32, 1580, 1605, 1593, 8204, 1570, 1608, 1585, 1740, 41]),
    (lit ''4012'', [1578, 1593, 1583, 1575, 1583, 32, 1576, 1587, 1578, 1607, 8204, 1607, 1575, 32, 1583, 1575, 1582, 1604, 32, 1583, 1585, 1582, 1608, 1575, 1587, 1578, 32, 1576, 1740, 1588, 32, 1575, 1586, 32, 1581, 1583, 32, 1605, 1580, 1575, 1586, 32, 1575, 1587, 1578, 46]),
    (lit ''4015'', [1587, 1575, 1582, 1578, 1575, 1585, 32, 1578, 1575, 1585, 1740, 1582, 32, 1575, 1585, 1587, 1575, 1604, 32, 1588, 1583, 1607, 32, 1589, 1581, 1740, 1581, 32, 1606, 1605, 1740, 8204, 1576, 1575, 1588, 1583, 46]),
    (lit ''4016'', [1587, 1575, 1582, 1578, 1575, 1585, 32, 1578, 1608, 1705, 1606, 32, 1583, 1587, 1578, 1585, 1587, 1740, 32, 1589, 1581, 1740, 1581, 32, 1606, 1605, 1740, 8204, 1576, 1575, 1588, 1583, 46]),
    (lit ''4017'', [1575, 1593, 1578, 1576, 1575, 1585, 32, 1578, 1608, 1705, 1606, 32, 1583, 1587, 1578, 1585, 1587, 1740, 32, 1576, 1607, 32, 1662, 1575, 1740, 1575, 1606, 32, 1585, 1587, 1740, 1583, 1607, 32, 1575, 1587, 1578, 46]),
    (lit ''4018'', [1575, 1593, 1578, 1576, 1575, 1585, 32, 1583, 1585, 1582, 1608, 1575, 1587, 1578, 32, 1583, 1575, 1583, 1607, 32, 1588, 1583, 1607, 32, 1605, 1606, 1602, 1590, 1740, 32, 1588, 1583, 1607, 32, 1575, 1587, 1578, 46]),
    (lit ''4019'', [1583, 1585, 1582, 1608, 1575, 1587, 1578, 32, 1578, 1705, 1585, 1575, 1585, 1740, 32, 1575, 1587, 1578, 46]),
    (lit ''4020'', [1578, 1608, 1705, 1606, 32, 1583, 1587, 1578, 1585, 1587, 1740, 32, 1605, 1593, 1578, 1576, 1585, 1740, 32, 1740, 1575, 1601, 1578, 32, 1606, 1588, 1583, 46]),
    (lit ''4021'', [1575, 1585, 1587, 1575, 1604, 32, 1601, 1740, 1604, 1583, 32, 112, 97, 99, 107, 101, 116, 32, 1575, 1604, 1586, 1575, 1605, 1740, 32, 1575, 1587, 1578, 46]),
    (lit ''4022'', [1575, 1605, 1590, 1575, 1740, 32, 1578, 1608, 1705, 1606, 32, 1583, 1587, 1578, 1585, 1587, 1740, 32, 1589, 1581, 1740, 1581, 32, 1606, 1605, 1740, 8204, 1576, 1575, 1588, 1583, 46]),
    (lit ''4024'', [1588, 1605, 1575, 32, 1605, 1580, 1575, 1586, 32, 1576, 1607, 32, 1575, 1587, 1578, 1601, 1575, 1583, 1607, 32, 1575, 1586, 32, 1575, 1740, 1606, 32, 1587, 1585, 1608, 1740, 1587, 32, 1606, 1740, 1587, 1578, 1740, 1583, 46]),
    (lit ''4200'', [1588, 1605, 1575, 32, 1605, 1580, 1575, 1586, 32, 1576, 1607, 32, 1575, 1585, 1587, 1575, 1604, 32, 1576, 1587, 1578, 1607, 32, 1576, 1585, 1575, 1740, 32, 1575, 1740, 1606, 32, 1588, 1606, 1575, 1587, 1607, 32, 1740, 1705, 1578, 1575, 1740, 32, 1581, 1575, 1601, 1592, 1607, 32, 1605, 1575, 1604, 1740, 1575, 1578, 1740, 32, 1606, 1740, 1587, 1578, 1740, 1583, 46]),
    (lit ''4202'', [1601, 1740, 1604, 1583, 32, 112, 97, 99, 107, 101, 116, 32, 1575, 1604, 1586, 1575, 1605, 1740, 32, 1575, 1587, 1578, 46]),
    (lit ''4204'', [1585, 1605, 1586, 1606, 1711, 1575, 1585, 1740, 32, 1576, 1587, 1578, 1607, 32, 1575, 1604, 1586, 1575, 1605, 1740, 32, 1575, 1587, 1578, 46]),
    (lit ''4205'', [1575, 1585, 1587, 1575, 1604, 32, 1705, 1604, 1740, 1583, 32, 1605, 1578, 1602, 1575, 1585, 1606, 32, 1575, 1604, 1586, 1575, 1605, 1740, 32, 1575, 1587, 1578, 46]),
    (lit ''4206'', [1583, 1575, 1583, 1607, 8204, 1607, 1575, 1740, 32, 1608, 1585, 1608, 1583, 1740, 32, 1576, 1585, 1575, 1740, 32, 1585, 1605, 1586, 1711, 1588, 1575, 1740, 1740, 32, 1605, 1593, 1578, 1576, 1585, 32, 1606, 1605, 1740, 8204, 1576, 1575, 1588, 1583, 46]),
    (lit ''4207'', [1587, 1575, 1582, 1578, 1575, 1585, 32, 1705, 1604, 1740, 1583, 32, 1605, 1578, 1602, 1575, 1585, 1606, 32, 1589, 1581, 1740, 1581, 32, 1606, 1605, 1740, 8204, 1576, 1575, 1588, 1583, 46]),
    (lit ''4208'', [1583, 1575, 1583, 1607, 8204, 1607, 1575, 32, 1576, 1575, 32, 1705, 1604, 1740, 1583, 32, 1605, 1578, 1602, 1575, 1585, 1606, 32, 1585, 1605, 1586, 1711, 1588, 1575, 1740, 1740, 32, 1606, 1588, 1583, 46]),
    (lit ''4209'', [1608, 1575, 1585, 1583, 32, 1705, 1585, 1583, 1606, 32, 1705, 1583, 32, 1575, 1602, 1578, 1589, 1575, 1583, 1740, 32, 1575, 1604, 1586, 1575, 1605, 1740, 32, 1575, 1587, 1578, 46, 32, 40, 1583, 1585, 32, 1605, 1578, 1583, 32, 1583, 1585, 1740, 1575, 1601, 1578, 32, 1575, 1591, 1604, 1575, 1593, 1575, 1578, 32, 1705, 1583, 32, 1575, 1602, 1578, 1589, 1575, 1583, 1740, 41]),
    (lit ''4210'', [1606, 1608, 1593, 32, 1576, 1587, 1578, 1607, 32, 1575, 1587, 1578, 1593, 1604, 1575, 1605, 32, 1705, 1583, 32, 1575, 1602, 1578, 1589, 1575, 1583, 1740, 32, 1605, 1593, 1578, 1576, 1585, 32, 1606, 1605, 1740, 8204, 1576, 1575, 1588, 1583, 46]),
    (lit ''4212'', [1575, 1605, 1590, 1575, 32, 1576, 1587, 1578, 1607, 32, 1589, 1581, 1740, 1581, 32, 1606, 1605, 1740, 8204, 1576, 1575, 1588, 1583, 46, 32, 40, 1607, 1606, 1711, 1575, 1605, 32, 1575, 1587, 1578, 1593, 1604, 1575, 1605, 32, 1608, 1590, 1593, 1740, 1578, 32, 1589, 1608, 1585, 1578, 1581, 1587, 1575, 1576, 41]),
    (lit ''5051'', [1662, 1585, 1583, 1575, 1586, 1607, 32, 1605, 1583, 1740, 1585, 1740, 1578, 32, 1705, 1604, 1740, 1583, 32, 1583, 1585, 32, 1583, 1587, 1578, 1585, 1587, 32, 1606, 1605, 1740, 8204, 1576, 1575, 1588, 1583, 1548, 32, 1605, 1583, 1578, 1740, 32, 1576, 1593, 1583, 32, 1578, 1604, 1575, 1588, 32, 1705, 1606, 1740, 1583, 46]),
    (lit ''5052'', [1575, 1605, 1705, 1575, 1606, 32, 1662, 1585, 1583, 1575, 1586, 1588, 32, 1575, 1740, 1606, 32, 1606, 1608, 1593, 32, 1576, 1587, 1578, 1607, 32, 1608, 1580, 1608, 1583, 32, 1606, 1583, 1575, 1585, 1583, 46]),
    (lit ''5056'', [1582, 1591, 1575, 32, 1583, 1585, 32, 1575, 1585, 1578, 1576, 1575, 1591, 32, 1576, 1575, 32, 1589, 1601]),
    (lit ''5057'', [1582, 1591, 1575, 32, 1583, 1585, 32, 1575, 1585, 1578, 1576, 1575, 1591, 32, 1576, 1575, 32, 1587, 1585, 1608, 1740, 1587, 32, 1578, 1608, 1586, 1740, 1593, 1548, 32, 1605, 1583, 1578, 1740, 32, 1576, 1593, 1583, 32, 1578, 1604, 1575, 1588, 32, 1705, 1606, 1740, 1583, 46]),
    (lit ''5200'', [1582, 1591, 1575, 1740, 32, 1606, 1575, 1588, 1606, 1575, 1582, 1578, 1607, 8204, 1575, 1740, 32, 1583, 1585, 32, 1607, 1606, 1711, 1575, 1605, 32, 1662, 1585, 1583, 1575, 1586, 1588, 32, 1583, 1585, 1582, 1608, 1575, 1587, 1578, 32, 1588, 1605, 1575, 32, 1585, 1582, 32, 1583, 1575, 1583, 1607, 32, 1575, 1587, 1578, 46]),
    (lit ''5201'', [1587, 1585, 1608, 1740, 1587, 32, 1575, 1581, 1585, 1575, 1586, 32, 1607, 1608, 1740, 1578, 32, 1583, 1585, 32, 1583, 1587, 1578, 1585, 1587, 32, 1606, 1605, 1740, 8204, 1576, 1575, 1588, 1583, 1548, 32, 1605, 1583, 1578, 1740, 32, 1576, 1593, 1583, 32, 1578, 1604, 1575, 1588, 32, 1705, 1606, 1740, 1583, 46]),
    (lit ''5202'', [1587, 1585, 1608, 1740, 1587, 32, 1605, 1583, 1740, 1585, 1740, 1578, 32, 1705, 1604, 1740, 1583, 32, 1587, 1575, 1586, 1605, 1575, 1606, 32, 1583, 1585, 32, 1583, 1587, 1578, 1585, 1587, 32, 1606, 1605, 1740, 8204, 1576, 1575, 1588, 1583, 1548, 32, 1605, 1583, 1578, 1740, 32, 1576, 1593, 1583, 32, 1578, 1604, 1575, 1588, 32, 1705, 1606, 1740, 1583, 46]),
    (lit ''5203'', [1582, 1591, 1575, 32, 1583, 1585, 32, 1585, 1605, 1586, 1711, 1588, 1575, 1740, 1740, 32, 1576, 1587, 1578, 1607, 46]),
    (lit ''5205'', [1582, 1591, 1575, 32, 1583, 1585, 32, 1606, 1585, 1605, 1575, 1604, 32, 1705, 1585, 1583, 1606, 32, 1576, 1587, 1578, 1607, 46]),
    (lit ''5206'', [1587, 1585, 1608, 1740, 1587, 32, 1605, 1583, 1740, 1585, 1740, 1578, 32, 1705, 1604, 1740, 1583, 32, 1583, 1585, 32, 1583, 1587, 1578, 1585, 1587, 32, 1606, 1605, 1740, 8204, 1576, 1575, 1588, 1583, 1548, 32, 1605, 1583, 1578, 1740, 32, 1576, 1593, 1583, 32, 1578, 1604, 1575, 1588, 32, 1705, 1606, 1740, 1583, 46]),
    (lit ''5207'', [1587, 1585, 1608, 1740, 1587, 32, 1575, 1591, 1604, 1575, 1593, 1575, 1578, 32, 1662, 1585, 1608, 1606, 1583, 1607, 32, 1605, 1575, 1604, 1740, 1575, 1578, 1740, 32, 1583, 1585, 32, 1583, 1587, 1578, 1585, 1587, 32, 1606, 1605, 1740, 8204, 1576, 1575, 1588, 1583, 1548, 32, 1605, 1583, 1578, 1740, 32, 1576, 1593, 1583, 32, 1578, 1604, 1575, 1588, 32, 1705, 1606, 1740, 1583, 46]),
    (lit ''00000'', [1578, 1593, 1583, 1575, 1583, 32, 1662, 1740, 1575, 1605, 8204, 1607, 1575, 1740, 32, 1582, 1591, 1575, 47, 1607, 1588, 1583, 1575, 1585, 32, 1576, 1740, 1588, 1578, 1585, 32, 1575, 1586, 32, 53, 48, 32, 1605, 1608, 1585, 1583, 32, 1575, 1587, 1578, 32, 1608, 32, 1575, 1605, 1705, 1575, 1606, 32, 1606, 1605, 1575, 1740, 1588, 32, 1576, 1740, 1588, 1578, 1585, 32, 1575, 1586, 32, 1575, 1740, 1606, 32, 1578, 1593, 1583, 1575, 1583, 32, 1608, 1580, 1608, 1583, 32, 1606, 1583, 1575, 1585, 1583, 46]),
    (lit ''02002'', [1605, 1602, 1583, 1575, 1585, 32, 1601, 1740, 1604, 1583, 32, 1578, 1575, 1585, 1740, 1582, 32, 1608, 32, 1586, 1605, 1575, 1606, 32, 1589, 1583, 1608, 1585, 32, 1589, 1608, 1585, 1578, 1581, 1587, 1575, 1576, 32, 1575, 1586, 32, 1604, 1581, 1575, 1592, 32, 1602, 1608, 1575, 1593, 1583, 32, 1605, 1581, 1575, 1587, 1576, 1575, 1578, 1740, 32, 1608, 32, 1605, 1606, 1591, 1602, 1740, 32, 1605, 1593, 1578, 1576, 1585, 32, 1606, 1740, 1587, 1578, 46]),
    (lit ''0300101'', [1605, 1602, 1583, 1575, 1585, 32, 1601, 1740, 1604, 1583, 32, 1588, 1605, 1575, 1585, 1607, 32, 1605, 1606, 1581, 1589, 1585, 32, 1576, 1607, 32, 1601, 1585, 1583, 32, 1605, 1575, 1604, 1740, 1575, 1578, 1740, 32, 1576, 1575, 32, 1575, 1591, 1604, 1575, 1593, 1575, 1578, 32, 1587, 1575, 1605, 1575, 1606, 1607, 32, 1605, 1606, 1591, 1576, 1602, 32, 1606, 1740, 1587, 1578, 46]),
    (lit ''0300601'', [1605, 1602, 1583, 1575, 1585, 32, 1601, 1740, 1604, 1583, 32, 1588, 1605, 1575, 1585, 1607, 32, 1605, 1575, 1604, 1740, 1575, 1578, 1740, 32, 1589, 1608, 1585, 1578, 1581, 1587, 1575, 1576, 32, 1605, 1585, 1580, 1593, 32, 1576, 1575, 32, 1575, 1591, 1604, 1575, 1593, 1575, 1578, 32, 1587, 1575, 1605, 1575, 1606, 1607, 32, 1605, 1606, 1591, 1576, 1602, 32, 1606, 1740, 1587, 1578, 46]),
    (lit ''0301201'', [1605, 1602, 1583, 1575, 1585, 32, 1601, 1740, 1604, 1583, 32, 1588, 1605, 1575, 1585, 1607, 32, 1575, 1602, 1578, 1589, 1575, 1583, 1740, 32, 1582, 1585, 1740, 1583, 1575, 1585, 32, 1576, 1575, 32, 1575, 1591, 1604, 1575, 1593, 1575, 1578, 32, 1587, 1575, 1605, 1575, 1606, 1607, 32, 1605, 1606, 1591, 1576, 1602, 32, 1606, 1740, 1587, 1578, 46]),
    (lit ''0304401'', [1605, 1602, 1583, 1575, 1585, 32, 1601, 1740, 1604, 1583, 32, 1606, 1585, 1582, 32, 1605, 1575, 1604, 1740, 1575, 1578, 32, 1576, 1585, 32, 1575, 1585, 1586, 1588, 32, 1575, 1601, 1586, 1608, 1583, 1607, 32, 1576, 1575, 32, 1575, 1591, 1604, 1575, 1593, 1575, 1578, 32, 1587, 1575, 1605, 1575, 1606, 1607, 32, 1605, 1606, 1591, 1576, 1602, 32, 1606, 1740, 1587, 1578, 46])]"

definition describe :: "pystr \<Rightarrow> pystr option" where
  "describe code = map_of ERROR_CODES code"

end
