(* ===== verification/Wire.thy ===== *)
theory Wire
  imports Responses Errors
begin

text \<open>
  Reading the answers of the organisation: the models of \<open>models/responses.py\<close> over a decoded JSON
  body, and the response helpers of \<open>client/auth.py\<close> that turn an HTTP reply into a value or into
  one of the package's exceptions.

  A model reads its declared fields and ignores the rest; a \<open>str\<close> field takes a JSON text only, an
  optional field also null. What \<open>pydantic\<close> takes for an \<open>int\<close> or a \<open>bool\<close> field is a parameter.
\<close>

section \<open>Fields\<close>

record coercions =
  as_int :: "json \<Rightarrow> int option"
  as_bool :: "json \<Rightarrow> bool option"

text \<open>The documented part of the coercions: a number is an \<open>int\<close> and a boolean is a \<open>bool\<close>.\<close>

definition coercions_ok :: "coercions \<Rightarrow> bool" where
  "coercions_ok cv \<longleftrightarrow> (\<forall>n. as_int cv (JInt n) = Some n) \<and> (\<forall>b. as_bool cv (JBool b) = Some b)"

type_synonym members = "(pystr \<times> json) list"

definition as_str :: "json \<Rightarrow> pystr option" where
  "as_str v = (case v of JStr s \<Rightarrow> Some s | _ \<Rightarrow> None)"

definition as_dict :: "json \<Rightarrow> members option" where
  "as_dict v = (case v of JObj kvs \<Rightarrow> Some kvs | _ \<Rightarrow> None)"

definition nullable :: "(json \<Rightarrow> 'a option) \<Rightarrow> json \<Rightarrow> 'a option option" where
  "nullable f v = (if v = JNull then Some None else map_option Some (f v))"

definition list_of :: "(json \<Rightarrow> 'a option) \<Rightarrow> json \<Rightarrow> 'a list option" where
  "list_of f v = (case v of JList vs \<Rightarrow> those (map f vs) | _ \<Rightarrow> None)"

definition need :: "(json \<Rightarrow> 'a option) \<Rightarrow> members \<Rightarrow> string \<Rightarrow> 'a option" where
  "need f kvs k = Option.bind (map_of kvs (lit k)) f"

definition default_to :: "'a \<Rightarrow> (json \<Rightarrow> 'a option) \<Rightarrow> members \<Rightarrow> string \<Rightarrow> 'a option" where
  "default_to d f kvs k = (case map_of kvs (lit k) of None \<Rightarrow> Some d | Some v \<Rightarrow> f v)"

abbreviation opt_str :: "members \<Rightarrow> string \<Rightarrow> pystr option option" where
  "opt_str \<equiv> default_to None (nullable as_str)"

section \<open>Models\<close>

text \<open>\<open>packet.model_dump()\<close>\<close>

definition packet_json :: "packet \<Rightarrow> json" where
  "packet_json p = JObj
     [(lit ''payload'', JStr (payload p)),
      (lit ''header'', JObj [(lit ''requestTraceId'', JStr (requestTraceId (packet_head p))),
                             (lit ''fiscalId'', JStr (fiscalId (packet_head p)))])]"

definition read_nonce :: "json \<Rightarrow> nonce_response option" where
  "read_nonce v =
     Option.bind (as_dict v) (\<lambda>kvs.
     Option.bind (need as_str kvs ''nonce'') (\<lambda>n.
     Option.bind (need as_str kvs ''expDate'') (\<lambda>e.
       Some \<lparr>nonce = n, expDate = e\<rparr>)))"

definition read_public_key :: "coercions \<Rightarrow> json \<Rightarrow> public_key option" where
  "read_public_key cv v =
     Option.bind (as_dict v) (\<lambda>kvs.
     Option.bind (need as_str kvs ''key'') (\<lambda>k.
     Option.bind (need as_str kvs ''id'') (\<lambda>i.
     Option.bind (opt_str kvs ''algorithm'') (\<lambda>a.
     Option.bind (default_to None (nullable (as_int cv)) kvs ''purpose'') (\<lambda>p.
       Some \<lparr>pk_key = k, pk_id = i, pk_algorithm = a, pk_purpose = p\<rparr>)))))"

definition read_server_information :: "coercions \<Rightarrow> json \<Rightarrow> server_information option" where
  "read_server_information cv v =
     Option.bind (as_dict v) (\<lambda>kvs.
     Option.bind (need (as_int cv) kvs ''serverTime'') (\<lambda>t.
     Option.bind (default_to [] (list_of (read_public_key cv)) kvs ''publicKeys'') (\<lambda>ks.
       Some \<lparr>serverTime = t, publicKeys = ks\<rparr>)))"

definition read_submit_result :: "json \<Rightarrow> submit_result option" where
  "read_submit_result v =
     Option.bind (as_dict v) (\<lambda>kvs.
     Option.bind (need as_str kvs ''uid'') (\<lambda>u.
     Option.bind (opt_str kvs ''packetType'') (\<lambda>p.
     Option.bind (opt_str kvs ''referenceNumber'') (\<lambda>r.
     Option.bind (opt_str kvs ''data'') (\<lambda>d.
       Some \<lparr>sr_uid = u, sr_packetType = p, sr_referenceNumber = r, sr_data = d\<rparr>)))))"

definition read_batch :: "coercions \<Rightarrow> json \<Rightarrow> batch_response option" where
  "read_batch cv v =
     Option.bind (as_dict v) (\<lambda>kvs.
     Option.bind (need (as_int cv) kvs ''timestamp'') (\<lambda>t.
     Option.bind (default_to [] (list_of read_submit_result) kvs ''result'') (\<lambda>rs.
       Some \<lparr>br_timestamp = t, br_result = rs\<rparr>)))"

text \<open>The annotated types \<open>ErrorCode\<close>, \<open>ErrorText\<close> and \<open>ErrorList\<close>.\<close>

definition read_error_entry :: "json \<Rightarrow> error_entry option" where
  "read_error_entry v =
     Option.bind (as_dict v) (\<lambda>kvs.
     Option.bind (need (as_str \<circ> code_to_str) kvs ''code'') (\<lambda>c.
     Option.bind (default_to [] (as_str \<circ> null_to_empty_text) kvs ''message'') (\<lambda>m.
     Option.bind (opt_str kvs ''errorType'') (\<lambda>t.
       Some \<lparr>ee_code = c, ee_message = m, ee_errorType = t\<rparr>))))"

definition error_list :: "json \<Rightarrow> error_entry list option" where
  "error_list v = list_of read_error_entry (drop_null_entries v)"

definition read_detail :: "coercions \<Rightarrow> json \<Rightarrow> validation_detail option" where
  "read_detail cv v =
     Option.bind (as_dict v) (\<lambda>kvs.
     Option.bind (default_to [] error_list kvs ''error'') (\<lambda>e.
     Option.bind (default_to [] error_list kvs ''warning'') (\<lambda>w.
     Option.bind (need (as_bool cv) kvs ''success'') (\<lambda>s.
       Some \<lparr>vd_error = e, vd_warning = w, vd_success = s\<rparr>))))"

text \<open>\<open>data\<close>: a \<open>ValidationDetail\<close>, else any object.\<close>

definition read_inquiry_data :: "coercions \<Rightarrow> json \<Rightarrow> inquiry_data option" where
  "read_inquiry_data cv v =
     (case read_detail cv v of Some d \<Rightarrow> Some (Detail d) | None \<Rightarrow> map_option OtherData (as_dict v))"

definition read_inquiry :: "coercions \<Rightarrow> json \<Rightarrow> inquiry_result option" where
  "read_inquiry cv v =
     Option.bind (as_dict v) (\<lambda>kvs.
     Option.bind (opt_str kvs ''referenceNumber'') (\<lambda>r.
     Option.bind (opt_str kvs ''uid'') (\<lambda>u.
     Option.bind (opt_str kvs ''status'') (\<lambda>s.
     Option.bind (default_to None (nullable (read_inquiry_data cv)) kvs ''data'') (\<lambda>d.
     Option.bind (opt_str kvs ''packetType'') (\<lambda>p.
     Option.bind (opt_str kvs ''fiscalId'') (\<lambda>f.
     Option.bind (opt_str kvs ''sign'') (\<lambda>g.
       Some \<lparr>ir_referenceNumber = r, ir_uid = u, ir_status = s, ir_data = d, ir_packetType = p,
         ir_fiscalId = f, ir_sign = g\<rparr>))))))))"

record invoice_status_result =
  is_taxId :: "pystr option"
  is_invoiceStatus :: "pystr option"
  is_article6Status :: "pystr option"
  is_error :: "pystr option"

definition read_invoice_status :: "json \<Rightarrow> invoice_status_result option" where
  "read_invoice_status v =
     Option.bind (as_dict v) (\<lambda>kvs.
     Option.bind (opt_str kvs ''taxId'') (\<lambda>t.
     Option.bind (opt_str kvs ''invoiceStatus'') (\<lambda>s.
     Option.bind (opt_str kvs ''article6Status'') (\<lambda>a.
     Option.bind (opt_str kvs ''error'') (\<lambda>e.
       Some \<lparr>is_taxId = t, is_invoiceStatus = s, is_article6Status = a, is_error = e\<rparr>)))))"

record taxpayer_result =
  tp_nameTrade :: "pystr option"
  tp_taxpayerStatus :: "pystr option"
  tp_nationalId :: "pystr option"
  tp_taxpayerType :: "pystr option"
  tp_postalcodeTaxpayer :: "pystr option"
  tp_addressTaxpayer :: "pystr option"

definition read_taxpayer :: "json \<Rightarrow> taxpayer_result option" where
  "read_taxpayer v =
     Option.bind (as_dict v) (\<lambda>kvs.
     Option.bind (opt_str kvs ''nameTrade'') (\<lambda>n.
     Option.bind (opt_str kvs ''taxpayerStatus'') (\<lambda>s.
     Option.bind (opt_str kvs ''nationalId'') (\<lambda>i.
     Option.bind (opt_str kvs ''taxpayerType'') (\<lambda>t.
     Option.bind (opt_str kvs ''postalcodeTaxpayer'') (\<lambda>p.
     Option.bind (opt_str kvs ''addressTaxpayer'') (\<lambda>a.
       Some \<lparr>tp_nameTrade = n, tp_taxpayerStatus = s, tp_nationalId = i, tp_taxpayerType = t,
         tp_postalcodeTaxpayer = p, tp_addressTaxpayer = a\<rparr>)))))))"

record fiscal_result =
  fi_nameTrade :: "pystr option"
  fi_fiscalStatus :: "pystr option"
  fi_nationalId :: "pystr option"
  fi_economicCode :: "pystr option"

definition read_fiscal :: "json \<Rightarrow> fiscal_result option" where
  "read_fiscal v =
     Option.bind (as_dict v) (\<lambda>kvs.
     Option.bind (opt_str kvs ''nameTrade'') (\<lambda>n.
     Option.bind (opt_str kvs ''fiscalStatus'') (\<lambda>s.
     Option.bind (opt_str kvs ''nationalId'') (\<lambda>i.
     Option.bind (opt_str kvs ''economicCode'') (\<lambda>e.
       Some \<lparr>fi_nameTrade = n, fi_fiscalStatus = s, fi_nationalId = i, fi_economicCode = e\<rparr>)))))"

record error_envelope =
  en_timestamp :: "int option"
  en_requestTraceId :: "pystr option"
  en_errors :: "error_entry list"

definition read_envelope :: "coercions \<Rightarrow> json \<Rightarrow> error_envelope option" where
  "read_envelope cv v =
     (if \<not> known_envelope v then None
      else
        Option.bind (as_dict v) (\<lambda>kvs.
        Option.bind (default_to None (nullable (as_int cv)) kvs ''timestamp'') (\<lambda>t.
        Option.bind (opt_str kvs ''requestTraceId'') (\<lambda>r.
        Option.bind (default_to [] error_list kvs ''errors'') (\<lambda>es.
          Some \<lparr>en_timestamp = t, en_requestTraceId = r, en_errors = es\<rparr>)))))"

section \<open>Replies\<close>

text \<open>A reply: the status, and what \<open>response.json()\<close> gives, \<open>None\<close> where it raises.\<close>

record http_reply =
  reply_code :: int
  reply_json :: "json option"

definition is_success :: "http_reply \<Rightarrow> bool" where
  "is_success r \<longleftrightarrow> 200 \<le> reply_code r \<and> reply_code r \<le> 299"

definition raise_for_api_error :: "coercions \<Rightarrow> http_reply \<Rightarrow> unit result" where
  "raise_for_api_error cv r =
     (if is_success r then Inr ()
      else
        let envelope = Option.bind (reply_json r) (read_envelope cv);
            errors = (case envelope of None \<Rightarrow> [] | Some e \<Rightarrow> map (\<lambda>x. (ee_code x, ee_message x)) (en_errors e));
            trace_id = Option.bind envelope en_requestTraceId;
            err = \<lparr>status_code = Some (reply_code r), api_errors = errors, request_trace_id = trace_id\<rparr>
        in if reply_code r \<in> {401, 403} then Inl (AuthenticationError err)
           else if envelope = None then Inl (UnknownResponseError err)
           else Inl (TaxApiError err))"

definition unreadable :: "http_reply \<Rightarrow> exn" where
  "unreadable r =
     UnknownResponseError \<lparr>status_code = Some (reply_code r), api_errors = [], request_trace_id = None\<rparr>"

definition decode_json_body :: "http_reply \<Rightarrow> json result" where
  "decode_json_body r = (case reply_json r of None \<Rightarrow> Inl (unreadable r) | Some v \<Rightarrow> Inr v)"

definition decode_model :: "(json \<Rightarrow> 'a option) \<Rightarrow> http_reply \<Rightarrow> 'a result" where
  "decode_model f r =
     bindE (decode_json_body r) (\<lambda>v. case f v of None \<Rightarrow> Inl (unreadable r) | Some x \<Rightarrow> Inr x)"

definition decode_model_list :: "(json \<Rightarrow> 'a option) \<Rightarrow> http_reply \<Rightarrow> 'a list result" where
  "decode_model_list f r =
     bindE (decode_json_body r) (\<lambda>v.
       case v of
         JList vs \<Rightarrow> (case those (map f vs) of None \<Rightarrow> Inl (unreadable r) | Some xs \<Rightarrow> Inr xs)
       | _ \<Rightarrow> Inl (unreadable r))"

section \<open>What the helpers promise\<close>

lemma raise_for_api_error_Inr [simp]: "raise_for_api_error cv r = Inr () \<longleftrightarrow> is_success r"
  by (simp add: raise_for_api_error_def Let_def)

lemma decode_json_body_Inr [simp]: "decode_json_body r = Inr v \<longleftrightarrow> reply_json r = Some v"
  by (auto simp: decode_json_body_def split: option.splits)

lemma decode_model_Inr: "decode_model f r = Inr x \<longleftrightarrow> (\<exists>v. reply_json r = Some v \<and> f v = Some x)"
  by (auto simp: decode_model_def py_splits split: option.splits)

lemma those_eq_Some: "those (map f xs) = Some ys \<longleftrightarrow> list_all2 (\<lambda>x y. f x = Some y) xs ys"
proof (induction xs arbitrary: ys)
  case (Cons x xs)
  then show ?case by (cases ys) (auto split: option.splits)
qed auto

lemma decode_model_list_Inr:
  "decode_model_list f r = Inr xs \<longleftrightarrow>
     (\<exists>vs. reply_json r = Some (JList vs) \<and> list_all2 (\<lambda>v x. f v = Some x) vs xs)"
proof (cases "reply_json r")
  case (Some v)
  then show ?thesis
    by (cases v)
      (auto simp: decode_model_list_def decode_json_body_def those_eq_Some [symmetric] split: option.splits)
qed (simp add: decode_model_list_def decode_json_body_def)

end
