(* ===== verification/JsonText.thy ===== *)
theory JsonText
  imports Json
begin

text \<open>
  Reading bytes: \<open>bytes.decode("utf-8")\<close> and \<open>json.loads\<close>.

  The reader is a character automaton that makes tokens and a token automaton with a stack of open
  arrays and objects; both recurse on their input, so no fuel is needed. Of bytes \<open>json.loads\<close> first
  detects the encoding: UTF-8, UTF-16 or UTF-32 in either order of the bytes, with or without a mark.

  Theorem: reading back what \<open>canonical_json\<close> writes gives the value that was written.
\<close>

section \<open>UTF-8\<close>

definition utf8_tail :: "nat \<Rightarrow> bool" where
  "utf8_tail b = (0x80 \<le> b \<and> b < 0xC0)"

text \<open>
  With \<open>pass\<close> the error handler \<open>surrogatepass\<close> of \<open>json.loads\<close>; without it surrogates are
  refused as in a strict \<open>decode\<close>.
\<close>

fun utf8_decode :: "bool \<Rightarrow> nat list \<Rightarrow> pystr option" where
  "utf8_decode pass [] = Some []"
| "utf8_decode pass (b # bs) =
     (if b < 0x80 then map_option (\<lambda>s. b # s) (utf8_decode pass bs)
      else if b < 0xC2 \<or> 0xF5 \<le> b then None
      else
        case bs of
          [] \<Rightarrow> None
        | b1 # bs1 \<Rightarrow>
            if \<not> utf8_tail b1 then None
            else if b < 0xE0 then
              map_option (\<lambda>s. ((b - 0xC0) * 64 + (b1 - 0x80)) # s) (utf8_decode pass bs1)
            else
              case bs1 of
                [] \<Rightarrow> None
              | b2 # bs2 \<Rightarrow>
                  if \<not> utf8_tail b2 then None
                  else if b < 0xF0 then
                    let c = (b - 0xE0) * 4096 + (b1 - 0x80) * 64 + (b2 - 0x80) in
                    if c < 0x800 \<or> (surrogate c \<and> \<not> pass) then None
                    else map_option (\<lambda>s. c # s) (utf8_decode pass bs2)
                  else
                    case bs2 of
                      [] \<Rightarrow> None
                    | b3 # bs3 \<Rightarrow>
                        let c = (b - 0xF0) * 262144 + (b1 - 0x80) * 4096 + (b2 - 0x80) * 64 + (b3 - 0x80) in
                        if \<not> utf8_tail b3 \<or> c < 0x10000 \<or> 0x110000 \<le> c then None
                        else map_option (\<lambda>s. c # s) (utf8_decode pass bs3))"

section \<open>Tokens\<close>

datatype token = LBrack | RBrack | LBrace | RBrace | Comma | ColonT | Text pystr | Val json

text \<open>Digits before the point, the fraction and the exponent of a decimal number.\<close>

definition dec_digits :: "pystr \<Rightarrow> nat list" where
  "dec_digits s = map (\<lambda>c. c - 48) s"

definition read_exponent :: "pystr \<Rightarrow> int option" where
  "read_exponent s =
     (case s of
        [] \<Rightarrow> Some 0
      | e # r \<Rightarrow>
          if e \<noteq> 101 \<and> e \<noteq> 69 then None
          else
            let neg = (r \<noteq> [] \<and> hd r = 45);
                ds = (if r \<noteq> [] \<and> (hd r = 45 \<or> hd r = 43) then tl r else r)
            in if ds = [] \<or> \<not> list_all ascii_digit ds then None
               else Some (if neg then - int (digits_value 10 (dec_digits ds)) else int (digits_value 10 (dec_digits ds))))"

definition power_of_ten :: "int \<Rightarrow> rat" where
  "power_of_ten e = (if 0 \<le> e then 10 ^ nat e else 1 / 10 ^ nat (- e))"

text \<open>\<open>float(text)\<close>: the nearest double of the decimal value.\<close>

definition read_number :: "pystr \<Rightarrow> json option" where
  "read_number s =
     (let neg = (s \<noteq> [] \<and> hd s = 45);
          u = (if neg then tl s else s);
          ds = takeWhile ascii_digit u;
          r = dropWhile ascii_digit u
      in if ds = [] \<or> (hd ds = 48 \<and> 1 < length ds) then None
         else if r = [] then
           if max_int_digits < length ds then None
           else Some (JInt (if neg then - int (digits_value 10 (dec_digits ds)) else int (digits_value 10 (dec_digits ds))))
         else
           let fs = (if hd r = 46 then takeWhile ascii_digit (tl r) else []);
               r' = (if hd r = 46 then dropWhile ascii_digit (tl r) else r)
           in if hd r = 46 \<and> fs = [] then None
              else
                case read_exponent r' of
                  None \<Rightarrow> None
                | Some e \<Rightarrow>
                    let x = of_nat (digits_value 10 (dec_digits (ds @ fs))) * power_of_ten (e - int (length fs))
                    in Some (JFloat (rnd (if neg then - x else x))))"

definition read_bare :: "pystr \<Rightarrow> json option" where
  "read_bare w =
     (if w = lit ''null'' then Some JNull
      else if w = lit ''true'' then Some (JBool True)
      else if w = lit ''false'' then Some (JBool False)
      else if w = lit ''NaN'' then Some (JFloat NaN)
      else if w = lit ''Infinity'' then Some (JFloat PInf)
      else if w = lit ''-Infinity'' then Some (JFloat NInf)
      else read_number w)"

definition bare_char :: "nat \<Rightarrow> bool" where
  "bare_char c = (ascii_alnum c \<or> c = 43 \<or> c = 45 \<or> c = 46)"

definition json_space :: "nat \<Rightarrow> bool" where
  "json_space c = (c \<in> {32, 9, 10, 13})"

definition punctuation :: "nat \<Rightarrow> token option" where
  "punctuation c = map_of [(91, LBrack), (93, RBrack), (123, LBrace), (125, RBrace), (44, Comma), (58, ColonT)] c"

text \<open>The character after a backslash; \<open>u\<close> is apart.\<close>

definition escapes :: "(nat \<times> nat) list" where
  "escapes = [(34, 34), (92, 92), (47, 47), (98, 8), (102, 12), (110, 10), (114, 13), (116, 9)]"

text \<open>
  The characters of a string with the mark whether they came from a \<open>\u\<close> escape: two marked
  halves of a surrogate pair make one character.
\<close>

fun join_pairs :: "(bool \<times> nat) list \<Rightarrow> pystr" where
  "join_pairs ((True, h) # (True, l) # s) =
     (if 0xD800 \<le> h \<and> h \<le> 0xDBFF \<and> 0xDC00 \<le> l \<and> l \<le> 0xDFFF
      then (0x10000 + (h - 0xD800) * 1024 + (l - 0xDC00)) # join_pairs s
      else h # join_pairs ((True, l) # s))"
| "join_pairs ((b, c) # s) = c # join_pairs s"
| "join_pairs [] = []"

datatype lexer =
    Between
  | Bare pystr
  | InText "(bool \<times> nat) list"
  | Escaped "(bool \<times> nat) list"
  | Hex "(bool \<times> nat) list" "nat list"

definition emit :: "token option \<Rightarrow> token list option \<Rightarrow> token list option" where
  "emit t ts = (case (t, ts) of (Some x, Some xs) \<Rightarrow> Some (x # xs) | _ \<Rightarrow> None)"

function (sequential) lex :: "lexer \<Rightarrow> pystr \<Rightarrow> token list option" where
  "lex Between [] = Some []"
| "lex (Bare w) [] = emit (map_option Val (read_bare w)) (Some [])"
| "lex _ [] = None"
| "lex Between (c # s) =
     (if json_space c then lex Between s
      else if punctuation c \<noteq> None then emit (punctuation c) (lex Between s)
      else if c = 34 then lex (InText []) s
      else if bare_char c then lex (Bare [c]) s
      else None)"
| "lex (Bare w) (c # s) =
     (if bare_char c then lex (Bare (w @ [c])) s
      else emit (map_option Val (read_bare w)) (lex Between (c # s)))"
| "lex (InText acc) (c # s) =
     (if c = 34 then emit (Some (Text (join_pairs acc))) (lex Between s)
      else if c = 92 then lex (Escaped acc) s
      else if c < 32 then None
      else lex (InText (acc @ [(False, c)])) s)"
| "lex (Escaped acc) (c # s) =
     (if c = 117 then lex (Hex acc []) s
      else case map_of escapes c of None \<Rightarrow> None | Some d \<Rightarrow> lex (InText (acc @ [(False, d)])) s)"
| "lex (Hex acc ds) (c # s) =
     (case base_digit 16 c of
        None \<Rightarrow> None
      | Some d \<Rightarrow>
          if length ds < 3 then lex (Hex acc (ds @ [d])) s
          else lex (InText (acc @ [(True, digits_value 16 (ds @ [d]))])) s)"
  by pat_completeness auto
termination
  by (relation "measures [\<lambda>(q, s). length s, \<lambda>(q, s). case q of Bare w \<Rightarrow> 1 | _ \<Rightarrow> 0]") auto

section \<open>Values\<close>

text \<open>
  Open arrays with the elements so far, and open objects with the members so far and the key whose
  value is being read. A repeated key keeps its place and takes the last value.
\<close>

datatype frame = InList "json list" | InDict "(pystr \<times> json) list" pystr

datatype reader =
    Value
  | ValueOrEnd
  | KeyOrEnd
  | Key "(pystr \<times> json) list"
  | Colon "(pystr \<times> json) list" pystr
  | Have json

fun begin_value :: "frame list \<Rightarrow> token \<Rightarrow> (reader \<times> frame list) option" where
  "begin_value fs (Val v) = Some (Have v, fs)"
| "begin_value fs (Text s) = Some (Have (JStr s), fs)"
| "begin_value fs LBrack = Some (ValueOrEnd, InList [] # fs)"
| "begin_value fs LBrace = Some (KeyOrEnd, fs)"
| "begin_value fs _ = None"

fun read_token :: "reader \<Rightarrow> frame list \<Rightarrow> token \<Rightarrow> (reader \<times> frame list) option" where
  "read_token ValueOrEnd (InList vs # fs) RBrack = Some (Have (JList vs), fs)"
| "read_token ValueOrEnd fs t = begin_value fs t"
| "read_token Value fs t = begin_value fs t"
| "read_token KeyOrEnd fs RBrace = Some (Have (JObj []), fs)"
| "read_token KeyOrEnd fs (Text k) = Some (Colon [] k, fs)"
| "read_token (Key kvs) fs (Text k) = Some (Colon kvs k, fs)"
| "read_token (Colon kvs k) fs ColonT = Some (Value, InDict kvs k # fs)"
| "read_token (Have v) (InList vs # fs) Comma = Some (Value, InList (vs @ [v]) # fs)"
| "read_token (Have v) (InList vs # fs) RBrack = Some (Have (JList (vs @ [v])), fs)"
| "read_token (Have v) (InDict kvs k # fs) Comma = Some (Key (dict_set k v kvs), fs)"
| "read_token (Have v) (InDict kvs k # fs) RBrace = Some (Have (JObj (dict_set k v kvs)), fs)"
| "read_token _ _ _ = None"

fun read_tokens :: "reader \<Rightarrow> frame list \<Rightarrow> token list \<Rightarrow> json option" where
  "read_tokens q fs [] = (case (q, fs) of (Have v, []) \<Rightarrow> Some v | _ \<Rightarrow> None)"
| "read_tokens q fs (t # ts) =
     (case read_token q fs t of None \<Rightarrow> None | Some (q', fs') \<Rightarrow> read_tokens q' fs' ts)"

text \<open>\<open>json.loads\<close> of a text and of bytes; \<open>None\<close> is the \<open>ValueError\<close>.\<close>

definition loads :: "pystr \<Rightarrow> json option" where
  "loads s = (case lex Between s of None \<Rightarrow> None | Some ts \<Rightarrow> read_tokens Value [] ts)"

text \<open>
  The units of UTF-16 and UTF-32 in either order of the bytes, and surrogate pairs of UTF-16 joined.
  \<open>surrogatepass\<close> keeps a lone surrogate.
\<close>

fun utf16_units :: "bool \<Rightarrow> nat list \<Rightarrow> nat list option" where
  "utf16_units big [] = Some []"
| "utf16_units big [b] = None"
| "utf16_units big (a # b # bs) =
     map_option (\<lambda>us. (if big then a * 256 + b else b * 256 + a) # us) (utf16_units big bs)"

fun join_units :: "nat list \<Rightarrow> pystr" where
  "join_units (h # l # us) =
     (if 0xD800 \<le> h \<and> h \<le> 0xDBFF \<and> 0xDC00 \<le> l \<and> l \<le> 0xDFFF
      then (0x10000 + (h - 0xD800) * 1024 + (l - 0xDC00)) # join_units us
      else h # join_units (l # us))"
| "join_units us = us"

definition utf16_decode :: "bool \<Rightarrow> nat list \<Rightarrow> pystr option" where
  "utf16_decode big bs = map_option join_units (utf16_units big bs)"

fun utf32_decode :: "bool \<Rightarrow> nat list \<Rightarrow> pystr option" where
  "utf32_decode big [] = Some []"
| "utf32_decode big (a # b # c # d # bs) =
     (let u = (if big then ((a * 256 + b) * 256 + c) * 256 + d else ((d * 256 + c) * 256 + b) * 256 + a)
      in if 0x110000 \<le> u then None else map_option (\<lambda>s. u # s) (utf32_decode big bs))"
| "utf32_decode big _ = None"

text \<open>\<open>json.detect_encoding\<close> with the decoding.\<close>

definition decode_detected :: "nat list \<Rightarrow> pystr option" where
  "decode_detected bs =
     (if take 4 bs = [0, 0, 0xFE, 0xFF] then utf32_decode True (drop 4 bs)
      else if take 4 bs = [0xFF, 0xFE, 0, 0] then utf32_decode False (drop 4 bs)
      else if take 2 bs = [0xFE, 0xFF] then utf16_decode True (drop 2 bs)
      else if take 2 bs = [0xFF, 0xFE] then utf16_decode False (drop 2 bs)
      else if take 3 bs = [0xEF, 0xBB, 0xBF] then utf8_decode True (drop 3 bs)
      else if 4 \<le> length bs \<and> bs ! 0 = 0 then (if bs ! 1 \<noteq> 0 then utf16_decode True bs else utf32_decode True bs)
      else if 4 \<le> length bs \<and> bs ! 1 = 0 then
        (if bs ! 2 \<noteq> 0 \<or> bs ! 3 \<noteq> 0 then utf16_decode False bs else utf32_decode False bs)
      else if length bs = 2 \<and> bs ! 0 = 0 then utf16_decode True bs
      else if length bs = 2 \<and> bs ! 1 = 0 then utf16_decode False bs
      else utf8_decode True bs)"

definition loads_bytes :: "nat list \<Rightarrow> json option" where
  "loads_bytes bs = Option.bind (decode_detected bs) loads"

section \<open>Reading back UTF-8\<close>

lemma utf8_decode_char:
  assumes "utf8_char c = Some u" "c < 0x110000"
  shows "utf8_decode pass (u @ bs) = map_option (\<lambda>s. c # s) (utf8_decode pass bs)"
proof -
  have d: "c div 4096 = c div 64 div 64" "c div 262144 = c div 64 div 64 div 64"
    by (simp_all add: div_mult2_eq [symmetric])
  have m: "a mod 64 < 64" "a div 64 * 64 + a mod 64 = a" for a :: nat by simp_all
  consider "c < 0x80" | "0x80 \<le> c" "c < 0x800" | "0x800 \<le> c" "c < 0xD800 \<or> 0xE000 \<le> c" "c < 0x10000" | "0x10000 \<le> c"
    using assms(1) by (auto simp: utf8_char_def split: if_splits)
  then show ?thesis
  proof cases
    case 1
    then show ?thesis using assms(1) by (auto simp: utf8_char_def)
  next
    case 2
    then have "2 \<le> c div 64" "c div 64 < 32" by auto
    then show ?thesis using 2 assms(1) m by (auto simp: utf8_char_def utf8_tail_def)
  next
    case 3
    then have h: "c div 4096 < 16" "\<not> surrogate c" by (auto simp: surrogate_def)
    have e: "c div 4096 * 4096 + c div 64 mod 64 * 64 + c mod 64 = c"
      using m(2) [of c] m(2) [of "c div 64"] d(1) by linarith
    have u: "u = [0xE0 + c div 4096, 0x80 + c div 64 mod 64, 0x80 + c mod 64]"
      using 3 assms(1) by (auto simp: utf8_char_def)
    show ?thesis unfolding u using h e 3(1) m(1) by (simp add: utf8_tail_def Let_def)
  next
    case 4
    then have h: "c div 262144 < 5" using assms(2) by auto
    have e: "c div 262144 * 262144 + c div 4096 mod 64 * 4096 + c div 64 mod 64 * 64 + c mod 64 = c"
      unfolding d using m(2) [of c] m(2) [of "c div 64"] m(2) [of "c div 64 div 64"] by linarith
    have u: "u = [0xF0 + c div 262144, 0x80 + c div 4096 mod 64, 0x80 + c div 64 mod 64, 0x80 + c mod 64]"
      using 4 assms(1) by (auto simp: utf8_char_def)
    show ?thesis unfolding u using h e 4 assms(2) m(1) by (simp add: utf8_tail_def Let_def)
  qed
qed

lemma utf8_decode_utf8:
  assumes "utf8 s = Some bs" "\<forall>c \<in> set s. c < 0x110000"
  shows "utf8_decode pass bs = Some s"
  using assms
proof (induction s arbitrary: bs)
  case (Cons c s)
  then obtain u us where u: "utf8_char c = Some u" "those (map utf8_char s) = Some us" "bs = u @ concat us"
    by (auto simp: utf8_def split: option.splits)
  then have "utf8 s = Some (concat us)" by (simp add: utf8_def)
  with Cons have "utf8_decode pass (concat us) = Some s" by simp
  with u Cons.prems show ?case by (simp add: utf8_decode_char)
qed (simp add: utf8_def)

section \<open>Reading back tokens\<close>

definition emits :: "token list \<Rightarrow> token list option \<Rightarrow> token list option" where
  "emits ts m = map_option ((@) ts) m"

lemma emit_Some: "emit (Some t) m = emits [t] m"
  by (cases m) (simp_all add: emit_def emits_def)

lemma emits_emits [simp]: "emits ts (emits us m) = emits (ts @ us) m"
  by (cases m) (simp_all add: emits_def)

lemma bare_char_apart: "bare_char c \<Longrightarrow> \<not> json_space c \<and> punctuation c = None \<and> c \<noteq> 34"
  by (auto simp: bare_char_def json_space_def punctuation_def ascii_defs)

lemma lex_bare_more:
  assumes "list_all bare_char w" "s = [] \<or> \<not> bare_char (hd s)"
  shows "lex (Bare a) (w @ s) = emit (map_option Val (read_bare (a @ w))) (lex Between s)"
  using assms(1)
proof (induction w arbitrary: a)
  case Nil
  then show ?case using assms(2) by (cases s) simp_all
qed simp

lemma lex_bare:
  assumes "w \<noteq> []" "list_all bare_char w" "s = [] \<or> \<not> bare_char (hd s)" "read_bare w = Some v"
  shows "lex Between (w @ s) = emits [Val v] (lex Between s)"
proof -
  obtain c w' where w: "w = c # w'" using assms(1) by (cases w) auto
  with assms have "lex Between (w @ s) = lex (Bare [c]) (w' @ s)"
    using bare_char_apart [of c] by simp
  then show ?thesis using lex_bare_more [of w' s "[c]"] assms w by (simp add: emit_Some)
qed

text \<open>The mark the reader gives to a character written by \<open>escape_char\<close>.\<close>

definition mark :: "nat \<Rightarrow> bool \<times> nat" where
  "mark c = (c < 32 \<and> c \<notin> {8, 9, 10, 12, 13}, c)"

lemma join_pairs_marks: "join_pairs (map mark cs) = cs"
proof (induction cs rule: induct_list012)
  case (3 c d cs)
  then show ?case by (cases "fst (mark c)"; cases "fst (mark d)") (auto simp: mark_def)
qed (simp_all add: mark_def)

lemma base_digit_hex_lower: "d < 16 \<Longrightarrow> base_digit 16 (hex_lower d) = Some d"
  by (auto simp: base_digit_def alnum_value_def hex_lower_def ascii_defs)

lemma lex_escape_char: "lex (InText acc) (escape_char c @ s) = lex (InText (acc @ [mark c])) s"
proof (cases "c < 32 \<and> c \<notin> {8, 9, 10, 12, 13}")
  case True
  then have "escape_char c = [92, 117, 48, 48, hex_lower (c div 16), hex_lower (c mod 16)]"
    by (auto simp: escape_char_def)
  moreover have "base_digit 16 48 = Some 0" by (simp add: base_digit_def alnum_value_def ascii_defs)
  moreover have "digits_value 16 [0, 0, c div 16, c mod 16] = c" by (simp add: digits_value_def)
  moreover have "base_digit 16 (hex_lower (c div 16)) = Some (c div 16)"
    "base_digit 16 (hex_lower (c mod 16)) = Some (c mod 16)"
    by (rule base_digit_hex_lower, use True in auto)+
  ultimately show ?thesis using True by (simp add: mark_def)
next
  case False
  then show ?thesis by (auto simp: escape_char_def escapes_def mark_def)
qed

lemma lex_chars:
  "lex (InText acc) (concat (map escape_char cs) @ 34 # s) =
     emits [Text (join_pairs (acc @ map mark cs))] (lex Between s)"
  by (induction cs arbitrary: acc) (simp_all add: lex_escape_char emit_Some)

lemma lex_json_string: "lex Between (json_string cs @ s) = emits [Text cs] (lex Between s)"
  using lex_chars [of "[]" cs s] by (simp add: json_string_def json_space_def punctuation_def join_pairs_marks)

section \<open>Reading back numbers\<close>

lemma hd_digits_of: "2 \<le> b \<Longrightarrow> b \<le> n \<Longrightarrow> hd (digits_of b n) \<noteq> 0"
proof (induction b n rule: digits_of.induct)
  case (1 b n)
  then have e: "digits_of b n = digits_of b (n div b) @ [n mod b]" by (subst digits_of.simps) simp
  show ?case
  proof (cases "b \<le> n div b")
    case True
    with 1 show ?thesis by (simp add: e)
  next
    case False
    then have "digits_of b (n div b) = [n div b]" by (subst digits_of.simps) simp
    moreover have "0 < n div b" using 1 by (simp add: div_greater_zero_iff)
    ultimately show ?thesis by (simp add: e)
  qed
qed

lemma fmt_dec_0: "fmt_dec 0 n = map dec_char (digits_of 10 n)"
  by (simp add: fmt_dec_def render_def Let_def)

lemma dec_digits_fmt: "dec_digits (fmt_dec 0 n) = digits_of 10 n"
  by (simp add: dec_digits_def fmt_dec_0 dec_char_def o_def)

lemma fmt_dec_plain: "\<not> (hd (fmt_dec 0 n) = 48 \<and> 1 < length (fmt_dec 0 n))"
proof (cases "10 \<le> n")
  case True
  then have "hd (digits_of 10 n) \<noteq> 0" by (intro hd_digits_of) simp_all
  then show ?thesis by (simp add: fmt_dec_0 dec_char_def hd_map)
next
  case False
  then have "digits_of 10 n = [n]" by (subst digits_of.simps) simp
  then show ?thesis by (simp add: fmt_dec_0)
qed

lemma read_number_fmt_dec:
  assumes "length (fmt_dec 0 n) \<le> max_int_digits"
  shows "read_number (fmt_dec 0 n) = Some (JInt (int n))" "read_number (45 # fmt_dec 0 n) = Some (JInt (- int n))"
proof -
  have all: "\<forall>c \<in> set (fmt_dec 0 n). ascii_digit c" using fmt_dec_digits by blast
  then have tw: "takeWhile ascii_digit (fmt_dec 0 n) = fmt_dec 0 n" "dropWhile ascii_digit (fmt_dec 0 n) = []"
    by simp_all
  have ne: "fmt_dec 0 n \<noteq> []" by (simp add: fmt_dec_0)
  then have "ascii_digit (hd (fmt_dec 0 n))" using all by simp
  then have "hd (fmt_dec 0 n) \<noteq> 45" by (auto simp: ascii_defs)
  with ne fmt_dec_plain [of n] assms
  show "read_number (fmt_dec 0 n) = Some (JInt (int n))" "read_number (45 # fmt_dec 0 n) = Some (JInt (- int n))"
    unfolding read_number_def Let_def by (simp_all add: tw dec_digits_fmt)
qed

lemma int_text_bare: "int_text n \<noteq> [] \<and> list_all bare_char (int_text n)"
proof -
  have "\<forall>c \<in> set (fmt_dec 0 m). bare_char c" for m
    using fmt_dec_digits [of _ 0 m] by (auto simp: bare_char_def ascii_alnum_def)
  moreover have "bare_char 45" by (simp add: bare_char_def)
  ultimately show ?thesis by (simp add: list_all_iff fmt_dec_def)
qed

lemma read_bare_number: "ascii_digit (last w) \<Longrightarrow> read_bare w = read_number w"
proof -
  assume w: "ascii_digit (last w)"
  have "\<not> ascii_digit (last (lit s))" if "s \<in> {''null'', ''true'', ''false'', ''NaN'', ''Infinity'', ''-Infinity''}" for s
    using that by (auto simp: lit_def ascii_digit_def)
  with w have "w \<noteq> lit s" if "s \<in> {''null'', ''true'', ''false'', ''NaN'', ''Infinity'', ''-Infinity''}" for s
    using that by blast
  then show ?thesis by (simp add: read_bare_def)
qed

lemma read_bare_int_text:
  assumes "length (int_text n) \<le> max_int_digits"
  shows "read_bare (int_text n) = Some (JInt n)"
proof -
  have d: "ascii_digit (last (fmt_dec 0 m))" for m
    by (rule fmt_dec_digits [of _ 0 m]) (simp add: fmt_dec_def)
  have "last (int_text n) = last (fmt_dec 0 (nat \<bar>n\<bar>))" by (simp add: fmt_dec_0)
  then have "read_bare (int_text n) = read_number (int_text n)"
    using d by (simp add: read_bare_number del: int_text.simps)
  then show ?thesis using assms read_number_fmt_dec [of "nat \<bar>n\<bar>"] by (auto split: if_splits)
qed

section \<open>Reading back values\<close>

text \<open>
  The values that survive a round trip: proper characters, distinct keys, integers of at most 4300
  digits, and floats whose text reads back, which the shortest text of a float does.
\<close>

definition float_reads_back :: "(rat \<Rightarrow> pystr) \<Rightarrow> pyfloat \<Rightarrow> bool" where
  "float_reads_back ft x =
     (case x of
        Fin q \<Rightarrow> ft q \<noteq> [] \<and> list_all bare_char (ft q) \<and> read_bare (ft q) = Some (JFloat x)
      | _ \<Rightarrow> False)"

fun readable :: "(rat \<Rightarrow> pystr) \<Rightarrow> json \<Rightarrow> bool" where
  "readable ft (JInt n) = (length (int_text n) \<le> max_int_digits)"
| "readable ft (JFloat x) = float_reads_back ft x"
| "readable ft (JList vs) = list_all (readable ft) vs"
| "readable ft (JObj kvs) = (distinct (map fst kvs) \<and> list_all (\<lambda>(k, v). readable ft v) kvs)"
| "readable ft _ = True"

text \<open>A text that reads as a value wherever a value may stand.\<close>

definition reads :: "json \<Rightarrow> pystr \<Rightarrow> token list \<Rightarrow> bool" where
  "reads v u ts \<longleftrightarrow>
     (\<forall>s. (s = [] \<or> \<not> bare_char (hd s)) \<longrightarrow> lex Between (u @ s) = emits ts (lex Between s)) \<and>
     (\<forall>fs rest. read_tokens Value fs (ts @ rest) = read_tokens (Have v) fs rest) \<and>
     ts \<noteq> [] \<and> hd ts \<noteq> RBrack"

lemma readsD:
  assumes "reads v u ts"
  shows "s = [] \<or> \<not> bare_char (hd s) \<Longrightarrow> lex Between (u @ s) = emits ts (lex Between s)"
    "read_tokens Value fs (ts @ rest) = read_tokens (Have v) fs rest" "ts \<noteq> []" "hd ts \<noteq> RBrack"
  using assms unfolding reads_def by blast+

lemma lex_punctuation:
  assumes "punctuation c = Some t"
  shows "lex Between (c # s) = emits [t] (lex Between s)"
proof -
  have "\<not> json_space c" using assms by (auto simp: punctuation_def json_space_def split: if_splits)
  then show ?thesis using assms by (simp add: emit_Some)
qed

lemma lex_spaces: "list_all json_space w \<Longrightarrow> lex Between (w @ s) = lex Between s"
  by (induction w) simp_all

lemma punctuation_simps [simp]:
  "punctuation 91 = Some LBrack" "punctuation 93 = Some RBrack" "punctuation 123 = Some LBrace"
  "punctuation 125 = Some RBrace" "punctuation 44 = Some Comma" "punctuation 58 = Some ColonT"
  by (simp_all add: punctuation_def)

lemma bare_char_punctuation [simp]:
  "\<not> bare_char 91" "\<not> bare_char 93" "\<not> bare_char 123" "\<not> bare_char 125" "\<not> bare_char 44" "\<not> bare_char 58"
  by (simp_all add: bare_char_def ascii_defs)

lemma lex_Nil: "lex Between [] = Some []" by simp

declare lex.simps [simp del]
declare lex_Nil [simp]

lemma reads_bare:
  assumes "u \<noteq> []" "list_all bare_char u" "read_bare u = Some v"
  shows "reads v u [Val v]"
  using assms lex_bare by (simp add: reads_def)

lemma reads_words: "reads JNull (lit ''null'') [Val JNull]" "reads (JBool True) (lit ''true'') [Val (JBool True)]"
  "reads (JBool False) (lit ''false'') [Val (JBool False)]"
  by (rule reads_bare; simp add: lit_def bare_char_def ascii_defs read_bare_def)+

lemma reads_text: "reads (JStr s) (json_string s) [Text s]"
  by (simp add: reads_def lex_json_string)

lemma reads_elements:
  assumes "list_all2 (\<lambda>v u. \<exists>ts. reads v u ts) vs us" "vs \<noteq> []"
  shows "\<exists>ts. (\<forall>s. lex Between (joined 44 us @ 93 # s) = emits (ts @ [RBrack]) (lex Between s)) \<and>
    (\<forall>acc fs rest. read_tokens Value (InList acc # fs) (ts @ RBrack # rest) =
        read_tokens (Have (JList (acc @ vs))) fs rest) \<and>
    ts \<noteq> [] \<and> hd ts \<noteq> RBrack"
  using assms
proof (induction vs us rule: list_all2_induct)
  case (Cons v vs u us)
  then obtain tv where tv: "reads v u tv" by blast
  show ?case
  proof (cases "vs = []")
    case True
    with Cons have "us = []" by simp
    then show ?thesis using True readsD [OF tv] by (intro exI [of _ tv]) (simp add: lex_punctuation)
  next
    case False
    with Cons.IH obtain ts where
      lx: "\<And>s. lex Between (joined 44 us @ 93 # s) = emits (ts @ [RBrack]) (lex Between s)" and
      rd: "\<And>acc fs rest. read_tokens Value (InList acc # fs) (ts @ RBrack # rest) =
        read_tokens (Have (JList (acc @ vs))) fs rest" by blast
    from False Cons have "us \<noteq> []" by auto
    then obtain u' us' where us: "us = u' # us'" by (cases us) auto
    have "lex Between (joined 44 (u # us) @ 93 # s) = emits ((tv @ Comma # ts) @ [RBrack]) (lex Between s)" for s
      using lx [of s] by (simp add: us readsD(1) [OF tv] lex_punctuation)
    moreover have "read_tokens Value (InList acc # fs) ((tv @ Comma # ts) @ RBrack # rest) =
        read_tokens (Have (JList (acc @ v # vs))) fs rest" for acc fs rest
      using rd [of "acc @ [v]" fs rest] by (simp add: readsD(2) [OF tv])
    ultimately show ?thesis using readsD(3,4) [OF tv] by (intro exI [of _ "tv @ Comma # ts"]) simp
  qed
qed simp

lemma read_tokens_begin: "ts \<noteq> [] \<Longrightarrow> hd ts \<noteq> RBrack \<Longrightarrow>
    read_tokens ValueOrEnd fs (ts @ rest) = read_tokens Value fs (ts @ rest)"
proof -
  assume a: "ts \<noteq> []" "hd ts \<noteq> RBrack"
  then obtain t ts' where t: "ts = t # ts'" "t \<noteq> RBrack" by (cases ts) auto
  then have "read_token ValueOrEnd fs t = read_token Value fs t" by (cases fs; cases t; cases "hd fs") auto
  then show ?thesis by (simp add: t(1))
qed

lemma reads_list:
  assumes "list_all2 (\<lambda>v u. \<exists>ts. reads v u ts) vs us"
  shows "\<exists>ts. reads (JList vs) (91 # joined 44 us @ [93]) ts"
proof (cases "vs = []")
  case True
  with assms have "us = []" by simp
  with True show ?thesis by (intro exI [of _ "[LBrack, RBrack]"]) (simp add: reads_def lex_punctuation)
next
  case False
  obtain ts where ts: "\<And>s. lex Between (joined 44 us @ 93 # s) = emits (ts @ [RBrack]) (lex Between s)"
    "\<And>acc fs rest. read_tokens Value (InList acc # fs) (ts @ RBrack # rest) =
        read_tokens (Have (JList (acc @ vs))) fs rest" "ts \<noteq> []" "hd ts \<noteq> RBrack"
    using reads_elements [OF assms False] by blast
  have "read_tokens Value fs ((LBrack # ts @ [RBrack]) @ rest) = read_tokens (Have (JList vs)) fs rest" for fs rest
    using ts(2) [of "[]" fs rest] read_tokens_begin [OF ts(3,4), of "InList [] # fs" "RBrack # rest"] by simp
  then show ?thesis
    using ts(1) by (intro exI [of _ "LBrack # ts @ [RBrack]"]) (simp add: reads_def lex_punctuation)
qed

text \<open>Members from a point where a key may stand.\<close>

lemma reads_members:
  assumes "list_all2 (\<lambda>(k, v) u. \<exists>w t ts. list_all json_space w \<and> u = w @ json_string k @ 58 # t \<and> reads v t ts) kvs us"
    "kvs \<noteq> []" "distinct (map fst kvs)"
  shows "\<exists>ts. (\<forall>s. lex Between (joined 44 us @ 125 # s) = emits (ts @ [RBrace]) (lex Between s)) \<and>
    (\<forall>acc fs rest. fst ` set acc \<inter> fst ` set kvs = {} \<longrightarrow> read_tokens (Key acc) fs (ts @ RBrace # rest) =
        read_tokens (Have (JObj (acc @ kvs))) fs rest) \<and> (\<exists>k ts'. ts = Text k # ts')"
  using assms
proof (induction kvs us rule: list_all2_induct)
  case (Cons kv kvs u us)
  obtain k v where kv: "kv = (k, v)" by (cases kv)
  with Cons obtain w t tv where u: "list_all json_space w" "u = w @ json_string k @ 58 # t" and tv: "reads v t tv" by auto
  let ?m = "Text k # ColonT # tv"
  note set = dict_set_fresh [of k _ v]
  have lu: "lex Between (u @ s) = emits ?m (lex Between s)" if "s = [] \<or> \<not> bare_char (hd s)" for s
    using that by (simp add: u lex_spaces lex_json_string lex_punctuation readsD(1) [OF tv])
  show ?case
  proof (cases "kvs = []")
    case True
    with Cons have "us = []" by simp
    then show ?thesis using True set
      by (intro exI [of _ ?m]) (simp add: kv lu lex_punctuation readsD(2) [OF tv])
  next
    case False
    have d: "distinct (map fst kvs)" using Cons.prems by simp
    from Cons.IH [OF False d] obtain ts where
      lx: "\<And>s. lex Between (joined 44 us @ 125 # s) = emits (ts @ [RBrace]) (lex Between s)" and
      rd: "\<And>acc fs rest. fst ` set acc \<inter> fst ` set kvs = {} \<Longrightarrow>
        read_tokens (Key acc) fs (ts @ RBrace # rest) = read_tokens (Have (JObj (acc @ kvs))) fs rest" by blast
    from False Cons have "us \<noteq> []" by auto
    then obtain u' us' where us: "us = u' # us'" by (cases us) auto
    have "lex Between (joined 44 (u # us) @ 125 # s) = emits ((?m @ Comma # ts) @ [RBrace]) (lex Between s)" for s
      using lx [of s] by (simp add: us lu lex_punctuation)
    moreover have "read_tokens (Key acc) fs ((?m @ Comma # ts) @ RBrace # rest) =
        read_tokens (Have (JObj (acc @ kv # kvs))) fs rest"
      if "fst ` set acc \<inter> fst ` set (kv # kvs) = {}" for acc fs rest
    proof -
      have k: "k \<notin> fst ` set acc" "k \<notin> fst ` set kvs" using that Cons.prems kv by auto
      then have "fst ` set (acc @ [(k, v)]) \<inter> fst ` set kvs = {}" using that by auto
      then show ?thesis using rd [of "acc @ [(k, v)]" fs rest] set [OF k(1)] by (simp add: kv readsD(2) [OF tv])
    qed
    ultimately show ?thesis by (intro exI [of _ "?m @ Comma # ts"]) simp
  qed
qed simp

lemma reads_dict:
  assumes "list_all2 (\<lambda>(k, v) u. \<exists>w t ts. list_all json_space w \<and> u = w @ json_string k @ 58 # t \<and> reads v t ts) kvs us"
    "distinct (map fst kvs)"
  shows "\<exists>ts. reads (JObj kvs) (123 # joined 44 us @ [125]) ts"
proof (cases "kvs = []")
  case True
  with assms have "us = []" by simp
  with True show ?thesis by (intro exI [of _ "[LBrace, RBrace]"]) (simp add: reads_def lex_punctuation)
next
  case False
  obtain ts k ts' where ts: "\<And>s. lex Between (joined 44 us @ 125 # s) = emits (ts @ [RBrace]) (lex Between s)"
    "\<And>fs rest. read_tokens (Key []) fs (ts @ RBrace # rest) = read_tokens (Have (JObj kvs)) fs rest"
    "ts = Text k # ts'"
    using reads_members [OF assms(1) False assms(2)] by (metis append_Nil image_empty inf_bot_left list.set(1))
  have "read_tokens Value fs ((LBrace # ts @ [RBrace]) @ rest) = read_tokens (Have (JObj kvs)) fs rest" for fs rest
    using ts(2) [of fs rest] by (simp add: ts(3))
  then show ?thesis
    using ts(1) by (intro exI [of _ "LBrace # ts @ [RBrace]"]) (simp add: reads_def lex_punctuation)
qed

lemma those_list_all2: "those (map f xs) = Some ys \<Longrightarrow> list_all2 (\<lambda>x y. f x = Some y) xs ys"
  by (induction xs arbitrary: ys) (auto split: option.splits)

lemma reads_dumps:
  "dumps ft v = Some u \<Longrightarrow> readable ft v \<Longrightarrow> \<exists>ts. reads v u ts"
proof (induction v arbitrary: u)
  case (JInt n)
  then show ?case using reads_bare [OF _ _ read_bare_int_text] int_text_bare by (auto simp del: int_text.simps)
next
  case (JFloat x)
  then show ?case
    by (cases x) (auto simp: float_reads_back_def intro: reads_bare)
next
  case (JStr s)
  then show ?case using reads_text by auto
next
  case (JList vs)
  then obtain us where us: "those (map (dumps ft) vs) = Some us" "u = 91 # joined 44 us @ [93]"
    by (auto split: option.splits)
  have "list_all2 (\<lambda>v u. \<exists>ts. reads v u ts) vs us"
    using those_list_all2 [OF us(1)] JList.IH JList.prems(2)
    by (auto simp: list_all2_conv_all_nth list_all_iff)
  then show ?case using reads_list us(2) by blast
next
  case (JObj kvs)
  let ?f = "\<lambda>(k, v). map_option (\<lambda>t. json_string k @ 58 # t) (dumps ft v)"
  from JObj obtain us where us: "those (map ?f kvs) = Some us" "u = 123 # joined 44 us @ [125]"
    by (auto split: option.splits)
  have "list_all2 (\<lambda>(k, v) u. \<exists>w t ts. list_all json_space w \<and> u = w @ json_string k @ 58 # t \<and> reads v t ts) kvs us"
    using those_list_all2 [OF us(1)]
  proof (rule list.rel_mono_strong)
    fix x y
    assume x: "x \<in> set kvs" "?f x = Some y"
    obtain k v where kv: "x = (k, v)" by (cases x)
    with x obtain t where t: "dumps ft v = Some t" "y = [] @ json_string k @ 58 # t" by (auto split: option.splits)
    then obtain ts where "reads v t ts"
      using JObj.IH [of x v] JObj.prems(2) x(1) kv by (fastforce simp: list_all_iff)
    then have "\<exists>w t ts. list_all json_space w \<and> y = w @ json_string k @ 58 # t \<and> reads v t ts"
      using t(2) by (intro exI [of _ "[]"] exI [of _ t] exI [of _ ts]) simp
    then show "(\<lambda>(k, v) u. \<exists>w t ts. list_all json_space w \<and> u = w @ json_string k @ 58 # t \<and> reads v t ts) x y"
      by (simp add: kv)
  qed
  then show ?case using reads_dict us(2) JObj.prems(2) by auto
qed (auto intro: reads_words split: if_splits)

lemma loads_dumps:
  assumes "dumps ft v = Some u" "readable ft v"
  shows "loads u = Some v"
proof -
  obtain ts where ts: "reads v u ts" using reads_dumps [OF assms] by blast
  have "lex Between u = emits ts (Some [])" using readsD(1) [OF ts, of "[]"] by simp
  moreover have "read_tokens Value [] ts = Some v" using readsD(2) [OF ts, of "[]" "[]"] by simp
  ultimately show ?thesis by (simp add: loads_def emits_def)
qed

lemma dumps_no_bom: "dumps ft v = Some u \<Longrightarrow> readable ft v \<Longrightarrow> u \<noteq> [] \<and> hd u < 128"
proof -
  have d: "fmt_dec 0 n \<noteq> [] \<and> hd (fmt_dec 0 n) < 128" for n
    using fmt_dec_digits [of "hd (fmt_dec 0 n)" 0 n] by (simp add: fmt_dec_def ascii_digit_def)
  have b: "bare_char c \<Longrightarrow> c < 128" for c by (auto simp: bare_char_def ascii_defs)
  assume "dumps ft v = Some u" "readable ft v"
  then show ?thesis
  proof (cases v)
    case (JFloat x)
    then show ?thesis using \<open>dumps ft v = Some u\<close> \<open>readable ft v\<close> b
      by (cases x) (auto simp: float_reads_back_def neq_Nil_conv)
  qed (use d in \<open>auto simp: lit_def json_string_def split: option.splits if_splits\<close>)
qed

lemma utf8_hd: "utf8 u = Some bs \<Longrightarrow> u \<noteq> [] \<Longrightarrow> hd u < 128 \<Longrightarrow> bs \<noteq> [] \<and> hd bs < 128"
  by (cases u) (auto simp: utf8_def utf8_char_def split: option.splits)

text \<open>No JSON text holds a zero, so UTF-8 is never taken for one of the wider encodings.\<close>

lemma lex_no_zero: "lex q s = Some ts \<Longrightarrow> 0 \<notin> set s"
proof (induction q s arbitrary: ts rule: lex.induct)
  case (4 c s)
  have "\<not> json_space 0" "punctuation 0 = None" "\<not> bare_char 0"
    by (simp_all add: json_space_def punctuation_def bare_char_def ascii_defs)
  then show ?case using 4 by (cases "c = 0") (auto simp: lex.simps emit_def split: if_splits option.splits)
next
  case (5 w c s)
  have n: "\<not> bare_char 0" by (simp add: bare_char_def ascii_defs)
  show ?case
  proof (cases "bare_char c")
    case True
    with n have "c \<noteq> 0" by metis
    then show ?thesis using True 5 by (simp add: lex.simps)
  next
    case False
    then have "lex (Bare w) (c # s) = emit (map_option Val (read_bare w)) (lex Between (c # s))"
      by (subst lex.simps) simp
    with 5 False show ?thesis by (auto simp: emit_def split: option.splits)
  qed
next
  case (7 acc c s)
  have "map_of escapes 0 = None" by (simp add: escapes_def)
  then show ?case using 7 by (cases "c = 0") (auto simp: lex.simps split: if_splits option.splits)
next
  case (8 acc ds c s)
  have "base_digit 16 0 = None" by (simp add: base_digit_def alnum_value_def ascii_defs)
  then show ?case using 8 by (cases "c = 0") (auto simp: lex.simps split: if_splits option.splits)
qed (auto simp: lex.simps emit_def split: if_splits option.splits)

lemma loads_no_zero: "loads u = Some v \<Longrightarrow> 0 \<notin> set u"
  by (auto simp: loads_def dest: lex_no_zero split: option.splits)

lemma utf8_zero: "utf8 u = Some bs \<Longrightarrow> 0 \<in> set bs \<Longrightarrow> 0 \<in> set u"
proof (induction u arbitrary: bs)
  case (Cons c u)
  then obtain x xs where x: "utf8_char c = Some x" "those (map utf8_char u) = Some xs" "bs = x @ concat xs"
    by (auto simp: utf8_def split: option.splits)
  have "0 \<in> set x \<Longrightarrow> c = 0" using x(1) by (auto simp: utf8_char_def split: if_splits)
  moreover have "utf8 u = Some (concat xs)" using x(2) by (simp add: utf8_def)
  ultimately show ?case using Cons.IH Cons.prems(2) x(3) by auto
qed (simp add: utf8_def)

lemma decode_detected_utf8:
  assumes "bs \<noteq> []" "hd bs < 128" "0 \<notin> set bs"
  shows "decode_detected bs = utf8_decode True bs"
proof -
  obtain a r where bs: "bs = a # r" using assms(1) by (cases bs) auto
  show ?thesis
  proof (cases r)
    case (Cons b r')
    then have "a \<noteq> 0" "b \<noteq> 0" "a < 128" using assms bs by auto
    then show ?thesis by (simp add: decode_detected_def bs Cons)
  qed (use assms bs in \<open>simp add: decode_detected_def\<close>)
qed

lemma loads_bytes_utf8:
  assumes "utf8 u = Some bs" "\<forall>c \<in> set u. c < 0x110000" "u \<noteq> []" "hd u < 128" "loads u = Some v"
  shows "loads_bytes bs = Some v"
proof -
  have "0 \<notin> set bs" using utf8_zero [OF assms(1)] loads_no_zero [OF assms(5)] by blast
  then have "decode_detected bs = utf8_decode True bs"
    using utf8_hd [OF assms(1, 3, 4)] by (simp add: decode_detected_utf8)
  then show ?thesis using utf8_decode_utf8 [OF assms(1, 2)] assms(5) by (simp add: loads_bytes_def)
qed

lemma canonical_json_loads:
  assumes "canonical_json ft v = Inr bs" "readable ft (strip_nulls v)" "\<forall>c \<in> json_chars v. c < 0x110000"
    "\<forall>x. \<forall>c \<in> set (ft x). c < 0x110000"
  shows "loads_bytes bs = Some (strip_nulls v)"
proof -
  obtain u where u: "dumps ft (strip_nulls v) = Some u" "utf8 u = Some bs"
    using assms(1) by (auto simp: canonical_json_def split: option.splits)
  have "\<forall>c \<in> set u. c < 0x110000"
    using dumps_chars [OF u(1)] assms(3,4) json_chars_strip_nulls [of v] by fastforce
  then show ?thesis
    using loads_bytes_utf8 [OF u(2)] dumps_no_bom [OF u(1) assms(2)] loads_dumps [OF u(1) assms(2)] by blast
qed

text \<open>
  C40. What is signed reads back: when \<open>canonical_json\<close> produces bytes, \<open>json.loads\<close> of these
  bytes is the value that was signed, with its null members dropped and everything else as it was,
  for every value whose keys are distinct, whose integers have at most 4300 digits, and whose floats are
  written as the shortest text that reads back.
\<close>

theorem canonical_json_reads_back:
  assumes "canonical_json ft v = Inr bs" "readable ft (strip_nulls v)" "\<forall>c \<in> json_chars v. c < 0x110000"
    "\<forall>x. \<forall>c \<in> set (ft x). c < 0x110000"
  shows "loads_bytes bs = Some (strip_nulls v)"
  using assms by (rule canonical_json_loads)

definition sample_json :: json where
  "sample_json = JObj [(lit ''header'', JObj [(lit ''indatim'', JInt 1672531200000), (lit ''inno'', JNull)]),
     (lit ''body'', JList [JObj [(lit ''sstt'', JStr [0x6A9, 34, 10]), (lit ''am'', JFloat (Fin 2))]])]"

theorem canonical_json_reads_back_witness:
  "\<exists>bs. canonical_json (\<lambda>_. lit ''2.0'') sample_json = Inr bs \<and> loads_bytes bs = Some (strip_nulls sample_json)"
proof -
  let ?ft = "\<lambda>_. lit ''2.0''"
  have "read_number (lit ''2.0'') = Some (JFloat (rnd 2))"
    by (simp add: read_number_def lit_def ascii_digit_def read_exponent_def dec_digits_def digits_value_def power_of_ten_def)
  also have "rnd 2 = Fin 2" using rnd_int [of 2] by simp
  finally have "read_bare (lit ''2.0'') = Some (JFloat (Fin 2))"
    by (subst read_bare_number) (simp_all add: lit_def ascii_digit_def)
  then have f: "float_reads_back ?ft (Fin 2)"
    by (simp add: float_reads_back_def) (simp add: lit_def bare_char_def ascii_defs)
  have n: "length (int_text 1672531200000) \<le> max_int_digits"
    using length_digits_of [of 10 1672531200000 13] by (simp add: fmt_dec_0 max_int_digits_def)
  have s: "strip_nulls sample_json = JObj [(lit ''header'', JObj [(lit ''indatim'', JInt 1672531200000)]),
     (lit ''body'', JList [JObj [(lit ''sstt'', JStr [0x6A9, 34, 10]), (lit ''am'', JFloat (Fin 2))]])]"
    by (simp add: sample_json_def)
  have r: "readable ?ft (strip_nulls sample_json)" using f n by (simp add: s del: int_text.simps)
  have c: "\<forall>c \<in> json_chars sample_json. c < 0x80 \<or> c = 0x6A9" by (simp add: sample_json_def lit_def)
  have ft: "\<forall>x. \<forall>c \<in> set (?ft x). c < 0x80" by (simp add: lit_def)
  obtain bs where bs: "canonical_json ?ft sample_json = Inr bs"
  proof -
    have "\<forall>c \<in> json_chars sample_json. \<not> surrogate c" using c by (auto simp: surrogate_def)
    moreover have "\<forall>x. \<forall>c \<in> set (?ft x). \<not> surrogate c" using ft by (auto simp: surrogate_def)
    moreover have "\<forall>x \<in> set (json_floats sample_json). finite_float x"
      by (simp add: sample_json_def finite_float_def)
    ultimately show ?thesis using canonical_json_total [of sample_json ?ft] that by blast
  qed
  have "loads_bytes bs = Some (strip_nulls sample_json)"
    by (rule canonical_json_reads_back [OF bs r]) (use c ft in fastforce)+
  with bs show ?thesis by blast
qed

end
