(* ===== verification/Jose.thy ===== *)
theory Jose
  imports JsonText Responses
begin

text \<open>
  \<open>crypto/signatory.py\<close> and \<open>crypto/encryptor.py\<close>: base64, the compact JWS of the taxpayer and the
  compact JWE to the tax organisation.

  The RSA and AES operations of the \<open>cryptography\<close> package are parameters, and so is the random
  source; the clock is the broken-down UTC time. Base64 is that of \<open>base64\<close> and \<open>binascii\<close>,
  which skips foreign characters unless it validates.
\<close>

section \<open>Base64\<close>

definition b64_char :: "bool \<Rightarrow> nat \<Rightarrow> nat" where
  "b64_char url n =
     (if n < 26 then n + 65 else if n < 52 then n + 71 else if n < 62 then n - 4
      else if n = 62 then (if url then 45 else 43) else (if url then 95 else 47))"

text \<open>\<open>urlsafe_b64decode\<close> translates \<open>-_\<close> to \<open>+/\<close> and leaves \<open>+/\<close> alone.\<close>

definition b64_value :: "bool \<Rightarrow> nat \<Rightarrow> nat option" where
  "b64_value url c =
     (if ascii_upper_letter c then Some (c - 65)
      else if ascii_lower_letter c then Some (c - 71)
      else if ascii_digit c then Some (c + 4)
      else if c = 43 \<or> (url \<and> c = 45) then Some 62
      else if c = 47 \<or> (url \<and> c = 95) then Some 63
      else None)"

fun b64_data :: "bool \<Rightarrow> nat list \<Rightarrow> pystr" where
  "b64_data url [] = []"
| "b64_data url [a] = [b64_char url (a div 4), b64_char url (a mod 4 * 16)]"
| "b64_data url [a, b] =
     [b64_char url (a div 4), b64_char url (a mod 4 * 16 + b div 16), b64_char url (b mod 16 * 4)]"
| "b64_data url (a # b # c # bs) =
     b64_char url (a div 4) # b64_char url (a mod 4 * 16 + b div 16) #
     b64_char url (b mod 16 * 4 + c div 64) # b64_char url (c mod 64) # b64_data url bs"

definition b64_pads :: "nat list \<Rightarrow> pystr" where
  "b64_pads bs = replicate ((3 - length bs mod 3) mod 3) 61"

text \<open>\<open>base64.b64encode\<close>, and \<open>b64url\<close> which strips the padding again.\<close>

definition b64encode :: "nat list \<Rightarrow> pystr" where
  "b64encode bs = b64_data False bs @ b64_pads bs"

definition b64url :: "nat list \<Rightarrow> pystr" where
  "b64url bs = rev (dropWhile (\<lambda>c. c = 61) (rev (b64_data True bs @ b64_pads bs)))"

text \<open>
  \<open>binascii.a2b_base64\<close>: the position in the group of four, the bits left over, the padding seen
  in this group and whether padding has been seen at all.
\<close>

fun a2b_base64 :: "bool \<Rightarrow> bool \<Rightarrow> nat \<Rightarrow> nat \<Rightarrow> nat \<Rightarrow> bool \<Rightarrow> pystr \<Rightarrow> nat list option" where
  "a2b_base64 url strict quad left pads padded [] = (if quad = 0 then Some [] else None)"
| "a2b_base64 url strict quad left pads padded (c # s) =
     (if c = 61 then
        if 2 \<le> quad \<and> 4 \<le> quad + pads + 1 then (if strict \<and> s \<noteq> [] then None else Some [])
        else a2b_base64 url strict quad left (if 2 \<le> quad then pads + 1 else pads) True s
      else
        case b64_value url c of
          None \<Rightarrow> if strict then None else a2b_base64 url strict quad left pads padded s
        | Some v \<Rightarrow>
            if strict \<and> padded then None
            else if quad = 0 then a2b_base64 url strict 1 v 0 padded s
            else if quad = 1 then
              map_option (\<lambda>bs. (left * 4 + v div 16) # bs) (a2b_base64 url strict 2 (v mod 16) 0 padded s)
            else if quad = 2 then
              map_option (\<lambda>bs. (left * 16 + v div 4) # bs) (a2b_base64 url strict 3 (v mod 4) 0 padded s)
            else
              map_option (\<lambda>bs. (left * 64 + v) # bs) (a2b_base64 url strict 0 0 0 padded s))"

definition ascii :: "pystr \<Rightarrow> bool" where
  "ascii s = list_all (\<lambda>c. c < 128) s"

text \<open>\<open>base64.b64decode(s, validate=True)\<close>; a text outside ASCII is a \<open>ValueError\<close>.\<close>

definition b64decode_strict :: "pystr \<Rightarrow> nat list option" where
  "b64decode_strict s =
     (if \<not> ascii s \<or> (s \<noteq> [] \<and> hd s = 61) then None else a2b_base64 False True 0 0 0 False s)"

definition b64url_decode :: "pystr \<Rightarrow> nat list option" where
  "b64url_decode s =
     (if \<not> ascii s then None
      else a2b_base64 True False 0 0 0 False (s @ replicate ((4 - length s mod 4) mod 4) 61))"

section \<open>Headers\<close>

text \<open>\<open>json.dumps\<close> with \<open>ensure_ascii\<close>: everything outside printable ASCII is a \<open>\u\<close> escape.\<close>

definition u_escape :: "nat \<Rightarrow> pystr" where
  "u_escape c = [92, 117, hex_lower (c div 4096), hex_lower (c div 256 mod 16),
     hex_lower (c div 16 mod 16), hex_lower (c mod 16)]"

definition ascii_char :: "nat \<Rightarrow> pystr" where
  "ascii_char c =
     (if c < 127 then [c]
      else if c < 0x10000 then u_escape c
      else u_escape (0xD800 + (c - 0x10000) div 1024) @ u_escape (0xDC00 + (c - 0x10000) mod 1024))"

text \<open>A header holds no float, so writing it cannot fail.\<close>

definition header_text :: "json \<Rightarrow> pystr" where
  "header_text h = (case dumps (\<lambda>_. []) h of None \<Rightarrow> [] | Some t \<Rightarrow> concat (map ascii_char t))"

record utc_time =
  u_year :: nat
  u_month :: nat
  u_day :: nat
  u_hour :: nat
  u_minute :: nat
  u_second :: nat

text \<open>\<open>strftime("%Y-%m-%dT%H:%M:%SZ")\<close> of a year after 999.\<close>

definition sig_time :: "utc_time \<Rightarrow> pystr" where
  "sig_time t = fmt_dec 4 (u_year t) @ [45] @ fmt_dec 2 (u_month t) @ [45] @ fmt_dec 2 (u_day t) @ [84] @
     fmt_dec 2 (u_hour t) @ [58] @ fmt_dec 2 (u_minute t) @ [58] @ fmt_dec 2 (u_second t) @ [90]"

definition protected_header :: "nat list \<Rightarrow> utc_time \<Rightarrow> json" where
  "protected_header der t = JObj
     [(lit ''crit'', JList [JStr (lit ''sigT'')]),
      (lit ''sigT'', JStr (sig_time t)),
      (lit ''x5c'', JList [JStr (b64encode der)]),
      (lit ''alg'', JStr (lit ''RS256''))]"

section \<open>Signing\<close>

text \<open>The private key and the certificate of the taxpayer; \<open>None\<close> is a failing \<open>sign\<close>.\<close>

record credentials =
  rsa_sign :: "nat list \<Rightarrow> nat list option"
  cred_der :: "nat list"

definition jws_sign :: "credentials \<Rightarrow> utc_time \<Rightarrow> nat list \<Rightarrow> pystr result" where
  "jws_sign cr t data =
     (let protected = b64url (header_text (protected_header (cred_der cr) t));
          signing_input = protected @ [46] @ b64url data
      in case rsa_sign cr signing_input of
           None \<Rightarrow> Inl CryptographyError
         | Some sig \<Rightarrow> Inr (signing_input @ [46] @ b64url sig))"

section \<open>Encryption\<close>

datatype 'key loaded_key = NotDer | NotRsa | RsaKey 'key

text \<open>\<open>ServerKey.public_key\<close>, over \<open>load_der_public_key\<close>.\<close>

definition load_server_key :: "(nat list \<Rightarrow> 'key loaded_key) \<Rightarrow> pystr \<Rightarrow> 'key result" where
  "load_server_key load_der key =
     (case b64decode_strict key of
        None \<Rightarrow> Inl CryptographyError
      | Some der \<Rightarrow> (case load_der der of RsaKey k \<Rightarrow> Inr k | _ \<Rightarrow> Inl CryptographyError))"

text \<open>What \<open>os.urandom\<close> and the padding of OAEP draw for one packet.\<close>

record entropy =
  e_cek :: "nat list"
  e_iv :: "nat list"
  e_seed :: "nat list"

record 'key cipher_suite =
  oaep_encrypt :: "'key \<Rightarrow> nat list \<Rightarrow> nat list \<Rightarrow> nat list option"
  gcm_encrypt :: "nat list \<Rightarrow> nat list \<Rightarrow> nat list \<Rightarrow> nat list \<Rightarrow> nat list option"

definition TAG_BYTES :: nat where "TAG_BYTES = 16"

definition jwe_header :: "pystr \<Rightarrow> json" where
  "jwe_header kid = JObj
     [(lit ''alg'', JStr (lit ''RSA-OAEP-256'')), (lit ''enc'', JStr (lit ''A256GCM'')), (lit ''kid'', JStr kid)]"

definition jwe_encrypt :: "'key cipher_suite \<Rightarrow> 'key \<Rightarrow> pystr \<Rightarrow> entropy \<Rightarrow> pystr \<Rightarrow> pystr result" where
  "jwe_encrypt cs key kid e plaintext =
     (let protected = b64url (header_text (jwe_header kid))
      in case (oaep_encrypt cs key (e_seed e) (e_cek e), utf8 plaintext) of
           (Some encrypted_key, Some text) \<Rightarrow>
             (case gcm_encrypt cs (e_cek e) (e_iv e) text protected of
                None \<Rightarrow> Inl CryptographyError
              | Some sealed \<Rightarrow>
                  let n = length sealed - TAG_BYTES in
                  Inr (joined 46 [protected, b64url encrypted_key, b64url (e_iv e),
                    b64url (take n sealed), b64url (drop n sealed)]))
         | _ \<Rightarrow> Inl CryptographyError)"

text \<open>What \<open>build_packet\<close> does with the canonical bytes of an invoice.\<close>

definition seal_invoice ::
    "credentials \<Rightarrow> utc_time \<Rightarrow> 'key cipher_suite \<Rightarrow> 'key \<Rightarrow> pystr \<Rightarrow> entropy \<Rightarrow> nat list \<Rightarrow> pystr result" where
  "seal_invoice cr t cs key kid e data = bindE (jws_sign cr t data) (jwe_encrypt cs key kid e)"

text \<open>\<open>NonceAuthenticator.bearer_token\<close> over the nonce it fetched.\<close>

definition bearer_token :: "(rat \<Rightarrow> pystr) \<Rightarrow> credentials \<Rightarrow> utc_time \<Rightarrow> pystr \<Rightarrow> pystr \<Rightarrow> pystr result" where
  "bearer_token ft cr t nonce_text client_id =
     bindE (canonical_json ft (JObj [(lit ''nonce'', JStr nonce_text), (lit ''clientId'', JStr client_id)])) (\<lambda>data.
     bindE (jws_sign cr t data) (\<lambda>jws. Inr (lit ''Bearer '' @ jws)))"

section \<open>Reading back base64\<close>

lemma b64_value_char: "n < 64 \<Longrightarrow> b64_value url (b64_char url n) = Some n"
  by (cases "n < 26"; cases "n < 52"; cases "n < 62"; cases "n = 62") (auto simp: b64_value_def b64_char_def ascii_defs)

lemma b64_char_ascii: "n < 64 \<Longrightarrow> 43 \<le> b64_char url n \<and> b64_char url n < 127 \<and> b64_char url n \<noteq> 61 \<and> b64_char url n \<noteq> 46"
  by (auto simp: b64_char_def)

lemma sextets:
  fixes a b :: nat
  assumes "a < 256" "b < 256"
  shows "a div 4 < 64" "a mod 4 * 16 < 64" "a mod 4 * 16 + b div 16 < 64" "b mod 16 * 4 < 64"
    "b mod 16 * 4 + a div 64 < 64" "a mod 64 < 64"
  using assms by auto

lemma a2b_char:
  assumes "x < 64"
  shows "a2b_base64 url strict 0 l p False (b64_char url x # s) = a2b_base64 url strict 1 x 0 False s"
    "a2b_base64 url strict (Suc 0) l p False (b64_char url x # s) =
      map_option (\<lambda>bs. (l * 4 + x div 16) # bs) (a2b_base64 url strict 2 (x mod 16) 0 False s)"
    "a2b_base64 url strict 2 l p False (b64_char url x # s) =
      map_option (\<lambda>bs. (l * 16 + x div 4) # bs) (a2b_base64 url strict 3 (x mod 4) 0 False s)"
    "a2b_base64 url strict 3 l p False (b64_char url x # s) =
      map_option (\<lambda>bs. (l * 64 + x) # bs) (a2b_base64 url strict 0 0 0 False s)"
  using b64_value_char [OF assms] b64_char_ascii [OF assms] by simp_all

lemma a2b_pads:
  "a2b_base64 url strict 2 l 0 False [61, 61] = Some []" "a2b_base64 url strict 3 l 0 False [61] = Some []"
  "a2b_base64 url strict 0 l 0 False [] = Some []"
  by simp_all

declare a2b_base64.simps [simp del]

lemma join_bits:
  fixes a b :: nat
  assumes "b < 256"
  shows "a div 4 * 4 + (a mod 4 * 16 + b div 16) div 16 = a" "(a mod 4 * 16 + b div 16) mod 16 = b div 16"
    "b div 16 * 16 + (b mod 16 * 4 + a div 64) div 4 = (if a < 256 then b else b div 16 * 16 + (b mod 16 * 4 + a div 64) div 4)"
    "a < 256 \<Longrightarrow> (b mod 16 * 4 + a div 64) mod 4 = a div 64" "a div 64 * 64 + a mod 64 = a"
proof -
  have b: "b div 16 < 16" using assms by simp
  then show "a div 4 * 4 + (a mod 4 * 16 + b div 16) div 16 = a" by simp
  show "(a mod 4 * 16 + b div 16) mod 16 = b div 16" using b by simp
  show "b div 16 * 16 + (b mod 16 * 4 + a div 64) div 4 = (if a < 256 then b else b div 16 * 16 + (b mod 16 * 4 + a div 64) div 4)"
    by simp
  show "a < 256 \<Longrightarrow> (b mod 16 * 4 + a div 64) mod 4 = a div 64" by simp
  show "a div 64 * 64 + a mod 64 = a" by simp
qed

lemma a2b_data:
  "\<forall>b \<in> set bs. b < 256 \<Longrightarrow> a2b_base64 url strict 0 0 0 False (b64_data url bs @ b64_pads bs) = Some bs"
proof (induction url bs rule: b64_data.induct)
  case (2 url a)
  have p: "b64_pads [a] = [61, 61]" by (simp add: b64_pads_def numeral_2_eq_2)
  have "a < 256" using "2.prems" by simp
  then show ?case using sextets(1,2) [of a 0] join_bits(1) [of 0 a] by (simp add: p a2b_char a2b_pads)
next
  case (3 url a b)
  have p: "b64_pads [a, b] = [61]" by (simp add: b64_pads_def)
  have "a < 256" "b < 256" using "3.prems" by simp_all
  then show ?case
    using sextets(1,3,4) [of a b] join_bits(1,2) [of b a] by (simp add: p a2b_char a2b_pads)
next
  case (4 url a b c bs)
  have p: "b64_pads (a # b # c # bs) = b64_pads bs" by (simp add: b64_pads_def)
  have "a < 256" "b < 256" "c < 256" "\<forall>b \<in> set bs. b < 256" using "4.prems" by auto
  then show ?case
    using "4.IH" sextets(1,3) [of a b] sextets(5,6) [of c b] join_bits(1,2) [of b a] join_bits(3,4,5) [of b c]
    by (simp add: p a2b_char a2b_pads)
qed (simp add: b64_pads_def a2b_pads)

lemma length_b64_data:
  "length (b64_data url bs) mod 4 = (if length bs mod 3 = 0 then 0 else length bs mod 3 + 1)"
proof (induction url bs rule: b64_data.induct)
  case (4 url a b c bs)
  have "length (a # b # c # bs) mod 3 = length bs mod 3" "(length (b64_data url bs) + 4) mod 4 = length (b64_data url bs) mod 4"
    by simp_all
  with 4 show ?case by simp
qed simp_all

lemma pads_mod: "(4 - (if n mod 3 = 0 then 0 else n mod 3 + 1)) mod 4 = (3 - n mod 3) mod (3::nat)"
proof -
  have "n mod 3 < 3" by simp
  then consider "n mod 3 = 0" | "n mod 3 = 1" | "n mod 3 = 2" by linarith
  then show ?thesis by cases simp_all
qed

definition b64_text :: "pystr \<Rightarrow> bool" where
  "b64_text s = list_all (\<lambda>c. 43 \<le> c \<and> c < 127 \<and> c \<noteq> 61 \<and> c \<noteq> 46) s"

lemma b64_data_text: "\<forall>b \<in> set bs. b < 256 \<Longrightarrow> b64_text (b64_data url bs)"
proof (induction url bs rule: b64_data.induct)
  case (2 url a)
  then show ?case using sextets [of a 0] by (simp add: b64_text_def b64_char_ascii)
next
  case (3 url a b)
  then show ?case using sextets [of a b] by (simp add: b64_text_def b64_char_ascii)
next
  case (4 url a b c bs)
  then show ?case using sextets [of a b] sextets [of c b] by (simp add: b64_text_def b64_char_ascii)
qed (simp add: b64_text_def)

lemma b64url_data:
  assumes "\<forall>b \<in> set bs. b < 256"
  shows "b64url bs = b64_data True bs"
proof -
  have t: "b64_text (rev (b64_data True bs))" using b64_data_text [OF assms] by (simp add: b64_text_def)
  have "dropWhile (\<lambda>c. c = 61) (replicate n 61 @ s) = dropWhile (\<lambda>c. c = 61) s" for n :: nat and s :: pystr
    by (induction n) simp_all
  moreover have "dropWhile (\<lambda>c. c = 61) s = s" if "b64_text s" for s
    using that by (cases s) (simp_all add: b64_text_def)
  ultimately show ?thesis using t by (simp add: b64url_def b64_pads_def)
qed

lemma b64url_text: "\<forall>b \<in> set bs. b < 256 \<Longrightarrow> b64_text (b64url bs)"
  by (simp add: b64url_data b64_data_text)

lemma b64_text_ascii: "b64_text s \<Longrightarrow> ascii s" and b64_text_no_dot: "b64_text s \<Longrightarrow> 46 \<notin> set s"
  by (auto simp: b64_text_def ascii_def list_all_iff)

text \<open>
  Unpadded base64url reads back: decoding what \<open>b64url\<close> writes gives the same bytes, and the text
  holds neither a dot nor padding, so the segments of a token can be told apart.
\<close>

lemma b64url_reads_back:
  assumes "\<forall>b \<in> set bs. b < 256"
  shows "b64url_decode (b64url bs) = Some bs \<and> 46 \<notin> set (b64url bs) \<and> 61 \<notin> set (b64url bs)"
proof -
  have "(4 - length (b64_data True bs) mod 4) mod 4 = (3 - length bs mod 3) mod 3"
    unfolding length_b64_data by (rule pads_mod)
  then show ?thesis
    using a2b_data [OF assms, of True False] b64_data_text [OF assms, of True] b64_text_ascii
    by (auto simp: b64url_decode_def b64url_data [OF assms] b64_pads_def b64_text_def list_all_iff)
qed

lemma b64encode_reads_back:
  assumes "\<forall>b \<in> set bs. b < 256"
  shows "b64decode_strict (b64encode bs) = Some bs"
proof -
  have t: "b64_text (b64_data False bs)" using b64_data_text [OF assms] .
  then have "ascii (b64encode bs)"
    by (auto simp: ascii_def b64encode_def b64_pads_def b64_text_def list_all_iff)
  moreover have "b64encode bs = [] \<or> hd (b64encode bs) \<noteq> 61"
    using t by (cases "(False, bs)" rule: b64_data.cases) (auto simp: b64encode_def b64_pads_def b64_text_def)
  ultimately show ?thesis
    using a2b_data [OF assms, of False True] by (auto simp: b64decode_strict_def b64encode_def)
qed

end
