(* ===== verification/Client.thy ===== *)
theory Client
  imports Wire Jose Pipeline ErrorCodes
begin

text \<open>
  \<open>client/endpoints.py\<close>, \<open>NonceAuthenticator\<close> of \<open>client/auth.py\<close> and \<open>MoadianClient\<close> of
  \<open>client/api.py\<close>: the URLs and query parameters, the token minted for every request, and one
  operation per resource.

  The network is a function of the client: it takes a request and its own state and gives a reply,
  or nothing where \<open>httpx\<close> raises an \<open>HTTPError\<close>. The clock of the signature is read off that
  state too.
\<close>

section \<open>URLs\<close>

definition lstrip_char :: "nat \<Rightarrow> pystr \<Rightarrow> pystr" where
  "lstrip_char c s = dropWhile (\<lambda>x. x = c) s"

definition rstrip_char :: "nat \<Rightarrow> pystr \<Rightarrow> pystr" where
  "rstrip_char c s = rev (dropWhile (\<lambda>x. x = c) (rev s))"

definition API_PREFIX :: pystr where "API_PREFIX = lit ''/api/v2/''"

definition NONCE :: pystr where "NONCE = lit ''nonce''"
definition SERVER_INFORMATION :: pystr where "SERVER_INFORMATION = lit ''server-information''"
definition INVOICE :: pystr where "INVOICE = lit ''invoice''"
definition INVOICE_PAYMENT :: pystr where "INVOICE_PAYMENT = lit ''invoice-payment''"
definition INQUIRY :: pystr where "INQUIRY = lit ''inquiry''"
definition INQUIRY_BY_UID :: pystr where "INQUIRY_BY_UID = lit ''inquiry-by-uid''"
definition INQUIRY_BY_REFERENCE_ID :: pystr where "INQUIRY_BY_REFERENCE_ID = lit ''inquiry-by-reference-id''"
definition INQUIRY_INVOICE_STATUS :: pystr where "INQUIRY_INVOICE_STATUS = lit ''inquiry-invoice-status''"
definition TAXPAYER :: pystr where "TAXPAYER = lit ''taxpayer''"
definition TAXPAYER_INFO :: pystr where "TAXPAYER_INFO = lit ''taxpayer-info''"
definition TAXPAYER_ARTICLE6_STATUS :: pystr where
  "TAXPAYER_ARTICLE6_STATUS = lit ''taxpayer-article6-status''"
definition FISCAL_INFORMATION :: pystr where "FISCAL_INFORMATION = lit ''fiscal-information''"

definition build_url :: "pystr \<Rightarrow> pystr \<Rightarrow> pystr" where
  "build_url base endpoint = rstrip_char 47 base @ API_PREFIX @ lstrip_char 47 endpoint"

section \<open>Query times\<close>

text \<open>A \<open>datetime\<close>: its fields, and its offset from UTC in seconds unless it is naive.\<close>

record query_time =
  q_fields :: utc_time
  q_micro :: nat
  q_offset :: "int option"

text \<open>
  \<open>format_query_datetime\<close> of a year after 999. \<open>zone\<close> is the offset of Tehran at a local time.
\<close>

definition format_query_datetime :: "(query_time \<Rightarrow> int) \<Rightarrow> query_time \<Rightarrow> pystr" where
  "format_query_datetime zone m =
     (let t = q_fields m;
          offset = (case q_offset m of None \<Rightarrow> zone m | Some s \<Rightarrow> s);
          total_minutes = offset div 60;
          sign = (if total_minutes < 0 then 45 else 43);
          hours = nat \<bar>total_minutes\<bar> div 60;
          minutes = nat \<bar>total_minutes\<bar> mod 60
      in fmt_dec 4 (u_year t) @ [45] @ fmt_dec 2 (u_month t) @ [45] @ fmt_dec 2 (u_day t) @ [84] @
         fmt_dec 2 (u_hour t) @ [58] @ fmt_dec 2 (u_minute t) @ [58] @ fmt_dec 2 (u_second t) @ [46] @
         fmt_dec 6 (q_micro m) @ [48, 48, 48] @ [sign] @ fmt_dec 2 hours @ [58] @ fmt_dec 2 minutes)"

section \<open>Requests\<close>

record http_request =
  hq_method :: pystr
  hq_url :: pystr
  hq_params :: "(pystr \<times> pystr) list"
  hq_content :: "nat list option"
  hq_headers :: "(pystr \<times> pystr) list"

record 'n client =
  cl_base_url :: pystr
  cl_client_id :: pystr
  cl_credentials :: credentials
  cl_time_to_live :: int
  cl_transport :: "http_request \<Rightarrow> 'n \<Rightarrow> http_reply option \<times> 'n"
  cl_now :: "'n \<Rightarrow> utc_time"
  cl_coercions :: coercions
  cl_float_text :: "rat \<Rightarrow> pystr"
  cl_zone :: "query_time \<Rightarrow> int"

definition JSON_HEADERS :: "(pystr \<times> pystr) list" where
  "JSON_HEADERS = [(lit ''Accept'', lit ''application/json'')]"

definition JSON_CONTENT_TYPE :: "(pystr \<times> pystr) list" where
  "JSON_CONTENT_TYPE = (lit ''Content-Type'', lit ''application/json'') # JSON_HEADERS"

definition AUTHORIZATION :: pystr where "AUTHORIZATION = lit ''Authorization''"

definition send :: "'n client \<Rightarrow> http_request \<Rightarrow> ('n, http_reply) io" where
  "send cl q = (\<lambda>n.
     case cl_transport cl q n of
       (None, n') \<Rightarrow> (Inl TransportError, n')
     | (Some r, n') \<Rightarrow> (Inr r, n'))"

section \<open>Tokens\<close>

definition MIN_TIME_TO_LIVE :: int where "MIN_TIME_TO_LIVE = 10"
definition MAX_TIME_TO_LIVE :: int where "MAX_TIME_TO_LIVE = 200"

definition check_time_to_live :: "int \<Rightarrow> unit result" where
  "check_time_to_live ttl =
     (if MIN_TIME_TO_LIVE \<le> ttl \<and> ttl \<le> MAX_TIME_TO_LIVE then Inr () else Inl ConfigurationError)"

definition nonce_request :: "'n client \<Rightarrow> http_request" where
  "nonce_request cl =
     \<lparr>hq_method = lit ''GET'', hq_url = build_url (cl_base_url cl) NONCE,
      hq_params = [(lit ''timeToLive'', int_text (cl_time_to_live cl))], hq_content = None,
      hq_headers = JSON_HEADERS\<rparr>"

definition fetch_nonce :: "'n client \<Rightarrow> ('n, nonce_response) io" where
  "fetch_nonce cl =
     bindM (send cl (nonce_request cl)) (\<lambda>r.
     bindM (liftM (raise_for_api_error (cl_coercions cl) r)) (\<lambda>_.
       liftM (decode_model read_nonce r)))"

definition token_for :: "'n client \<Rightarrow> nonce_response \<Rightarrow> 'n \<Rightarrow> pystr result" where
  "token_for cl challenge n =
     bearer_token (cl_float_text cl) (cl_credentials cl) (cl_now cl n) (nonce challenge) (cl_client_id cl)"

definition fresh_token :: "'n client \<Rightarrow> ('n, pystr) io" where
  "fresh_token cl = bindM (fetch_nonce cl) (\<lambda>challenge n. (token_for cl challenge n, n))"

section \<open>Resources\<close>

definition resource_request ::
    "'n client \<Rightarrow> pystr \<Rightarrow> pystr \<Rightarrow> (pystr \<times> pystr) list \<Rightarrow> nat list option \<Rightarrow> pystr \<Rightarrow> http_request" where
  "resource_request cl verb endpoint params content token =
     \<lparr>hq_method = verb, hq_url = build_url (cl_base_url cl) endpoint, hq_params = params, hq_content = content,
      hq_headers = dict_set AUTHORIZATION token (if content = None then JSON_HEADERS else JSON_CONTENT_TYPE)\<rparr>"

text \<open>\<open>_request\<close>\<close>

definition call ::
    "'n client \<Rightarrow> pystr \<Rightarrow> pystr \<Rightarrow> (pystr \<times> pystr) list \<Rightarrow> nat list option \<Rightarrow> ('n, http_reply) io" where
  "call cl verb endpoint params content =
     bindM (fresh_token cl) (\<lambda>token.
     bindM (send cl (resource_request cl verb endpoint params content token)) (\<lambda>r.
     bindM (liftM (raise_for_api_error (cl_coercions cl) r)) (\<lambda>_.
       returnM r)))"

abbreviation get :: "'n client \<Rightarrow> pystr \<Rightarrow> (pystr \<times> pystr) list \<Rightarrow> ('n, http_reply) io" where
  "get cl endpoint params \<equiv> call cl (lit ''GET'') endpoint params None"

abbreviation post :: "'n client \<Rightarrow> pystr \<Rightarrow> nat list \<Rightarrow> ('n, http_reply) io" where
  "post cl endpoint content \<equiv> call cl (lit ''POST'') endpoint [] (Some content)"

definition time_range :: "'n client \<Rightarrow> query_time option \<Rightarrow> query_time option \<Rightarrow> (pystr \<times> pystr) list" where
  "time_range cl start until =
     (case start of None \<Rightarrow> [] | Some m \<Rightarrow> [(lit ''start'', format_query_datetime (cl_zone cl) m)]) @
     (case until of None \<Rightarrow> [] | Some m \<Rightarrow> [(lit ''end'', format_query_datetime (cl_zone cl) m)])"

definition client_server_information :: "'n client \<Rightarrow> ('n, server_information) io" where
  "client_server_information cl =
     bindM (get cl SERVER_INFORMATION []) (\<lambda>r.
       liftM (decode_model (read_server_information (cl_coercions cl)) r))"

definition oversized_batch :: exn where
  "oversized_batch = TaxApiError \<lparr>status_code = None,
     api_errors = [(lit ''4143'', (case describe (lit ''4143'') of None \<Rightarrow> [] | Some m \<Rightarrow> m))],
     request_trace_id = None\<rparr>"

definition client_submit_invoices :: "'n client \<Rightarrow> packet list \<Rightarrow> ('n, batch_response) io" where
  "client_submit_invoices cl packets =
     (if MAX_PACKETS < length packets then raiseM oversized_batch
      else
        bindM (liftM (canonical_json (cl_float_text cl) (JList (map packet_json packets)))) (\<lambda>content.
        bindM (post cl INVOICE content) (\<lambda>r.
          liftM (decode_model (read_batch (cl_coercions cl)) r))))"

definition client_inquiry_by_reference_id ::
    "'n client \<Rightarrow> pystr list \<Rightarrow> query_time option \<Rightarrow> query_time option \<Rightarrow> ('n, inquiry_result list) io" where
  "client_inquiry_by_reference_id cl references start until =
     bindM (get cl INQUIRY_BY_REFERENCE_ID
        (map (\<lambda>x. (lit ''referenceIds'', x)) references @ time_range cl start until)) (\<lambda>r.
       liftM (decode_model_list (read_inquiry (cl_coercions cl)) r))"

definition client_inquiry_by_uid ::
    "'n client \<Rightarrow> pystr list \<Rightarrow> pystr \<Rightarrow> query_time option \<Rightarrow> query_time option \<Rightarrow> ('n, inquiry_result list) io" where
  "client_inquiry_by_uid cl uids fiscal_id start until =
     bindM (get cl INQUIRY_BY_UID
        ((lit ''fiscalId'', fiscal_id) # map (\<lambda>x. (lit ''uidList'', x)) uids @ time_range cl start until)) (\<lambda>r.
       liftM (decode_model_list (read_inquiry (cl_coercions cl)) r))"

definition client_inquiry_by_time ::
    "'n client \<Rightarrow> query_time \<Rightarrow> query_time option \<Rightarrow> pystr option \<Rightarrow> int \<Rightarrow> int \<Rightarrow> ('n, inquiry_result list) io" where
  "client_inquiry_by_time cl start until status page_number page_size =
     bindM (get cl INQUIRY
        (time_range cl (Some start) until @
         (case status of None \<Rightarrow> [] | Some s \<Rightarrow> [(lit ''status'', s)]) @
         [(lit ''pageNumber'', int_text page_number), (lit ''pageSize'', int_text page_size)])) (\<lambda>r.
       liftM (decode_model_list (read_inquiry (cl_coercions cl)) r))"

definition client_invoice_status :: "'n client \<Rightarrow> pystr list \<Rightarrow> ('n, invoice_status_result list) io" where
  "client_invoice_status cl tax_ids =
     bindM (get cl INQUIRY_INVOICE_STATUS (map (\<lambda>x. (lit ''taxIds'', x)) tax_ids)) (\<lambda>r.
       liftM (decode_model_list read_invoice_status r))"

definition client_taxpayer :: "'n client \<Rightarrow> pystr \<Rightarrow> ('n, taxpayer_result) io" where
  "client_taxpayer cl economic_code =
     bindM (get cl TAXPAYER [(lit ''economicCode'', economic_code)]) (\<lambda>r.
       liftM (decode_model read_taxpayer r))"

definition client_taxpayer_info :: "'n client \<Rightarrow> pystr \<Rightarrow> ('n, taxpayer_result) io" where
  "client_taxpayer_info cl economic_code =
     bindM (get cl TAXPAYER_INFO [(lit ''economicCode'', economic_code)]) (\<lambda>r.
       liftM (decode_model read_taxpayer r))"

definition client_fiscal_information :: "'n client \<Rightarrow> pystr \<Rightarrow> ('n, fiscal_result) io" where
  "client_fiscal_information cl memory =
     bindM (get cl FISCAL_INFORMATION [(lit ''memoryId'', memory)]) (\<lambda>r.
       liftM (decode_model read_fiscal r))"

definition client_article6_status :: "'n client \<Rightarrow> pystr \<Rightarrow> int \<Rightarrow> int \<Rightarrow> ('n, json) io" where
  "client_article6_status cl economic_code vat_value period =
     bindM (get cl TAXPAYER_ARTICLE6_STATUS
        [(lit ''economicCode'', economic_code), (lit ''vatValue'', int_text vat_value),
         (lit ''period'', int_text period)]) (\<lambda>r.
       liftM (decode_json_body r))"

definition client_register_payment :: "'n client \<Rightarrow> members \<Rightarrow> ('n, json) io" where
  "client_register_payment cl request =
     bindM (liftM (canonical_json (cl_float_text cl) (JObj request))) (\<lambda>content.
     bindM (post cl INVOICE_PAYMENT content) (\<lambda>r.
       liftM (decode_json_body r)))"

text \<open>The pipeline of a client: its three calls are the client's.\<close>

definition with_client :: "'w client \<Rightarrow> 'w services \<Rightarrow> 'w services" where
  "with_client cl sv =
     sv\<lparr>get_server_information := client_server_information cl,
        submit_invoices := client_submit_invoices cl,
        inquiry_by_reference_id := (\<lambda>ids. client_inquiry_by_reference_id cl ids None None)\<rparr>"

end
