(* ===== verification/Keys.thy ===== *)
theory Keys
  imports Client Profiles
begin

text \<open>
  \<open>crypto/keys.py\<close>, \<open>config/keyring.py\<close> and the part of \<open>config/settings.py\<close> that picks files and
  addresses: which certificate and key an environment signs with, how they are read and checked, and
  the client that is built from a profile.

  The file system is a function of the path. The parsers of the \<open>cryptography\<close> package and what they
  read are parameters; a parser gives nothing where it raises \<open>ValueError\<close> or \<open>TypeError\<close>. Of a
  report the fields the code decides are modelled, not the wording of its message.
\<close>

section \<open>Files\<close>

record disk_file =
  f_bytes :: "nat list option"
  f_regular :: bool
  f_mode :: nat

type_synonym file_system = "pystr \<Rightarrow> disk_file option"

definition is_file :: "file_system \<Rightarrow> pystr \<Rightarrow> bool" where
  "is_file fs p = (case fs p of None \<Rightarrow> False | Some f \<Rightarrow> f_regular f)"

definition read_bytes :: "file_system \<Rightarrow> pystr \<Rightarrow> nat list option" where
  "read_bytes fs p = Option.bind (fs p) f_bytes"

section \<open>Certificates and keys\<close>

datatype public_half = RsaNumbers int int | SizedKey | SizelessKey

datatype 'key pem_key = NoKey | OtherKey | RsaPrivate 'key

record ('cert, 'key) key_library =
  load_pem_cert :: "nat list \<Rightarrow> 'cert option"
  load_der_cert :: "nat list \<Rightarrow> 'cert option"
  load_pem_key :: "nat list \<Rightarrow> pystr option \<Rightarrow> 'key pem_key"
  public_half_of :: "'cert \<Rightarrow> public_half"
  key_numbers :: "'key \<Rightarrow> int \<times> int"
  valid_from :: "'cert \<Rightarrow> int"
  valid_until :: "'cert \<Rightarrow> int"
  der_of :: "'cert \<Rightarrow> nat list"
  sign_with :: "'key \<Rightarrow> nat list \<Rightarrow> nat list option"

definition BEGIN_MARK :: "nat list" where "BEGIN_MARK = lit ''-----BEGIN''"

text \<open>The white space of \<open>bytes.split()\<close>.\<close>

definition byte_space :: "nat \<Rightarrow> bool" where
  "byte_space b \<longleftrightarrow> b \<in> {9, 10, 11, 12, 13, 32}"

definition armour_lines :: "nat list \<Rightarrow> nat list" where
  "armour_lines content =
     lit ''-----BEGIN CERTIFICATE-----'' @ [10] @ joined 10 (chunks 64 content) @ [10] @
     lit ''-----END CERTIFICATE-----'' @ [10]"

definition armour :: "nat list \<Rightarrow> nat list option" where
  "armour data =
     (let content = filter (\<lambda>b. \<not> byte_space b) data
      in if content = [] then None
         else case b64decode_strict content of None \<Rightarrow> None | Some _ \<Rightarrow> Some (armour_lines content))"

definition load_certificate :: "('cert, 'key) key_library \<Rightarrow> nat list \<Rightarrow> 'cert result" where
  "load_certificate ks data =
     (case (if contains BEGIN_MARK data then load_pem_cert ks data else load_der_cert ks data) of
        Some c \<Rightarrow> Inr c
      | None \<Rightarrow>
          (case armour data of
             None \<Rightarrow> Inl CertificateError
           | Some armoured \<Rightarrow>
               (case load_pem_cert ks armoured of None \<Rightarrow> Inl CertificateError | Some c \<Rightarrow> Inr c)))"

definition load_private_key :: "('cert, 'key) key_library \<Rightarrow> nat list \<Rightarrow> pystr option \<Rightarrow> 'key result" where
  "load_private_key ks data password =
     (case load_pem_key ks data password of RsaPrivate k \<Rightarrow> Inr k | _ \<Rightarrow> Inl CertificateError)"

record ('cert, 'key) signing_credentials =
  sc_certificate :: 'cert
  sc_private_key :: 'key

definition from_pem ::
    "('cert, 'key) key_library \<Rightarrow> nat list \<Rightarrow> nat list \<Rightarrow> pystr option \<Rightarrow> ('cert, 'key) signing_credentials result" where
  "from_pem ks cert_pem key_pem password =
     bindE (load_certificate ks cert_pem) (\<lambda>c.
     bindE (load_private_key ks key_pem password) (\<lambda>k.
       Inr \<lparr>sc_certificate = c, sc_private_key = k\<rparr>))"

definition from_files ::
    "('cert, 'key) key_library \<Rightarrow> file_system \<Rightarrow> pystr \<Rightarrow> pystr \<Rightarrow> pystr option \<Rightarrow>
     ('cert, 'key) signing_credentials result" where
  "from_files ks fs cert_path key_path password =
     (case (read_bytes fs cert_path, read_bytes fs key_path) of
        (Some cert_bytes, Some key_bytes) \<Rightarrow> from_pem ks cert_bytes key_bytes password
      | _ \<Rightarrow> Inl CertificateError)"

definition keys_match :: "('cert, 'key) key_library \<Rightarrow> 'cert \<Rightarrow> 'key \<Rightarrow> bool" where
  "keys_match ks c k = (case public_half_of ks c of RsaNumbers n e \<Rightarrow> (n, e) = key_numbers ks k | _ \<Rightarrow> False)"

definition assert_usable ::
    "('cert, 'key) key_library \<Rightarrow> int \<Rightarrow> ('cert, 'key) signing_credentials \<Rightarrow> unit result" where
  "assert_usable ks now cr =
     (let c = sc_certificate cr in
      if now < valid_from ks c then Inl CertificateError
      else if valid_until ks c < now then Inl CertificateError
      else
        case public_half_of ks c of
          RsaNumbers n e \<Rightarrow> if (n, e) \<noteq> key_numbers ks (sc_private_key cr) then Inl CertificateError else Inr ()
        | _ \<Rightarrow> Inl CertificateError)"

section \<open>Settings\<close>

record settings =
  set_sandbox_base_url :: pystr
  set_production_base_url :: pystr
  set_nonce_time_to_live :: int
  set_certificate_path :: "pystr option"
  set_private_key_path :: "pystr option"
  set_sandbox_certificate_path :: "pystr option"
  set_sandbox_private_key_path :: "pystr option"
  set_production_certificate_path :: "pystr option"
  set_production_private_key_path :: "pystr option"
  set_instance_dir :: pystr

definition default_settings :: settings where
  "default_settings = \<lparr>set_sandbox_base_url = lit ''https://sandboxrc.tax.gov.ir/requestsmanager'',
     set_production_base_url = lit ''https://tp.tax.gov.ir/requestsmanager'', set_nonce_time_to_live = 30,
     set_certificate_path = None, set_private_key_path = None, set_sandbox_certificate_path = None,
     set_sandbox_private_key_path = None, set_production_certificate_path = None,
     set_production_private_key_path = None, set_instance_dir = lit ''instance''\<rparr>"

definition settings_base_url :: "settings \<Rightarrow> environment \<Rightarrow> pystr" where
  "settings_base_url st e = (if is_production e then set_production_base_url st else set_sandbox_base_url st)"

definition or_else :: "'a option \<Rightarrow> 'a option \<Rightarrow> 'a option" where
  "or_else a b = (case a of None \<Rightarrow> b | Some x \<Rightarrow> Some x)"

record signing_material =
  sm_environment :: environment
  sm_certificate_path :: "pystr option"
  sm_private_key_path :: "pystr option"

definition signing_material_of :: "settings \<Rightarrow> environment \<Rightarrow> signing_material" where
  "signing_material_of st e =
     (let certificate = or_else (if is_production e then set_production_certificate_path st
                                 else set_sandbox_certificate_path st) (set_certificate_path st);
          private_key = or_else (if is_production e then set_production_private_key_path st
                                 else set_sandbox_private_key_path st) (set_private_key_path st)
      in \<lparr>sm_environment = e, sm_certificate_path = certificate, sm_private_key_path = private_key\<rparr>)"

definition serial_counter_path :: "settings \<Rightarrow> pystr \<Rightarrow> pystr" where
  "serial_counter_path st memory = set_instance_dir st @ lit ''/serial-'' @ memory"

text \<open>\<open>passphrase\<close>: the configured value, else the one of the process environment.\<close>

definition passphrase :: "pystr option \<Rightarrow> pystr option \<Rightarrow> pystr option" where
  "passphrase configured environ =
     (let v = (case configured of Some s \<Rightarrow> if s = [] then environ else Some s | None \<Rightarrow> environ)
      in if v = Some [] then None else v)"

section \<open>The key ring\<close>

datatype material_problem = NoCertificatePath | NoKeyPath | CertificateAbsent | KeyAbsent

text \<open>\<open>require\<close>, with the reason its message names.\<close>

definition require_paths :: "file_system \<Rightarrow> signing_material \<Rightarrow> material_problem + pystr \<times> pystr" where
  "require_paths fs m =
     (case (sm_certificate_path m, sm_private_key_path m) of
        (None, _) \<Rightarrow> Inl NoCertificatePath
      | (Some _, None) \<Rightarrow> Inl NoKeyPath
      | (Some c, Some k) \<Rightarrow>
          if \<not> is_file fs c then Inl CertificateAbsent
          else if \<not> is_file fs k then Inl KeyAbsent
          else Inr (c, k))"

definition require_material :: "file_system \<Rightarrow> signing_material \<Rightarrow> (pystr \<times> pystr) result" where
  "require_material fs m = (case require_paths fs m of Inl _ \<Rightarrow> Inl ConfigurationError | Inr x \<Rightarrow> Inr x)"

definition load_material ::
    "('cert, 'key) key_library \<Rightarrow> file_system \<Rightarrow> pystr option \<Rightarrow> int \<Rightarrow> signing_material \<Rightarrow>
     ('cert, 'key) signing_credentials result" where
  "load_material ks fs password now m =
     bindE (require_material fs m) (\<lambda>(c, k).
     bindE (from_files ks fs c k password) (\<lambda>cr.
     bindE (assert_usable ks now cr) (\<lambda>_. Inr cr)))"

record material_status =
  ms_configured :: bool
  ms_path :: "pystr option"
  ms_exists :: bool
  ms_mode :: "nat option"
  ms_world_readable :: bool
  ms_error :: bool

text \<open>Group and world read are the bits \<open>0o40\<close> and \<open>0o4\<close>.\<close>

definition status_of :: "file_system \<Rightarrow> bool \<Rightarrow> pystr option \<Rightarrow> material_status" where
  "status_of fs expect_private path =
     (case path of
        None \<Rightarrow> \<lparr>ms_configured = False, ms_path = None, ms_exists = False, ms_mode = None,
                 ms_world_readable = False, ms_error = False\<rparr>
      | Some p \<Rightarrow>
          (case fs p of
             None \<Rightarrow> \<lparr>ms_configured = True, ms_path = Some p, ms_exists = False, ms_mode = None,
                      ms_world_readable = False, ms_error = True\<rparr>
           | Some f \<Rightarrow>
               let mode = f_mode f mod 0x1000; world = (odd (mode div 0x20) \<or> odd (mode div 4)) in
               \<lparr>ms_configured = True, ms_path = Some p, ms_exists = True, ms_mode = Some mode,
                ms_world_readable = world, ms_error = expect_private \<and> world\<rparr>))"

datatype verdict =
    MaterialProblem material_problem
  | CertificateUnreadable
  | KeyUnreadable
  | KeysDiffer
  | NotYetValid
  | Expired
  | Usable

record 'cert material_report =
  mr_ok :: bool
  mr_matches :: "bool option"
  mr_certificate :: "'cert option"
  mr_verdict :: verdict

text \<open>
  \<open>verify\<close>. Its summary asks the public key for its size, which not every kind of key has; the
  \<open>AttributeError\<close> that escapes is \<open>None\<close>.
\<close>

definition verify_material ::
    "('cert, 'key) key_library \<Rightarrow> file_system \<Rightarrow> pystr option \<Rightarrow> int \<Rightarrow> signing_material \<Rightarrow>
     'cert material_report option" where
  "verify_material ks fs password now m =
     (let report = (\<lambda>c mt v. Some \<lparr>mr_ok = False, mr_matches = mt, mr_certificate = c, mr_verdict = v\<rparr>)
      in case require_paths fs m of
           Inl p \<Rightarrow> report None None (MaterialProblem p)
         | Inr (cert_path, key_path) \<Rightarrow>
             (case Option.bind (read_bytes fs cert_path) (\<lambda>d. case load_certificate ks d of Inl _ \<Rightarrow> None | Inr c \<Rightarrow> Some c) of
                None \<Rightarrow> report None None CertificateUnreadable
              | Some c \<Rightarrow>
                  if public_half_of ks c = SizelessKey then None
                  else
                    case Option.bind (read_bytes fs key_path)
                           (\<lambda>d. case load_private_key ks d password of Inl _ \<Rightarrow> None | Inr k \<Rightarrow> Some k) of
                      None \<Rightarrow> report (Some c) None KeyUnreadable
                    | Some k \<Rightarrow>
                        if \<not> keys_match ks c k then report (Some c) (Some False) KeysDiffer
                        else if now < valid_from ks c then report (Some c) (Some True) NotYetValid
                        else if valid_until ks c < now then report (Some c) (Some True) Expired
                        else Some \<lparr>mr_ok = True, mr_matches = Some True, mr_certificate = Some c, mr_verdict = Usable\<rparr>))"

text \<open>What \<open>_report_signing_material\<close> logs at startup: one line for every distinct pair of paths.\<close>

datatype log_line = LogInfo environment | LogError environment | LogWarning environment

fun report_signing_material ::
    "(signing_material \<Rightarrow> 'cert material_report option) \<Rightarrow> settings \<Rightarrow> (pystr option \<times> pystr option) list \<Rightarrow>
     environment list \<Rightarrow> log_line list option" where
  "report_signing_material check st seen [] = Some []"
| "report_signing_material check st seen (e # es) =
     (let m = signing_material_of st e; pair = (sm_certificate_path m, sm_private_key_path m) in
      if pair \<in> set seen then report_signing_material check st seen es
      else
        Option.bind (check m) (\<lambda>r.
        Option.bind (report_signing_material check st (pair # seen) es) (\<lambda>lines.
          Some ((if mr_ok r then LogInfo e else if mr_matches r = Some False then LogError e else LogWarning e) # lines))))"

section \<open>The client of a profile\<close>

text \<open>What a client is given besides its profile: the network, the clock and the library's coercions.\<close>

record 'n surroundings =
  sr_transport :: "http_request \<Rightarrow> 'n \<Rightarrow> http_reply option \<times> 'n"
  sr_now :: "'n \<Rightarrow> utc_time"
  sr_coercions :: coercions
  sr_float_text :: "rat \<Rightarrow> pystr"
  sr_zone :: "query_time \<Rightarrow> int"

definition credentials_of :: "('cert, 'key) key_library \<Rightarrow> ('cert, 'key) signing_credentials \<Rightarrow> credentials" where
  "credentials_of ks cr =
     \<lparr>rsa_sign = sign_with ks (sc_private_key cr), cred_der = der_of ks (sc_certificate cr)\<rparr>"

definition make_client ::
    "'n surroundings \<Rightarrow> pystr \<Rightarrow> pystr \<Rightarrow> credentials \<Rightarrow> int \<Rightarrow> 'n client result" where
  "make_client sr url client_id cr ttl =
     bindE (check_time_to_live ttl) (\<lambda>_.
       Inr \<lparr>cl_base_url = url, cl_client_id = client_id, cl_credentials = cr, cl_time_to_live = ttl,
         cl_transport = sr_transport sr, cl_now = sr_now sr, cl_coercions = sr_coercions sr,
         cl_float_text = sr_float_text sr, cl_zone = sr_zone sr\<rparr>)"

definition client_from_settings ::
    "'n surroundings \<Rightarrow> settings \<Rightarrow> pystr \<Rightarrow> pystr \<Rightarrow> credentials \<Rightarrow> 'n client result" where
  "client_from_settings sr st environment_name client_id cr =
     bindE (parse_environment environment_name) (\<lambda>e.
       make_client sr (settings_base_url st e) client_id cr (set_nonce_time_to_live st))"

definition load_credentials ::
    "('cert, 'key) key_library \<Rightarrow> file_system \<Rightarrow> pystr option \<Rightarrow> int \<Rightarrow> settings \<Rightarrow> profile \<Rightarrow>
     ('cert, 'key) signing_credentials result" where
  "load_credentials ks fs password now st p =
     load_material ks fs password now (signing_material_of st (prof_environment p))"

definition client_from_profile ::
    "('cert, 'key) key_library \<Rightarrow> 'n surroundings \<Rightarrow> file_system \<Rightarrow> pystr option \<Rightarrow> int \<Rightarrow> settings \<Rightarrow> profile \<Rightarrow>
     'n client result" where
  "client_from_profile ks sr fs password now st p =
     bindE (validate_profile p) (\<lambda>_.
     bindE (load_credentials ks fs password now st p) (\<lambda>cr.
       make_client sr
         (case prof_base_url_override p of
            None \<Rightarrow> settings_base_url st (prof_environment p)
          | Some u \<Rightarrow> if u = [] then settings_base_url st (prof_environment p) else u)
         (prof_memory_id p) (credentials_of ks cr) (set_nonce_time_to_live st)))"

section \<open>The panel agrees with the signing path\<close>

lemma require_paths_agree:
  "require_paths fs m = Inl p \<Longrightarrow> require_material fs m = Inl ConfigurationError"
  "require_paths fs m = Inr x \<Longrightarrow> require_material fs m = Inr x"
  by (simp_all add: require_material_def)

lemma assert_usable_iff:
  "assert_usable ks now \<lparr>sc_certificate = c, sc_private_key = k\<rparr> = Inr () \<longleftrightarrow>
     keys_match ks c k \<and> valid_from ks c \<le> now \<and> now \<le> valid_until ks c"
  by (auto simp: assert_usable_def keys_match_def Let_def not_less split: public_half.splits if_splits)

lemma load_material_iff:
  "load_material ks fs password now m = Inr cr \<longleftrightarrow>
     (\<exists>cp kp cd kd. require_paths fs m = Inr (cp, kp) \<and> read_bytes fs cp = Some cd \<and> read_bytes fs kp = Some kd \<and>
        load_certificate ks cd = Inr (sc_certificate cr) \<and> load_private_key ks kd password = Inr (sc_private_key cr) \<and>
        keys_match ks (sc_certificate cr) (sc_private_key cr) \<and>
        valid_from ks (sc_certificate cr) \<le> now \<and> now \<le> valid_until ks (sc_certificate cr))"
proof -
  have "from_files ks fs cp kp password = Inr cr \<longleftrightarrow>
      (\<exists>cd kd. read_bytes fs cp = Some cd \<and> read_bytes fs kp = Some kd \<and>
         load_certificate ks cd = Inr (sc_certificate cr) \<and> load_private_key ks kd password = Inr (sc_private_key cr))" for cp kp
    by (cases cr) (auto simp: from_files_def from_pem_def py_splits split: option.splits)
  moreover have "assert_usable ks now cr = Inr () \<longleftrightarrow> keys_match ks (sc_certificate cr) (sc_private_key cr) \<and>
      valid_from ks (sc_certificate cr) \<le> now \<and> now \<le> valid_until ks (sc_certificate cr)"
    using assert_usable_iff by (cases cr) simp
  moreover have "require_material fs m = Inr x \<longleftrightarrow> require_paths fs m = Inr x" for x
    by (auto simp: require_material_def split: sum.splits)
  ultimately show ?thesis by (auto simp: load_material_def py_splits)
qed

text \<open>With both files readable, the pair loads when it fits and the certificate is in its window.\<close>

lemma load_pair_iff:
  assumes "require_paths fs m = Inr (cp, kp)" "read_bytes fs cp = Some cd" "load_certificate ks cd = Inr c"
    "read_bytes fs kp = Some kd" "load_private_key ks kd password = Inr k"
  shows "(\<exists>cr. load_material ks fs password now m = Inr cr \<and> P (sc_certificate cr)) \<longleftrightarrow>
    keys_match ks c k \<and> valid_from ks c \<le> now \<and> now \<le> valid_until ks c \<and> P c"
  using assms by (auto simp: load_material_iff intro!: exI [of _ "\<lparr>sc_certificate = c, sc_private_key = k\<rparr>"])

lemma parsed_Some:
  "Option.bind v (\<lambda>d. case f d of Inl _ \<Rightarrow> None | Inr x \<Rightarrow> Some x) = Some c \<longleftrightarrow> (\<exists>d. v = Some d \<and> f d = Inr c)"
  by (cases v) (auto split: sum.splits)

lemma parsed_None:
  "Option.bind v (\<lambda>d. case f d of Inl _ \<Rightarrow> None | Inr x \<Rightarrow> Some x) = None \<Longrightarrow> v = Some d \<Longrightarrow> f d \<noteq> Inr c"
  by auto

text \<open>
  C27. The check of the admin panel and the signing path agree: \<open>verify\<close> reports \<open>ok\<close> exactly when
  \<open>load\<close> gives credentials for the same files at the same moment, then it shows their certificate;
  and it answers unless the certificate holds a public key without a size, for which \<open>load\<close> fails too.
\<close>

theorem verify_agrees_with_load:
  "case verify_material ks fs password now m of
     None \<Rightarrow> (\<exists>cp kp cd c. require_paths fs m = Inr (cp, kp) \<and> read_bytes fs cp = Some cd \<and>
       load_certificate ks cd = Inr c \<and> public_half_of ks c = SizelessKey) \<and>
       (\<forall>cr. load_material ks fs password now m \<noteq> Inr cr)
   | Some r \<Rightarrow> (mr_ok r = (\<exists>cr. load_material ks fs password now m = Inr cr \<and>
       mr_certificate r = Some (sc_certificate cr)))"
proof (cases "require_paths fs m")
  case (Inl p)
  then show ?thesis by (simp add: verify_material_def load_material_iff)
next
  case (Inr ck)
  obtain cp kp where ck: "ck = (cp, kp)" by (cases ck)
  show ?thesis
  proof (cases "Option.bind (read_bytes fs cp) (\<lambda>d. case load_certificate ks d of Inl _ \<Rightarrow> None | Inr c \<Rightarrow> Some c)")
    case None
    with parsed_None [OF None] Inr ck show ?thesis by (auto simp: verify_material_def load_material_iff)
  next
    case (Some c)
    then obtain cd where cd: "read_bytes fs cp = Some cd" "load_certificate ks cd = Inr c"
      unfolding parsed_Some by blast
    show ?thesis
    proof (cases "public_half_of ks c = SizelessKey")
      case True
      then have "\<not> keys_match ks c k" for k by (simp add: keys_match_def)
      then show ?thesis using Some Inr ck cd True by (auto simp: verify_material_def load_material_iff)
    next
      case sized: False
      show ?thesis
      proof (cases "Option.bind (read_bytes fs kp)
          (\<lambda>d. case load_private_key ks d password of Inl _ \<Rightarrow> None | Inr k \<Rightarrow> Some k)")
        case None
        with parsed_None [OF None] Some sized Inr ck show ?thesis by (auto simp: verify_material_def load_material_iff)
      next
        case k: (Some k)
        then obtain kd where kd: "read_bytes fs kp = Some kd" "load_private_key ks kd password = Inr k"
          unfolding parsed_Some by blast
        show ?thesis using load_pair_iff [OF Inr [unfolded ck] cd kd] k Some sized Inr ck
          by (simp add: verify_material_def not_less)
      qed
    qed
  qed
qed

section \<open>Certificates without armour\<close>

lemma contains_set: "contains needle s \<Longrightarrow> set needle \<subseteq> set s"
proof (induction s)
  case (Cons c s)
  then show ?case using set_take_subset [of "length needle" "c # s"] by auto
qed simp

lemma b64_char_standard: "n < 64 \<Longrightarrow> b64_char False n \<noteq> 45"
  by (auto simp: b64_char_def)

lemma b64_data_standard: "\<forall>b \<in> set bs. b < 256 \<Longrightarrow> 45 \<notin> set (b64_data False bs)"
proof (induction "False" bs rule: b64_data.induct)
  case (2 a)
  then show ?case using sextets [of a 0] by (simp add: b64_char_standard not_sym)
next
  case (3 a b)
  then show ?case using sextets [of a b] by (simp add: b64_char_standard not_sym)
next
  case (4 a b c bs)
  then show ?case using sextets [of a b] sextets [of c b] by (simp add: b64_char_standard not_sym)
qed simp

text \<open>
  A certificate is read in all three forms it arrives in: from its DER bytes, and from their bare
  base64 text with white space anywhere, when that text is not itself DER and the PEM reader takes
  the base64 of a certificate between the armour lines.
\<close>

theorem bare_base64_certificate:
  assumes "\<forall>b \<in> set der. b < 256" "der \<noteq> []" "\<not> contains BEGIN_MARK der" "load_der_cert ks der = Some c"
    "load_pem_cert ks (armour_lines (b64encode der)) = Some c"
    "filter (\<lambda>b. \<not> byte_space b) data = b64encode der" "load_der_cert ks data = None"
  shows "load_certificate ks der = Inr c \<and> load_certificate ks data = Inr c"
proof
  show "load_certificate ks der = Inr c" using assms(3,4) by (simp add: load_certificate_def)
  have no_dash: "45 \<notin> set (b64encode der)"
    using b64_data_standard [OF assms(1)] by (auto simp: b64encode_def b64_pads_def)
  have "45 \<notin> set data"
  proof -
    have "45 \<in> set (filter (\<lambda>b. \<not> byte_space b) data)" if "45 \<in> set data"
      using that by (simp add: byte_space_def)
    with no_dash show ?thesis unfolding assms(6) by blast
  qed
  then have "\<not> contains BEGIN_MARK data" using contains_set [of BEGIN_MARK data] by (auto simp: BEGIN_MARK_def lit_def)
  moreover have "b64encode der \<noteq> []"
    using assms(2) by (cases "(False, der)" rule: b64_data.cases) (simp_all add: b64encode_def)
  ultimately show "load_certificate ks data = Inr c"
    using assms(5,7) b64encode_reads_back [OF assms(1)] by (simp add: load_certificate_def armour_def assms(6))
qed

text \<open>
  One certificate whose public key has no size stops the server: the check at startup raises when
  the sandbox holds such a certificate, whatever pair production is configured with.
\<close>

theorem sizeless_certificate_stops_startup:
  assumes "require_paths fs (signing_material_of st SANDBOX) = Inr (cert_path, key_path)"
    "read_bytes fs cert_path = Some data" "load_certificate ks data = Inr c" "public_half_of ks c = SizelessKey"
  shows "report_signing_material (verify_material ks fs password now) st [] [SANDBOX, PRODUCTION] = None"
  using assms by (simp add: verify_material_def Let_def)

section \<open>A concrete key ring\<close>

definition sample_keys :: "(nat list, nat) key_library" where
  "sample_keys = \<lparr>load_pem_cert = (\<lambda>d. if d = armour_lines (b64encode [48, 130, 1]) then Some [48, 130, 1] else None),
     load_der_cert = (\<lambda>d. if take 1 d = [48] then Some d else None),
     load_pem_key = (\<lambda>d pw. NoKey), public_half_of = (\<lambda>_. SizelessKey), key_numbers = (\<lambda>_. (0, 0)),
     valid_from = (\<lambda>_. 0), valid_until = (\<lambda>_. 0), der_of = id, sign_with = (\<lambda>_ _. None)\<rparr>"

theorem bare_base64_certificate_witness:
  "load_certificate sample_keys [48, 130, 1] = Inr [48, 130, 1] \<and>
   load_certificate sample_keys [77, 73, 13, 10, 73, 66] = Inr [48, 130, 1]"
proof (rule bare_base64_certificate)
  have e: "b64encode [48, 130, 1] = [77, 73, 73, 66]"
    by (simp add: b64encode_def b64_pads_def b64_char_def)
  show "load_pem_cert sample_keys (armour_lines (b64encode [48, 130, 1])) = Some [48, 130, 1]"
    by (simp add: sample_keys_def)
  show "filter (\<lambda>b. \<not> byte_space b) [77, 73, 13, 10, 73, 66] = b64encode [48, 130, 1]"
    unfolding e by (simp add: byte_space_def)
qed (simp_all add: sample_keys_def BEGIN_MARK_def lit_def)

definition sample_disk :: file_system where
  "sample_disk p = Some \<lparr>f_bytes = Some [48, 42], f_regular = True, f_mode = 0x1A4\<rparr>"

definition sample_settings :: settings where
  "sample_settings = default_settings\<lparr>set_certificate_path := Some [99], set_private_key_path := Some [107]\<rparr>"

theorem sizeless_certificate_stops_startup_witness:
  "report_signing_material (verify_material sample_keys sample_disk None 0) sample_settings [] [SANDBOX, PRODUCTION] = None"
  by (rule sizeless_certificate_stops_startup [of _ _ "[99]" "[107]" "[48, 42]" _ "[48, 42]"])
    (simp_all add: require_paths_def signing_material_of_def sample_settings_def default_settings_def or_else_def
      is_file_def sample_disk_def read_bytes_def load_certificate_def sample_keys_def BEGIN_MARK_def lit_def)

end
