(* ===== verification/Catalogue.thy ===== *)
theory Catalogue
  imports Persian Tables PyFloat Json "HOL-Library.List_Lexorder" "HOL-Library.Product_Lexorder"
begin

text \<open>
  \<open>store/catalogue.py\<close> and \<open>tools/import_catalogue.py\<close>: the published list of goods and services, its
  full-text index, and the import that replaces both.

  The table keeps its row ids; a column of the key that is \<open>NULL\<close> makes the key unlike every other.
  The ranking of the full-text index is a parameter that names row ids for a match expression, and so
  are the folding tables of \<open>persian.py\<close> and the reading of a float. Rows that tie in an \<open>ORDER BY\<close>
  stay in the order of the table. A CSV file is its parsed header and rows.
\<close>

section \<open>Rows\<close>

record catalogue_row =
  cr_stuff_id :: pystr
  cr_description :: pystr
  cr_vat_rate :: "pyfloat option"
  cr_taxable :: "pystr option"
  cr_run_date :: "pystr option"
  cr_expiration_date :: "pystr option"
  cr_kind :: "pystr option"
  cr_pricing :: "pystr option"
  cr_is_current :: bool

record catalogue =
  ca_rows :: "catalogue_row table"
  ca_index :: "(int \<times> pystr) list"
  ca_meta :: "(pystr \<times> pystr) list"

definition SCHEMA_VERSION :: int where "SCHEMA_VERSION = 1"
definition MAX_RESULTS :: int where "MAX_RESULTS = 100"

text \<open>Opening the file keeps what it holds and restates the version of the schema.\<close>

definition open_catalogue :: "catalogue \<Rightarrow> catalogue" where
  "open_catalogue c = c\<lparr>ca_meta := dict_set (lit ''schema_version'') (int_text SCHEMA_VERSION) (ca_meta c)\<rparr>"

definition empty_catalogue :: catalogue where
  "empty_catalogue = \<lparr>ca_rows = empty_table, ca_index = [], ca_meta = []\<rparr>"

section \<open>Replacing the catalogue\<close>

text \<open>\<open>UNIQUE (stuff_id, run_date, vat_rate)\<close>: no key where a column is \<open>NULL\<close>.\<close>

definition row_key :: "catalogue_row \<Rightarrow> (pystr \<times> pystr \<times> pyfloat) option" where
  "row_key r =
     (case (cr_run_date r, cr_vat_rate r) of
        (Some d, Some v) \<Rightarrow> Some (cr_stuff_id r, d, v)
      | _ \<Rightarrow> None)"

text \<open>\<open>INSERT OR IGNORE\<close>; a NaN is stored as \<open>NULL\<close>.\<close>

definition stored_row :: "catalogue_row \<Rightarrow> catalogue_row" where
  "stored_row r = (if cr_vat_rate r = Some NaN then r\<lparr>cr_vat_rate := None\<rparr> else r)"

definition insert_or_ignore :: "catalogue_row \<Rightarrow> catalogue_row table \<Rightarrow> catalogue_row table" where
  "insert_or_ignore r t =
     (let r' = stored_row r in
      if row_key r' \<noteq> None \<and> row_key r' \<in> row_key ` snd ` set (t_rows t) then t else snd (insert_row r' t))"

definition index_text :: "(pystr \<Rightarrow> pystr) \<Rightarrow> (pystr \<Rightarrow> pystr) \<Rightarrow> catalogue_row \<Rightarrow> pystr" where
  "index_text nfc casefold r = cr_stuff_id r @ [32] @ fold_text nfc casefold (cr_description r)"

text \<open>
  \<open>replace_all\<close> in one transaction: the rows come from an iterator that may raise after some of them,
  which leaves the catalogue as it was.
\<close>

definition replace_all ::
    "(pystr \<Rightarrow> pystr) \<Rightarrow> (pystr \<Rightarrow> pystr) \<Rightarrow> pystr \<Rightarrow> pystr \<Rightarrow> catalogue_row list \<times> bool \<Rightarrow> catalogue \<Rightarrow>
     nat option \<times> catalogue" where
  "replace_all nfc casefold now source rows c =
     (if snd rows then (None, c)
      else
        let t = foldl (\<lambda>t r. insert_or_ignore r t) ((ca_rows c)\<lparr>t_rows := []\<rparr>) (fst rows);
            meta = dict_set (lit ''source'') source (dict_set (lit ''imported_at'') now (ca_meta c))
        in (Some (length (t_rows t)),
            \<lparr>ca_rows = t, ca_index = map (\<lambda>(i, r). (i, index_text nfc casefold r)) (t_rows t), ca_meta = meta\<rparr>))"

section \<open>Reading\<close>

record catalogue_status =
  cs_total :: nat
  cs_current :: nat
  cs_superseded :: nat
  cs_imported_at :: "pystr option"
  cs_source :: "pystr option"
  cs_empty :: bool

definition catalogue_status_of :: "catalogue \<Rightarrow> catalogue_status" where
  "catalogue_status_of c =
     (let n = length (t_rows (ca_rows c)); m = length (filter (cr_is_current \<circ> snd) (t_rows (ca_rows c)))
      in \<lparr>cs_total = n, cs_current = m, cs_superseded = n - m,
          cs_imported_at = map_of (ca_meta c) (lit ''imported_at''),
          cs_source = (case map_of (ca_meta c) (lit ''source'') of Some [] \<Rightarrow> None | v \<Rightarrow> v), cs_empty = (n = 0)\<rparr>)"

definition rows_of :: "catalogue \<Rightarrow> catalogue_row list" where
  "rows_of c = map snd (t_rows (ca_rows c))"

text \<open>\<open>ORDER BY ... DESC\<close>; \<open>NULL\<close> is below every text.\<close>

definition sort_desc :: "('a \<Rightarrow> 'k :: linorder) \<Rightarrow> 'a list \<Rightarrow> 'a list" where
  "sort_desc key xs = rev (sort_key key (rev xs))"

definition null_first :: "pystr option \<Rightarrow> bool \<times> pystr" where
  "null_first v = (case v of None \<Rightarrow> (False, []) | Some s \<Rightarrow> (True, s))"

definition catalogue_get :: "(pystr \<Rightarrow> pystr) \<Rightarrow> pystr \<Rightarrow> catalogue \<Rightarrow> catalogue_row option" where
  "catalogue_get nfc stuff_id c =
     (let code = fold_digits_text nfc stuff_id in
      case sort_desc (\<lambda>r. (cr_is_current r, null_first (cr_run_date r)))
             (filter (\<lambda>r. cr_stuff_id r = code) (rows_of c)) of
        [] \<Rightarrow> None
      | r # _ \<Rightarrow> Some r)"

definition catalogue_history :: "(pystr \<Rightarrow> pystr) \<Rightarrow> pystr \<Rightarrow> catalogue \<Rightarrow> catalogue_row list" where
  "catalogue_history nfc stuff_id c =
     (let code = fold_digits_text nfc stuff_id in
      sort_desc (null_first \<circ> cr_run_date) (filter (\<lambda>r. cr_stuff_id r = code) (rows_of c)))"

text \<open>\<open>_fts_query\<close>: every token quoted, its quotes doubled, and matched by prefix.\<close>

definition quoted_token :: "pystr \<Rightarrow> pystr" where
  "quoted_token t = [34] @ concat (map (\<lambda>c. if c = 34 then [34, 34] else [c]) t) @ [34, 42]"

definition fts_query :: "(pystr \<Rightarrow> pystr) \<Rightarrow> (pystr \<Rightarrow> pystr) \<Rightarrow> pystr \<Rightarrow> pystr" where
  "fts_query nfc casefold s = joined_by (lit '' AND '') (map quoted_token (words_of (fold_text nfc casefold s)))"

definition starts_with :: "pystr \<Rightarrow> pystr \<Rightarrow> bool" where
  "starts_with prefix s \<longleftrightarrow> take (length prefix) s = prefix"

definition search ::
    "(pystr \<Rightarrow> pystr) \<Rightarrow> (pystr \<Rightarrow> pystr) \<Rightarrow> (pystr \<Rightarrow> (int \<times> pystr) list \<Rightarrow> int list) \<Rightarrow> pystr \<Rightarrow> int \<Rightarrow>
     catalogue \<Rightarrow> catalogue_row list" where
  "search nfc casefold rank query limit c =
     (let n = nat (max 1 (min limit MAX_RESULTS)) in
      if query = [] \<or> is_blank query then []
      else if is_digits nfc query then
        let needle = filter (\<lambda>x. x \<noteq> 32) (fold_digits_text nfc query) in
        take n (sort_key (\<lambda>r. (length (cr_stuff_id r), cr_stuff_id r))
          (filter (\<lambda>r. cr_is_current r \<and> starts_with needle (cr_stuff_id r)) (rows_of c)))
      else
        let match = fts_query nfc casefold query in
        if match = [] then []
        else take n (filter cr_is_current (List.map_filter (get_row (ca_rows c)) (rank match (ca_index c)))))"

text \<open>The handler of one code: its current version, if any, and all of them.\<close>

definition catalogue_item :: "(pystr \<Rightarrow> pystr) \<Rightarrow> pystr \<Rightarrow> catalogue \<Rightarrow> (catalogue_row option \<times> catalogue_row list) option" where
  "catalogue_item nfc stuff_id c =
     (let history = catalogue_history nfc stuff_id c in
      if history = [] then None else Some (find cr_is_current history, history))"

section \<open>The import\<close>

type_synonym csv_row = "(pystr \<times> pystr option) list"

definition REQUIRED :: "pystr list" where
  "REQUIRED = [lit ''ID'', lit ''DescriptionOfID'', lit ''Vat'', lit ''Taxable'', lit ''RunDate'',
     lit ''ExpirationDate'', lit ''Type'']"

definition cell :: "string \<Rightarrow> csv_row \<Rightarrow> pystr option" where
  "cell k row = (case map_of row (lit k) of None \<Rightarrow> None | Some v \<Rightarrow> v)"

definition clean_cell :: "pystr option \<Rightarrow> pystr option" where
  "clean_cell v = (case v of None \<Rightarrow> None | Some s \<Rightarrow> if strip s = [] then None else Some (strip s))"

definition number_cell :: "(pystr \<Rightarrow> pyfloat option) \<Rightarrow> pystr option \<Rightarrow> pyfloat option" where
  "number_cell parse_float v = Option.bind (clean_cell v) parse_float"

definition read_csv_row :: "(pystr \<Rightarrow> pyfloat option) \<Rightarrow> csv_row \<Rightarrow> catalogue_row option" where
  "read_csv_row parse_float row =
     (let stuff_id = strip (or_empty (cell ''ID'' row)); description = strip (or_empty (cell ''DescriptionOfID'' row));
          expiration = clean_cell (cell ''ExpirationDate'' row)
      in if stuff_id = [] \<or> description = [] then None
         else Some \<lparr>cr_stuff_id = stuff_id, cr_description = description,
           cr_vat_rate = number_cell parse_float (cell ''Vat'' row), cr_taxable = clean_cell (cell ''Taxable'' row),
           cr_run_date = clean_cell (cell ''RunDate'' row), cr_expiration_date = expiration,
           cr_kind = clean_cell (cell ''Type'' row), cr_pricing = clean_cell (cell ''PricingDescription'' row),
           cr_is_current = (expiration = None)\<rparr>)"

text \<open>\<open>read\<close>: the rows of the files up to the first one that lacks a column, and whether there is one.\<close>

fun read_csv :: "(pystr \<Rightarrow> pyfloat option) \<Rightarrow> (pystr list \<times> csv_row list) list \<Rightarrow> catalogue_row list \<times> bool" where
  "read_csv parse_float [] = ([], False)"
| "read_csv parse_float ((columns, rows) # files) =
     (if \<not> list_all (\<lambda>c. c \<in> set columns) REQUIRED then ([], True)
      else case read_csv parse_float files of
        (rest, failed) \<Rightarrow> (List.map_filter (read_csv_row parse_float) rows @ rest, failed))"

text \<open>\<open>main\<close>: the exit code and the catalogue, \<open>None\<close> where \<open>SystemExit\<close> ends it with a message.\<close>

definition SAMPLE_QUERY :: pystr where "SAMPLE_QUERY = [1582, 1583, 1605, 1575, 1578]"

definition import_main ::
    "(pystr \<Rightarrow> pystr) \<Rightarrow> (pystr \<Rightarrow> pystr) \<Rightarrow> (pystr \<Rightarrow> (int \<times> pystr) list \<Rightarrow> int list) \<Rightarrow> (pystr \<Rightarrow> pyfloat option) \<Rightarrow>
     pystr \<Rightarrow> (pystr \<times> (pystr list \<times> csv_row list) option) list \<Rightarrow> catalogue \<Rightarrow> int option \<times> catalogue" where
  "import_main nfc casefold rank parse_float now paths c =
     (if \<exists>p \<in> set paths. snd p = None then (Some 1, c)
      else
        case replace_all nfc casefold now (joined_by (lit '', '') (map fst paths))
               (read_csv parse_float (map (\<lambda>p. the (snd p)) paths)) (open_catalogue c) of
          (None, c') \<Rightarrow> (None, c')
        | (Some written, c') \<Rightarrow>
            if written = 0 then (Some 1, c')
            else (Some (if search nfc casefold rank SAMPLE_QUERY 1 c' = [] then 1 else 0), c'))"

section \<open>An import keeps every version\<close>

lemma insert_or_ignore_keeps: "set (t_rows t) \<subseteq> set (t_rows (insert_or_ignore r t))"
  by (auto simp: insert_or_ignore_def insert_row_def Let_def)

lemma insert_all_keeps: "set (t_rows t) \<subseteq> set (t_rows (foldl (\<lambda>t r. insert_or_ignore r t) t rs))"
proof (induction rs arbitrary: t)
  case (Cons r rs)
  then show ?case using insert_or_ignore_keeps [of t r] by fastforce
qed simp

text \<open>The version of a code that a row states.\<close>

definition same_version :: "catalogue_row \<Rightarrow> catalogue_row \<Rightarrow> bool" where
  "same_version e r \<longleftrightarrow> cr_stuff_id e = cr_stuff_id r \<and> cr_run_date e = cr_run_date r \<and>
     cr_vat_rate e = cr_vat_rate (stored_row r)"

lemma row_key_same: "row_key e = row_key (stored_row r) \<Longrightarrow> row_key e \<noteq> None \<Longrightarrow> same_version e r"
  by (auto simp: row_key_def same_version_def stored_row_def split: option.splits if_splits)

lemma insert_or_ignore_has: "\<exists>e \<in> snd ` set (t_rows (insert_or_ignore r t)). same_version e r"
proof (cases "row_key (stored_row r) \<noteq> None \<and> row_key (stored_row r) \<in> row_key ` snd ` set (t_rows t)")
  case True
  then obtain e where "e \<in> snd ` set (t_rows t)" "row_key e = row_key (stored_row r)" by force
  with True show ?thesis using row_key_same [of e r] by (auto simp: insert_or_ignore_def Let_def)
next
  case False
  have "same_version (stored_row r) r" by (simp add: same_version_def stored_row_def)
  then show ?thesis using False by (auto simp: insert_or_ignore_def insert_row_def Let_def)
qed

lemma insert_all_has:
  "r \<in> set rs \<Longrightarrow> \<exists>e \<in> snd ` set (t_rows (foldl (\<lambda>t r. insert_or_ignore r t) t rs)). same_version e r"
proof (induction rs arbitrary: t)
  case (Cons r' rs)
  then consider "r = r'" | "r \<in> set rs" by auto
  then show ?case
  proof cases
    case 1
    obtain e where "e \<in> snd ` set (t_rows (insert_or_ignore r t))" "same_version e r" using insert_or_ignore_has by blast
    then show ?thesis using insert_all_keeps [of "insert_or_ignore r t" rs] 1 by auto
  next
    case 2
    then show ?thesis using Cons.IH by simp
  qed
qed simp

lemma set_sort_desc [simp]: "set (sort_desc key xs) = set xs"
  by (simp add: sort_desc_def)

text \<open>
  An import loses no version of a code: after a successful import the history of a code holds, for
  every imported row of that code, a row with the same validity date and the same rate (a NaN rate
  is stored as none).
\<close>

theorem imported_version_in_history:
  assumes "replace_all nfc casefold now source (rows, failed) c = (Some n, c')" "r \<in> set rows"
    "fold_digits_text nfc code = cr_stuff_id r"
  shows "\<exists>e \<in> set (catalogue_history nfc code c'). same_version e r"
proof -
  let ?t = "foldl (\<lambda>t r. insert_or_ignore r t) ((ca_rows c)\<lparr>t_rows := []\<rparr>) rows"
  have "rows_of c' = map snd (t_rows ?t)" using assms(1) by (auto simp: replace_all_def rows_of_def Let_def split: if_splits)
  moreover obtain e where "e \<in> snd ` set (t_rows ?t)" "same_version e r" using insert_all_has [OF assms(2)] by blast
  ultimately show ?thesis by (auto simp: catalogue_history_def Let_def assms(3) same_version_def)
qed

section \<open>Searching for a code\<close>

lemma starts_with_same: "starts_with p s \<Longrightarrow> length s \<le> length p \<Longrightarrow> s = p"
  by (simp add: starts_with_def)

lemma starts_with_length: "starts_with p s \<Longrightarrow> length p \<le> length s"
  by (auto simp: starts_with_def dest: arg_cong [of _ _ length])

lemma hd_sort_key_le: "x \<in> set xs \<Longrightarrow> key (hd (sort_key key xs)) \<le> key x"
proof -
  assume x: "x \<in> set xs"
  obtain y ys where y: "sort_key key xs = y # ys" using x by (cases "sort_key key xs") (auto dest: arg_cong [of _ _ set])
  then have "sorted (map key (y # ys))" using sorted_sort_key [of key xs] by simp
  moreover have "x \<in> set (y # ys)" using x y by (metis set_sort)
  ultimately show ?thesis by (auto simp: y)
qed


section \<open>A concrete catalogue\<close>

definition sample_version :: "pystr \<Rightarrow> pyfloat \<Rightarrow> bool \<Rightarrow> catalogue_row" where
  "sample_version code vat current = \<lparr>cr_stuff_id = code, cr_description = [1582, 1583], cr_vat_rate = Some vat,
     cr_taxable = None, cr_run_date = Some [49], cr_expiration_date = None, cr_kind = None, cr_pricing = None,
     cr_is_current = current\<rparr>"

definition sample_catalogue :: catalogue where
  "sample_catalogue = \<lparr>ca_rows = \<lparr>t_rows =
       [(1, sample_version [50, 51, 52] (Fin 9) True), (2, sample_version [50, 51] (Fin 9) False),
        (3, sample_version [50, 51] (Fin 10) True)], t_seq = 3\<rparr>, ca_index = [], ca_meta = []\<rparr>"

lemma sample_code: "fold_digits_text id [0x6F2, 0x6F3] = [50, 51]"
  by (simp add: fold_digits_text_def translate_def persian_digits_table strip_no_space is_space_def space_points_def)


theorem imported_version_in_history_witness:
  "\<exists>n c'. replace_all id id [] [] ([sample_version [50, 51] (Fin 9) False, sample_version [50, 51] (Fin 10) True], False)
       empty_catalogue = (Some n, c') \<and>
     (\<exists>e \<in> set (catalogue_history id [0x6F2, 0x6F3] c'). same_version e (sample_version [50, 51] (Fin 9) False))"
proof -
  obtain n c' where c: "replace_all id id [] []
      ([sample_version [50, 51] (Fin 9) False, sample_version [50, 51] (Fin 10) True], False) empty_catalogue = (Some n, c')"
    by (simp add: replace_all_def Let_def)
  show ?thesis
    using c imported_version_in_history [OF c, of "sample_version [50, 51] (Fin 9) False" "[0x6F2, 0x6F3]"]
    by (simp add: sample_code sample_version_def)
qed

end
