(* ===== verification/Desk.thy ===== *)
theory Desk
  imports Keys Catalogue InvoiceApi
begin

text \<open>
  The handlers of \<open>api/app.py\<close> beside the filing of invoices, with the dependencies of
  \<open>api/deps.py\<close>: profiles and signing material, the test of a connection, the catalogue, payments and
  the inquiries passed to the client.

  A handler that talks to the organisation builds the client of its profile first. The wording of
  an error is not modelled, and a stored profile that cannot be read back is an exception as in
  \<open>Profiles\<close>.
\<close>

section \<open>Dependencies\<close>

text \<open>\<open>get_profile_store\<close>: the passphrase of the settings, else of the process environment, else 503.\<close>

definition store_passphrase :: "pystr option \<Rightarrow> pystr option \<Rightarrow> pystr result" where
  "store_passphrase configured environ =
     (case passphrase configured environ of None \<Rightarrow> Inl (HTTPException 503) | Some s \<Rightarrow> Inr s)"

text \<open>\<open>resolve_profile\<close>: every \<open>ConfigurationError\<close> of the store becomes a 404.\<close>

definition resolve_profile :: "('k, 'c) cipher \<Rightarrow> pystr \<Rightarrow> 'c store_file \<Rightarrow> profile result" where
  "resolve_profile c name f =
     (case load_profile c name f of
        Inl e \<Rightarrow> Inl (if e = ConfigurationError then HTTPException 404 else e)
      | Inr p \<Rightarrow> Inr p)"

section \<open>Metadata\<close>

definition environment_label :: "environment \<Rightarrow> pystr" where
  "environment_label e =
     (if is_production e then [1593, 1605, 1604, 1740, 1575, 1578, 1740]
      else [1570, 1586, 1605, 1575, 1740, 1588, 1740])"

definition ENVIRONMENTS :: "environment list" where "ENVIRONMENTS = [SANDBOX, PRODUCTION]"

definition environments_reply :: json where
  "environments_reply = JList (map (\<lambda>e. JObj
     [(lit ''value'', JStr (environment_text e)), (lit ''label'', JStr (environment_label e)),
      (lit ''host'', JStr (host e)), (lit ''baseUrl'', JStr (environment_base_url e)),
      (lit ''isProduction'', JBool (is_production e))]) ENVIRONMENTS)"

definition units_reply :: json where
  "units_reply = JObj [(lit ''default'', JStr DEFAULT_UNIT),
     (lit ''units'', JList (map (\<lambda>(code, name). JObj [(lit ''code'', JStr code), (lit ''name'', JStr name)]) UNITS))]"

text \<open>The patterns and the fields of one of them, without the names and titles that are only shown.\<close>

definition patterns_reply :: "rule_set \<Rightarrow> (int \<times> int list \<times> json) list" where
  "patterns_reply rules =
     map (\<lambda>p. (p_number p, p_types p, p_coverage p)) (sort_key p_number (map snd (rs_patterns rules)))"

definition pattern_fields ::
    "rule_set \<Rightarrow> int \<Rightarrow> int \<Rightarrow> (pystr \<times> (pystr \<times> obligation \<times> json) list) list result" where
  "pattern_fields rules number invoice_type =
     (case pattern_of rules number of
        None \<Rightarrow> Inl (HTTPException 404)
      | Some p \<Rightarrow> Inr (map (\<lambda>s. (s, map (\<lambda>(w, r). (w, for_type r (Some invoice_type), f_when r)) (section_of p s)))
          [lit ''header'', lit ''body'', lit ''payment'']))"

section \<open>Profiles\<close>

text \<open>\<open>Profile.certificate\<close>\<close>

definition profile_certificate ::
    "('cert, 'key) key_library \<Rightarrow> file_system \<Rightarrow> settings \<Rightarrow> profile \<Rightarrow> 'cert result" where
  "profile_certificate ks fs st p =
     bindE (require_material fs (signing_material_of st (prof_environment p))) (\<lambda>(cert_path, _).
       case read_bytes fs cert_path of
         None \<Rightarrow> Inl ConfigurationError
       | Some data \<Rightarrow> (case load_certificate ks data of Inl _ \<Rightarrow> Inl ConfigurationError | Inr c \<Rightarrow> Inr c))"

record 'cert redacted_profile =
  rp_name :: pystr
  rp_memory_id :: pystr
  rp_environment :: environment
  rp_environment_label :: pystr
  rp_is_production :: bool
  rp_base_url :: pystr
  rp_economic_code :: "pystr option"
  rp_certificate :: "'cert option"
  rp_certificate_error :: bool

definition redacted :: "('cert, 'key) key_library \<Rightarrow> file_system \<Rightarrow> settings \<Rightarrow> profile \<Rightarrow> 'cert redacted_profile" where
  "redacted ks fs st p =
     (let cert = profile_certificate ks fs st p in
      \<lparr>rp_name = prof_name p, rp_memory_id = prof_memory_id p, rp_environment = prof_environment p,
       rp_environment_label = environment_label (prof_environment p),
       rp_is_production = is_production (prof_environment p), rp_base_url = base_url p,
       rp_economic_code = prof_economic_code p,
       rp_certificate = (case cert of Inl _ \<Rightarrow> None | Inr c \<Rightarrow> Some c),
       rp_certificate_error = (case cert of Inl _ \<Rightarrow> True | Inr _ \<Rightarrow> False)\<rparr>)"

text \<open>\<open>list_names\<close> and the handlers of \<open>/api/profiles\<close>. The store is read anew for every profile.\<close>

definition list_names :: "('k, 'c) cipher \<Rightarrow> 'c store_file \<Rightarrow> pystr list result" where
  "list_names c f = bindE (read_all c f) (\<lambda>ps. Inr (sort (map fst ps)))"

definition list_profiles ::
    "('cert, 'key) key_library \<Rightarrow> file_system \<Rightarrow> settings \<Rightarrow> ('k, 'c) cipher \<Rightarrow> 'c store_file \<Rightarrow>
     'cert redacted_profile list result" where
  "list_profiles ks fs st c f =
     bindE (list_names c f) (mapE (\<lambda>name. bindE (load_profile c name f) (\<lambda>p. Inr (redacted ks fs st p))))"

record profile_in =
  pi_name :: pystr
  pi_memory_id :: pystr
  pi_environment :: pystr
  pi_economic_code :: "pystr option"
  pi_base_url_override :: "pystr option"

definition create_profile ::
    "('cert, 'key) key_library \<Rightarrow> file_system \<Rightarrow> pystr option \<Rightarrow> int \<Rightarrow> settings \<Rightarrow> ('k, 'c) cipher \<Rightarrow> bytes \<Rightarrow> bytes \<Rightarrow>
     profile_in \<Rightarrow> ('c store_file, 'cert redacted_profile) io" where
  "create_profile ks fs password now st c salt iv data = (\<lambda>f.
     case bindE (parse_environment (pi_environment data)) (\<lambda>e.
          let p = \<lparr>prof_name = pi_name data, prof_memory_id = pi_memory_id data, prof_environment = e,
                   prof_economic_code = pi_economic_code data, prof_base_url_override = pi_base_url_override data\<rparr> in
          bindE (validate_profile p) (\<lambda>_.
          bindE (load_credentials ks fs password now st p) (\<lambda>_.
          bindE (save_profile c salt iv p f) (\<lambda>f'.
            Inr (redacted ks fs st p, f'))))) of
       Inl e \<Rightarrow> (Inl e, f)
     | Inr (r, f') \<Rightarrow> (Inr r, f'))"

definition delete_profile_handler ::
    "('k, 'c) cipher \<Rightarrow> bytes \<Rightarrow> bytes \<Rightarrow> pystr \<Rightarrow> ('c store_file, unit) io" where
  "delete_profile_handler c salt iv name = (\<lambda>f.
     case delete_profile c salt iv name f of Inl e \<Rightarrow> (Inl e, f) | Inr f' \<Rightarrow> (Inr (), f'))"

definition signing_material_reply :: "file_system \<Rightarrow> settings \<Rightarrow> (environment \<times> material_status \<times> material_status) list" where
  "signing_material_reply fs st = map (\<lambda>e. let m = signing_material_of st e in
     (e, status_of fs False (sm_certificate_path m), status_of fs True (sm_private_key_path m))) ENVIRONMENTS"

definition verify_signing_material ::
    "('cert, 'key) key_library \<Rightarrow> file_system \<Rightarrow> pystr option \<Rightarrow> int \<Rightarrow> settings \<Rightarrow> 'cert material_report list option" where
  "verify_signing_material ks fs password now st =
     those (map (\<lambda>e. verify_material ks fs password now (signing_material_of st e)) ENVIRONMENTS)"

section \<open>Talking to the organisation\<close>

text \<open>What every such handler is given: the key library, the files, the settings, and the network.\<close>

record ('cert, 'key, 'n) desk =
  dk_keys :: "('cert, 'key) key_library"
  dk_files :: file_system
  dk_password :: "pystr option"
  dk_now :: "'n \<Rightarrow> int"
  dk_settings :: settings
  dk_surroundings :: "'n surroundings"

definition client_for :: "('cert, 'key, 'n) desk \<Rightarrow> profile \<Rightarrow> 'n \<Rightarrow> 'n client result" where
  "client_for dk p n =
     client_from_profile (dk_keys dk) (dk_surroundings dk) (dk_files dk) (dk_password dk) (dk_now dk n) (dk_settings dk) p"

definition with_client_for ::
    "('cert, 'key, 'n) desk \<Rightarrow> profile \<Rightarrow> ('n client \<Rightarrow> ('n, 'a) io) \<Rightarrow> ('n, 'a) io" where
  "with_client_for dk p f = (\<lambda>n. case client_for dk p n of Inl e \<Rightarrow> (Inl e, n) | Inr cl \<Rightarrow> f cl n)"

text \<open>The test of a connection: an outcome is the number of keys the server names, or the codes of the refusal.\<close>

datatype 'a step_result = StepOk 'a | StepCodes "pystr list" | StepFailed | StepSkipped

record connection_test =
  ct_nonce :: "pystr step_result"
  ct_authenticated :: "nat step_result"

definition test_with :: "'n client \<Rightarrow> ('n, connection_test) io" where
  "test_with cl = (\<lambda>n.
     case fetch_nonce cl n of
       (Inl e, n1) \<Rightarrow>
         if is_moadian_error e then (Inr \<lparr>ct_nonce = StepFailed, ct_authenticated = StepSkipped\<rparr>, n1) else (Inl e, n1)
     | (Inr challenge, n1) \<Rightarrow>
         let answered = (\<lambda>a. \<lparr>ct_nonce = StepOk (expDate challenge), ct_authenticated = a\<rparr>) in
         (case client_server_information cl n1 of
            (Inr info, n2) \<Rightarrow> (Inr (answered (StepOk (length (publicKeys info)))), n2)
          | (Inl e, n2) \<Rightarrow>
              (case is_tax_api_error e of
                 Some err \<Rightarrow> (Inr (answered (StepCodes (codes err))), n2)
               | None \<Rightarrow> if is_moadian_error e then (Inr (answered StepFailed), n2) else (Inl e, n2))))"

definition test_connection :: "('cert, 'key, 'n) desk \<Rightarrow> profile \<Rightarrow> ('n, connection_test) io" where
  "test_connection dk p = with_client_for dk p test_with"

section \<open>Payments\<close>

record payment_in =
  pay_taxid :: pystr
  pay_amount :: int
  pay_date :: "int option"
  pay_method :: pystr
  pay_terminal :: "pystr option"
  pay_reference :: "pystr option"

text \<open>\<open>model_dump(exclude_none=True)\<close>, then the date of today in milliseconds unless one is given.\<close>

definition payment_payload :: "int \<Rightarrow> payment_in \<Rightarrow> members" where
  "payment_payload today p =
     (let shown = (\<lambda>k v. case v of None \<Rightarrow> [] | Some x \<Rightarrow> [(lit k, x)]);
          dumped = [(lit ''taxid'', JStr (pay_taxid p)), (lit ''paidAmount'', JInt (pay_amount p))] @
            shown ''paymentDate'' (map_option JInt (pay_date p)) @
            [(lit ''paymentMethod'', JStr (pay_method p))] @
            shown ''terminalNumber'' (map_option JStr (pay_terminal p)) @
            shown ''referenceNumber'' (map_option JStr (pay_reference p))
      in if pay_date p = None then dumped @ [(lit ''paymentDate'', JInt today)] else dumped)"

definition register_payment :: "('cert, 'key, 'n) desk \<Rightarrow> profile \<Rightarrow> ('n \<Rightarrow> int) \<Rightarrow> payment_in \<Rightarrow> ('n, json) io" where
  "register_payment dk p today data = (\<lambda>n.
     with_client_for dk p (\<lambda>cl. client_register_payment cl (payment_payload (today n) data)) n)"

section \<open>Inquiries\<close>

definition inquiry_by_reference :: "('cert, 'key, 'n) desk \<Rightarrow> profile \<Rightarrow> pystr list \<Rightarrow> ('n, inquiry_result list) io" where
  "inquiry_by_reference dk p references =
     with_client_for dk p (\<lambda>cl. client_inquiry_by_reference_id cl references None None)"

definition inquiry_by_uid :: "('cert, 'key, 'n) desk \<Rightarrow> profile \<Rightarrow> pystr list \<Rightarrow> ('n, inquiry_result list) io" where
  "inquiry_by_uid dk p uids =
     with_client_for dk p (\<lambda>cl. client_inquiry_by_uid cl uids (prof_memory_id p) None None)"

definition inquiry_invoice_status :: "('cert, 'key, 'n) desk \<Rightarrow> profile \<Rightarrow> pystr list \<Rightarrow> ('n, invoice_status_result list) io" where
  "inquiry_invoice_status dk p tax_ids = with_client_for dk p (\<lambda>cl. client_invoice_status cl tax_ids)"

definition inquiry_by_time ::
    "('cert, 'key, 'n) desk \<Rightarrow> profile \<Rightarrow> query_time \<Rightarrow> query_time option \<Rightarrow> request_status option \<Rightarrow> int \<Rightarrow> int \<Rightarrow>
     ('n, inquiry_result list) io" where
  "inquiry_by_time dk p start until status page_number page_size =
     with_client_for dk p (\<lambda>cl.
       client_inquiry_by_time cl start until (map_option request_status_name status) page_number page_size)"

definition taxpayer :: "('cert, 'key, 'n) desk \<Rightarrow> profile \<Rightarrow> pystr \<Rightarrow> ('n, taxpayer_result) io" where
  "taxpayer dk p code = with_client_for dk p (\<lambda>cl. client_taxpayer cl code)"

definition taxpayer_info :: "('cert, 'key, 'n) desk \<Rightarrow> profile \<Rightarrow> pystr \<Rightarrow> ('n, taxpayer_result) io" where
  "taxpayer_info dk p code = with_client_for dk p (\<lambda>cl. client_taxpayer_info cl code)"

definition fiscal_information :: "('cert, 'key, 'n) desk \<Rightarrow> profile \<Rightarrow> pystr option \<Rightarrow> ('n, fiscal_result) io" where
  "fiscal_information dk p memory =
     with_client_for dk p (\<lambda>cl. client_fiscal_information cl
       (case memory of None \<Rightarrow> prof_memory_id p | Some m \<Rightarrow> if m = [] then prof_memory_id p else m))"

text \<open>
  The handler of article 6 declares its amount a float where the client declares an integer, and the
  client writes it with \<open>str\<close>.
\<close>

definition python_float_text :: "(rat \<Rightarrow> pystr) \<Rightarrow> pyfloat \<Rightarrow> pystr" where
  "python_float_text written x =
     (case x of Fin q \<Rightarrow> written q | PInf \<Rightarrow> lit ''inf'' | NInf \<Rightarrow> lit ''-inf'' | NaN \<Rightarrow> lit ''nan'')"

definition article6_status :: "('cert, 'key, 'n) desk \<Rightarrow> profile \<Rightarrow> pystr \<Rightarrow> pyfloat \<Rightarrow> int \<Rightarrow> ('n, json) io" where
  "article6_status dk p economic_code vat_value period =
     with_client_for dk p (\<lambda>cl.
       bindM (get cl TAXPAYER_ARTICLE6_STATUS
         [(lit ''economicCode'', economic_code), (lit ''vatValue'', python_float_text (cl_float_text cl) vat_value),
          (lit ''period'', int_text period)]) (\<lambda>r.
       liftM (decode_json_body r)))"

section \<open>Checking an invoice, and the summary\<close>

definition verify_invoice :: "rule_set \<Rightarrow> invoice \<Rightarrow> verification_result result" where
  "verify_invoice rules ivc = (case verify rules ivc of None \<Rightarrow> Inl OverflowError | Some r \<Rightarrow> Inr r)"

definition recompute_invoice :: "invoice \<Rightarrow> json result" where
  "recompute_invoice ivc =
     (let pattern = (case inp (header ivc) of None \<Rightarrow> 1 | Some n \<Rightarrow> if n = 0 then 1 else n)
      in case recompute ivc pattern of None \<Rightarrow> Inl OverflowError | Some r \<Rightarrow> Inr (to_wire_dict r))"

record 'cert dashboard_reply =
  db_profile :: "'cert redacted_profile"
  db_counts :: "(pystr \<times> nat) list"
  db_recent :: "invoice_record list"

definition dashboard ::
    "('cert, 'key) key_library \<Rightarrow> file_system \<Rightarrow> settings \<Rightarrow> record_store \<Rightarrow> profile \<Rightarrow> 'cert dashboard_reply" where
  "dashboard ks fs st s p =
     \<lparr>db_profile = redacted ks fs st p, db_counts = counts_by_state (prof_name p) s,
      db_recent = list_invoices (prof_name p) None 10 s\<rparr>"

end
