(* ===== verification/Accounts.thy ===== *)
theory Accounts
  imports Tables Effects Json
begin

text \<open>
  \<open>auth/security.py\<close>, \<open>auth/store.py\<close> and \<open>auth/routes.py\<close>: accounts, passwords, bearer tokens
  and the handlers that manage them.

  An instant is a number of microseconds since 1970, the resolution of the clock; a \<open>timestamp()\<close>
  of such an instant is a double that keeps their order. The key derivation \<open>pbkdf2\<close> of
  \<open>hashlib\<close> and the signed tokens of the \<open>jwt\<close> package under the secret of the process are
  parameters, as are the readings of the clock and the random salt of a request.
\<close>

section \<open>Parameters\<close>

record claims =
  c_sub :: pystr
  c_username :: pystr
  c_role :: pystr
  c_iat :: int
  c_exp :: int

record vault =
  pbkdf2 :: "pystr \<Rightarrow> nat list \<Rightarrow> nat list"
  jwt_encode :: "claims \<Rightarrow> pystr"
  jwt_decode :: "int \<Rightarrow> pystr \<Rightarrow> claims option"
  token_ttl_hours :: int

text \<open>
  What one request reads: the clock when it starts and when it mints a token, the text of the
  date it stores, and \<open>secrets.token_hex(16)\<close>.
\<close>

record moment =
  m_now :: int
  m_mint :: int
  m_text :: pystr
  m_salt :: pystr

definition SECOND :: int where "SECOND = 1000000"

text \<open>
  Documented behaviour of \<open>jwt.encode\<close> and \<open>jwt.decode\<close> under one secret: a token gives its claims
  back until \<open>exp\<close>, a number of whole seconds, provided the whole seconds of \<open>iat\<close> have passed.
\<close>

definition jwt_law :: "vault \<Rightarrow> bool" where
  "jwt_law v = (\<forall>t c. jwt_decode v t (jwt_encode v c) =
     (if t < c_exp c * SECOND \<and> c_iat c div SECOND * SECOND \<le> t then Some c else None))"

section \<open>Accounts\<close>

definition ROLES :: "pystr list" where
  "ROLES = [lit ''user'', lit ''admin'']"

definition MIN_PASSWORD :: nat where "MIN_PASSWORD = 8"

text \<open>A row of the table \<open>users\<close>, and the object the rest of the program sees.\<close>

record account =
  acc_username :: pystr
  acc_hash :: pystr
  acc_display :: pystr
  acc_role :: pystr
  acc_active :: bool
  acc_disabled_at :: "pystr option"
  acc_valid_from :: "int option"
  acc_created_at :: pystr

record user =
  user_id :: int
  user_name :: pystr
  user_display :: pystr
  user_role :: pystr
  user_active :: bool
  user_created_at :: pystr
  user_disabled_at :: "pystr option"
  user_valid_from :: "int option"

record public_user =
  pub_id :: int
  pub_username :: pystr
  pub_display :: pystr
  pub_role :: pystr
  pub_active :: bool
  pub_created_at :: pystr
  pub_disabled_at :: "pystr option"

record user_store =
  us_users :: "account table"
  us_epoch :: "int option"

definition empty_user_store :: user_store where
  "empty_user_store = \<lparr>us_users = empty_table, us_epoch = None\<rparr>"

definition is_admin :: "user \<Rightarrow> bool" where
  "is_admin u = (user_role u = lit ''admin'')"

definition public :: "user \<Rightarrow> public_user" where
  "public u = \<lparr>pub_id = user_id u, pub_username = user_name u, pub_display = user_display u,
     pub_role = user_role u, pub_active = user_active u, pub_created_at = user_created_at u,
     pub_disabled_at = user_disabled_at u\<rparr>"

text \<open>\<open>re.compile(r"^[a-zA-Z0-9._-]{3,64}$").match(s)\<close>: \<open>$\<close> also matches before a final newline.\<close>

definition username_char :: "nat \<Rightarrow> bool" where
  "username_char c = (ascii_alnum c \<or> c = 46 \<or> c = 95 \<or> c = 45)"

definition username_matches :: "pystr \<Rightarrow> bool" where
  "username_matches s =
     (let core = (if s \<noteq> [] \<and> last s = 10 then butlast s else s)
      in list_all username_char core \<and> 3 \<le> length core \<and> length core \<le> 64)"

section \<open>Passwords\<close>

text \<open>\<open>bytes.fromhex\<close>: pairs of digits with white space between the pairs.\<close>

fun fromhex :: "pystr \<Rightarrow> nat list result" where
  "fromhex [] = Inr []"
| "fromhex [c] = (if c \<in> {9, 10, 11, 12, 13, 32} then Inr [] else Inl ValueError)"
| "fromhex (c # d # s) =
     (if c \<in> {9, 10, 11, 12, 13, 32} then fromhex (d # s)
      else
        case (base_digit 16 c, base_digit 16 d) of
          (Some a, Some b) \<Rightarrow> bindE (fromhex s) (\<lambda>bs. Inr ((16 * a + b) # bs))
        | _ \<Rightarrow> Inl ValueError)"

text \<open>\<open>bytes.hex()\<close>\<close>

definition bytes_hex :: "nat list \<Rightarrow> pystr" where
  "bytes_hex bs = concat (map (\<lambda>b. [hex_lower (b div 16), hex_lower (b mod 16)]) bs)"

text \<open>\<open>drawn\<close> is the salt of \<open>secrets.token_hex(16)\<close>, taken when none is given.\<close>

definition hash_password :: "vault \<Rightarrow> pystr \<Rightarrow> pystr \<Rightarrow> pystr \<Rightarrow> pystr result" where
  "hash_password v drawn password given =
     (let salt = (if given = [] then drawn else given)
      in bindE (fromhex salt) (\<lambda>bs.
        Inr (lit ''pbkdf2$'' @ salt @ lit ''$'' @ bytes_hex (pbkdf2 v password bs))))"

text \<open>\<open>hmac.compare_digest\<close> on text refuses characters outside ASCII.\<close>

definition compare_digest :: "pystr \<Rightarrow> pystr \<Rightarrow> bool result" where
  "compare_digest a b =
     (if list_all (\<lambda>c. c < 128) (a @ b) then Inr (a = b) else Inl TypeError)"

definition verify_password :: "vault \<Rightarrow> pystr \<Rightarrow> pystr \<Rightarrow> pystr \<Rightarrow> bool result" where
  "verify_password v drawn password stored =
     (case split_on 36 stored of
        [_, salt, digest] \<Rightarrow>
          bindE (hash_password v drawn password salt) (\<lambda>h.
            case drop 2 (split_on 36 h) of
              candidate # _ \<Rightarrow> compare_digest candidate digest
            | [] \<Rightarrow> Inl IndexError)
      | _ \<Rightarrow> Inr False)"

section \<open>The store\<close>

definition user_of :: "int \<Rightarrow> account \<Rightarrow> user" where
  "user_of i a = \<lparr>user_id = i, user_name = acc_username a,
     user_display = (if acc_display a = [] then acc_username a else acc_display a),
     user_role = acc_role a, user_active = acc_active a, user_created_at = acc_created_at a,
     user_disabled_at = acc_disabled_at a, user_valid_from = acc_valid_from a\<rparr>"

definition row_of :: "user_store \<Rightarrow> int \<Rightarrow> account option" where
  "row_of s = get_row (us_users s)"

definition get_user :: "int \<Rightarrow> user_store \<Rightarrow> user option" where
  "get_user i s = map_option (user_of i) (row_of s i)"

definition by_username :: "pystr \<Rightarrow> user_store \<Rightarrow> user option" where
  "by_username name s =
     map_option (\<lambda>(i, a). user_of i a) (find (\<lambda>(i, a). acc_username a = name) (t_rows (us_users s)))"

definition password_hash :: "int \<Rightarrow> user_store \<Rightarrow> pystr option" where
  "password_hash i s = map_option acc_hash (row_of s i)"

definition list_users :: "bool \<Rightarrow> user_store \<Rightarrow> user list" where
  "list_users include_inactive s =
     map (\<lambda>(i, a). user_of i a)
       (filter (\<lambda>(i, a). acc_active a) (t_rows (us_users s)) @
        (if include_inactive then filter (\<lambda>(i, a). \<not> acc_active a) (t_rows (us_users s)) else []))"

definition active_admin :: "account \<Rightarrow> bool" where
  "active_admin a = (acc_role a = lit ''admin'' \<and> acc_active a)"

definition active_admin_count :: "int \<Rightarrow> user_store \<Rightarrow> nat" where
  "active_admin_count excluded s =
     length (filter (\<lambda>(i, a). active_admin a \<and> i \<noteq> excluded) (t_rows (us_users s)))"

definition readM :: "('s \<Rightarrow> 'a result) \<Rightarrow> ('s, 'a) io" where
  "readM f = (\<lambda>s. (f s, s))"

definition on_user :: "int \<Rightarrow> (account \<Rightarrow> account) \<Rightarrow> user_store \<Rightarrow> user_store" where
  "on_user i f s = s\<lparr>us_users := update_row i f (us_users s)\<rparr>"

definition create_account ::
    "vault \<Rightarrow> moment \<Rightarrow> pystr \<Rightarrow> pystr \<Rightarrow> pystr \<Rightarrow> pystr \<Rightarrow> (user_store, user) io" where
  "create_account v m name password display role s =
     (let username = strip name in
      if \<not> username_matches username then (Inl ValueError, s)
      else if length (strip password) < MIN_PASSWORD then (Inl ValueError, s)
      else if role \<notin> set ROLES then (Inl ValueError, s)
      else
        case hash_password v (m_salt m) (strip password) [] of
          Inl e \<Rightarrow> (Inl e, s)
        | Inr h \<Rightarrow>
            if by_username username s \<noteq> None then (Inl IntegrityError, s)
            else
              let a = \<lparr>acc_username = username, acc_hash = h,
                    acc_display = take 128 (if strip display = [] then username else strip display),
                    acc_role = role, acc_active = True, acc_disabled_at = None,
                    acc_valid_from = None, acc_created_at = m_text m\<rparr>;
                  (i, t) = insert_row a (us_users s);
                  s' = s\<lparr>us_users := t\<rparr>
              in (case get_user i s' of Some u \<Rightarrow> Inr u | None \<Rightarrow> Inl AssertionError, s'))"

definition set_password :: "vault \<Rightarrow> moment \<Rightarrow> int \<Rightarrow> pystr \<Rightarrow> (user_store, unit) io" where
  "set_password v m i password s =
     (if length (strip password) < MIN_PASSWORD then (Inl ValueError, s)
      else
        case hash_password v (m_salt m) (strip password) [] of
          Inl e \<Rightarrow> (Inl e, s)
        | Inr h \<Rightarrow> (Inr (), on_user i (\<lambda>a. a\<lparr>acc_hash := h, acc_valid_from := Some (m_now m)\<rparr>) s))"

definition update_account ::
    "moment \<Rightarrow> int \<Rightarrow> pystr option \<Rightarrow> pystr option \<Rightarrow> bool option \<Rightarrow> (user_store, user option) io" where
  "update_account m i display role active s =
     (if (case role of None \<Rightarrow> False | Some r \<Rightarrow> r \<notin> set ROLES) then (Inl ValueError, s)
      else if display = None \<and> role = None \<and> active = None then (Inr (get_user i s), s)
      else
        let s' = on_user i (\<lambda>a. a\<lparr>
              acc_display := (case display of None \<Rightarrow> acc_display a | Some d \<Rightarrow> take 128 (strip d)),
              acc_role := (case role of None \<Rightarrow> acc_role a | Some r \<Rightarrow> r),
              acc_active := (case active of None \<Rightarrow> acc_active a | Some b \<Rightarrow> b),
              acc_disabled_at := (case active of None \<Rightarrow> acc_disabled_at a
                | Some b \<Rightarrow> if b then None else Some (m_text m))\<rparr>) s
        in (Inr (get_user i s'), s'))"

definition delete_account :: "int \<Rightarrow> (user_store, unit) io" where
  "delete_account i s = (Inr (), s\<lparr>us_users := delete_row i (us_users s)\<rparr>)"

definition revoke_user_sessions :: "moment \<Rightarrow> int \<Rightarrow> (user_store, unit) io" where
  "revoke_user_sessions m i s = (Inr (), on_user i (\<lambda>a. a\<lparr>acc_valid_from := Some (m_now m)\<rparr>) s)"

definition auth_epoch :: "user_store \<Rightarrow> int" where
  "auth_epoch s = (case us_epoch s of Some t \<Rightarrow> t | None \<Rightarrow> 0)"

definition revoke_all_sessions :: "moment \<Rightarrow> (user_store, int) io" where
  "revoke_all_sessions m s = (Inr (m_now m), s\<lparr>us_epoch := Some (m_now m)\<rparr>)"

section \<open>Tokens\<close>

definition make_token :: "vault \<Rightarrow> moment \<Rightarrow> user \<Rightarrow> pystr" where
  "make_token v m u = jwt_encode v
     \<lparr>c_sub = int_text (user_id u), c_username = user_name u, c_role = user_role u,
       c_iat = m_mint m, c_exp = (m_mint m + token_ttl_hours v * 3600 * SECOND) div SECOND\<rparr>"

definition token_from_request :: "pystr option \<Rightarrow> pystr option" where
  "token_from_request header =
     (case header of
        None \<Rightarrow> None
      | Some h \<Rightarrow> if map lower_point (take 7 h) = lit ''bearer '' then Some (drop 7 h) else None)"

text \<open>The cutoff for the tokens of a user; \<open>0\<close> and \<open>None\<close> are false.\<close>

definition cutoff_of :: "user_store \<Rightarrow> user \<Rightarrow> int" where
  "cutoff_of s u =
     (case user_valid_from u of
        None \<Rightarrow> auth_epoch s
      | Some t \<Rightarrow> if t = 0 then auth_epoch s else max (auth_epoch s) t)"

definition current_user :: "vault \<Rightarrow> moment \<Rightarrow> pystr option \<Rightarrow> user_store \<Rightarrow> user result" where
  "current_user v m header s =
     (case token_from_request header of
        None \<Rightarrow> Inl (HTTPException 401)
      | Some token \<Rightarrow>
          if token = [] then Inl (HTTPException 401)
          else
            case jwt_decode v (m_now m) token of
              None \<Rightarrow> Inl (HTTPException 401)
            | Some c \<Rightarrow>
                case py_int 10 (c_sub c) of
                  None \<Rightarrow> Inl ValueError
                | Some i \<Rightarrow>
                    case get_user i s of
                      None \<Rightarrow> Inl (HTTPException 401)
                    | Some u \<Rightarrow>
                        if \<not> user_active u then Inl (HTTPException 401)
                        else if cutoff_of s u \<noteq> 0 \<and> c_iat c < cutoff_of s u
                          then Inl (HTTPException 401)
                        else Inr u)"

definition admin_user :: "vault \<Rightarrow> moment \<Rightarrow> pystr option \<Rightarrow> user_store \<Rightarrow> user result" where
  "admin_user v m header s =
     bindE (current_user v m header s) (\<lambda>u.
       if is_admin u then Inr u else Inl (HTTPException 403))"

text \<open>
  The accounts named in the environment; \<open>draws k\<close> is what the \<open>k\<close>-th entry reads of the clock
  and the random source.
\<close>

definition seed_entry :: "vault \<Rightarrow> moment \<Rightarrow> pystr \<Rightarrow> user_store \<Rightarrow> user_store" where
  "seed_entry v m entry s =
     (if strip entry = [] then s
      else
        let parts = split_on 58 (strip entry);
            username = hd parts;
            password = (if 1 < length parts then parts ! 1 else []);
            role = (if 2 < length parts then parts ! 2 else lit ''user'')
        in if username = [] \<or> password = [] \<or> by_username username s \<noteq> None then s
           else snd (create_account v m username password username role s))"

fun seed_entries :: "vault \<Rightarrow> (nat \<Rightarrow> moment) \<Rightarrow> nat \<Rightarrow> pystr list \<Rightarrow> user_store \<Rightarrow> user_store" where
  "seed_entries v draws k [] s = s"
| "seed_entries v draws k (e # es) s = seed_entries v draws (Suc k) es (seed_entry v (draws k) e s)"

definition seed_users :: "vault \<Rightarrow> (nat \<Rightarrow> moment) \<Rightarrow> pystr \<Rightarrow> user_store \<Rightarrow> user_store" where
  "seed_users v draws spec s = seed_entries v draws 0 (split_on 44 spec) s"

section \<open>Handlers\<close>

record user_patch =
  patch_display :: "pystr option"
  patch_role :: "pystr option"
  patch_password :: "pystr option"
  patch_active :: "bool option"

datatype answer =
    LoggedIn pystr public_user
  | Shown public_user
  | PasswordChanged pystr
  | Listed "public_user list"
  | Purged
  | Deactivated public_user
  | AllRevoked int pystr
  | OneRevoked "pystr option"

text \<open>\<open>except ... as exc: raise HTTPException(n, str(exc))\<close>\<close>

definition becomes :: "exn \<Rightarrow> int \<Rightarrow> ('s, 'a) io \<Rightarrow> ('s, 'a) io" where
  "becomes e n m = (\<lambda>s. case m s of (Inl x, s') \<Rightarrow> (Inl (if x = e then HTTPException n else x), s') | r \<Rightarrow> r)"

definition found :: "int \<Rightarrow> user option \<Rightarrow> user result" where
  "found n u = (case u of None \<Rightarrow> Inl (HTTPException n) | Some x \<Rightarrow> Inr x)"

definition asserted :: "user option \<Rightarrow> user result" where
  "asserted u = (case u of None \<Rightarrow> Inl AssertionError | Some x \<Rightarrow> Inr x)"

definition login :: "vault \<Rightarrow> moment \<Rightarrow> pystr \<Rightarrow> pystr \<Rightarrow> (user_store, answer) io" where
  "login v m name password = readM (\<lambda>s.
     (let u = by_username (strip name) s;
          stored = (case u of None \<Rightarrow> None | Some x \<Rightarrow> password_hash (user_id x) s);
          dummy = lit ''pbkdf2$00$00'';
          against = (case stored of None \<Rightarrow> dummy | Some h \<Rightarrow> if h = [] then dummy else h)
      in bindE (verify_password v (m_salt m) password against) (\<lambda>ok.
           if \<not> ok then Inl (HTTPException 401)
           else
             bindE (asserted u) (\<lambda>x.
               if \<not> user_active x then Inl (HTTPException 403)
               else Inr (LoggedIn (make_token v m x) (public x))))))"

definition change_password ::
    "vault \<Rightarrow> moment \<Rightarrow> user \<Rightarrow> pystr \<Rightarrow> pystr \<Rightarrow> (user_store, answer) io" where
  "change_password v m me current new =
     (if length new < MIN_PASSWORD then raiseM (HTTPException 422)
      else
        bindM (readM (\<lambda>s. verify_password v (m_salt m) current
            (case password_hash (user_id me) s of None \<Rightarrow> [] | Some h \<Rightarrow> h))) (\<lambda>ok.
        if \<not> ok then raiseM (HTTPException 400)
        else
          bindM (becomes ValueError 422 (set_password v m (user_id me) new)) (\<lambda>_.
          bindM (readM (\<lambda>s. asserted (get_user (user_id me) s))) (\<lambda>refreshed.
            returnM (PasswordChanged (make_token v m refreshed))))))"

definition guard_last_admin :: "user_store \<Rightarrow> user \<Rightarrow> unit result" where
  "guard_last_admin s target =
     (if is_admin target \<and> user_active target \<and> active_admin_count (user_id target) s = 0
      then Inl (HTTPException 400) else Inr ())"

definition create_user ::
    "vault \<Rightarrow> moment \<Rightarrow> pystr \<Rightarrow> pystr \<Rightarrow> pystr \<Rightarrow> pystr \<Rightarrow> (user_store, answer) io" where
  "create_user v m name password display role =
     bindM (readM (\<lambda>s. if by_username (strip name) s \<noteq> None then Inl (HTTPException 409) else Inr ())) (\<lambda>_.
     bindM (becomes IntegrityError 409
              (becomes ValueError 422 (create_account v m name password display role))) (\<lambda>u.
       returnM (Shown (public u))))"

text \<open>The guards of \<open>update_user\<close> on the role and on the activity of the target.\<close>

definition guard_role :: "user \<Rightarrow> user \<Rightarrow> user_patch \<Rightarrow> user_store \<Rightarrow> unit result" where
  "guard_role me target p s =
     (case patch_role p of
        None \<Rightarrow> Inr ()
      | Some r \<Rightarrow>
          if r = user_role target then Inr ()
          else if r \<notin> set ROLES then Inl (HTTPException 422)
          else if user_id target = user_id me then Inl (HTTPException 400)
          else if is_admin target then guard_last_admin s target
          else Inr ())"

definition guard_active :: "user \<Rightarrow> user \<Rightarrow> user_patch \<Rightarrow> user_store \<Rightarrow> unit result" where
  "guard_active me target p s =
     (case patch_active p of
        None \<Rightarrow> Inr ()
      | Some b \<Rightarrow>
          if b = user_active target then Inr ()
          else if user_id target = user_id me then Inl (HTTPException 400)
          else if \<not> b then guard_last_admin s target
          else Inr ())"

definition update_user ::
    "vault \<Rightarrow> moment \<Rightarrow> user \<Rightarrow> int \<Rightarrow> user_patch \<Rightarrow> (user_store, answer) io" where
  "update_user v m me i p =
     bindM (readM (\<lambda>s. found 404 (get_user i s))) (\<lambda>target.
     bindM (case patch_password p of
              None \<Rightarrow> returnM ()
            | Some new \<Rightarrow> becomes ValueError 422 (set_password v m i new)) (\<lambda>_.
     bindM (readM (guard_role me target p)) (\<lambda>_.
     bindM (readM (guard_active me target p)) (\<lambda>_.
     bindM (becomes ValueError 422
              (update_account m i (patch_display p) (patch_role p) (patch_active p))) (\<lambda>updated.
     bindM (liftM (asserted updated)) (\<lambda>u. returnM (Shown (public u))))))))"

definition delete_user :: "moment \<Rightarrow> user \<Rightarrow> int \<Rightarrow> bool \<Rightarrow> (user_store, answer) io" where
  "delete_user m me i hard =
     bindM (readM (\<lambda>s. found 404 (get_user i s))) (\<lambda>target.
     if user_id target = user_id me then raiseM (HTTPException 400)
     else
       bindM (readM (\<lambda>s. guard_last_admin s target)) (\<lambda>_.
       if hard then bindM (delete_account i) (\<lambda>_. returnM Purged)
       else
         bindM (update_account m i None None (Some False)) (\<lambda>_.
         bindM (revoke_user_sessions m i) (\<lambda>_.
         bindM (readM (\<lambda>s. asserted (get_user i s))) (\<lambda>u. returnM (Deactivated (public u)))))))"

definition revoke_all :: "vault \<Rightarrow> moment \<Rightarrow> user \<Rightarrow> (user_store, answer) io" where
  "revoke_all v m me =
     bindM (revoke_all_sessions m) (\<lambda>epoch. returnM (AllRevoked epoch (make_token v m me)))"

definition revoke_one :: "vault \<Rightarrow> moment \<Rightarrow> user \<Rightarrow> int \<Rightarrow> (user_store, answer) io" where
  "revoke_one v m me i =
     bindM (readM (\<lambda>s. found 404 (get_user i s))) (\<lambda>target.
     bindM (revoke_user_sessions m i) (\<lambda>_.
       returnM (OneRevoked (if user_id target = user_id me then Some (make_token v m me) else None))))"

datatype account_request =
    Login pystr pystr
  | Me
  | ChangePassword pystr pystr
  | ListUsers bool
  | CreateUser pystr pystr pystr pystr
  | UpdateUser int user_patch
  | DeleteUser int bool
  | RevokeAll
  | RevokeOne int

definition as_user ::
    "vault \<Rightarrow> moment \<Rightarrow> pystr option \<Rightarrow> (user \<Rightarrow> (user_store, answer) io) \<Rightarrow> (user_store, answer) io" where
  "as_user v m header f = bindM (readM (current_user v m header)) f"

definition as_admin ::
    "vault \<Rightarrow> moment \<Rightarrow> pystr option \<Rightarrow> (user \<Rightarrow> (user_store, answer) io) \<Rightarrow> (user_store, answer) io" where
  "as_admin v m header f = bindM (readM (admin_user v m header)) f"

fun handle_account ::
    "vault \<Rightarrow> moment \<Rightarrow> pystr option \<Rightarrow> account_request \<Rightarrow> (user_store, answer) io" where
  "handle_account v m header (Login name password) = login v m name password"
| "handle_account v m header Me = as_user v m header (\<lambda>me. returnM (Shown (public me)))"
| "handle_account v m header (ChangePassword current new) =
     as_user v m header (\<lambda>me. change_password v m me current new)"
| "handle_account v m header (ListUsers inactive) =
     as_admin v m header (\<lambda>_. readM (\<lambda>s. Inr (Listed (map public (list_users inactive s)))))"
| "handle_account v m header (CreateUser name password display role) =
     as_admin v m header (\<lambda>_. create_user v m name password display role)"
| "handle_account v m header (UpdateUser i p) = as_admin v m header (\<lambda>me. update_user v m me i p)"
| "handle_account v m header (DeleteUser i hard) = as_admin v m header (\<lambda>me. delete_user m me i hard)"
| "handle_account v m header RevokeAll = as_admin v m header (\<lambda>me. revoke_all v m me)"
| "handle_account v m header (RevokeOne i) = as_admin v m header (\<lambda>me. revoke_one v m me i)"

end
