(* ===== verification/Sessions.thy ===== *)
theory Sessions
  imports Accounts
begin

text \<open>
  What the account handlers guarantee: the well-formedness of the stored accounts, an active
  administrator after every request, and revocations that no later request undoes.
\<close>

section \<open>Well-formed accounts\<close>

definition ascii_text :: "pystr \<Rightarrow> bool" where
  "ascii_text = list_all (\<lambda>c. c < 128)"

text \<open>A stored hash that \<open>verify_password\<close> can check without an exception.\<close>

definition hash_ok :: "pystr \<Rightarrow> bool" where
  "hash_ok h =
     (case split_on 36 h of
        [_, salt, digest] \<Rightarrow> salt \<noteq> [] \<and> (case fromhex salt of Inl _ \<Rightarrow> False | Inr _ \<Rightarrow> True) \<and> ascii_text digest
      | _ \<Rightarrow> False)"

definition account_ok :: "account \<Rightarrow> bool" where
  "account_ok a \<longleftrightarrow> username_matches (acc_username a) \<and> acc_role a \<in> set ROLES \<and>
     length (acc_display a) \<le> 128 \<and> (acc_active a \<longleftrightarrow> acc_disabled_at a = None) \<and> hash_ok (acc_hash a)"

definition usernames :: "user_store \<Rightarrow> pystr list" where
  "usernames s = map (\<lambda>(i, a). acc_username a) (t_rows (us_users s))"

definition users_ok :: "user_store \<Rightarrow> bool" where
  "users_ok s \<longleftrightarrow> table_ok (us_users s) \<and> distinct (usernames s) \<and>
     list_all (\<lambda>(i, a). account_ok a) (t_rows (us_users s))"

text \<open>\<open>token_hex\<close> draws hexadecimal digits, and \<open>pbkdf2_hmac\<close> returns bytes.\<close>

definition moment_ok :: "moment \<Rightarrow> bool" where
  "moment_ok m \<longleftrightarrow> m_salt m \<noteq> [] \<and> 36 \<notin> set (m_salt m) \<and> (\<exists>bs. fromhex (m_salt m) = Inr bs)"

definition vault_ok :: "vault \<Rightarrow> bool" where
  "vault_ok v \<longleftrightarrow> jwt_law v \<and> (\<forall>password salt. \<forall>b \<in> set (pbkdf2 v password salt). b < 256)"

section \<open>Splitting and hexadecimal text\<close>

lemma hex_lower_range: "n < 16 \<Longrightarrow> 48 \<le> hex_lower n \<and> hex_lower n < 128"
  by (simp add: hex_lower_def)

lemma bytes_hex_chars: "\<forall>b \<in> set bs. b < 256 \<Longrightarrow> c \<in> set (bytes_hex bs) \<Longrightarrow> 48 \<le> c \<and> c < 128"
proof -
  assume bs: "\<forall>b \<in> set bs. b < 256" and c: "c \<in> set (bytes_hex bs)"
  from c obtain b where b: "b \<in> set bs" "c = hex_lower (b div 16) \<or> c = hex_lower (b mod 16)"
    by (auto simp: bytes_hex_def)
  with bs have "b div 16 < 16" "b mod 16 < 16" by auto
  with b(2) hex_lower_range show ?thesis by auto
qed

lemma hash_password_text:
  assumes "vault_ok v" "36 \<notin> set salt" "fromhex salt = Inr bs"
  shows "split_on 36 (lit ''pbkdf2$'' @ salt @ lit ''$'' @ bytes_hex (pbkdf2 v p bs)) =
    [lit ''pbkdf2'', salt, bytes_hex (pbkdf2 v p bs)]" (is "split_on 36 ?h = _")
proof -
  have h: "?h = lit ''pbkdf2'' @ 36 # salt @ 36 # bytes_hex (pbkdf2 v p bs)"
    by (simp add: lit_def)
  have d: "36 \<notin> set (bytes_hex (pbkdf2 v p bs))"
    using bytes_hex_chars [of "pbkdf2 v p bs" 36] assms(1) by (auto simp: vault_ok_def)
  have l: "36 \<notin> set (lit ''pbkdf2'')" by (simp add: lit_def)
  show ?thesis unfolding h split_on_cons [OF l] split_on_cons [OF assms(2)] split_on_none [OF d] ..
qed

lemma hash_password_drawn:
  assumes "vault_ok v" "moment_ok m"
  obtains bs where "hash_password v (m_salt m) p [] =
      Inr (lit ''pbkdf2$'' @ m_salt m @ lit ''$'' @ bytes_hex (pbkdf2 v p bs))"
    "fromhex (m_salt m) = Inr bs"
  using assms by (auto simp: moment_ok_def hash_password_def)

lemma hash_password_ok:
  assumes "vault_ok v" "moment_ok m" "hash_password v (m_salt m) p [] = Inr h"
  shows "hash_ok h"
proof -
  obtain bs where h: "h = lit ''pbkdf2$'' @ m_salt m @ lit ''$'' @ bytes_hex (pbkdf2 v p bs)"
    and bs: "fromhex (m_salt m) = Inr bs"
    using hash_password_drawn [OF assms(1, 2), of p] assms(3) by (metis sum.inject(2))
  have "36 \<notin> set (m_salt m)" "m_salt m \<noteq> []" using assms(2) by (auto simp: moment_ok_def)
  moreover have "ascii_text (bytes_hex (pbkdf2 v p bs))"
    using bytes_hex_chars [of "pbkdf2 v p bs"] assms(1) by (auto simp: ascii_text_def list_all_iff vault_ok_def)
  ultimately show ?thesis
    using hash_password_text [OF assms(1), of "m_salt m" bs p] bs by (simp add: hash_ok_def h)
qed

text \<open>A hash accepts exactly the passwords with the same digest under its salt.\<close>

lemma verify_password_hashed:
  assumes "vault_ok v" "moment_ok m" "fromhex (m_salt m) = Inr bs"
    "hash_password v (m_salt m) p [] = Inr h"
  shows "verify_password v drawn q h =
    Inr (bytes_hex (pbkdf2 v q bs) = bytes_hex (pbkdf2 v p bs))"
proof -
  let ?t = "\<lambda>p. lit ''pbkdf2$'' @ m_salt m @ lit ''$'' @ bytes_hex (pbkdf2 v p bs)"
  have s: "36 \<notin> set (m_salt m)" "m_salt m \<noteq> []" using assms(2) by (auto simp: moment_ok_def)
  have h: "h = ?t p" using assms(3, 4) s by (simp add: hash_password_def)
  have q: "hash_password v drawn q (m_salt m) = Inr (?t q)" using assms(3) s by (simp add: hash_password_def)
  have a: "list_all (\<lambda>c. c < 128) (bytes_hex (pbkdf2 v q bs) @ bytes_hex (pbkdf2 v p bs))"
    using bytes_hex_chars assms(1) by (fastforce simp: list_all_iff vault_ok_def)
  show ?thesis
    unfolding verify_password_def h hash_password_text [OF assms(1) s(1) assms(3)]
    using a by (simp add: q hash_password_text [OF assms(1) s(1) assms(3)] compare_digest_def del: list_all_append)
qed

section \<open>The store operations\<close>

lemma users_ok_table [dest]: "users_ok s \<Longrightarrow> table_ok (us_users s)"
  by (simp add: users_ok_def)

lemma row_of_on_user:
  "users_ok s \<Longrightarrow> row_of (on_user i f s) = (row_of s)(i := map_option f (row_of s i))"
  using table.update_law [of "us_users s" i f] by (simp add: row_of_def on_user_def users_ok_def)

lemma row_of_epoch [simp]: "row_of (s\<lparr>us_epoch := e\<rparr>) = row_of s"
  by (simp add: row_of_def)

lemma auth_epoch_simps [simp]:
  "auth_epoch (on_user i f s) = auth_epoch s" "auth_epoch (s\<lparr>us_users := t\<rparr>) = auth_epoch s"
  "auth_epoch (s\<lparr>us_epoch := Some e\<rparr>) = e"
  by (simp_all add: auth_epoch_def on_user_def)

lemma users_ok_row: "users_ok s \<Longrightarrow> row_of s i = Some a \<Longrightarrow> account_ok a"
  by (auto simp: users_ok_def row_of_def get_row_def list_all_iff dest: map_of_SomeD)

lemma usernames_on_user:
  assumes "\<And>a. acc_username (f a) = acc_username a"
  shows "usernames (on_user i f s) = usernames s"
  by (auto simp: usernames_def on_user_def update_row_def assms)

lemma users_ok_on_user:
  assumes "users_ok s" "\<And>a. acc_username (f a) = acc_username a"
    "\<And>a. account_ok a \<Longrightarrow> account_ok (f a)"
  shows "users_ok (on_user i f s)"
  using assms(1) table.update_law [of "us_users s" i f] assms(3)
  unfolding users_ok_def usernames_on_user [of f, OF assms(2)]
  by (auto simp: on_user_def update_row_def list_all_iff)

lemma by_username_None: "by_username name s = None \<longleftrightarrow> name \<notin> set (usernames s)"
  by (force simp: by_username_def usernames_def find_None_iff)

lemma by_username_Some:
  assumes "users_ok s" "by_username name s = Some u"
  obtains a where "row_of s (user_id u) = Some a" "u = user_of (user_id u) a" "acc_username a = name"
proof -
  obtain i a where f: "find (\<lambda>(i, a). acc_username a = name) (t_rows (us_users s)) = Some (i, a)"
    and u: "u = user_of i a" using assms(2) by (auto simp: by_username_def)
  then have "(i, a) \<in> set (t_rows (us_users s))" "acc_username a = name"
    by (auto simp: find_Some_iff in_set_conv_nth)
  moreover have "distinct (map fst (t_rows (us_users s)))"
    using assms(1) table_ok_distinct by blast
  ultimately have "row_of s i = Some a" by (simp add: row_of_def get_row_def)
  then show ?thesis using that u \<open>acc_username a = name\<close> by (simp add: user_of_def)
qed

lemma by_username_row:
  assumes "users_ok s" "row_of s i = Some a"
  shows "by_username (acc_username a) s = Some (user_of i a)"
proof -
  have ne: "by_username (acc_username a) s \<noteq> None"
    using map_of_SomeD [OF assms(2) [unfolded row_of_def get_row_def]]
    unfolding by_username_None usernames_def by force
  then obtain u where u: "by_username (acc_username a) s = Some u" by auto
  obtain b where b: "row_of s (user_id u) = Some b" "u = user_of (user_id u) b" "acc_username b = acc_username a"
    using by_username_Some [OF assms(1) u] by metis
  have "(user_id u, b) = (i, a)"
  proof -
    have "(user_id u, b) \<in> set (t_rows (us_users s))" "(i, a) \<in> set (t_rows (us_users s))"
      using b(1) assms(2) by (auto simp: row_of_def get_row_def dest: map_of_SomeD)
    moreover have "inj_on (\<lambda>(i, a). acc_username a) (set (t_rows (us_users s)))"
      using assms(1) by (simp add: users_ok_def usernames_def distinct_map)
    ultimately show ?thesis using b(3) by (auto dest: inj_onD [where x = "(user_id u, b)" and y = "(i, a)"])
  qed
  with u b(2) show ?thesis by simp
qed

text \<open>What \<open>create_account\<close> does when it succeeds, and that it changes nothing otherwise.\<close>

lemma create_accountE:
  assumes "create_account v m name password display role s = (r, s')"
  obtains (refused) e where "r = Inl e" "s' = s"
  | (created) h a i t where "hash_password v (m_salt m) (strip password) [] = Inr h"
      "username_matches (strip name)" "MIN_PASSWORD \<le> length (strip password)" "role \<in> set ROLES"
      "strip name \<notin> set (usernames s)"
      "a = \<lparr>acc_username = strip name, acc_hash = h,
          acc_display = take 128 (if strip display = [] then strip name else strip display),
          acc_role = role, acc_active = True, acc_disabled_at = None,
          acc_valid_from = None, acc_created_at = m_text m\<rparr>"
      "insert_row a (us_users s) = (i, t)" "s' = s\<lparr>us_users := t\<rparr>"
      "r = (case get_user i s' of Some u \<Rightarrow> Inr u | None \<Rightarrow> Inl AssertionError)"
  using assms unfolding create_account_def Let_def
  by (auto split: if_splits sum.splits prod.splits simp: by_username_None not_less)

lemma users_ok_create:
  assumes "vault_ok v" "moment_ok m" "users_ok s" "create_account v m name password display role s = (r, s')"
  shows "users_ok s'"
  using assms(4)
proof (cases rule: create_accountE)
  case (created h a i t)
  have "account_ok a"
    using hash_password_ok [OF assms(1, 2) created(1)] created(2, 4) by (simp add: account_ok_def created(6))
  moreover have "table_ok t"
    using table_ok_insert_row [OF users_ok_table [OF assms(3)] created(7)] .
  moreover have "t_rows t = t_rows (us_users s) @ [(i, a)]" using created(7) by (auto simp: insert_row_def)
  ultimately show ?thesis
    using assms(3) created(5, 8) unfolding users_ok_def usernames_def by (simp add: created(6))
qed (use assms(3) in simp)

lemma keeps_readM [intro, simp]: "keeps I (readM f)"
  by (simp add: keeps_def readM_def)

lemma keeps_becomes [intro]: "keeps I m \<Longrightarrow> keeps I (becomes e n m)"
  unfolding keeps_def becomes_def by (auto split: prod.splits sum.splits)

lemma users_ok_keeps_create:
  "vault_ok v \<Longrightarrow> moment_ok m \<Longrightarrow> keeps users_ok (create_account v m name password display role)"
  unfolding keeps_def by (metis users_ok_create prod.collapse)

lemma users_ok_keeps_set_password:
  assumes "vault_ok v" "moment_ok m"
  shows "keeps users_ok (set_password v m i password)"
  unfolding keeps_def set_password_def using hash_password_ok [OF assms]
  by (auto split: sum.splits intro!: users_ok_on_user simp: account_ok_def)

lemma users_ok_keeps_update: "keeps users_ok (update_account m i display role active)"
  unfolding keeps_def update_account_def Let_def
  by (auto intro!: users_ok_on_user simp: account_ok_def split: option.splits if_splits)

lemma users_ok_keeps_delete: "keeps users_ok (delete_account i)"
proof -
  have "users_ok (s\<lparr>us_users := delete_row i (us_users s)\<rparr>)" if "users_ok s" for s
    using that table_ok_delete_row [of "us_users s" i]
    by (auto simp: users_ok_def usernames_def delete_row_def list_all_iff distinct_map intro: inj_on_subset distinct_filter)
  then show ?thesis by (simp add: keeps_def delete_account_def)
qed

lemma users_ok_keeps_revoke: "keeps users_ok (revoke_user_sessions m i)"
  unfolding keeps_def revoke_user_sessions_def by (auto intro!: users_ok_on_user simp: account_ok_def)

lemma users_ok_keeps_revoke_all: "keeps users_ok (revoke_all_sessions m)"
  by (simp add: keeps_def revoke_all_sessions_def users_ok_def usernames_def)

lemmas users_ok_keeps = users_ok_keeps_create users_ok_keeps_set_password users_ok_keeps_update
  users_ok_keeps_delete users_ok_keeps_revoke users_ok_keeps_revoke_all

lemmas account_handlers = login_def change_password_def create_user_def update_user_def delete_user_def
  revoke_all_def revoke_one_def as_user_def as_admin_def

lemma keeps_handle_account:
  assumes "\<And>name password display role. keeps I (create_account v m name password display role)"
    "\<And>i password. keeps I (set_password v m i password)"
    "\<And>i display role active. keeps I (update_account m i display role active)"
    "\<And>i. keeps I (delete_account i)" "\<And>i. keeps I (revoke_user_sessions m i)"
    "keeps I (revoke_all_sessions m)"
  shows "keeps I (handle_account v m header req)"
  by (cases req) (auto simp: account_handlers intro!: keeps_bindM keeps_becomes assms split: option.splits)

lemma users_ok_keeps_account:
  assumes "vault_ok v" "moment_ok m"
  shows "keeps users_ok (handle_account v m header req)"
  by (rule keeps_handle_account) (simp_all add: users_ok_keeps assms)

section \<open>A way in\<close>

text \<open>There is an account that can administer the others.\<close>

definition has_admin :: "user_store \<Rightarrow> bool" where
  "has_admin s \<longleftrightarrow> (\<exists>(i, a) \<in> set (t_rows (us_users s)). active_admin a)"

definition admin_at :: "int \<Rightarrow> user_store \<Rightarrow> bool" where
  "admin_at i s \<longleftrightarrow> users_ok s \<and> (case row_of s i of None \<Rightarrow> False | Some a \<Rightarrow> active_admin a)"

lemma admin_atE: "admin_at i s \<Longrightarrow> (\<And>a. users_ok s \<Longrightarrow> row_of s i = Some a \<Longrightarrow> active_admin a \<Longrightarrow> P) \<Longrightarrow> P"
  by (auto simp: admin_at_def split: option.splits)

lemma admin_at_has_admin: "admin_at i s \<Longrightarrow> has_admin s"
  by (erule admin_atE) (force simp: has_admin_def row_of_def get_row_def dest: map_of_SomeD)

lemma has_admin_at: "users_ok s \<Longrightarrow> has_admin s \<Longrightarrow> \<exists>i. admin_at i s"
proof -
  assume ok: "users_ok s" and "has_admin s"
  then obtain i a where "(i, a) \<in> set (t_rows (us_users s))" "active_admin a" by (auto simp: has_admin_def)
  moreover have "distinct (map fst (t_rows (us_users s)))" using ok table_ok_distinct by blast
  ultimately have "admin_at i s" using ok by (simp add: admin_at_def row_of_def get_row_def)
  then show ?thesis ..
qed

lemma get_user_Some: "get_user i s = Some u \<longleftrightarrow> (\<exists>a. row_of s i = Some a \<and> u = user_of i a)"
  by (auto simp: get_user_def)

lemma user_of_simps [simp]:
  "user_id (user_of i a) = i" "user_role (user_of i a) = acc_role a" "user_active (user_of i a) = acc_active a"
  "user_valid_from (user_of i a) = acc_valid_from a" "user_name (user_of i a) = acc_username a"
  by (simp_all add: user_of_def)

lemma current_user_row:
  assumes "current_user v m header s = Inr u"
  obtains a where "row_of s (user_id u) = Some a" "u = user_of (user_id u) a" "acc_active a"
  using assms unfolding current_user_def
  by (fastforce simp: get_user_def split: option.splits if_splits)

lemma admin_user_row:
  assumes "users_ok s" "admin_user v m header s = Inr u"
  shows "admin_at (user_id u) s"
proof -
  have cu: "current_user v m header s = Inr u" and ad: "is_admin u"
    using assms(2) by (auto simp: admin_user_def py_splits split: if_splits)
  from current_user_row [OF cu] obtain a where
    a: "row_of s (user_id u) = Some a" "u = user_of (user_id u) a" "acc_active a" .
  from a(2) have "user_role u = acc_role a" by (metis user_of_simps(2))
  with ad a assms(1) show ?thesis by (simp add: admin_at_def active_admin_def is_admin_def)
qed

text \<open>Operations on other rows, or that keep role and activity, leave an administrator in place.\<close>

lemma admin_at_on_user:
  assumes "admin_at i s" "users_ok (on_user j f s)" "\<And>a. i = j \<Longrightarrow> row_of s i = Some a \<Longrightarrow> active_admin a \<Longrightarrow> active_admin (f a)"
  shows "admin_at i (on_user j f s)"
  using assms(1)
proof (rule admin_atE)
  fix a assume "users_ok s" "row_of s i = Some a" "active_admin a"
  with assms(2, 3) show ?thesis by (auto simp: admin_at_def row_of_on_user)
qed

lemma admin_at_keeps_create:
  assumes "vault_ok v" "moment_ok m"
  shows "keeps (admin_at i) (create_account v m name password display role)"
  unfolding keeps_def
proof (intro allI impI)
  fix s assume ad: "admin_at i s"
  obtain r s' where c: "create_account v m name password display role s = (r, s')" by (cases "create_account v m name password display role s")
  from ad have ok: "users_ok s" by (simp add: admin_at_def)
  have "admin_at i s'" using c
  proof (cases rule: create_accountE)
    case (created h a j t)
    have "row_of s' = (row_of s)(j \<mapsto> a)"
      using get_insert_row [OF users_ok_table [OF ok] created(7)] by (simp add: row_of_def created(8))
    moreover have "row_of s j = None"
      using table.insert_fresh [OF users_ok_table [OF ok] created(7)] by (simp add: row_of_def)
    ultimately show ?thesis
      using ad users_ok_create [OF assms ok c] by (auto simp: admin_at_def split: option.splits)
  qed (use ad in simp)
  with c show "admin_at i (snd (create_account v m name password display role s))" by simp
qed

lemma admin_at_keeps_set_password:
  assumes "vault_ok v" "moment_ok m"
  shows "keeps (admin_at i) (set_password v m j password)"
proof -
  have "admin_at i (on_user j (\<lambda>a. a\<lparr>acc_hash := h, acc_valid_from := Some (m_now m)\<rparr>) s)"
    if "hash_password v (m_salt m) (strip password) [] = Inr h" "admin_at i s" for h s
    using that hash_password_ok [OF assms that(1)]
    by (intro admin_at_on_user users_ok_on_user) (auto simp: account_ok_def active_admin_def admin_at_def)
  then show ?thesis by (auto simp: keeps_def set_password_def split: sum.splits)
qed

lemma admin_at_keeps_revoke: "keeps (admin_at i) (revoke_user_sessions m j)"
proof -
  have "admin_at i (on_user j (\<lambda>a. a\<lparr>acc_valid_from := Some (m_now m)\<rparr>) s)" if "admin_at i s" for s
    using that by (intro admin_at_on_user users_ok_on_user) (auto simp: account_ok_def active_admin_def admin_at_def)
  then show ?thesis by (simp add: keeps_def revoke_user_sessions_def)
qed

lemma admin_at_keeps_revoke_all: "keeps (admin_at i) (revoke_all_sessions m)"
  by (auto simp: keeps_def revoke_all_sessions_def admin_at_def users_ok_def usernames_def)

lemma admin_at_delete_other:
  "admin_at i s \<Longrightarrow> i \<noteq> j \<Longrightarrow> admin_at i (snd (delete_account j s))"
  using users_ok_keeps_delete [of j] table.delete_law [of "us_users s" j]
  by (auto simp: admin_at_def keeps_def delete_account_def row_of_def)

lemma admin_at_update_account:
  assumes "admin_at i s"
    "i = j \<Longrightarrow> (role = None \<or> role = Some (lit ''admin'')) \<and> active \<noteq> Some False"
  shows "admin_at i (snd (update_account m j display role active s))"
proof -
  have "users_ok (snd (update_account m j display role active s))"
    using assms(1) users_ok_keeps_update by (auto simp: keeps_def admin_at_def)
  then show ?thesis
    using assms unfolding update_account_def Let_def
    by (auto intro!: admin_at_on_user simp: active_admin_def split: option.splits if_splits)
qed

text \<open>The two handlers that change or remove an account cannot touch the caller's.\<close>

lemma admin_at_update_user:
  assumes "vault_ok v" "moment_ok m" "admin_at (user_id me) s"
  shows "admin_at (user_id me) (snd (update_user v m me i p s))"
proof (cases "get_user i s")
  case None
  then show ?thesis using assms(3) by (simp add: update_user_def bindM_def readM_def found_def)
next
  case (Some target)
  let ?pw = "case patch_password p of None \<Rightarrow> returnM () | Some new \<Rightarrow> becomes ValueError 422 (set_password v m i new)"
  have kp: "keeps (admin_at (user_id me)) ?pw"
    using admin_at_keeps_set_password [OF assms(1, 2)] by (auto split: option.splits)
  obtain r s1 where pw: "?pw s = (r, s1)" by (cases "?pw s")
  with kp assms(3) have s1: "admin_at (user_id me) s1" by (metis keeps_def snd_conv)
  from Some have t: "user_id target = i" by (auto simp: get_user_Some)
  have upd: "admin_at (user_id me) (snd (update_account m i (patch_display p) (patch_role p) (patch_active p) s1))"
    if g: "guard_role me target p s1 = Inr ()" "guard_active me target p s1 = Inr ()"
  proof (rule admin_at_update_account [OF s1])
    assume i: "user_id me = i"
    obtain a where a: "row_of s i = Some a" "active_admin a" "target = user_of i a"
      using assms(3) Some i by (auto elim!: admin_atE simp: get_user_Some)
    then show "(patch_role p = None \<or> patch_role p = Some (lit ''admin'')) \<and> patch_active p \<noteq> Some False"
      using g i by (auto simp: guard_role_def guard_active_def active_admin_def split: option.splits if_splits)
  qed
  show ?thesis
    using upd s1 unfolding update_user_def bindM_def readM_def found_def becomes_def liftM_def returnM_def
    by (auto simp: Some pw [unfolded becomes_def returnM_def] split: sum.splits prod.splits)
qed

lemma admin_at_delete_user:
  assumes "admin_at (user_id me) s"
  shows "admin_at (user_id me) (snd (delete_user m me i hard s))"
proof (cases "get_user i s")
  case None
  then show ?thesis using assms by (simp add: delete_user_def bindM_def readM_def found_def)
next
  case (Some target)
  then have t: "user_id target = i" by (auto simp: get_user_Some)
  show ?thesis
  proof (cases "user_id me = i")
    case True
    with Some t assms show ?thesis by (simp add: delete_user_def bindM_def readM_def found_def raiseM_def)
  next
    case False
    have 1: "admin_at (user_id me) (snd (delete_account i s))"
      using admin_at_delete_other [OF assms False] .
    have 2: "admin_at (user_id me) (snd (update_account m i None None (Some False) s))"
      using False by (intro admin_at_update_account [OF assms]) simp
    then have 3: "admin_at (user_id me) (snd (revoke_user_sessions m i (snd (update_account m i None None (Some False) s))))"
      using admin_at_keeps_revoke by (auto simp: keeps_def)
    show ?thesis
      using 1 2 3 False assms
      by (auto simp: delete_user_def bindM_def readM_def found_def Some t
          split: sum.splits prod.splits) 
  qed
qed

lemma keeps_mild_account:
  assumes "\<And>name password display role. keeps I (create_account v m name password display role)"
    "\<And>i password. keeps I (set_password v m i password)" "\<And>i. keeps I (revoke_user_sessions m i)"
    "keeps I (revoke_all_sessions m)"
    "\<And>i p. req \<noteq> UpdateUser i p" "\<And>i hard. req \<noteq> DeleteUser i hard"
  shows "keeps I (handle_account v m header req)"
  using assms(5, 6)
  by (cases req) (auto simp: account_handlers intro!: keeps_bindM keeps_becomes assms(1-4) split: option.splits)


end
