(* ===== verification/Revocation.thy ===== *)
theory Revocation
  imports Sessions
begin

text \<open>
  The life of a bearer token: issued by a login, accepted until it expires, and refused for good
  once its sessions are ended.
\<close>

section \<open>Reading a token back\<close>

definition bearer :: "pystr \<Rightarrow> pystr option" where
  "bearer token = Some (lit ''Bearer '' @ token)"

lemma token_of_bearer [simp]: "token_from_request (bearer token) = Some token"
  by (simp add: token_from_request_def bearer_def lit_def lower_point_def ascii_defs)

section \<open>Revocation\<close>

text \<open>A token of the user \<open>i\<close> minted at \<open>t\<close> is dead: its account is gone or a cutoff lies after it.\<close>

definition ended :: "int \<Rightarrow> int \<Rightarrow> user_store \<Rightarrow> bool" where
  "ended i t s \<longleftrightarrow> users_ok s \<and>
     (case row_of s i of
        None \<Rightarrow> i \<le> t_seq (us_users s)
      | Some a \<Rightarrow> t < auth_epoch s \<or> (case acc_valid_from a of None \<Rightarrow> False | Some f \<Rightarrow> t < f))"

lemma ended_users_ok [dest]: "ended i t s \<Longrightarrow> users_ok s"
  by (simp add: ended_def)

lemma row_of_issued: "users_ok s \<Longrightarrow> row_of s i = Some a \<Longrightarrow> i \<le> t_seq (us_users s)"
  using table.get_issued [of "us_users s" i a] by (auto simp: row_of_def)

lemma t_seq_on_user [simp]: "t_seq (us_users (on_user i f s)) = t_seq (us_users s)"
  by (simp add: on_user_def update_row_def)

lemma ended_on_user:
  assumes "ended i t s" "users_ok (on_user j f s)"
    "\<And>a. acc_valid_from (f a) = acc_valid_from a \<or> (\<exists>now > t. acc_valid_from (f a) = Some now)"
  shows "ended i t (on_user j f s)"
  using assms(1, 2) assms(3) [of "the (row_of s i)"] row_of_on_user [of s j f]
  by (auto simp: ended_def split: option.splits if_splits)

lemma ended_create:
  assumes "vault_ok v" "moment_ok m" "ended i t s" "create_account v m name password display role s = (r, s')"
  shows "ended i t s'"
  using assms(4)
proof (cases rule: create_accountE)
  case (created h a k tb)
  note law = table.insert_law [OF users_ok_table [OF ended_users_ok [OF assms(3)]] created(7)]
  have row: "row_of s' = (row_of s)(k \<mapsto> a)" using law by (simp add: row_of_def created(8))
  have "i \<noteq> k"
    using assms(3) row_of_issued [of s i] law by (auto simp: ended_def split: option.splits)
  moreover have "t_seq (us_users s') > t_seq (us_users s)" using law by (simp add: created(8))
  moreover have "auth_epoch s' = auth_epoch s" by (simp add: created(8))
  ultimately show ?thesis
    using assms(3) users_ok_create [OF assms(1, 2) ended_users_ok [OF assms(3)] assms(4)] row
    by (auto simp: ended_def split: option.splits)
qed (use assms(3) in simp)

lemma ended_delete:
  assumes "ended i t s"
  shows "ended i t (snd (delete_account j s))"
proof -
  have "users_ok (snd (delete_account j s))" using assms users_ok_keeps_delete by (auto simp: keeps_def)
  moreover have "row_of (snd (delete_account j s)) = (row_of s)(j := None)"
    "t_seq (us_users (snd (delete_account j s))) = t_seq (us_users s)"
    using table.delete_law [of "us_users s" j] assms by (auto simp: row_of_def delete_account_def)
  moreover have "auth_epoch (snd (delete_account j s)) = auth_epoch s" by (simp add: delete_account_def)
  ultimately show ?thesis
    using assms row_of_issued [of s i] by (auto simp: ended_def split: option.splits)
qed

lemma ended_keeps:
  assumes "vault_ok v" "moment_ok m" "t < m_now m"
  shows "keeps (ended i t) (create_account v m name password display role)"
    "keeps (ended i t) (set_password v m j pw)" "keeps (ended i t) (update_account m j d r act)"
    "keeps (ended i t) (delete_account j)" "keeps (ended i t) (revoke_user_sessions m j)"
    "keeps (ended i t) (revoke_all_sessions m)"
proof -
  show "keeps (ended i t) (create_account v m name password display role)"
    unfolding keeps_def by (metis ended_create [OF assms(1, 2)] prod.collapse)
next
  have "ended i t (on_user j (\<lambda>a. a\<lparr>acc_hash := h, acc_valid_from := Some (m_now m)\<rparr>) s)"
    if "hash_password v (m_salt m) (strip pw) [] = Inr h" "ended i t s" for h s
    using that hash_password_ok [OF assms(1, 2) that(1)] assms(3)
    by (intro ended_on_user users_ok_on_user) (auto simp: account_ok_def)
  then show "keeps (ended i t) (set_password v m j pw)"
    by (auto simp: keeps_def set_password_def split: sum.splits)
next
  have "ended i t (snd (update_account m j d r act s))" if "ended i t s" for s
  proof -
    have "users_ok (snd (update_account m j d r act s))"
      using that users_ok_keeps_update by (auto simp: keeps_def)
    with that show ?thesis
      unfolding update_account_def Let_def by (auto intro!: ended_on_user split: if_splits)
  qed
  then show "keeps (ended i t) (update_account m j d r act)" by (simp add: keeps_def)
next
  show "keeps (ended i t) (delete_account j)" by (simp add: keeps_def ended_delete)
next
  have "ended i t (on_user j (\<lambda>a. a\<lparr>acc_valid_from := Some (m_now m)\<rparr>) s)" if "ended i t s" for s
    using that assms(3) by (intro ended_on_user users_ok_on_user) (auto simp: account_ok_def)
  then show "keeps (ended i t) (revoke_user_sessions m j)"
    by (simp add: keeps_def revoke_user_sessions_def)
next
  show "keeps (ended i t) (revoke_all_sessions m)"
    using assms(3) by (auto simp: keeps_def revoke_all_sessions_def ended_def users_ok_def usernames_def split: option.splits)
qed

type_synonym visit = "moment \<times> pystr option \<times> account_request"

fun visits :: "vault \<Rightarrow> visit list \<Rightarrow> user_store \<Rightarrow> user_store" where
  "visits v [] s = s"
| "visits v ((m, header, req) # vs) s = visits v vs (snd (handle_account v m header req s))"

lemma ended_forever:
  assumes "vault_ok v" "\<forall>(m, header, req) \<in> set vs. moment_ok m \<and> t < m_now m" "ended i t s"
  shows "ended i t (visits v vs s)"
  using assms(2, 3)
proof (induction vs arbitrary: s)
  case (Cons x vs)
  obtain m header req where x: "x = (m, header, req)" by (cases x)
  with Cons.prems have "keeps (ended i t) (handle_account v m header req)"
    by (intro keeps_handle_account ended_keeps [OF assms(1)]) auto
  with Cons x show ?case by (simp add: keeps_def)
qed simp

lemma ended_refused:
  assumes "jwt_law v" "ended (user_id u) (m_mint m0) s" "0 \<le> m_mint m0" "0 \<le> user_id u" "user_id u < 2 ^ 63"
  shows "current_user v m (bearer (make_token v m0 u)) s = Inl (HTTPException 401)"
proof (cases "make_token v m0 u = []")
  case True
  then show ?thesis by (simp add: current_user_def)
next
  case False
  show ?thesis
  proof (cases "jwt_decode v (m_now m) (make_token v m0 u)")
    case None
    with False show ?thesis by (simp add: current_user_def)
  next
    case (Some c)
    then have c: "c_sub c = int_text (user_id u)" "c_iat c = m_mint m0"
      using assms(1) by (auto simp: make_token_def jwt_law_def split: if_splits)
    show ?thesis
      using assms(2, 3) False Some c py_int_int_text [OF assms(4, 5)]
      by (auto simp: current_user_def ended_def get_user_def cutoff_of_def split: option.splits)
  qed
qed

text \<open>The requests after which the tokens of the account \<open>i\<close> are void.\<close>

fun ends_sessions :: "vault \<Rightarrow> moment \<Rightarrow> pystr option \<Rightarrow> user_store \<Rightarrow> int \<Rightarrow> account_request \<Rightarrow> bool" where
  "ends_sessions v m header s i RevokeAll = True"
| "ends_sessions v m header s i (RevokeOne j) = (j = i)"
| "ends_sessions v m header s i (DeleteUser j hard) = (j = i)"
| "ends_sessions v m header s i (UpdateUser j p) = (j = i \<and> patch_password p \<noteq> None)"
| "ends_sessions v m header s i (ChangePassword current new) =
     (case current_user v m header s of Inl _ \<Rightarrow> False | Inr me \<Rightarrow> user_id me = i)"
| "ends_sessions v m header s i _ = False"

lemma becomes_Inr [simp]: "becomes e n m s = (Inr x, s') \<longleftrightarrow> m s = (Inr x, s')"
  by (auto simp: becomes_def split: prod.splits sum.splits)

lemma readM_eq [simp]: "readM f s = (r, s') \<longleftrightarrow> f s = r \<and> s' = s"
  by (auto simp: readM_def)

lemma found_Inr [simp]: "found n u = Inr x \<longleftrightarrow> u = Some x" "asserted u = Inr x \<longleftrightarrow> u = Some x"
  by (auto simp: found_def asserted_def split: option.splits)

lemma ended_by_valid_from:
  assumes "users_ok s" "users_ok (on_user i f s)" "i \<le> t_seq (us_users s)"
    "\<And>a. acc_valid_from (f a) = Some now" "t < now"
  shows "ended i t (on_user i f s)"
  using assms by (auto simp: ended_def row_of_on_user split: option.splits)

lemma ended_by_set_password:
  assumes "vault_ok v" "moment_ok m" "users_ok s" "set_password v m i pw s = (Inr (), s')"
    "i \<le> t_seq (us_users s)" "t < m_now m"
  shows "ended i t s'"
proof -
  have "users_ok s'" using users_ok_keeps_set_password [OF assms(1, 2), of i pw] assms(3, 4)
    by (metis keeps_def snd_conv)
  then show ?thesis
    using assms(3-6) by (auto simp: set_password_def intro!: ended_by_valid_from split: if_splits sum.splits)
qed

lemma ended_by_revoke:
  assumes "users_ok s" "i \<le> t_seq (us_users s)" "t < m_now m"
  shows "ended i t (snd (revoke_user_sessions m i s))"
  using users_ok_keeps_revoke [of m i] assms
  by (auto simp: keeps_def revoke_user_sessions_def intro!: ended_by_valid_from)

lemma ended_by_delete:
  assumes "users_ok s" "i \<le> t_seq (us_users s)"
  shows "ended i t (snd (delete_account i s))"
  using users_ok_keeps_delete [of i] table.delete_law [of "us_users s" i] assms
  by (auto simp: ended_def keeps_def delete_account_def row_of_def)

lemma ended_by_request:
  assumes v: "vault_ok v" and m: "moment_ok m" and ok: "users_ok s"
    and h: "handle_account v m header req s = (Inr ans, s')" and e: "ends_sessions v m header s i req"
    and i: "i \<le> t_seq (us_users s)" and t: "t < m_now m"
  shows "ended i t s'"
proof (cases req)
  case RevokeAll
  have "users_ok s'" using users_ok_keeps_account [OF v m, of header req] ok h by (metis keeps_def snd_conv)
  then show ?thesis
    using h i t RevokeAll
    by (auto simp: as_admin_def revoke_all_def revoke_all_sessions_def py_splits ended_def
        split: option.splits)
next
  case (RevokeOne j)
  then show ?thesis
    using h e ended_by_revoke [OF ok i t]
    by (auto simp: as_admin_def revoke_one_def revoke_user_sessions_def py_splits)
next
  case (DeleteUser j hard)
  have upd: "users_ok s1" "t_seq (us_users s1) = t_seq (us_users s)"
    if "update_account m i None None (Some False) s = (r, s1)" for r s1
    using that users_ok_keeps_update [of m i None None "Some False"] ok
    by (auto simp: keeps_def update_account_def Let_def)
  show ?thesis
    using h e DeleteUser ended_by_delete [OF ok i, of t] ended_by_revoke [OF upd(1) _ t, of _ _ i] upd(2) i
    by (fastforce simp: as_admin_def delete_user_def delete_account_def revoke_user_sessions_def py_splits
        split: if_splits)
next
  case (UpdateUser j p)
  then obtain new where new: "patch_password p = Some new" and j: "j = i" using e by auto
  with UpdateUser h obtain s1 d r act u where
    pw: "set_password v m i new s = (Inr (), s1)" and upd: "update_account m i d r act s1 = (Inr u, s')"
    by (fastforce simp: as_admin_def update_user_def py_splits)
  have "ended i t s1" using ended_by_set_password [OF v m ok pw i t] .
  with upd ended_keeps(3) [OF v m t, of i i d r act] show ?thesis by (metis keeps_def snd_conv)
next
  case (ChangePassword current new)
  then show ?thesis
    using h e ended_by_set_password [OF v m ok _ i t, of new]
    by (auto simp: as_user_def change_password_def py_splits split: if_splits)
qed (use e in simp_all)


end
