(* ===== verification/Logins.thy ===== *)
theory Logins
  imports Revocation
begin

text \<open>
  What a login gives: a new account can sign in with its password, stripped, and its token is
  accepted until it expires. Also two defects: a refused update of an account still resets its
  password, and two administrators demoting each other at once leave none.
\<close>

section \<open>A new account can log in\<close>

lemma hex_lower_inj: "a < 16 \<Longrightarrow> b < 16 \<Longrightarrow> hex_lower a = hex_lower b \<longleftrightarrow> a = b"
  by (auto simp: hex_lower_def split: if_splits)

lemma bytes_hex_inj:
  assumes "\<forall>b \<in> set xs. b < 256" "\<forall>b \<in> set ys. b < 256"
  shows "bytes_hex xs = bytes_hex ys \<longleftrightarrow> xs = ys"
  using assms
proof (induction xs arbitrary: ys)
  case Nil
  then show ?case by (cases ys) (simp_all add: bytes_hex_def)
next
  case (Cons x xs)
  show ?case
  proof (cases ys)
    case Nil
    then show ?thesis by (simp add: bytes_hex_def)
  next
    case (Cons y zs)
    have r: "x div 16 < 16" "y div 16 < 16" using Cons.prems Cons by auto
    have "bytes_hex (x # xs) = bytes_hex (y # zs) \<longleftrightarrow>
        hex_lower (x div 16) = hex_lower (y div 16) \<and> hex_lower (x mod 16) = hex_lower (y mod 16) \<and>
        bytes_hex xs = bytes_hex zs"
      by (simp add: bytes_hex_def)
    also have "\<dots> \<longleftrightarrow> (x div 16 = y div 16 \<and> x mod 16 = y mod 16) \<and> bytes_hex xs = bytes_hex zs"
      using r by (simp add: hex_lower_inj)
    also have "(x div 16 = y div 16 \<and> x mod 16 = y mod 16) \<longleftrightarrow> x = y"
      by (metis div_mult_mod_eq)
    finally show ?thesis using Cons.IH [of zs] Cons.prems Cons by auto
  qed
qed

lemma verify_password_iff:
  assumes "vault_ok v" "moment_ok m" "fromhex (m_salt m) = Inr bs" "hash_password v (m_salt m) p [] = Inr h"
  shows "verify_password v drawn q h = Inr (pbkdf2 v q bs = pbkdf2 v p bs)"
  using verify_password_hashed [OF assms] assms(1) by (simp add: vault_ok_def bytes_hex_inj)

lemma hash_nonempty: "hash_password v drawn p given = Inr h \<Longrightarrow> h \<noteq> []"
  by (auto simp: hash_password_def lit_def py_splits Let_def)

lemma login_row:
  assumes "users_ok s" "row_of s i = Some a" "acc_username a = strip name" "acc_active a" "acc_hash a \<noteq> []"
  shows "login v m name q s =
    (case verify_password v (m_salt m) q (acc_hash a) of
       Inl e \<Rightarrow> Inl e
     | Inr ok \<Rightarrow> if ok then Inr (LoggedIn (make_token v m (user_of i a)) (public (user_of i a)))
                 else Inl (HTTPException 401), s)"
proof -
  have "by_username (strip name) s = Some (user_of i a)" using by_username_row [OF assms(1, 2)] assms(3) by simp
  then show ?thesis
    using assms by (simp add: login_def readM_def password_hash_def bindE_def asserted_def split: sum.splits)
qed

lemma token_accepted:
  assumes "jwt_law v" "row_of s i = Some a" "acc_active a" "0 \<le> i" "i < 2 ^ 63"
    "auth_epoch s \<le> m_mint m0" "case acc_valid_from a of None \<Rightarrow> True | Some f \<Rightarrow> f \<le> m_mint m0"
    "m_mint m0 \<le> m_now m" "m_now m < (m_mint m0 div SECOND + token_ttl_hours v * 3600) * SECOND"
    "make_token v m0 (user_of i a) \<noteq> []"
  shows "current_user v m (bearer (make_token v m0 (user_of i a))) s = Inr (user_of i a)"
proof -
  have e: "(m_mint m0 + token_ttl_hours v * 3600 * SECOND) div SECOND = m_mint m0 div SECOND + token_ttl_hours v * 3600"
    by (simp add: SECOND_def)
  have "m_mint m0 div SECOND * SECOND = m_mint m0 - m_mint m0 mod SECOND" by (simp add: minus_mod_eq_div_mult)
  moreover have "0 \<le> m_mint m0 mod SECOND" by (simp add: SECOND_def)
  ultimately have l: "m_mint m0 div SECOND * SECOND \<le> m_now m" using assms(8) by simp
  have "jwt_decode v (m_now m) (make_token v m0 (user_of i a)) = Some
      \<lparr>c_sub = int_text i, c_username = acc_username a, c_role = acc_role a, c_iat = m_mint m0,
       c_exp = m_mint m0 div SECOND + token_ttl_hours v * 3600\<rparr>"
    using assms(1, 9) l by (simp add: make_token_def jwt_law_def e)
  then show ?thesis
    using assms(2-7, 10) py_int_int_text [OF assms(4, 5)]
    by (auto simp: current_user_def get_user_def cutoff_of_def split: option.splits)
qed

text \<open>
  After an account has been created with a password, its owner can log in under its name with
  exactly the passwords that have the digest of the stripped one, and the token of that login
  identifies the account on every request until it expires, as long as nobody has signed everyone
  out after the login.
\<close>

theorem created_account_logs_in:
  assumes "vault_ok v" "moment_ok m" "users_ok s"
    "create_account v m name password display role s = (Inr u, s')" "fromhex (m_salt m) = Inr bs"
    "0 \<le> t_seq (us_users s)" "t_seq (us_users s) + 1 < 2 ^ 63" "make_token v m1 u \<noteq> []"
    "auth_epoch s \<le> m_mint m1" "m_mint m1 \<le> m_now m2"
    "m_now m2 < (m_mint m1 div SECOND + token_ttl_hours v * 3600) * SECOND"
  shows "login v m1 name q s' =
      (if pbkdf2 v q bs = pbkdf2 v (strip password) bs
       then Inr (LoggedIn (make_token v m1 u) (public u)) else Inl (HTTPException 401), s') \<and>
    current_user v m2 (bearer (make_token v m1 u)) s' = Inr u"
  using assms(4)
proof (cases rule: create_accountE)
  case (created h a i t)
  have ok: "users_ok s'" using users_ok_create [OF assms(1-4)] .
  have t: "row_of s' i = Some a" "i = t_seq (us_users s) + 1"
    using get_insert_row [OF users_ok_table [OF assms(3)] created(7)] created(7)
    by (simp_all add: row_of_def created(8) insert_row_def)
  have u: "u = user_of i a" using created(9) t(1) by (simp add: get_user_def)
  have h: "acc_hash a = h" "h \<noteq> []" "acc_username a = strip name" "acc_active a" "acc_valid_from a = None"
    using created(6) hash_nonempty [OF created(1)] by simp_all
  have "auth_epoch s' = auth_epoch s" by (simp add: created(8))
  then have "current_user v m2 (bearer (make_token v m1 u)) s' = Inr u"
    using assms(1, 6-11) t h by (simp add: u token_accepted vault_ok_def)
  moreover have "login v m1 name q s' =
      (if pbkdf2 v q bs = pbkdf2 v (strip password) bs
       then Inr (LoggedIn (make_token v m1 u) (public u)) else Inl (HTTPException 401), s')"
    using login_row [OF ok t(1), of name v m1 q] h verify_password_iff [OF assms(1, 2, 5) created(1)]
    by (simp add: u)
  ultimately show ?thesis by blast
qed simp

section \<open>Seeding\<close>

lemma row_of_create:
  assumes "users_ok s" "row_of s i = Some a"
  shows "row_of (snd (create_account v m name password display role s)) i = Some a"
proof -
  obtain r s' where c: "create_account v m name password display role s = (r, s')"
    by (cases "create_account v m name password display role s")
  have "row_of s' i = Some a" using c
  proof (cases rule: create_accountE)
    case (created h b j t)
    then show ?thesis
      using table.insert_keeps [OF users_ok_table [OF assms(1)] created(7)] assms(2) by (simp add: row_of_def)
  qed (use assms(2) in simp)
  with c show ?thesis by simp
qed

text \<open>Seeding at startup leaves every existing account as it is, its password included.\<close>

theorem seed_users_keeps:
  assumes "vault_ok v" "\<And>k. moment_ok (draws k)" "users_ok s" "row_of s i = Some a"
  shows "users_ok (seed_users v draws spec s) \<and> row_of (seed_users v draws spec s) i = Some a"
proof -
  have "users_ok (seed_entry v (draws k) e s) \<and> row_of (seed_entry v (draws k) e s) i = Some a"
    if "users_ok s" "row_of s i = Some a" for s k e
    using that row_of_create users_ok_keeps_create [OF assms(1, 2)]
    by (auto simp: seed_entry_def Let_def keeps_def)
  then have "users_ok (seed_entries v draws k es s) \<and> row_of (seed_entries v draws k es s) i = Some a"
    if "users_ok s" "row_of s i = Some a" for s k es
    using that by (induction es arbitrary: k s) auto
  with assms(3, 4) show ?thesis by (simp add: seed_users_def)
qed

section \<open>Two defects\<close>

text \<open>
  When administrators patch their own account with a new password and a deactivation, the
  request is refused with a 400, but the password has been replaced.
\<close>

theorem refused_update_resets_password:
  assumes "vault_ok v" "moment_ok m" "users_ok s" "admin_user v m header s = Inr me"
    "patch_password p = Some new" "MIN_PASSWORD \<le> length (strip new)"
    "patch_role p = None" "patch_active p = Some False"
  shows "\<exists>s' h. handle_account v m header (UpdateUser (user_id me) p) s = (Inl (HTTPException 400), s') \<and>
    password_hash (user_id me) s' = Some h \<and> verify_password v drawn (strip new) h = Inr True"
proof -
  let ?i = "user_id me"
  have cu: "current_user v m header s = Inr me"
    using assms(4) by (auto simp: admin_user_def py_splits split: if_splits)
  obtain a where a: "row_of s ?i = Some a" "me = user_of ?i a" "acc_active a"
    using current_user_row [OF cu] .
  obtain bs where "hash_password v (m_salt m) (strip new) [] =
      Inr (lit ''pbkdf2$'' @ m_salt m @ lit ''$'' @ bytes_hex (pbkdf2 v (strip new) bs))"
    and bs: "fromhex (m_salt m) = Inr bs"
    using hash_password_drawn [OF assms(1, 2)] .
  then obtain h where h: "hash_password v (m_salt m) (strip new) [] = Inr h" by blast
  let ?s = "on_user ?i (\<lambda>a. a\<lparr>acc_hash := h, acc_valid_from := Some (m_now m)\<rparr>) s"
  have g: "get_user ?i s = Some me" using a by (auto simp: get_user_def)
  have act: "user_active me" using a(2, 3) by (metis user_of_simps(3))
  have pw: "set_password v m ?i new s = (Inr (), ?s)" using assms(6) h by (simp add: set_password_def)
  have guards: "guard_role me me p ?s = Inr ()" "guard_active me me p ?s = Inl (HTTPException 400)"
    using assms(7, 8) act by (simp_all add: guard_role_def guard_active_def)
  have "handle_account v m header (UpdateUser ?i p) s = (Inl (HTTPException 400), ?s)"
    using assms(4, 5) by (simp add: as_admin_def update_user_def bindM_def readM_def becomes_def found_def g pw guards)
  moreover have "password_hash ?i ?s = Some h" using a(1) assms(3) by (simp add: password_hash_def row_of_on_user)
  moreover have "verify_password v drawn (strip new) h = Inr True"
    using verify_password_iff [OF assms(1, 2) bs h] by simp
  ultimately show ?thesis by blast
qed

lemma active_admin_count_pos:
  assumes "users_ok s" "admin_at i s" "i \<noteq> j"
  shows "active_admin_count j s \<noteq> 0"
  using assms(2)
proof (rule admin_atE)
  fix a assume "row_of s i = Some a" "active_admin a"
  then have "(i, a) \<in> set (filter (\<lambda>(i, a). active_admin a \<and> i \<noteq> j) (t_rows (us_users s)))"
    using assms(3) by (auto simp: row_of_def get_row_def dest: map_of_SomeD)
  then have "filter (\<lambda>(i, a). active_admin a \<and> i \<noteq> j) (t_rows (us_users s)) \<noteq> []" by (metis empty_iff empty_set)
  then show ?thesis unfolding active_admin_count_def length_0_conv .
qed

definition demotion :: user_patch where
  "demotion = \<lparr>patch_display = None, patch_role = Some (lit ''user''), patch_password = None, patch_active = None\<rparr>"

definition demote :: "moment \<Rightarrow> int \<Rightarrow> user_store \<Rightarrow> user_store" where
  "demote m i s = snd (update_account m i None (patch_role demotion) None s)"

lemma row_of_demote:
  "users_ok s \<Longrightarrow> row_of (demote m i s) = (row_of s)(i := map_option (\<lambda>a. a\<lparr>acc_role := lit ''user''\<rparr>) (row_of s i))"
  by (simp add: demote_def demotion_def update_account_def Let_def ROLES_def row_of_on_user cong: if_cong)

lemma users_ok_demote: "users_ok s \<Longrightarrow> users_ok (demote m i s)"
  using users_ok_keeps_update unfolding demote_def keeps_def by blast

text \<open>
  The guard against losing the last administrator is not atomic with the change it guards: when the only two
  active administrators demote each other at the same time, the guards of both requests pass on
  the store before either change, and after both changes no active administrator is left.
\<close>

theorem concurrent_demotions_lock_out:
  assumes "users_ok s" "admin_at i s" "admin_at j s" "i \<noteq> j" "\<And>k. admin_at k s \<Longrightarrow> k \<in> {i, j}"
    "get_user i s = Some u" "get_user j s = Some w"
  shows "guard_role u w demotion s = Inr () \<and> guard_role w u demotion s = Inr () \<and>
    \<not> has_admin (demote m2 i (demote m1 j s))"
proof -
  have ids: "user_id u = i" "user_id w = j" using assms(6, 7) by (auto simp: get_user_Some)
  have "guard_last_admin s w = Inr ()" "guard_last_admin s u = Inr ()"
    using active_admin_count_pos [OF assms(1, 2, 4)] active_admin_count_pos [OF assms(1, 3)] assms(4)
    by (auto simp: guard_last_admin_def ids)
  then have "guard_role u w demotion s = Inr ()" "guard_role w u demotion s = Inr ()"
    using assms(4) by (auto simp: guard_role_def demotion_def ROLES_def ids)
  moreover have "\<not> has_admin (demote m2 i (demote m1 j s))"
  proof
    let ?s = "demote m2 i (demote m1 j s)"
    have ok: "users_ok ?s" using assms(1) users_ok_demote by blast
    assume "has_admin ?s"
    then obtain k where k: "admin_at k ?s" using has_admin_at ok by blast
    moreover have "row_of ?s k = (if k \<in> {i, j}
        then map_option (\<lambda>a. a\<lparr>acc_role := lit ''user''\<rparr>) (row_of s k) else row_of s k)"
      using assms(1, 4) by (auto simp: row_of_demote users_ok_demote)
    ultimately show False
      using assms(5) [of k] assms(1) by (auto simp: admin_at_def active_admin_def split: option.splits if_splits)
  qed
  ultimately show ?thesis by blast
qed

section \<open>A concrete installation\<close>

text \<open>
  Token text that lists the lengths of the three texts and the two numbers in front of them, and a
  digest that is the password itself.
\<close>

definition put_int :: "int \<Rightarrow> nat list" where
  "put_int n = [if n < 0 then 1 else 0, nat \<bar>n\<bar>]"

definition get_int :: "nat \<Rightarrow> nat \<Rightarrow> int" where
  "get_int sign n = (if sign = 1 then - int n else int n)"

definition sample_encode :: "claims \<Rightarrow> pystr" where
  "sample_encode c = [length (c_sub c), length (c_username c)] @ put_int (c_iat c) @ put_int (c_exp c) @
     c_sub c @ c_username c @ c_role c"

fun sample_decode :: "int \<Rightarrow> pystr \<Rightarrow> claims option" where
  "sample_decode now (a # b # s1 # n1 # s2 # n2 # rest) =
     (if now < get_int s2 n2 * SECOND \<and> get_int s1 n1 div SECOND * SECOND \<le> now
      then Some \<lparr>c_sub = take a rest, c_username = take b (drop a rest), c_role = drop b (drop a rest),
        c_iat = get_int s1 n1, c_exp = get_int s2 n2\<rparr>
      else None)"
| "sample_decode now _ = None"

definition sample_vault :: vault where
  "sample_vault = \<lparr>pbkdf2 = (\<lambda>password salt. map (\<lambda>c. c mod 256) password),
     jwt_encode = sample_encode, jwt_decode = sample_decode, token_ttl_hours = 12\<rparr>"

lemma sample_vault_ok: "vault_ok sample_vault"
  by (auto simp: vault_ok_def jwt_law_def sample_vault_def sample_encode_def put_int_def get_int_def)

definition sample_moment :: "int \<Rightarrow> moment" where
  "sample_moment seconds = \<lparr>m_now = seconds * SECOND, m_mint = seconds * SECOND + 1,
     m_text = lit ''2025-01-01T00:00:00+00:00'', m_salt = lit ''00ff''\<rparr>"

lemma sample_moment_ok [simp]: "moment_ok (sample_moment n)"
  by (auto simp: moment_ok_def sample_moment_def lit_def base_digit_def alnum_value_def ascii_defs)

definition sample_account :: "string \<Rightarrow> string \<Rightarrow> string \<Rightarrow> account" where
  "sample_account name password role = \<lparr>acc_username = lit name,
     acc_hash = lit ''pbkdf2$00ff$'' @ bytes_hex (lit password), acc_display = lit name,
     acc_role = lit role, acc_active = True, acc_disabled_at = None, acc_valid_from = None,
     acc_created_at = lit ''2025-01-01T00:00:00+00:00''\<rparr>"

definition sample_users :: user_store where
  "sample_users = \<lparr>us_users = \<lparr>t_rows = [(1, sample_account ''admin'' ''admin1234'' ''admin''),
     (2, sample_account ''clerk'' ''clerk1234'' ''user'')], t_seq = 2\<rparr>, us_epoch = None\<rparr>"

definition sample_admin :: "pystr option" where
  "sample_admin = bearer (make_token sample_vault (sample_moment 100)
     (user_of 1 (sample_account ''admin'' ''admin1234'' ''admin'')))"

definition sample_clerk :: user where
  "sample_clerk = user_of 2 (sample_account ''clerk'' ''clerk1234'' ''user'')"

lemma sample_users_ok: "users_ok sample_users" "has_admin sample_users"
  by code_simp+

lemma sample_row: "row_of sample_users 1 = Some (sample_account ''admin'' ''admin1234'' ''admin'')"
  "row_of sample_users 2 = Some (sample_account ''clerk'' ''clerk1234'' ''user'')"
  "auth_epoch sample_users = 0"
  by (simp_all add: row_of_def get_row_def sample_users_def auth_epoch_def)

lemma sample_admin_in: "100 < n \<Longrightarrow> n < 40000 \<Longrightarrow> admin_user sample_vault (sample_moment n) sample_admin sample_users =
  Inr (user_of 1 (sample_account ''admin'' ''admin1234'' ''admin''))"
proof -
  assume n: "100 < n" "n < 40000"
  have "current_user sample_vault (sample_moment n) sample_admin sample_users =
    Inr (user_of 1 (sample_account ''admin'' ''admin1234'' ''admin''))"
    unfolding sample_admin_def
  proof (rule token_accepted)
    show "jwt_law sample_vault" using sample_vault_ok by (simp add: vault_ok_def)
    show "row_of sample_users 1 = Some (sample_account ''admin'' ''admin1234'' ''admin'')" by (rule sample_row)
  qed (use n in \<open>simp_all add: sample_row sample_account_def sample_moment_def SECOND_def sample_vault_def
    make_token_def sample_encode_def\<close>)
  then show ?thesis by (simp add: admin_user_def is_admin_def sample_account_def)
qed
definition sample_reset :: user_patch where
  "sample_reset = \<lparr>patch_display = None, patch_role = None, patch_password = Some (lit ''newpassword''), patch_active = Some False\<rparr>"
definition sample_two :: user_store where
  "sample_two = \<lparr>us_users = \<lparr>t_rows = [(1, sample_account ''admin'' ''admin1234'' ''admin''),
     (2, sample_account ''clerk'' ''clerk1234'' ''admin'')], t_seq = 2\<rparr>, us_epoch = None\<rparr>"
lemma sample_create:
  obtains u s' where "create_account sample_vault (sample_moment 210) (lit ''bob'') (lit '' secret12 '') [] (lit ''user'') sample_users = (Inr u, s')"
   "make_token sample_vault m u \<noteq> []"
proof -
  have s: "strip (lit ''bob'') = lit ''bob''" "strip (lit '' secret12 '') = lit ''secret12''"
    by (simp_all add: strip_def lstrip_def rstrip_def is_space_def space_points_def lit_def)
  have "username_matches (lit ''bob'')"
    by (simp add: username_matches_def lit_def username_char_def ascii_defs Let_def)
  moreover have "by_username (lit ''bob'') sample_users = None"
    by (simp add: by_username_def sample_users_def sample_account_def)
  moreover have "fromhex (m_salt (sample_moment 210)) = Inr [0, 255]"
    by (simp add: sample_moment_def lit_def base_digit_def alnum_value_def ascii_defs)
  moreover have "m_salt (sample_moment 210) \<noteq> []" by (simp add: sample_moment_def)
  ultimately have "\<exists>u s'. create_account sample_vault (sample_moment 210) (lit ''bob'') (lit '' secret12 '') [] (lit ''user'') sample_users = (Inr u, s')"
    by (auto simp add: create_account_def s MIN_PASSWORD_def ROLES_def hash_password_def Let_def insert_row_def
     get_user_def row_of_def get_row_def sample_users_def sample_account_def split: prod.splits sum.splits)
  moreover have "make_token sample_vault m u \<noteq> []" for u by (simp add: make_token_def sample_vault_def sample_encode_def)
  ultimately show ?thesis using that by blast
qed

theorem created_account_logs_in_witness:
  "\<exists>u s'. create_account sample_vault (sample_moment 210) (lit ''bob'') (lit '' secret12 '') [] (lit ''user'') sample_users = (Inr u, s') \<and>
   fst (login sample_vault (sample_moment 220) (lit ''bob'') (lit '' secret12 '') s') = Inl (HTTPException 401) \<and>
   current_user sample_vault (sample_moment 230) (bearer (make_token sample_vault (sample_moment 220) u)) s' = Inr u"
proof -
  obtain u s' where c: "create_account sample_vault (sample_moment 210) (lit ''bob'') (lit '' secret12 '') [] (lit ''user'') sample_users = (Inr u, s')"
    and t: "make_token sample_vault (sample_moment 220) u \<noteq> []" using sample_create .
  have bs: "fromhex (m_salt (sample_moment 210)) = Inr [0, 255]"
    by (simp add: sample_moment_def lit_def base_digit_def alnum_value_def ascii_defs)
  have d: "pbkdf2 sample_vault (lit '' secret12 '') [0, 255] \<noteq> pbkdf2 sample_vault (strip (lit '' secret12 '')) [0, 255]"
    by (simp add: sample_vault_def strip_def lstrip_def rstrip_def is_space_def space_points_def lit_def)
  have "login sample_vault (sample_moment 220) (lit ''bob'') (lit '' secret12 '') s' = (Inl (HTTPException 401), s') \<and>
   current_user sample_vault (sample_moment 230) (bearer (make_token sample_vault (sample_moment 220) u)) s' = Inr u"
    using created_account_logs_in [OF sample_vault_ok sample_moment_ok sample_users_ok(1) c bs _ _ t, of "sample_moment 230" "lit '' secret12 ''"] d
    by (simp add: sample_row sample_users_def sample_moment_def SECOND_def sample_vault_def auth_epoch_def)
  with c show ?thesis by auto
qed
theorem refused_update_resets_password_witness:
   "\<exists>s' h. handle_account sample_vault (sample_moment 200) sample_admin (UpdateUser 1 sample_reset) sample_users =
     (Inl (HTTPException 400), s') \<and>
    password_hash 1 s' = Some h \<and> verify_password sample_vault [] (lit ''newpassword'') h = Inr True"
proof -
  have s: "strip (lit ''newpassword'') = lit ''newpassword''"
    by (simp_all add: strip_def lstrip_def rstrip_def is_space_def space_points_def lit_def)
  show ?thesis 
  using refused_update_resets_password [OF sample_vault_ok sample_moment_ok sample_users_ok(1) sample_admin_in [of 200], of sample_reset "lit ''newpassword''" "[]"]
  by (simp add: sample_reset_def s MIN_PASSWORD_def)
qed

theorem concurrent_demotions_lock_out_witness:
  "\<not> has_admin (demote (sample_moment 200) 1 (demote (sample_moment 200) 2 sample_two))"
proof -
  have ok: "users_ok sample_two" by code_simp
  have r: "row_of sample_two = (\<lambda>k. if k = 1 then Some (sample_account ''admin'' ''admin1234'' ''admin'')
     else if k = 2 then Some (sample_account ''clerk'' ''clerk1234'' ''admin'') else None)"
    by (auto simp: row_of_def get_row_def sample_two_def fun_eq_iff)
  have a: "admin_at k sample_two \<longleftrightarrow> k = 1 \<or> k = 2" for k
    using ok by (simp add: admin_at_def r sample_account_def active_admin_def)
  show ?thesis
    using concurrent_demotions_lock_out [OF ok, of 1 2] by (simp add: a get_user_def r)
qed

section \<open>What every request guarantees\<close>

text \<open>
  C39. Every request, successful or refused, keeps the stored accounts well formed: usernames are
  distinct and match the pattern, roles are known, display names fit, an account is inactive
  exactly when it has a date of deactivation, and every stored hash can be checked.
\<close>

theorem accounts_well_formed:
  assumes "vault_ok v" "moment_ok m" "users_ok s" "handle_account v m header req s = (r, s')"
  shows "users_ok s'"
  using users_ok_keeps_account [OF assms(1, 2), of header req] assms(3, 4) by (metis keeps_def snd_conv)

theorem accounts_well_formed_witness:
  "users_ok (snd (handle_account sample_vault (sample_moment 200) sample_admin (DeleteUser 2 False) sample_users)) \<and>
   map (\<lambda>(i, a). acc_disabled_at a \<noteq> None) (t_rows (us_users (snd (handle_account sample_vault (sample_moment 200)
     sample_admin (DeleteUser 2 False) sample_users)))) = [False, True]" (is "_ \<and> ?marked")
proof
  show "users_ok (snd (handle_account sample_vault (sample_moment 200) sample_admin (DeleteUser 2 False) sample_users))"
    by (rule accounts_well_formed [OF sample_vault_ok sample_moment_ok sample_users_ok(1) surjective_pairing])
  show ?marked
    by (simp add: as_admin_def sample_admin_in delete_user_def revoke_user_sessions_def bindM_def readM_def found_def
        get_user_def sample_row guard_last_admin_def is_admin_def update_account_def Let_def row_of_on_user
        sample_users_ok asserted_def cong: if_cong option.case_cong)
      (simp add: sample_account_def sample_users_def on_user_def update_row_def row_of_def get_row_def)
qed

text \<open>
  C17. As long as the accounts are well formed and one active administrator exists, one exists
  after every request, whether it is answered or refused: the administrators cannot lock
  themselves out by demoting, deactivating or deleting accounts.
\<close>

theorem way_in_remains:
  assumes "vault_ok v" "moment_ok m" "users_ok s" "has_admin s"
    "handle_account v m header req s = (r, s')"
  shows "has_admin s'"
proof -
  note keep = admin_at_keeps_create [OF assms(1, 2)] admin_at_keeps_set_password [OF assms(1, 2)]
    admin_at_keeps_revoke admin_at_keeps_revoke_all
  obtain i where i: "admin_at i s" using has_admin_at assms(3, 4) by blast
  have me: "has_admin (snd (as_admin v m header f s))"
    if "\<And>me. admin_at (user_id me) s \<Longrightarrow> admin_at (user_id me) (snd (f me s))" for f
  proof (cases "admin_user v m header s")
    case (Inr u)
    then have "has_admin (snd (f u s))"
      using admin_at_has_admin that admin_user_row [OF assms(3) Inr] by blast
    with Inr show ?thesis by (simp add: as_admin_def bindM_def readM_def)
  qed (use assms(4) in \<open>simp add: as_admin_def bindM_def readM_def\<close>)
  have "has_admin (snd (handle_account v m header req s))"
  proof (cases "(\<exists>j p. req = UpdateUser j p) \<or> (\<exists>j hard. req = DeleteUser j hard)")
    case True
    then show ?thesis using me admin_at_update_user [OF assms(1, 2)] admin_at_delete_user by auto
  next
    case False
    then have "keeps (admin_at i) (handle_account v m header req)"
      by (intro keeps_mild_account keep) blast+
    with i show ?thesis by (auto simp: keeps_def intro: admin_at_has_admin)
  qed
  with assms(5) show ?thesis by simp
qed

theorem way_in_remains_witness:
  "has_admin (snd (handle_account sample_vault (sample_moment 200) sample_admin
       (UpdateUser 1 demotion) sample_users)) \<and>
   fst (handle_account sample_vault (sample_moment 200) sample_admin (UpdateUser 1 demotion) sample_users) =
     Inl (HTTPException 400)"
proof
  show "has_admin (snd (handle_account sample_vault (sample_moment 200) sample_admin
       (UpdateUser 1 demotion) sample_users))"
    by (rule way_in_remains [OF sample_vault_ok sample_moment_ok sample_users_ok surjective_pairing])
qed (simp add: as_admin_def sample_admin_in update_user_def bindM_def readM_def found_def get_user_def
   sample_row demotion_def guard_role_def ROLES_def sample_account_def cong: if_cong option.case_cong)

text \<open>
  C11. Once a request that resets or changes a password, signs an account out, signs everyone out
  or removes an account has succeeded, every token minted for that account before the request is
  refused with a 401, and stays refused after any later requests: no reactivation, renaming, new
  password or new account brings it back.
\<close>

theorem revoked_token_stays_refused:
  assumes "vault_ok v" "moment_ok m" "users_ok s"
    "handle_account v m header req s = (Inr ans, s')" "ends_sessions v m header s (user_id u) req"
    "0 \<le> user_id u" "user_id u < 2 ^ 63" "user_id u \<le> t_seq (us_users s)"
    "0 \<le> m_mint m0" "m_mint m0 < m_now m"
    "\<forall>(m, header, req) \<in> set later. moment_ok m \<and> m_mint m0 < m_now m"
  shows "current_user v m' (bearer (make_token v m0 u)) (visits v later s') = Inl (HTTPException 401)"
proof (rule ended_refused)
  show "jwt_law v" using assms(1) by (simp add: vault_ok_def)
  show "ended (user_id u) (m_mint m0) (visits v later s')"
    by (rule ended_forever [OF assms(1, 11)]) (rule ended_by_request [OF assms(1-5, 8, 10)])
qed (use assms in simp_all)

theorem revoked_token_stays_refused_witness:
  "current_user sample_vault (sample_moment 400) (bearer (make_token sample_vault (sample_moment 150) sample_clerk))
     (visits sample_vault [(sample_moment 300, None, Login (lit ''clerk'') (lit ''clerk1234''))]
       (snd (handle_account sample_vault (sample_moment 200) sample_admin (RevokeOne 2) sample_users))) =
   Inl (HTTPException 401)"
proof (rule revoked_token_stays_refused)
  show "vault_ok sample_vault" "moment_ok (sample_moment 200)" "users_ok sample_users"
    by (simp_all add: sample_vault_ok sample_users_ok)
  show "handle_account sample_vault (sample_moment 200) sample_admin (RevokeOne 2) sample_users =
      (Inr (OneRevoked None), snd (handle_account sample_vault (sample_moment 200) sample_admin (RevokeOne 2) sample_users))"
    by (simp add: as_admin_def sample_admin_in revoke_one_def revoke_user_sessions_def bindM_def readM_def
        found_def get_user_def sample_row cong: if_cong option.case_cong)
next
  have "m_now (sample_moment n) = n * 1000000" "m_mint (sample_moment n) = n * 1000000 + 1" for n
    by (simp_all add: sample_moment_def SECOND_def)
  note eval = this sample_clerk_def
  show "ends_sessions sample_vault (sample_moment 200) sample_admin sample_users (user_id sample_clerk) (RevokeOne 2)"
    "0 \<le> user_id sample_clerk" "user_id sample_clerk < 2 ^ 63" "user_id sample_clerk \<le> t_seq (us_users sample_users)"
    "0 \<le> m_mint (sample_moment 150)" "m_mint (sample_moment 150) < m_now (sample_moment 200)"
    "\<forall>(m, header, req) \<in> set [(sample_moment 300, None, Login (lit ''clerk'') (lit ''clerk1234''))].
       moment_ok m \<and> m_mint (sample_moment 150) < m_now m"
    by (simp_all add: eval sample_users_def)
qed

end
