(* ===== verification/Gateway.thy ===== *)
theory Gateway
  imports Desk Logins
begin

text \<open>
  The application of \<open>create_app\<close> as a whole: the routes of \<open>api/app.py\<close> and \<open>auth/routes.py\<close> with
  their guards, the requests FastAPI passes to the handlers, and one request as a step of the
  installation.

  A path is matched the way Starlette does it: the routes in the order of their registration, a
  parameter takes one segment that is not empty, a known path under another method is a 405. What
  FastAPI reads as a number, a truth value or a time is a parameter, and so is the reading of a body,
  which arrives parsed. The redirection that adds or drops a final slash, CORS and the text of replies
  are not modelled. A request is one step here; \<open>Overlaps\<close> takes the filing of an invoice apart.
\<close>

section \<open>Requests\<close>

record buyer_in =
  bi_name :: pystr
  bi_national_id :: pystr
  bi_economic_code :: "pystr option"
  bi_person_type :: int
  bi_postal_code :: "pystr option"
  bi_branch_code :: "pystr option"
  bi_note :: "pystr option"

record goods_in =
  gi_stuff_id :: pystr
  gi_description :: pystr
  gi_unit :: "pystr option"
  gi_vat_rate :: "pyfloat option"
  gi_default_fee :: "pyfloat option"
  gi_is_default :: bool

record submit_in =
  si_invoice :: invoice
  si_save :: bool
  si_record_id :: "int option"

datatype body =
    NoBody
  | LoginBody pystr pystr
  | PasswordBody pystr pystr
  | UserBody pystr pystr pystr pystr
  | PatchBody user_patch
  | ProfileBody profile_in
  | BuyerBody buyer_in
  | GoodsBody goods_in
  | InvoiceBody invoice
  | SubmitBody submit_in
  | PaymentBody payment_in

text \<open>What FastAPI takes for the value of a parameter; nothing stands for a 422.\<close>

record reader =
  rd_int :: "pystr \<Rightarrow> int option"
  rd_bool :: "pystr \<Rightarrow> bool option"
  rd_float :: "pystr \<Rightarrow> pyfloat option"
  rd_time :: "pystr \<Rightarrow> query_time option"

datatype verb = GET | POST | PUT | PATCH | DELETE

record http =
  ht_verb :: verb
  ht_path :: pystr
  ht_query :: "(pystr \<times> pystr) list"
  ht_body :: body
  ht_authorization :: "pystr option"

text \<open>The last value of a parameter counts; a list takes all of them.\<close>

definition query_all :: "string \<Rightarrow> http \<Rightarrow> pystr list" where
  "query_all k q = map snd (filter (\<lambda>p. fst p = lit k) (ht_query q))"

definition query_text :: "string \<Rightarrow> http \<Rightarrow> pystr option" where
  "query_text k q = (case query_all k q of [] \<Rightarrow> None | x # xs \<Rightarrow> Some (last (x # xs)))"

definition query_or :: "(pystr \<Rightarrow> 'a option) \<Rightarrow> 'a \<Rightarrow> string \<Rightarrow> http \<Rightarrow> 'a option" where
  "query_or f d k q = (case query_text k q of None \<Rightarrow> Some d | Some s \<Rightarrow> f s)"

definition query_opt :: "(pystr \<Rightarrow> 'a option) \<Rightarrow> string \<Rightarrow> http \<Rightarrow> 'a option option" where
  "query_opt f k q = (case query_text k q of None \<Rightarrow> Some None | Some s \<Rightarrow> map_option Some (f s))"

definition query_need :: "(pystr \<Rightarrow> 'a option) \<Rightarrow> string \<Rightarrow> http \<Rightarrow> 'a option" where
  "query_need f k q = Option.bind (query_text k q) f"

definition query_some :: "string \<Rightarrow> http \<Rightarrow> pystr list option" where
  "query_some k q = (if query_all k q = [] then None else Some (query_all k q))"

definition parse_request_status :: "pystr \<Rightarrow> request_status option" where
  "parse_request_status s = find (\<lambda>st. request_status_name st = s) [IN_PROGRESS, SUCCESS, FAILED, TIMEOUT, NOT_FOUND]"

section \<open>Endpoints\<close>

text \<open>
  A handler with the arguments it is called with, grouped by what is resolved before them: nothing, the
  profile store, or the profile named by the path. Arguments that cannot be read are \<open>None\<close>: a 422,
  given after the dependencies have passed.
\<close>

datatype metadata_request =
    Environments | Units | Patterns | PatternFields int int | Health | SigningMaterial | VerifySigningMaterial

datatype catalogue_request = CatalogueStatus | CatalogueSearch pystr int | CatalogueItem pystr

datatype reference_request =
    ListBuyers | AddBuyer buyer_in | DeleteBuyer int
  | ListGoods | AddGoods goods_in | MakeDefault int | DeleteGoods int

datatype profiles_request = ListProfiles | CreateProfile profile_in | DeleteProfile pystr

datatype profile_request =
    ReadProfile
  | TestConnection
  | VerifyInvoice invoice
  | RecomputeInvoice invoice
  | ListInvoices "pystr option" int
  | ReadInvoice int
  | InvoiceRequest request
  | RegisterPayment payment_in
  | ByReference "pystr list"
  | ByUid "pystr list"
  | InvoiceStatuses "pystr list"
  | ByTime query_time "query_time option" "request_status option" int int
  | Taxpayer pystr
  | TaxpayerInfo pystr
  | FiscalInformation "pystr option"
  | Article6 pystr pyfloat int
  | Dashboard

datatype endpoint =
    AccountsAt "account_request option"
  | MetadataAt "metadata_request option"
  | CatalogueAt "catalogue_request option"
  | ReferenceAt "reference_request option"
  | ProfilesAt "profiles_request option"
  | ProfileAt pystr "profile_request option"

text \<open>The dependencies of a route: none, \<open>current_user\<close> or \<open>admin_user\<close>.\<close>

datatype access = Open | Authenticated | AdminOnly

type_synonym route =
  "verb \<times> string list \<times> access \<times> (reader \<Rightarrow> pystr list \<Rightarrow> http \<Rightarrow> endpoint)"

section \<open>The routes\<close>

definition auth_routes :: "route list" where
  "auth_routes =
    [(POST, [''api'', ''auth'', ''login''], Open, \<lambda>rd ps q. AccountsAt
        (case ht_body q of LoginBody name password \<Rightarrow> Some (Login name password) | _ \<Rightarrow> None)),
     (GET, [''api'', ''auth'', ''me''], Authenticated, \<lambda>rd ps q. AccountsAt (Some Me)),
     (POST, [''api'', ''auth'', ''password''], Authenticated, \<lambda>rd ps q. AccountsAt
        (case ht_body q of PasswordBody current new \<Rightarrow> Some (ChangePassword current new) | _ \<Rightarrow> None))]"

definition users_routes :: "route list" where
  "users_routes =
    [(GET, [''api'', ''admin'', ''users''], AdminOnly, \<lambda>rd ps q. AccountsAt
        (map_option ListUsers (query_or (rd_bool rd) True ''include_inactive'' q))),
     (POST, [''api'', ''admin'', ''users''], AdminOnly, \<lambda>rd ps q. AccountsAt
        (case ht_body q of UserBody name password display role \<Rightarrow> Some (CreateUser name password display role)
         | _ \<Rightarrow> None)),
     (PATCH, [''api'', ''admin'', ''users'', ''{user_id}''], AdminOnly, \<lambda>rd ps q. AccountsAt
        (case (rd_int rd (hd ps), ht_body q) of (Some i, PatchBody p) \<Rightarrow> Some (UpdateUser i p) | _ \<Rightarrow> None)),
     (DELETE, [''api'', ''admin'', ''users'', ''{user_id}''], AdminOnly, \<lambda>rd ps q. AccountsAt
        (case (rd_int rd (hd ps), query_or (rd_bool rd) False ''hard'' q) of
           (Some i, Some hard) \<Rightarrow> Some (DeleteUser i hard) | _ \<Rightarrow> None)),
     (POST, [''api'', ''admin'', ''users'', ''sessions'', ''revoke-all''], AdminOnly,
        \<lambda>rd ps q. AccountsAt (Some RevokeAll)),
     (POST, [''api'', ''admin'', ''users'', ''{user_id}'', ''sessions'', ''revoke''], AdminOnly, \<lambda>rd ps q. AccountsAt
        (map_option RevokeOne (rd_int rd (hd ps))))]"

definition metadata_routes :: "route list" where
  "metadata_routes =
    [(GET, [''api'', ''environments''], Authenticated, \<lambda>rd ps q. MetadataAt (Some Environments)),
     (GET, [''api'', ''units''], Authenticated, \<lambda>rd ps q. MetadataAt (Some Units)),
     (GET, [''api'', ''patterns''], Authenticated, \<lambda>rd ps q. MetadataAt (Some Patterns)),
     (GET, [''api'', ''patterns'', ''{number}'', ''fields''], Authenticated, \<lambda>rd ps q. MetadataAt
        (case (rd_int rd (hd ps), query_or (rd_int rd) 1 ''type'' q) of
           (Some number, Some invoice_type) \<Rightarrow> Some (PatternFields number invoice_type) | _ \<Rightarrow> None))]"

definition profile_routes :: "route list" where
  "profile_routes =
    [(GET, [''api'', ''profiles''], Authenticated, \<lambda>rd ps q. ProfilesAt (Some ListProfiles)),
     (POST, [''api'', ''profiles''], AdminOnly, \<lambda>rd ps q. ProfilesAt
        (case ht_body q of ProfileBody p \<Rightarrow> Some (CreateProfile p) | _ \<Rightarrow> None)),
     (GET, [''api'', ''profiles'', ''{name}''], Authenticated, \<lambda>rd ps q. ProfileAt (hd ps) (Some ReadProfile)),
     (GET, [''api'', ''signing-material''], AdminOnly, \<lambda>rd ps q. MetadataAt (Some SigningMaterial)),
     (GET, [''api'', ''signing-material'', ''verify''], AdminOnly,
        \<lambda>rd ps q. MetadataAt (Some VerifySigningMaterial)),
     (DELETE, [''api'', ''profiles'', ''{name}''], AdminOnly,
        \<lambda>rd ps q. ProfilesAt (Some (DeleteProfile (hd ps)))),
     (POST, [''api'', ''profiles'', ''{name}'', ''test-connection''], AdminOnly,
        \<lambda>rd ps q. ProfileAt (hd ps) (Some TestConnection))]"

definition catalogue_routes :: "route list" where
  "catalogue_routes =
    [(GET, [''api'', ''catalogue'', ''status''], Authenticated, \<lambda>rd ps q. CatalogueAt (Some CatalogueStatus)),
     (GET, [''api'', ''catalogue'', ''search''], Authenticated, \<lambda>rd ps q. CatalogueAt
        (case (query_or Some [] ''q'' q, query_or (rd_int rd) 25 ''limit'' q) of
           (Some text, Some limit) \<Rightarrow> Some (CatalogueSearch text limit) | _ \<Rightarrow> None)),
     (GET, [''api'', ''catalogue'', ''item'', ''{stuff_id}''], Authenticated,
        \<lambda>rd ps q. CatalogueAt (Some (CatalogueItem (hd ps))))]"

definition reference_routes :: "route list" where
  "reference_routes =
    [(GET, [''api'', ''buyers''], Authenticated, \<lambda>rd ps q. ReferenceAt (Some ListBuyers)),
     (POST, [''api'', ''buyers''], Authenticated, \<lambda>rd ps q. ReferenceAt
        (case ht_body q of BuyerBody b \<Rightarrow> Some (AddBuyer b) | _ \<Rightarrow> None)),
     (DELETE, [''api'', ''buyers'', ''{buyer_id}''], Authenticated, \<lambda>rd ps q. ReferenceAt
        (map_option DeleteBuyer (rd_int rd (hd ps)))),
     (GET, [''api'', ''goods''], Authenticated, \<lambda>rd ps q. ReferenceAt (Some ListGoods)),
     (POST, [''api'', ''goods''], Authenticated, \<lambda>rd ps q. ReferenceAt
        (case ht_body q of GoodsBody g \<Rightarrow> Some (AddGoods g) | _ \<Rightarrow> None)),
     (POST, [''api'', ''goods'', ''{goods_id}'', ''default''], Authenticated, \<lambda>rd ps q. ReferenceAt
        (map_option MakeDefault (rd_int rd (hd ps)))),
     (DELETE, [''api'', ''goods'', ''{goods_id}''], Authenticated, \<lambda>rd ps q. ReferenceAt
        (map_option DeleteGoods (rd_int rd (hd ps))))]"

definition draft_routes :: "route list" where
  "draft_routes =
    [(POST, [''api'', ''profiles'', ''{name}'', ''invoices'', ''verify''], Authenticated, \<lambda>rd ps q. ProfileAt (hd ps)
        (case ht_body q of InvoiceBody ivc \<Rightarrow> Some (VerifyInvoice ivc) | _ \<Rightarrow> None)),
     (POST, [''api'', ''profiles'', ''{name}'', ''invoices'', ''recompute''], Authenticated, \<lambda>rd ps q. ProfileAt (hd ps)
        (case ht_body q of InvoiceBody ivc \<Rightarrow> Some (RecomputeInvoice ivc) | _ \<Rightarrow> None)),
     (GET, [''api'', ''profiles'', ''{name}'', ''invoices''], Authenticated, \<lambda>rd ps q. ProfileAt (hd ps)
        (map_option (ListInvoices (query_text ''state'' q)) (query_or (rd_int rd) 100 ''limit'' q))),
     (POST, [''api'', ''profiles'', ''{name}'', ''invoices''], Authenticated, \<lambda>rd ps q. ProfileAt (hd ps)
        (case ht_body q of SubmitBody b \<Rightarrow> Some (InvoiceRequest (SaveDraft (si_invoice b))) | _ \<Rightarrow> None)),
     (GET, [''api'', ''profiles'', ''{name}'', ''invoices'', ''{invoice_id}''], Authenticated,
        \<lambda>rd ps q. ProfileAt (hd ps) (map_option ReadInvoice (rd_int rd (ps ! 1)))),
     (PUT, [''api'', ''profiles'', ''{name}'', ''invoices'', ''{invoice_id}''], Authenticated, \<lambda>rd ps q. ProfileAt (hd ps)
        (case (rd_int rd (ps ! 1), ht_body q) of
           (Some i, SubmitBody b) \<Rightarrow> Some (InvoiceRequest (UpdateDraft i (si_invoice b))) | _ \<Rightarrow> None)),
     (DELETE, [''api'', ''profiles'', ''{name}'', ''invoices'', ''{invoice_id}''], Authenticated,
        \<lambda>rd ps q. ProfileAt (hd ps) (map_option (InvoiceRequest \<circ> DeleteDraft) (rd_int rd (ps ! 1))))]"

definition filing_routes :: "route list" where
  "filing_routes =
    [(POST, [''api'', ''profiles'', ''{name}'', ''invoices'', ''submit''], Authenticated, \<lambda>rd ps q. ProfileAt (hd ps)
        (case ht_body q of
           SubmitBody b \<Rightarrow> Some (InvoiceRequest (SubmitInvoice (si_record_id b) (si_invoice b))) | _ \<Rightarrow> None)),
     (POST, [''api'', ''profiles'', ''{name}'', ''invoices'', ''inquire''], Authenticated, \<lambda>rd ps q. ProfileAt (hd ps)
        (map_option (InvoiceRequest \<circ> InquirePending) (query_or (rd_int rd) 500 ''limit'' q))),
     (POST, [''api'', ''profiles'', ''{name}'', ''invoices'', ''{invoice_id}'', ''inquire''], Authenticated,
        \<lambda>rd ps q. ProfileAt (hd ps) (map_option (InvoiceRequest \<circ> InquireOne) (rd_int rd (ps ! 1)))),
     (POST, [''api'', ''profiles'', ''{name}'', ''invoices'', ''{invoice_id}'', ''referring''], Authenticated,
        \<lambda>rd ps q. ProfileAt (hd ps)
        (case (rd_int rd (ps ! 1), query_need (rd_int rd) ''subject'' q) of
           (Some i, Some subject) \<Rightarrow> Some (InvoiceRequest (ReferringInvoice i subject)) | _ \<Rightarrow> None)),
     (POST, [''api'', ''profiles'', ''{name}'', ''payments''], Authenticated, \<lambda>rd ps q. ProfileAt (hd ps)
        (case ht_body q of PaymentBody p \<Rightarrow> Some (RegisterPayment p) | _ \<Rightarrow> None))]"

definition inquiry_routes :: "route list" where
  "inquiry_routes =
    [(GET, [''api'', ''profiles'', ''{name}'', ''inquiry'', ''by-reference''], Authenticated,
        \<lambda>rd ps q. ProfileAt (hd ps) (map_option ByReference (query_some ''reference'' q))),
     (GET, [''api'', ''profiles'', ''{name}'', ''inquiry'', ''by-uid''], Authenticated,
        \<lambda>rd ps q. ProfileAt (hd ps) (map_option ByUid (query_some ''uid'' q))),
     (GET, [''api'', ''profiles'', ''{name}'', ''inquiry'', ''invoice-status''], Authenticated,
        \<lambda>rd ps q. ProfileAt (hd ps) (map_option InvoiceStatuses (query_some ''taxId'' q))),
     (GET, [''api'', ''profiles'', ''{name}'', ''inquiry'', ''by-time''], Authenticated, \<lambda>rd ps q. ProfileAt (hd ps)
        (case (query_need (rd_time rd) ''start'' q, query_opt (rd_time rd) ''end'' q,
               query_opt parse_request_status ''status'' q, query_or (rd_int rd) 1 ''page_number'' q,
               query_or (rd_int rd) 10 ''page_size'' q) of
           (Some start, Some until, Some status, Some page_number, Some page_size) \<Rightarrow>
             Some (ByTime start until status page_number page_size)
         | _ \<Rightarrow> None)),
     (GET, [''api'', ''profiles'', ''{name}'', ''taxpayer''], Authenticated,
        \<lambda>rd ps q. ProfileAt (hd ps) (map_option Taxpayer (query_text ''economicCode'' q))),
     (GET, [''api'', ''profiles'', ''{name}'', ''taxpayer-info''], Authenticated,
        \<lambda>rd ps q. ProfileAt (hd ps) (map_option TaxpayerInfo (query_text ''economicCode'' q))),
     (GET, [''api'', ''profiles'', ''{name}'', ''fiscal-information''], Authenticated,
        \<lambda>rd ps q. ProfileAt (hd ps) (Some (FiscalInformation (query_text ''memoryId'' q)))),
     (GET, [''api'', ''profiles'', ''{name}'', ''article6-status''], Authenticated, \<lambda>rd ps q. ProfileAt (hd ps)
        (case (query_text ''economicCode'' q, query_need (rd_float rd) ''vatValue'' q,
               query_need (rd_int rd) ''period'' q) of
           (Some code, Some vat_value, Some period) \<Rightarrow> Some (Article6 code vat_value period) | _ \<Rightarrow> None)),
     (GET, [''api'', ''profiles'', ''{name}'', ''dashboard''], Authenticated,
        \<lambda>rd ps q. ProfileAt (hd ps) (Some Dashboard)),
     (GET, [''api'', ''health''], Open, \<lambda>rd ps q. MetadataAt (Some Health))]"

definition ROUTES :: "route list" where
  "ROUTES = auth_routes @ users_routes @ metadata_routes @ profile_routes @ catalogue_routes @
     reference_routes @ draft_routes @ filing_routes @ inquiry_routes"

text \<open>A template fits a path that has its words, and any segment that is not empty for a parameter.\<close>

definition is_param :: "string \<Rightarrow> bool" where
  "is_param w = (take 1 w = ''{'')"

fun fits :: "string list \<Rightarrow> pystr list \<Rightarrow> bool" where
  "fits [] [] = True"
| "fits (w # ws) (s # ss) = ((if is_param w then s \<noteq> [] else lit w = s) \<and> fits ws ss)"
| "fits _ _ = False"

fun path_params :: "string list \<Rightarrow> pystr list \<Rightarrow> pystr list" where
  "path_params (w # ws) (s # ss) = (if is_param w then s # path_params ws ss else path_params ws ss)"
| "path_params _ _ = []"

datatype 'a found_route = NoSuchPath | WrongMethod | Found 'a

definition find_route :: "route list \<Rightarrow> http \<Rightarrow> (access \<times> (reader \<Rightarrow> endpoint)) found_route" where
  "find_route routes q =
     (case split_on 47 (ht_path q) of
        [] # segments \<Rightarrow>
          (case find (\<lambda>(v, ws, _). v = ht_verb q \<and> fits ws segments) routes of
             Some (_, ws, a, build) \<Rightarrow> Found (a, \<lambda>rd. build rd (path_params ws segments) q)
           | None \<Rightarrow> if list_ex (\<lambda>(_, ws, _). fits ws segments) routes then WrongMethod else NoSuchPath)
      | _ \<Rightarrow> NoSuchPath)"

section \<open>The installation\<close>

text \<open>Everything the application keeps, with the state \<open>'w\<close> of the world outside it.\<close>

record ('c, 'w) installation =
  app_users :: user_store
  app_profiles :: "'c store_file"
  app_records :: record_store
  app_catalogue :: catalogue
  app_world :: 'w

text \<open>
  What the handlers are given: the settings and the files with \<open>site_desk\<close>, the invoice services,
  the secrets, the cipher of a passphrase, and the library functions the catalogue uses.
\<close>

record ('cert, 'key, 'k, 'c, 'w) site =
  site_vault :: vault
  site_api :: "'w api"
  site_desk :: "('cert, 'key, 'w) Desk.desk"
  site_cipher :: "pystr \<Rightarrow> ('k, 'c) cipher"
  site_master :: "pystr option"
  site_environ :: "pystr option"
  site_reader :: reader
  site_nfc :: "pystr \<Rightarrow> pystr"
  site_casefold :: "pystr \<Rightarrow> pystr"
  site_rank :: "pystr \<Rightarrow> (int \<times> pystr) list \<Rightarrow> int list"
  site_static :: "pystr option"

text \<open>What a request draws: the readings of the clock and the random salt and nonce of a write.\<close>

record occasion =
  oc_moment :: moment
  oc_salt :: bytes
  oc_nonce :: bytes

text \<open>A handler on one store as a handler on the installation.\<close>

definition on_users :: "(user_store, 'a) io \<Rightarrow> (('c, 'w) installation, 'a) io" where
  "on_users m = (\<lambda>s. case m (app_users s) of (r, x) \<Rightarrow> (r, s\<lparr>app_users := x\<rparr>))"

definition on_profiles :: "('c store_file, 'a) io \<Rightarrow> (('c, 'w) installation, 'a) io" where
  "on_profiles m = (\<lambda>s. case m (app_profiles s) of (r, x) \<Rightarrow> (r, s\<lparr>app_profiles := x\<rparr>))"

definition on_records :: "(record_store, 'a) io \<Rightarrow> (('c, 'w) installation, 'a) io" where
  "on_records m = (\<lambda>s. case m (app_records s) of (r, x) \<Rightarrow> (r, s\<lparr>app_records := x\<rparr>))"

definition on_world :: "('w, 'a) io \<Rightarrow> (('c, 'w) installation, 'a) io" where
  "on_world m = (\<lambda>s. case m (app_world s) of (r, x) \<Rightarrow> (r, s\<lparr>app_world := x\<rparr>))"

definition on_desk :: "(record_store \<times> 'w, 'a) io \<Rightarrow> (('c, 'w) installation, 'a) io" where
  "on_desk m = (\<lambda>s. case m (app_records s, app_world s) of
     (r, (x, y)) \<Rightarrow> (r, s\<lparr>app_records := x, app_world := y\<rparr>))"

definition mapR :: "('a \<Rightarrow> 'b) \<Rightarrow> ('s, 'a) io \<Rightarrow> ('s, 'b) io" where
  "mapR f m = bindM m (\<lambda>x. returnM (f x))"

datatype 'cert reply =
    AccountReply answer
  | JsonReply json
  | PatternsReply "(int \<times> int list \<times> json) list"
  | FieldsReply "(pystr \<times> (pystr \<times> obligation \<times> json) list) list"
  | MaterialReply "(environment \<times> material_status \<times> material_status) list"
  | MaterialReport "'cert material_report list"
  | ProfilesReply "'cert redacted_profile list"
  | ProfileReply "'cert redacted_profile"
  | ConnectionReply connection_test
  | CatalogueStatusReply catalogue_status
  | EntriesReply "catalogue_row list"
  | ItemReply "catalogue_row option" "catalogue_row list"
  | BuyersReply "buyer list"
  | BuyerReply buyer
  | GoodsListReply "goods_service list"
  | GoodsReply goods_service
  | NothingReply
  | OkReply
  | VerificationReply verification_result
  | RecordsReply "invoice_record list"
  | RecordReply invoice_record
  | Handled
  | InquiriesReply "inquiry_result list"
  | StatusesReply "invoice_status_result list"
  | TaxpayerReply taxpayer_result
  | FiscalReply fiscal_result
  | DashboardReply "'cert dashboard_reply"
  | UiFile

section \<open>Handlers\<close>

definition handle_metadata ::
    "('cert, 'key, 'k, 'c, 'w) site \<Rightarrow> metadata_request \<Rightarrow> (('c, 'w) installation, 'cert reply) io" where
  "handle_metadata st r = readM (\<lambda>s.
     (case r of
        Environments \<Rightarrow> Inr (JsonReply environments_reply)
      | Units \<Rightarrow> Inr (JsonReply units_reply)
      | Patterns \<Rightarrow> Inr (PatternsReply (patterns_reply (api_rules (site_api st))))
      | PatternFields number invoice_type \<Rightarrow>
          bindE (pattern_fields (api_rules (site_api st)) number invoice_type) (\<lambda>x. Inr (FieldsReply x))
      | Health \<Rightarrow> Inr (JsonReply (JObj [(lit ''ok'', JBool True)]))
      | SigningMaterial \<Rightarrow>
          Inr (MaterialReply (signing_material_reply (dk_files (site_desk st)) (dk_settings (site_desk st))))
      | VerifySigningMaterial \<Rightarrow>
          (case verify_signing_material (dk_keys (site_desk st)) (dk_files (site_desk st)) (dk_password (site_desk st))
              (dk_now (site_desk st) (app_world s)) (dk_settings (site_desk st)) of
             None \<Rightarrow> Inl AttributeError
           | Some reports \<Rightarrow> Inr (MaterialReport reports))))"

definition handle_catalogue ::
    "('cert, 'key, 'k, 'c, 'w) site \<Rightarrow> catalogue_request \<Rightarrow> (('c, 'w) installation, 'cert reply) io" where
  "handle_catalogue st r = readM (\<lambda>s.
     (case r of
        CatalogueStatus \<Rightarrow> Inr (CatalogueStatusReply (catalogue_status_of (app_catalogue s)))
      | CatalogueSearch text limit \<Rightarrow>
          Inr (EntriesReply (search (site_nfc st) (site_casefold st) (site_rank st) text limit (app_catalogue s)))
      | CatalogueItem code \<Rightarrow>
          (case catalogue_item (site_nfc st) code (app_catalogue s) of
             None \<Rightarrow> Inl (HTTPException 404)
           | Some (current, history) \<Rightarrow> Inr (ItemReply current history))))"

definition buyer_of :: "buyer_in \<Rightarrow> buyer" where
  "buyer_of b = \<lparr>b_name = bi_name b, b_national_id = bi_national_id b, b_economic_code = bi_economic_code b,
     b_person_type = bi_person_type b, b_postal_code = bi_postal_code b, b_branch_code = bi_branch_code b,
     b_note = bi_note b, b_id = None, b_created_at = None\<rparr>"

definition goods_of :: "goods_in \<Rightarrow> goods_service" where
  "goods_of g = \<lparr>g_stuff_id = gi_stuff_id g, g_description = gi_description g, g_unit = gi_unit g,
     g_vat_rate = gi_vat_rate g, g_default_fee = gi_default_fee g, g_is_default = gi_is_default g,
     g_id = None, g_created_at = None\<rparr>"

definition clock_of :: "('cert, 'key, 'k, 'c, 'w) site \<Rightarrow> (('c, 'w) installation, pystr) io" where
  "clock_of st = readM (\<lambda>s. Inr (utc_now (site_api st) (app_world s)))"

fun handle_reference ::
    "('cert, 'key, 'k, 'c, 'w) site \<Rightarrow> reference_request \<Rightarrow> (('c, 'w) installation, 'cert reply) io" where
  "handle_reference st ListBuyers = readM (\<lambda>s. Inr (BuyersReply (list_buyers (app_records s))))"
| "handle_reference st (AddBuyer b) =
     bindM (clock_of st) (\<lambda>now. mapR BuyerReply (on_records (add_buyer now (buyer_of b))))"
| "handle_reference st (DeleteBuyer i) = mapR (\<lambda>_. NothingReply) (on_records (delete_buyer i))"
| "handle_reference st ListGoods = readM (\<lambda>s. Inr (GoodsListReply (list_goods (app_records s))))"
| "handle_reference st (AddGoods g) =
     bindM (clock_of st) (\<lambda>now. mapR GoodsReply (on_records (add_goods now (goods_of g))))"
| "handle_reference st (MakeDefault i) = mapR (\<lambda>_. OkReply) (on_records (set_default_goods i))"
| "handle_reference st (DeleteGoods i) = mapR (\<lambda>_. NothingReply) (on_records (delete_goods i))"

text \<open>The profile store under the passphrase of the process, else a 503.\<close>

definition opened_cipher :: "('cert, 'key, 'k, 'c, 'w) site \<Rightarrow> ('k, 'c) cipher result" where
  "opened_cipher st = bindE (store_passphrase (site_master st) (site_environ st)) (\<lambda>pw. Inr (site_cipher st pw))"

fun handle_profiles ::
    "('cert, 'key, 'k, 'c, 'w) site \<Rightarrow> occasion \<Rightarrow> ('k, 'c) cipher \<Rightarrow> profiles_request \<Rightarrow>
     (('c, 'w) installation, 'cert reply) io" where
  "handle_profiles st oc c ListProfiles = readM (\<lambda>s.
     bindE (list_profiles (dk_keys (site_desk st)) (dk_files (site_desk st)) (dk_settings (site_desk st)) c
       (app_profiles s)) (\<lambda>ps. Inr (ProfilesReply ps)))"
| "handle_profiles st oc c (CreateProfile data) =
     bindM (readM (\<lambda>s. Inr (dk_now (site_desk st) (app_world s)))) (\<lambda>now.
       mapR ProfileReply (on_profiles (create_profile (dk_keys (site_desk st)) (dk_files (site_desk st))
         (dk_password (site_desk st)) now (dk_settings (site_desk st)) c (oc_salt oc) (oc_nonce oc) data)))"
| "handle_profiles st oc c (DeleteProfile name) =
     mapR (\<lambda>_. NothingReply) (on_profiles (delete_profile_handler c (oc_salt oc) (oc_nonce oc) name))"

fun handle_profile ::
    "('cert, 'key, 'k, 'c, 'w) site \<Rightarrow> profile \<Rightarrow> profile_request \<Rightarrow> (('c, 'w) installation, 'cert reply) io" where
  "handle_profile st p ReadProfile = returnM (ProfileReply
     (redacted (dk_keys (site_desk st)) (dk_files (site_desk st)) (dk_settings (site_desk st)) p))"
| "handle_profile st p TestConnection = mapR ConnectionReply (on_world (test_connection (site_desk st) p))"
| "handle_profile st p (VerifyInvoice ivc) =
     mapR VerificationReply (liftM (verify_invoice (api_rules (site_api st)) ivc))"
| "handle_profile st p (RecomputeInvoice ivc) = mapR JsonReply (liftM (recompute_invoice ivc))"
| "handle_profile st p (ListInvoices state limit) =
     readM (\<lambda>s. Inr (RecordsReply (list_invoices (prof_name p) state limit (app_records s))))"
| "handle_profile st p (ReadInvoice i) = mapR RecordReply (on_desk (owned_record p i))"
| "handle_profile st p (InvoiceRequest r) = mapR (\<lambda>_. Handled) (on_desk (handle_request (site_api st) p r))"
| "handle_profile st p (RegisterPayment data) =
     mapR JsonReply (on_world (register_payment (site_desk st) p (now_millis (site_api st)) data))"
| "handle_profile st p (ByReference references) =
     mapR InquiriesReply (on_world (inquiry_by_reference (site_desk st) p references))"
| "handle_profile st p (ByUid uids) = mapR InquiriesReply (on_world (inquiry_by_uid (site_desk st) p uids))"
| "handle_profile st p (InvoiceStatuses tax_ids) =
     mapR StatusesReply (on_world (inquiry_invoice_status (site_desk st) p tax_ids))"
| "handle_profile st p (ByTime start until status page_number page_size) =
     mapR InquiriesReply (on_world (inquiry_by_time (site_desk st) p start until status page_number page_size))"
| "handle_profile st p (Taxpayer code) = mapR TaxpayerReply (on_world (taxpayer (site_desk st) p code))"
| "handle_profile st p (TaxpayerInfo code) = mapR TaxpayerReply (on_world (taxpayer_info (site_desk st) p code))"
| "handle_profile st p (FiscalInformation memory) =
     mapR FiscalReply (on_world (fiscal_information (site_desk st) p memory))"
| "handle_profile st p (Article6 code vat_value period) =
     mapR JsonReply (on_world (article6_status (site_desk st) p code vat_value period))"
| "handle_profile st p Dashboard = readM (\<lambda>s. Inr (DashboardReply
     (dashboard (dk_keys (site_desk st)) (dk_files (site_desk st)) (dk_settings (site_desk st)) (app_records s) p)))"

text \<open>Arguments that could not be read are a 422.\<close>

definition given :: "'r option \<Rightarrow> ('r \<Rightarrow> ('s, 'a) io) \<Rightarrow> ('s, 'a) io" where
  "given r f = (case r of None \<Rightarrow> raiseM (HTTPException 422) | Some x \<Rightarrow> f x)"

fun handle ::
    "('cert, 'key, 'k, 'c, 'w) site \<Rightarrow> occasion \<Rightarrow> pystr option \<Rightarrow> endpoint \<Rightarrow>
     (('c, 'w) installation, 'cert reply) io" where
  "handle st oc authorization (AccountsAt r) = given r (\<lambda>x.
     mapR AccountReply (on_users (handle_account (site_vault st) (oc_moment oc) authorization x)))"
| "handle st oc authorization (MetadataAt r) = given r (handle_metadata st)"
| "handle st oc authorization (CatalogueAt r) = given r (handle_catalogue st)"
| "handle st oc authorization (ReferenceAt r) = given r (handle_reference st)"
| "handle st oc authorization (ProfilesAt r) =
     bindM (liftM (opened_cipher st)) (\<lambda>c. given r (handle_profiles st oc c))"
| "handle st oc authorization (ProfileAt name r) =
     bindM (liftM (opened_cipher st)) (\<lambda>c.
     bindM (readM (\<lambda>s. resolve_profile c name (app_profiles s))) (\<lambda>p. given r (handle_profile st p)))"

section \<open>One request\<close>

definition admit ::
    "vault \<Rightarrow> moment \<Rightarrow> access \<Rightarrow> pystr option \<Rightarrow> (('c, 'w) installation, unit) io" where
  "admit v m a authorization =
     (case a of
        Open \<Rightarrow> returnM ()
      | Authenticated \<Rightarrow> mapR (\<lambda>_. ()) (readM (\<lambda>s. current_user v m authorization (app_users s)))
      | AdminOnly \<Rightarrow> mapR (\<lambda>_. ()) (readM (\<lambda>s. admin_user v m authorization (app_users s))))"

text \<open>
  The built UI is mounted last, when its directory holds an \<open>index.html\<close>: it answers what no route
  matches.
\<close>

definition ui_mounted :: "file_system \<Rightarrow> pystr option \<Rightarrow> bool" where
  "ui_mounted fs static_dir =
     (case static_dir of None \<Rightarrow> False | Some dir \<Rightarrow> is_file fs (dir @ lit ''/index.html''))"

definition serve ::
    "('cert, 'key, 'k, 'c, 'w) site \<Rightarrow> occasion \<Rightarrow> http \<Rightarrow> (('c, 'w) installation, 'cert reply) io" where
  "serve st oc q =
     (let unmatched = (\<lambda>n. if ui_mounted (dk_files (site_desk st)) (site_static st) then returnM UiFile
                           else raiseM (HTTPException n))
      in case find_route ROUTES q of
           NoSuchPath \<Rightarrow> unmatched 404
         | WrongMethod \<Rightarrow> unmatched 405
         | Found (a, build) \<Rightarrow>
             bindM (admit (site_vault st) (oc_moment oc) a (ht_authorization q)) (\<lambda>_.
               handle st oc (ht_authorization q) (build (site_reader st))))"

section \<open>What a handler leaves alone\<close>

lemma keeps_mapR [intro]: "keeps I m \<Longrightarrow> keeps I (mapR f m)"
  unfolding mapR_def by (rule keeps_bindM) auto

lemma keeps_given [intro]: "(\<And>x. keeps I (f x)) \<Longrightarrow> keeps I (given r f)"
  by (cases r) (simp_all add: given_def)

lemma keeps_clock_of [simp]: "keeps I (clock_of st)"
  by (simp add: clock_of_def)

text \<open>The parts of an installation a lifted handler cannot reach.\<close>

lemma keeps_part:
  "keeps (\<lambda>s. app_profiles s = x) (on_users m)" "keeps (\<lambda>s. app_profiles s = x) (on_records m')"
  "keeps (\<lambda>s. app_profiles s = x) (on_world n)" "keeps (\<lambda>s. app_profiles s = x) (on_desk n')"
  "keeps (\<lambda>s. app_users s = y) (on_profiles p)" "keeps (\<lambda>s. app_users s = y) (on_records m')"
  "keeps (\<lambda>s. app_users s = y) (on_world n)" "keeps (\<lambda>s. app_users s = y) (on_desk n')"
  "keeps (\<lambda>s. app_catalogue s = z) (on_users m)" "keeps (\<lambda>s. app_catalogue s = z) (on_profiles p)"
  "keeps (\<lambda>s. app_catalogue s = z) (on_records m')" "keeps (\<lambda>s. app_catalogue s = z) (on_world n)"
  "keeps (\<lambda>s. app_catalogue s = z) (on_desk n')"
  by (simp_all add: keeps_def on_users_def on_profiles_def on_records_def on_world_def on_desk_def split: prod.splits)

lemma keeps_on_users: "keeps I m \<Longrightarrow> keeps (\<lambda>s. I (app_users s)) (on_users m)"
  by (simp add: keeps_def on_users_def split: prod.splits) (metis snd_conv)

lemmas keeps_handlers = keeps_mapR keeps_bindM keeps_given keeps_part

lemma keeps_handle_metadata [simp]: "keeps I (handle_metadata st r)"
  by (simp add: handle_metadata_def)

lemma keeps_handle_catalogue [simp]: "keeps I (handle_catalogue st r)"
  by (simp add: handle_catalogue_def)

lemma catalogue_keeps_handle: "keeps (\<lambda>s. app_catalogue s = z) (handle st oc authorization e)"
proof -
  have "keeps (\<lambda>s. app_catalogue s = z) (handle_reference st r)" for r :: reference_request
    by (cases r) (auto intro!: keeps_handlers)
  moreover have "keeps (\<lambda>s. app_catalogue s = z) (handle_profiles st oc c r)" for c r
    by (cases r) (auto intro!: keeps_handlers)
  moreover have "keeps (\<lambda>s. app_catalogue s = z) (handle_profile st p r)" for p r
    by (cases r) (auto intro!: keeps_handlers)
  ultimately show ?thesis by (cases e) (auto intro!: keeps_handlers)
qed

text \<open>Only two handlers reach the profiles, and only the handlers of accounts the accounts.\<close>

definition edits_profiles :: "endpoint \<Rightarrow> bool" where
  "edits_profiles e = (case e of ProfilesAt (Some (CreateProfile _)) \<Rightarrow> True | ProfilesAt (Some (DeleteProfile _)) \<Rightarrow> True
     | _ \<Rightarrow> False)"

lemma profiles_keeps_handle:
  assumes "\<not> edits_profiles e"
  shows "keeps (\<lambda>s. app_profiles s = x) (handle st oc authorization e)"
proof -
  have "keeps (\<lambda>s. app_profiles s = x) (handle_reference st r)" for r :: reference_request
    by (cases r) (auto intro!: keeps_handlers)
  moreover have "keeps (\<lambda>s. app_profiles s = x) (handle_profile st p r)" for p r
    by (cases r) (auto intro!: keeps_handlers)
  moreover have "keeps (\<lambda>s. app_profiles s = x) (given r (handle_profiles st oc c))" if "e = ProfilesAt r" for c r
    using that assms by (auto simp: given_def edits_profiles_def split: option.splits profiles_request.splits)
  moreover have "keeps (\<lambda>s. app_profiles s = x) (handle st oc authorization e)" if e: "e = ProfilesAt r" for r
    unfolding e handle.simps by (intro keeps_bindM) (use calculation(3) [OF e] in auto)
  ultimately show ?thesis by (cases e) (auto intro!: keeps_handlers simp del: handle.simps(5))
qed

lemma users_keeps_handle:
  assumes "\<nexists>r. e = AccountsAt (Some r)"
  shows "keeps (\<lambda>s. app_users s = x) (handle st oc authorization e)"
proof -
  have "keeps (\<lambda>s. app_users s = x) (handle_reference st r)" for r :: reference_request
    by (cases r) (auto intro!: keeps_handlers)
  moreover have "keeps (\<lambda>s. app_users s = x) (handle_profiles st oc c r)" for c r
    by (cases r) (auto intro!: keeps_handlers)
  moreover have "keeps (\<lambda>s. app_users s = x) (handle_profile st p r)" for p r
    by (cases r) (auto intro!: keeps_handlers)
  moreover have "keeps (\<lambda>s. app_users s = x) (handle st oc authorization e)" if "e = AccountsAt r" for r
    using that assms by (cases r) (simp_all add: given_def)
  ultimately show ?thesis by (cases e) (auto intro!: keeps_handlers)
qed

text \<open>Changing one's own password touches no other account.\<close>

definition beside :: "int \<Rightarrow> user_store \<Rightarrow> user_store \<Rightarrow> bool" where
  "beside i s s' \<longleftrightarrow> us_epoch s' = us_epoch s \<and> (\<forall>j. j \<noteq> i \<longrightarrow> row_of s' j = row_of s j)"

lemma beside_refl [simp]: "beside i s s"
  by (simp add: beside_def)

lemma beside_on_user: "beside i s s' \<Longrightarrow> beside i s (on_user i f s')"
  by (simp add: beside_def row_of_def on_user_def get_row_def update_row_def map_of_update_rows)

lemma beside_change_password: "keeps (beside (user_id me) s) (change_password v m me current new)"
proof -
  have "keeps (beside (user_id me) s) (set_password v m (user_id me) new)"
    by (auto simp: keeps_def set_password_def beside_on_user split: sum.splits)
  then show ?thesis by (auto simp: change_password_def intro!: keeps_bindM keeps_becomes)
qed

lemma own_account_only:
  assumes "r = Me \<or> (\<exists>current new. r = ChangePassword current new)"
    "current_user v m authorization s = Inr u"
  shows "beside (user_id u) s (snd (handle_account v m authorization r s))"
  using assms beside_change_password [of u s v m]
  by (auto simp: as_user_def bindM_def readM_def keeps_def)

section \<open>The guards of the routes\<close>

text \<open>What the open routes lead to, and what the routes of any signed-in user do not.\<close>

definition harmless :: "endpoint \<Rightarrow> bool" where
  "harmless e = (case e of
       MetadataAt r \<Rightarrow> r = Some Health
     | AccountsAt None \<Rightarrow> True | AccountsAt (Some r) \<Rightarrow> \<exists>name password. r = Login name password
     | _ \<Rightarrow> False)"

definition of_a_user :: "endpoint \<Rightarrow> bool" where
  "of_a_user e \<longleftrightarrow> \<not> edits_profiles e \<and>
     (\<forall>r. e = AccountsAt (Some r) \<longrightarrow> r = Me \<or> (\<exists>current new. r = ChangePassword current new))"

lemma of_a_user_simps [simp]:
  "of_a_user (MetadataAt m)" "of_a_user (CatalogueAt c)" "of_a_user (ReferenceAt r)" "of_a_user (ProfileAt name p)"
  "of_a_user (ProfilesAt (Some ListProfiles))" "of_a_user (AccountsAt (Some Me))" "of_a_user (AccountsAt None)"
  "of_a_user (AccountsAt (Some (ChangePassword current new)))"
  by (simp_all add: of_a_user_def edits_profiles_def)

lemma harmless_simps [simp]:
  "harmless (MetadataAt (Some Health))" "harmless (AccountsAt None)" "harmless (AccountsAt (Some (Login name password)))"
  by (simp_all add: harmless_def)

definition guarded :: "route \<Rightarrow> bool" where
  "guarded = (\<lambda>(v, ws, a, b). \<forall>rd ps q.
     (a = Open \<longrightarrow> harmless (b rd ps q)) \<and> (a = Authenticated \<longrightarrow> of_a_user (b rd ps q)))"

lemma guarded_simps:
  "guarded (v, ws, AdminOnly, b)" "guarded (v, ws, Authenticated, b) \<longleftrightarrow> (\<forall>rd ps q. of_a_user (b rd ps q))"
  "guarded (v, ws, Open, b) \<longleftrightarrow> (\<forall>rd ps q. harmless (b rd ps q))"
  by (simp_all add: guarded_def)

lemma routes_guarded: "list_all guarded ROUTES"
proof -
  have "list_all guarded auth_routes" "list_all guarded users_routes"
    by (auto simp: auth_routes_def users_routes_def guarded_simps split: body.split)
  moreover have "list_all guarded metadata_routes" "list_all guarded profile_routes" "list_all guarded catalogue_routes"
    "list_all guarded reference_routes" "list_all guarded draft_routes" "list_all guarded filing_routes"
    "list_all guarded inquiry_routes"
    by (simp_all add: metadata_routes_def profile_routes_def catalogue_routes_def reference_routes_def
        draft_routes_def filing_routes_def inquiry_routes_def guarded_simps)
  ultimately show ?thesis by (simp add: ROUTES_def)
qed

lemma find_SomeD: "find P xs = Some x \<Longrightarrow> x \<in> set xs \<and> P x"
  by (induction xs) (auto split: if_splits)

lemma find_route_Found:
  assumes "find_route routes q = Found (a, build)"
  obtains v ws b segments where "(v, ws, a, b) \<in> set routes" "v = ht_verb q" "fits ws segments"
    "split_on 47 (ht_path q) = [] # segments" "build = (\<lambda>rd. b rd (path_params ws segments) q)"
  using assms unfolding find_route_def
  by (auto split: list.splits option.splits if_splits dest!: find_SomeD)

section \<open>What a request can do\<close>

lemma login_reply: "login v m name password s = (r, s') \<Longrightarrow>
  s' = s \<and> (\<forall>x. r = Inr x \<longrightarrow> (\<exists>token me. x = LoggedIn token me))"
  by (auto simp: login_def readM_def Let_def py_splits split: if_splits)

lemma handle_harmless:
  assumes "harmless e" "handle st oc authorization e s = (r, s')"
  shows "s' = s \<and> (\<forall>x. r = Inr x \<longrightarrow> x = JsonReply (JObj [(lit ''ok'', JBool True)]) \<or>
    (\<exists>token me. x = AccountReply (LoggedIn token me)))"
proof -
  from assms(1) consider "e = MetadataAt (Some Health)" | "e = AccountsAt None" |
      name password where "e = AccountsAt (Some (Login name password))"
    by (auto simp: harmless_def split: endpoint.splits option.splits)
  then show ?thesis
  proof cases
    case 3
    obtain r' x' where l: "login (site_vault st) (oc_moment oc) name password (app_users s) = (r', x')"
      by fastforce
    with login_reply [OF l] assms(2) show ?thesis
      by (auto simp: 3 given_def mapR_def bindM_def on_users_def split: sum.splits)
  qed (use assms(2) in \<open>auto simp: given_def handle_metadata_def readM_def\<close>)
qed

lemma handle_of_a_user:
  assumes "of_a_user e" "current_user (site_vault st) (oc_moment oc) authorization (app_users s) = Inr u"
    and h: "handle st oc authorization e s = (r, s')"
  shows "app_profiles s' = app_profiles s \<and> beside (user_id u) (app_users s) (app_users s')"
proof
  show "app_profiles s' = app_profiles s"
    using profiles_keeps_handle [of e "app_profiles s" st oc authorization] assms(1) h
    by (fastforce simp: of_a_user_def keeps_def)
  show "beside (user_id u) (app_users s) (app_users s')"
  proof (cases "\<exists>r. e = AccountsAt (Some r)")
    case True
    then obtain req where req: "e = AccountsAt (Some req)" ..
    then have "app_users s' = snd (handle_account (site_vault st) (oc_moment oc) authorization req (app_users s))"
      using h by (auto simp: given_def mapR_def bindM_def on_users_def split: prod.splits sum.splits)
    moreover have "req = Me \<or> (\<exists>current new. req = ChangePassword current new)"
      using assms(1) req by (auto simp: of_a_user_def)
    ultimately show ?thesis using own_account_only [OF _ assms(2)] by simp
  next
    case False
    then show ?thesis using users_keeps_handle [of e "app_users s" st oc authorization] h
      by (fastforce simp: keeps_def)
  qed
qed

lemma admit_state: "admit v m a authorization s = (fst (admit v m a authorization s), s)"
  by (cases a) (simp_all add: admit_def mapR_def bindM_def readM_def split: sum.split)

lemma serve_cases:
  assumes "serve st oc q s = (r, s')"
  obtains (refused) e where "r = Inl e" "s' = s"
  | (files) "r = Inr UiFile" "s' = s"
  | (handled) a e where "handle st oc (ht_authorization q) e s = (r, s')" "a = Open \<Longrightarrow> harmless e"
      "a = Authenticated \<Longrightarrow> of_a_user e"
      "fst (admit (site_vault st) (oc_moment oc) a (ht_authorization q) s) = Inr ()"
proof (cases "find_route ROUTES q")
  case (Found x)
  obtain a build where x: "x = (a, build)" by (cases x)
  let ?e = "build (site_reader st)"
  from find_route_Found [OF Found [unfolded x]] obtain v ws b segments where
    mem: "(v, ws, a, b) \<in> set ROUTES" and build: "build = (\<lambda>rd. b rd (path_params ws segments) q)" .
  have g: "(a = Open \<longrightarrow> harmless ?e) \<and> (a = Authenticated \<longrightarrow> of_a_user ?e)"
    using mem routes_guarded build by (fastforce simp: list_all_iff guarded_def)
  obtain adm where adm: "admit (site_vault st) (oc_moment oc) a (ht_authorization q) s = (adm, s)"
    using admit_state by blast
  have sv: "serve st oc q s = bindM (admit (site_vault st) (oc_moment oc) a (ht_authorization q))
      (\<lambda>_. handle st oc (ht_authorization q) ?e) s"
    by (simp add: serve_def Found x)
  show ?thesis
  proof (cases adm)
    case (Inl e)
    with assms adm sv have "r = Inl e" "s' = s" by (simp_all add: bindM_def)
    then show ?thesis by (rule refused)
  next
    case (Inr u)
    with assms adm sv g handled [of ?e a] show ?thesis by (simp add: bindM_def)
  qed
qed (use assms refused files in \<open>auto simp: serve_def split: if_splits\<close>)

text \<open>
  C18. Nothing happens outside a session: a request that changes anything carries the token of an active
  account, and one that changes a profile or the account of somebody else the token of an
  administrator. Only the login, the health check and the files of the UI answer without a token, and no
  request changes the catalogue.
\<close>

theorem nothing_without_a_session:
  assumes "serve st oc q s = (r, s')"
  shows "(s' \<noteq> s \<longrightarrow> (\<exists>u. current_user (site_vault st) (oc_moment oc) (ht_authorization q) (app_users s) = Inr u \<and>
      (is_admin u \<or> app_profiles s' = app_profiles s \<and> beside (user_id u) (app_users s) (app_users s')))) \<and>
    (\<forall>x. r = Inr x \<longrightarrow> x = UiFile \<or> x = JsonReply (JObj [(lit ''ok'', JBool True)]) \<or>
      (\<exists>token me. x = AccountReply (LoggedIn token me)) \<or>
      (\<exists>u. current_user (site_vault st) (oc_moment oc) (ht_authorization q) (app_users s) = Inr u)) \<and>
    app_catalogue s' = app_catalogue s"
  using assms
proof (cases rule: serve_cases)
  case (handled a e)
  have cat: "app_catalogue s' = app_catalogue s"
    using catalogue_keeps_handle [of "app_catalogue s" st oc "ht_authorization q" e] handled(1)
    by (fastforce simp: keeps_def)
  show ?thesis
  proof (cases a)
    case Open
    then show ?thesis using handle_harmless [OF handled(2) handled(1)] by auto
  next
    case Authenticated
    then obtain u where u: "current_user (site_vault st) (oc_moment oc) (ht_authorization q) (app_users s) = Inr u"
      using handled(4) by (auto simp: admit_def mapR_def bindM_def readM_def split: sum.splits)
    with handle_of_a_user [OF handled(3) u handled(1)] Authenticated cat show ?thesis by blast
  next
    case AdminOnly
    then obtain u where "current_user (site_vault st) (oc_moment oc) (ht_authorization q) (app_users s) = Inr u" "is_admin u"
      using handled(4)
      by (auto simp: admit_def admin_user_def mapR_def bindM_def readM_def py_splits split: sum.splits if_splits)
    with cat show ?thesis by blast
  qed
qed simp_all

section \<open>No route hides another\<close>

fun apart :: "string list \<Rightarrow> string list \<Rightarrow> bool" where
  "apart [] [] = False"
| "apart (w # ws) (x # xs) = ((\<not> is_param w \<and> \<not> is_param x \<and> w \<noteq> x) \<or> apart ws xs)"
| "apart _ _ = True"

lemma apart_fits: "apart ws xs \<Longrightarrow> fits ws segments \<Longrightarrow> \<not> fits xs segments"
proof (induction ws xs arbitrary: segments rule: apart.induct)
  case (2 w ws x xs)
  then show ?case by (cases segments) auto
qed (auto elim: fits.elims)

lemma routes_apart:
  "sorted_wrt (\<lambda>(v, ws) (v', ws'). v \<noteq> v' \<or> apart ws ws') (map (\<lambda>(v, ws, _). (v, ws)) ROUTES)"
  by code_simp

lemma sorted_wrt_any: "sorted_wrt P xs \<Longrightarrow> x \<in> set xs \<Longrightarrow> y \<in> set xs \<Longrightarrow> x = y \<or> P x y \<or> P y x"
  by (induction xs) auto

lemma one_route_fits:
  assumes "(v, ws, a, b) \<in> set ROUTES" "(v, ws', a', b') \<in> set ROUTES" "fits ws segments" "fits ws' segments"
  shows "(v, ws, a, b) = (v, ws', a', b')"
proof -
  have "sorted_wrt (\<lambda>(v, ws, _) (v', ws', _). v \<noteq> v' \<or> apart ws ws') ROUTES"
    using routes_apart unfolding sorted_wrt_map by (rule sorted_wrt_mono_rel [rotated]) auto
  from sorted_wrt_any [OF this assms(1, 2)] show ?thesis
    using apart_fits [of ws ws'] apart_fits [of ws' ws] assms(3, 4) by auto
qed

lemma find_unique:
  assumes "\<And>x y. x \<in> set xs \<Longrightarrow> y \<in> set xs \<Longrightarrow> P x \<Longrightarrow> P y \<Longrightarrow> x = y" "set ys = set xs"
  shows "find P ys = find P xs"
proof (cases "find P xs")
  case None
  moreover from this have "find P ys = None" using assms(2) by (auto simp: find_None_iff)
  ultimately show ?thesis by simp
next
  case (Some x)
  then have "x \<in> set xs" "P x" by (auto dest: find_SomeD)
  moreover obtain y where "find P ys = Some y" using calculation assms(2) by (cases "find P ys") (auto simp: find_None_iff)
  moreover have "y \<in> set ys" "P y" using calculation(3) by (auto dest: find_SomeD)
  ultimately show ?thesis using assms Some by metis
qed

text \<open>
  No route hides another: whatever the order in which the routes are registered, a request goes to
  the same handler under the same guard.
\<close>

theorem route_order_irrelevant:
  assumes "set routes = set ROUTES"
  shows "find_route routes q = find_route ROUTES q"
proof -
  have f: "find (\<lambda>(v, ws, _). v = ht_verb q \<and> fits ws segments) routes =
      find (\<lambda>(v, ws, _). v = ht_verb q \<and> fits ws segments) ROUTES" for segments
    by (intro find_unique assms) (auto dest: one_route_fits)
  have g: "list_ex (\<lambda>(_, ws, _). fits ws segments) routes = list_ex (\<lambda>(_, ws, _). fits ws segments) ROUTES" for segments
    using assms by (simp add: list_ex_iff)
  show ?thesis unfolding find_route_def f g ..
qed

section \<open>Profiles no path can name\<close>

lemma split_on_free: "s \<in> set (split_on d t) \<Longrightarrow> d \<notin> set s"
  by (induction d t arbitrary: s rule: split_on.induct) (auto split: list.splits if_splits)

lemma path_params_hd: "fits ws ss \<Longrightarrow> list_ex is_param ws \<Longrightarrow> hd (path_params ws ss) \<in> set ss"
  by (induction ws ss rule: fits.induct) auto

definition profile_named :: "endpoint \<Rightarrow> pystr option" where
  "profile_named e = (case e of ProfileAt name _ \<Rightarrow> Some name | ProfilesAt (Some (DeleteProfile name)) \<Rightarrow> Some name
     | _ \<Rightarrow> None)"

lemma profile_named_simps [simp]:
  "profile_named (ProfileAt name r) = Some name" "profile_named (ProfilesAt (Some (DeleteProfile name))) = Some name"
  "profile_named (AccountsAt x) = None" "profile_named (MetadataAt m) = None" "profile_named (CatalogueAt c) = None"
  "profile_named (ReferenceAt y) = None" "profile_named (ProfilesAt (Some ListProfiles)) = None"
  "profile_named (ProfilesAt (Some (CreateProfile p))) = None" "profile_named (ProfilesAt None) = None"
  by (simp_all add: profile_named_def)

definition names_first :: "route \<Rightarrow> bool" where
  "names_first = (\<lambda>(v, ws, a, b). \<forall>rd ps q name. profile_named (b rd ps q) = Some name \<longrightarrow> name = hd ps \<and> list_ex is_param ws)"

lemma routes_names_first: "list_all names_first ROUTES"
proof -
  have "list_all names_first profile_routes"
    by (simp add: profile_routes_def names_first_def is_param_def split: body.split)
  moreover have "list_all names_first auth_routes" "list_all names_first users_routes"
    "list_all names_first metadata_routes" "list_all names_first catalogue_routes"
    "list_all names_first reference_routes" "list_all names_first draft_routes" "list_all names_first filing_routes"
    "list_all names_first inquiry_routes"
    by (simp_all add: auth_routes_def users_routes_def metadata_routes_def catalogue_routes_def reference_routes_def
        draft_routes_def filing_routes_def inquiry_routes_def names_first_def is_param_def)
  ultimately show ?thesis by (simp add: ROUTES_def)
qed

text \<open>
  A profile whose name holds a slash can be created, but no path of the application names it: it can be
  neither read nor used nor deleted.
\<close>

theorem slashed_profile_unreachable:
  assumes "validate_profile p = Inr ()" "47 \<in> set (prof_name p)" "find_route ROUTES q = Found (a, build)"
  shows "profile_named (build rd) \<noteq> Some (prof_name p)"
proof
  assume named: "profile_named (build rd) = Some (prof_name p)"
  from find_route_Found [OF assms(3)] obtain v ws b segments where
    r: "(v, ws, a, b) \<in> set ROUTES" "fits ws segments" "split_on 47 (ht_path q) = [] # segments"
      "build = (\<lambda>rd. b rd (path_params ws segments) q)" .
  then have "prof_name p = hd (path_params ws segments)" "list_ex is_param ws"
    using named routes_names_first by (fastforce simp: list_all_iff names_first_def)+
  then have "prof_name p \<in> set segments" using path_params_hd [OF r(2)] by simp
  then have "47 \<notin> set (prof_name p)" using split_on_free [of "prof_name p" 47 "ht_path q"] r(3) by simp
  with assms(2) show False by contradiction
qed

section \<open>A concrete request\<close>

lemma route_found:
  assumes "(ht_verb q, ws, a, b) \<in> set ROUTES" "split_on 47 (ht_path q) = [] # segments" "fits ws segments"
  shows "find_route ROUTES q = Found (a, \<lambda>rd. b rd (path_params ws segments) q)"
proof -
  let ?P = "\<lambda>(v, ws, _). v = ht_verb q \<and> fits ws segments"
  have "?P (ht_verb q, ws, a, b)" using assms(3) by simp
  with assms(1) have "find ?P ROUTES \<noteq> None" unfolding find_None_iff by blast
  then obtain r where r: "find ?P ROUTES = Some r" by blast
  then have "r \<in> set ROUTES" "?P r" by (blast dest: find_SomeD)+
  then obtain ws' a' b' where r': "r = (ht_verb q, ws', a', b')" "fits ws' segments" by auto
  with one_route_fits [OF _ assms(1) r'(2) assms(3)] \<open>r \<in> set ROUTES\<close> have "r = (ht_verb q, ws, a, b)" by simp
  with r assms(2) show ?thesis by (simp add: find_route_def)
qed

definition sample_http :: "verb \<Rightarrow> string \<Rightarrow> pystr option \<Rightarrow> http" where
  "sample_http v path authorization =
     \<lparr>ht_verb = v, ht_path = lit path, ht_query = [], ht_body = NoBody, ht_authorization = authorization\<rparr>"

lemma sample_http_simps [simp]:
  "ht_verb (sample_http v path authorization) = v" "ht_path (sample_http v path authorization) = lit path"
  "ht_authorization (sample_http v path authorization) = authorization"
  by (simp_all add: sample_http_def)

lemma sample_paths:
  "split_on 47 (lit ''/api/admin/users/sessions/revoke-all'') =
     [] # map lit [''api'', ''admin'', ''users'', ''sessions'', ''revoke-all'']"
  "split_on 47 (lit ''/api/profiles/a'') = [] # map lit [''api'', ''profiles'', ''a'']"
  by (simp_all add: lit_def)

theorem route_order_irrelevant_witness:
  "find_route (rev ROUTES) (sample_http GET ''/api/units'' None) = find_route ROUTES (sample_http GET ''/api/units'' None)"
  by (rule route_order_irrelevant) simp

theorem slashed_profile_unreachable_witness:
  "\<exists>a build. find_route ROUTES (sample_http DELETE ''/api/profiles/a'' None) = Found (a, build) \<and>
     (\<forall>rd. profile_named (build rd) \<noteq> Some (lit ''a/b''))"
proof -
  let ?q = "sample_http DELETE ''/api/profiles/a'' None"
  have "find_route ROUTES ?q = Found (AdminOnly, \<lambda>rd. ProfilesAt (Some (DeleteProfile (lit ''a''))))"
    by (subst route_found [where ws = "[''api'', ''profiles'', ''{name}'']" and a = AdminOnly
          and b = "\<lambda>rd ps q. ProfilesAt (Some (DeleteProfile (hd ps)))" and segments = "map lit [''api'', ''profiles'', ''a'']"])
      (simp_all add: sample_paths is_param_def ROUTES_def profile_routes_def)
  moreover have "\<not> is_blank (lit ''a/b'')"
    by (simp add: is_blank_def strip_def lstrip_def rstrip_def is_space_def space_points_def lit_def)
  then have "validate_profile (sample_profile\<lparr>prof_name := lit ''a/b''\<rparr>) = Inr ()"
    by (simp add: validate_profile_def sample_profile_def base_url_def sample_texts)
  ultimately show ?thesis
    using slashed_profile_unreachable [of "sample_profile\<lparr>prof_name := lit ''a/b''\<rparr>" ?q] by (fastforce simp: lit_def)
qed

definition sample_site ::
    "'w api \<Rightarrow> ('cert, 'key, 'w) Desk.desk \<Rightarrow> ('cert, 'key, unit, json, 'w) site" where
  "sample_site api dk = \<lparr>site_vault = sample_vault, site_api = api, site_desk = dk, site_cipher = (\<lambda>_. sample_cipher),
     site_master = Some (lit ''open''), site_environ = None,
     site_reader = \<lparr>rd_int = py_int 10, rd_bool = (\<lambda>_. None), rd_float = (\<lambda>_. None), rd_time = (\<lambda>_. None)\<rparr>,
     site_nfc = id, site_casefold = id, site_rank = (\<lambda>_ _. []), site_static = None\<rparr>"

definition sample_installation :: "'w \<Rightarrow> (json, 'w) installation" where
  "sample_installation w = \<lparr>app_users = sample_users, app_profiles = NoFile, app_records = empty_store,
     app_catalogue = empty_catalogue, app_world = w\<rparr>"

definition sample_occasion :: "int \<Rightarrow> occasion" where
  "sample_occasion n = \<lparr>oc_moment = sample_moment n, oc_salt = [1], oc_nonce = [2]\<rparr>"

lemma sample_simps [simp]:
  "site_vault (sample_site api dk) = sample_vault" "oc_moment (sample_occasion n) = sample_moment n"
  "app_users (sample_installation w) = sample_users" "app_profiles (sample_installation w) = NoFile"
  "m_now (sample_moment n) = n * SECOND"
  by (simp_all add: sample_site_def sample_occasion_def sample_installation_def sample_moment_def)

text \<open>The administrator signs everyone out.\<close>

theorem nothing_without_a_session_witness:
  "\<forall>api dk w. \<exists>r s'. serve (sample_site api dk) (sample_occasion 200)
       (sample_http POST ''/api/admin/users/sessions/revoke-all'' sample_admin) (sample_installation w) = (r, s') \<and>
     s' \<noteq> sample_installation w \<and>
     (\<exists>u. current_user sample_vault (sample_moment 200) sample_admin sample_users = Inr u \<and>
       (is_admin u \<or> app_profiles s' = NoFile \<and> beside (user_id u) sample_users (app_users s')))"
proof (intro allI)
  fix api :: "'w api" and dk :: "('cert, 'key, 'w) Desk.desk" and w :: 'w
  let ?q = "sample_http POST ''/api/admin/users/sessions/revoke-all'' sample_admin"
  let ?u = "user_of 1 (sample_account ''admin'' ''admin1234'' ''admin'')"
  let ?s = "sample_installation w"
  have route: "find_route ROUTES ?q = Found (AdminOnly, \<lambda>rd. AccountsAt (Some RevokeAll))"
    by (subst route_found [where ws = "[''api'', ''admin'', ''users'', ''sessions'', ''revoke-all'']" and a = AdminOnly
          and b = "\<lambda>rd ps q. AccountsAt (Some RevokeAll)"
          and segments = "map lit [''api'', ''admin'', ''users'', ''sessions'', ''revoke-all'']"])
      (simp_all add: sample_paths is_param_def ROUTES_def users_routes_def)
  have "serve (sample_site api dk) (sample_occasion 200) ?q ?s =
      (Inr (AccountReply (AllRevoked (200 * SECOND) (make_token sample_vault (sample_moment 200) ?u))),
       ?s\<lparr>app_users := sample_users\<lparr>us_epoch := Some (200 * SECOND)\<rparr>\<rparr>)"
    using sample_admin_in [of 200]
    by (simp add: serve_def route admit_def mapR_def bindM_def readM_def given_def on_users_def as_admin_def
        revoke_all_def revoke_all_sessions_def)
  moreover have "?s\<lparr>app_users := sample_users\<lparr>us_epoch := Some (200 * SECOND)\<rparr>\<rparr> \<noteq> ?s"
    by (simp add: sample_installation_def sample_users_def)
  ultimately show "\<exists>r s'. serve (sample_site api dk) (sample_occasion 200) ?q ?s = (r, s') \<and> s' \<noteq> ?s \<and>
      (\<exists>u. current_user sample_vault (sample_moment 200) sample_admin sample_users = Inr u \<and>
        (is_admin u \<or> app_profiles s' = NoFile \<and> beside (user_id u) sample_users (app_users s')))"
    using nothing_without_a_session [of "sample_site api dk" "sample_occasion 200" ?q ?s] by simp
qed

end
