(* ===== verification/Startup.thy ===== *)
theory Startup
  imports Gateway
begin

text \<open>
  From the process to the application: where \<open>auth/security.py\<close> reads its settings and the secret of
  its tokens, and what \<open>create_app\<close> does before the first request.

  The environment of the process is a function of the name of a variable. \<open>secrets.token_hex(32)\<close> and
  the functions of the \<open>jwt\<close> package under a secret are parameters.
\<close>

section \<open>Settings of the sessions\<close>

text \<open>The attributes of \<open>Settings\<close> this module reads; \<open>None\<close> stands for no \<open>Settings\<close> at all.\<close>

record session_settings =
  ss_app_secret :: "pystr option"
  ss_token_ttl_hours :: int
  ss_seed_users :: pystr

definition default_session_settings :: session_settings where
  "default_session_settings = \<lparr>ss_app_secret = None, ss_token_ttl_hours = 12,
     ss_seed_users = lit ''admin:admin1234:admin''\<rparr>"

datatype scalar = Text pystr | Number int

definition attribute :: "session_settings \<Rightarrow> string \<Rightarrow> scalar option" where
  "attribute st name =
     (if name = ''app_secret'' then map_option Text (ss_app_secret st)
      else if name = ''token_ttl_hours'' then Some (Number (ss_token_ttl_hours st))
      else if name = ''seed_users'' then Some (Text (ss_seed_users st))
      else None)"

definition variable_of :: "string \<Rightarrow> string option" where
  "variable_of = map_of [(''app_secret'', ''MOADIAN_APP_SECRET''), (''token_ttl_hours'', ''MOADIAN_TOKEN_TTL_HOURS''),
     (''seed_users'', ''MOADIAN_SEED_USERS'')]"

definition setting ::
    "session_settings option \<Rightarrow> (string \<Rightarrow> pystr option) \<Rightarrow> string \<Rightarrow> scalar option \<Rightarrow> scalar option" where
  "setting conf environ name d =
     (case Option.bind conf (\<lambda>st. attribute st name) of
        Some v \<Rightarrow> Some v
      | None \<Rightarrow> (case Option.bind (variable_of name) environ of Some raw \<Rightarrow> Some (Text raw) | None \<Rightarrow> d))"

definition scalar_text :: "scalar \<Rightarrow> pystr" where
  "scalar_text v = (case v of Text s \<Rightarrow> s | Number n \<Rightarrow> int_text n)"

text \<open>
  The secret of the tokens: the configured one unless it is missing or empty, else one drawn once for
  the life of the process, which the state keeps.
\<close>

definition secret_key ::
    "session_settings option \<Rightarrow> (string \<Rightarrow> pystr option) \<Rightarrow> pystr \<Rightarrow> pystr option \<Rightarrow> pystr \<times> pystr option" where
  "secret_key conf environ drawn ephemeral =
     (case setting conf environ ''app_secret'' None of
        Some v \<Rightarrow> if v = Text [] \<or> v = Number 0
                  then (case ephemeral of None \<Rightarrow> (drawn, Some drawn) | Some s \<Rightarrow> (s, ephemeral))
                  else (scalar_text v, ephemeral)
      | None \<Rightarrow> (case ephemeral of None \<Rightarrow> (drawn, Some drawn) | Some s \<Rightarrow> (s, ephemeral)))"

definition ttl_hours :: "session_settings option \<Rightarrow> (string \<Rightarrow> pystr option) \<Rightarrow> int" where
  "ttl_hours conf environ =
     (case setting conf environ ''token_ttl_hours'' (Some (Number 12)) of
        Some (Number n) \<Rightarrow> n
      | Some (Text s) \<Rightarrow> (case py_int 10 s of None \<Rightarrow> 12 | Some n \<Rightarrow> n)
      | None \<Rightarrow> 12)"

definition DEFAULT_SEED :: pystr where "DEFAULT_SEED = lit ''admin:admin1234:admin''"

definition seed_spec :: "session_settings option \<Rightarrow> (string \<Rightarrow> pystr option) \<Rightarrow> pystr" where
  "seed_spec conf environ =
     (case setting conf environ ''seed_users'' (Some (Text DEFAULT_SEED)) of
        Some v \<Rightarrow> scalar_text v | None \<Rightarrow> DEFAULT_SEED)"

text \<open>The token functions of a process whose first use of the secret moments \<open>drawn\<close>.\<close>

record token_library =
  tl_pbkdf2 :: "pystr \<Rightarrow> nat list \<Rightarrow> nat list"
  tl_encode :: "pystr \<Rightarrow> claims \<Rightarrow> pystr"
  tl_decode :: "pystr \<Rightarrow> int \<Rightarrow> pystr \<Rightarrow> claims option"

definition process_vault ::
    "token_library \<Rightarrow> session_settings option \<Rightarrow> (string \<Rightarrow> pystr option) \<Rightarrow> pystr \<Rightarrow> vault" where
  "process_vault lib conf environ drawn =
     (let secret = fst (secret_key conf environ drawn None)
      in \<lparr>pbkdf2 = tl_pbkdf2 lib, jwt_encode = tl_encode lib secret, jwt_decode = tl_decode lib secret,
          token_ttl_hours = ttl_hours conf environ\<rparr>)"

section \<open>Starting the application\<close>

text \<open>
  \<open>create_app\<close>: the signing material is reported, then the accounts of the seed are created. The
  answer is what was logged.
\<close>

definition create_app ::
    "('cert, 'key, 'w) Desk.desk \<Rightarrow> vault \<Rightarrow> (nat \<Rightarrow> moment) \<Rightarrow> pystr \<Rightarrow>
     (('c, 'w) installation, log_line list) io" where
  "create_app dk v moments spec = (\<lambda>s.
     case report_signing_material
         (verify_material (dk_keys dk) (dk_files dk) (dk_password dk) (dk_now dk (app_world s)))
         (dk_settings dk) [] ENVIRONMENTS of
       None \<Rightarrow> (Inl AttributeError, s)
     | Some lines \<Rightarrow> (Inr lines, s\<lparr>app_users := seed_users v moments spec (app_users s)\<rparr>))"

text \<open>
  The \<open>__getattr__\<close> of the module: \<open>app\<close> is built on first use and kept. The state holds whether it was.
\<close>

definition module_attribute :: "('s, 'a) io \<Rightarrow> string \<Rightarrow> ('a option \<times> 's, 'a) io" where
  "module_attribute build name = (\<lambda>(app, s).
     if name = ''app'' then
       (case app of
          Some a \<Rightarrow> (Inr a, (app, s))
        | None \<Rightarrow> (case build s of (Inl e, s') \<Rightarrow> (Inl e, (None, s')) | (Inr a, s') \<Rightarrow> (Inr a, (Some a, s'))))
     else (Inl AttributeError, (app, s)))"

section \<open>The secret\<close>

lemma secret_key_kept:
  "secret_key conf environ drawn e = (k, e') \<Longrightarrow> secret_key conf environ drawn' e' = (k, e')"
  by (auto simp: secret_key_def split: option.splits if_splits)

definition secret_configured :: "session_settings option \<Rightarrow> (string \<Rightarrow> pystr option) \<Rightarrow> bool" where
  "secret_configured conf environ \<longleftrightarrow>
     (case setting conf environ ''app_secret'' None of None \<Rightarrow> False | Some v \<Rightarrow> v \<noteq> Text [] \<and> v \<noteq> Number 0)"

lemma secret_key_fresh:
  "fst (secret_key conf environ drawn None) =
     (if secret_configured conf environ
      then scalar_text (the (setting conf environ ''app_secret'' None)) else drawn)"
  by (auto simp: secret_key_def secret_configured_def split: option.splits)

text \<open>
  A restart. With a configured secret the new process takes the tokens of the old one as it takes its
  own; without, it refuses all of them, as long as the two processes draw different secrets and a token
  signed under one secret is not accepted under another.
\<close>

theorem restart_signs_out:
  fixes lib :: token_library and conf :: "session_settings option" and environ :: "string \<Rightarrow> pystr option"
    and drawn drawn' :: pystr
  assumes "\<And>k k' t c. k \<noteq> k' \<Longrightarrow> tl_decode lib k' t (tl_encode lib k c) = None"
    and "drawn \<noteq> drawn'"
  defines "v \<equiv> process_vault lib conf environ drawn" and "v' \<equiv> process_vault lib conf environ drawn'"
  shows "if secret_configured conf environ then v' = v
    else current_user v' m' (bearer (make_token v m u)) s = Inl (HTTPException 401)"
proof (cases "secret_configured conf environ")
  case True
  then show ?thesis by (simp add: v_def v'_def process_vault_def secret_key_fresh)
next
  case False
  then have "jwt_decode v' t (jwt_encode v c) = None" for t c
    using assms(1) [of drawn drawn'] assms(2) by (simp add: v_def v'_def process_vault_def secret_key_fresh)
  moreover have "token_from_request (bearer x) = Some x" for x
    by simp
  ultimately show ?thesis using False by (simp add: current_user_def make_token_def)
qed

section \<open>The first start\<close>

lemma default_seed_entry:
  "split_on 44 DEFAULT_SEED = [DEFAULT_SEED]" "strip DEFAULT_SEED = DEFAULT_SEED" "DEFAULT_SEED \<noteq> []"
  "split_on 58 DEFAULT_SEED = [lit ''admin'', lit ''admin1234'', lit ''admin'']"
  by (simp_all add: DEFAULT_SEED_def lit_def strip_def lstrip_def rstrip_def is_space_def space_points_def)

lemma admin_texts:
  "strip (lit ''admin'') = lit ''admin''" "strip (lit ''admin1234'') = lit ''admin1234''"
  "username_matches (lit ''admin'')" "MIN_PASSWORD \<le> length (lit ''admin1234'')" "lit ''admin'' \<in> set ROLES"
  by (simp_all add: lit_def strip_def lstrip_def rstrip_def is_space_def space_points_def username_matches_def
      username_char_def ascii_defs MIN_PASSWORD_def ROLES_def)

lemma create_first_account:
  assumes "hash_password v (m_salt m) (strip password) [] = Inr h" "username_matches (strip name)"
    "MIN_PASSWORD \<le> length (strip password)" "role \<in> set ROLES"
  shows "create_account v m name password name role empty_user_store =
    (let a = \<lparr>acc_username = strip name, acc_hash = h, acc_display = take 128 (strip name), acc_role = role,
           acc_active = True, acc_disabled_at = None, acc_valid_from = None, acc_created_at = m_text m\<rparr>;
         s = empty_user_store\<lparr>us_users := \<lparr>t_rows = [(1, a)], t_seq = 1\<rparr>\<rparr>
     in (Inr (user_of 1 a), s))"
  using assms by (simp add: create_account_def Let_def by_username_def empty_user_store_def empty_table_def
      insert_row_def get_user_def row_of_def get_row_def)

text \<open>
  C30. A fresh installation started with the default seed has an active administrator, who logs in with the
  password of the seed.
\<close>

theorem first_start_gives_way_in:
  assumes "vault_ok v" "moment_ok (moments 0)" "moment_ok m"
    "create_app dk v moments DEFAULT_SEED s = (Inr lines, s')" "app_users s = empty_user_store"
  shows "users_ok (app_users s') \<and> has_admin (app_users s') \<and>
    (\<exists>u. is_admin u \<and> login v m (lit ''admin'') (lit ''admin1234'') (app_users s') =
      (Inr (LoggedIn (make_token v m u) (public u)), app_users s'))"
proof -
  let ?p = "lit ''admin1234''" and ?n = "lit ''admin''"
  from assms(2) obtain bs where bs: "fromhex (m_salt (moments 0)) = Inr bs" by (auto simp: moment_ok_def)
  then obtain h where h: "hash_password v (m_salt (moments 0)) ?p [] = Inr h"
    by (auto simp: hash_password_def assms(2) [unfolded moment_ok_def])
  define a where "a = \<lparr>acc_username = ?n, acc_hash = h, acc_display = take 128 ?n, acc_role = ?n,
      acc_active = True, acc_disabled_at = None, acc_valid_from = None, acc_created_at = m_text (moments 0)\<rparr>"
  define s1 where "s1 = empty_user_store\<lparr>us_users := \<lparr>t_rows = [(1, a)], t_seq = 1\<rparr>\<rparr>"
  have c: "create_account v (moments 0) ?n ?p ?n ?n empty_user_store = (Inr (user_of 1 a), s1)"
    using create_first_account [of v "moments 0" ?p h ?n ?n] h admin_texts by (simp add: Let_def a_def s1_def)
  have "by_username ?n empty_user_store = None"
    by (simp add: by_username_def empty_user_store_def empty_table_def)
  then have "seed_users v moments DEFAULT_SEED empty_user_store = s1"
    using c by (simp add: seed_users_def default_seed_entry seed_entry_def Let_def)
  then have s': "app_users s' = s1" using assms(4, 5) by (auto simp: create_app_def split: option.splits)
  have ok: "users_ok s1"
    using users_ok_create [OF assms(1, 2) _ c] by (simp add: users_ok_def empty_user_store_def usernames_def empty_table_def table_ok_def)
  have r: "row_of s1 1 = Some a" by (simp add: s1_def row_of_def get_row_def)
  have "has_admin s1" by (simp add: has_admin_def s1_def active_admin_def a_def)
  moreover have "login v m ?n ?p s1 = (Inr (LoggedIn (make_token v m (user_of 1 a)) (public (user_of 1 a))), s1)"
    using login_row [OF ok r, of ?n v m ?p] hash_nonempty [OF h] admin_texts
      verify_password_iff [OF assms(1, 2) bs h, of "m_salt m" ?p] by (simp add: a_def)
  moreover have "is_admin (user_of 1 a)" by (simp add: is_admin_def a_def)
  ultimately show ?thesis using ok s' by blast
qed

text \<open>A later start leaves every account, and everything else, as it is.\<close>

theorem restart_keeps_accounts:
  assumes "vault_ok v" "\<And>k. moment_ok (moments k)" "users_ok (app_users s)" "row_of (app_users s) i = Some a"
    "create_app dk v moments spec s = (r, s')"
  shows "row_of (app_users s') i = Some a \<and> users_ok (app_users s') \<and> s'\<lparr>app_users := app_users s\<rparr> = s"
  using assms(5) seed_users_keeps [OF assms(1-4), where spec = spec] assms(3, 4)
  by (auto simp: create_app_def split: option.splits)

text \<open>Importing the module builds nothing, and the application is built at most once.\<close>

lemma import_builds_nothing: "name \<noteq> ''app'' \<Longrightarrow> module_attribute build name x = (Inl AttributeError, x)"
  by (simp add: module_attribute_def split: prod.split)

lemma built_once: "module_attribute build ''app'' x = (Inr a, y) \<Longrightarrow> module_attribute build' ''app'' y = (Inr a, y)"
  by (auto simp: module_attribute_def split: prod.splits option.splits sum.splits)

section \<open>A concrete start\<close>

definition sample_desk :: "unit surroundings \<Rightarrow> (nat list, nat, unit) Desk.desk" where
  "sample_desk sr = \<lparr>dk_keys = sample_keys, dk_files = (\<lambda>_. None), dk_password = None, dk_now = (\<lambda>_. 0),
     dk_settings = default_settings, dk_surroundings = sr\<rparr>"

theorem first_start_gives_way_in_witness:
  "\<forall>sr. \<exists>s'. create_app (sample_desk sr) sample_vault (\<lambda>_. sample_moment 100) DEFAULT_SEED
       (sample_installation ()\<lparr>app_users := empty_user_store\<rparr>) = (Inr [LogWarning SANDBOX], s') \<and>
     has_admin (app_users s') \<and>
     (\<exists>u. is_admin u \<and> login sample_vault (sample_moment 200) (lit ''admin'') (lit ''admin1234'') (app_users s') =
       (Inr (LoggedIn (make_token sample_vault (sample_moment 200) u) (public u)), app_users s'))"
proof
  fix sr :: "unit surroundings"
  let ?s = "sample_installation ()\<lparr>app_users := empty_user_store\<rparr>"
  have "report_signing_material (verify_material sample_keys (\<lambda>_. None) None 0) default_settings [] ENVIRONMENTS =
      Some [LogWarning SANDBOX]"
    by (simp add: ENVIRONMENTS_def signing_material_of_def default_settings_def or_else_def verify_material_def
        require_paths_def Let_def)
  then obtain s' where c: "create_app (sample_desk sr) sample_vault (\<lambda>_. sample_moment 100) DEFAULT_SEED ?s =
      (Inr [LogWarning SANDBOX], s')"
    by (simp add: create_app_def sample_desk_def)
  have "moment_ok (sample_moment n)" for n by simp
  from first_start_gives_way_in [OF sample_vault_ok this this c] c
  show "\<exists>s'. create_app (sample_desk sr) sample_vault (\<lambda>_. sample_moment 100) DEFAULT_SEED ?s =
      (Inr [LogWarning SANDBOX], s') \<and> has_admin (app_users s') \<and>
     (\<exists>u. is_admin u \<and> login sample_vault (sample_moment 200) (lit ''admin'') (lit ''admin1234'') (app_users s') =
       (Inr (LoggedIn (make_token sample_vault (sample_moment 200) u) (public u)), app_users s'))"
    by auto
qed

text \<open>Token text that names its secret.\<close>

definition sample_token_library :: token_library where
  "sample_token_library = \<lparr>tl_pbkdf2 = pbkdf2 sample_vault,
     tl_encode = (\<lambda>k c. length k # k @ sample_encode c),
     tl_decode = (\<lambda>k t token. case token of [] \<Rightarrow> None
       | n # x \<Rightarrow> if take n x = k then sample_decode t (drop n x) else None)\<rparr>"

theorem restart_signs_out_witness:
  "current_user (process_vault sample_token_library (Some default_session_settings) (\<lambda>_. None) [98]) (sample_moment 200)
     (bearer (make_token (process_vault sample_token_library (Some default_session_settings) (\<lambda>_. None) [97])
       (sample_moment 100) sample_clerk)) sample_users = Inl (HTTPException 401)"
proof -
  have "tl_decode sample_token_library k' t (tl_encode sample_token_library k c) = None" if "k \<noteq> k'" for k k' t c
    using that by (simp add: sample_token_library_def)
  moreover have "\<not> secret_configured (Some default_session_settings) (\<lambda>_. None)"
    by (simp add: secret_configured_def setting_def attribute_def variable_of_def default_session_settings_def)
  ultimately show ?thesis
    using restart_signs_out [of sample_token_library "[97]" "[98]" "Some default_session_settings" "\<lambda>_. None"] by simp
qed

end
