(* ===== verification/Calls.thy ===== *)
theory Calls
  imports Client
begin

text \<open>
  What a call of the client promises whatever the network does: every failure is one of the
  package's own exceptions, and every request carries a token signed over a nonce fetched for it
  alone.
\<close>

section \<open>Failures\<close>

definition moadian_only :: "('n, 'a) io \<Rightarrow> bool" where
  "moadian_only m \<longleftrightarrow> (\<forall>n e n'. m n = (Inl e, n') \<longrightarrow> is_moadian_error e)"

named_theorems failing "calls that fail with the package's exceptions only"

lemma moadian_only_liftM: "(\<And>e. r = Inl e \<Longrightarrow> is_moadian_error e) \<Longrightarrow> moadian_only (liftM r)"
  by (simp add: moadian_only_def)

lemma moadian_only_bindM [failing]:
  "moadian_only m \<Longrightarrow> (\<And>x. moadian_only (f x)) \<Longrightarrow> moadian_only (bindM m f)"
  unfolding moadian_only_def bindM_eq_Inl by blast

lemma moadian_only_returnM [failing]: "moadian_only (returnM x)"
  by (simp add: moadian_only_def)

lemma moadian_only_send [failing]: "moadian_only (send cl q)"
  by (auto simp: moadian_only_def send_def split: prod.splits option.splits)

lemma moadian_only_raise [failing]: "moadian_only (liftM (raise_for_api_error cv r))"
  by (rule moadian_only_liftM) (auto simp: raise_for_api_error_def Let_def split: if_splits)

lemma decode_fails:
  "decode_json_body r = Inl e \<Longrightarrow> is_moadian_error e"
  "decode_model f r = Inl e \<Longrightarrow> is_moadian_error e"
  "decode_model_list g r = Inl e \<Longrightarrow> is_moadian_error e"
proof -
  show body: "is_moadian_error e" if "decode_json_body r = Inl e" for e
    using that by (auto simp: decode_json_body_def unreadable_def split: option.splits)
  show "is_moadian_error e" if "decode_model f r = Inl e"
    using that body by (auto simp: decode_model_def py_splits unreadable_def split: option.splits)
  show "is_moadian_error e" if e: "decode_model_list g r = Inl e"
  proof (cases "reply_json r")
    case (Some v)
    with e show ?thesis
      by (cases v) (auto simp: decode_model_list_def decode_json_body_def unreadable_def split: option.splits)
  qed (use e in \<open>auto simp: decode_model_list_def decode_json_body_def unreadable_def\<close>)
qed

lemma moadian_only_decode [failing]:
  "moadian_only (liftM (decode_json_body r))"
  "moadian_only (liftM (decode_model f r))"
  "moadian_only (liftM (decode_model_list g r))"
  by (rule moadian_only_liftM, erule decode_fails)+

lemma canonical_json_fails: "canonical_json ftx v = Inl e \<Longrightarrow> is_moadian_error e"
  by (auto simp: canonical_json_def split: option.splits)

lemma moadian_only_canonical [failing]: "moadian_only (liftM (canonical_json ftx v))"
  by (rule moadian_only_liftM) (rule canonical_json_fails)

lemma moadian_only_fetch [failing]: "moadian_only (fetch_nonce cl)"
  unfolding fetch_nonce_def by (intro failing)

lemma bearer_token_fails: "bearer_token ftx cr t n c = Inl e \<Longrightarrow> is_moadian_error e"
  by (auto simp: bearer_token_def py_splits jws_sign_def Let_def canonical_json_fails split: option.splits)

lemma moadian_only_fresh_token [failing]: "moadian_only (fresh_token cl)"
  unfolding fresh_token_def
  by (intro failing) (auto simp: moadian_only_def token_for_def bearer_token_fails)

lemma moadian_only_call [failing]: "moadian_only (call cl verb endpoint params content)"
  unfolding call_def by (intro failing)

lemma moadian_only_submit [failing]: "moadian_only (client_submit_invoices cl packets)"
  unfolding client_submit_invoices_def
  by (auto intro!: failing) (simp add: moadian_only_def oversized_batch_def)


section \<open>Tokens\<close>

text \<open>The same client over a network that keeps the requests it was sent.\<close>

definition recording :: "'n client \<Rightarrow> (http_request list \<times> 'n) client" where
  "recording cl =
     \<lparr>cl_base_url = cl_base_url cl, cl_client_id = cl_client_id cl, cl_credentials = cl_credentials cl,
      cl_time_to_live = cl_time_to_live cl,
      cl_transport = (\<lambda>q (sent, n). case cl_transport cl q n of (r, n') \<Rightarrow> (r, (sent @ [q], n'))),
      cl_now = (\<lambda>(sent, n). cl_now cl n), cl_coercions = cl_coercions cl,
      cl_float_text = cl_float_text cl, cl_zone = cl_zone cl\<rparr>"

lemma recording_simps [simp]:
  "nonce_request (recording cl) = nonce_request cl"
  "resource_request (recording cl) verb endpoint params content token =
     resource_request cl verb endpoint params content token"
  "token_for (recording cl) challenge (sent, n) = token_for cl challenge n"
  "cl_coercions (recording cl) = cl_coercions cl"
  by (simp_all add: recording_def nonce_request_def resource_request_def token_for_def)

lemma send_recording:
  "send (recording cl) q (sent, n) =
     (case cl_transport cl q n of
        (None, n') \<Rightarrow> (Inl TransportError, (sent @ [q], n')) | (Some r, n') \<Rightarrow> (Inr r, (sent @ [q], n')))"
  by (simp add: send_def recording_def split: prod.splits option.splits)

text \<open>What a token of the client stands for: a nonce that the reply to the nonce request carried.\<close>

definition minted_token :: "'n client \<Rightarrow> 'n \<Rightarrow> pystr \<Rightarrow> 'n \<Rightarrow> bool" where
  "minted_token cl n token n1 \<longleftrightarrow>
     (\<exists>reply challenge. cl_transport cl (nonce_request cl) n = (Some reply, n1) \<and> is_success reply \<and>
        decode_model read_nonce reply = Inr challenge \<and> token_for cl challenge n1 = Inr token)"

lemma fresh_token_recorded:
  assumes "fresh_token (recording cl) (sent, n) = (r, s)"
  shows "\<exists>n1. s = (sent @ [nonce_request cl], n1) \<and> (case r of Inl e \<Rightarrow> True | Inr token \<Rightarrow> minted_token cl n token n1)"
proof -
  obtain a n1 where t: "cl_transport cl (nonce_request cl) n = (a, n1)" by (cases "cl_transport cl (nonce_request cl) n")
  show ?thesis
  proof (cases a)
    case None
    then show ?thesis using assms t by (auto simp: fresh_token_def fetch_nonce_def bindM_def send_recording)
  next
    case (Some reply)
    then show ?thesis
      using assms t
      by (auto simp: fresh_token_def fetch_nonce_def bindM_def send_recording minted_token_def split: sum.splits)
  qed
qed

text \<open>
  C13. Every request carries a token minted for it alone: a call sends one unauthenticated nonce
  request, and then at most one request, whose \<open>Authorization\<close> header is signed over the nonce that
  very reply carried.
\<close>

theorem one_token_per_request:
  "case call (recording cl) verb endpoint params content (sent, n) of (r, (sent', n')) \<Rightarrow>
     sent' = sent @ [nonce_request cl] \<and> (\<exists>e. r = Inl e) \<or>
     (\<exists>token n1. minted_token cl n token n1 \<and>
        sent' = sent @ [nonce_request cl, resource_request cl verb endpoint params content token])"
proof -
  obtain r sent' n' where c: "call (recording cl) verb endpoint params content (sent, n) = (r, (sent', n'))"
    by (metis surj_pair)
  obtain x s where f: "fresh_token (recording cl) (sent, n) = (x, s)" by (cases "fresh_token (recording cl) (sent, n)")
  then obtain n1 where s: "s = (sent @ [nonce_request cl], n1)"
    "case x of Inl e \<Rightarrow> True | Inr token \<Rightarrow> minted_token cl n token n1"
    using fresh_token_recorded [OF f] by (elim exE conjE)
  show ?thesis
  proof (cases x)
    case (Inl e)
    then have "call (recording cl) verb endpoint params content (sent, n) = (Inl e, s)"
      unfolding call_def using f by (simp add: bindM_Inl)
    with c s(1) show ?thesis by auto
  next
    case (Inr token)
    let ?q = "resource_request cl verb endpoint params content token"
    obtain a n2 where t: "cl_transport cl ?q n1 = (a, n2)" by (cases "cl_transport cl ?q n1")
    have "call (recording cl) verb endpoint params content (sent, n) =
        bindM (send (recording cl) ?q) (\<lambda>r. bindM (liftM (raise_for_api_error (cl_coercions cl) r)) (\<lambda>_. returnM r)) s"
      unfolding call_def using f Inr by (simp add: bindM_Inr)
    then have "sent' = sent @ [nonce_request cl, ?q]"
      using c t by (cases a) (auto simp: s(1) bindM_def send_recording split: sum.splits)
    moreover have "minted_token cl n token n1" using s(2) Inr by simp
    ultimately show ?thesis unfolding c prod.case by blast
  qed
qed

end
