(* ===== verification/Calendar.thy ===== *)
theory Calendar
  imports Jose
begin

text \<open>
  Instants as text: \<open>datetime.now(UTC)\<close> broken down to its fields, and the two formats
  \<open>mock/server.py\<close> gives it besides the \<open>sigT\<close> of \<open>Jose\<close>.

  An instant is a number of microseconds since 1970, as in \<open>MockServer\<close>. The fields are found by
  counting off years and months of the proleptic Gregorian calendar; they are in range and give the
  instant back.
\<close>

section \<open>Years and months\<close>

definition days_in_month :: "nat \<Rightarrow> nat \<Rightarrow> nat" where
  "days_in_month y m =
     (if m = 2 then (if y mod 4 = 0 \<and> (y mod 100 \<noteq> 0 \<or> y mod 400 = 0) then 29 else 28)
      else if m \<in> {4, 6, 9, 11} then 30 else 31)"

definition days_before :: "nat \<Rightarrow> nat \<Rightarrow> nat" where
  "days_before y m = sum_list (map (days_in_month y) [1..<m])"

definition days_in_year :: "nat \<Rightarrow> nat" where
  "days_in_year y = days_before y 13"

lemma days_in_month_pos [simp]: "0 < days_in_month y m"
  by (simp add: days_in_month_def)

lemma days_before_Suc: "1 \<le> m \<Longrightarrow> days_before y (Suc m) = days_before y m + days_in_month y m"
  by (simp add: days_before_def)

lemma days_in_year_pos [simp]: "0 < days_in_year y"
  using days_before_Suc [of 12 y] by (simp add: days_in_year_def)

text \<open>The year of a day counted from the first of a year, and the month of a day of a year.\<close>

function year_of :: "nat \<Rightarrow> nat \<Rightarrow> nat \<times> nat" where
  "year_of y n = (if n < days_in_year y then (y, n) else year_of (Suc y) (n - days_in_year y))"
  by pat_completeness auto
termination
proof (relation "measure snd")
  fix y n :: nat
  assume "\<not> n < days_in_year y"
  then have "n - days_in_year y < n" by (metis days_in_year_pos diff_less not_less order.strict_trans2)
  then show "((Suc y, n - days_in_year y), (y, n)) \<in> measure snd" by simp
qed simp

function month_of :: "nat \<Rightarrow> nat \<Rightarrow> nat \<Rightarrow> nat \<times> nat" where
  "month_of y m n =
     (if 12 \<le> m \<or> n < days_in_month y m then (m, n) else month_of y (Suc m) (n - days_in_month y m))"
  by pat_completeness auto
termination
  by (relation "measure (\<lambda>(y, m, n). 12 - m)") auto

declare year_of.simps [simp del] month_of.simps [simp del]

lemma year_of_back:
  "year_of y n = (y', r) \<Longrightarrow> y \<le> y' \<and> r < days_in_year y' \<and> n = sum_list (map days_in_year [y..<y']) + r"
proof (induction y n rule: year_of.induct)
  case (1 y n)
  show ?case
  proof (cases "n < days_in_year y")
    case True
    with "1.prems" show ?thesis by (simp add: year_of.simps [of y n])
  next
    case False
    with "1.prems" have "year_of (Suc y) (n - days_in_year y) = (y', r)" by (simp add: year_of.simps [of y n])
    with "1.IH" False have h: "Suc y \<le> y'" "r < days_in_year y'"
      "n - days_in_year y = sum_list (map days_in_year [Suc y..<y']) + r" by blast+
    then show ?thesis using False by (simp add: upt_conv_Cons)
  qed
qed

lemma month_of_back:
  "month_of y m n = (m', r) \<Longrightarrow> 1 \<le> m \<Longrightarrow> m \<le> 12 \<Longrightarrow> days_before y m + n < days_in_year y \<Longrightarrow>
   m \<le> m' \<and> m' \<le> 12 \<and> r < days_in_month y m' \<and> days_before y m + n = days_before y m' + r"
proof (induction y m n rule: month_of.induct)
  case (1 y m n)
  show ?case
  proof (cases "12 \<le> m \<or> n < days_in_month y m")
    case True
    then have mr: "m' = m" "r = n" using "1.prems"(1) by (simp_all add: month_of.simps [of y m n])
    have "n < days_in_month y m"
    proof (cases "m = 12")
      case True
      then show ?thesis using "1.prems"(4) days_before_Suc [of 12 y] by (simp add: days_in_year_def)
    qed (use True "1.prems"(3) in simp)
    then show ?thesis using mr "1.prems" by simp
  next
    case False
    have s: "days_before y (Suc m) + (n - days_in_month y m) = days_before y m + n"
      using False "1.prems"(2) by (simp add: days_before_Suc)
    from False "1.prems"(1) have "month_of y (Suc m) (n - days_in_month y m) = (m', r)"
      by (simp add: month_of.simps [of y m n])
    from "1.IH" [OF False this] s False "1.prems" show ?thesis by simp
  qed
qed

section \<open>Instants\<close>

text \<open>\<open>datetime.now(UTC)\<close>, and its microseconds.\<close>

definition utc_at :: "int \<Rightarrow> utc_time" where
  "utc_at micros =
     (let seconds = nat (micros div 1000000); s = seconds mod 86400 in
      case year_of 1970 (seconds div 86400) of (y, n) \<Rightarrow>
      case month_of y 1 n of (m, d) \<Rightarrow>
        \<lparr>u_year = y, u_month = m, u_day = Suc d, u_hour = s div 3600, u_minute = s mod 3600 div 60,
         u_second = s mod 60\<rparr>)"

definition micros_of :: "int \<Rightarrow> nat" where
  "micros_of micros = nat (micros mod 1000000)"

text \<open>\<open>_iso_nanos\<close>: nine digits of a second and a \<open>Z\<close>.\<close>

definition iso_nanos :: "int \<Rightarrow> pystr" where
  "iso_nanos t = butlast (sig_time (utc_at t)) @ [46] @ fmt_dec 6 (micros_of t) @ lit ''000Z''"

text \<open>\<open>isoformat(timespec="milliseconds")\<close> with the offset written as a \<open>Z\<close>.\<close>

definition iso_millis :: "int \<Rightarrow> pystr" where
  "iso_millis t = butlast (sig_time (utc_at t)) @ [46] @ fmt_dec 3 (micros_of t div 1000) @ lit ''Z''"

text \<open>The instant the fields name.\<close>

definition instant_of :: "utc_time \<Rightarrow> nat \<Rightarrow> int" where
  "instant_of u micros =
     int ((sum_list (map days_in_year [1970..<u_year u]) + days_before (u_year u) (u_month u) + (u_day u - 1)) * 86400 +
       u_hour u * 3600 + u_minute u * 60 + u_second u) * 1000000 + int micros"

lemma hms_back: "(s mod 86400) div 3600 * 3600 + (s mod 86400) mod 3600 div 60 * 60 + (s mod 86400) mod 60 = s mod (86400 :: nat)"
proof -
  have "(s mod 86400) mod 60 = (s mod 86400) mod 3600 mod 60" by (simp add: mod_mod_cancel)
  then show ?thesis
    using div_mult_mod_eq [of "s mod 86400" 3600] div_mult_mod_eq [of "s mod 86400 mod 3600" 60] by presburger
qed

text \<open>The fields of an instant from 1970 on are in range and give it back.\<close>

theorem utc_at_back:
  assumes "0 \<le> t"
  defines "u \<equiv> utc_at t"
  shows "1970 \<le> u_year u \<and> 1 \<le> u_month u \<and> u_month u \<le> 12 \<and> 1 \<le> u_day u \<and>
    u_day u \<le> days_in_month (u_year u) (u_month u) \<and> u_hour u \<le> 23 \<and> u_minute u \<le> 59 \<and> u_second u \<le> 59 \<and>
    instant_of u (micros_of t) = t"
proof -
  let ?s = "nat (t div 1000000)"
  obtain y n where y: "year_of 1970 (?s div 86400) = (y, n)" by fastforce
  obtain m d where m: "month_of y 1 n = (m, d)" by fastforce
  have u: "u = \<lparr>u_year = y, u_month = m, u_day = Suc d, u_hour = ?s mod 86400 div 3600,
      u_minute = ?s mod 86400 mod 3600 div 60, u_second = ?s mod 86400 mod 60\<rparr>"
    by (simp add: u_def utc_at_def y m [simplified] Let_def)
  note yb = year_of_back [OF y]
  have "days_before y 1 = 0" by (simp add: days_before_def)
  with month_of_back [OF m] yb have mb: "1 \<le> m" "m \<le> 12" "d < days_in_month y m" "n = days_before y m + d" by simp_all
  have days: "sum_list (map days_in_year [1970..<y]) + days_before y m + d = ?s div 86400" using yb mb(4) by simp
  have "?s mod 86400 < 86400" by simp
  then have hms: "?s mod 86400 div 3600 \<le> 23" "?s mod 86400 mod 3600 div 60 \<le> 59" "?s mod 86400 mod 60 \<le> 59"
    by (auto simp: less_mult_imp_div_less less_Suc_eq_le [symmetric])
  have "0 \<le> t div 1000000" using assms(1) by simp
  then have s: "int ?s = t div 1000000" by (rule int_nat_eq [THEN trans, OF if_P])
  have "instant_of u (micros_of t) = int (?s div 86400 * 86400 + ?s mod 86400) * 1000000 + t mod 1000000"
    using days hms_back [of ?s] by (simp add: instant_of_def u micros_of_def add.assoc)
  also have "\<dots> = t div 1000000 * 1000000 + t mod 1000000" by (simp only: div_mult_mod_eq s)
  also have "\<dots> = t" by (rule div_mult_mod_eq)
  finally have "instant_of u (micros_of t) = t" .
  moreover have "1970 \<le> u_year u" using yb by (simp add: u)
  moreover have "1 \<le> u_month u \<and> u_month u \<le> 12 \<and> 1 \<le> u_day u \<and> u_day u \<le> days_in_month (u_year u) (u_month u)"
    using mb(1-3) by (simp add: u)
  moreover have "u_hour u \<le> 23 \<and> u_minute u \<le> 59 \<and> u_second u \<le> 59"
    unfolding u utc_time.select_convs using hms by (intro conjI)
  ultimately show ?thesis by (intro conjI) auto
qed

text \<open>Up to the year 9999 the text of a \<open>sigT\<close> has twenty characters.\<close>

lemma length_sig_time:
  assumes "0 \<le> t" "u_year (utc_at t) \<le> 9999"
  shows "length (sig_time (utc_at t)) = 20"
  using utc_at_back [OF assms(1)] assms(2) by (simp add: sig_time_def fmt_dec_def length_render days_in_month_def split: if_splits)

end
