(* ===== verification/MockServer.thy ===== *)
theory MockServer
  imports Calendar Pipeline
begin

text \<open>
  \<open>mock/server.py\<close>: the in-process stand-in for the tax organisation, with the checks it runs on
  every protected request.

  A request is answered with a JSON value or refused with the status and the code of the error
  envelope. An instant is a number of microseconds since 1970; a request reads the clock once. The
  operations of the \<open>cryptography\<close> package, RSA of the server's key included, and the random identifiers
  are parameters. Query dates arrive already parsed.
\<close>

section \<open>Refusals\<close>

type_synonym rejection = "int \<times> pystr"
type_synonym 'a answered = "rejection + 'a"

definition reject :: "int \<Rightarrow> string \<Rightarrow> 'a answered" where
  "reject status code = Inl (status, lit code)"

definition guard :: "bool \<Rightarrow> int \<Rightarrow> string \<Rightarrow> unit answered" where
  "guard ok status code = (if ok then Inr () else reject status code)"

definition or_reject :: "'a option \<Rightarrow> int \<Rightarrow> string \<Rightarrow> 'a answered" where
  "or_reject x status code = (case x of None \<Rightarrow> reject status code | Some y \<Rightarrow> Inr y)"

text \<open>\<open>Rejection.restated\<close>\<close>

definition restated :: "int \<Rightarrow> 'a answered \<Rightarrow> 'a answered" where
  "restated status r = (case r of Inl (_, code) \<Rightarrow> Inl (status, code) | Inr x \<Rightarrow> Inr x)"

section \<open>State\<close>

record nonce_record =
  n_expires_at :: int
  n_used :: bool

record stored_submission =
  ss_reference_number :: pystr
  ss_uid :: pystr
  ss_fiscal_id :: pystr
  ss_client_id :: pystr
  ss_tax_id :: pystr
  ss_invoice :: json
  ss_invoice_bytes :: "nat list"
  ss_jws :: pystr
  ss_signer_der :: "nat list"
  ss_received_at :: int
  ss_status :: pystr

record stored_payment =
  sp_tax_id :: pystr
  sp_paid_amount :: int
  sp_payment_date :: int
  sp_payment_method :: pystr
  sp_terminal_number :: "pystr option"
  sp_reference_number :: "pystr option"
  sp_client_id :: pystr
  sp_recorded_at :: int

record mock_state =
  key_id :: pystr
  nonces :: "(pystr \<times> nonce_record) list"
  submissions :: "(pystr \<times> stored_submission) list"
  payments :: "stored_payment list"
  trusted_der :: "nat list list option"

text \<open>\<open>load_der_x509_certificate\<close>, the certificate's fields, and the server's private key.\<close>

record 'cert world =
  load_certificate :: "nat list \<Rightarrow> 'cert option"
  certificate_der :: "'cert \<Rightarrow> nat list"
  not_valid_before :: "'cert \<Rightarrow> int"
  not_valid_after :: "'cert \<Rightarrow> int"
  rsa_verify :: "'cert \<Rightarrow> (nat list \<Rightarrow> nat list \<Rightarrow> bool) option"
  oaep_decrypt :: "nat list \<Rightarrow> nat list option"
  gcm_decrypt :: "nat list \<Rightarrow> nat list \<Rightarrow> nat list \<Rightarrow> nat list \<Rightarrow> nat list option"
  server_sign :: "nat list \<Rightarrow> nat list"
  server_der :: "nat list"

record auth_context =
  ac_client_id :: pystr
  ac_nonce :: pystr

definition NONCE_TTL_MIN :: int where "NONCE_TTL_MIN = 10"
definition NONCE_TTL_MAX :: int where "NONCE_TTL_MAX = 200"
definition DAY :: int where "DAY = 86400 * 1000000"

text \<open>\<open>int(moment.timestamp() * 1000)\<close>\<close>

definition millis :: "int \<Rightarrow> int" where
  "millis now = (case fmul (rnd (of_int now / 10 ^ 6)) (Fin 1000) of Fin x \<Rightarrow> trunc x | _ \<Rightarrow> 0)"

text \<open>\<open>issue_nonce\<close> with the text of a fresh \<open>uuid4\<close>.\<close>

definition issue_nonce :: "int \<Rightarrow> pystr \<Rightarrow> int \<Rightarrow> mock_state \<Rightarrow> (pystr \<times> int) \<times> mock_state" where
  "issue_nonce now uuid time_to_live st =
     (let ttl = max NONCE_TTL_MIN (min NONCE_TTL_MAX time_to_live);
          n = uuid @ [45] @ int_text (millis now);
          expires = now + ttl * 1000000
      in ((n, expires), st\<lparr>nonces := dict_set n \<lparr>n_expires_at = expires, n_used = False\<rparr> (nonces st)\<rparr>))"

definition consume_nonce :: "int \<Rightarrow> pystr \<Rightarrow> mock_state \<Rightarrow> unit answered \<times> mock_state" where
  "consume_nonce now n st =
     (case map_of (nonces st) n of
        None \<Rightarrow> (reject 401 ''4102'', st)
      | Some r \<Rightarrow>
          if n_used r then (reject 401 ''4102'', st)
          else if n_expires_at r \<le> now then (reject 401 ''4102'', st)
          else (Inr (), st\<lparr>nonces := dict_set n (r\<lparr>n_used := True\<rparr>) (nonces st)\<rparr>))"

definition expire_nonce :: "int \<Rightarrow> pystr \<Rightarrow> mock_state \<Rightarrow> mock_state" where
  "expire_nonce now n st =
     (case map_of (nonces st) n of
        None \<Rightarrow> st
      | Some r \<Rightarrow> st\<lparr>nonces := dict_set n (r\<lparr>n_expires_at := now - 1000000\<rparr>) (nonces st)\<rparr>)"

definition by_uid_first :: "pystr \<Rightarrow> mock_state \<Rightarrow> stored_submission option" where
  "by_uid_first uid st = find (\<lambda>s. ss_uid s = uid) (map snd (submissions st))"

section \<open>Checking a signature\<close>

text \<open>
  \<open>datetime.strptime(text, SIGT_FORMAT)\<close>: fields of decimal digits between the literal characters,
  in either case, that name a moment of the calendar.
\<close>

fun sigt_fields :: "nat list \<Rightarrow> pystr \<Rightarrow> pystr list option" where
  "sigt_fields [] s = (if s = [] then Some [] else None)"
| "sigt_fields (d # ds) s =
     (case dropWhile (\<lambda>c. lower_point c \<noteq> lower_point d) s of
        [] \<Rightarrow> None
      | _ # r \<Rightarrow> map_option (\<lambda>fs. takeWhile (\<lambda>c. lower_point c \<noteq> lower_point d) s # fs) (sigt_fields ds r))"

text \<open>
  Two-character fields start with an ASCII digit; the second may be any decimal digit after the
  digits \<open>tens\<close>, and a single one may when \<open>loose\<close>.
\<close>

definition field_value :: "bool \<Rightarrow> nat list \<Rightarrow> pystr \<Rightarrow> nat option" where
  "field_value loose tens s =
     (case s of
        [a] \<Rightarrow> if ascii_digit a \<or> loose then decimal_value a else None
      | [a, b] \<Rightarrow>
          if ascii_digit a \<and> (ascii_digit b \<or> a \<in> set tens)
          then map_option (\<lambda>d. 10 * (a - 48) + d) (decimal_value b) else None
      | _ \<Rightarrow> None)"

definition year_value :: "pystr \<Rightarrow> nat option" where
  "year_value s =
     (if length s = 4 \<and> list_all (\<lambda>c. decimal_value c \<noteq> None) s
      then Some (digits_value 10 (map (\<lambda>c. the (decimal_value c)) s)) else None)"

definition day_field :: "pystr \<Rightarrow> pystr" where
  "day_field s = (if length s = 2 \<and> hd s = 32 then tl s else s)"

definition is_sig_time :: "pystr \<Rightarrow> bool" where
  "is_sig_time s =
     (case sigt_fields [45, 45, 84, 58, 58, 90] s of
        Some [y, mo, d, h, mi, sec] \<Rightarrow>
          (case (year_value y, field_value False [] mo, field_value False [49, 50] (day_field d),
                 field_value True [48, 49] h, field_value True [48, 49, 50, 51, 52, 53] mi,
                 field_value True [48, 49, 50, 51, 52, 53] sec) of
             (Some y, Some mo, Some d, Some h, Some mi, Some sec) \<Rightarrow>
               1 \<le> y \<and> 1 \<le> mo \<and> mo \<le> 12 \<and> 1 \<le> d \<and> d \<le> days_in_month y mo \<and> h \<le> 23 \<and> mi \<le> 59 \<and> sec \<le> 59
           | _ \<Rightarrow> False)
      | _ \<Rightarrow> False)"

definition JWS_HEADER_KEYS :: "pystr list" where
  "JWS_HEADER_KEYS = [lit ''crit'', lit ''sigT'', lit ''x5c'', lit ''alg'']"

definition check_protected_header :: "(pystr \<times> json) list \<Rightarrow> string \<Rightarrow> json list answered" where
  "check_protected_header h code =
     bindE (guard (map fst h = JWS_HEADER_KEYS) 401 code) (\<lambda>_.
     bindE (guard (map_of h (lit ''alg'') = Some (JStr (lit ''RS256''))) 401 code) (\<lambda>_.
     bindE (guard (map_of h (lit ''crit'') = Some (JList [JStr (lit ''sigT'')])) 401 code) (\<lambda>_.
       case map_of h (lit ''x5c'') of
         Some (JList (x # xs)) \<Rightarrow>
           (case map_of h (lit ''sigT'') of
              Some (JStr s) \<Rightarrow> bindE (guard (is_sig_time s) 401 code) (\<lambda>_. Inr (x # xs))
            | _ \<Rightarrow> reject 401 code)
       | _ \<Rightarrow> reject 401 ''4135'')))"

definition decode_certificate :: "'cert world \<Rightarrow> json \<Rightarrow> string \<Rightarrow> 'cert answered" where
  "decode_certificate w entry code =
     (case entry of
        JStr s \<Rightarrow>
          bindE (or_reject (b64decode_strict s) 401 code) (\<lambda>der.
            or_reject (load_certificate w der) 401 code)
      | _ \<Rightarrow> reject 401 code)"

text \<open>The codes of \<open>_verify_jws\<close> for a bad structure, a bad signature and a bad certificate.\<close>

definition verify_jws ::
    "'cert world \<Rightarrow> mock_state \<Rightarrow> int \<Rightarrow> string \<Rightarrow> string \<Rightarrow> string \<Rightarrow> pystr \<Rightarrow> (nat list \<times> 'cert) answered" where
  "verify_jws w st now structure_code signature_code cert_code token =
     (case split_on 46 token of
        [protected, data, sig] \<Rightarrow>
          (case (case b64url_decode protected of None \<Rightarrow> None | Some raw \<Rightarrow> loads_bytes raw,
                 b64url_decode data, b64url_decode sig) of
             (Some h, Some data_bytes, Some sig_bytes) \<Rightarrow>
               (case h of
                  JObj kvs \<Rightarrow>
                    bindE (check_protected_header kvs structure_code) (\<lambda>x5c.
                    bindE (decode_certificate w (hd x5c) ''4136'') (\<lambda>cert.
                    bindE (guard (not_valid_before w cert \<le> now \<and> now \<le> not_valid_after w cert) 401 cert_code) (\<lambda>_.
                    bindE (guard (case trusted_der st of None \<Rightarrow> True | Some ders \<Rightarrow> certificate_der w cert \<in> set ders)
                             401 cert_code) (\<lambda>_.
                    bindE (or_reject (rsa_verify w cert) 401 ''4132'') (\<lambda>verify.
                    bindE (guard (verify sig_bytes (protected @ [46] @ data)) 401 signature_code) (\<lambda>_.
                      Inr (data_bytes, cert)))))))
                | _ \<Rightarrow> reject 401 structure_code)
           | _ \<Rightarrow> reject 401 structure_code)
      | _ \<Rightarrow> reject 401 structure_code)"

section \<open>Opening a packet\<close>

definition decrypt_jwe :: "'cert world \<Rightarrow> mock_state \<Rightarrow> pystr \<Rightarrow> pystr answered" where
  "decrypt_jwe w st token =
     (case split_on 46 token of
        [protected, key, iv, ciphertext, tag] \<Rightarrow>
          (case (case b64url_decode protected of None \<Rightarrow> None | Some raw \<Rightarrow> loads_bytes raw,
                 b64url_decode key, b64url_decode iv, b64url_decode ciphertext, b64url_decode tag) of
             (Some h, Some key, Some iv, Some ciphertext, Some tag) \<Rightarrow>
               (case h of
                  JObj kvs \<Rightarrow>
                    bindE (guard (map_of kvs (lit ''alg'') = Some (JStr (lit ''RSA-OAEP-256'')) \<and>
                             map_of kvs (lit ''enc'') = Some (JStr (lit ''A256GCM''))) 400 ''04152'') (\<lambda>_.
                    bindE (guard (map_of kvs (lit ''kid'') = Some (JStr (key_id st))) 400 ''04150'') (\<lambda>_.
                    bindE (guard (length iv = 12) 400 ''04153'') (\<lambda>_.
                    bindE (or_reject (oaep_decrypt w key) 400 ''04150'') (\<lambda>cek.
                    bindE (guard (length cek = 32) 400 ''04152'') (\<lambda>_.
                    bindE (or_reject (gcm_decrypt w cek iv (ciphertext @ tag) protected) 400 ''04150'') (\<lambda>plain.
                      or_reject (utf8_decode False plain) 400 ''4134''))))))
                | _ \<Rightarrow> reject 400 ''04150'')
           | _ \<Rightarrow> reject 400 ''04150'')
      | _ \<Rightarrow> reject 400 ''04150'')"

text \<open>\<open>s.replace(old, "")\<close> for a text \<open>old\<close> that is not empty.\<close>

function remove_all :: "pystr \<Rightarrow> pystr \<Rightarrow> pystr" where
  "remove_all old s =
     (if old = [] then s
      else
        case s of
          [] \<Rightarrow> []
        | c # r \<Rightarrow>
            if take (length old) s = old then remove_all old (drop (length old) s)
            else c # remove_all old r)"
  by pat_completeness auto
termination
  by (relation "measure (\<lambda>(old, s). length s)") (auto simp: less_Suc_eq_le neq_Nil_conv)

declare remove_all.simps [simp del]

text \<open>
  \<open>uuid.UUID(text)\<close> accepts 32 characters that \<open>int\<close> reads in base 16, after removing prefixes,
  braces and hyphens; a negative number is out of range.
\<close>

definition is_uuid :: "pystr \<Rightarrow> bool" where
  "is_uuid s =
     (let u = remove_all (lit ''uuid:'') (remove_all (lit ''urn:'') s);
          v = dropWhile (\<lambda>c. c = 123 \<or> c = 125) u;
          x = filter (\<lambda>c. c \<noteq> 45) (rev (dropWhile (\<lambda>c. c = 123 \<or> c = 125) (rev v)))
      in length x = 32 \<and> (case py_int 16 x of None \<Rightarrow> False | Some n \<Rightarrow> 0 \<le> n))"

definition text_value :: "json option \<Rightarrow> pystr option" where
  "text_value v = (case v of Some (JStr s) \<Rightarrow> if s = [] then None else Some s | _ \<Rightarrow> None)"

definition dict_value :: "json option \<Rightarrow> (pystr \<times> json) list option" where
  "dict_value v = (case v of Some (JObj kvs) \<Rightarrow> Some kvs | _ \<Rightarrow> None)"

text \<open>\<open>_accept\<close>, with the reference number it draws.\<close>

definition accept_packet ::
    "'cert world \<Rightarrow> mock_state \<Rightarrow> int \<Rightarrow> auth_context \<Rightarrow> pystr \<Rightarrow> json \<Rightarrow> stored_submission answered" where
  "accept_packet w st now auth reference p =
     bindE (or_reject (dict_value (Some p)) 400 ''4144'') (\<lambda>kvs.
     bindE (or_reject (dict_value (map_of kvs (lit ''header''))) 400 ''4145'') (\<lambda>h.
     bindE (or_reject (text_value (map_of kvs (lit ''payload''))) 400 ''4145'') (\<lambda>jwe.
     bindE (or_reject (text_value (map_of h (lit ''requestTraceId''))) 400 ''4145'') (\<lambda>uid.
     bindE (or_reject (text_value (map_of h (lit ''fiscalId''))) 400 ''4145'') (\<lambda>fiscal_id.
     bindE (guard (is_uuid uid) 400 ''4162'') (\<lambda>_.
     bindE (decrypt_jwe w st jwe) (\<lambda>jws.
     bindE (restated 400 (verify_jws w st now ''04130'' ''04131'' ''04131'' jws)) (\<lambda>(bytes, cert).
     bindE (or_reject (case loads_bytes bytes of None \<Rightarrow> None | Some v \<Rightarrow> dict_value (Some v)) 400 ''04130'') (\<lambda>ivc.
     bindE (guard (map_of ivc (lit ''header'') \<noteq> None \<and> map_of ivc (lit ''body'') \<noteq> None) 400 ''04130'') (\<lambda>_.
     bindE (or_reject (case dict_value (map_of ivc (lit ''header'')) of None \<Rightarrow> None
                       | Some ih \<Rightarrow> text_value (map_of ih (lit ''taxid''))) 400 ''04148'') (\<lambda>tax_id.
       Inr \<lparr>ss_reference_number = reference, ss_uid = uid, ss_fiscal_id = fiscal_id,
         ss_client_id = ac_client_id auth, ss_tax_id = tax_id, ss_invoice = JObj ivc, ss_invoice_bytes = bytes,
         ss_jws = jws, ss_signer_der = certificate_der w cert, ss_received_at = now,
         ss_status = request_status_name SUCCESS\<rparr>)))))))))))"

section \<open>Authentication\<close>

text \<open>
  \<open>authenticate\<close>: the value of the \<open>Authorization\<close> header, or \<open>None\<close>. The nonce is burnt last,
  so only a token that passes every other check costs one.
\<close>

definition claims_of_token ::
    "'cert world \<Rightarrow> mock_state \<Rightarrow> int \<Rightarrow> pystr option \<Rightarrow> (pystr \<times> pystr) answered" where
  "claims_of_token w st now authorization =
     (let a = (case authorization of None \<Rightarrow> [] | Some s \<Rightarrow> s);
          scheme = takeWhile (\<lambda>c. c \<noteq> 32) a;
          token = strip (drop 1 (dropWhile (\<lambda>c. c \<noteq> 32) a))
      in
        bindE (guard (map lower_point scheme = lit ''bearer'' \<and> token \<noteq> []) 401 ''4130'') (\<lambda>_.
        bindE (verify_jws w st now ''4130'' ''4133'' ''4131'' token) (\<lambda>(data, cert).
        bindE (or_reject (loads_bytes data) 401 ''4101'') (\<lambda>claims.
        bindE (or_reject (dict_value (Some claims)) 401 ''4101'') (\<lambda>kvs.
        bindE (guard (fst ` set kvs = {lit ''nonce'', lit ''clientId''}) 401 ''4101'') (\<lambda>_.
        bindE (or_reject (text_value (map_of kvs (lit ''clientId''))) 401 ''4110'') (\<lambda>client_id.
        bindE (or_reject (text_value (map_of kvs (lit ''nonce''))) 401 ''4102'') (\<lambda>n.
          Inr (n, client_id)))))))))"

definition authenticate ::
    "'cert world \<Rightarrow> int \<Rightarrow> pystr option \<Rightarrow> mock_state \<Rightarrow> auth_context answered \<times> mock_state" where
  "authenticate w now authorization st =
     (case claims_of_token w st now authorization of
        Inl e \<Rightarrow> (Inl e, st)
      | Inr (n, client_id) \<Rightarrow>
          (case consume_nonce now n st of
             (Inl e, st') \<Rightarrow> (Inl e, st')
           | (Inr _, st') \<Rightarrow> (Inr \<lparr>ac_client_id = client_id, ac_nonce = n\<rparr>, st')))"

section \<open>Endpoints\<close>

definition nonce_reply :: "pystr \<Rightarrow> pystr \<Rightarrow> json" where
  "nonce_reply n expires = JObj [(lit ''nonce'', JStr n), (lit ''expDate'', JStr expires)]"

definition public_key_b64 :: "'cert world \<Rightarrow> pystr" where
  "public_key_b64 w = b64encode (server_der w)"

definition server_information_reply :: "'cert world \<Rightarrow> int \<Rightarrow> mock_state \<Rightarrow> json" where
  "server_information_reply w now st = JObj
     [(lit ''serverTime'', JInt (millis now)),
      (lit ''publicKeys'', JList [JObj
         [(lit ''key'', JStr (public_key_b64 w)), (lit ''id'', JStr (key_id st)),
          (lit ''algorithm'', JStr (lit ''RSA'')), (lit ''purpose'', JInt 1)]])]"

text \<open>
  The batch of \<open>POST /invoice\<close>: every packet is checked against the uids accepted before it, in
  this batch and ever; nothing is stored before all have passed. \<open>references\<close> are the reference
  numbers that the packets draw.
\<close>

fun accept_all ::
    "'cert world \<Rightarrow> mock_state \<Rightarrow> int \<Rightarrow> auth_context \<Rightarrow> pystr list \<Rightarrow> (json \<times> pystr) list \<Rightarrow>
     stored_submission list answered" where
  "accept_all w st now auth seen [] = Inr []"
| "accept_all w st now auth seen ((p, reference) # ps) =
     bindE (accept_packet w st now auth reference p) (\<lambda>s.
     bindE (guard (ss_uid s \<notin> set seen \<and> ss_uid s \<notin> ss_uid ` snd ` set (submissions st)) 400 ''4163'') (\<lambda>_.
     bindE (accept_all w st now auth (ss_uid s # seen) ps) (\<lambda>rest.
       Inr (s # rest))))"

definition store_all :: "stored_submission list \<Rightarrow> mock_state \<Rightarrow> mock_state" where
  "store_all ss st = st\<lparr>submissions := foldl (\<lambda>d s. dict_set (ss_reference_number s) s d) (submissions st) ss\<rparr>"

definition batch_reply :: "int \<Rightarrow> stored_submission list \<Rightarrow> json" where
  "batch_reply now ss = JObj
     [(lit ''timestamp'', JInt (millis now)),
      (lit ''result'', JList (map (\<lambda>s. JObj
         [(lit ''uid'', JStr (ss_uid s)), (lit ''packetType'', JNull),
          (lit ''referenceNumber'', JStr (ss_reference_number s)), (lit ''data'', JNull)]) ss))]"

definition post_invoice ::
    "'cert world \<Rightarrow> int \<Rightarrow> (nat \<Rightarrow> pystr) \<Rightarrow> auth_context \<Rightarrow> nat list \<Rightarrow> mock_state \<Rightarrow> json answered \<times> mock_state" where
  "post_invoice w now references auth data st =
     (case loads_bytes data of
        Some (JList ps) \<Rightarrow>
          if ps = [] then (reject 400 ''4144'', st)
          else if MAX_PACKETS < length ps then (reject 400 ''4143'', st)
          else
            (case accept_all w st now auth [] (zip ps (map references [0..<length ps])) of
               Inl e \<Rightarrow> (Inl e, st)
             | Inr ss \<Rightarrow> (Inr (batch_reply now ss), store_all ss st))
      | _ \<Rightarrow> (reject 400 ''4144'', st))"

definition optional_text :: "pystr option \<Rightarrow> json" where
  "optional_text v = (case v of None \<Rightarrow> JNull | Some s \<Rightarrow> JStr s)"

text \<open>\<open>sign_result\<close>: the result of a submission as a JWS of the server.\<close>

definition sign_result :: "'cert world \<Rightarrow> int \<Rightarrow> stored_submission \<Rightarrow> pystr" where
  "sign_result w now s =
     (let protected = b64url (header_text (JObj
            [(lit ''alg'', JStr (lit ''RS256'')), (lit ''sigT'', JStr (sig_time (utc_at now)))]));
          payload = b64url (header_text (JObj
            [(lit ''referenceNumber'', JStr (ss_reference_number s)), (lit ''clientId'', JStr (ss_client_id s)),
             (lit ''taxId'', JStr (ss_tax_id s)), (lit ''receivedDate'', JStr (iso_millis (ss_received_at s)))]));
          input = protected @ [46] @ payload
      in input @ [46] @ b64url (server_sign w input))"

definition inquiry_reply :: "'cert world \<Rightarrow> int \<Rightarrow> stored_submission \<Rightarrow> json" where
  "inquiry_reply w now s =
     (let ok = (ss_status s = request_status_name SUCCESS) in JObj
       [(lit ''referenceNumber'', JStr (ss_reference_number s)), (lit ''uid'', JStr (ss_uid s)),
        (lit ''status'', JStr (ss_status s)),
        (lit ''data'', JObj [(lit ''error'', JList []), (lit ''warning'', JList []), (lit ''success'', JBool ok)]),
        (lit ''packetType'', JStr (lit ''receive_invoice_confirm'')),
        (lit ''fiscalId'', JStr (ss_fiscal_id s)),
        (lit ''sign'', JStr (if ok then sign_result w now s else []))])"

definition not_found_reply :: "pystr \<Rightarrow> bool \<Rightarrow> json" where
  "not_found_reply identifier uid_side = JObj
     [(lit ''referenceNumber'', if uid_side then JNull else JStr identifier),
      (lit ''uid'', if uid_side then JStr identifier else JNull),
      (lit ''status'', JStr (request_status_name NOT_FOUND)), (lit ''data'', JObj []),
      (lit ''packetType'', JNull), (lit ''fiscalId'', JNull), (lit ''sign'', JStr [])]"

definition window ::
    "int \<Rightarrow> int option \<Rightarrow> int option \<Rightarrow> stored_submission list \<Rightarrow> stored_submission list answered" where
  "window now start until ss =
     (if start \<noteq> None \<and> until \<noteq> None \<and> the until < the start then reject 400 ''4140''
      else
        let start = (if start = None \<and> until = None then Some (now - DAY) else start) in
        Inr (filter (\<lambda>s. (case start of None \<Rightarrow> True | Some t \<Rightarrow> t \<le> ss_received_at s) \<and>
                          (case until of None \<Rightarrow> True | Some t \<Rightarrow> ss_received_at s \<le> t)) ss))"

text \<open>The dict comprehension keeps the last submission of a key.\<close>

definition answer_each ::
    "'cert world \<Rightarrow> int \<Rightarrow> bool \<Rightarrow> (stored_submission \<Rightarrow> pystr) \<Rightarrow> stored_submission list \<Rightarrow> pystr list \<Rightarrow> json" where
  "answer_each w now uid_side key ss ids =
     (let found = map_of (rev (map (\<lambda>s. (key s, s)) ss)) in
      JList (map (\<lambda>i. case found i of Some s \<Rightarrow> inquiry_reply w now s | None \<Rightarrow> not_found_reply i uid_side) ids))"

definition by_reference_id ::
    "'cert world \<Rightarrow> int \<Rightarrow> pystr list \<Rightarrow> int option \<Rightarrow> int option \<Rightarrow> mock_state \<Rightarrow> json answered" where
  "by_reference_id w now ids start until st =
     bindE (guard (ids \<noteq> []) 400 ''4147'') (\<lambda>_.
     bindE (guard (length ids \<le> MAX_INQUIRY_IDS) 400 ''4141'') (\<lambda>_.
     bindE (window now start until (map snd (submissions st))) (\<lambda>ss.
       Inr (answer_each w now False ss_reference_number ss ids))))"

definition by_uid_list ::
    "'cert world \<Rightarrow> int \<Rightarrow> pystr list \<Rightarrow> pystr option \<Rightarrow> int option \<Rightarrow> int option \<Rightarrow> mock_state \<Rightarrow> json answered" where
  "by_uid_list w now ids fiscal_id start until st =
     bindE (guard (ids \<noteq> []) 400 ''4147'') (\<lambda>_.
     bindE (guard (length ids \<le> MAX_INQUIRY_IDS) 400 ''4141'') (\<lambda>_.
     bindE (window now start until
              (filter (\<lambda>s. fiscal_id = None \<or> fiscal_id = Some (ss_fiscal_id s)) (map snd (submissions st)))) (\<lambda>ss.
       Inr (answer_each w now True ss_uid ss ids))))"

definition inquiry_page ::
    "'cert world \<Rightarrow> int \<Rightarrow> int \<Rightarrow> int \<Rightarrow> pystr option \<Rightarrow> int option \<Rightarrow> int option \<Rightarrow> mock_state \<Rightarrow> json answered" where
  "inquiry_page w now number page_size status start until st =
     bindE (guard (1 \<le> number \<and> 1 \<le> page_size \<and> page_size \<le> 100) 400 ''4147'') (\<lambda>_.
     bindE (guard (case status of None \<Rightarrow> True
              | Some x \<Rightarrow> x \<in> request_status_name ` {SUCCESS, FAILED, IN_PROGRESS, TIMEOUT}) 400 ''4142'') (\<lambda>_.
     bindE (window now start until
              (filter (\<lambda>s. status = None \<or> status = Some (ss_status s)) (map snd (submissions st)))) (\<lambda>ss.
       Inr (JList (map (inquiry_reply w now) (take (nat page_size) (drop (nat ((number - 1) * page_size)) ss)))))))"

definition invoice_status_reply :: "pystr list \<Rightarrow> mock_state \<Rightarrow> json answered" where
  "invoice_status_reply ids st =
     (let known = filter (\<lambda>t. t \<noteq> []) (map (ss_tax_id \<circ> snd) (submissions st)) in
      bindE (guard (ids \<noteq> []) 400 ''4147'') (\<lambda>_.
        Inr (JList (map (\<lambda>t. JObj
          [(lit ''taxId'', JStr t),
           (lit ''invoiceStatus'', if t \<in> set known then JStr (lit ''SYSTEMIC_APPROVED'') else JNull),
           (lit ''article6Status'', if t \<in> set known then JStr (lit ''NOT_EXCEEDED'') else JNull),
           (lit ''error'', if t \<in> set known then JNull else JStr (lit ''NOT_FOUND''))]) ids))))"

definition check_economic_code :: "pystr \<Rightarrow> unit answered" where
  "check_economic_code code = guard (10 \<le> length code) 404 ''4171''"

definition ARTICLE6_VAT_CEILING :: int where "ARTICLE6_VAT_CEILING = 200000000"

definition article6_reply :: "pystr \<Rightarrow> int \<Rightarrow> int \<Rightarrow> json answered" where
  "article6_reply code vat_value period =
     bindE (check_economic_code code) (\<lambda>_.
     bindE (guard (0 \<le> vat_value) 400 ''4147'') (\<lambda>_.
     bindE (guard (1 \<le> period) 400 ''4147'') (\<lambda>_.
       Inr (JObj [(lit ''article6RemainStatus'', JBool (vat_value \<le> ARTICLE6_VAT_CEILING))]))))"

definition fiscal_reply :: "pystr \<Rightarrow> json answered" where
  "fiscal_reply memory =
     bindE (guard (length memory = 6 \<and> list_all (\<lambda>c. ascii_upper_letter c \<or> ascii_digit c) memory) 400 ''4148'') (\<lambda>_.
       Inr (JObj [(lit ''nameTrade'', JStr memory), (lit ''fiscalStatus'', JStr (lit ''ACTIVE'')),
         (lit ''nationalId'', JStr (lit ''14003778990'')), (lit ''economicCode'', JStr (lit ''14003778990''))]))"

section \<open>Payments\<close>

definition required_int :: "(pystr \<times> json) list \<Rightarrow> string \<Rightarrow> int answered" where
  "required_int kvs name =
     (case map_of kvs (lit name) of
        Some (JInt n) \<Rightarrow> bindE (guard (0 \<le> n) 400 ''4147'') (\<lambda>_. Inr n)
      | _ \<Rightarrow> reject 400 ''4147'')"

definition optional_str :: "(pystr \<times> json) list \<Rightarrow> string \<Rightarrow> pystr option answered" where
  "optional_str kvs name =
     (case map_of kvs (lit name) of
        None \<Rightarrow> Inr None
      | Some JNull \<Rightarrow> Inr None
      | Some (JStr s) \<Rightarrow> Inr (Some s)
      | _ \<Rightarrow> reject 400 ''4147'')"

definition is_tax_id :: "pystr \<Rightarrow> bool" where
  "is_tax_id s = (length s = 22 \<and> list_all (\<lambda>c. ascii_digit c \<or> ascii_upper_letter c) s)"

definition accept_payment ::
    "pystr list \<Rightarrow> int \<Rightarrow> auth_context \<Rightarrow> (pystr \<times> json) list \<Rightarrow> stored_payment answered" where
  "accept_payment methods now auth kvs =
     (let t = (case map_of kvs (lit ''taxid'') of None \<Rightarrow> map_of kvs (lit ''taxId'') | v \<Rightarrow> v) in
      bindE (or_reject (text_value t) 400 ''4147'') (\<lambda>tax_id.
      bindE (guard (is_tax_id tax_id) 400 ''4147'') (\<lambda>_.
      bindE (required_int kvs ''paidAmount'') (\<lambda>amount.
      bindE (guard (amount \<noteq> 0) 400 ''4147'') (\<lambda>_.
      bindE (required_int kvs ''paymentDate'') (\<lambda>date.
      bindE (or_reject (case map_of kvs (lit ''paymentMethod'') of
               Some (JStr m) \<Rightarrow> if m \<in> set methods then Some m else None | _ \<Rightarrow> None) 400 ''4147'') (\<lambda>payment_method.
      bindE (optional_str kvs ''terminalNumber'') (\<lambda>terminal.
      bindE (optional_str kvs ''referenceNumber'') (\<lambda>reference.
        Inr \<lparr>sp_tax_id = tax_id, sp_paid_amount = amount, sp_payment_date = date,
          sp_payment_method = payment_method, sp_terminal_number = terminal, sp_reference_number = reference,
          sp_client_id = ac_client_id auth, sp_recorded_at = now\<rparr>)))))))))"

definition PAYMENT_METHODS :: "pystr list" where
  "PAYMENT_METHODS = [lit ''CHEQUE'', lit ''BARTER'', lit ''CASH'', lit ''POS'', lit ''INTERNET'', lit ''CARD'',
     lit ''TRANSFER'', lit ''OTHER'']"

text \<open>The prose of the error of a payment for an unknown invoice is not modelled, its code is.\<close>

definition post_payment :: "int \<Rightarrow> auth_context \<Rightarrow> nat list \<Rightarrow> mock_state \<Rightarrow> json answered \<times> mock_state" where
  "post_payment now auth data st =
     (case loads_bytes data of
        Some (JObj kvs) \<Rightarrow>
          (case accept_payment PAYMENT_METHODS now auth kvs of
             Inl e \<Rightarrow> (Inl e, st)
           | Inr pay \<Rightarrow>
               if sp_tax_id pay \<in> ss_tax_id ` snd ` set (submissions st) then
                 (Inr (JObj [(lit ''requestStatus'', JStr (request_status_name SUCCESS)), (lit ''error'', JList [])]),
                  st\<lparr>payments := payments st @ [pay]\<rparr>)
               else
                 (Inr (JObj [(lit ''requestStatus'', JStr (request_status_name FAILED)),
                    (lit ''error'', JList [JObj [(lit ''code'', JStr (lit ''4147''))]])]), st))
      | _ \<Rightarrow> (reject 400 ''4144'', st))"

section \<open>Taxpayers\<close>

definition MOCK_NAME :: pystr where
  "MOCK_NAME = [1588, 1585, 1705, 1578, 32, 1570, 1586, 1605, 1575, 1740, 1588, 1740, 32, 1605, 1608, 1583, 1740, 1575, 1606]"

definition MOCK_ADDRESS :: pystr where
  "MOCK_ADDRESS = [1578, 1607, 1585, 1575, 1606, 1548, 32, 1582, 1740, 1575, 1576, 1575, 1606, 32, 1570, 1586, 1605, 1575, 1740, 1588, 1740, 1548, 32, 1662, 1604, 1575, 1705, 32, 1777]"

definition taxpayer_reply :: "bool \<Rightarrow> pystr \<Rightarrow> json answered" where
  "taxpayer_reply full code =
     bindE (check_economic_code code) (\<lambda>_.
       Inr (JObj ([(lit ''nameTrade'', JStr MOCK_NAME), (lit ''taxpayerStatus'', JStr (lit ''ACTIVE'')),
          (lit ''nationalId'', JStr code)] @
         (if full then [(lit ''taxpayerType'', JStr (lit ''LEGAL'')),
            (lit ''postalcodeTaxpayer'', JStr (lit ''1994844121'')), (lit ''addressTaxpayer'', JStr MOCK_ADDRESS)]
          else []))))"

section \<open>Requests\<close>

text \<open>
  One request of \<open>create_mock_app\<close>; a request carries what it reads of the random source. Every
  route but \<open>/nonce\<close> authenticates first.
\<close>

datatype mock_request =
    GetNonce pystr int
  | ServerInformation
  | PostInvoice "nat \<Rightarrow> pystr" "nat list"
  | ByReferenceId "pystr list" "int option" "int option"
  | ByUid "pystr list" "pystr option" "int option" "int option"
  | InquiryPage int int "pystr option" "int option" "int option"
  | InvoiceStatus "pystr list"
  | Taxpayer bool pystr
  | Article6 pystr int int
  | FiscalInformation pystr
  | PostPayment "nat list"

fun protected_endpoint ::
    "'cert world \<Rightarrow> int \<Rightarrow> auth_context \<Rightarrow> mock_request \<Rightarrow> mock_state \<Rightarrow> json answered \<times> mock_state" where
  "protected_endpoint w now auth ServerInformation st = (Inr (server_information_reply w now st), st)"
| "protected_endpoint w now auth (PostInvoice references data) st = post_invoice w now references auth data st"
| "protected_endpoint w now auth (ByReferenceId ids start until) st = (by_reference_id w now ids start until st, st)"
| "protected_endpoint w now auth (ByUid ids fiscal_id start until) st = (by_uid_list w now ids fiscal_id start until st, st)"
| "protected_endpoint w now auth (InquiryPage number page_size status start until) st =
     (inquiry_page w now number page_size status start until st, st)"
| "protected_endpoint w now auth (InvoiceStatus ids) st = (invoice_status_reply ids st, st)"
| "protected_endpoint w now auth (Taxpayer full code) st = (taxpayer_reply full code, st)"
| "protected_endpoint w now auth (Article6 code vat_value period) st = (article6_reply code vat_value period, st)"
| "protected_endpoint w now auth (FiscalInformation memory) st = (fiscal_reply memory, st)"
| "protected_endpoint w now auth (PostPayment data) st = post_payment now auth data st"
| "protected_endpoint w now auth (GetNonce uuid ttl) st = (reject 401 ''4130'', st)"

definition mock_step ::
    "'cert world \<Rightarrow> int \<Rightarrow> pystr option \<Rightarrow> mock_request \<Rightarrow> mock_state \<Rightarrow> json answered \<times> mock_state" where
  "mock_step w now authorization req st =
     (case req of
        GetNonce uuid ttl \<Rightarrow>
          (case issue_nonce now uuid ttl st of ((n, expires), st') \<Rightarrow> (Inr (nonce_reply n (iso_nanos expires)), st'))
      | _ \<Rightarrow>
          (case authenticate w now authorization st of
             (Inl e, st') \<Rightarrow> (Inl e, st')
           | (Inr auth, st') \<Rightarrow> protected_endpoint w now auth req st'))"

end
