(* ===== verification/Agreement.thy ===== *)
theory Agreement
  imports MockServer Wire
begin

text \<open>
  The client and the organisation agree: what \<open>jws_sign\<close>, \<open>jwe_encrypt\<close>, \<open>bearer_token\<close> and
  \<open>build_packet\<close> produce is what the checks of \<open>mock/server.py\<close> accept, and the invoice they recover
  is the one that was signed, byte for byte.
\<close>

section \<open>Headers read back\<close>

lemma header_text_reads_back:
  assumes "json_floats h = []" "readable (\<lambda>_. []) h" "\<forall>c \<in> json_chars h. c < 127"
  shows "loads_bytes (header_text h) = Some h" "\<forall>c \<in> set (header_text h). c < 127"
proof -
  obtain u where u: "dumps (\<lambda>_. []) h = Some u" using dumps_eq_None [of "\<lambda>_. []" h] assms(1) by auto
  have c: "\<forall>c \<in> set u. c < 127" using dumps_chars [OF u] assms(3) by auto
  then have t: "header_text h = u"
    by (simp add: header_text_def u) (induction u, auto simp: ascii_char_def)
  have "utf8 u = Some u" using c by (intro utf8_ascii) force
  then show "loads_bytes (header_text h) = Some h"
    using loads_bytes_utf8 [of u u h] c dumps_no_bom [OF u assms(2)] loads_dumps [OF u assms(2)] by (fastforce simp: t)
  show "\<forall>c \<in> set (header_text h). c < 127" using c by (simp add: t)
qed

lemma lit_chars: "list_all (\<lambda>c. of_char c < (127::nat)) s \<Longrightarrow> \<forall>c \<in> set (lit s). c < 127"
  by (auto simp: lit_def list_all_iff)

section \<open>The signing time\<close>

definition utc_ok :: "utc_time \<Rightarrow> bool" where
  "utc_ok t \<longleftrightarrow> 1 \<le> u_year t \<and> u_year t \<le> 9999 \<and> 1 \<le> u_month t \<and> u_month t \<le> 12 \<and> 1 \<le> u_day t \<and>
     u_day t \<le> days_in_month (u_year t) (u_month t) \<and> u_hour t \<le> 23 \<and> u_minute t \<le> 59 \<and> u_second t \<le> 59"

lemma fmt_dec_ascii: "\<forall>c \<in> set (fmt_dec w n). ascii_digit c"
  using fmt_dec_digits by blast

lemma fmt_dec_2: "n < 100 \<Longrightarrow> fmt_dec 2 n = [48 + n div 10, 48 + n mod 10]"
proof -
  assume n: "n < 100"
  show ?thesis
  proof (cases "n < 10")
    case True
    then have "digits_of 10 n = [n]" by (subst digits_of.simps) simp
    with True show ?thesis by (simp add: fmt_dec_def render_def dec_char_def)
  next
    case False
    then have "digits_of 10 n = digits_of 10 (n div 10) @ [n mod 10]" by (subst digits_of.simps) simp
    moreover have "digits_of 10 (n div 10) = [n div 10]" using n by (subst digits_of.simps) simp
    ultimately show ?thesis by (simp add: fmt_dec_def render_def dec_char_def)
  qed
qed

lemma field_value_fmt_dec:
  assumes "n < 100"
  shows "field_value loose tens (fmt_dec 2 n) = Some n"
proof -
  have a: "ascii_digit (48 + n div 10)" "ascii_digit (48 + n mod 10)" using assms by (auto simp: ascii_digit_def)
  then show ?thesis by (simp add: fmt_dec_2 assms field_value_def decimal_value_ascii)
qed

lemma year_value_fmt_dec:
  assumes "n \<le> 9999"
  shows "year_value (fmt_dec 4 n) = Some n"
proof -
  have l: "length (fmt_dec 4 n) = 4" using assms by (simp add: fmt_dec_def length_render)
  have d: "\<forall>c \<in> set (fmt_dec 4 n). decimal_value c = Some (c - 48)"
    using fmt_dec_ascii decimal_value_ascii by blast
  then have "map (\<lambda>c. the (decimal_value c)) (fmt_dec 4 n) = map (\<lambda>c. c - 48) (fmt_dec 4 n)" by simp
  also have "\<dots> = replicate (4 - length (digits_of 10 n)) 0 @ digits_of 10 n"
    by (simp add: fmt_dec_def render_def Let_def dec_char_def o_def)
  finally have "digits_value 10 (map (\<lambda>c. the (decimal_value c)) (fmt_dec 4 n)) = n"
    by (simp add: digits_value_append)
  then show ?thesis using l d by (auto simp: year_value_def list_all_iff)
qed

lemma fields_step:
  assumes "\<forall>c \<in> set x. ascii_digit c" "d \<in> {45, 84, 58, 90}"
  shows "sigt_fields (d # ds) (x @ d # r) = map_option (\<lambda>fs. x # fs) (sigt_fields ds r)"
proof -
  have "lower_point c \<noteq> lower_point d" if "ascii_digit c" for c
    using that assms(2) by (auto simp: lower_point_def ascii_defs)
  then have n: "\<forall>c \<in> set x. lower_point c \<noteq> lower_point d" using assms(1) by blast
  have "takeWhile (\<lambda>c. lower_point c \<noteq> lower_point d) (x @ d # r) = x"
    using n by (subst takeWhile_append2) auto
  moreover have "dropWhile (\<lambda>c. lower_point c \<noteq> lower_point d) (x @ d # r) = d # r"
    using n by (subst dropWhile_append2) auto
  ultimately show ?thesis by simp
qed

lemma is_sig_time_sig_time:
  assumes "utc_ok t"
  shows "is_sig_time (sig_time t)"
proof -
  have f: "sigt_fields [45, 45, 84, 58, 58, 90] (sig_time t) =
      Some [fmt_dec 4 (u_year t), fmt_dec 2 (u_month t), fmt_dec 2 (u_day t), fmt_dec 2 (u_hour t),
        fmt_dec 2 (u_minute t), fmt_dec 2 (u_second t)]"
    using fmt_dec_ascii by (simp add: sig_time_def fields_step del: sigt_fields.simps(2))
  have d: "days_in_month (u_year t) (u_month t) < 100" by (simp add: days_in_month_def)
  have "day_field (fmt_dec 2 n) = fmt_dec 2 n" if "n < 100" for n
    using that by (simp add: day_field_def fmt_dec_2)
  then show ?thesis
    using assms d by (simp add: is_sig_time_def f utc_ok_def field_value_fmt_dec year_value_fmt_dec del: sigt_fields.simps)
qed

section \<open>Signatures\<close>

text \<open>
  Documented behaviour of the \<open>cryptography\<close> package for a key pair: the certificate loads from its
  own DER bytes, and it verifies what the private key signs.
\<close>

definition signs_for :: "credentials \<Rightarrow> 'cert world \<Rightarrow> 'cert \<Rightarrow> bool" where
  "signs_for cr w cert \<longleftrightarrow> byte_list (cred_der cr) \<and> load_certificate w (cred_der cr) = Some cert \<and>
     certificate_der w cert = cred_der cr \<and>
     (\<exists>verify. rsa_verify w cert = Some verify \<and>
        (\<forall>m sig. rsa_sign cr m = Some sig \<longrightarrow> byte_list sig \<and> verify sig m))"

text \<open>The certificate is valid now and trusted by the server.\<close>

definition accepted_now :: "'cert world \<Rightarrow> mock_state \<Rightarrow> int \<Rightarrow> 'cert \<Rightarrow> bool" where
  "accepted_now w st now cert \<longleftrightarrow> not_valid_before w cert \<le> now \<and> now \<le> not_valid_after w cert \<and>
     (case trusted_der st of None \<Rightarrow> True | Some ders \<Rightarrow> certificate_der w cert \<in> set ders)"

lemma b64url_decodes: "byte_list bs \<Longrightarrow> b64url_decode (b64url bs) = Some bs"
  and b64url_no_dot: "byte_list bs \<Longrightarrow> 46 \<notin> set (b64url bs)"
  using b64url_text [of bs] b64_text_no_dot b64url_reads_back [of bs] by (auto simp: byte_list_def list_all_iff)

lemma byte_list_ascii: "\<forall>c \<in> set s. c < 127 \<Longrightarrow> byte_list s"
  by (auto simp: byte_list_def list_all_iff)

lemma b64encode_chars: "byte_list bs \<Longrightarrow> \<forall>c \<in> set (b64encode bs). c < 127"
  using b64_data_text [of bs False] by (auto simp: b64encode_def b64_pads_def b64_text_def byte_list_def list_all_iff)

lemma sig_time_chars: "\<forall>c \<in> set (sig_time t). c < 127"
  using fmt_dec_ascii by (fastforce simp: sig_time_def ascii_digit_def)

lemma protected_header_reads_back:
  assumes "byte_list der"
  shows "loads_bytes (header_text (protected_header der t)) = Some (protected_header der t)"
    "byte_list (header_text (protected_header der t))"
proof -
  have "\<forall>c \<in> json_chars (protected_header der t). c < 127"
    using b64encode_chars [OF assms] sig_time_chars by (auto simp: protected_header_def lit_def)
  moreover have "json_floats (protected_header der t) = []" "readable (\<lambda>_. []) (protected_header der t)"
    by (simp_all add: protected_header_def)
  ultimately show "loads_bytes (header_text (protected_header der t)) = Some (protected_header der t)"
    "byte_list (header_text (protected_header der t))"
    using header_text_reads_back [of "protected_header der t"] byte_list_ascii by blast+
qed

lemma check_own_header:
  assumes "utc_ok t"
  shows "\<exists>kvs. protected_header der t = JObj kvs \<and> check_protected_header kvs code = Inr [JStr (b64encode der)]"
  using is_sig_time_sig_time [OF assms]
  by (simp add: protected_header_def check_protected_header_def JWS_HEADER_KEYS_def guard_def)

lemma decode_own_certificate:
  assumes "signs_for cr w cert"
  shows "decode_certificate w (JStr (b64encode (cred_der cr))) code = Inr cert"
  using assms b64encode_reads_back [of "cred_der cr"]
  by (auto simp: decode_certificate_def signs_for_def or_reject_def byte_list_def list_all_iff)

lemma verify_own_jws_if:
  assumes "signs_for cr w cert" "utc_ok t" "byte_list data" "jws_sign cr t data = Inr token"
  shows "verify_jws w st now c1 c2 c3 token =
    (if accepted_now w st now cert then Inr (data, cert) else reject 401 c3)"
proof -
  let ?h = "protected_header (cred_der cr) t"
  let ?p = "b64url (header_text ?h)"
  have der: "byte_list (cred_der cr)" using assms(1) by (simp add: signs_for_def)
  obtain verify where v: "rsa_verify w cert = Some verify"
    "\<And>m sig. rsa_sign cr m = Some sig \<Longrightarrow> byte_list sig \<and> verify sig m"
    using assms(1) by (auto simp: signs_for_def)
  obtain sig where sig: "rsa_sign cr (?p @ [46] @ b64url data) = Some sig"
    "token = (?p @ [46] @ b64url data) @ [46] @ b64url sig"
    using assms(4) by (auto simp: jws_sign_def Let_def split: option.splits)
  note sig_ok = v(2) [OF sig(1)]
  have h: "byte_list (header_text ?h)" using protected_header_reads_back(2) [OF der] .
  have split: "split_on 46 token = [?p, b64url data, b64url sig]"
    using b64url_no_dot [OF h] b64url_no_dot [OF assms(3)] b64url_no_dot [of sig] sig_ok
    by (simp add: sig(2) split_on_cons split_on_none)
  obtain kvs where kvs: "?h = JObj kvs" "check_protected_header kvs c1 = Inr [JStr (b64encode (cred_der cr))]"
    using check_own_header [OF assms(2)] by blast
  have l: "loads_bytes (header_text ?h) = Some (JObj kvs)"
    using protected_header_reads_back(1) [OF der, of t] by (simp add: kvs(1))
  show ?thesis
    using sig_ok
    by (auto simp: verify_jws_def split b64url_decodes h assms(3) l kvs(2) decode_own_certificate [OF assms(1)]
        guard_def accepted_now_def v(1) or_reject_def reject_def)
qed

lemma verify_own_jws:
  assumes "signs_for cr w cert" "accepted_now w st now cert" "utc_ok t" "byte_list data"
    "jws_sign cr t data = Inr token"
  shows "verify_jws w st now c1 c2 c3 token = Inr (data, cert)"
  using verify_own_jws_if [OF assms(1,3,4,5)] assms(2) by simp

section \<open>Encryption\<close>

text \<open>
  Documented behaviour of the \<open>cryptography\<close> package: OAEP and AES-GCM give back what they sealed, and
  the tag adds sixteen bytes.
\<close>

definition opens_for :: "'key cipher_suite \<Rightarrow> 'key \<Rightarrow> 'cert world \<Rightarrow> bool" where
  "opens_for cs key w \<longleftrightarrow>
     (\<forall>seed cek x. oaep_encrypt cs key seed cek = Some x \<longrightarrow> byte_list x \<and> oaep_decrypt w x = Some cek) \<and>
     (\<forall>cek iv m aad x. gcm_encrypt cs cek iv m aad = Some x \<longrightarrow>
        byte_list x \<and> length x = length m + TAG_BYTES \<and> gcm_decrypt w cek iv x aad = Some m)"

text \<open>The sizes that \<open>os.urandom\<close> is asked for.\<close>

definition entropy_ok :: "entropy \<Rightarrow> bool" where
  "entropy_ok e \<longleftrightarrow> length (e_cek e) = 32 \<and> length (e_iv e) = 12 \<and> byte_list (e_iv e)"

lemma jwe_header_reads_back:
  assumes "\<forall>c \<in> set kid. c < 127"
  shows "loads_bytes (header_text (jwe_header kid)) = Some (jwe_header kid)"
    "byte_list (header_text (jwe_header kid))"
proof -
  have "\<forall>c \<in> json_chars (jwe_header kid). c < 127" using assms by (auto simp: jwe_header_def lit_def)
  moreover have "json_floats (jwe_header kid) = []" "readable (\<lambda>_. []) (jwe_header kid)"
    by (simp_all add: jwe_header_def)
  ultimately show "loads_bytes (header_text (jwe_header kid)) = Some (jwe_header kid)"
    "byte_list (header_text (jwe_header kid))"
    using header_text_reads_back [of "jwe_header kid"] byte_list_ascii by blast+
qed

lemma utf8_strict: "utf8 s = Some bs \<Longrightarrow> \<forall>c \<in> set s. c < 127 \<Longrightarrow> utf8_decode False bs = Some s"
  using utf8_decode_utf8 [of s bs False] by fastforce

lemma decrypt_own_jwe:
  assumes "opens_for cs key w" "entropy_ok e" "\<forall>c \<in> set (key_id st). c < 127" "\<forall>c \<in> set plaintext. c < 127"
    "jwe_encrypt cs key (key_id st) e plaintext = Inr token"
  shows "decrypt_jwe w st token = Inr plaintext"
proof -
  let ?h = "jwe_header (key_id st)"
  let ?p = "b64url (header_text ?h)"
  have h: "loads_bytes (header_text ?h) = Some ?h" "byte_list (header_text ?h)"
    using jwe_header_reads_back [OF assms(3)] by blast+
  obtain ek plain sealed where
    ek: "oaep_encrypt cs key (e_seed e) (e_cek e) = Some ek" and plain: "utf8 plaintext = Some plain" and
    sealed: "gcm_encrypt cs (e_cek e) (e_iv e) plain ?p = Some sealed" and
    token: "token = joined 46 [?p, b64url ek, b64url (e_iv e), b64url (take (length sealed - TAG_BYTES) sealed),
      b64url (drop (length sealed - TAG_BYTES) sealed)]"
    using assms(5) by (auto simp: jwe_encrypt_def Let_def split: option.splits)
  let ?ct = "take (length sealed - TAG_BYTES) sealed"
  let ?tag = "drop (length sealed - TAG_BYTES) sealed"
  have ek_ok: "byte_list ek" "oaep_decrypt w ek = Some (e_cek e)" using assms(1) ek by (auto simp: opens_for_def)
  have sealed_ok: "byte_list sealed" "gcm_decrypt w (e_cek e) (e_iv e) sealed ?p = Some plain"
    using assms(1) sealed by (auto simp: opens_for_def)
  have parts: "byte_list ?ct" "byte_list ?tag"
    using sealed_ok(1) by (auto simp: byte_list_def list_all_iff dest: in_set_takeD in_set_dropD)
  have iv: "byte_list (e_iv e)" "length (e_iv e) = 12" "length (e_cek e) = 32" using assms(2) by (auto simp: entropy_ok_def)
  have split: "split_on 46 token = [?p, b64url ek, b64url (e_iv e), b64url ?ct, b64url ?tag]"
    using b64url_no_dot h(2) ek_ok(1) iv(1) parts by (simp add: token split_on_cons split_on_none)
  have kvs: "\<exists>kvs. ?h = JObj kvs \<and> map_of kvs (lit ''alg'') = Some (JStr (lit ''RSA-OAEP-256'')) \<and>
      map_of kvs (lit ''enc'') = Some (JStr (lit ''A256GCM'')) \<and> map_of kvs (lit ''kid'') = Some (JStr (key_id st))"
    by (simp add: jwe_header_def)
  then obtain kvs where kvs: "?h = JObj kvs" "map_of kvs (lit ''alg'') = Some (JStr (lit ''RSA-OAEP-256''))"
      "map_of kvs (lit ''enc'') = Some (JStr (lit ''A256GCM''))" "map_of kvs (lit ''kid'') = Some (JStr (key_id st))"
    by blast
  have l: "loads_bytes (header_text ?h) = Some (JObj kvs)" using h(1) by (simp add: kvs(1))
  have "utf8_decode False plain = Some plaintext" using utf8_strict [OF plain assms(4)] .
  then show ?thesis
    by (simp add: decrypt_jwe_def split b64url_decodes h(2) ek_ok iv parts l kvs(2-4) guard_def or_reject_def sealed_ok(2))
qed

lemma jws_sign_chars:
  assumes "signs_for cr w cert" "byte_list data" "jws_sign cr t data = Inr token"
  shows "\<forall>c \<in> set token. 43 \<le> c \<and> c < 127" "token \<noteq> []"
proof -
  have b: "\<forall>c \<in> set (b64url bs). 43 \<le> c \<and> c < 127" if "byte_list bs" for bs
    using b64url_text [of bs] that by (auto simp: b64_text_def byte_list_def list_all_iff)
  have "byte_list (cred_der cr)" using assms(1) by (simp add: signs_for_def)
  then have h: "byte_list (header_text (protected_header (cred_der cr) t))" using protected_header_reads_back(2) by blast
  then show "\<forall>c \<in> set token. 43 \<le> c \<and> c < 127" "token \<noteq> []"
  proof -
    obtain sig where sig: "rsa_sign cr (b64url (header_text (protected_header (cred_der cr) t)) @ [46] @ b64url data) = Some sig"
      "token = (b64url (header_text (protected_header (cred_der cr) t)) @ [46] @ b64url data) @ [46] @ b64url sig"
      using assms(3) by (auto simp: jws_sign_def Let_def split: option.splits)
    then have "byte_list sig" using assms(1) by (auto simp: signs_for_def)
    with b [OF h] b [OF assms(2)] b [of sig] show "\<forall>c \<in> set token. 43 \<le> c \<and> c < 127" "token \<noteq> []"
      by (auto simp: sig(2))
  qed
qed

text \<open>The two layers of a packet.\<close>

lemma open_sealed:
  assumes "signs_for cr w cert" "accepted_now w st now cert" "utc_ok t" "opens_for cs key w" "entropy_ok e"
    "\<forall>c \<in> set (key_id st). c < 127" "byte_list data" "seal_invoice cr t cs key (key_id st) e data = Inr jwe"
  shows "\<exists>jws. jws_sign cr t data = Inr jws \<and> decrypt_jwe w st jwe = Inr jws \<and>
    verify_jws w st now c1 c2 c3 jws = Inr (data, cert)"
proof -
  obtain jws where jws: "jws_sign cr t data = Inr jws" "jwe_encrypt cs key (key_id st) e jws = Inr jwe"
    using assms(8) by (auto simp: seal_invoice_def py_splits)
  then show ?thesis
    using verify_own_jws [OF assms(1-3,7) jws(1)] jws_sign_chars [OF assms(1,7) jws(1)]
      decrypt_own_jwe [OF assms(4-6) _ jws(2)] by blast
qed

section \<open>Packets\<close>

text \<open>The services of the pipeline seal with these credentials and this server key.\<close>

definition seals_with ::
    "'w services \<Rightarrow> server_key \<Rightarrow> credentials \<Rightarrow> utc_time \<Rightarrow> 'key cipher_suite \<Rightarrow> 'key \<Rightarrow> ('w \<Rightarrow> entropy) \<Rightarrow> bool" where
  "seals_with sv sk cr t cs key drawn \<longleftrightarrow>
     (\<forall>data w. entropy_ok (drawn w) \<and> fst (seal sv sk data w) = seal_invoice cr t cs key (sk_id sk) (drawn w) data)"

definition text_ok :: "(rat \<Rightarrow> pystr) \<Rightarrow> json \<Rightarrow> bool" where
  "text_ok ftx v \<longleftrightarrow> readable ftx (strip_nulls v) \<and> (\<forall>c \<in> json_chars v. c < 0x110000) \<and>
     (\<forall>x. \<forall>c \<in> set (ftx x). c < 0x110000)"

lemma canonical_bytes:
  assumes "canonical_json ftx v = Inr bs" "text_ok ftx v"
  shows "byte_list bs" "loads_bytes bs = Some (strip_nulls v)"
proof -
  obtain u where u: "dumps ftx (strip_nulls v) = Some u" "utf8 u = Some bs"
    using assms(1) by (auto simp: canonical_json_def split: option.splits)
  have "\<forall>c \<in> set u. c < 0x110000"
    using dumps_chars [OF u(1)] assms(2) json_chars_strip_nulls [of v] by (fastforce simp: text_ok_def)
  then show "byte_list bs" using utf8_bytes [OF u(2)] by blast
  show "loads_bytes bs = Some (strip_nulls v)"
    using canonical_json_loads [OF assms(1)] assms(2) by (simp add: text_ok_def)
qed

text \<open>The wire form of an invoice that carries a tax id.\<close>

definition identified :: "json \<Rightarrow> pystr \<Rightarrow> bool" where
  "identified v tax_id \<longleftrightarrow>
     (\<exists>kvs h. strip_nulls v = JObj kvs \<and> map_of kvs (lit ''header'') = Some (JObj h) \<and>
        map_of h (lit ''taxid'') = Some (JStr tax_id) \<and> tax_id \<noteq> [] \<and> map_of kvs (lit ''body'') \<noteq> None)"

lemma lit_noteq [simp]: "s \<noteq> s' \<Longrightarrow> lit s \<noteq> lit s'" by simp

lemma jwe_nonempty: "seal_invoice cr t cs key kid e data = Inr jwe \<Longrightarrow> jwe \<noteq> []"
  by (auto simp: seal_invoice_def jwe_encrypt_def py_splits Let_def split: option.splits)

lemma accept_sealed:
  assumes "signs_for cr w cert" "accepted_now w st now cert" "utc_ok t" "opens_for cs key w" "entropy_ok e"
    "\<forall>c \<in> set (key_id st). c < 127" "canonical_json ftx wire = Inr data" "text_ok ftx wire" "identified wire tax_id"
    "seal_invoice cr t cs key (key_id st) e data = Inr jwe" "is_uuid uid" "uid \<noteq> []" "fiscal_id \<noteq> []"
  shows "\<exists>jws. accept_packet w st now auth reference
      (packet_json \<lparr>payload = jwe, packet_head = \<lparr>requestTraceId = uid, fiscalId = fiscal_id\<rparr>\<rparr>) =
    Inr \<lparr>ss_reference_number = reference, ss_uid = uid, ss_fiscal_id = fiscal_id, ss_client_id = ac_client_id auth,
      ss_tax_id = tax_id, ss_invoice = strip_nulls wire, ss_invoice_bytes = data, ss_jws = jws,
      ss_signer_der = cred_der cr, ss_received_at = now, ss_status = request_status_name SUCCESS\<rparr>"
proof -
  note data = canonical_bytes [OF assms(7,8)]
  obtain jws where jws: "decrypt_jwe w st jwe = Inr jws"
    "verify_jws w st now ''04130'' ''04131'' ''04131'' jws = Inr (data, cert)"
    using open_sealed [OF assms(1-6) data(1) assms(10)] by blast
  obtain kvs h where k: "strip_nulls wire = JObj kvs" "map_of kvs (lit ''header'') = Some (JObj h)"
    "map_of h (lit ''taxid'') = Some (JStr tax_id)" "tax_id \<noteq> []" "map_of kvs (lit ''body'') \<noteq> None"
    using assms(9) by (auto simp: identified_def)
  have der: "certificate_der w cert = cred_der cr" using assms(1) by (simp add: signs_for_def)
  show ?thesis
    using jws k assms(11-13) jwe_nonempty [OF assms(10)]
    by (simp add: accept_packet_def packet_json_def dict_value_def text_value_def or_reject_def guard_def
        restated_def data(2) der)
qed

end
