(* ===== verification/Organisation.thy ===== *)
theory Organisation
  imports Agreement
begin

text \<open>
  What the organisation guarantees over a history of requests: a nonce is spent once, a batch is
  stored whole or not at all, and no two stored submissions share a uid.
\<close>

section \<open>Histories\<close>

type_synonym mock_event = "int \<times> pystr option \<times> mock_request"

fun mock_run :: "'cert world \<Rightarrow> mock_event list \<Rightarrow> mock_state \<Rightarrow> mock_state" where
  "mock_run w [] st = st"
| "mock_run w ((now, a, req) # es) st = mock_run w es (snd (mock_step w now a req st))"

definition nonce_issued :: "mock_event \<Rightarrow> pystr option" where
  "nonce_issued ev =
     (case ev of (now, _, GetNonce uuid ttl) \<Rightarrow> Some (uuid @ [45] @ int_text (millis now)) | _ \<Rightarrow> None)"

section \<open>Nonces\<close>

definition burnt :: "pystr \<Rightarrow> mock_state \<Rightarrow> bool" where
  "burnt n st \<longleftrightarrow> (case map_of (nonces st) n of None \<Rightarrow> False | Some r \<Rightarrow> n_used r)"

lemma consume_nonce_burns: "consume_nonce now n st = (Inr x, st') \<Longrightarrow> burnt n st'"
  by (auto simp: consume_nonce_def reject_def burnt_def split: option.splits if_splits)

lemma burnt_refused: "burnt n st \<Longrightarrow> \<exists>e. consume_nonce now n st = (Inl e, st)"
  by (auto simp: consume_nonce_def reject_def burnt_def split: option.splits)

lemma consume_nonce_keeps: "burnt n st \<Longrightarrow> burnt n (snd (consume_nonce now m st))"
  by (auto simp: consume_nonce_def reject_def burnt_def split: option.splits)

lemma consume_nonce_frame:
  "trusted_der (snd (consume_nonce now m st)) = trusted_der st"
  "submissions (snd (consume_nonce now m st)) = submissions st"
  "key_id (snd (consume_nonce now m st)) = key_id st"
  by (auto simp: consume_nonce_def reject_def split: option.splits)

lemma authenticate_cases:
  obtains (refused) e where "authenticate w now a st = (Inl e, st)"
  | (spent) n client where "claims_of_token w st now a = Inr (n, client)"
      "authenticate w now a st = (Inr \<lparr>ac_client_id = client, ac_nonce = n\<rparr>, snd (consume_nonce now n st))"
      "fst (consume_nonce now n st) = Inr ()"
proof (cases "claims_of_token w st now a")
  case (Inr p)
  obtain n client where p: "p = (n, client)" by (cases p)
  show ?thesis
  proof (cases "fst (consume_nonce now n st)")
    case (Inl e)
    then have "snd (consume_nonce now n st) = st"
      by (auto simp: consume_nonce_def reject_def split: option.splits if_splits)
    with Inl have "consume_nonce now n st = (Inl e, st)" by (simp add: prod_eq_iff)
    with Inr p have "authenticate w now a st = (Inl e, st)" by (simp add: authenticate_def)
    then show ?thesis by (rule refused)
  next
    case r: (Inr u)
    then have "consume_nonce now n st = (Inr u, snd (consume_nonce now n st))" by (simp add: prod_eq_iff)
    then have "authenticate w now a st = (Inr \<lparr>ac_client_id = client, ac_nonce = n\<rparr>, snd (consume_nonce now n st))"
      using Inr p by (auto simp: authenticate_def split: prod.splits)
    with Inr p r show ?thesis by (intro spent) auto
  qed
qed (auto simp: authenticate_def)

lemma post_invoice_frame:
  "nonces (snd (post_invoice w now refs auth data st)) = nonces st"
  "trusted_der (snd (post_invoice w now refs auth data st)) = trusted_der st"
  by (auto simp: post_invoice_def reject_def store_all_def split: option.splits json.splits sum.splits)

lemma post_payment_frame:
  "nonces (snd (post_payment now auth data st)) = nonces st"
  "trusted_der (snd (post_payment now auth data st)) = trusted_der st"
  "submissions (snd (post_payment now auth data st)) = submissions st"
  by (auto simp: post_payment_def reject_def split: option.splits json.splits sum.splits)

lemma protected_frame:
  "nonces (snd (protected_endpoint w now auth req st)) = nonces st"
  "trusted_der (snd (protected_endpoint w now auth req st)) = trusted_der st"
  by (cases req; simp add: post_invoice_frame post_payment_frame)+

lemma burnt_nonces: "nonces st' = nonces st \<Longrightarrow> burnt n st' = burnt n st"
  by (simp add: burnt_def)

lemma mock_step_protected:
  assumes "\<And>uuid ttl. req \<noteq> GetNonce uuid ttl"
  shows "mock_step w now a req st =
     (case authenticate w now a st of (Inl e, st') \<Rightarrow> (Inl e, st') | (Inr auth, st') \<Rightarrow> protected_endpoint w now auth req st')"
  using assms by (cases req) (auto simp: mock_step_def)

lemma mock_step_keeps:
  assumes "burnt n st" "nonce_issued (now, a, req) \<noteq> Some n"
  shows "burnt n (snd (mock_step w now a req st))"
proof (cases "\<exists>uuid ttl. req = GetNonce uuid ttl")
  case True
  then show ?thesis
    using assms by (auto simp: mock_step_def issue_nonce_def nonce_issued_def Let_def burnt_def)
next
  case False
  then have e: "mock_step w now a req st =
     (case authenticate w now a st of (Inl e, st') \<Rightarrow> (Inl e, st') | (Inr auth, st') \<Rightarrow> protected_endpoint w now auth req st')"
    by (intro mock_step_protected) blast
  show ?thesis
  proof (cases rule: authenticate_cases [of w now a st])
    case (refused x)
    then show ?thesis using assms(1) by (simp add: e)
  next
    case (spent m client)
    then show ?thesis
      using consume_nonce_keeps [OF assms(1)] by (simp add: e burnt_nonces [OF protected_frame(1)])
  qed
qed

lemma mock_step_trusted: "trusted_der (snd (mock_step w now a req st)) = trusted_der st"
proof (cases "\<exists>uuid ttl. req = GetNonce uuid ttl")
  case True
  then show ?thesis by (auto simp: mock_step_def issue_nonce_def Let_def)
next
  case False
  then have e: "mock_step w now a req st =
     (case authenticate w now a st of (Inl e, st') \<Rightarrow> (Inl e, st') | (Inr auth, st') \<Rightarrow> protected_endpoint w now auth req st')"
    by (intro mock_step_protected) blast
  show ?thesis
    by (cases rule: authenticate_cases [of w now a st]) (simp_all add: e protected_frame consume_nonce_frame)
qed

lemma mock_run_burnt:
  "burnt n st \<Longrightarrow> \<forall>ev \<in> set es. nonce_issued ev \<noteq> Some n \<Longrightarrow>
     burnt n (mock_run w es st) \<and> trusted_der (mock_run w es st) = trusted_der st"
proof (induction es arbitrary: st)
  case (Cons ev es)
  obtain now a req where ev: "ev = (now, a, req)" by (cases ev)
  with Cons.prems have "burnt n (snd (mock_step w now a req st))"
    by (intro mock_step_keeps) simp_all
  with Cons.IH Cons.prems(2) show ?case by (simp add: ev mock_step_trusted)
qed simp

text \<open>What a token claims depends on the state only through the trusted certificates, and not on the time.\<close>

lemma verify_jws_claims:
  assumes "trusted_der st' = trusted_der st" "verify_jws w st now c1 c2 c3 token = Inr x"
    "verify_jws w st' now' c1 c2 c3 token = Inr y"
  shows "x = y"
  using assms(2,3)
  by (auto simp: verify_jws_def reject_def guard_def or_reject_def py_splits
      split: list.splits option.splits json.splits if_splits prod.splits)

lemma claims_of_token_same:
  assumes "trusted_der st' = trusted_der st" "claims_of_token w st now a = Inr x" "claims_of_token w st' now' a = Inr y"
  shows "x = y"
proof -
  let ?token = "strip (drop 1 (dropWhile (\<lambda>c. c \<noteq> 32) (case a of None \<Rightarrow> [] | Some s \<Rightarrow> s)))"
  obtain p q where p: "verify_jws w st now ''4130'' ''4133'' ''4131'' ?token = Inr p"
    and q: "verify_jws w st' now' ''4130'' ''4133'' ''4131'' ?token = Inr q"
    using assms(2,3) by (auto simp: claims_of_token_def Let_def py_splits)
  have "p = q" using verify_jws_claims [OF assms(1) p q] .
  then show ?thesis using assms(2,3) p q by (auto simp: claims_of_token_def Let_def py_splits)
qed

lemma spent_token_refused:
  assumes "authenticate w now a st = (Inr ctx, st1)" "burnt (ac_nonce ctx) st2" "trusted_der st2 = trusted_der st"
  shows "\<exists>e. authenticate w now' a st2 = (Inl e, st2)"
proof (cases rule: authenticate_cases [of w now a st])
  case (spent n client)
  with assms(1) have n: "ac_nonce ctx = n" by auto
  show ?thesis
  proof (cases rule: authenticate_cases [of w now' a st2])
    case (spent n' client')
    then have "n' = n" using claims_of_token_same [OF assms(3) \<open>claims_of_token w st now a = Inr (n, client)\<close>] by auto
    with spent burnt_refused [OF assms(2)] n show ?thesis by (metis fst_conv sum.distinct(1))
  qed auto
qed (use assms(1) in simp)

text \<open>
  C12. An access token works once: after the organisation has accepted a request, every later request
  with the same \<open>Authorization\<close> header is refused and changes nothing, whatever requests are served
  in between, as long as the server does not draw the same nonce again.
\<close>

theorem nonce_spent_once:
  assumes "authenticate w now a st = (Inr ctx, st1)" "\<forall>ev \<in> set es. nonce_issued ev \<noteq> Some (ac_nonce ctx)"
  shows "\<exists>e. authenticate w now' a (mock_run w es st1) = (Inl e, mock_run w es st1)"
proof (rule spent_token_refused [OF assms(1)])
  have st1: "burnt (ac_nonce ctx) st1 \<and> trusted_der st1 = trusted_der st"
  proof (cases rule: authenticate_cases [of w now a st])
    case (spent n client)
    then have "consume_nonce now n st = (Inr (), st1)" using assms(1) by (simp add: prod_eq_iff)
    then show ?thesis
      using consume_nonce_burns consume_nonce_frame(1) [of now n st] spent assms(1) by auto
  qed (use assms(1) in simp)
  then show "burnt (ac_nonce ctx) (mock_run w es st1)"
    "trusted_der (mock_run w es st1) = trusted_der st"
    using mock_run_burnt assms(2) by metis+
qed

section \<open>A fresh bearer token\<close>

definition unicode :: "pystr \<Rightarrow> bool" where
  "unicode s \<longleftrightarrow> (\<forall>c \<in> set s. c < 0x110000)"

lemma claims_json_bytes:
  assumes "canonical_json ftx (JObj [(lit ''nonce'', JStr n), (lit ''clientId'', JStr client)]) = Inr data"
    "unicode n" "unicode client" "\<forall>x. unicode (ftx x)"
  shows "byte_list data" "loads_bytes data = Some (JObj [(lit ''nonce'', JStr n), (lit ''clientId'', JStr client)])"
proof -
  let ?v = "JObj [(lit ''nonce'', JStr n), (lit ''clientId'', JStr client)]"
  have "\<forall>c \<in> set (lit ''nonce'') \<union> set (lit ''clientId''). c < 0x110000" by (simp add: lit_def)
  then have "text_ok ftx ?v" using assms(2-4) by (auto simp: text_ok_def unicode_def)
  with assms(1) show "byte_list data" "loads_bytes data = Some ?v" using canonical_bytes by fastforce+
qed

lemma bearer_claims_if:
  assumes "signs_for cr w cert" "utc_ok t"
    "bearer_token ftx cr t n client = Inr value" "n \<noteq> []" "client \<noteq> []"
    "unicode n" "unicode client" "\<forall>x. unicode (ftx x)"
  shows "claims_of_token w st now (Some value) =
    (if accepted_now w st now cert then Inr (n, client) else reject 401 ''4131'')"
proof -
  let ?v = "JObj [(lit ''nonce'', JStr n), (lit ''clientId'', JStr client)]"
  obtain data jws where data: "canonical_json ftx ?v = Inr data" and jws: "jws_sign cr t data = Inr jws"
    and v: "value = lit ''Bearer '' @ jws"
    using assms(3) by (auto simp: bearer_token_def py_splits)
  note b = claims_json_bytes [OF data assms(6-8)]
  have c: "\<forall>c \<in> set jws. 43 \<le> c \<and> c < 127" "jws \<noteq> []" using jws_sign_chars [OF assms(1) b(1) jws] by blast+
  have "\<not> is_space c" if "43 \<le> c" "c < 127" for c using that by (auto simp: is_space_def space_points_def)
  then have s: "strip jws = jws" using c(1) by (intro strip_no_space) blast
  have "takeWhile (\<lambda>c. c \<noteq> 32) value = lit ''Bearer''" "dropWhile (\<lambda>c. c \<noteq> 32) value = 32 # jws"
    by (simp_all add: v lit_def)
  moreover have "map lower_point (lit ''Bearer'') = lit ''bearer''"
    by (simp add: lit_def lower_point_def ascii_defs)
  ultimately show ?thesis
    using c(2) assms(4,5) verify_own_jws_if [OF assms(1,2) b(1) jws]
    by (auto simp: claims_of_token_def s guard_def or_reject_def b(2) dict_value_def text_value_def reject_def)
qed

lemma bearer_claims:
  assumes "signs_for cr w cert" "accepted_now w st now cert" "utc_ok t"
    "bearer_token ftx cr t n client = Inr value" "n \<noteq> []" "client \<noteq> []"
    "unicode n" "unicode client" "\<forall>x. unicode (ftx x)"
  shows "claims_of_token w st now (Some value) = Inr (n, client)"
  using bearer_claims_if [OF assms(1,3-9)] assms(2) by simp

lemma fresh_bearer_lets_in:
  assumes "signs_for cr w cert" "accepted_now w st now' cert" "utc_ok t"
    "issue_nonce now uuid ttl st = ((n, expires), st1)" "now' < expires"
    "bearer_token ftx cr t n client = Inr value" "client \<noteq> []"
    "unicode uuid" "unicode client" "\<forall>x. unicode (ftx x)"
  shows "\<exists>st2 e. authenticate w now' (Some value) st1 = (Inr \<lparr>ac_client_id = client, ac_nonce = n\<rparr>, st2) \<and>
    authenticate w now'' (Some value) st2 = (Inl e, st2)"
proof -
  have n: "n = uuid @ [45] @ int_text (millis now)" and st1:
    "st1 = st\<lparr>nonces := dict_set n \<lparr>n_expires_at = expires, n_used = False\<rparr> (nonces st)\<rparr>"
    using assms(4) by (auto simp: issue_nonce_def Let_def)
  have "unicode n" using assms(8) set_int_text by (fastforce simp: unicode_def n)
  moreover have "accepted_now w st1 now' cert" using assms(2) by (simp add: accepted_now_def st1)
  ultimately have claims: "claims_of_token w st1 now' (Some value) = Inr (n, client)"
    using bearer_claims [OF assms(1) _ assms(3,6) _ assms(7) _ assms(9,10)] by (simp add: n)
  let ?st2 = "snd (consume_nonce now' n st1)"
  have c: "consume_nonce now' n st1 = (Inr (), ?st2)"
    using assms(5) by (simp add: consume_nonce_def st1)
  then have a: "authenticate w now' (Some value) st1 = (Inr \<lparr>ac_client_id = client, ac_nonce = n\<rparr>, ?st2)"
    using claims by (auto simp: authenticate_def split: prod.splits)
  have "burnt n ?st2" using consume_nonce_burns [OF c] .
  then have "\<exists>e. authenticate w now'' (Some value) ?st2 = (Inl e, ?st2)"
    using spent_token_refused [OF a, of ?st2 now''] consume_nonce_frame(1) [of now' n st1] by simp
  with a show ?thesis by blast
qed

text \<open>
  A client that signs the nonce it was just given is let in: when the certificate is valid and
  trusted, the \<open>Authorization\<close> header built by \<open>bearer_token\<close> over a nonce of \<open>GET /nonce\<close> is accepted
  until the nonce expires, for the client id it names, and only that once.
\<close>

theorem fresh_bearer_accepted_once:
  assumes "signs_for cr w cert" "accepted_now w st now' cert" "utc_ok t"
    "issue_nonce now uuid ttl st = ((n, expires), st1)" "now' < expires"
    "bearer_token ftx cr t n client = Inr value" "client \<noteq> []"
    "unicode uuid" "unicode client" "\<forall>x. unicode (ftx x)"
  shows "\<exists>st2 e. authenticate w now' (Some value) st1 = (Inr \<lparr>ac_client_id = client, ac_nonce = n\<rparr>, st2) \<and>
    authenticate w now'' (Some value) st2 = (Inl e, st2)"
  using assms by (rule fresh_bearer_lets_in)

section \<open>Batches\<close>

definition accepted_packets ::
    "'cert world \<Rightarrow> mock_state \<Rightarrow> int \<Rightarrow> auth_context \<Rightarrow> (json \<times> pystr) list \<Rightarrow> stored_submission list \<Rightarrow> bool" where
  "accepted_packets w st now auth ps ss \<longleftrightarrow>
     list_all2 (\<lambda>(p, r) s. accept_packet w st now auth r p = Inr s) ps ss"

text \<open>The uids of a batch are new to the server and to each other.\<close>

definition fresh_uids :: "pystr list \<Rightarrow> stored_submission list \<Rightarrow> mock_state \<Rightarrow> bool" where
  "fresh_uids seen ss st \<longleftrightarrow> distinct (map ss_uid ss) \<and> set (map ss_uid ss) \<inter> set seen = {} \<and>
     set (map ss_uid ss) \<inter> ss_uid ` snd ` set (submissions st) = {}"

lemma accept_all_iff:
  "accept_all w st now auth seen ps = Inr ss \<longleftrightarrow> accepted_packets w st now auth ps ss \<and> fresh_uids seen ss st"
proof (induction ps arbitrary: seen ss)
  case Nil
  then show ?case by (auto simp: accepted_packets_def fresh_uids_def)
next
  case (Cons pr ps)
  obtain p r where pr: "pr = (p, r)" by (cases pr)
  show ?case
  proof (cases ss)
    case Nil
    then show ?thesis by (simp add: pr accepted_packets_def py_splits)
  next
    case s: (Cons s ss')
    have "accept_all w st now auth seen (pr # ps) = Inr ss \<longleftrightarrow>
        accept_packet w st now auth r p = Inr s \<and> ss_uid s \<notin> set seen \<and>
        ss_uid s \<notin> ss_uid ` snd ` set (submissions st) \<and> accept_all w st now auth (ss_uid s # seen) ps = Inr ss'"
      by (auto simp: pr s py_splits guard_def reject_def split: if_splits)
    also have "\<dots> \<longleftrightarrow> accepted_packets w st now auth (pr # ps) ss \<and> fresh_uids seen ss st"
      unfolding Cons.IH by (auto simp: pr s accepted_packets_def fresh_uids_def)
    finally show ?thesis .
  qed
qed

lemma store_all_fresh:
  assumes "distinct (map ss_reference_number ss)" "set (map ss_reference_number ss) \<inter> fst ` set (submissions st) = {}"
  shows "submissions (store_all ss st) = submissions st @ map (\<lambda>s. (ss_reference_number s, s)) ss"
proof -
  have "foldl (\<lambda>d s. dict_set (ss_reference_number s) s d) d ss = d @ map (\<lambda>s. (ss_reference_number s, s)) ss"
    if "distinct (map ss_reference_number ss)" "set (map ss_reference_number ss) \<inter> fst ` set d = {}" for d
    using that
  proof (induction ss arbitrary: d)
    case (Cons s ss)
    have "dict_set (ss_reference_number s) s d = d @ [(ss_reference_number s, s)]"
      using Cons.prems by (simp add: dict_set_fresh)
    moreover have "set (map ss_reference_number ss) \<inter> fst ` set (d @ [(ss_reference_number s, s)]) = {}"
      using Cons.prems by auto
    ultimately show ?case using Cons by simp
  qed simp
  then show ?thesis using assms by (simp add: store_all_def)
qed

lemma accept_packet_reference: "accept_packet w st now auth r p = Inr s \<Longrightarrow> ss_reference_number s = r"
  by (auto simp: accept_packet_def py_splits)

text \<open>
  The identifiers that a request draws are new: \<open>uuid4\<close> does not repeat.
\<close>

definition new_references :: "(nat \<Rightarrow> pystr) \<Rightarrow> mock_state \<Rightarrow> bool" where
  "new_references references st \<longleftrightarrow> inj references \<and> range references \<inter> fst ` set (submissions st) = {}"

lemma batch_stored:
  assumes "new_references references st"
    "accepted_packets w st now auth (zip ps (map references [0..<length ps])) ss"
  shows "length ss = length ps" "map ss_reference_number ss = map references [0..<length ps]"
    "submissions (store_all ss st) = submissions st @ map (\<lambda>s. (ss_reference_number s, s)) ss"
proof -
  show l: "length ss = length ps" using list_all2_lengthD [OF assms(2) [unfolded accepted_packets_def]] by simp
  have "ss_reference_number (ss ! i) = references i" if "i < length ps" for i
    using list_all2_nthD [OF assms(2) [unfolded accepted_packets_def], of i] that accept_packet_reference by fastforce
  then show r: "map ss_reference_number ss = map references [0..<length ps]"
    using l by (auto intro: nth_equalityI)
  have "distinct (map references [0..<length ps])" using assms(1) by (simp add: new_references_def distinct_map inj_on_def inj_def)
  moreover have "set (map references [0..<length ps]) \<inter> fst ` set (submissions st) = {}"
    using assms(1) by (auto simp: new_references_def)
  ultimately show "submissions (store_all ss st) = submissions st @ map (\<lambda>s. (ss_reference_number s, s)) ss"
    using store_all_fresh [of ss st] unfolding r by simp
qed

text \<open>
  C16. A batch is stored whole or not at all: \<open>POST /invoice\<close> either refuses and leaves the server as it
  was, or every one of its 1 to 1000 packets passed all checks under its own reference number, their
  uids are new to the server and to each other, and exactly these submissions are appended in order.
\<close>

theorem batch_all_or_nothing:
  assumes "new_references references st" "post_invoice w now references auth data st = (r, st')"
  shows "(\<exists>e. r = Inl e \<and> st' = st) \<or>
    (\<exists>ps ss. loads_bytes data = Some (JList ps) \<and> ps \<noteq> [] \<and> length ps \<le> 1000 \<and>
       accepted_packets w st now auth (zip ps (map references [0..<length ps])) ss \<and> fresh_uids [] ss st \<and>
       r = Inr (batch_reply now ss) \<and> nonces st' = nonces st \<and>
       submissions st' = submissions st @ map (\<lambda>s. (ss_reference_number s, s)) ss)"
proof (cases r)
  case (Inl e)
  then have "st' = st"
    using assms(2) by (auto simp: post_invoice_def reject_def split: option.splits json.splits sum.splits if_splits)
  with Inl show ?thesis by blast
next
  case (Inr v)
  then obtain ps ss where p: "loads_bytes data = Some (JList ps)" "ps \<noteq> []" "length ps \<le> MAX_PACKETS"
    "accept_all w st now auth [] (zip ps (map references [0..<length ps])) = Inr ss"
    "r = Inr (batch_reply now ss)" "st' = store_all ss st"
    using assms(2) by (auto simp: post_invoice_def reject_def split: option.splits json.splits sum.splits if_splits)
  note a = p(4) [unfolded accept_all_iff]
  have "submissions st' = submissions st @ map (\<lambda>s. (ss_reference_number s, s)) ss"
    using batch_stored(3) [OF assms(1)] a p(6) by blast
  moreover have "nonces st' = nonces st" by (simp add: p(6) store_all_def)
  ultimately show ?thesis using p a by (auto simp: MAX_PACKETS_def)
qed

text \<open>Stored uids stay pairwise different.\<close>

definition uids_distinct :: "mock_state \<Rightarrow> bool" where
  "uids_distinct st \<longleftrightarrow> distinct (map (ss_uid \<circ> snd) (submissions st))"

theorem uids_stay_distinct:
  assumes "uids_distinct st" "new_references references st"
  shows "uids_distinct (snd (post_invoice w now references auth data st))"
proof -
  obtain r st' where p: "post_invoice w now references auth data st = (r, st')" by (cases "post_invoice w now references auth data st")
  consider "st' = st" | ss where "fresh_uids [] ss st"
    "submissions st' = submissions st @ map (\<lambda>s. (ss_reference_number s, s)) ss"
  proof (cases r)
    case (Inl e)
    then have "st' = st"
      using p by (auto simp: post_invoice_def reject_def split: option.splits json.splits sum.splits if_splits)
    then show ?thesis using that by blast
  next
    case (Inr v)
    then obtain ps ss where "accept_all w st now auth [] (zip ps (map references [0..<length ps])) = Inr ss"
      "st' = store_all ss st"
      using p by (auto simp: post_invoice_def reject_def split: option.splits json.splits sum.splits if_splits)
    then show ?thesis using batch_stored(3) [OF assms(2)] by (intro that(2) [of ss]) (auto simp: accept_all_iff)
  qed
  then have "uids_distinct st'"
  proof cases
    case 2
    have "map (ss_uid \<circ> snd) (submissions st') = map (ss_uid \<circ> snd) (submissions st) @ map ss_uid ss"
      by (simp add: 2(2) comp_def)
    then show ?thesis
      using assms(1) 2(1) by (simp add: uids_distinct_def fresh_uids_def image_comp) (simp add: Int_commute)
  qed (use assms(1) in simp)
  with p show ?thesis by simp
qed

section \<open>From the client to the server\<close>

text \<open>
  C14. A packet that the pipeline builds is accepted: when \<open>build_packet\<close> succeeds on the wire form of an
  invoice with a tax id, the organisation decrypts it, verifies it, and stores a submission whose invoice
  bytes are the canonical JSON of that wire form and whose invoice is that wire form without nulls, under
  the uid, the fiscal id and the tax id of the packet.
\<close>

theorem built_packet_accepted:
  assumes "signs_for cr w cert" "accepted_now w st now cert" "utc_ok t" "opens_for cs key w"
    "\<forall>c \<in> set (key_id st). c < 127" "sk_id sk = key_id st" "seals_with sv sk cr t cs key drawn"
    "build_packet sv sk wire fiscal_id uid w0 = (Inr p, w1)"
    "text_ok (float_text sv) wire" "identified wire tax_id" "is_uuid uid" "uid \<noteq> []" "fiscal_id \<noteq> []"
  shows "\<exists>s data. accept_packet w st now auth reference (packet_json p) = Inr s \<and>
    canonical_json (float_text sv) wire = Inr data \<and> ss_invoice_bytes s = data \<and>
    ss_invoice s = strip_nulls wire \<and> ss_uid s = uid \<and> ss_fiscal_id s = fiscal_id \<and> ss_tax_id s = tax_id \<and>
    ss_signer_der s = cred_der cr"
proof -
  obtain data jwe where d: "canonical_json (float_text sv) wire = Inr data" "seal sv sk data w0 = (Inr jwe, w1)"
    "p = \<lparr>payload = jwe, packet_head = \<lparr>requestTraceId = uid, fiscalId = fiscal_id\<rparr>\<rparr>"
    using assms(8) by (auto simp: build_packet_def py_splits)
  have "entropy_ok (drawn w0)" "seal_invoice cr t cs key (key_id st) (drawn w0) data = Inr jwe"
    using assms(6,7) d(2) by (auto simp: seals_with_def dest: spec [of _ w0]) (metis fst_conv)
  then show ?thesis
    using accept_sealed [OF assms(1-4) _ assms(5) d(1) assms(9,10) _ assms(11-13), of "drawn w0" jwe auth reference] d
    by auto
qed

section \<open>A concrete organisation\<close>

text \<open>
  A key pair whose signature is the signed text, a seal that appends sixteen zeros, and a certificate
  that is its own bytes.
\<close>

definition sample_credentials :: credentials where
  "sample_credentials = \<lparr>rsa_sign = (\<lambda>m. Some (map (\<lambda>c. c mod 256) m)), cred_der = [48, 130, 1]\<rparr>"

definition sample_world :: "nat list world" where
  "sample_world = \<lparr>load_certificate = Some, certificate_der = id, not_valid_before = (\<lambda>_. 0),
     not_valid_after = (\<lambda>_. 10 ^ 18), rsa_verify = (\<lambda>_. Some (\<lambda>sig m. sig = map (\<lambda>c. c mod 256) m)),
     oaep_decrypt = Some, gcm_decrypt = (\<lambda>cek iv x aad. Some (take (length x - 16) x)),
     server_sign = (\<lambda>_. []), server_der = [48]\<rparr>"

definition sample_suite :: "unit cipher_suite" where
  "sample_suite = \<lparr>oaep_encrypt = (\<lambda>_ seed cek. if byte_list cek then Some cek else None),
     gcm_encrypt = (\<lambda>cek iv m aad. if byte_list m then Some (m @ replicate 16 0) else None)\<rparr>"

definition sample_mock :: mock_state where
  "sample_mock = \<lparr>key_id = lit ''k1'', nonces = [], submissions = [], payments = [],
     trusted_der = Some [[48, 130, 1]]\<rparr>"

definition sample_utc :: utc_time where
  "sample_utc = \<lparr>u_year = 2025, u_month = 2, u_day = 28, u_hour = 23, u_minute = 59, u_second = 59\<rparr>"

lemma sample_signs: "signs_for sample_credentials sample_world [48, 130, 1]"
  by (auto simp: signs_for_def sample_credentials_def sample_world_def byte_list_def list_all_iff)

lemma sample_cert_accepted: "0 \<le> now \<Longrightarrow> now \<le> 10 ^ 18 \<Longrightarrow> accepted_now sample_world sample_mock now [48, 130, 1]"
  by (simp add: accepted_now_def sample_world_def sample_mock_def)

lemma sample_opens: "opens_for sample_suite () sample_world"
  by (auto simp: opens_for_def sample_suite_def sample_world_def TAG_BYTES_def byte_list_def list_all_iff)

lemma sample_utc_ok: "utc_ok sample_utc"
  by (simp add: utc_ok_def sample_utc_def days_in_month_def)

definition sample_uuid :: pystr where
  "sample_uuid = lit ''00000000-0000-0000-0000-000000000001''"

lemma sample_bearer:
  obtains hv where
    "bearer_token (\<lambda>_. []) sample_credentials sample_utc (fst (fst (issue_nonce 0 sample_uuid 30 sample_mock))) (lit ''A11216'') = Inr hv"
proof -
  let ?v = "JObj [(lit ''nonce'', JStr (fst (fst (issue_nonce 0 sample_uuid 30 sample_mock)))), (lit ''clientId'', JStr (lit ''A11216''))]"
  have ascii: "\<forall>c \<in> set (lit s). c < 256" for s by (auto simp: lit_def)
  have "\<forall>c \<in> json_chars ?v. \<not> surrogate c"
    using ascii set_int_text by (fastforce simp: issue_nonce_def sample_uuid_def Let_def surrogate_def)
  then obtain data where "canonical_json (\<lambda>_. []) ?v = Inr data"
    using canonical_json_total [of ?v "\<lambda>_. []"] by auto
  then show ?thesis
    using that by (auto simp: bearer_token_def jws_sign_def sample_credentials_def Let_def)
qed

theorem fresh_bearer_accepted_once_witness:
  "\<exists>hv st2 e. authenticate sample_world 5000000 (Some hv) (snd (issue_nonce 0 sample_uuid 30 sample_mock)) =
      (Inr \<lparr>ac_client_id = lit ''A11216'', ac_nonce = fst (fst (issue_nonce 0 sample_uuid 30 sample_mock))\<rparr>, st2) \<and>
    authenticate sample_world 6000000 (Some hv) st2 = (Inl e, st2)"
proof -
  obtain hv where v:
    "bearer_token (\<lambda>_. []) sample_credentials sample_utc (fst (fst (issue_nonce 0 sample_uuid 30 sample_mock))) (lit ''A11216'') = Inr hv"
    using sample_bearer .
  have i: "issue_nonce 0 sample_uuid 30 sample_mock =
      ((fst (fst (issue_nonce 0 sample_uuid 30 sample_mock)), 30000000), snd (issue_nonce 0 sample_uuid 30 sample_mock))"
    by (simp add: issue_nonce_def Let_def NONCE_TTL_MIN_def NONCE_TTL_MAX_def)
  have "unicode (lit s)" for s by (auto simp: unicode_def lit_def less_trans [of _ 256])
  then show ?thesis
    using fresh_bearer_accepted_once [OF sample_signs sample_cert_accepted sample_utc_ok i _ v, of 5000000 6000000]
    by (auto simp: sample_uuid_def unicode_def [of "[]"])
qed

theorem nonce_spent_once_witness:
  "\<exists>hv st2 e. authenticate sample_world 5000000 (Some hv) (snd (issue_nonce 0 sample_uuid 30 sample_mock)) =
      (Inr \<lparr>ac_client_id = lit ''A11216'', ac_nonce = fst (fst (issue_nonce 0 sample_uuid 30 sample_mock))\<rparr>, st2) \<and>
    authenticate sample_world 7000000 (Some hv)
      (mock_run sample_world [(6000000, Some hv, ServerInformation), (6000000, None, InvoiceStatus [])] st2) =
    (Inl e, mock_run sample_world [(6000000, Some hv, ServerInformation), (6000000, None, InvoiceStatus [])] st2)"
proof -
  obtain hv where v:
    "bearer_token (\<lambda>_. []) sample_credentials sample_utc (fst (fst (issue_nonce 0 sample_uuid 30 sample_mock))) (lit ''A11216'') = Inr hv"
    using sample_bearer .
  have i: "issue_nonce 0 sample_uuid 30 sample_mock =
      ((fst (fst (issue_nonce 0 sample_uuid 30 sample_mock)), 30000000), snd (issue_nonce 0 sample_uuid 30 sample_mock))"
    by (simp add: issue_nonce_def Let_def NONCE_TTL_MIN_def NONCE_TTL_MAX_def)
  have u: "unicode (lit s)" for s by (auto simp: unicode_def lit_def less_trans [of _ 256])
  then obtain st2 where a: "authenticate sample_world 5000000 (Some hv) (snd (issue_nonce 0 sample_uuid 30 sample_mock)) =
      (Inr \<lparr>ac_client_id = lit ''A11216'', ac_nonce = fst (fst (issue_nonce 0 sample_uuid 30 sample_mock))\<rparr>, st2)"
    using fresh_bearer_lets_in [OF sample_signs sample_cert_accepted sample_utc_ok i _ v, of 5000000 6000000]
    by (auto simp: sample_uuid_def unicode_def [of "[]"])
  have "\<forall>ev \<in> set [(6000000, Some hv, ServerInformation), (6000000, None, InvoiceStatus [])].
      nonce_issued ev \<noteq> Some (fst (fst (issue_nonce 0 sample_uuid 30 sample_mock)))"
    by (simp add: nonce_issued_def)
  with a nonce_spent_once [OF a, of "[(6000000, Some hv, ServerInformation), (6000000, None, InvoiceStatus [])]"]
  show ?thesis by fastforce
qed

definition sample_references :: "nat \<Rightarrow> pystr" where
  "sample_references i = replicate (Suc i) 65"

lemma sample_references_new: "new_references sample_references sample_mock"
  by (auto simp: new_references_def sample_references_def sample_mock_def inj_def dest: arg_cong [of _ _ length])

theorem batch_all_or_nothing_witness:
  "(\<exists>e. fst (post_invoice sample_world 5 sample_references \<lparr>ac_client_id = [65], ac_nonce = [66]\<rparr> [91, 93] sample_mock) = Inl e) \<and>
   snd (post_invoice sample_world 5 sample_references \<lparr>ac_client_id = [65], ac_nonce = [66]\<rparr> [91, 93] sample_mock) = sample_mock"
proof -
  have l: "loads_bytes [91, 93] = Some (JList [])"
    by (simp add: loads_bytes_def decode_detected_def loads_def lex.simps json_space_def emit_def)
  show ?thesis
    using batch_all_or_nothing [OF sample_references_new surjective_pairing,
        of sample_world 5 "\<lparr>ac_client_id = [65], ac_nonce = [66]\<rparr>" "[91, 93]"] l by auto
qed

definition sample_entropy :: entropy where
  "sample_entropy = \<lparr>e_cek = replicate 32 7, e_iv = replicate 12 9, e_seed = []\<rparr>"

definition sample_services :: "unit services" where
  "sample_services = \<lparr>draw_serial = returnM 1, new_uid = returnM [], get_server_information = raiseM TransportError,
     load_key = (\<lambda>_. Inr ()),
     seal = (\<lambda>sk data w. (seal_invoice sample_credentials sample_utc sample_suite () (sk_id sk) sample_entropy data, w)),
     submit_invoices = (\<lambda>_. raiseM TransportError), inquiry_by_reference_id = (\<lambda>_. returnM []),
     sleep = (\<lambda>_ w. w), monotonic = (\<lambda>_. 0), tehran_offset = (\<lambda>_. 0), float_text = (\<lambda>_. [])\<rparr>"

definition sample_key :: server_key where
  "sample_key = \<lparr>sk_id = lit ''k1'', sk_key = [], sk_algorithm = lit ''RSA'', sk_purpose = 1\<rparr>"

definition sample_wire :: json where
  "sample_wire = JObj
     [(lit ''header'', JObj [(lit ''taxid'', JStr (lit ''A1121604F28000000000A3'')), (lit ''inno'', JNull)]),
      (lit ''body'', JList [])]"

lemma sample_seals: "seals_with sample_services sample_key sample_credentials sample_utc sample_suite () (\<lambda>_. sample_entropy)"
  by (simp add: seals_with_def sample_services_def entropy_ok_def sample_entropy_def byte_list_def list_all_iff)

lemma sample_built:
  obtains p where "build_packet sample_services sample_key sample_wire (lit ''A11216'') sample_uuid () = (Inr p, ())"
proof -
  have lt: "\<forall>c \<in> set (lit s). c < 256" for s by (auto simp: lit_def)
  then have "\<forall>c \<in> json_chars sample_wire. \<not> surrogate c" by (fastforce simp: sample_wire_def surrogate_def)
  moreover have "json_floats sample_wire = []" by (simp add: sample_wire_def)
  ultimately obtain data where data: "canonical_json (\<lambda>_. []) sample_wire = Inr data"
    using canonical_json_total [of sample_wire "\<lambda>_. []"] by auto
  have "text_ok (\<lambda>_. []) sample_wire" using lt by (fastforce simp: text_ok_def sample_wire_def)
  note bytes = canonical_bytes(1) [OF data this]
  obtain jws where jws: "jws_sign sample_credentials sample_utc data = Inr jws"
    by (auto simp: jws_sign_def sample_credentials_def Let_def)
  have c: "\<forall>c \<in> set jws. c < 127" using jws_sign_chars(1) [OF sample_signs bytes jws] by blast
  then have "utf8 jws = Some jws" by (intro utf8_ascii) fastforce
  moreover have "byte_list jws" using c byte_list_ascii by blast
  ultimately obtain jwe where "jwe_encrypt sample_suite () (lit ''k1'') sample_entropy jws = Inr jwe"
    by (auto simp: jwe_encrypt_def sample_suite_def sample_entropy_def byte_list_def list_all_iff Let_def)
  then show ?thesis
    using that data jws by (auto simp: build_packet_def sample_services_def sample_key_def seal_invoice_def bindM_def)
qed

lemma sample_uuid_ok: "is_uuid sample_uuid"
proof -
  have r: "remove_all (lit ''uuid:'') (remove_all (lit ''urn:'') sample_uuid) = sample_uuid"
    by (simp add: remove_all.simps sample_uuid_def lit_def)
  have f: "filter (\<lambda>c. c \<noteq> 45) sample_uuid = fmt_hex 32 1"
    by (simp add: sample_uuid_def fmt_eval)
  have l: "length (fmt_hex 32 1) = 32" by (simp add: fmt_hex_def length_render)
  have "py_int 16 (fmt_hex 32 1) = Some 1" using py_int_fmt_hex [of 32 1] l by (simp add: max_int_digits_def)
  moreover note l
  moreover have "dropWhile (\<lambda>c. c = 123 \<or> c = 125) sample_uuid = sample_uuid"
    "rev (dropWhile (\<lambda>c. c = 123 \<or> c = 125) (rev sample_uuid)) = sample_uuid"
    by (simp_all add: sample_uuid_def lit_def)
  ultimately show ?thesis by (simp add: is_uuid_def r f)
qed

lemma sample_wire_ok:
  "text_ok (float_text sample_services) sample_wire" "identified sample_wire (lit ''A1121604F28000000000A3'')"
proof -
  have lt: "\<forall>c \<in> set (lit s). c < 256" for s by (auto simp: lit_def)
  show "text_ok (float_text sample_services) sample_wire"
    using lt by (fastforce simp: text_ok_def sample_wire_def sample_services_def)
  show "identified sample_wire (lit ''A1121604F28000000000A3'')"
    by (simp add: identified_def sample_wire_def)
qed

theorem built_packet_accepted_witness:
  "\<exists>p s. build_packet sample_services sample_key sample_wire (lit ''A11216'') sample_uuid () = (Inr p, ()) \<and>
    accept_packet sample_world sample_mock 5 \<lparr>ac_client_id = lit ''A11216'', ac_nonce = [66]\<rparr> [65] (packet_json p) = Inr s \<and>
    ss_invoice s = strip_nulls sample_wire \<and> ss_tax_id s = lit ''A1121604F28000000000A3''"
proof -
  obtain p where p: "build_packet sample_services sample_key sample_wire (lit ''A11216'') sample_uuid () = (Inr p, ())"
    using sample_built .
  have kid: "\<forall>c \<in> set (key_id sample_mock). c < 127" by (simp add: sample_mock_def lit_def)
  have key: "sk_id sample_key = key_id sample_mock" by (simp add: sample_key_def sample_mock_def)
  have uuid: "is_uuid sample_uuid" by (rule sample_uuid_ok)
  show ?thesis
    using built_packet_accepted [OF sample_signs sample_cert_accepted sample_utc_ok sample_opens kid key sample_seals p sample_wire_ok uuid, of 5]
      p by (auto simp: sample_uuid_def)
qed

end
