(* ===== verification/Exchange.thy ===== *)
theory Exchange
  imports Organisation Client
begin

text \<open>
  The client and the stand-in organisation on one wire: the routes, query parameters and error
  envelope of \<open>create_mock_app\<close> as a network for \<open>MoadianClient\<close>.

  Requests are numbered; request \<open>k\<close> arrives at its own time and draws its own identifiers. What
  FastAPI takes for an \<open>int\<close> parameter, \<open>datetime.fromisoformat\<close> and the texts of messages are
  parameters. A reply reaches the client as the JSON value it carries.
\<close>

section \<open>The organisation as a network\<close>

record 'cert exchange =
  ex_base :: pystr
  ex_world :: "'cert world"
  ex_time :: "nat \<Rightarrow> int"
  ex_uuid :: "nat \<Rightarrow> pystr"
  ex_reference :: "nat \<Rightarrow> nat \<Rightarrow> pystr"
  ex_int :: "pystr \<Rightarrow> int option"
  ex_from_iso :: "pystr \<Rightarrow> (int \<times> int option) option"
  ex_message :: "pystr \<Rightarrow> pystr"

definition NONCE_TTL_DEFAULT :: int where "NONCE_TTL_DEFAULT = 30"

text \<open>\<open>_FRACTION.sub\<close> drops the digits after the sixth of a fraction.\<close>

abbreviation is_digit :: "nat \<Rightarrow> bool" where
  "is_digit c \<equiv> decimal_value c \<noteq> None"

function fraction_sub :: "pystr \<Rightarrow> pystr" where
  "fraction_sub s =
     (case s of
        [] \<Rightarrow> []
      | c # r \<Rightarrow>
          if c = 46 \<and> 7 \<le> length (takeWhile is_digit r)
          then 46 # take 6 r @ fraction_sub (dropWhile is_digit r)
          else c # fraction_sub r)"
  by pat_completeness auto
termination
  by (relation "measure length") (auto simp: less_Suc_eq_le length_dropWhile_le)

declare fraction_sub.simps [simp del]

text \<open>\<open>_parse_timestamp\<close>: a local time and its offset, in microseconds; a naive one is UTC.\<close>

definition parse_timestamp :: "'cert exchange \<Rightarrow> pystr \<Rightarrow> int option" where
  "parse_timestamp ex s =
     (case ex_from_iso ex (fraction_sub s) of
        None \<Rightarrow> None
      | Some (t, None) \<Rightarrow> Some t
      | Some (t, Some offset) \<Rightarrow> Some (t - offset))"

section \<open>Routes\<close>

definition all_params :: "string \<Rightarrow> (pystr \<times> pystr) list \<Rightarrow> pystr list" where
  "all_params k ps = map snd (filter (\<lambda>p. fst p = lit k) ps)"

definition param :: "string \<Rightarrow> (pystr \<times> pystr) list \<Rightarrow> pystr option" where
  "param k ps = (case all_params k ps of [] \<Rightarrow> None | x # xs \<Rightarrow> Some (last (x # xs)))"

definition int_param :: "'cert exchange \<Rightarrow> int option \<Rightarrow> string \<Rightarrow> (pystr \<times> pystr) list \<Rightarrow> int option" where
  "int_param ex d k ps = (case param k ps of None \<Rightarrow> d | Some s \<Rightarrow> ex_int ex s)"

text \<open>
  Where a request goes: nowhere with a status, to a parameter FastAPI refuses, to a handler with a
  timestamp the handler refuses, or to a handler.
\<close>

datatype routed = NoRoute int | BadQuery bool | BadTime mock_request | Routed mock_request

definition timed ::
    "'cert exchange \<Rightarrow> (pystr \<times> pystr) list \<Rightarrow> (int option \<Rightarrow> int option \<Rightarrow> mock_request) \<Rightarrow> routed" where
  "timed ex ps req =
     (let parse = (\<lambda>v. case v of None \<Rightarrow> Some None | Some s \<Rightarrow> map_option Some (parse_timestamp ex s))
      in case (parse (param ''start'' ps), parse (param ''end'' ps)) of
           (Some start, Some until) \<Rightarrow> Routed (req start until)
         | _ \<Rightarrow> BadTime (req None None))"

definition ENDPOINTS :: "pystr list" where
  "ENDPOINTS = [NONCE, SERVER_INFORMATION, INVOICE, INQUIRY_BY_REFERENCE_ID, INQUIRY_BY_UID, INQUIRY,
     INQUIRY_INVOICE_STATUS, TAXPAYER, TAXPAYER_INFO, TAXPAYER_ARTICLE6_STATUS, INVOICE_PAYMENT,
     FISCAL_INFORMATION]"

definition endpoint_at :: "'cert exchange \<Rightarrow> pystr \<Rightarrow> pystr option" where
  "endpoint_at ex url = find (\<lambda>name. build_url (ex_base ex) name = url) ENDPOINTS"

definition route_get :: "'cert exchange \<Rightarrow> nat \<Rightarrow> pystr \<Rightarrow> (pystr \<times> pystr) list \<Rightarrow> routed" where
  "route_get ex k name ps =
     (if name = NONCE then
        (case int_param ex (Some NONCE_TTL_DEFAULT) ''timeToLive'' ps of
           None \<Rightarrow> BadQuery False | Some ttl \<Rightarrow> Routed (GetNonce (ex_uuid ex k) ttl))
      else if name = SERVER_INFORMATION then Routed ServerInformation
      else if name = INQUIRY_BY_REFERENCE_ID then timed ex ps (ByReferenceId (all_params ''referenceIds'' ps))
      else if name = INQUIRY_BY_UID then timed ex ps (ByUid (all_params ''uidList'' ps) (param ''fiscalId'' ps))
      else if name = INQUIRY then
        (case (int_param ex (Some 1) ''pageNumber'' ps, int_param ex (Some 10) ''pageSize'' ps) of
           (Some number, Some page) \<Rightarrow> timed ex ps (InquiryPage number page (param ''status'' ps))
         | _ \<Rightarrow> BadQuery True)
      else if name = INQUIRY_INVOICE_STATUS then Routed (InvoiceStatus (all_params ''taxIds'' ps))
      else if name = TAXPAYER \<or> name = TAXPAYER_INFO then
        (case param ''economicCode'' ps of None \<Rightarrow> BadQuery True | Some code \<Rightarrow> Routed (Taxpayer (name = TAXPAYER_INFO) code))
      else if name = TAXPAYER_ARTICLE6_STATUS then
        (case (param ''economicCode'' ps, int_param ex None ''vatValue'' ps, int_param ex None ''period'' ps) of
           (Some code, Some vat_value, Some period) \<Rightarrow> Routed (Article6 code vat_value period)
         | _ \<Rightarrow> BadQuery True)
      else if name = FISCAL_INFORMATION then
        (case param ''memoryId'' ps of None \<Rightarrow> BadQuery True | Some m \<Rightarrow> Routed (FiscalInformation m))
      else NoRoute 405)"

definition route_post :: "'cert exchange \<Rightarrow> nat \<Rightarrow> pystr \<Rightarrow> nat list option \<Rightarrow> routed" where
  "route_post ex k name content =
     (let data = (case content of None \<Rightarrow> [] | Some bytes \<Rightarrow> bytes)
      in if name = INVOICE then Routed (PostInvoice (ex_reference ex k) data)
         else if name = INVOICE_PAYMENT then Routed (PostPayment data)
         else NoRoute 405)"

definition route :: "'cert exchange \<Rightarrow> nat \<Rightarrow> http_request \<Rightarrow> routed" where
  "route ex k q =
     (case endpoint_at ex (hq_url q) of
        None \<Rightarrow> NoRoute 404
      | Some name \<Rightarrow>
          if hq_method q = lit ''GET'' then route_get ex k name (hq_params q)
          else if hq_method q = lit ''POST'' then route_post ex k name (hq_content q)
          else NoRoute 405)"

section \<open>Replies\<close>

definition envelope_reply :: "'cert exchange \<Rightarrow> nat \<Rightarrow> rejection \<Rightarrow> http_reply" where
  "envelope_reply ex k r =
     \<lparr>reply_code = fst r,
      reply_json = Some (JObj
        [(lit ''timestamp'', JInt (millis (ex_time ex k))), (lit ''requestTraceId'', JStr (ex_uuid ex k)),
         (lit ''errors'', JList [JObj [(lit ''code'', JStr (snd r)), (lit ''message'', JStr (ex_message ex (snd r)))]])])\<rparr>"

definition reply_of :: "'cert exchange \<Rightarrow> nat \<Rightarrow> json answered \<Rightarrow> http_reply" where
  "reply_of ex k r =
     (case r of Inl e \<Rightarrow> envelope_reply ex k e | Inr v \<Rightarrow> \<lparr>reply_code = 200, reply_json = Some v\<rparr>)"

definition authorization_of :: "http_request \<Rightarrow> pystr option" where
  "authorization_of q = map_of (map (\<lambda>(h, v). (map lower_point h, v)) (hq_headers q)) (lit ''authorization'')"

text \<open>
  A parameter that FastAPI refuses is refused after the token is spent, one of the public route at
  once; a handler looks at its timestamps last.
\<close>

definition mock_answer ::
    "'cert exchange \<Rightarrow> nat \<Rightarrow> http_request \<Rightarrow> mock_state \<Rightarrow> json answered \<times> mock_state" where
  "mock_answer ex k q st =
     (let step = (\<lambda>req. mock_step (ex_world ex) (ex_time ex k) (authorization_of q) req st)
      in case route ex k q of
           NoRoute status \<Rightarrow> (reject status (if status = 405 then ''4100'' else ''4147''), st)
         | BadQuery checked \<Rightarrow>
             if checked then
               (case authenticate (ex_world ex) (ex_time ex k) (authorization_of q) st of
                  (Inl e, st') \<Rightarrow> (Inl e, st') | (Inr _, st') \<Rightarrow> (reject 400 ''4147'', st'))
             else (reject 400 ''4147'', st)
         | BadTime req \<Rightarrow>
             (case step req of (Inl e, st') \<Rightarrow> (Inl e, st') | (Inr _, st') \<Rightarrow> (reject 400 ''4147'', st'))
         | Routed req \<Rightarrow> step req)"

type_synonym wire_state = "nat \<times> mock_state"

definition mock_transport :: "'cert exchange \<Rightarrow> http_request \<Rightarrow> wire_state \<Rightarrow> http_reply option \<times> wire_state" where
  "mock_transport ex q s =
     (case s of (k, st) \<Rightarrow>
        case mock_answer ex k q st of (r, st') \<Rightarrow> (Some (reply_of ex k r), (Suc k, st')))"

section \<open>Refusals of the handlers\<close>

definition refuses_with :: "int set \<Rightarrow> 'a answered \<Rightarrow> bool" where
  "refuses_with S r \<longleftrightarrow> (\<forall>status code. r = Inl (status, code) \<longrightarrow> status \<in> S)"

named_theorems refusals "with which statuses an answer refuses"

lemma refuses_basic [refusals]:
  "refuses_with S (Inr x)"
  "status \<in> S \<Longrightarrow> refuses_with S (reject status code)"
  "status \<in> S \<Longrightarrow> refuses_with S (guard ok status code)"
  "status \<in> S \<Longrightarrow> refuses_with S (or_reject v status code)"
  "status \<in> S \<Longrightarrow> refuses_with S (restated status r)"
  by (auto simp: refuses_with_def reject_def guard_def or_reject_def restated_def split: option.splits sum.splits)

lemma refuses_bindE [refusals]:
  "refuses_with S m \<Longrightarrow> (\<And>x. refuses_with S (f x)) \<Longrightarrow> refuses_with S (bindE m f)"
  unfolding refuses_with_def bindE_eq_Inl by blast

lemma refuses_if [refusals]:
  "refuses_with S a \<Longrightarrow> refuses_with S b \<Longrightarrow> refuses_with S (if c then a else b)"
  by simp

lemma refuses_window [refusals]: "refuses_with {400, 404} (window now start until ss)"
  unfolding window_def Let_def by (intro refusals) auto

lemma refuses_check_code [refusals]: "refuses_with {400, 404} (check_economic_code code)"
  unfolding check_economic_code_def by (intro refusals) simp

lemma refuses_decrypt [refusals]: "refuses_with {400, 404} (decrypt_jwe w st token)"
  unfolding decrypt_jwe_def
  by (auto split: list.split option.split json.split intro!: refusals)

lemma refuses_accept [refusals]: "refuses_with {400, 404} (accept_packet w st now auth reference p)"
  unfolding accept_packet_def by (intro refusals) (auto intro!: refusals split: prod.split)

lemma refuses_accept_all [refusals]: "refuses_with {400, 404} (accept_all w st now auth seen ps)"
proof (induction ps arbitrary: seen)
  case (Cons pr ps)
  then show ?case by (cases pr) (auto intro!: refusals)
qed (simp add: refusals)

lemma refuses_payment [refusals]:
  "refuses_with {400, 404} (required_int kvs name)"
  "refuses_with {400, 404} (optional_str kvs name)"
  "refuses_with {400, 404} (accept_payment methods now auth kvs)"
proof -
  show r: "refuses_with {400, 404} (required_int kvs name)" for kvs name
    unfolding required_int_def by (auto split: option.split json.split intro!: refusals)
  show o: "refuses_with {400, 404} (optional_str kvs name)" for kvs name
    unfolding optional_str_def by (auto split: option.split json.split intro!: refusals)
  show "refuses_with {400, 404} (accept_payment methods now auth kvs)"
    unfolding accept_payment_def Let_def by (intro refusals r o) auto
qed

lemma refuses_post_invoice: "refuses_with {400, 404} (fst (post_invoice w now references auth data st))"
  using refuses_accept_all [of w st now auth "[]"]
  by (auto simp: post_invoice_def refuses_with_def reject_def split: option.splits json.splits sum.splits)

lemma refuses_post_payment: "refuses_with {400, 404} (fst (post_payment now auth data st))"
  using refuses_payment(3) [of PAYMENT_METHODS now auth]
  by (auto simp: post_payment_def refuses_with_def reject_def split: option.splits json.splits sum.splits)

lemma refuses_endpoint:
  assumes "\<forall>uuid ttl. req \<noteq> GetNonce uuid ttl"
  shows "refuses_with {400, 404} (fst (protected_endpoint w now auth req st))"
  using assms refuses_post_invoice refuses_post_payment
  by (cases req) (auto simp: by_reference_id_def by_uid_list_def inquiry_page_def invoice_status_reply_def
      article6_reply_def fiscal_reply_def taxpayer_reply_def Let_def intro!: refusals)

section \<open>Finding the way\<close>

lemma build_url_eq [simp]: "build_url base a = build_url base b \<longleftrightarrow> lstrip_char 47 a = lstrip_char 47 b"
  by (simp add: build_url_def)

lemmas endpoint_names = NONCE_def SERVER_INFORMATION_def INVOICE_def INVOICE_PAYMENT_def INQUIRY_def
  INQUIRY_BY_UID_def INQUIRY_BY_REFERENCE_ID_def INQUIRY_INVOICE_STATUS_def TAXPAYER_def TAXPAYER_INFO_def
  TAXPAYER_ARTICLE6_STATUS_def FISCAL_INFORMATION_def

lemma endpoints_plain: "name \<in> set ENDPOINTS \<Longrightarrow> lstrip_char 47 name = name"
  by (auto simp: ENDPOINTS_def endpoint_names lit_def lstrip_char_def)

lemma find_first: "x \<in> set xs \<Longrightarrow> find (\<lambda>y. y = x) xs = Some x"
  by (induction xs) auto

lemma endpoint_at_url [simp]: "name \<in> set ENDPOINTS \<Longrightarrow> endpoint_at ex (build_url (ex_base ex) name) = Some name"
proof -
  assume n: "name \<in> set ENDPOINTS"
  have "endpoint_at ex (build_url (ex_base ex) name) = find (\<lambda>y. y = name) ENDPOINTS"
    unfolding endpoint_at_def build_url_eq using endpoints_plain n by (intro find_cong) auto
  then show ?thesis using find_first [OF n] by simp
qed

lemma authorization_of_request [simp]:
  "authorization_of (resource_request cl verb name ps content token) = Some token"
proof -
  have "map lower_point AUTHORIZATION = lit ''authorization''"
    "map lower_point (lit ''Accept'') \<noteq> lit ''authorization''"
    "map lower_point (lit ''Content-Type'') \<noteq> lit ''authorization''"
    by (simp_all add: AUTHORIZATION_def lit_def lower_point_def ascii_defs)
  moreover have "AUTHORIZATION \<noteq> lit ''Accept''" "AUTHORIZATION \<noteq> lit ''Content-Type''"
    by (simp_all add: AUTHORIZATION_def)
  ultimately show ?thesis
    by (simp add: authorization_of_def resource_request_def JSON_HEADERS_def JSON_CONTENT_TYPE_def)
qed

lemma authenticate_frame:
  "submissions (snd (authenticate w now a st)) = submissions st"
  "payments (snd (authenticate w now a st)) = payments st"
  "key_id (snd (authenticate w now a st)) = key_id st"
  "trusted_der (snd (authenticate w now a st)) = trusted_der st"
  by (auto simp: authenticate_def consume_nonce_def reject_def split: sum.splits prod.splits option.splits)

section \<open>A client wired to the organisation\<close>

definition ascii_text :: "pystr \<Rightarrow> bool" where
  "ascii_text s \<longleftrightarrow> (\<forall>c \<in> set s. c < 128)"

text \<open>
  The client talks to this organisation under its address with a key pair the organisation can
  verify, its identifiers are ASCII, and a request follows its nonce within ten seconds, the
  shortest life of a nonce.
\<close>

definition wired :: "'cert exchange \<Rightarrow> 'cert \<Rightarrow> wire_state client \<Rightarrow> bool" where
  "wired ex cert cl \<longleftrightarrow>
     cl_transport cl = mock_transport ex \<and> cl_base_url cl = ex_base ex \<and> coercions_ok (cl_coercions cl) \<and>
     signs_for (cl_credentials cl) (ex_world ex) cert \<and> (\<forall>m. rsa_sign (cl_credentials cl) m \<noteq> None) \<and>
     (\<forall>s. utc_ok (cl_now cl s)) \<and> ascii_text (cl_client_id cl) \<and> cl_client_id cl \<noteq> [] \<and>
     (\<forall>x. ascii_text (cl_float_text cl x)) \<and> (\<forall>k. ascii_text (ex_uuid ex k)) \<and>
     ex_int ex (int_text (cl_time_to_live cl)) = Some (cl_time_to_live cl) \<and>
     (\<forall>k. ex_time ex (Suc k) < ex_time ex k + 10 * 1000000)"

lemma ascii_text_unicode: "ascii_text s \<Longrightarrow> unicode s"
  by (auto simp: ascii_text_def unicode_def)

lemma ascii_append [simp]: "ascii_text (s @ t) \<longleftrightarrow> ascii_text s \<and> ascii_text t"
  by (auto simp: ascii_text_def)

lemma ascii_Cons [simp]: "ascii_text (c # s) \<longleftrightarrow> c < 128 \<and> ascii_text s" "ascii_text []"
  by (auto simp: ascii_text_def)

lemma ascii_int_text: "ascii_text (int_text n)"
  using set_int_text by (fastforce simp: ascii_text_def)

lemma ascii_canonical:
  assumes "\<forall>c \<in> json_chars v. c < 128" "\<forall>x. ascii_text (ftx x)" "json_floats v = []"
  shows "\<exists>bytes. canonical_json ftx v = Inr bytes"
proof -
  have "\<not> surrogate c" if "c < 128" for c using that by (simp add: surrogate_def)
  then show ?thesis using assms by (intro canonical_json_total) (auto simp: ascii_text_def)
qed

lemma bearer_token_total:
  assumes "\<forall>m. rsa_sign cr m \<noteq> None" "ascii_text n" "ascii_text client" "\<forall>x. ascii_text (ftx x)"
  shows "\<exists>token. bearer_token ftx cr t n client = Inr token"
proof -
  let ?v = "JObj [(lit ''nonce'', JStr n), (lit ''clientId'', JStr client)]"
  have "\<forall>c \<in> json_chars ?v. c < 128" using assms(2,3) by (auto simp: ascii_text_def lit_def)
  then obtain data where "canonical_json ftx ?v = Inr data" using ascii_canonical [OF _ assms(4)] by force
  moreover obtain token where "jws_sign cr t data = Inr token"
    using assms(1) by (force simp: jws_sign_def Let_def split: option.splits)
  ultimately show ?thesis by (simp add: bearer_token_def)
qed

text \<open>The nonce of request \<open>k\<close>, and the state in which it is spent.\<close>

definition issued_by :: "'cert exchange \<Rightarrow> wire_state client \<Rightarrow> nat \<Rightarrow> mock_state \<Rightarrow> (pystr \<times> int) \<times> mock_state" where
  "issued_by ex cl k st = issue_nonce (ex_time ex k) (ex_uuid ex k) (cl_time_to_live cl) st"

lemma nonce_answer:
  assumes "wired ex cert cl" "issued_by ex cl k st = ((n, expires), st1)"
  shows "mock_transport ex (nonce_request cl) (k, st) =
    (Some \<lparr>reply_code = 200, reply_json = Some (nonce_reply n (iso_nanos expires))\<rparr>, (Suc k, st1))"
proof -
  have p: "param ''timeToLive'' [(lit ''timeToLive'', v)] = Some v" for v
    by (simp add: param_def all_params_def)
  have "NONCE \<in> set ENDPOINTS" by (simp add: ENDPOINTS_def)
  then have "route ex k (nonce_request cl) = Routed (GetNonce (ex_uuid ex k) (cl_time_to_live cl))"
    using assms(1) by (simp add: route_def nonce_request_def wired_def route_get_def int_param_def p)
  then show ?thesis
    using assms(2) by (simp add: mock_transport_def mock_answer_def mock_step_def issued_by_def reply_of_def)
qed

lemma fetch_nonce_served:
  assumes "wired ex cert cl" "issued_by ex cl k st = ((n, expires), st1)"
  shows "fetch_nonce cl (k, st) = (Inr \<lparr>nonce = n, expDate = iso_nanos expires\<rparr>, (Suc k, st1))"
proof -
  have "read_nonce (nonce_reply n (iso_nanos expires)) = Some \<lparr>nonce = n, expDate = iso_nanos expires\<rparr>"
    by (simp add: read_nonce_def nonce_reply_def as_dict_def need_def as_str_def)
  then show ?thesis
    using nonce_answer [OF assms] assms(1)
    by (simp add: fetch_nonce_def bindM_def send_def wired_def raise_for_api_error_def is_success_def
        decode_model_def decode_json_body_def)
qed

lemma fresh_token_served:
  assumes "wired ex cert cl" "issued_by ex cl k st = ((n, expires), st1)"
  shows "\<exists>token. fresh_token cl (k, st) = (Inr token, (Suc k, st1)) \<and> ascii_text n \<and> n \<noteq> [] \<and>
    bearer_token (cl_float_text cl) (cl_credentials cl) (cl_now cl (Suc k, st1)) n (cl_client_id cl) = Inr token"
proof -
  have n: "n = ex_uuid ex k @ [45] @ int_text (millis (ex_time ex k))"
    using assms(2) by (auto simp: issued_by_def issue_nonce_def Let_def)
  moreover have "ascii_text (ex_uuid ex k)" using assms(1) by (simp add: wired_def)
  ultimately have "ascii_text n" using ascii_int_text by (simp del: int_text.simps)
  then obtain token where
    t: "bearer_token (cl_float_text cl) (cl_credentials cl) (cl_now cl (Suc k, st1)) n (cl_client_id cl) = Inr token"
    using bearer_token_total assms(1) by (force simp: wired_def)
  then have "fresh_token cl (k, st) = (Inr token, (Suc k, st1))"
    using fetch_nonce_served [OF assms] by (simp add: fresh_token_def bindM_def token_for_def)
  with t \<open>ascii_text n\<close> n show ?thesis by simp
qed

lemma issued_frame:
  assumes "issued_by ex cl k st = ((n, expires), st1)"
  shows "submissions st1 = submissions st" "payments st1 = payments st" "key_id st1 = key_id st"
    "trusted_der st1 = trusted_der st" "ex_time ex k + 10 * 1000000 \<le> expires"
  using assms by (auto simp: issued_by_def issue_nonce_def Let_def NONCE_TTL_MIN_def NONCE_TTL_MAX_def)

lemma token_lets_in:
  assumes "wired ex cert cl" "issued_by ex cl k st = ((n, expires), st1)"
    "accepted_now (ex_world ex) st (ex_time ex (Suc k)) cert"
    "bearer_token (cl_float_text cl) (cl_credentials cl) t n (cl_client_id cl) = Inr token" "utc_ok t"
  shows "authenticate (ex_world ex) (ex_time ex (Suc k)) (Some token) st1 =
    (Inr \<lparr>ac_client_id = cl_client_id cl, ac_nonce = n\<rparr>,
     snd (authenticate (ex_world ex) (ex_time ex (Suc k)) (Some token) st1))"
proof -
  have "ex_time ex (Suc k) < ex_time ex k + 10 * 1000000" using assms(1) by (simp only: wired_def)
  then have "ex_time ex (Suc k) < expires" using issued_frame(5) [OF assms(2)] by (rule less_le_trans)
  then show ?thesis
    using fresh_bearer_lets_in [OF _ assms(3) assms(5) assms(2) [unfolded issued_by_def] _ assms(4)] assms(1)
    by (force simp: wired_def ascii_text_unicode)
qed

section \<open>Calls that are served\<close>

text \<open>What the caller gets for the answer of a handler to request \<open>k\<close>.\<close>

definition delivered :: "'cert exchange \<Rightarrow> nat \<Rightarrow> json answered \<Rightarrow> http_reply result" where
  "delivered ex k r =
     (case r of
        Inr v \<Rightarrow> Inr \<lparr>reply_code = 200, reply_json = Some v\<rparr>
      | Inl (status, code) \<Rightarrow>
          Inl (TaxApiError \<lparr>status_code = Some status, api_errors = [(code, ex_message ex code)],
            request_trace_id = Some (ex_uuid ex k)\<rparr>))"

lemma envelope_read:
  assumes "coercions_ok cv"
  shows "Option.bind (reply_json (envelope_reply ex k (status, code))) (read_envelope cv) =
    Some \<lparr>en_timestamp = Some (millis (ex_time ex k)), en_requestTraceId = Some (ex_uuid ex k),
      en_errors = [\<lparr>ee_code = code, ee_message = ex_message ex code, ee_errorType = None\<rparr>]\<rparr>"
  using assms
  by (auto simp: envelope_reply_def read_envelope_def known_envelope_def as_dict_def default_to_def nullable_def
      coercions_ok_def as_str_def error_list_def drop_null_entries_def list_of_def read_error_entry_def need_def
      code_to_str_def null_to_empty_text_def)

lemma raised_of_answer:
  assumes "coercions_ok cv" "refuses_with {400, 404} r"
  shows "bindE (raise_for_api_error cv (reply_of ex k r)) (\<lambda>_. Inr (reply_of ex k r)) = delivered ex k r"
proof (cases r)
  case (Inl e)
  obtain status code where e: "e = (status, code)" by (cases e)
  have s: "status \<in> {400, 404}" using assms(2) Inl e by (auto simp: refuses_with_def)
  have "reply_code (envelope_reply ex k (status, code)) = status" by (simp add: envelope_reply_def)
  then show ?thesis
    using s envelope_read [OF assms(1), of ex k status code]
    by (auto simp: Inl e reply_of_def delivered_def raise_for_api_error_def is_success_def Let_def)
qed (simp add: reply_of_def delivered_def raise_for_api_error_def is_success_def)

lemma checked_reply: "bindM (liftM m) (\<lambda>_. returnM x) s = (bindE m (\<lambda>_. Inr x), s)"
  by (cases m) (simp_all add: bindM_def)

lemma send_reply: "cl_transport cl q n = (Some r, n') \<Longrightarrow> send cl q n = (Inr r, n')"
  by (simp add: send_def)

lemma call_served:
  assumes "wired ex cert cl" "accepted_now (ex_world ex) st (ex_time ex (Suc k)) cert" "name \<in> set ENDPOINTS"
    "\<And>token. route ex (Suc k) (resource_request cl verb name ps content token) = Routed req"
    "\<forall>uuid ttl. req \<noteq> GetNonce uuid ttl"
  shows "\<exists>auth st'. ac_client_id auth = cl_client_id cl \<and> submissions st' = submissions st \<and>
    payments st' = payments st \<and> key_id st' = key_id st \<and> trusted_der st' = trusted_der st \<and>
    call cl verb name ps content (k, st) =
      (case protected_endpoint (ex_world ex) (ex_time ex (Suc k)) auth req st' of
         (r, st'') \<Rightarrow> (delivered ex (Suc k) r, (Suc (Suc k), st'')))"
proof -
  obtain n expires st1 where i: "issued_by ex cl k st = ((n, expires), st1)" by (metis surj_pair)
  obtain token where t: "fresh_token cl (k, st) = (Inr token, (Suc k, st1))"
    "bearer_token (cl_float_text cl) (cl_credentials cl) (cl_now cl (Suc k, st1)) n (cl_client_id cl) = Inr token"
    using fresh_token_served [OF assms(1) i] by blast
  let ?w = "ex_world ex" and ?now = "ex_time ex (Suc k)"
  let ?auth = "\<lparr>ac_client_id = cl_client_id cl, ac_nonce = n\<rparr>"
  let ?q = "resource_request cl verb name ps content token"
  have "utc_ok (cl_now cl (Suc k, st1))" using assms(1) by (simp add: wired_def)
  then obtain st2 where a: "authenticate ?w ?now (Some token) st1 = (Inr ?auth, st2)"
    using token_lets_in [OF assms(1) i assms(2) t(2)] by blast
  have st2: "submissions st2 = submissions st" "payments st2 = payments st" "key_id st2 = key_id st"
    "trusted_der st2 = trusted_der st"
    using a issued_frame [OF i] authenticate_frame [of ?w ?now "Some token" st1] by auto
  obtain r st3 where p: "protected_endpoint ?w ?now ?auth req st2 = (r, st3)" by (metis surj_pair)
  have step: "mock_step ?w ?now (Some token) req st1 = (r, st3)"
    using a p assms(5) by (cases req) (auto simp: mock_step_def)
  have "cl_transport cl ?q (Suc k, st1) = (Some (reply_of ex (Suc k) r), (Suc (Suc k), st3))"
    using assms(1,4) step by (simp add: wired_def mock_transport_def mock_answer_def)
  moreover have "coercions_ok (cl_coercions cl)" using assms(1) by (simp add: wired_def)
  moreover have "refuses_with {400, 404} r" using refuses_endpoint [OF assms(5), of ?w ?now ?auth st2] p by simp
  ultimately have "call cl verb name ps content (k, st) = (delivered ex (Suc k) r, (Suc (Suc k), st3))"
    using raised_of_answer [of "cl_coercions cl" r ex "Suc k"] t(1)
    by (simp add: call_def bindM_Inr [of "fresh_token cl"] bindM_Inr [of "send cl ?q"] send_reply checked_reply)
  then show ?thesis using st2 p by (intro exI [of _ ?auth] exI [of _ st2]) simp
qed

end
