(* ===== verification/Deliveries.thy ===== *)
theory Deliveries
  imports Exchange
begin

text \<open>
  From the pipeline over the client to the organisation: a batch of built packets that the client
  submits is stored by the organisation, and the answer names each of them.
\<close>

section \<open>Packets on the wire\<close>

lemma ascii_b64url: "byte_list bs \<Longrightarrow> ascii_text (b64url bs)"
  using b64url_text [of bs] by (auto simp: byte_list_def list_all_iff b64_text_def ascii_text_def)

lemma ascii_jwe:
  assumes "opens_for cs key w" "entropy_ok e" "\<forall>c \<in> set kid. c < 127" "jwe_encrypt cs key kid e plaintext = Inr token"
  shows "ascii_text token"
proof -
  let ?p = "b64url (header_text (jwe_header kid))"
  obtain ek m sealed where
    ek: "oaep_encrypt cs key (e_seed e) (e_cek e) = Some ek" and
    sealed: "gcm_encrypt cs (e_cek e) (e_iv e) m ?p = Some sealed" and
    token: "token = joined 46 [?p, b64url ek, b64url (e_iv e), b64url (take (length sealed - TAG_BYTES) sealed),
      b64url (drop (length sealed - TAG_BYTES) sealed)]"
    using assms(4) by (auto simp: jwe_encrypt_def Let_def split: option.splits)
  have "byte_list ek" "byte_list sealed" using assms(1) ek sealed by (auto simp: opens_for_def)
  moreover from this(2) have "byte_list (take n sealed)" "byte_list (drop n sealed)" for n
    by (auto simp: byte_list_def list_all_iff dest: in_set_takeD in_set_dropD)
  moreover have "byte_list (e_iv e)" using assms(2) by (simp add: entropy_ok_def)
  ultimately show ?thesis
    using jwe_header_reads_back(2) [OF assms(3)] by (simp add: token ascii_b64url)
qed

text \<open>A packet the pipeline built from the wire form of an invoice with a tax id.\<close>

definition built_from :: "'w services \<Rightarrow> server_key \<Rightarrow> pystr \<Rightarrow> json \<Rightarrow> packet \<Rightarrow> bool" where
  "built_from sv sk fiscal_id wire p \<longleftrightarrow>
     (\<exists>uid w0 w1 tax_id. build_packet sv sk wire fiscal_id uid w0 = (Inr p, w1) \<and>
        text_ok (float_text sv) wire \<and> identified wire tax_id \<and> is_uuid uid \<and> ascii_text uid \<and> uid \<noteq> [])"

abbreviation uid_of :: "packet \<Rightarrow> pystr" where
  "uid_of p \<equiv> requestTraceId (packet_head p)"

lemma ascii_packet:
  assumes "ascii_text (payload p)" "ascii_text (uid_of p)" "ascii_text (fiscalId (packet_head p))"
  shows "\<forall>c \<in> json_chars (packet_json p). c < 128"
proof -
  have "c < 128" if "c \<in> set (lit ''payload'') \<union> set (lit ''header'') \<union> set (lit ''requestTraceId'') \<union> set (lit ''fiscalId'')" for c
    using that by (auto simp: lit_def)
  with assms show ?thesis unfolding packet_json_def ascii_text_def json_chars.simps by fastforce
qed

lemma packet_json_plain [simp]:
  "strip_nulls (packet_json p) = packet_json p" "json_floats (packet_json p) = []" "readable ftx (packet_json p)"
  by (simp_all add: packet_json_def)

lemma packets_read_back:
  assumes "\<forall>p \<in> set ps. \<forall>c \<in> json_chars (packet_json p). c < 128" "\<forall>x. ascii_text (ftx x)"
  shows "\<exists>content. canonical_json ftx (JList (map packet_json ps)) = Inr content \<and>
    loads_bytes content = Some (JList (map packet_json ps))"
proof -
  let ?v = "JList (map packet_json ps)"
  have c: "\<forall>c \<in> json_chars ?v. c < 128" using assms(1) by auto
  have "json_floats ?v = []" by (simp add: comp_def)
  then obtain content where content: "canonical_json ftx ?v = Inr content" using ascii_canonical [OF c assms(2)] by blast
  have s: "strip_nulls ?v = ?v" by (simp add: comp_def)
  have "text_ok ftx ?v"
    using c assms(2) unfolding text_ok_def s by (fastforce simp: list_all_iff ascii_text_def)
  then show ?thesis using content canonical_bytes(2) [OF content] s by metis
qed

section \<open>A batch of the client\<close>

text \<open>The pipeline seals for this organisation, with the client's key pair.\<close>

definition seals_for ::
    "'w services \<Rightarrow> server_key \<Rightarrow> 'cert exchange \<Rightarrow> wire_state client \<Rightarrow> mock_state \<Rightarrow> bool" where
  "seals_for sv sk ex cl st \<longleftrightarrow>
     sk_id sk = key_id st \<and> (\<forall>c \<in> set (key_id st). c < 127) \<and>
     (\<exists>t (cs :: unit cipher_suite) drawn. utc_ok t \<and> opens_for cs () (ex_world ex) \<and>
        seals_with sv sk (cl_credentials cl) t cs () drawn)"

lemma built_packet_facts:
  assumes "wired ex cert cl" "accepted_now (ex_world ex) st now cert" "seals_for sv sk ex cl st"
    "built_from sv sk fiscal_id wire p" "fiscal_id \<noteq> []"
  shows "ascii_text (payload p)"
    "\<exists>s. accept_packet (ex_world ex) st now auth reference (packet_json p) = Inr s \<and>
       ss_uid s = uid_of p \<and> ss_invoice s = strip_nulls wire"
proof -
  obtain uid w0 w1 tax_id where b: "build_packet sv sk wire fiscal_id uid w0 = (Inr p, w1)"
    "text_ok (float_text sv) wire" "identified wire tax_id" "is_uuid uid" "ascii_text uid" "uid \<noteq> []"
    using assms(4) by (auto simp: built_from_def)
  obtain t drawn and cs :: "unit cipher_suite" where kid: "sk_id sk = key_id st" "\<forall>c \<in> set (key_id st). c < 127"
    and cs: "utc_ok t" "opens_for cs () (ex_world ex)" "seals_with sv sk (cl_credentials cl) t cs () drawn"
    using assms(3) by (auto simp: seals_for_def)
  obtain data jwe where d: "canonical_json (float_text sv) wire = Inr data" "seal sv sk data w0 = (Inr jwe, w1)"
    "p = \<lparr>payload = jwe, packet_head = \<lparr>requestTraceId = uid, fiscalId = fiscal_id\<rparr>\<rparr>"
    using b(1) by (auto simp: build_packet_def py_splits)
  have e: "entropy_ok (drawn w0)" "seal_invoice (cl_credentials cl) t cs () (key_id st) (drawn w0) data = Inr jwe"
    using cs(3) kid(1) d(2) by (auto simp: seals_with_def dest: spec [of _ w0]) (metis fst_conv)
  then show "ascii_text (payload p)"
    using ascii_jwe [OF cs(2) e(1) kid(2)] by (auto simp: d(3) seal_invoice_def py_splits)
  have "signs_for (cl_credentials cl) (ex_world ex) cert" using assms(1) by (simp add: wired_def)
  then show "\<exists>s. accept_packet (ex_world ex) st now auth reference (packet_json p) = Inr s \<and>
       ss_uid s = uid_of p \<and> ss_invoice s = strip_nulls wire"
    using accept_sealed [OF _ assms(2) cs(1,2) e(1) kid(2) d(1) b(2,3) e(2) b(4,6) assms(5)]
    by (fastforce simp: d(3))
qed

lemma built_packet_head: "built_from sv sk fiscal_id wire p \<Longrightarrow> fiscalId (packet_head p) = fiscal_id \<and> ascii_text (uid_of p)"
  by (auto simp: built_from_def build_packet_def py_splits)

definition acknowledged :: "int \<Rightarrow> stored_submission list \<Rightarrow> batch_response" where
  "acknowledged now ss =
     \<lparr>br_timestamp = millis now,
      br_result = map (\<lambda>s. \<lparr>sr_uid = ss_uid s, sr_packetType = None,
        sr_referenceNumber = Some (ss_reference_number s), sr_data = None\<rparr>) ss\<rparr>"

lemma those_map_Some: "those (map (\<lambda>x. Some (f x)) xs) = Some (map f xs)"
  by (induction xs) simp_all

lemma batch_reply_read: "coercions_ok cv \<Longrightarrow> read_batch cv (batch_reply now ss) = Some (acknowledged now ss)"
  by (simp add: read_batch_def batch_reply_def as_dict_def need_def default_to_def list_of_def comp_def
      read_submit_result_def as_str_def nullable_def coercions_ok_def those_map_Some acknowledged_def)

lemma accepted_batch:
  assumes "list_all2 (\<lambda>wire p. \<forall>r. \<exists>s. accept_packet w st now auth r (packet_json p) = Inr s \<and>
      ss_uid s = uid_of p \<and> ss_invoice s = strip_nulls wire) wires ps" "length refs = length ps"
  shows "\<exists>ss. accepted_packets w st now auth (zip (map packet_json ps) refs) ss \<and>
    map ss_uid ss = map uid_of ps \<and> map ss_invoice ss = map strip_nulls wires"
  using assms
proof (induction wires ps arbitrary: refs rule: list_all2_induct)
  case (Cons wire wires p ps)
  then obtain r refs' where refs: "refs = r # refs'" "length refs' = length ps" by (cases refs) auto
  obtain ss where ss: "accepted_packets w st now auth (zip (map packet_json ps) refs') ss"
    "map ss_uid ss = map uid_of ps" "map ss_invoice ss = map strip_nulls wires"
    using Cons.IH [OF refs(2)] by blast
  obtain s where "accept_packet w st now auth r (packet_json p) = Inr s" "ss_uid s = uid_of p" "ss_invoice s = strip_nulls wire"
    using Cons.hyps(1) by blast
  with ss show ?case by (intro exI [of _ "s # ss"]) (simp add: refs(1) accepted_packets_def)
qed (simp add: accepted_packets_def)

lemma accept_packet_same:
  "submissions st' = submissions st \<Longrightarrow> trusted_der st' = trusted_der st \<Longrightarrow> accepted_now w st now cert \<Longrightarrow>
   accepted_now w st' now cert"
  by (simp add: accepted_now_def)

text \<open>The client writes built packets as text that reads back as the same packets.\<close>

lemma built_batch_content:
  assumes "wired ex cert cl" "accepted_now (ex_world ex) st now cert" "seals_for sv sk ex cl st"
    "list_all2 (built_from sv sk fiscal_id) wires ps" "fiscal_id \<noteq> []" "ascii_text fiscal_id"
  obtains content where "canonical_json (cl_float_text cl) (JList (map packet_json ps)) = Inr content"
    "loads_bytes content = Some (JList (map packet_json ps))"
proof -
  have "\<forall>c \<in> json_chars (packet_json p). c < 128" if p: "p \<in> set ps" for p
  proof -
    obtain wire where b: "built_from sv sk fiscal_id wire p"
      using p assms(4) by (auto simp: list_all2_conv_all_nth in_set_conv_nth)
    show ?thesis
      using built_packet_facts(1) [OF assms(1-3) b assms(5)] built_packet_head [OF b] assms(6)
      by (intro ascii_packet) simp_all
  qed
  moreover have "\<forall>x. ascii_text (cl_float_text cl x)" using assms(1) by (simp add: wired_def)
  ultimately show ?thesis using packets_read_back that by meson
qed

text \<open>The organisation takes built packets whose uids are new to it.\<close>

lemma built_batch_posted:
  assumes "wired ex cert cl" "accepted_now (ex_world ex) st now cert" "seals_for sv sk ex cl st"
    "list_all2 (built_from sv sk fiscal_id) wires ps" "fiscal_id \<noteq> []" "ps \<noteq> []" "length ps \<le> 1000"
    "distinct (map uid_of ps)" "set (map uid_of ps) \<inter> ss_uid ` snd ` set (submissions st) = {}"
    "loads_bytes content = Some (JList (map packet_json ps))"
  obtains ss where "post_invoice (ex_world ex) now refs auth content st = (Inr (batch_reply now ss), store_all ss st)"
    "accepted_packets (ex_world ex) st now auth (zip (map packet_json ps) (map refs [0..<length ps])) ss"
    "map ss_uid ss = map uid_of ps" "map ss_invoice ss = map strip_nulls wires"
proof -
  let ?w = "ex_world ex" and ?batch = "zip (map packet_json ps) (map refs [0..<length ps])"
  have "list_all2 (\<lambda>wire p. \<forall>r. \<exists>s. accept_packet ?w st now auth r (packet_json p) = Inr s \<and>
      ss_uid s = uid_of p \<and> ss_invoice s = strip_nulls wire) wires ps"
    using assms(4) by (rule list_all2_mono) (use built_packet_facts(2) [OF assms(1-3) _ assms(5)] in blast)
  then obtain ss where ss: "accepted_packets ?w st now auth ?batch ss"
    "map ss_uid ss = map uid_of ps" "map ss_invoice ss = map strip_nulls wires"
    using accepted_batch [of ?w st now auth wires ps "map refs [0..<length ps]"] by auto
  have "fresh_uids [] ss st" using assms(8,9) ss(2) by (simp add: fresh_uids_def)
  then have "accept_all ?w st now auth [] ?batch = Inr ss" using ss(1) by (simp add: accept_all_iff)
  then have "post_invoice ?w now refs auth content st = (Inr (batch_reply now ss), store_all ss st)"
    using assms(6,7,10) by (simp add: post_invoice_def MAX_PACKETS_def)
  then show ?thesis using ss that by blast
qed

text \<open>
  C1. What the pipeline builds and the client submits arrives: the organisation stores one submission
  per packet, in order, under the uid of the packet and with the invoice that was signed, and the
  client returns one result per packet with that uid and the reference number it is stored under.
\<close>

theorem submitted_batch_stored:
  assumes "wired ex cert cl" "accepted_now (ex_world ex) st (ex_time ex (Suc k)) cert" "seals_for sv sk ex cl st"
    "list_all2 (built_from sv sk fiscal_id) wires ps" "fiscal_id \<noteq> []" "ascii_text fiscal_id"
    "ps \<noteq> []" "length ps \<le> 1000"
    "distinct (map uid_of ps)" "set (map uid_of ps) \<inter> ss_uid ` snd ` set (submissions st) = {}"
    "new_references (ex_reference ex (Suc k)) st"
  shows "\<exists>ss st'. client_submit_invoices cl ps (k, st) = (Inr (acknowledged (ex_time ex (Suc k)) ss), (Suc (Suc k), st')) \<and>
    submissions st' = submissions st @ map (\<lambda>s. (ss_reference_number s, s)) ss \<and>
    map ss_uid ss = map uid_of ps \<and> map ss_invoice ss = map strip_nulls wires"
proof -
  let ?w = "ex_world ex" and ?now = "ex_time ex (Suc k)" and ?refs = "ex_reference ex (Suc k)"
  obtain content where content: "canonical_json (cl_float_text cl) (JList (map packet_json ps)) = Inr content"
    "loads_bytes content = Some (JList (map packet_json ps))"
    using built_batch_content [OF assms(1-6)] .
  have inv: "INVOICE \<in> set ENDPOINTS" by (simp add: ENDPOINTS_def)
  have route: "route ex (Suc k) (resource_request cl (lit ''POST'') INVOICE [] (Some content) token) =
      Routed (PostInvoice ?refs content)" for token
    using assms(1) inv by (simp add: route_def resource_request_def wired_def route_post_def)
  obtain auth st2 where a: "submissions st2 = submissions st" "key_id st2 = key_id st" "trusted_der st2 = trusted_der st"
    "call cl (lit ''POST'') INVOICE [] (Some content) (k, st) =
      (case protected_endpoint ?w ?now auth (PostInvoice ?refs content) st2 of
         (r, st3) \<Rightarrow> (delivered ex (Suc k) r, (Suc (Suc k), st3)))"
    using call_served [OF assms(1,2) inv route] by blast
  have now2: "accepted_now ?w st2 ?now cert" using assms(2) a(3) by (simp add: accepted_now_def)
  have seals2: "seals_for sv sk ex cl st2" using assms(3) a(2) by (simp add: seals_for_def)
  obtain ss where "post_invoice ?w ?now ?refs auth content st2 = (Inr (batch_reply ?now ss), store_all ss st2)"
    and ss: "accepted_packets ?w st2 ?now auth (zip (map packet_json ps) (map ?refs [0..<length ps])) ss"
      "map ss_uid ss = map uid_of ps" "map ss_invoice ss = map strip_nulls wires"
    using built_batch_posted [OF assms(1) now2 seals2 assms(4,5,7-9) _ content(2)] assms(10) a(1) by metis
  then have "client_submit_invoices cl ps (k, st) = (Inr (acknowledged ?now ss), (Suc (Suc k), store_all ss st2))"
    using a(4) content(1) assms(1,8) batch_reply_read [of "cl_coercions cl"]
    by (simp add: client_submit_invoices_def MAX_PACKETS_def bindM_def delivered_def decode_model_def
        decode_json_body_def wired_def)
  moreover have "submissions (store_all ss st2) = submissions st @ map (\<lambda>s. (ss_reference_number s, s)) ss"
    using batch_stored(3) [of ?refs st2 ?w ?now auth "map packet_json ps" ss] assms(11) a(1) ss(1)
    by (simp add: new_references_def)
  ultimately show ?thesis using ss(2,3) by blast
qed

definition sample_exchange :: "nat list exchange" where
  "sample_exchange = \<lparr>ex_base = lit ''http://mock'', ex_world = sample_world, ex_time = (\<lambda>k. int k * 1000000),
     ex_uuid = (\<lambda>_. sample_uuid), ex_reference = (\<lambda>_. sample_references),
     ex_int = (\<lambda>s. if s = int_text 30 then Some 30 else None), ex_from_iso = (\<lambda>_. None), ex_message = id\<rparr>"

definition sample_client :: "wire_state client" where
  "sample_client = \<lparr>cl_base_url = lit ''http://mock'', cl_client_id = lit ''A11216'', cl_credentials = sample_credentials,
     cl_time_to_live = 30, cl_transport = mock_transport sample_exchange, cl_now = (\<lambda>_. sample_utc),
     cl_coercions = \<lparr>as_int = (\<lambda>v. case v of JInt n \<Rightarrow> Some n | _ \<Rightarrow> None),
       as_bool = (\<lambda>v. case v of JBool b \<Rightarrow> Some b | _ \<Rightarrow> None)\<rparr>,
     cl_float_text = (\<lambda>_. []), cl_zone = (\<lambda>_. 12600)\<rparr>"

lemma sample_ascii: "ascii_text (lit ''A11216'')" "ascii_text sample_uuid"
  by (auto simp: ascii_text_def sample_uuid_def lit_def)

lemma sample_wired: "wired sample_exchange [48, 130, 1] sample_client"
  using sample_signs sample_utc_ok sample_ascii
  by (simp add: wired_def sample_exchange_def sample_client_def coercions_ok_def sample_credentials_def
      del: int_text.simps)

lemma sample_seals_for: "seals_for sample_services sample_key sample_exchange sample_client sample_mock"
proof -
  have "sk_id sample_key = key_id sample_mock" "\<forall>c \<in> set (key_id sample_mock). c < 127"
    by (simp_all add: sample_key_def sample_mock_def lit_def)
  moreover have "opens_for sample_suite () (ex_world sample_exchange)" using sample_opens by (simp add: sample_exchange_def)
  moreover have "cl_credentials sample_client = sample_credentials" by (simp add: sample_client_def)
  ultimately show ?thesis using sample_seals sample_utc_ok unfolding seals_for_def by metis
qed

theorem submitted_batch_stored_witness:
  "\<exists>p ss st'. build_packet sample_services sample_key sample_wire (lit ''A11216'') sample_uuid () = (Inr p, ()) \<and>
     client_submit_invoices sample_client [p] (0, sample_mock) = (Inr (acknowledged 1000000 ss), (2, st')) \<and>
     map ss_invoice ss = [strip_nulls sample_wire]"
proof -
  obtain p where p: "build_packet sample_services sample_key sample_wire (lit ''A11216'') sample_uuid () = (Inr p, ())"
    using sample_built .
  have u: "sample_uuid \<noteq> []" by (simp add: sample_uuid_def)
  have "built_from sample_services sample_key (lit ''A11216'') sample_wire p"
    unfolding built_from_def using p sample_wire_ok sample_uuid_ok sample_ascii(2) u by blast
  then have b: "list_all2 (built_from sample_services sample_key (lit ''A11216'')) [sample_wire] [p]" by simp
  have c: "accepted_now (ex_world sample_exchange) sample_mock (ex_time sample_exchange (Suc 0)) [48, 130, 1]"
    using sample_cert_accepted [of 1000000] by (simp add: sample_exchange_def)
  have r: "new_references (ex_reference sample_exchange (Suc 0)) sample_mock"
    using sample_references_new by (simp add: sample_exchange_def)
  have n: "set (map uid_of [p]) \<inter> ss_uid ` snd ` set (submissions sample_mock) = {}" by (simp add: sample_mock_def)
  have t: "ex_time sample_exchange (Suc 0) = 1000000" by (simp add: sample_exchange_def)
  show ?thesis
    using submitted_batch_stored [OF sample_wired c sample_seals_for b _ sample_ascii(1) _ _ _ n r] p
    unfolding t by (auto simp: numeral_2_eq_2)
qed

end
