(* ===== verification/Connections.thy ===== *)
theory Connections
  imports Desk Deliveries
begin

text \<open>
  The handlers of the desk against the organisation: what the test of a connection tells, and that a
  payment which is registered is recorded.
\<close>

section \<open>The test of a connection\<close>

text \<open>A token over a certificate that is not accepted is refused with 4131 and costs no nonce.\<close>

lemma token_refused:
  assumes "wired ex cert cl" "\<not> accepted_now (ex_world ex) st now cert"
    "bearer_token (cl_float_text cl) (cl_credentials cl) t n (cl_client_id cl) = Inr token" "utc_ok t"
    "ascii_text n" "n \<noteq> []"
  shows "authenticate (ex_world ex) now (Some token) st = (reject 401 ''4131'', st)"
proof -
  have signs: "signs_for (cl_credentials cl) (ex_world ex) cert" using assms(1) by (simp add: wired_def)
  have client: "cl_client_id cl \<noteq> []" "unicode (cl_client_id cl)" "\<forall>x. unicode (cl_float_text cl x)"
    using assms(1) by (auto simp: wired_def ascii_text_unicode)
  have "claims_of_token (ex_world ex) st now (Some token) = reject 401 ''4131''"
    using bearer_claims_if [OF signs assms(4,3,6) client(1) ascii_text_unicode [OF assms(5)] client(2,3)] assms(2)
    by simp
  then show ?thesis by (simp add: authenticate_def reject_def)
qed

lemma raised_unauthorised:
  assumes "coercions_ok cv"
  shows "raise_for_api_error cv (envelope_reply ex k (401, code)) =
    Inl (AuthenticationError \<lparr>status_code = Some 401, api_errors = [(code, ex_message ex code)],
      request_trace_id = Some (ex_uuid ex k)\<rparr>)"
  using envelope_read [OF assms, of ex k 401 code]
  by (simp add: raise_for_api_error_def is_success_def Let_def envelope_reply_def)

lemma route_server_information:
  assumes "wired ex cert cl"
  shows "route ex k (resource_request cl (lit ''GET'') SERVER_INFORMATION [] None token) = Routed ServerInformation"
proof -
  have "SERVER_INFORMATION \<in> set ENDPOINTS" by (simp add: ENDPOINTS_def)
  moreover have "SERVER_INFORMATION \<noteq> NONCE" by (simp add: endpoint_names)
  ultimately show ?thesis
    using assms by (simp add: route_def resource_request_def wired_def route_get_def)
qed

lemma call_refused:
  assumes "wired ex cert cl" "\<not> accepted_now (ex_world ex) st (ex_time ex (Suc k)) cert"
    "\<And>token. route ex (Suc k) (resource_request cl verb name ps content token) = Routed req"
    "\<forall>uuid ttl. req \<noteq> GetNonce uuid ttl"
  shows "\<exists>s. call cl verb name ps content (k, st) =
    (Inl (AuthenticationError \<lparr>status_code = Some 401, api_errors = [(lit ''4131'', ex_message ex (lit ''4131''))],
      request_trace_id = Some (ex_uuid ex (Suc k))\<rparr>), s)"
proof -
  obtain n expires st1 where i: "issued_by ex cl k st = ((n, expires), st1)" by (metis surj_pair)
  obtain token where t: "fresh_token cl (k, st) = (Inr token, (Suc k, st1))" "ascii_text n" "n \<noteq> []"
    "bearer_token (cl_float_text cl) (cl_credentials cl) (cl_now cl (Suc k, st1)) n (cl_client_id cl) = Inr token"
    using fresh_token_served [OF assms(1) i] by blast
  let ?q = "resource_request cl verb name ps content token"
  have "\<not> accepted_now (ex_world ex) st1 (ex_time ex (Suc k)) cert"
    using assms(2) issued_frame(4) [OF i] by (simp add: accepted_now_def)
  moreover have "utc_ok (cl_now cl (Suc k, st1))" using assms(1) by (simp add: wired_def)
  ultimately have "authenticate (ex_world ex) (ex_time ex (Suc k)) (Some token) st1 = (reject 401 ''4131'', st1)"
    using token_refused [OF assms(1) _ t(4) _ t(2,3)] by blast
  then have "mock_step (ex_world ex) (ex_time ex (Suc k)) (Some token) req st1 = (reject 401 ''4131'', st1)"
    using assms(4) by (cases req) (auto simp: mock_step_def reject_def)
  then have "cl_transport cl ?q (Suc k, st1) = (Some (envelope_reply ex (Suc k) (401, lit ''4131'')), (Suc (Suc k), st1))"
    using assms(1,3) by (simp add: wired_def mock_transport_def mock_answer_def reply_of_def reject_def)
  moreover have "coercions_ok (cl_coercions cl)" using assms(1) by (simp add: wired_def)
  ultimately show ?thesis
    using t(1) raised_unauthorised [of "cl_coercions cl" ex "Suc k" "lit ''4131''"]
    by (simp add: call_def bindM_Inr [of "fresh_token cl"] bindM_Inr [of "send cl ?q"] send_reply checked_reply)
qed

lemma server_information_refused:
  assumes "wired ex cert cl" "\<not> accepted_now (ex_world ex) st (ex_time ex (Suc k)) cert"
  shows "\<exists>err s. client_server_information cl (k, st) = (Inl (AuthenticationError err), s) \<and> codes err = [lit ''4131'']"
proof -
  obtain s where "call cl (lit ''GET'') SERVER_INFORMATION [] None (k, st) =
      (Inl (AuthenticationError \<lparr>status_code = Some 401, api_errors = [(lit ''4131'', ex_message ex (lit ''4131''))],
        request_trace_id = Some (ex_uuid ex (Suc k))\<rparr>), s)"
    using call_refused [OF assms route_server_information [OF assms(1)]] by blast
  then show ?thesis by (simp add: client_server_information_def bindM_Inl codes_def)
qed

lemma server_information_served:
  assumes "wired ex cert cl" "accepted_now (ex_world ex) st (ex_time ex (Suc k)) cert"
  shows "\<exists>info st'. client_server_information cl (k, st) = (Inr info, (Suc (Suc k), st')) \<and>
    length (publicKeys info) = 1 \<and> trusted_der st' = trusted_der st"
proof -
  have e: "SERVER_INFORMATION \<in> set ENDPOINTS" by (simp add: ENDPOINTS_def)
  obtain auth st' where "trusted_der st' = trusted_der st"
    "call cl (lit ''GET'') SERVER_INFORMATION [] None (k, st) =
      (case protected_endpoint (ex_world ex) (ex_time ex (Suc k)) auth ServerInformation st' of
         (r, st'') \<Rightarrow> (delivered ex (Suc k) r, (Suc (Suc k), st'')))"
    using call_served [OF assms e route_server_information [OF assms(1)]] by auto
  moreover have "\<exists>info. read_server_information (cl_coercions cl)
      (server_information_reply (ex_world ex) (ex_time ex (Suc k)) st') = Some info \<and> length (publicKeys info) = 1"
    using assms(1)
    by (simp add: wired_def coercions_ok_def read_server_information_def server_information_reply_def as_dict_def
        need_def default_to_def list_of_def read_public_key_def as_str_def nullable_def)
  ultimately show ?thesis
    by (auto simp: client_server_information_def bindM_def delivered_def decode_model_def decode_json_body_def)
qed

text \<open>
  C25. The test of a connection tells routing from trust: for a profile whose client reaches the
  organisation the nonce step succeeds; the authenticated step succeeds, naming the server's key,
  exactly when the certificate is valid and trusted at that moment, and otherwise shows code 4131.
\<close>

theorem connection_test_outcome:
  assumes "client_for dk p (k, st) = Inr cl" "wired ex cert cl"
  shows "\<exists>expires s. test_connection dk p (k, st) =
    (Inr \<lparr>ct_nonce = StepOk expires,
       ct_authenticated = (if accepted_now (ex_world ex) st (ex_time ex (Suc (Suc k))) cert then StepOk 1
         else StepCodes [lit ''4131''])\<rparr>, s)"
proof -
  obtain n expires st1 where i: "issued_by ex cl k st = ((n, expires), st1)" by (metis surj_pair)
  note f = fetch_nonce_served [OF assms(2) i]
  have same: "accepted_now (ex_world ex) st1 now cert = accepted_now (ex_world ex) st now cert" for now
    using issued_frame(4) [OF i] by (simp add: accepted_now_def)
  show ?thesis
  proof (cases "accepted_now (ex_world ex) st (ex_time ex (Suc (Suc k))) cert")
    case True
    then obtain info st' where "client_server_information cl (Suc k, st1) = (Inr info, (Suc (Suc (Suc k)), st'))"
      "length (publicKeys info) = 1"
      using server_information_served [OF assms(2), of st1 "Suc k"] same by blast
    with True f show ?thesis
      by (simp add: test_connection_def with_client_for_def assms(1) test_with_def Let_def)
  next
    case False
    then obtain err s where "client_server_information cl (Suc k, st1) = (Inl (AuthenticationError err), s)"
      "codes err = [lit ''4131'']"
      using server_information_refused [OF assms(2), of st1 "Suc k"] same by blast
    with False f show ?thesis
      by (simp add: test_connection_def with_client_for_def assms(1) test_with_def Let_def)
  qed
qed

definition sample_ring :: "(nat list, unit) key_library" where
  "sample_ring = \<lparr>load_pem_cert = (\<lambda>_. None), load_der_cert = Some, load_pem_key = (\<lambda>_ _. RsaPrivate ()),
     public_half_of = (\<lambda>_. RsaNumbers 3233 17), key_numbers = (\<lambda>_. (3233, 17)),
     valid_from = (\<lambda>_. 0), valid_until = (\<lambda>_. 10 ^ 18), der_of = id,
     sign_with = (\<lambda>_. rsa_sign sample_credentials)\<rparr>"

definition sample_desk :: "(nat list, unit, wire_state) desk" where
  "sample_desk = \<lparr>dk_keys = sample_ring,
     dk_files = (\<lambda>_. Some \<lparr>f_bytes = Some [48, 130, 1], f_regular = True, f_mode = 0x180\<rparr>),
     dk_password = None, dk_now = (\<lambda>_. 0),
     dk_settings = sample_settings\<lparr>set_sandbox_base_url := lit ''http://mock''\<rparr>,
     dk_surroundings = \<lparr>sr_transport = cl_transport sample_client, sr_now = cl_now sample_client,
       sr_coercions = cl_coercions sample_client, sr_float_text = cl_float_text sample_client,
       sr_zone = cl_zone sample_client\<rparr>\<rparr>"

lemma sample_credentials_load:
  "load_credentials sample_ring (dk_files sample_desk) None 0 (dk_settings sample_desk) sample_profile =
    Inr \<lparr>sc_certificate = [48, 130, 1], sc_private_key = ()\<rparr>"
proof -
  have "assert_usable sample_ring 0 \<lparr>sc_certificate = [48, 130, 1], sc_private_key = ()\<rparr> = Inr ()"
    by (simp add: assert_usable_iff keys_match_def sample_ring_def)
  moreover have "Keys.load_certificate sample_ring [48, 130, 1] = Inr [48, 130, 1]"
    by (simp add: Keys.load_certificate_def sample_ring_def BEGIN_MARK_def lit_def)
  moreover have "load_private_key sample_ring [48, 130, 1] None = Inr ()"
    by (simp add: load_private_key_def sample_ring_def)
  ultimately show ?thesis
    by (simp add: load_credentials_def load_material_def require_material_def require_paths_def signing_material_of_def
        sample_desk_def sample_settings_def default_settings_def or_else_def is_file_def read_bytes_def from_files_def
        from_pem_def sample_profile_def)
qed

lemma sample_client_made:
  "make_client (dk_surroundings sample_desk) (settings_base_url (dk_settings sample_desk) SANDBOX) (lit ''A11216'')
     (credentials_of (dk_keys sample_desk) \<lparr>sc_certificate = [48, 130, 1], sc_private_key = ()\<rparr>) 30 = Inr sample_client"
  by (simp add: make_client_def sample_desk_def)
    (simp add: sample_client_def sample_settings_def default_settings_def check_time_to_live_def settings_base_url_def
      credentials_of_def sample_ring_def sample_credentials_def is_production_def MIN_TIME_TO_LIVE_def MAX_TIME_TO_LIVE_def)

lemma sample_desk_client: "client_for sample_desk sample_profile n = Inr sample_client"
proof -
  have p: "prof_base_url_override sample_profile = None" "prof_environment sample_profile = SANDBOX"
    "prof_memory_id sample_profile = lit ''A11216''"
    by (simp_all add: sample_profile_def)
  have d: "dk_keys sample_desk = sample_ring" "dk_password sample_desk = None" "dk_now sample_desk = (\<lambda>_. 0)"
    "set_nonce_time_to_live (dk_settings sample_desk) = 30"
    by (simp_all add: sample_desk_def sample_settings_def default_settings_def)
  show ?thesis
    using sample_credentials_load sample_client_made by (simp add: client_for_def client_from_profile_def p d)
qed

lemma sample_environment_name: "parse_environment (lit ''sandbox'') = Inr SANDBOX"
  using parse_environment_text [of SANDBOX] by (simp add: environment_text_def)

theorem connection_test_outcome_witness:
  "\<exists>expires. fst (test_connection sample_desk sample_profile (0, sample_mock)) =
     Inr \<lparr>ct_nonce = StepOk expires, ct_authenticated = StepOk 1\<rparr>"
proof -
  have "accepted_now (ex_world sample_exchange) sample_mock (ex_time sample_exchange (Suc (Suc 0))) [48, 130, 1]"
    using sample_cert_accepted [of 2000000] by (simp add: sample_exchange_def)
  moreover obtain expires s where "test_connection sample_desk sample_profile (0, sample_mock) =
      (Inr \<lparr>ct_nonce = StepOk expires,
         ct_authenticated = (if accepted_now (ex_world sample_exchange) sample_mock
           (ex_time sample_exchange (Suc (Suc 0))) [48, 130, 1] then StepOk 1 else StepCodes [lit ''4131''])\<rparr>, s)"
    using connection_test_outcome [OF sample_desk_client sample_wired] by blast
  ultimately show ?thesis by simp
qed

section \<open>Payments\<close>

text \<open>The payment the organisation keeps for a request of the desk.\<close>

definition payment_kept :: "int \<Rightarrow> int \<Rightarrow> pystr \<Rightarrow> payment_in \<Rightarrow> stored_payment" where
  "payment_kept now today client data =
     \<lparr>sp_tax_id = pay_taxid data, sp_paid_amount = pay_amount data,
      sp_payment_date = (case pay_date data of None \<Rightarrow> today | Some d \<Rightarrow> d),
      sp_payment_method = pay_method data, sp_terminal_number = pay_terminal data,
      sp_reference_number = pay_reference data, sp_client_id = client, sp_recorded_at = now\<rparr>"

definition ascii_or_none :: "pystr option \<Rightarrow> bool" where
  "ascii_or_none v = (case v of None \<Rightarrow> True | Some s \<Rightarrow> ascii_text s)"

definition plain_number :: "int \<Rightarrow> bool" where
  "plain_number n \<longleftrightarrow> 0 \<le> n \<and> length (int_text n) \<le> max_int_digits"

definition payment_in_order :: "int \<Rightarrow> payment_in \<Rightarrow> bool" where
  "payment_in_order today data \<longleftrightarrow>
     is_tax_id (pay_taxid data) \<and> pay_amount data \<noteq> 0 \<and> plain_number (pay_amount data) \<and>
     plain_number (case pay_date data of None \<Rightarrow> today | Some d \<Rightarrow> d) \<and>
     pay_method data \<in> set PAYMENT_METHODS \<and> ascii_or_none (pay_terminal data) \<and>
     ascii_or_none (pay_reference data)"

lemma payment_accepted:
  assumes "payment_in_order today data"
  shows "accept_payment PAYMENT_METHODS now auth (payment_payload today data) =
    Inr (payment_kept now today (ac_client_id auth) data)"
proof -
  have "pay_taxid data \<noteq> []" using assms by (auto simp: payment_in_order_def is_tax_id_def)
  then show ?thesis
    using assms
    by (cases "pay_terminal data"; cases "pay_reference data"; cases "pay_date data")
      (simp_all add: accept_payment_def payment_payload_def payment_in_order_def payment_kept_def Let_def required_int_def
        optional_str_def text_value_def lit_def or_reject_def guard_def plain_number_def)
qed

lemma payment_payload_plain:
  "json_floats (JObj (payment_payload today data)) = []"
  "strip_nulls (JObj (payment_payload today data)) = JObj (payment_payload today data)"
  by (cases "pay_terminal data"; cases "pay_reference data"; cases "pay_date data";
      simp add: payment_payload_def Let_def)+

lemma payment_keys_differ:
  "distinct [lit ''taxid'', lit ''paidAmount'', lit ''paymentDate'', lit ''paymentMethod'', lit ''terminalNumber'',
     lit ''referenceNumber'']"
  by (simp add: lit_def)

lemma payment_payload_readable:
  "payment_in_order today data \<Longrightarrow> readable ftx (JObj (payment_payload today data))"
  using payment_keys_differ
  by (cases "pay_terminal data"; cases "pay_reference data"; cases "pay_date data")
    (simp_all add: payment_payload_def payment_in_order_def plain_number_def Let_def del: int_text.simps)

lemma payment_written:
  assumes "payment_in_order today data" "\<forall>x. ascii_text (ftx x)"
  shows "\<exists>content. canonical_json ftx (JObj (payment_payload today data)) = Inr content \<and>
    loads_bytes content = Some (JObj (payment_payload today data))"
proof -
  let ?v = "JObj (payment_payload today data)"
  have "ascii_text (pay_taxid data)"
    using assms(1) by (auto simp: payment_in_order_def is_tax_id_def ascii_text_def list_all_iff ascii_digit_def ascii_upper_letter_def)
  moreover have "ascii_text (pay_method data)"
    using assms(1) by (auto simp: payment_in_order_def PAYMENT_METHODS_def ascii_text_def lit_def)
  ultimately have c: "\<forall>c \<in> json_chars ?v. c < 128"
    using assms(1)
    by (cases "pay_terminal data"; cases "pay_reference data"; cases "pay_date data")
      (auto simp: payment_in_order_def ascii_or_none_def payment_payload_def Let_def ascii_text_def lit_def)
  note plain = payment_payload_plain [of today data]
  obtain content where content: "canonical_json ftx ?v = Inr content"
    using ascii_canonical [OF c assms(2) plain(1)] by blast
  note s = plain(2)
  have "text_ok ftx ?v"
    using c assms(2) payment_payload_readable [OF assms(1), of ftx] unfolding text_ok_def s by (fastforce simp: ascii_text_def)
  then show ?thesis using content canonical_bytes(2) [OF content] s by metis
qed

text \<open>
  C28. A payment that is registered is recorded: for an invoice the organisation holds, with an amount
  above zero, a known method and a date that is not before 1970, given or the clock's (numbers of at
  most 4300 digits), the desk is answered SUCCESS and the organisation has that payment, under the
  client's id, as its last one.
\<close>

theorem payment_recorded:
  assumes "client_for dk p (k, st) = Inr cl" "wired ex cert cl"
    "accepted_now (ex_world ex) st (ex_time ex (Suc k)) cert"
    "payment_in_order (today (k, st)) data" "pay_taxid data \<in> ss_tax_id ` snd ` set (submissions st)"
  shows "\<exists>st'. register_payment dk p today data (k, st) =
      (Inr (JObj [(lit ''requestStatus'', JStr (lit ''SUCCESS'')), (lit ''error'', JList [])]), (Suc (Suc k), st')) \<and>
    payments st' = payments st @
      [payment_kept (ex_time ex (Suc k)) (today (k, st)) (cl_client_id cl) data]"
proof -
  let ?t = "today (k, st)" and ?now = "ex_time ex (Suc k)"
  have "\<forall>x. ascii_text (cl_float_text cl x)" using assms(2) by (simp add: wired_def)
  then obtain content where content:
    "canonical_json (cl_float_text cl) (JObj (payment_payload ?t data)) = Inr content"
    "loads_bytes content = Some (JObj (payment_payload ?t data))"
    using payment_written [OF assms(4)] by blast
  have e: "INVOICE_PAYMENT \<in> set ENDPOINTS" "INVOICE_PAYMENT \<noteq> INVOICE"
    by (simp_all add: ENDPOINTS_def endpoint_names)
  have route: "route ex (Suc k) (resource_request cl (lit ''POST'') INVOICE_PAYMENT [] (Some content) token) =
      Routed (PostPayment content)" for token
    using assms(2) e by (simp add: route_def resource_request_def wired_def route_post_def)
  obtain auth st2 where a: "ac_client_id auth = cl_client_id cl" "submissions st2 = submissions st" "payments st2 = payments st"
    "call cl (lit ''POST'') INVOICE_PAYMENT [] (Some content) (k, st) =
      (case protected_endpoint (ex_world ex) ?now auth (PostPayment content) st2 of
         (r, st3) \<Rightarrow> (delivered ex (Suc k) r, (Suc (Suc k), st3)))"
    using call_served [OF assms(2,3) e(1) route] by blast
  have "post_payment ?now auth content st2 =
      (Inr (JObj [(lit ''requestStatus'', JStr (lit ''SUCCESS'')), (lit ''error'', JList [])]),
       st2\<lparr>payments := payments st2 @ [payment_kept ?now ?t (cl_client_id cl) data]\<rparr>)"
    using assms(5) a(1,2) payment_accepted [OF assms(4), of ?now auth]
    by (simp add: post_payment_def content(2) payment_kept_def request_status_name_def)
  then show ?thesis
    using a(3,4) content(1)
    by (simp add: register_payment_def with_client_for_def assms(1) client_register_payment_def bindM_def delivered_def
        decode_json_body_def)
qed

definition sample_tax_id :: pystr where "sample_tax_id = lit ''A1121604C4D0000000001Z''"

definition sample_holding :: mock_state where
  "sample_holding = sample_mock\<lparr>submissions :=
     [(lit ''R1'', \<lparr>ss_reference_number = lit ''R1'', ss_uid = sample_uuid, ss_fiscal_id = lit ''A11216'',
        ss_client_id = lit ''A11216'', ss_tax_id = sample_tax_id, ss_invoice = JNull, ss_invoice_bytes = [],
        ss_jws = [], ss_signer_der = [], ss_received_at = 0, ss_status = lit ''SUCCESS''\<rparr>)]\<rparr>"

definition sample_payment :: payment_in where
  "sample_payment = \<lparr>pay_taxid = sample_tax_id, pay_amount = 250000, pay_date = None, pay_method = lit ''CARD'',
     pay_terminal = Some (lit ''7001''), pay_reference = None\<rparr>"

theorem payment_recorded_witness:
  "\<exists>s. register_payment sample_desk sample_profile (\<lambda>_. 1735689600000) sample_payment (0, sample_holding) =
      (Inr (JObj [(lit ''requestStatus'', JStr (lit ''SUCCESS'')), (lit ''error'', JList [])]), s) \<and>
    map sp_payment_date (payments (snd s)) = [1735689600000]"
proof -
  have now: "accepted_now (ex_world sample_exchange) sample_holding (ex_time sample_exchange (Suc 0)) [48, 130, 1]"
    using sample_cert_accepted [of 1000000] by (simp add: sample_exchange_def sample_holding_def accepted_now_def)
  have p: "payment_in_order 1735689600000 sample_payment"
    by (simp add: payment_in_order_def sample_payment_def sample_tax_id_def is_tax_id_def ascii_or_none_def
        plain_number_def PAYMENT_METHODS_def ascii_digit_def ascii_upper_letter_def max_int_digits_def lit_def
        fmt_dec_0 digits_of.simps ascii_text_def)
  have "pay_taxid sample_payment \<in> ss_tax_id ` snd ` set (submissions sample_holding)"
    by (simp add: sample_payment_def sample_holding_def)
  then show ?thesis
    using payment_recorded [OF sample_desk_client sample_wired now p]
    by (auto simp: sample_holding_def sample_mock_def payment_kept_def sample_payment_def)
qed

end
