(* ===== verification/Probes.thy ===== *)
theory Probes
  imports Connections
begin

text \<open>
  The two scripts an operator runs before filing: \<open>tools/preflight.py\<close>, which checks a certificate
  end to end, and \<open>tools/check_connectivity.py\<close>, which probes the public resource of each
  environment. What they print is a list of marks; the prose is not modelled.
\<close>

datatype mark = Pass | Fail | Warn

section \<open>Preflight\<close>

datatype check =
    ConfigurationCheck | CertificatePath | PrivateKeyPath | LoadCheck | CertificateParses | KeyMatches
  | KeySize | Validity | Issuer | NationalId | SubjectName | NonceCheck | AuthenticatedCall | FiscalMemory

type_synonym lines = "(mark \<times> check) list"

text \<open>What the script reads off a certificate and a key.\<close>

record ('cert, 'key) cert_view =
  cv_key_size :: "'key \<Rightarrow> nat"
  cv_self_signed :: "'cert \<Rightarrow> bool"
  cv_national_id :: "'cert \<Rightarrow> pystr option"
  cv_has_name :: "'cert \<Rightarrow> bool"

definition verdict_mark :: "bool \<Rightarrow> mark" where
  "verdict_mark ok = (if ok then Pass else Fail)"

definition validity_mark :: "int \<Rightarrow> mark" where
  "validity_mark days = (if 30 < days then Pass else if 0 < days then Warn else Fail)"

definition DAY :: int where "DAY = 86400 * 1000000"

definition local_checks ::
    "('cert, 'key) key_library \<Rightarrow> ('cert, 'key) cert_view \<Rightarrow> file_system \<Rightarrow> pystr option \<Rightarrow> int \<Rightarrow> settings \<Rightarrow>
     environment \<Rightarrow> lines \<times> ('cert, 'key) signing_credentials option" where
  "local_checks ks cv fs password now st e =
     (let m = signing_material_of st e in
      case require_material fs m of
        Inl _ \<Rightarrow> ([(Fail, ConfigurationCheck)], None)
      | Inr _ \<Rightarrow>
          let found = [(Pass, CertificatePath), (Pass, PrivateKeyPath)] in
          case load_material ks fs password now m of
            Inl _ \<Rightarrow> (found @ [(Fail, LoadCheck)], None)
          | Inr cr \<Rightarrow>
              let c = sc_certificate cr;
                  national = (case cv_national_id cv c of None \<Rightarrow> False | Some n \<Rightarrow> n \<noteq> [])
              in (found @
                  [(Pass, CertificateParses), (Pass, KeyMatches),
                   (verdict_mark (cv_key_size cv (sc_private_key cr) = 2048), KeySize),
                   (validity_mark ((valid_until ks c - now) div DAY), Validity),
                   (verdict_mark (\<not> cv_self_signed cv c), Issuer),
                   (verdict_mark national, NationalId)] @
                  (if cv_has_name cv c then [(Pass, SubjectName)] else []),
                  Some cr))"

text \<open>
  A nonce that is refused by the service, and a fiscal information call the network fails, are
  exceptions the script does not catch.
\<close>

definition network_checks :: "'n client \<Rightarrow> pystr \<Rightarrow> ('n, lines \<times> int) io" where
  "network_checks cl memory = (\<lambda>n.
     case fetch_nonce cl n of
       (Inl e, n1) \<Rightarrow> if e = TransportError then (Inr ([(Fail, NonceCheck)], 1), n1) else (Inl e, n1)
     | (Inr _, n1) \<Rightarrow>
         (case client_server_information cl n1 of
            (Inl e, n2) \<Rightarrow>
              if is_moadian_error e then (Inr ([(Pass, NonceCheck), (Fail, AuthenticatedCall)], 1), n2) else (Inl e, n2)
          | (Inr _, n2) \<Rightarrow>
              let passed = [(Pass, NonceCheck), (Pass, AuthenticatedCall)] in
              (case client_fiscal_information cl memory n2 of
                 (Inl e, n3) \<Rightarrow>
                   if is_tax_api_error e = None then (Inl e, n3) else (Inr (passed @ [(Warn, FiscalMemory)], 1), n3)
               | (Inr _, n3) \<Rightarrow> (Inr (passed @ [(Pass, FiscalMemory)], 0), n3))))"

text \<open>The script builds its client with the default time to live of the client.\<close>

definition preflight_client ::
    "('cert, 'key, 'n) desk \<Rightarrow> environment \<Rightarrow> pystr \<Rightarrow> ('cert, 'key) signing_credentials \<Rightarrow> 'n client result" where
  "preflight_client dk e memory cr =
     make_client (dk_surroundings dk) (settings_base_url (dk_settings dk) e) memory (credentials_of (dk_keys dk) cr) 30"

definition preflight_main ::
    "('cert, 'key, 'n) desk \<Rightarrow> ('cert, 'key) cert_view \<Rightarrow> pystr \<Rightarrow> pystr \<Rightarrow> bool \<Rightarrow> ('n, lines \<times> int) io" where
  "preflight_main dk cv environment_name memory offline = (\<lambda>n.
     case parse_environment environment_name of
       Inl e \<Rightarrow> (Inl e, n)
     | Inr env \<Rightarrow>
         (case local_checks (dk_keys dk) cv (dk_files dk) (dk_password dk) (dk_now dk n) (dk_settings dk) env of
            (ls, None) \<Rightarrow> (Inr (ls, 1), n)
          | (ls, Some cr) \<Rightarrow>
              if offline then (Inr (ls, 0), n)
              else
                bindM (liftM (preflight_client dk env memory cr)) (\<lambda>cl.
                bindM (network_checks cl memory) (\<lambda>(more, code).
                  returnM (ls @ more, code))) n))"

section \<open>Connectivity\<close>

definition hex_or_dash :: "nat \<Rightarrow> bool" where
  "hex_or_dash c \<longleftrightarrow> ascii_digit c \<or> (97 \<le> c \<and> c \<le> 102) \<or> (65 \<le> c \<and> c \<le> 70) \<or> c = 45"

text \<open>\<open>NONCE_RE.match\<close>: its \<open>$\<close> lets a final newline through, its \<open>\d\<close> is any decimal digit.\<close>

definition nonce_shaped :: "pystr \<Rightarrow> bool" where
  "nonce_shaped s \<longleftrightarrow>
     (let tail = drop 37 s in
      length (take 36 s) = 36 \<and> list_all hex_or_dash (take 36 s) \<and> take 1 (drop 36 s) = [45] \<and>
      length (take 13 tail) = 13 \<and> list_all (\<lambda>c. decimal_value c \<noteq> None) (take 13 tail) \<and>
      drop 13 tail \<in> {[], [10]})"

definition SINKHOLE_PREFIXES :: "pystr list" where
  "SINKHOLE_PREFIXES = [lit ''198.18.'', lit ''198.19.'', lit ''0.0.0.0'', lit ''127.0.0.1'']"

definition resolve_mark :: "pystr list option \<Rightarrow> mark" where
  "resolve_mark addresses =
     (case addresses of
        None \<Rightarrow> Fail
      | Some xs \<Rightarrow> if list_ex (\<lambda>a. list_ex (startswith a) SINKHOLE_PREFIXES) xs then Warn else Pass)"

text \<open>\<open>parse_exp_date\<close>: the fraction is cut to six digits, the rest is \<open>fromisoformat\<close>'s.\<close>

definition cut_fraction :: "pystr \<Rightarrow> pystr" where
  "cut_fraction value =
     (let t = rstrip_char 90 value; whole = takeWhile (\<lambda>c. c \<noteq> 46) t in
      if 46 \<in> set t then whole @ [46] @ take 6 (drop (Suc (length whole)) t) else t)"

definition parse_exp_date :: "(pystr \<Rightarrow> int option) \<Rightarrow> pystr \<Rightarrow> int option" where
  "parse_exp_date from_iso value = from_iso (cut_fraction value)"

text \<open>What the network gives: no answer, or a status with the JSON of the body if it is JSON.\<close>

datatype probe_reply = NoAnswer | Answer int "json option"

record probe_world =
  pw_addresses :: "pystr list option"
  pw_handshake :: bool
  pw_first :: probe_reply
  pw_second :: probe_reply
  pw_now :: int
  pw_from_iso :: "pystr \<Rightarrow> int option"

record nonce_check =
  nc_http_status :: "int option"
  nc_mark :: mark
  nc_shape_ok :: "bool option"
  nc_granted :: "int option"
  nc_distinct :: "bool option"

record probe_report =
  pr_dns :: mark
  pr_tls :: "mark option"
  pr_nonce :: "nonce_check option"

definition failed_check :: "int option \<Rightarrow> nonce_check" where
  "failed_check status =
     \<lparr>nc_http_status = status, nc_mark = Fail, nc_shape_ok = None, nc_granted = None, nc_distinct = None\<rparr>"

definition member_text :: "members \<Rightarrow> string \<Rightarrow> pystr option" where
  "member_text kvs k = (case map_of kvs (lit k) of None \<Rightarrow> Some [] | Some (JStr s) \<Rightarrow> Some s | Some _ \<Rightarrow> None)"

text \<open>
  The second nonce, compared with the first; \<open>None\<close> is a body that is no object. A reply that does not
  come or is no JSON leaves the comparison out.
\<close>

definition second_nonce :: "pystr \<Rightarrow> probe_reply \<Rightarrow> bool option option" where
  "second_nonce first reply =
     (case reply of
        NoAnswer \<Rightarrow> Some None
      | Answer _ None \<Rightarrow> Some None
      | Answer _ (Some (JObj kvs)) \<Rightarrow> Some (Some (map_of kvs (lit ''nonce'') \<noteq> Some (JStr first)))
      | Answer _ (Some _) \<Rightarrow> None)"

text \<open>\<open>check_environment\<close>; \<open>None\<close> where a body of another type ends the script with an exception.\<close>

definition check_environment :: "probe_world \<Rightarrow> probe_report option" where
  "check_environment w =
     (let dns = resolve_mark (pw_addresses w);
          report = (\<lambda>nc. Some \<lparr>pr_dns = dns, pr_tls = Some (verdict_mark (pw_handshake w)), pr_nonce = Some nc\<rparr>)
      in if dns = Fail then Some \<lparr>pr_dns = dns, pr_tls = None, pr_nonce = None\<rparr>
         else
           case pw_first w of
             NoAnswer \<Rightarrow> report (failed_check None)
           | Answer status content \<Rightarrow>
               if status \<noteq> 200 then report (failed_check (Some status))
               else
                 (case content of
                    None \<Rightarrow> report (failed_check (Some status))
                  | Some (JObj kvs) \<Rightarrow>
                      Option.bind (member_text kvs ''nonce'') (\<lambda>first.
                      Option.bind (member_text kvs ''expDate'') (\<lambda>expires.
                      Option.bind (second_nonce first (pw_second w)) (\<lambda>distinct.
                        let parsed = parse_exp_date (pw_from_iso w) expires in
                        report \<lparr>nc_http_status = Some status, nc_mark = (if parsed = None then Warn else Pass),
                          nc_shape_ok = Some (nonce_shaped first),
                          nc_granted = map_option (\<lambda>t. round_half_even (of_int (t - pw_now w) / 1000000)) parsed,
                          nc_distinct = distinct\<rparr>)))
                  | Some _ \<Rightarrow> None))"

definition answered_200 :: "probe_report \<Rightarrow> bool" where
  "answered_200 r \<longleftrightarrow> Option.bind (pr_nonce r) nc_http_status = Some 200"

definition connectivity_main :: "probe_world list \<Rightarrow> (nat \<times> int) option" where
  "connectivity_main ws =
     map_option (\<lambda>rs. let reachable = length (filter answered_200 rs) in (reachable, if reachable = 0 then 1 else 0))
       (those (map check_environment ws))"

section \<open>When the preflight is ready\<close>

definition memory_shaped :: "pystr \<Rightarrow> bool" where
  "memory_shaped m \<longleftrightarrow> length m = 6 \<and> list_all (\<lambda>c. ascii_upper_letter c \<or> ascii_digit c) m"

lemma route_fiscal:
  assumes "wired ex cert cl"
  shows "route ex k (resource_request cl (lit ''GET'') FISCAL_INFORMATION [(lit ''memoryId'', m)] None token) =
    Routed (FiscalInformation m)"
proof -
  have "FISCAL_INFORMATION \<in> set ENDPOINTS" by (simp add: ENDPOINTS_def)
  moreover have "param ''memoryId'' [(lit ''memoryId'', m)] = Some m" by (simp add: param_def all_params_def)
  ultimately show ?thesis
    using assms by (simp add: route_def resource_request_def wired_def route_get_def endpoint_names)
qed

lemma fiscal_information_asked:
  assumes "wired ex cert cl"
  shows "\<exists>r s. client_fiscal_information cl m (k, st) = (r, s) \<and>
    (case r of
       Inr _ \<Rightarrow> accepted_now (ex_world ex) st (ex_time ex (Suc k)) cert \<and> memory_shaped m
     | Inl e \<Rightarrow> is_tax_api_error e \<noteq> None \<and> \<not> (accepted_now (ex_world ex) st (ex_time ex (Suc k)) cert \<and> memory_shaped m))"
proof (cases "accepted_now (ex_world ex) st (ex_time ex (Suc k)) cert")
  case False
  then obtain s err where "call cl (lit ''GET'') FISCAL_INFORMATION [(lit ''memoryId'', m)] None (k, st) =
      (Inl (AuthenticationError err), s)"
    using call_refused [OF assms False route_fiscal [OF assms]] by blast
  then show ?thesis using False by (simp add: client_fiscal_information_def bindM_Inl)
next
  case True
  have e: "FISCAL_INFORMATION \<in> set ENDPOINTS" by (simp add: ENDPOINTS_def)
  obtain auth st' where c: "call cl (lit ''GET'') FISCAL_INFORMATION [(lit ''memoryId'', m)] None (k, st) =
      (case protected_endpoint (ex_world ex) (ex_time ex (Suc k)) auth (FiscalInformation m) st' of
         (r, st'') \<Rightarrow> (delivered ex (Suc k) r, (Suc (Suc k), st'')))"
    using call_served [OF assms True e route_fiscal [OF assms]] by blast
  show ?thesis
  proof (cases "memory_shaped m")
    case shaped: True
    have "\<exists>v. read_fiscal (JObj [(lit ''nameTrade'', JStr m), (lit ''fiscalStatus'', JStr (lit ''ACTIVE'')),
         (lit ''nationalId'', JStr (lit ''14003778990'')), (lit ''economicCode'', JStr (lit ''14003778990''))]) = Some v"
      by (simp add: read_fiscal_def as_dict_def default_to_def nullable_def as_str_def)
    then show ?thesis
      using True shaped c
      by (auto simp: client_fiscal_information_def fiscal_reply_def memory_shaped_def guard_def bindM_def delivered_def
          decode_model_def decode_json_body_def)
  next
    case unshaped: False
    then have "fiscal_reply m = reject 400 ''4148''" by (auto simp: fiscal_reply_def memory_shaped_def guard_def reject_def)
    then show ?thesis
      using True unshaped c by (simp add: client_fiscal_information_def reject_def bindM_def delivered_def)
  qed
qed

text \<open>
  C26. The preflight says ready exactly when it is: for credentials that load and a service that can
  be reached, its exit code is 0 when the certificate is valid and trusted at both authenticated
  calls and the memory id has its shape, and 1 otherwise.
\<close>

theorem preflight_ready_iff:
  assumes "parse_environment name = Inr env"
    "local_checks (dk_keys dk) cv (dk_files dk) (dk_password dk) (dk_now dk (k, st)) (dk_settings dk) env = (ls, Some cr)"
    "preflight_client dk env memory cr = Inr cl" "wired ex cert cl"
  shows "\<exists>more s. preflight_main dk cv name memory False (k, st) =
    (Inr (ls @ more,
       if accepted_now (ex_world ex) st (ex_time ex (k + 2)) cert \<and>
          accepted_now (ex_world ex) st (ex_time ex (k + 4)) cert \<and> memory_shaped memory
       then 0 else 1), s)"
proof -
  let ?a = "\<lambda>st j. accepted_now (ex_world ex) st (ex_time ex (k + j)) cert"
  obtain n expires st1 where i: "issued_by ex cl k st = ((n, expires), st1)" by (metis surj_pair)
  note f = fetch_nonce_served [OF assms(4) i]
  have same: "?a st1 j = ?a st j" for j using issued_frame(4) [OF i] by (simp add: accepted_now_def)
  have "\<exists>more s. network_checks cl memory (k, st) =
      (Inr (more, if ?a st 2 \<and> ?a st 4 \<and> memory_shaped memory then 0 else 1), s)"
  proof (cases "?a st 2")
    case False
    then obtain err s where "client_server_information cl (Suc k, st1) = (Inl (AuthenticationError err), s)"
      using server_information_refused [OF assms(4), of st1 "Suc k"] same [of 2] by (auto simp: numeral_2_eq_2)
    then show ?thesis using False f by (simp add: network_checks_def)
  next
    case True
    then obtain info st2 where s: "client_server_information cl (Suc k, st1) = (Inr info, (Suc (Suc (Suc k)), st2))"
      "trusted_der st2 = trusted_der st1"
      using server_information_served [OF assms(4), of st1 "Suc k"] same [of 2] by (auto simp: numeral_2_eq_2)
    have same2: "?a st2 4 = ?a st 4" using s(2) issued_frame(4) [OF i] by (simp add: accepted_now_def)
    have four: "Suc (Suc (Suc (Suc k))) = k + 4" by simp
    obtain r s3 where "client_fiscal_information cl memory (Suc (Suc (Suc k)), st2) = (r, s3)"
      "case r of Inr _ \<Rightarrow> ?a st2 4 \<and> memory_shaped memory
       | Inl e \<Rightarrow> is_tax_api_error e \<noteq> None \<and> \<not> (?a st2 4 \<and> memory_shaped memory)"
      using fiscal_information_asked [OF assms(4), of memory "Suc (Suc (Suc k))" st2, unfolded four] by blast
    then show ?thesis using True f s(1) same2 by (cases r) (auto simp: network_checks_def Let_def)
  qed
  then show ?thesis
    using assms(1-3) by (auto simp: preflight_main_def bindM_def)
qed

definition sample_view :: "(nat list, unit) cert_view" where
  "sample_view = \<lparr>cv_key_size = (\<lambda>_. 1024), cv_self_signed = (\<lambda>_. True), cv_national_id = (\<lambda>_. None),
     cv_has_name = (\<lambda>_. False)\<rparr>"

lemma sample_local:
  "local_checks sample_ring sample_view (dk_files sample_desk) None 0 (dk_settings sample_desk) SANDBOX =
    ([(Pass, CertificatePath), (Pass, PrivateKeyPath), (Pass, CertificateParses), (Pass, KeyMatches), (Fail, KeySize),
      (Pass, Validity), (Fail, Issuer), (Fail, NationalId)], Some \<lparr>sc_certificate = [48, 130, 1], sc_private_key = ()\<rparr>)"
proof -
  have l: "load_material sample_ring (dk_files sample_desk) None 0 (signing_material_of (dk_settings sample_desk) SANDBOX) =
      Inr \<lparr>sc_certificate = [48, 130, 1], sc_private_key = ()\<rparr>"
    using sample_credentials_load by (simp add: load_credentials_def sample_profile_def)
  then obtain x where "require_material (dk_files sample_desk) (signing_material_of (dk_settings sample_desk) SANDBOX) = Inr x"
    by (auto simp: load_material_def py_splits)
  then show ?thesis
    using l by (simp add: local_checks_def Let_def sample_view_def verdict_mark_def validity_mark_def sample_ring_def DAY_def)
qed

text \<open>A script that is only asked for the local stage exits with 0 whatever marks it printed.\<close>

theorem offline_ignores_marks:
  "\<exists>ls. fst (preflight_main sample_desk sample_view (lit ''sandbox'') (lit ''A11216'') True n) = Inr (ls, 0) \<and>
     (Fail, KeySize) \<in> set ls \<and> (Fail, Issuer) \<in> set ls"
  using sample_local
  by (simp add: preflight_main_def sample_environment_name) (simp add: sample_desk_def)

theorem preflight_ready_iff_witness:
  "\<exists>ls. fst (preflight_main sample_desk sample_view (lit ''sandbox'') (lit ''A11216'') False (0, sample_mock)) = Inr (ls, 0)"
proof -
  have l: "local_checks (dk_keys sample_desk) sample_view (dk_files sample_desk) (dk_password sample_desk)
      (dk_now sample_desk (0, sample_mock)) (dk_settings sample_desk) SANDBOX =
      ([(Pass, CertificatePath), (Pass, PrivateKeyPath), (Pass, CertificateParses), (Pass, KeyMatches), (Fail, KeySize),
        (Pass, Validity), (Fail, Issuer), (Fail, NationalId)], Some \<lparr>sc_certificate = [48, 130, 1], sc_private_key = ()\<rparr>)"
    using sample_local by (simp add: sample_desk_def)
  have c: "preflight_client sample_desk SANDBOX (lit ''A11216'') \<lparr>sc_certificate = [48, 130, 1], sc_private_key = ()\<rparr> =
      Inr sample_client"
    using sample_client_made by (simp add: preflight_client_def)
  have a: "accepted_now (ex_world sample_exchange) sample_mock (ex_time sample_exchange (0 + j)) [48, 130, 1]" if "j < 10" for j
    using sample_cert_accepted [of "int j * 1000000"] that by (simp add: sample_exchange_def)
  have "memory_shaped (lit ''A11216'')" by (simp add: memory_shaped_def lit_def ascii_defs)
  then show ?thesis
    using preflight_ready_iff [OF sample_environment_name l c sample_wired] a [of 2] a [of 4] by fastforce
qed

section \<open>What the connectivity probe counts\<close>

text \<open>An environment that answers 200 with no nonce at all counts as one that answered a well-formed nonce.\<close>

theorem probe_counts_any_200:
  "connectivity_main [\<lparr>pw_addresses = Some [lit ''10.0.0.1''], pw_handshake = False, pw_first = Answer 200 None,
     pw_second = NoAnswer, pw_now = 0, pw_from_iso = (\<lambda>_. None)\<rparr>] = Some (1, 0)"
  by (simp add: connectivity_main_def check_environment_def resolve_mark_def SINKHOLE_PREFIXES_def startswith_def
      answered_200_def failed_check_def lit_def Let_def)

end
