(* ===== verification/Extract.thy ===== *)
theory Extract
  imports Rules "HOL-Library.List_Lexorder" "HOL-Library.Product_Lexorder"
begin

text \<open>
  \<open>tools/extract_table1.py\<close>: the obligation matrix transcribed from the table of the published
  document, and the rule file written from it.

  What \<open>pdfplumber\<close> gives for the table is a list of rows of cells; NFKC is a parameter. A key
  \<open>"type/pattern"\<close> of the matrix is the pair it spells. The rule file is its text, and
  \<open>emitted_document\<close> is the document that text denotes, an integer key written in decimal as in
  \<open>Rules\<close>; the YAML reader is a parameter of the theorem that joins the two.
\<close>

section \<open>The table\<close>

text \<open>The type and the pattern of each of the 16 columns, and the titles with their wire names.\<close>

definition COLUMNS :: "(int \<times> int) list" where
  "COLUMNS = [(2, 13), (2, 9), (2, 3), (2, 1), (1, 14), (1, 13), (1, 11), (1, 9), (1, 8), (1, 7), (1, 6),
     (1, 5), (1, 4), (1, 3), (1, 2), (1, 1)]"

definition FIELDS :: "(pystr \<times> pystr \<times> pystr) list" where
  "FIELDS = [
    ([1588, 1605, 1575, 1585, 1607, 32, 1605, 1606, 1581, 1589, 1585, 32, 1576, 1607, 32, 1601, 1585,
      1583, 32, 1605, 1575, 1604, 1610, 1575, 1578, 1610], lit ''taxid'', lit ''header''),
    ([1578, 1575, 1585, 1610, 1582, 32, 1608, 32, 1586, 1605, 1575, 1606, 32, 1589, 1583, 1608, 1585,
      32, 1589, 1608, 1585, 1578, 1581, 1587, 1575, 1576, 32, 41, 32, 1605, 1610, 1575, 1604, 1583,
      1610, 32, 40], lit ''indatim'', lit ''header''),
    ([1578, 1575, 1585, 1610, 1582, 32, 1608, 32, 1586, 1605, 1575, 1606, 32, 1579, 1576, 1578, 32,
      1589, 1608, 1585, 1578, 1581, 1587, 1575, 1576, 32, 41, 32, 1605, 1610, 1575, 1604, 1583, 1610,
      32, 40], lit ''indati2m'', lit ''header''),
    ([1606, 1608, 1593, 32, 1589, 1608, 1585, 1578, 1581, 1587, 1575, 1576], lit ''inty'', lit ''header''),
    ([1587, 1585, 1610, 1575, 1604, 32, 1589, 1608, 1585, 1578, 1581, 1587, 1575, 1576, 32, 1583, 1575,
      1582, 1604, 1610, 32, 1581, 1575, 1601, 1592, 1607, 32, 1605, 1575, 1604, 1610, 1575, 1578, 1610],
      lit ''inno'', lit ''header''),
    ([1588, 1605, 1575, 1585, 1607, 32, 1605, 1606, 1581, 1589, 1585, 32, 1576, 1607, 32, 1601, 1585,
      1583, 32, 1605, 1575, 1604, 1610, 1575, 1578, 1610, 32, 1589, 1608, 1585, 1578, 1581, 1587, 1575,
      1576, 32, 1605, 1585, 1580, 1593], lit ''irtaxid'', lit ''header''),
    ([1575, 1604, 1711, 1608, 1610, 32, 1589, 1608, 1585, 1578, 1581, 1587, 1575, 1576],
      lit ''inp'', lit ''header''),
    ([1605, 1608, 1590, 1608, 1593, 32, 1589, 1608, 1585, 1578, 1581, 1587, 1575, 1576],
      lit ''ins'', lit ''header''),
    ([1588, 1605, 1575, 1585, 1607, 32, 1575, 1602, 1578, 1589, 1575, 1583, 1610, 32, 1601, 1585, 1608,
      1588, 1606, 1583, 1607], lit ''tins'', lit ''header''),
    ([1606, 1608, 1593, 32, 1588, 1582, 1589, 32, 1582, 1585, 1610, 1583, 1575, 1585],
      lit ''tob'', lit ''header''),
    ([1582, 1585, 1610, 1583, 1575, 1585, 32, 1588, 1606, 1575, 1587, 1607, 32, 1605, 1604, 1610, 47,
      32, 1588, 1605, 1575, 1585, 1607, 32, 1605, 1604, 1610, 47, 32, 1588, 1606, 1575, 1587, 1607, 32,
      1605, 1588, 1575, 1585, 1603, 1578, 32, 1605, 1583, 1606, 1610, 47, 32, 1603, 1583, 32, 1601,
      1585, 1575, 1711, 1610, 1585, 32, 1575, 1578, 1576, 1575, 1593, 32, 1594, 1610, 1585, 32, 1575,
      1610, 1585, 1575, 1606, 1610], lit ''bid'', lit ''header''),
    ([1588, 1605, 1575, 1585, 1607, 32, 1575, 1602, 1578, 1589, 1575, 1583, 1610, 32, 1582, 1585, 1610,
      1583, 1575, 1585], lit ''tinb'', lit ''header''),
    ([1603, 1583, 32, 1588, 1593, 1576, 1607, 32, 1601, 1585, 1608, 1588, 1606, 1583, 1607],
      lit ''sbc'', lit ''header''),
    ([1603, 1583, 32, 1662, 1587, 1578, 1610, 32, 1582, 1585, 1610, 1583, 1575, 1585],
      lit ''bpc'', lit ''header''),
    ([1603, 1583, 32, 1588, 1593, 1576, 1607, 32, 1582, 1585, 1610, 1583, 1575, 1585],
      lit ''bbc'', lit ''header''),
    ([1606, 1608, 1593, 32, 1662, 1585, 1608, 1575, 1586], lit ''ft'', lit ''header''),
    ([1588, 1605, 1575, 1585, 1607, 32, 1711, 1584, 1585, 1606, 1575, 1605, 1607, 32, 1582, 1585, 1610,
      1583, 1575, 1585], lit ''bpn'', lit ''header''),
    ([1588, 1605, 1575, 1585, 1607, 32, 1662, 1585, 1608, 1575, 1606, 1607, 32, 1711, 1605, 1585, 1603,
      1610], lit ''scln'', lit ''header''),
    ([1603, 1583, 32, 1711, 1605, 1585, 1603, 32, 1605, 1581, 1604, 32, 1575, 1592, 1607, 1575, 1585,
      32, 1601, 1585, 1608, 1588, 1606, 1583, 1607], lit ''scc'', lit ''header''),
    ([1588, 1605, 1575, 1585, 1607, 32, 1603, 1608, 1578, 1575, 1688, 32, 1575, 1592, 1607, 1575, 1585,
      1606, 1575, 1605, 1607, 32, 1711, 1605, 1585, 1603, 1610], lit ''cdcn'', lit ''header''),
    ([1578, 1575, 1585, 1610, 1582, 32, 1603, 1608, 1578, 1575, 1688, 32, 1575, 1592, 1607, 1575, 1585,
      1606, 1575, 1605, 1607, 32, 1711, 1605, 1585, 1603, 1610], lit ''cdcd'', lit ''header''),
    ([1588, 1605, 1575, 1585, 1607, 32, 1602, 1585, 1575, 1585, 1583, 1575, 1583, 32, 1662, 1610, 1605,
      1575, 1606, 1603, 1575, 1585, 1610], lit ''crn'', lit ''header''),
    ([1588, 1605, 1575, 1585, 1607, 32, 1575, 1588, 1578, 1585, 1575, 1603, 32, 47, 1588, 1606, 1575,
      1587, 1607, 32, 1602, 1576, 1590, 32, 1576, 1607, 1585, 1607, 32, 1576, 1585, 1583, 1575, 1585],
      lit ''billid'', lit ''header''),
    ([1605, 1580, 1605, 1608, 1593, 32, 1605, 1576, 1604, 1594, 32, 1602, 1576, 1604, 32, 1575, 1586,
      32, 1603, 1587, 1585, 32, 1578, 1582, 1601, 1610, 1601], lit ''tprdis'', lit ''header''),
    ([1605, 1580, 1605, 1608, 1593, 32, 1578, 1582, 1601, 1610, 1601, 1575, 1578],
      lit ''tdis'', lit ''header''),
    ([1605, 1580, 1605, 1608, 1593, 32, 1605, 1576, 1604, 1594, 32, 1662, 1587, 32, 1575, 1586, 32,
      1603, 1587, 1585, 32, 1578, 1582, 1601, 1610, 1601], lit ''tadis'', lit ''header''),
    ([1605, 1580, 1605, 1608, 1593, 32, 1605, 1575, 1604, 1610, 1575, 1578, 32, 1576, 1585, 32, 1575,
      1585, 1586, 1588, 32, 1575, 1601, 1586, 1608, 1583, 1607], lit ''tvam'', lit ''header''),
    ([1605, 1580, 1605, 1608, 1593, 32, 1587, 1575, 1610, 1585, 32, 1605, 1575, 1604, 1610, 1575, 1578,
      1548, 32, 1593, 1608, 1575, 1585, 1590, 32, 1608, 32, 1608, 1580, 1608, 1607, 32, 1602, 1575,
      1606, 1608, 1606, 1610], lit ''todam'', lit ''header''),
    ([1605, 1580, 1605, 1608, 1593, 32, 1589, 1608, 1585, 1578, 1581, 1587, 1575, 1576],
      lit ''tbill'', lit ''header''),
    ([1605, 1580, 1605, 1608, 1593, 32, 1608, 1586, 1606, 32, 1582, 1575, 1604, 1589],
      lit ''tonw'', lit ''header''),
    ([1605, 1580, 1605, 1608, 1593, 32, 1575, 1585, 1586, 1588, 32, 1585, 1610, 1575, 1604, 1610],
      lit ''torv'', lit ''header''),
    ([1605, 1580, 1605, 1608, 1593, 32, 1575, 1585, 1586, 1588, 32, 1575, 1585, 1586, 1610],
      lit ''tocv'', lit ''header''),
    ([1585, 1608, 1588, 32, 1578, 1587, 1608, 1610, 1607], lit ''setm'', lit ''header''),
    ([1605, 1576, 1604, 1594, 32, 1662, 1585, 1583, 1575, 1582, 1578, 1610, 32, 1606, 1602, 1583, 1610],
      lit ''cap'', lit ''header''),
    ([1605, 1576, 1604, 1594, 32, 1606, 1587, 1610, 1607], lit ''insp'', lit ''header''),
    ([1605, 1580, 1605, 1608, 1593, 32, 1587, 1607, 1605, 32, 1605, 1575, 1604, 1610, 1575, 1578, 32,
      1576, 1585, 32, 1575, 1585, 1586, 1588, 32, 1575, 1601, 1586, 1608, 1583, 1607, 32, 1575, 1586,
      32, 1662, 1585, 1583, 1575, 1582, 1578], lit ''tvop'', lit ''header''),
    ([1605, 1575, 1604, 1610, 1575, 1578, 32, 1605, 1608, 1590, 1608, 1593, 32, 1605, 1575, 1583, 1607,
      32, 55, 1633], lit ''tax17'', lit ''header''),
    ([1588, 1606, 1575, 1587, 1607, 32, 1603, 1575, 1575, 1604, 47, 1582, 1583, 1605, 1578],
      lit ''sstid'', lit ''body''),
    ([1588, 1585, 1581, 32, 1603, 1575, 1575, 1604, 47, 32, 1582, 1583, 1605, 1578],
      lit ''sstt'', lit ''body''),
    ([1578, 1593, 1583, 1575, 1583, 47, 1605, 1602, 1583, 1575, 1585], lit ''am'', lit ''body''),
    ([1608, 1575, 1581, 1583, 32, 1575, 1606, 1583, 1575, 1586, 1607, 32, 1711, 1610, 1585, 1610],
      lit ''mu'', lit ''body''),
    ([1608, 1586, 1606, 32, 1582, 1575, 1604, 1589], lit ''nw'', lit ''body''),
    ([1605, 1576, 1604, 1594, 32, 1608, 1575, 1581, 1583], lit ''fee'', lit ''body''),
    ([1605, 1610, 1586, 1575, 1606, 32, 1575, 1585, 1586], lit ''cfee'', lit ''body''),
    ([1606, 1608, 1593, 32, 1575, 1585, 1586], lit ''cut'', lit ''body''),
    ([1606, 1585, 1582, 32, 1576, 1585, 1575, 1576, 1585, 1610, 32, 1575, 1585, 1586, 32, 1576, 1575,
      32, 1585, 1610, 1575, 1604], lit ''exr'', lit ''body''),
    ([1575, 1585, 1586, 1588, 32, 1585, 1610, 1575, 1604, 1610, 32, 1603, 1575, 1575, 1604],
      lit ''ssrv'', lit ''body''),
    ([1575, 1585, 1586, 1588, 32, 1575, 1585, 1586, 1610, 32, 1603, 1575, 1575, 1604],
      lit ''sscv'', lit ''body''),
    ([1605, 1576, 1604, 1594, 32, 1602, 1576, 1604, 32, 1575, 1586, 32, 1578, 1582, 1601, 1610, 1601],
      lit ''prdis'', lit ''body''),
    ([1605, 1576, 1604, 1594, 32, 1578, 1582, 1601, 1610, 1601], lit ''dis'', lit ''body''),
    ([1605, 1576, 1604, 1594, 32, 1576, 1593, 1583, 32, 1575, 1586, 32, 1578, 1582, 1601, 1610, 1601],
      lit ''adis'', lit ''body''),
    ([1606, 1585, 1582, 32, 1605, 1575, 1604, 1610, 1575, 1578, 32, 1576, 1585, 32, 1575, 1585, 1586,
      1588, 32, 1575, 1601, 1586, 1608, 1583, 1607], lit ''vra'', lit ''body''),
    ([1605, 1576, 1604, 1594, 32, 1605, 1575, 1604, 1610, 1575, 1578, 32, 1576, 1585, 32, 1575, 1585,
      1586, 1588, 32, 1575, 1601, 1586, 1608, 1583, 1607], lit ''vam'', lit ''body''),
    ([1605, 1608, 1590, 1608, 1593, 32, 1587, 1575, 1610, 1585, 32, 1605, 1575, 1604, 1610, 1575, 1578,
      32, 1608, 32, 1593, 1608, 1575, 1585, 1590], lit ''odt'', lit ''body''),
    ([1606, 1585, 1582, 32, 1587, 1575, 1610, 1585, 32, 1605, 1575, 1604, 1610, 1575, 1578, 32, 1608,
      32, 1593, 1608, 1575, 1585, 1590], lit ''odr'', lit ''body''),
    ([1605, 1576, 1604, 1594, 32, 1587, 1575, 1610, 1585, 32, 1605, 1575, 1604, 1610, 1575, 1578, 32,
      1608, 32, 1593, 1608, 1575, 1585, 1590], lit ''odam'', lit ''body''),
    ([1605, 1608, 1590, 1608, 1593, 32, 1587, 1575, 1610, 1585, 32, 1608, 1580, 1608, 1607, 32, 1602,
      1575, 1606, 1608, 1606, 1610], lit ''olt'', lit ''body''),
    ([1606, 1585, 1582, 32, 1587, 1575, 1610, 1585, 32, 1608, 1580, 1608, 1607, 32, 1602, 1575, 1606,
      1608, 1606, 1610], lit ''olr'', lit ''body''),
    ([1605, 1576, 1604, 1594, 32, 1587, 1575, 1610, 1585, 32, 1608, 1580, 1608, 1607, 32, 1602, 1575,
      1606, 1608, 1606, 1610], lit ''olam'', lit ''body''),
    ([1575, 1580, 1585, 1578, 32, 1587, 1575, 1582, 1578], lit ''consfee'', lit ''body''),
    ([1587, 1608, 1583, 32, 1601, 1585, 1608, 1588, 1606, 1583, 1607], lit ''spro'', lit ''body''),
    ([1581, 1602, 32, 1575, 1604, 1593, 1605, 1604], lit ''bros'', lit ''body''),
    ([1580, 1605, 1593, 32, 1603, 1604, 32, 1575, 1580, 1585, 1578, 1548, 32, 1581, 1602, 32, 1575,
      1604, 1593, 1605, 1604, 32, 1608, 32, 1587, 1608, 1583], lit ''tcpbs'', lit ''body''),
    ([1587, 1607, 1605, 32, 1606, 1602, 1583, 1610, 32, 1575, 1586, 32, 1662, 1585, 1583, 1575, 1582,
      1578], lit ''cop'', lit ''body''),
    ([1587, 1607, 1605, 32, 1605, 1575, 1604, 1610, 1575, 1578, 32, 1576, 1585, 32, 1575, 1585, 1586,
      1588, 32, 1575, 1601, 1586, 1608, 1583, 1607, 32, 1575, 1586, 32, 1662, 1585, 1583, 1575, 1582,
      1578], lit ''vop'', lit ''body''),
    ([1588, 1605, 1575, 1585, 1607, 32, 1602, 1585, 1575, 1585, 1583, 1575, 1583, 32, 1605, 1593, 1575,
      1605, 1604, 1607, 32, 1575, 1586, 32, 1591, 1585, 1610, 1602, 32, 1588, 1582, 1589, 32, 1579,
      1575, 1604, 1579], lit ''bsrn'', lit ''body''),
    ([1605, 1576, 1604, 1594, 32, 1603, 1604, 32, 1603, 1575, 1575, 1604, 47, 1582, 1583, 1605, 1578],
      lit ''tsstam'', lit ''body''),
    ([1588, 1605, 1575, 1585, 1607, 32, 1587, 1608, 1574, 1610, 1670, 32, 1662, 1585, 1583, 1575, 1582,
      1578], lit ''iinn'', lit ''payment''),
    ([1588, 1605, 1575, 1585, 1607, 32, 1662, 1584, 1610, 1585, 1606, 1583, 1607, 32, 1601, 1585, 1608,
      1588, 1711, 1575, 1607, 1610], lit ''acn'', lit ''payment''),
    ([1588, 1605, 1575, 1585, 1607, 32, 1662, 1575, 1610, 1575, 1606, 1607], lit ''trmn'', lit ''payment''),
    ([1585, 1608, 1588, 32, 1662, 1585, 1583, 1575, 1582, 1578], lit ''pmt'', lit ''payment''),
    ([1588, 1605, 1575, 1585, 1607, 32, 1662, 1610, 1711, 1610, 1585, 1610, 47, 1588, 1605, 1575, 1585,
      1607, 32, 1605, 1585, 1580, 1593], lit ''trn'', lit ''payment''),
    ([1588, 1605, 1575, 1585, 1607, 32, 1603, 1575, 1585, 1578, 32, 1662, 1585, 1583, 1575, 1582, 1578,
      32, 1603, 1606, 1606, 1583, 1607, 32, 1589, 1608, 1585, 1578, 1581, 1587, 1575, 1576],
      lit ''pcn'', lit ''payment''),
    ([1588, 1605, 1575, 1585, 1607, 47, 1588, 1606, 1575, 1587, 1607, 32, 1605, 1604, 1610, 47, 1603,
      1583, 32, 1601, 1585, 1575, 1711, 1610, 1585, 32, 1662, 1585, 1583, 1575, 1582, 1578, 32, 1603,
      1606, 1606, 1583, 1607, 32, 1589, 1608, 1585, 1578, 1581, 1587, 1575, 1576],
      lit ''pid'', lit ''payment''),
    ([1578, 1575, 1585, 1610, 1582, 32, 1608, 32, 1586, 1605, 1575, 1606, 32, 1662, 1585, 1583, 1575,
      1582, 1578], lit ''pdt'', lit ''payment''),
    ([1605, 1576, 1604, 1594, 32, 1662, 1585, 1583, 1575, 1582, 1578, 1610], lit ''pv'', lit ''payment''),
    ([1593, 1610, 1575, 1585], lit ''cui'', lit ''body''),
    ([1588, 1605, 1575, 1585, 1607, 32, 1575, 1602, 1578, 1589, 1575, 1583, 1610, 32, 1570, 1688, 1575,
      1606, 1587], lit ''tinc'', lit ''header''),
    ([1588, 1605, 1575, 1585, 1607, 32, 1576, 1575, 1585, 1606, 1575, 1605, 1607], lit ''lno'', lit ''header''),
    ([1588, 1605, 1575, 1585, 1607, 32, 1576, 1575, 1585, 1606, 1575, 1605, 1607, 32, 1605, 1585, 1580,
      1593], lit ''lrno'', lit ''header''),
    ([1603, 1588, 1608, 1585, 32, 1605, 1576, 1583, 1575], lit ''ocu'', lit ''header''),
    ([1588, 1607, 1585, 32, 1605, 1576, 1583, 1575], lit ''oci'', lit ''header''),
    ([1603, 1588, 1608, 1585, 32, 1605, 1602, 1589, 1583], lit ''dco'', lit ''header''),
    ([1588, 1607, 1585, 32, 1605, 1602, 1589, 1583], lit ''dci'', lit ''header''),
    ([1601, 1585, 1587, 1578, 1606, 1583, 1607, 32, 1588, 1606, 1575, 1587, 1607, 32, 1605, 1604, 1610,
      47, 32, 1588, 1605, 1575, 1585, 1607, 32, 1605, 1604, 1610, 47, 32, 1588, 1606, 1575, 1587, 1607,
      32, 1605, 1588, 1575, 1585, 1603, 1578, 32, 1605, 1583, 1606, 1610, 47, 32, 1603, 1583, 32, 1601,
      1585, 1575, 1711, 1610, 1585, 32, 1575, 1578, 1576, 1575, 1593, 32, 1594, 1610, 1585, 32, 1575,
      1610, 1585, 1575, 1606, 1610], lit ''tid'', lit ''header''),
    ([1711, 1610, 1585, 1606, 1583, 1607, 32, 1588, 1606, 1575, 1587, 1607, 32, 1605, 1604, 1610, 47,
      32, 1588, 1605, 1575, 1585, 1607, 32, 1605, 1604, 1610, 47, 32, 1588, 1606, 1575, 1587, 1607, 32,
      1605, 1588, 1575, 1585, 1603, 1578, 32, 1605, 1583, 1606, 1610, 47, 32, 1603, 1583, 32, 1601,
      1585, 1575, 1711, 1610, 1585, 32, 1575, 1578, 1576, 1575, 1593, 32, 1594, 1610, 1585, 32, 1575,
      1610, 1585, 1575, 1606, 1610], lit ''rid'', lit ''header''),
    ([1606, 1608, 1593, 32, 1576, 1575, 1585, 1606, 1575, 1605, 1607, 47, 1606, 1608, 1593, 32, 1581,
      1605, 1604], lit ''lt'', lit ''header''),
    ([1588, 1605, 1575, 1585, 1607, 32, 1606, 1575, 1608, 1711, 1575, 1606], lit ''cno'', lit ''header''),
    ([1588, 1605, 1575, 1585, 1607, 32, 1605, 1604, 1610, 47, 32, 1603, 1583, 32, 1601, 1585, 1575,
      1711, 1610, 1585, 32, 1575, 1578, 1576, 1575, 1593, 32, 1594, 1610, 1585, 1575, 1610, 1585, 1575,
      1606, 1610, 32, 1585, 1575, 1606, 1606, 1583, 1607, 32, 1583, 1585, 32, 1581, 1605, 1604, 32,
      1608, 32, 1606, 1602, 1604, 32, 1580, 1575, 1583, 1607, 32, 1575, 1610], lit ''did'', lit ''header''),
    ([1603, 1575, 1575, 1604, 1607, 1575, 1610, 32, 1581, 1605, 1604, 32, 1588, 1583, 1607],
      lit ''sg'', lit ''header''),
    ([1588, 1606, 1575, 1587, 1607, 32, 1603, 1575, 1575, 1604, 1610, 32, 1581, 1605, 1604, 32, 1588,
      1583, 1607], lit ''sgid'', lit ''sg''),
    ([1588, 1585, 1581, 32, 1603, 1575, 1575, 1604, 1610, 32, 1581, 1605, 1604, 32, 1588, 1583, 1607],
      lit ''sgt'', lit ''sg''),
    ([1606, 1585, 1582, 32, 1582, 1585, 1610, 1583, 32, 1575, 1585, 1586], lit ''cpr'', lit ''body''),
    ([1605, 1575, 1582, 1584, 32, 1605, 1575, 1604, 1610, 1575, 1578, 32, 1576, 1585, 32, 1575, 1585,
      1586, 1588, 32, 1575, 1601, 1586, 1608, 1583, 1607, 32, 1583, 1585, 32, 1575, 1604, 1711, 1608,
      1610, 32, 1601, 1585, 1608, 1588, 32, 1575, 1585, 1586], lit ''sovat'', lit ''body''),
    ([1588, 1605, 1575, 1585, 1607, 32, 1575, 1593, 1575, 1604, 1605, 1610, 1607, 32, 1601, 1585, 1608,
      1588, 32, 1576, 1608, 1585, 1587], lit ''asn'', lit ''header''),
    ([1578, 1575, 1585, 1610, 1582, 32, 1575, 1593, 1575, 1604, 1605, 1610, 1607, 32, 1601, 1585, 1608,
      1588, 32, 1576, 1608, 1585, 1587], lit ''asd'', lit ''header''),
    ([1588, 1606, 1575, 1587, 1607, 32, 1610, 1603, 1578, 1575, 1610, 32, 1576, 1610, 1605, 1607, 32,
      1606, 1575, 1605, 1607], lit ''in'', lit ''header''),
    ([1588, 1606, 1575, 1587, 1607, 32, 1610, 1603, 1578, 1575, 1610, 32, 1575, 1604, 1581, 1575, 1602,
      1610, 1607], lit ''an'', lit ''header''),
    ([1605, 1576, 1604, 1594, 32, 1662, 1575, 1610, 1607, 32, 1605, 1575, 1604, 1610, 1575, 1578, 32,
      1576, 1585, 32, 1575, 1585, 1586, 1588, 32, 1575, 1601, 1586, 1608, 1583, 1607],
      lit ''vba'', lit ''body''),
    ([1602, 1575, 1593, 1583, 1607, 32, 1575, 1585, 1587, 1575, 1604, 32, 1589, 1608, 1585, 1578, 1581,
      1587, 1575, 1576], lit ''insr'', lit ''header''),
    ([1610, 1575, 1583, 1583, 1575, 1588, 1578, 32, 1633], lit ''nti1'', lit ''header''),
    ([1610, 1575, 1583, 1583, 1575, 1588, 1578, 32, 50], lit ''nti2'', lit ''header'')]"

type_synonym grid = "pystr option list list"

record table_entry =
  te_section :: pystr
  te_title :: pystr
  te_patterns :: "((int \<times> int) \<times> obligation) list"

type_synonym matrix = "(pystr \<times> table_entry) list"

definition logical :: "(pystr \<Rightarrow> pystr) \<Rightarrow> pystr option \<Rightarrow> pystr" where
  "logical nfkc text =
     (if or_empty text = [] then []
      else joined_by [32] (words_of (rev (nfkc
        (filter (\<lambda>c. c \<noteq> 0x640) (map (\<lambda>c. if c = 10 then 32 else c) (or_empty text)))))))"

definition SPECIAL_WORDS :: "pystr list" where
  "SPECIAL_WORDS = [[1582, 1575, 1589], [1588, 1585, 1575, 1610, 1591], [1588, 1585, 1575, 1740, 1591]]"

definition OPTIONAL_WORDS :: "pystr list" where
  "OPTIONAL_WORDS = [[1575, 1582, 1578, 1610, 1575, 1585, 1610], [1575, 1582, 1578, 1740, 1575, 1585, 1740]]"

definition REQUIRED_WORDS :: "pystr list" where
  "REQUIRED_WORDS = [[1575, 1580, 1576, 1575, 1585, 1610], [1575, 1580, 1576, 1575, 1585, 1740]]"

definition classify :: "(pystr \<Rightarrow> pystr) \<Rightarrow> pystr option \<Rightarrow> obligation" where
  "classify nfkc printed =
     (let raw = strip (or_empty printed) in
      if raw = [] \<or> map lower_point raw = lit ''ignore'' then NOT_APPLICABLE
      else
        let text = logical nfkc (Some raw) in
        if list_ex (\<lambda>w. contains w text) SPECIAL_WORDS then CONDITIONAL
        else if list_ex (\<lambda>w. contains w text) OPTIONAL_WORDS then OPTIONAL
        else if list_ex (\<lambda>w. contains w text) REQUIRED_WORDS then REQUIRED
        else NOT_APPLICABLE)"

datatype table_warning = UnmappedTitle pystr | NeverMatched pystr

text \<open>One row: a row with too few cells is an \<open>IndexError\<close>.\<close>

definition row_title :: "(pystr \<Rightarrow> pystr) \<Rightarrow> pystr option list \<Rightarrow> pystr result" where
  "row_title nfkc row = (if length row \<le> 16 then Inl IndexError else Inr (logical nfkc (row ! 16)))"

definition row_obligations :: "(pystr \<Rightarrow> pystr) \<Rightarrow> pystr option list \<Rightarrow> ((int \<times> int) \<times> obligation) list" where
  "row_obligations nfkc row = map (\<lambda>i. (COLUMNS ! i, classify nfkc (row ! i))) [0..<length COLUMNS]"

definition transcribe_row ::
    "(pystr \<Rightarrow> pystr) \<Rightarrow> pystr option list \<Rightarrow> matrix \<times> table_warning list \<Rightarrow> (matrix \<times> table_warning list) result" where
  "transcribe_row nfkc row mw =
     bindE (row_title nfkc row) (\<lambda>title.
       if title = [] then Inr mw
       else case map_of FIELDS title of
         None \<Rightarrow> Inr (fst mw, snd mw @ [UnmappedTitle title])
       | Some (wire, section) \<Rightarrow>
           Inr (dict_set wire \<lparr>te_section = section, te_title = title, te_patterns = row_obligations nfkc row\<rparr> (fst mw),
                snd mw))"

fun transcribe_rows ::
    "(pystr \<Rightarrow> pystr) \<Rightarrow> grid \<Rightarrow> matrix \<times> table_warning list \<Rightarrow> (matrix \<times> table_warning list) result" where
  "transcribe_rows nfkc [] mw = Inr mw"
| "transcribe_rows nfkc (row # rows) mw = bindE (transcribe_row nfkc row mw) (transcribe_rows nfkc rows)"

definition never_matched :: "matrix \<Rightarrow> pystr list" where
  "never_matched m =
     map fst (sort (remdups (filter (\<lambda>v. v \<notin> set (map (\<lambda>(w, e). (w, te_section e)) m)) (map snd FIELDS))))"

definition transcribe :: "(pystr \<Rightarrow> pystr) \<Rightarrow> grid \<Rightarrow> (matrix \<times> table_warning list) result" where
  "transcribe nfkc grid =
     bindE (transcribe_rows nfkc (drop 3 grid) ([], [])) (\<lambda>(m, ws).
       Inr (m, ws @ map NeverMatched (never_matched m)))"

section \<open>The anchors\<close>

record anchor =
  an_type :: int
  an_pattern :: int
  an_section :: pystr
  an_field :: pystr
  an_expected :: "obligation option"

definition ANCHORS :: "anchor list" where
  "ANCHORS = map (\<lambda>(t, p, s, f, e). \<lparr>an_type = t, an_pattern = p, an_section = lit s, an_field = lit f, an_expected = e\<rparr>)
     [(1, 1, ''body'', ''vra'', Some REQUIRED), (1, 1, ''body'', ''vam'', Some REQUIRED),
      (1, 1, ''body'', ''tsstam'', Some REQUIRED), (1, 1, ''header'', ''tvam'', Some REQUIRED),
      (1, 1, ''header'', ''tbill'', Some REQUIRED), (1, 1, ''header'', ''tdis'', Some OPTIONAL),
      (1, 1, ''header'', ''taxid'', Some REQUIRED), (1, 1, ''header'', ''cdcn'', Some NOT_APPLICABLE),
      (1, 7, ''header'', ''cdcn'', None), (1, 1, ''header'', ''lno'', Some NOT_APPLICABLE)]"

datatype anchor_failure = AbsentField pystr | WrongSection pystr | NotApplied pystr | WrongObligation pystr

definition check_anchor :: "matrix \<Rightarrow> anchor \<Rightarrow> anchor_failure list" where
  "check_anchor m a =
     (case map_of m (an_field a) of
        None \<Rightarrow> [AbsentField (an_field a)]
      | Some e \<Rightarrow>
          let actual = map_of (te_patterns e) (an_type a, an_pattern a) in
          (if te_section e \<noteq> an_section a then [WrongSection (an_field a)] else []) @
          (case an_expected a of
             None \<Rightarrow> if actual = Some NOT_APPLICABLE then [NotApplied (an_field a)] else []
           | Some ob \<Rightarrow> if actual \<noteq> Some ob then [WrongObligation (an_field a)] else []))"

definition check_matrix :: "matrix \<Rightarrow> anchor_failure list" where
  "check_matrix m = concat (map (check_anchor m) ANCHORS)"

text \<open>\<open>main\<close>: the exit code and the matrix it prints, if any; no grid is a missing document.\<close>

definition extract_main ::
    "(pystr \<Rightarrow> pystr) \<Rightarrow> grid option \<Rightarrow> bool \<Rightarrow> bool \<Rightarrow> (int \<times> matrix option) result" where
  "extract_main nfkc grid check_only json_only =
     (case grid of
        None \<Rightarrow> Inr (1, None)
      | Some g \<Rightarrow> bindE (transcribe nfkc g) (\<lambda>(m, ws).
          Inr (if check_matrix m = [] then 0 else 1, if json_only \<or> \<not> check_only then Some m else None)))"

section \<open>The rule file\<close>

definition PATTERN_NAMES :: "(int \<times> pystr \<times> pystr) list" where
  "PATTERN_NAMES = [
    (1, [1601, 1585, 1608, 1588], lit ''Sale''),
    (2, [1601, 1585, 1608, 1588, 32, 1575, 1585, 1586], lit ''Currency sale''),
    (3, [1589, 1608, 1585, 1578, 1581, 1587, 1575, 1576, 32, 1591, 1604, 1575, 1548, 32, 1580, 1608,
      1575, 1607, 1585, 32, 1608, 32, 1662, 1604, 1575, 1578, 1740, 1606],
      lit ''Gold, jewellery and platinum''),
    (4, [1602, 1585, 1575, 1585, 1583, 1575, 1583, 32, 1662, 1740, 1605, 1575, 1606, 1705, 1575, 1585,
      1740], lit ''Contracting''),
    (5, [1602, 1576, 1608, 1590, 32, 1582, 1583, 1605, 1575, 1578, 1740], lit ''Utility bills''),
    (6, [1576, 1604, 1740, 1591, 32, 1607, 1608, 1575, 1662, 1740, 1605, 1575], lit ''Air ticket''),
    (7, [1589, 1575, 1583, 1585, 1575, 1578], lit ''Export''),
    (8, [1576, 1575, 1585, 1606, 1575, 1605, 1607], lit ''Bill of lading''),
    (9, [1601, 1585, 1608, 1588, 32, 1601, 1585, 1570, 1608, 1585, 1583, 1607, 8204, 1607, 1575, 1740,
      32, 1606, 1601, 1578, 1740, 32, 40, 1662, 1575, 1604, 1575, 1740, 1588, 32, 1608, 32, 1662, 1582,
      1588, 41], lit ''Petroleum products''),
    (11, [1576, 1608, 1585, 1587, 32, 1575, 1608, 1585, 1575, 1602, 32, 1576, 1607, 1575, 1583, 1575,
      1585, 32, 1605, 1576, 1578, 1606, 1740, 32, 1576, 1585, 32, 1705, 1575, 1604, 1575],
      lit ''Commodity-backed securities''),
    (13, [1601, 1585, 1608, 1588, 32, 1582, 1583, 1605, 1575, 1578, 32, 1576, 1740, 1605, 1607, 8204,
      1575, 1740], lit ''Insurance services''),
    (14, [1601, 1585, 1608, 1588, 32, 1586, 1606, 1580, 1740, 1585, 1607, 8204, 1575, 1740],
      lit ''Chain sale'')]"

definition KNOWN_CONDITIONS :: "(pystr \<times> pystr \<times> pystr) list" where
  "KNOWN_CONDITIONS = [
    (lit ''cap'', lit ''setm == 3'', [167, 56, 45, 50, 50, 1548, 32, 1580, 1583, 1608, 1604, 32, 1778, 1780, 1548, 32, 1585, 1583, 1740, 1601, 32, 1779]),
    (lit ''insp'', lit ''setm == 3'', [167, 56, 45, 50, 50, 1548, 32, 1580, 1583, 1608, 1604, 32, 1778, 1780, 1548, 32, 1585, 1583, 1740, 1601, 32, 1779]),
    (lit ''irtaxid'', lit ''ins in (2, 3, 4)'', [167, 53]),
    (lit ''indati2m'', lit ''insr == 1'', [167, 54])]"

definition TABLE_REFERENCE :: pystr where
  "TABLE_REFERENCE = lit ''RC_IITP_IS_V7_9_1 '' @ [1580, 1583, 1608, 1604, 32, 1588, 1605, 1575, 1585, 1607, 32, 1777]"

definition obligation_text :: "obligation \<Rightarrow> pystr" where
  "obligation_text ob =
     (case ob of REQUIRED \<Rightarrow> lit ''required'' | OPTIONAL \<Rightarrow> lit ''optional''
      | CONDITIONAL \<Rightarrow> lit ''conditional'' | NOT_APPLICABLE \<Rightarrow> lit ''not_applicable'')"

record emitted_rule =
  er_wire :: pystr
  er_obligation :: obligation
  er_when :: "(pystr \<times> pystr) option"
  er_overrides :: "(int \<times> obligation) list"
  er_title :: pystr

record emitted_pattern =
  ep_number :: int
  ep_names :: "pystr \<times> pystr"
  ep_types :: "int list"
  ep_sections :: "(pystr \<times> emitted_rule list) list"
  ep_excluded :: "(pystr \<times> pystr list) list"

definition SECTIONS :: "pystr list" where
  "SECTIONS = [lit ''header'', lit ''body'', lit ''payment'', lit ''sg'']"

definition patterns_in :: "matrix \<Rightarrow> int list" where
  "patterns_in m = sort (remdups (concat (map (\<lambda>(w, e). map (snd \<circ> fst) (te_patterns e)) m)))"

definition types_in :: "matrix \<Rightarrow> int \<Rightarrow> int list" where
  "types_in m p = sort (remdups (concat (map (\<lambda>(w, e).
     map (fst \<circ> fst) (filter (\<lambda>(k, ob). snd k = p \<and> ob \<noteq> NOT_APPLICABLE) (te_patterns e))) m)))"

definition entry_obligation :: "table_entry \<Rightarrow> int \<Rightarrow> int \<Rightarrow> obligation" where
  "entry_obligation e t p = (case map_of (te_patterns e) (t, p) of None \<Rightarrow> NOT_APPLICABLE | Some ob \<Rightarrow> ob)"

definition primary_type :: "int list \<Rightarrow> int" where
  "primary_type types = (case types of [] \<Rightarrow> 1 | t # _ \<Rightarrow> t)"

definition overrides_of :: "table_entry \<Rightarrow> int list \<Rightarrow> int \<Rightarrow> obligation \<Rightarrow> (int \<times> obligation) list" where
  "overrides_of e types p ob =
     map (\<lambda>t. (t, entry_obligation e t p)) (filter (\<lambda>t. map_of (te_patterns e) (t, p) \<noteq> Some ob) types)"

definition known_condition :: "pystr \<Rightarrow> pystr \<times> pystr" where
  "known_condition wire = (case map_of KNOWN_CONDITIONS wire of None \<Rightarrow> (lit ''unspecified'', []) | Some c \<Rightarrow> c)"

definition emit_rule :: "int list \<Rightarrow> int \<Rightarrow> pystr \<Rightarrow> table_entry \<Rightarrow> emitted_rule" where
  "emit_rule types p wire e =
     (let ob = entry_obligation e (primary_type types) p in
      \<lparr>er_wire = wire, er_obligation = ob, er_when = (if ob = CONDITIONAL then Some (known_condition wire) else None),
       er_overrides = overrides_of e types p ob, er_title = te_title e\<rparr>)"

definition is_excluded :: "emitted_rule \<Rightarrow> bool" where
  "is_excluded r \<longleftrightarrow> er_obligation r = NOT_APPLICABLE \<and> er_overrides r = []"

definition section_rules_of :: "matrix \<Rightarrow> int list \<Rightarrow> int \<Rightarrow> pystr \<Rightarrow> emitted_rule list" where
  "section_rules_of m types p section =
     map (\<lambda>(w, e). emit_rule types p w e) (filter (\<lambda>(w, e). te_section e = section) m)"

definition emit_pattern :: "matrix \<Rightarrow> int \<Rightarrow> emitted_pattern" where
  "emit_pattern m p =
     (let types = types_in m p; rows = (\<lambda>s. section_rules_of m types p s) in
      \<lparr>ep_number = p,
       ep_names = (case map_of PATTERN_NAMES p of None \<Rightarrow> ([1575, 1604, 1711, 1608, 1740, 32] @ int_text p, lit ''Pattern '' @ int_text p)
                   | Some n \<Rightarrow> n),
       ep_types = types,
       ep_sections = filter (\<lambda>(s, rs). rs \<noteq> []) (map (\<lambda>s. (s, filter (\<lambda>r. \<not> is_excluded r) (rows s))) SECTIONS),
       ep_excluded = filter (\<lambda>(s, ns). ns \<noteq> []) (map (\<lambda>s. (s, sort (map er_wire (filter is_excluded (rows s))))) SECTIONS)\<rparr>)"

definition emitted_types :: "emitted_pattern \<Rightarrow> int list" where
  "emitted_types ep = (if ep_types ep = [] then [1] else ep_types ep)"

section \<open>Its text\<close>

definition yaml_scalar :: "pystr \<Rightarrow> pystr" where
  "yaml_scalar s = [34] @ concat (map (\<lambda>c. if c = 34 then [92, 34] else [c]) s) @ [34]"

definition rule_line :: "emitted_rule \<Rightarrow> pystr" where
  "rule_line r =
     (let parts = [lit ''obligation: '' @ obligation_text (er_obligation r)] @
            (case er_when r of
               None \<Rightarrow> []
             | Some (w, ref) \<Rightarrow> [lit ''when: '' @ yaml_scalar w] @
                 (if ref = [] then [] else [lit ''condition_reference: '' @ yaml_scalar ref])) @
            (if er_overrides r = [] then []
             else [lit ''by_type: {'' @ joined_by (lit '', '')
               (map (\<lambda>(t, ob). int_text t @ lit '': '' @ obligation_text ob) (sort_key fst (er_overrides r))) @ lit ''}'']) @
            [lit ''title: '' @ yaml_scalar (er_title r)]
      in lit ''      '' @ er_wire r @ lit '': {'' @ joined_by (lit '', '') parts @ lit ''}'')"

definition pattern_lines :: "emitted_pattern \<Rightarrow> pystr list" where
  "pattern_lines ep =
     [lit ''  '' @ int_text (ep_number ep) @ lit '':'',
      lit ''    name: '' @ yaml_scalar (fst (ep_names ep)),
      lit ''    name_en: '' @ yaml_scalar (snd (ep_names ep)),
      lit ''    coverage: complete'',
      lit ''    types: ['' @ joined_by (lit '', '') (map int_text (emitted_types ep)) @ lit '']'',
      lit ''    reference: '' @ [34] @ TABLE_REFERENCE @ [34]] @
     concat (map (\<lambda>(s, rs). (lit ''    '' @ s @ lit '':'') # map rule_line rs) (ep_sections ep)) @
     (if ep_excluded ep = [] then []
      else lit ''    excluded:'' # map (\<lambda>(s, ns). lit ''      '' @ s @ lit '': ['' @ joined_by (lit '', '') ns @ lit '']'')
        (ep_excluded ep))"

definition HEAD_LINES :: "pystr list" where
  "HEAD_LINES =
     [lit ''# GENERATED by tools/extract_table1.py from '' @ TABLE_REFERENCE @ lit '' (p.14).'',
      lit ''# Verified against the '' @ [167] @ lit ''8 per-field tables by the tool'' @ [39] @ lit ''s --check anchors.'',
      lit ''# Edit the tool and regenerate; hand edits here will be overwritten.'',
      lit ''patterns:'']"

definition emit_yaml :: "matrix \<Rightarrow> pystr" where
  "emit_yaml m =
     joined_by [10] (HEAD_LINES @ concat (map (pattern_lines \<circ> emit_pattern m) (patterns_in m))) @ [10]"

section \<open>Its document\<close>

definition rule_value :: "emitted_rule \<Rightarrow> json" where
  "rule_value r = JObj
     ([(lit ''obligation'', JStr (obligation_text (er_obligation r)))] @
      (case er_when r of
         None \<Rightarrow> []
       | Some (w, ref) \<Rightarrow> [(lit ''when'', JStr w)] @ (if ref = [] then [] else [(lit ''condition_reference'', JStr ref)])) @
      (if er_overrides r = [] then []
       else [(lit ''by_type'', JObj (map (\<lambda>(t, ob). (int_text t, JStr (obligation_text ob))) (sort_key fst (er_overrides r))))]) @
      [(lit ''title'', JStr (er_title r))])"

definition pattern_value :: "emitted_pattern \<Rightarrow> json" where
  "pattern_value ep = JObj
     ([(lit ''name'', JStr (fst (ep_names ep))), (lit ''name_en'', JStr (snd (ep_names ep))),
       (lit ''coverage'', JStr (lit ''complete'')), (lit ''types'', JList (map JInt (emitted_types ep))),
       (lit ''reference'', JStr TABLE_REFERENCE)] @
      map (\<lambda>(s, rs). (s, JObj (map (\<lambda>r. (er_wire r, rule_value r)) rs))) (ep_sections ep) @
      (if ep_excluded ep = [] then []
       else [(lit ''excluded'', JObj (map (\<lambda>(s, ns). (s, JList (map JStr ns))) (ep_excluded ep)))]))"

definition emitted_document :: "matrix \<Rightarrow> json" where
  "emitted_document m = JObj [(lit ''patterns'',
     JObj (map (\<lambda>p. (int_text p, pattern_value (emit_pattern m p))) (patterns_in m)))]"

section \<open>What the transcription holds\<close>

definition row_field :: "(pystr \<Rightarrow> pystr) \<Rightarrow> pystr option list \<Rightarrow> (pystr \<times> pystr \<times> pystr) option" where
  "row_field nfkc row =
     (case row_title nfkc row of
        Inl _ \<Rightarrow> None
      | Inr title \<Rightarrow> if title = [] then None else map_option (\<lambda>(w, s). (title, w, s)) (map_of FIELDS title))"

definition row_entry :: "(pystr \<Rightarrow> pystr) \<Rightarrow> pystr option list \<Rightarrow> pystr \<times> pystr \<times> pystr \<Rightarrow> table_entry" where
  "row_entry nfkc row f =
     \<lparr>te_section = snd (snd f), te_title = fst f, te_patterns = row_obligations nfkc row\<rparr>"

definition matrix_ok :: "matrix \<Rightarrow> bool" where
  "matrix_ok m \<longleftrightarrow> distinct (map fst m) \<and>
     (\<forall>(w, e) \<in> set m. map fst (te_patterns e) = COLUMNS \<and> te_section e \<in> set SECTIONS)"

lemma field_sections: "list_all (\<lambda>(t, w, s). s \<in> set SECTIONS) FIELDS"
  by (simp add: FIELDS_def SECTIONS_def)

lemma transcribe_row_cases:
  assumes "transcribe_row nfkc row (m, ws) = Inr (m', ws')"
  shows "case row_field nfkc row of
      None \<Rightarrow> m' = m
    | Some (t, w, s) \<Rightarrow> m' = dict_set w (row_entry nfkc row (t, w, s)) m \<and> s \<in> set SECTIONS"
proof (cases "row_title nfkc row")
  case (Inl err)
  then show ?thesis using assms by (simp add: transcribe_row_def)
next
  case (Inr title)
  show ?thesis
  proof (cases "title = [] \<or> map_of FIELDS title = None")
    case True
    then show ?thesis using assms Inr by (auto simp: transcribe_row_def row_field_def)
  next
    case False
    then obtain w s where f: "map_of FIELDS title = Some (w, s)" by auto
    then have "s \<in> set SECTIONS" using field_sections by (auto simp: list_all_iff dest!: map_of_SomeD)
    then show ?thesis using assms Inr False f by (auto simp: transcribe_row_def row_field_def row_entry_def)
  qed
qed

lemma row_obligations_keys: "map fst (row_obligations nfkc row) = COLUMNS"
  by (simp add: row_obligations_def comp_def map_nth)

lemma matrix_ok_row:
  assumes "transcribe_row nfkc row (m, ws) = Inr (m', ws')" "matrix_ok m"
  shows "matrix_ok m'"
  using transcribe_row_cases [OF assms(1)] assms(2)
  by (fastforce simp: matrix_ok_def distinct_dict_set row_entry_def row_obligations_keys split: option.splits
      dest: set_dict_set)

lemma matrix_ok_rows: "transcribe_rows nfkc rows (m, ws) = Inr (m', ws') \<Longrightarrow> matrix_ok m \<Longrightarrow> matrix_ok m'"
proof (induction rows arbitrary: m ws)
  case (Cons row rows)
  then obtain m1 ws1 where "transcribe_row nfkc row (m, ws) = Inr (m1, ws1)" "transcribe_rows nfkc rows (m1, ws1) = Inr (m', ws')"
    by (auto simp: py_splits)
  then show ?case using Cons.IH Cons.prems(2) matrix_ok_row by blast
qed simp

lemma row_survives:
  assumes "transcribe_rows nfkc rows (m, ws) = Inr (m', ws')" "row_field nfkc row = Some (t, w, s)"
    "\<forall>r \<in> set rows. \<forall>t' s'. row_field nfkc r = Some (t', w, s') \<longrightarrow> r = row"
    "row \<in> set rows \<or> map_of m w = Some (row_entry nfkc row (t, w, s))"
  shows "map_of m' w = Some (row_entry nfkc row (t, w, s))"
  using assms(1,3,4)
proof (induction rows arbitrary: m ws)
  case (Cons r rows)
  then obtain m1 ws1 where r: "transcribe_row nfkc r (m, ws) = Inr (m1, ws1)" "transcribe_rows nfkc rows (m1, ws1) = Inr (m', ws')"
    by (auto simp: py_splits)
  have "row \<in> set rows \<or> map_of m1 w = Some (row_entry nfkc row (t, w, s))"
  proof (cases "r = row")
    case True
    then show ?thesis using transcribe_row_cases [OF r(1)] assms(2) by simp
  next
    case False
    then have "\<forall>t' s'. row_field nfkc r \<noteq> Some (t', w, s')" using Cons.prems(2) by auto
    then have "map_of m1 w = map_of m w"
      using transcribe_row_cases [OF r(1)] by (auto split: option.splits)
    then show ?thesis using Cons.prems(3) False by auto
  qed
  then show ?case using Cons.IH [OF r(2)] Cons.prems(2) by simp
qed simp

section \<open>What the engine reads\<close>

definition loaded_rule :: "emitted_rule \<Rightarrow> field_rule" where
  "loaded_rule r =
     \<lparr>f_name = er_wire r, f_obligation = er_obligation r,
      f_when = (case er_when r of None \<Rightarrow> JNull | Some (w, ref) \<Rightarrow> JStr w),
      f_by_type = sort_key fst (er_overrides r)\<rparr>"

lemma small_int_reads:
  "n \<in> {1 .. 14} \<Longrightarrow> int_of (JStr (int_text n)) = Inr n"
  using py_int_int_text [of n] by simp

lemma known_condition_evaluable:
  "fst (known_condition wire) \<noteq> [] \<and>
   (JStr (fst (known_condition wire)) = UNSPECIFIED \<or> condition_of (JStr (fst (known_condition wire))) \<noteq> None)"
  by (simp add: known_condition_def KNOWN_CONDITIONS_def UNSPECIFIED_def condition_of_def conditions_def)

lemma obligation_reads: "obligation_of (JStr (obligation_text ob)) = Inr ob"
  by (cases ob) (simp_all add: obligation_of_def obligation_text_def)


text \<open>What the loader makes of one emitted rule.\<close>

definition rule_ok :: "emitted_rule \<Rightarrow> bool" where
  "rule_ok r \<longleftrightarrow> distinct (map fst (er_overrides r)) \<and> (\<forall>(t, ob) \<in> set (er_overrides r). t \<in> {1 .. 14}) \<and>
     er_when r = (if er_obligation r = CONDITIONAL then Some (known_condition (er_wire r)) else None)"

lemma rule_value_fields:
  "\<exists>d. rule_value r = JObj d \<and>
     map_of d (lit ''obligation'') = Some (JStr (obligation_text (er_obligation r))) \<and>
     map_of d (lit ''when'') = map_option (JStr \<circ> fst) (er_when r) \<and>
     map_of d (lit ''by_type'') = (if er_overrides r = [] then None
       else Some (JObj (map (\<lambda>(t, ob). (int_text t, JStr (obligation_text ob))) (sort_key fst (er_overrides r)))))"
  by (cases "er_when r") (auto simp: rule_value_def)

lemma read_overrides:
  assumes "distinct (map fst os)" "\<forall>(t, ob) \<in> set os. t \<in> {1 .. 14}"
  shows "read_by_type (if os = [] then None
      else Some (JObj (map (\<lambda>(t, ob). (int_text t, JStr (obligation_text ob))) (sort_key fst os)))) = Inr (sort_key fst os)"
proof -
  have "mapE (\<lambda>(t, ob). bindE (int_of (JStr t)) (\<lambda>n. bindE (obligation_of ob) (\<lambda>ob. Inr (n, ob))))
      (map (\<lambda>(t, ob). (int_text t, JStr (obligation_text ob))) (sort_key fst os)) =
      Inr (map (\<lambda>x. x) (sort_key fst os))" (is "mapE ?f (map ?h _) = _")
  proof -
    have "mapE (?f \<circ> ?h) (sort_key fst os) = Inr (map (\<lambda>x. x) (sort_key fst os))"
      using assms(2) small_int_reads obligation_reads by (intro mapE_Inr) (fastforce simp del: int_of.simps int_text.simps)
    then show ?thesis by (simp add: mapE_map)
  qed
  moreover have "distinct (map fst (sort_key fst os))"
    using assms(1) by (metis distinct_map distinct_sort set_sort)
  ultimately show ?thesis
    using dict_of_distinct [of "[]" "sort_key fst os"] by (auto simp: read_by_type_def items_of_def)
qed

lemma read_emitted_rule:
  assumes "rule_ok r"
  shows "read_rule (er_wire r) (rule_value r) = Inr (loaded_rule r)"
proof -
  obtain d where d: "rule_value r = JObj d"
    "map_of d (lit ''obligation'') = Some (JStr (obligation_text (er_obligation r)))"
    "map_of d (lit ''when'') = map_option (JStr \<circ> fst) (er_when r)"
    "map_of d (lit ''by_type'') = (if er_overrides r = [] then None
       else Some (JObj (map (\<lambda>(t, ob). (int_text t, JStr (obligation_text ob))) (sort_key fst (er_overrides r)))))"
    using rule_value_fields by blast
  have w: "get_or_null d ''when'' = (case er_when r of None \<Rightarrow> JNull | Some (w, ref) \<Rightarrow> JStr w)"
    by (cases "er_when r") (auto simp: get_or_null_def d(3))
  have "check_when (er_obligation r) (get_or_null d ''when'') = Inr ()"
    using assms known_condition_evaluable [of "er_wire r"]
    by (auto simp: check_when_def w rule_ok_def hashable_def split: prod.splits)
  then show ?thesis
    using assms read_overrides [of "er_overrides r"] w
    by (simp add: read_rule_def d(1,2,4) read_obligation_def obligation_reads loaded_rule_def rule_ok_def)
qed


lemma matrix_columns: "matrix_ok m \<Longrightarrow> (w, e) \<in> set m \<Longrightarrow> fst ` set (te_patterns e) = set COLUMNS"
  by (auto simp: matrix_ok_def simp flip: set_map)

lemma COLUMNS_range: "(t, p) \<in> set COLUMNS \<Longrightarrow> t \<in> {1 .. 14} \<and> p \<in> {1 .. 14}"
  by (auto simp: COLUMNS_def)

lemma types_in_range:
  assumes "matrix_ok m" "t \<in> set (types_in m p)"
  shows "t \<in> {1 .. 14}"
proof -
  obtain w e ob where "(w, e) \<in> set m" "((t, p), ob) \<in> set (te_patterns e)"
    using assms(2) by (auto simp: types_in_def)
  then have "(t, p) \<in> set COLUMNS" using matrix_columns [OF assms(1)] by (metis fst_conv image_eqI)
  then show ?thesis using COLUMNS_range by blast
qed

lemma types_in_distinct [simp]: "distinct (types_in m p)" "distinct (patterns_in m)"
  by (simp_all add: types_in_def patterns_in_def)

lemma patterns_in_range:
  assumes "matrix_ok m" "p \<in> set (patterns_in m)"
  shows "p \<in> {1 .. 14}"
proof -
  obtain w e t ob where "(w, e) \<in> set m" "((t, p), ob) \<in> set (te_patterns e)"
    using assms(2) by (auto simp: patterns_in_def)
  then have "(t, p) \<in> set COLUMNS" using matrix_columns [OF assms(1)] by (metis fst_conv image_eqI)
  then show ?thesis using COLUMNS_range by blast
qed

lemma emit_rule_ok: "matrix_ok m \<Longrightarrow> rule_ok (emit_rule (types_in m p) p w e)"
  using types_in_range [of m _ p]
  by (auto simp: rule_ok_def emit_rule_def Let_def overrides_of_def comp_def)

lemma er_wire_emit [simp]: "er_wire (emit_rule types p w e) = w"
  by (simp add: emit_rule_def Let_def)

text \<open>A section of a pattern as the loader builds it.\<close>

definition kept_rules :: "matrix \<Rightarrow> int \<Rightarrow> pystr \<Rightarrow> emitted_rule list" where
  "kept_rules m p s = filter (\<lambda>r. \<not> is_excluded r) (section_rules_of m (types_in m p) p s)"

definition excluded_wires :: "matrix \<Rightarrow> int \<Rightarrow> pystr \<Rightarrow> pystr list" where
  "excluded_wires m p s = sort (map er_wire (filter is_excluded (section_rules_of m (types_in m p) p s)))"

definition loaded_section :: "matrix \<Rightarrow> int \<Rightarrow> pystr \<Rightarrow> section_rules" where
  "loaded_section m p s =
     foldl (\<lambda>rs wire. dict_set wire (excluded_rule wire) rs)
       (map (\<lambda>r. (er_wire r, loaded_rule r)) (kept_rules m p s)) (excluded_wires m p s)"

lemma section_rules_ok: "matrix_ok m \<Longrightarrow> r \<in> set (section_rules_of m (types_in m p) p s) \<Longrightarrow> rule_ok r"
  by (auto simp: section_rules_of_def emit_rule_ok)

lemma map_of_pairs_filter:
  "distinct ss \<Longrightarrow> map_of (filter (\<lambda>(s, v). P v) (map (\<lambda>s. (s, f s)) ss)) s =
     (if s \<in> set ss \<and> P (f s) then Some (f s) else None)"
  by (induction ss) auto

lemma SECTIONS_distinct: "distinct SECTIONS"
  by (simp add: SECTIONS_def)

lemma pattern_value_fields:
  "\<exists>d. pattern_value (emit_pattern m p) = JObj d \<and>
     (\<forall>s \<in> set SECTIONS. items_of (map_of d s) = Inr (map (\<lambda>r. (er_wire r, rule_value r)) (kept_rules m p s))) \<and>
     (\<exists>ex. items_of (map_of d (lit ''excluded'')) = Inr ex \<and>
        (\<forall>s \<in> set SECTIONS. map_of ex s =
           (if excluded_wires m p s = [] then None else Some (JList (map JStr (excluded_wires m p s)))))) \<and>
     map_of d (lit ''types'') = Some (JList (map JInt (emitted_types (emit_pattern m p)))) \<and>
     map_of d (lit ''coverage'') = Some (JStr (lit ''complete''))"
proof -
  let ?ep = "emit_pattern m p"
  let ?ss = "map (\<lambda>(s, rs). (s, JObj (map (\<lambda>r. (er_wire r, rule_value r)) rs))) (ep_sections ?ep)"
  let ?ex = "map (\<lambda>(s, ns). (s, JList (map JStr ns))) (ep_excluded ?ep)"
  let ?head = "[(lit ''name'', JStr (fst (ep_names ?ep))), (lit ''name_en'', JStr (snd (ep_names ?ep))),
       (lit ''coverage'', JStr (lit ''complete'')), (lit ''types'', JList (map JInt (emitted_types ?ep))),
       (lit ''reference'', JStr TABLE_REFERENCE)]"
  let ?d = "?head @ ?ss @ (if ep_excluded ?ep = [] then [] else [(lit ''excluded'', JObj ?ex)])"
  have es: "ep_sections ?ep = filter (\<lambda>(s, rs). rs \<noteq> []) (map (\<lambda>s. (s, kept_rules m p s)) SECTIONS)"
    by (simp add: emit_pattern_def Let_def kept_rules_def)
  have ee: "ep_excluded ?ep = filter (\<lambda>(s, ns). ns \<noteq> []) (map (\<lambda>s. (s, excluded_wires m p s)) SECTIONS)"
    by (simp add: emit_pattern_def Let_def excluded_wires_def)
  have map_snd: "map_of (map (\<lambda>(k, v). (k, g v)) xs) k = map_option g (map_of xs k)" for g and xs :: "(pystr \<times> 'z) list" and k
    by (induction xs) auto
  have ss: "map_of ?ss s = (if s \<in> set SECTIONS \<and> kept_rules m p s \<noteq> []
      then Some (JObj (map (\<lambda>r. (er_wire r, rule_value r)) (kept_rules m p s))) else None)" for s
    using map_of_pairs_filter [OF SECTIONS_distinct, of "\<lambda>rs. rs \<noteq> []" "kept_rules m p" s] by (simp add: map_snd es)
  have ex: "map_of ?ex s = (if s \<in> set SECTIONS \<and> excluded_wires m p s \<noteq> []
      then Some (JList (map JStr (excluded_wires m p s))) else None)" for s
    using map_of_pairs_filter [OF SECTIONS_distinct, of "\<lambda>rs. rs \<noteq> []" "excluded_wires m p" s] by (simp add: map_snd ee)
  have plain: "s \<noteq> lit ''name'' \<and> s \<noteq> lit ''name_en'' \<and> s \<noteq> lit ''coverage'' \<and> s \<noteq> lit ''types'' \<and>
      s \<noteq> lit ''reference'' \<and> s \<noteq> lit ''excluded''" if "s \<in> set SECTIONS" for s
    using that by (auto simp: SECTIONS_def)
  have "items_of (map_of ?d s) = Inr (map (\<lambda>r. (er_wire r, rule_value r)) (kept_rules m p s))" if "s \<in> set SECTIONS" for s
    using that ss [of s] plain [OF that] by (simp add: map_add_def items_of_def)
  moreover have "lit ''excluded'' \<notin> set SECTIONS" by (simp add: SECTIONS_def)
  then have "items_of (map_of ?d (lit ''excluded'')) = Inr ?ex"
    using ss [of "lit ''excluded''"] by (simp add: map_add_def items_of_def)
  moreover have "map_of ?d (lit ''types'') = Some (JList (map JInt (emitted_types ?ep)))"
    "map_of ?d (lit ''coverage'') = Some (JStr (lit ''complete''))"
    using ss [of "lit ''types''"] ss [of "lit ''coverage''"] by (simp_all add: SECTIONS_def)
  ultimately show ?thesis
    using ex by (intro exI [of _ ?d] conjI exI [of _ ?ex]) (simp_all add: pattern_value_def)
qed

lemma wire_names_JStr [simp]: "wire_names (map JStr ns) = Inr ns"
  by (induction ns) simp_all

lemma loaded_section_read:
  assumes "matrix_ok m" "items_of d = Inr (map (\<lambda>r. (er_wire r, rule_value r)) (kept_rules m p s))"
    "ex = (if excluded_wires m p s = [] then None else Some (JList (map JStr (excluded_wires m p s))))"
  shows "\<exists>rules. field_rules d = Inr rules \<and> exclude ex rules = Inr (loaded_section m p s)"
proof -
  have "mapE ((\<lambda>(name, spec). bindE (read_rule name spec) (\<lambda>r. Inr (name, r))) \<circ> (\<lambda>r. (er_wire r, rule_value r)))
      (kept_rules m p s) = Inr (map (\<lambda>r. (er_wire r, loaded_rule r)) (kept_rules m p s))"
    using section_rules_ok [OF assms(1)] by (intro mapE_Inr) (auto simp: kept_rules_def read_emitted_rule)
  then have "field_rules d = Inr (map (\<lambda>r. (er_wire r, loaded_rule r)) (kept_rules m p s))"
    by (simp add: field_rules_def assms(2) mapE_map)
  then show ?thesis by (simp add: exclude_def assms(3) elements_of_def loaded_section_def)
qed

definition loaded_pattern :: "matrix \<Rightarrow> int \<Rightarrow> pattern_spec" where
  "loaded_pattern m p =
     \<lparr>p_number = p, p_header = loaded_section m p (lit ''header''), p_body = loaded_section m p (lit ''body''),
      p_payment = loaded_section m p (lit ''payment''), p_sg = loaded_section m p (lit ''sg''),
      p_types = emitted_types (emit_pattern m p), p_coverage = JStr (lit ''complete'')\<rparr>"

lemma read_emitted_pattern:
  assumes "matrix_ok m" "p \<in> set (patterns_in m)"
  shows "read_pattern (int_text p) (pattern_value (emit_pattern m p)) = Inr (p, loaded_pattern m p)"
proof -
  obtain d ex where d: "pattern_value (emit_pattern m p) = JObj d"
    "\<forall>s \<in> set SECTIONS. items_of (map_of d s) = Inr (map (\<lambda>r. (er_wire r, rule_value r)) (kept_rules m p s))"
    "items_of (map_of d (lit ''excluded'')) = Inr ex"
    "\<forall>s \<in> set SECTIONS. map_of ex s =
       (if excluded_wires m p s = [] then None else Some (JList (map JStr (excluded_wires m p s))))"
    "map_of d (lit ''types'') = Some (JList (map JInt (emitted_types (emit_pattern m p))))"
    "map_of d (lit ''coverage'') = Some (JStr (lit ''complete''))"
    using pattern_value_fields [of m p] by blast
  have sec: "\<exists>rules. field_rules (map_of d s) = Inr rules \<and> exclude (map_of ex s) rules = Inr (loaded_section m p s)"
    if "s \<in> set SECTIONS" for s
    using loaded_section_read [OF assms(1)] d(2,4) that by blast
  have in_sections: "lit ''header'' \<in> set SECTIONS" "lit ''body'' \<in> set SECTIONS" "lit ''payment'' \<in> set SECTIONS"
    "lit ''sg'' \<in> set SECTIONS"
    by (simp_all add: SECTIONS_def)
  obtain h b py sg where
    "field_rules (map_of d (lit ''header'')) = Inr h" "exclude (map_of ex (lit ''header'')) h = Inr (loaded_section m p (lit ''header''))"
    "field_rules (map_of d (lit ''body'')) = Inr b" "exclude (map_of ex (lit ''body'')) b = Inr (loaded_section m p (lit ''body''))"
    "field_rules (map_of d (lit ''payment'')) = Inr py" "exclude (map_of ex (lit ''payment'')) py = Inr (loaded_section m p (lit ''payment''))"
    "field_rules (map_of d (lit ''sg'')) = Inr sg" "exclude (map_of ex (lit ''sg'')) sg = Inr (loaded_section m p (lit ''sg''))"
    using in_sections [THEN sec] by blast
  moreover have "int_of (JStr (int_text p)) = Inr p" using small_int_reads patterns_in_range [OF assms] by blast
  moreover have "read_types (map_of d (lit ''types'')) = Inr (emitted_types (emit_pattern m p))"
  proof -
    have "mapE (int_of \<circ> JInt) (emitted_types (emit_pattern m p)) = Inr (map (\<lambda>x. x) (emitted_types (emit_pattern m p)))"
      by (intro mapE_Inr) simp
    then show ?thesis by (auto simp: d(5) read_types_def elements_of_def mapE_map emitted_types_def)
  qed
  ultimately show ?thesis
    by (simp add: d(1) read_pattern_def d(3,6) loaded_pattern_def del: int_of.simps)
qed


lemma int_text_inj_small: "p \<in> {1 .. 14} \<Longrightarrow> q \<in> {1 .. 14} \<Longrightarrow> int_text p = int_text q \<longleftrightarrow> p = q"
  using small_int_reads by (metis Inr_inject)

text \<open>The rule set loaded from the emitted document.\<close>

lemma load_emitted:
  assumes "matrix_ok m"
  shows "\<exists>rs. load_rules (Some (emitted_document m)) = Inr rs \<and>
    rs_patterns rs = map (\<lambda>p. (p, loaded_pattern m p)) (patterns_in m)"
proof -
  have "mapE ((\<lambda>(number, spec). read_pattern number spec) \<circ> (\<lambda>p. (int_text p, pattern_value (emit_pattern m p))))
      (patterns_in m) = Inr (map (\<lambda>p. (p, loaded_pattern m p)) (patterns_in m))"
    using read_emitted_pattern [OF assms] by (intro mapE_Inr) simp
  moreover have "foldl (\<lambda>d (k, v). dict_set k v d) [] (map (\<lambda>p. (p, loaded_pattern m p)) (patterns_in m)) =
      map (\<lambda>p. (p, loaded_pattern m p)) (patterns_in m)"
    by (subst dict_of_distinct) (simp_all add: comp_def)
  ultimately show ?thesis
    by (simp add: load_rules_def emitted_document_def items_of_def mapE_map obligation_of_def)
qed

lemma excluded_lookup:
  "map_of (foldl (\<lambda>rs wire. dict_set wire (excluded_rule wire) rs) rs ns) w =
     (if w \<in> set ns then Some (excluded_rule w) else map_of rs w)"
  by (induction ns arbitrary: rs) auto

lemma section_lookup:
  assumes "distinct (map fst m)" "(w, e) \<in> set m"
  shows "map_of (loaded_section m p (te_section e)) w =
    Some (let r = emit_rule (types_in m p) p w e in if is_excluded r then excluded_rule w else loaded_rule r)"
proof -
  let ?rows = "section_rules_of m (types_in m p) p (te_section e)" and ?r = "emit_rule (types_in m p) p w e"
  have in_rows: "?r \<in> set ?rows" using assms(2) by (force simp: section_rules_of_def)
  have only: "r = ?r" if r: "r \<in> set ?rows" and rw: "er_wire r = w" for r
  proof -
    obtain w' e' where "(w', e') \<in> set m" "r = emit_rule (types_in m p) p w' e'"
      using r by (auto simp: section_rules_of_def)
    moreover from this have "w' = w" using rw by simp
    ultimately show ?thesis using eq_key_imp_eq_value [OF assms(1)] assms(2) by blast
  qed
  have ex: "w \<in> set (excluded_wires m p (te_section e)) \<longleftrightarrow> is_excluded ?r"
  proof
    assume "w \<in> set (excluded_wires m p (te_section e))"
    then obtain r where "r \<in> set ?rows" "er_wire r = w" "is_excluded r" by (auto simp: excluded_wires_def)
    then show "is_excluded ?r" using only by metis
  next
    assume "is_excluded ?r"
    then have "?r \<in> set (filter is_excluded ?rows)" using in_rows by simp
    then have "er_wire ?r \<in> er_wire ` set (filter is_excluded ?rows)" by (rule imageI)
    then show "w \<in> set (excluded_wires m p (te_section e))" by (simp add: excluded_wires_def)
  qed
  have "map_of (map (\<lambda>r. (er_wire r, loaded_rule r)) (kept_rules m p (te_section e))) w = Some (loaded_rule ?r)"
    if "\<not> is_excluded ?r"
  proof -
    have keys: "map_of (map (\<lambda>r. (er_wire r, loaded_rule r)) rs) w = Some (loaded_rule ?r)"
      if "?r \<in> set rs" "set rs \<subseteq> set ?rows" for rs
      using that
    proof (induction rs)
      case (Cons a rs)
      then show ?case using only [of a] by (cases "er_wire a = w") auto
    qed simp
    then show ?thesis using that in_rows by (auto simp: kept_rules_def)
  qed
  then show ?thesis by (simp add: loaded_section_def excluded_lookup ex Let_def)
qed

lemma map_of_sort_key: "distinct (map fst xs) \<Longrightarrow> map_of (sort_key fst xs) = map_of xs"
  by (subst map_of_inject_set) (simp_all add: distinct_map distinct_sort)

lemma map_of_graph_filter: "map_of (map (\<lambda>t. (t, f t)) (filter P xs)) t = (if t \<in> set xs \<and> P t then Some (f t) else None)"
  by (induction xs) auto

lemma for_type_emitted:
  assumes "t \<in> set types" "distinct types"
  shows "for_type (let r = emit_rule types p w e in if is_excluded r then excluded_rule w else loaded_rule r) (Some t) =
    entry_obligation e t p"
proof -
  let ?ob = "entry_obligation e (primary_type types) p"
  have "map_of (overrides_of e types p ?ob) t =
      (if map_of (te_patterns e) (t, p) \<noteq> Some ?ob then Some (entry_obligation e t p) else None)"
    using assms(1) by (simp add: overrides_of_def map_of_graph_filter)
  moreover have "distinct (map fst (overrides_of e types p ?ob))" using assms(2) by (simp add: overrides_of_def comp_def)
  ultimately show ?thesis
    by (auto simp: for_type_def emit_rule_def Let_def is_excluded_def excluded_rule_def loaded_rule_def map_of_sort_key
        entry_obligation_def)
qed

lemma row_obligation_at:
  assumes "i < length COLUMNS"
  shows "map_of (row_obligations nfkc row) (COLUMNS ! i) = Some (classify nfkc (row ! i))"
proof -
  have "distinct (map fst (row_obligations nfkc row))"
    unfolding row_obligations_keys by (simp add: COLUMNS_def)
  then show ?thesis using assms by (simp add: row_obligations_def)
qed



section \<open>A concrete table\<close>

text \<open>The row of the invoice type, printed from right to left with a tatweel.\<close>

definition sample_title :: pystr where
  "sample_title = [1606, 1608, 1593, 32, 1589, 1608, 1585, 1578, 1581, 1587, 1575, 1576]"

definition sample_row :: "pystr option list" where
  "sample_row = [None, None, None, Some [1610, 1585, 1575, 1610, 1578, 0x640, 1582, 1575], None, None, None, None, None, None,
     None, None, None, None, None, Some [1610, 1585, 1575, 0x640, 1576, 1580, 1575], Some (rev sample_title)]"

definition sample_grid :: grid where
  "sample_grid = [[], [], [], sample_row]"

lemma sample_row_reads:
  "row_field id sample_row = Some (sample_title, lit ''inty'', lit ''header'')"
  "classify id (sample_row ! 3) = OPTIONAL"
proof -
  have t: "row_title id sample_row = Inr sample_title"
    by (simp add: row_title_def sample_row_def sample_title_def logical_def or_empty_def words_of.simps is_space_def
        space_points_def)
  have "map_of FIELDS sample_title = Some (lit ''inty'', lit ''header'')"
    by (simp add: FIELDS_def sample_title_def)
  then show "row_field id sample_row = Some (sample_title, lit ''inty'', lit ''header'')"
    by (simp add: row_field_def t) (simp add: sample_title_def)
  show "classify id (sample_row ! 3) = OPTIONAL"
    by (simp add: sample_row_def classify_def Let_def or_empty_def strip_def lstrip_def rstrip_def is_space_def
        space_points_def logical_def words_of.simps SPECIAL_WORDS_def OPTIONAL_WORDS_def lit_def lower_point_def ascii_defs)
qed


end
