(* ===== verification/ProfileFile.thy ===== *)
theory ProfileFile
  imports Profiles Jose Effects
begin

text \<open>
  The bytes of the profile store: the envelope \<open>config/profiles.py\<close> writes and reads as JSON with its
  base64 fields, and the write through a temporary file.

  \<open>Profiles\<close> takes the file as its parsed envelope; here it is read from the text, with the errors that
  reading can raise. Scrypt and AES-GCM of the \<open>cryptography\<close> package are parameters. A JSON text that
  \<open>json.loads\<close> refuses is a \<open>JSONDecodeError\<close>; the plain \<open>ValueError\<close> of an integer with more than
  4300 digits is not told apart from it.
\<close>

section \<open>The envelope\<close>

record 'k store_library =
  sl_scrypt :: "bytes \<Rightarrow> bytes \<Rightarrow> kdf_params \<Rightarrow> 'k result"
  sl_encrypt :: "'k \<Rightarrow> bytes \<Rightarrow> bytes \<Rightarrow> bytes"
  sl_decrypt :: "'k \<Rightarrow> bytes \<Rightarrow> bytes \<Rightarrow> bytes option"

text \<open>What is under the path: nothing, something that cannot be read, or bytes.\<close>

datatype on_disk = Absent | Unopenable | Content bytes

text \<open>\<open>ProfileStore.__init__\<close>: the passphrase as bytes.\<close>

definition store_passphrase_bytes :: "pystr \<Rightarrow> bytes result" where
  "store_passphrase_bytes pw =
     (if pw = [] then Inl ConfigurationError else case utf8 pw of None \<Rightarrow> Inl ValueError | Some bs \<Rightarrow> Inr bs)"

text \<open>\<open>_unb64(envelope.get(field, ""), field)\<close>\<close>

definition unb64 :: "string \<Rightarrow> json \<Rightarrow> bytes result" where
  "unb64 k env =
     (case jget (lit k) env of
        None \<Rightarrow> Inr []
      | Some (JStr s) \<Rightarrow> (case b64decode_strict s of None \<Rightarrow> Inl ConfigurationError | Some bs \<Rightarrow> Inr bs)
      | Some _ \<Rightarrow> Inl ConfigurationError)"

text \<open>\<open>version != 1\<close>: a float and \<open>True\<close> may equal one.\<close>

definition version_ok :: "json \<Rightarrow> bool" where
  "version_ok env = (jget (lit ''version'') env \<in> {Some (JInt FILE_VERSION), Some (JFloat (Fin 1)), Some (JBool True)})"

text \<open>\<open>int(kdf_params[k])\<close> where \<open>KeyError\<close>, \<open>TypeError\<close> and \<open>ValueError\<close> become a \<open>ConfigurationError\<close>.\<close>

definition kdf_int :: "string \<Rightarrow> json \<Rightarrow> int result" where
  "kdf_int k kdf =
     (case jget (lit k) kdf of
        Some (JInt n) \<Rightarrow> Inr n
      | Some (JBool b) \<Rightarrow> Inr (if b then 1 else 0)
      | Some (JFloat (Fin q)) \<Rightarrow> Inr (if q < 0 then \<lceil>q\<rceil> else \<lfloor>q\<rfloor>)
      | Some (JFloat NaN) \<Rightarrow> Inl ConfigurationError
      | Some (JFloat _) \<Rightarrow> Inl OverflowError
      | Some (JStr s) \<Rightarrow> (case py_int 10 s of None \<Rightarrow> Inl ConfigurationError | Some n \<Rightarrow> Inr n)
      | _ \<Rightarrow> Inl ConfigurationError)"

definition kdf_of :: "json \<Rightarrow> kdf_params result" where
  "kdf_of env =
     (case jget (lit ''kdf'') env of
        Some kdf \<Rightarrow>
          bindE (kdf_int ''n'' kdf) (\<lambda>n. bindE (kdf_int ''r'' kdf) (\<lambda>r. bindE (kdf_int ''p'' kdf) (\<lambda>p.
            Inr \<lparr>kdf_n = n, kdf_r = r, kdf_p = p\<rparr>)))
      | None \<Rightarrow> Inl ConfigurationError)"

definition plain_profiles :: "bytes \<Rightarrow> profiles result" where
  "plain_profiles plaintext =
     (case utf8_decode False plaintext of
        None \<Rightarrow> Inl UnicodeDecodeError
      | Some text \<Rightarrow>
          (case loads text of
             None \<Rightarrow> Inl ValueError
           | Some (JObj kvs) \<Rightarrow> profiles_from_json (JObj kvs)
           | Some _ \<Rightarrow> Inl AttributeError))"

definition read_envelope :: "'k store_library \<Rightarrow> bytes \<Rightarrow> json \<Rightarrow> profiles result" where
  "read_envelope lib pw env =
     (if \<not> (\<exists>kvs. env = JObj kvs) then Inl ConfigurationError
      else if \<not> version_ok env then Inl ConfigurationError
      else
        bindE (kdf_of env) (\<lambda>params.
        bindE (unb64 ''salt'' env) (\<lambda>salt.
        bindE (unb64 ''nonce'' env) (\<lambda>iv.
        bindE (unb64 ''ciphertext'' env) (\<lambda>ciphertext.
        bindE (sl_scrypt lib pw salt params) (\<lambda>key.
          case sl_decrypt lib key iv ciphertext of
            None \<Rightarrow> Inl ConfigurationError
          | Some plaintext \<Rightarrow> plain_profiles plaintext))))))"

definition read_store :: "'k store_library \<Rightarrow> bytes \<Rightarrow> on_disk \<Rightarrow> profiles result" where
  "read_store lib pw f =
     (case f of
        Absent \<Rightarrow> Inr []
      | Unopenable \<Rightarrow> Inl ConfigurationError
      | Content bs \<Rightarrow>
          (case utf8_decode False bs of
             None \<Rightarrow> Inl UnicodeDecodeError
           | Some text \<Rightarrow> (case loads text of None \<Rightarrow> Inl ConfigurationError | Some env \<Rightarrow> read_envelope lib pw env)))"

text \<open>\<open>json.dumps(value, indent=2)\<close> of the objects, texts and integers of the envelope, in ASCII.\<close>

fun indented :: "nat \<Rightarrow> json \<Rightarrow> pystr" where
  "indented d (JObj (kv # kvs)) =
     123 # joined 44 (map (\<lambda>(k, v). 10 # replicate (2 * d + 2) 32 @ header_text (JStr k) @ [58, 32] @ indented (Suc d) v)
       (kv # kvs)) @ 10 # replicate (2 * d) 32 @ [125]"
| "indented d v = header_text v"

definition envelope_json :: "bytes \<Rightarrow> bytes \<Rightarrow> bytes \<Rightarrow> json" where
  "envelope_json salt iv ciphertext = JObj
     [(lit ''version'', JInt FILE_VERSION),
      (lit ''kdf'', JObj [(lit ''name'', JStr (lit ''scrypt'')), (lit ''n'', JInt (kdf_n SCRYPT)),
         (lit ''r'', JInt (kdf_r SCRYPT)), (lit ''p'', JInt (kdf_p SCRYPT)), (lit ''length'', JInt 32)]),
      (lit ''salt'', JStr (b64encode salt)),
      (lit ''nonce'', JStr (b64encode iv)),
      (lit ''ciphertext'', JStr (b64encode ciphertext))]"

definition store_bytes :: "'k store_library \<Rightarrow> bytes \<Rightarrow> bytes \<Rightarrow> bytes \<Rightarrow> profiles \<Rightarrow> bytes result" where
  "store_bytes lib pw salt iv ps =
     (case Option.bind (dumps (\<lambda>_. []) (profiles_to_json ps)) utf8 of
        None \<Rightarrow> Inl ValueError
      | Some plaintext \<Rightarrow>
          bindE (sl_scrypt lib pw salt SCRYPT) (\<lambda>key.
            case utf8 (indented 0 (envelope_json salt iv (sl_encrypt lib key iv plaintext))) of
              None \<Rightarrow> Inl ValueError
            | Some bs \<Rightarrow> Inr bs))"

definition saved_bytes :: "'k store_library \<Rightarrow> bytes \<Rightarrow> bytes \<Rightarrow> bytes \<Rightarrow> profile \<Rightarrow> on_disk \<Rightarrow> bytes result" where
  "saved_bytes lib pw salt iv p f =
     bindE (validate_profile p) (\<lambda>_.
     bindE (read_store lib pw f) (\<lambda>ps.
       store_bytes lib pw salt iv (dict_set (prof_name p) p ps)))"

definition loaded_profile :: "'k store_library \<Rightarrow> bytes \<Rightarrow> pystr \<Rightarrow> on_disk \<Rightarrow> profile result" where
  "loaded_profile lib pw name f =
     bindE (read_store lib pw f) (\<lambda>ps.
       (case map_of ps name of Some p \<Rightarrow> Inr p | None \<Rightarrow> Inl ConfigurationError))"

section \<open>The write\<close>

text \<open>
  The folder of the store: the file itself and the temporary file of a write, each with its mode. A
  write makes the folder, opens a temporary file, writes and syncs it, and renames it over the store.
  \<open>steps\<close> is how many of these five succeed, \<open>written\<close> how many bytes reach the file when the
  writing itself fails, and \<open>stuck\<close> says that the temporary file cannot be removed either.
\<close>

record folder =
  fo_store :: "(bytes \<times> nat) option"
  fo_temp :: "(bytes \<times> nat) option"

record mishap =
  mi_steps :: nat
  mi_written :: nat
  mi_stuck :: bool

definition PRIVATE_MODE :: nat where "PRIVATE_MODE = 0x180"

text \<open>The states of the folder one after the other, as another process could see them.\<close>

definition write_stages :: "bytes \<Rightarrow> folder \<Rightarrow> mishap \<Rightarrow> folder list" where
  "write_stages data fo mi =
     (let opened = fo\<lparr>fo_temp := Some ([], PRIVATE_MODE)\<rparr>;
          part = fo\<lparr>fo_temp := Some (take (mi_written mi) data, PRIVATE_MODE)\<rparr>;
          full = fo\<lparr>fo_temp := Some (data, PRIVATE_MODE)\<rparr>;
          renamed = fo\<lparr>fo_store := Some (data, PRIVATE_MODE), fo_temp := None\<rparr>
      in take (Suc (mi_steps mi)) [fo, fo, opened, full, full, renamed] @
         (if mi_steps mi = 2 then [part] else []))"

definition atomic_write :: "mishap \<Rightarrow> bytes \<Rightarrow> (folder, unit) io" where
  "atomic_write mi data = (\<lambda>fo.
     let reached = last (write_stages data fo mi) in
     if 5 \<le> mi_steps mi then (Inr (), reached)
     else (Inl OSError, if mi_steps mi < 2 \<or> mi_stuck mi then reached else reached\<lparr>fo_temp := None\<rparr>))"

definition disk_of :: "(bytes \<times> nat) option \<Rightarrow> on_disk" where
  "disk_of f = (case f of None \<Rightarrow> Absent | Some (bs, _) \<Rightarrow> Content bs)"

text \<open>\<open>ProfileStore.save\<close> on the folder.\<close>

definition save_in_folder ::
    "'k store_library \<Rightarrow> bytes \<Rightarrow> bytes \<Rightarrow> bytes \<Rightarrow> mishap \<Rightarrow> profile \<Rightarrow> (folder, unit) io" where
  "save_in_folder lib pw salt iv mi p = (\<lambda>fo.
     case saved_bytes lib pw salt iv p (disk_of (fo_store fo)) of
       Inl e \<Rightarrow> (Inl e, fo)
     | Inr data \<Rightarrow> atomic_write mi data fo)"

definition delete_in_folder ::
    "'k store_library \<Rightarrow> bytes \<Rightarrow> bytes \<Rightarrow> bytes \<Rightarrow> mishap \<Rightarrow> pystr \<Rightarrow> (folder, unit) io" where
  "delete_in_folder lib pw salt iv mi name = (\<lambda>fo.
     case bindE (read_store lib pw (disk_of (fo_store fo))) (\<lambda>ps.
            if map_of ps name = None then Inl ConfigurationError else store_bytes lib pw salt iv (dict_del name ps)) of
       Inl e \<Rightarrow> (Inl e, fo)
     | Inr data \<Rightarrow> atomic_write mi data fo)"

section \<open>Indented text reads back\<close>

lemma reads_pad:
  assumes "reads v u ts" "list_all json_space w" "list_all json_space w'"
  shows "reads v (w @ u @ w') ts"
proof -
  have "\<not> bare_char c" if "json_space c" for c using that by (auto simp: json_space_def bare_char_def ascii_defs)
  then have hd: "w' @ s = [] \<or> \<not> bare_char (hd (w' @ s))" if "s = [] \<or> \<not> bare_char (hd s)" for s
    using that assms(3) by (cases w') auto
  have "lex Between ((w @ u @ w') @ s) = emits ts (lex Between s)" if "s = [] \<or> \<not> bare_char (hd s)" for s
    using readsD(1) [OF assms(1) hd [OF that]] assms(2, 3) by (simp add: lex_spaces)
  then show ?thesis using readsD(2-4) [OF assms(1)] unfolding reads_def by blast
qed

abbreviation visible :: "pystr \<Rightarrow> bool" where
  "visible s \<equiv> list_all (\<lambda>c. 32 \<le> c \<and> c < 127) s"

fun envelope_like :: "json \<Rightarrow> bool" where
  "envelope_like (JInt n) = (length (int_text n) \<le> max_int_digits)"
| "envelope_like (JStr s) = visible s"
| "envelope_like (JObj kvs) = (distinct (map fst kvs) \<and> list_all (\<lambda>(k, v). visible k \<and> envelope_like v) kvs)"
| "envelope_like _ = False"

lemma ascii_chars_id: "list_all (\<lambda>c. c < 127) s \<Longrightarrow> concat (map ascii_char s) = s"
  by (induction s) (auto simp: ascii_char_def)

lemma visible_json_string: "visible s \<Longrightarrow> list_all (\<lambda>c. c < 127) (json_string s)"
  by (induction s) (auto simp: json_string_def escape_char_def)

lemma header_text_visible: "visible s \<Longrightarrow> header_text (JStr s) = json_string s"
  by (simp add: header_text_def ascii_chars_id visible_json_string)

lemma int_text_ascii: "list_all (\<lambda>c. c < 127) (int_text n)"
  using int_text_bare [of n] by (auto simp: list_all_iff bare_char_def ascii_defs simp del: int_text.simps)

lemma header_text_int: "header_text (JInt n) = int_text n"
  using int_text_ascii [of n] by (simp add: header_text_def ascii_chars_id del: int_text.simps)

text \<open>White space after the last member belongs to its value.\<close>

lemma joined_pad:
  assumes "list_all2 (\<lambda>(k, v) u. \<exists>w t ts. list_all json_space w \<and> u = w @ json_string k @ 58 # t \<and> reads v t ts) kvs us"
    "us \<noteq> []" "list_all json_space z"
  shows "\<exists>us'. joined 44 us @ z = joined 44 us' \<and>
    list_all2 (\<lambda>(k, v) u. \<exists>w t ts. list_all json_space w \<and> u = w @ json_string k @ 58 # t \<and> reads v t ts) kvs us'"
  using assms
proof (induction kvs us rule: list_all2_induct)
  case (Cons kv kvs u us)
  obtain k v where kv: "kv = (k, v)" by (cases kv)
  with Cons obtain w t ts where u: "list_all json_space w" "u = w @ json_string k @ 58 # t" "reads v t ts" by auto
  show ?case
  proof (cases us)
    case Nil
    have "reads v (t @ z) ts" using reads_pad [OF u(3), of "[]" z] Cons.prems by simp
    then show ?thesis using Nil Cons(2) u kv by (intro exI [of _ "[u @ z]"]) auto
  next
    case (Cons u' us')
    then obtain vs where vs: "joined 44 us @ z = joined 44 vs"
      "list_all2 (\<lambda>(k, v) u. \<exists>w t ts. list_all json_space w \<and> u = w @ json_string k @ 58 # t \<and> reads v t ts) kvs vs"
      using Cons.IH Cons.prems by blast
    with local.Cons \<open>list_all2 _ kvs us\<close> obtain v' vs' where "vs = v' # vs'" by (cases vs) auto
    with vs local.Cons u kv show ?thesis by (intro exI [of _ "u # vs"]) auto
  qed
qed simp

lemma reads_indented: "envelope_like v \<Longrightarrow> \<exists>ts. reads v (indented d v) ts"
proof (induction v arbitrary: d)
  case (JInt n)
  then show ?case
    using reads_bare [OF _ _ read_bare_int_text] int_text_bare by (auto simp: header_text_int simp del: int_text.simps)
next
  case (JStr s)
  then show ?case using reads_text by (auto simp: header_text_visible)
next
  case (JObj kvs)
  let ?u = "\<lambda>(k, v). 10 # replicate (2 * d + 2) 32 @ header_text (JStr k) @ [58, 32] @ indented (Suc d) v"
  let ?P = "\<lambda>(k, v) u. \<exists>w t ts. list_all json_space w \<and> u = w @ json_string k @ 58 # t \<and> reads v t ts"
  have sp: "list_all json_space (10 # replicate n 32)" for n by (simp add: json_space_def list_all_iff)
  show ?case
  proof (cases kvs)
    case Nil
    then show ?thesis
      by (intro exI [of _ "[LBrace, RBrace]"]) (simp add: reads_def header_text_def ascii_char_def lex_punctuation)
  next
    case (Cons kv kvs')
    have "?P kv (?u kv)" if mem: "kv \<in> set kvs" for kv
    proof -
      obtain k v where kv: "kv = (k, v)" by (cases kv)
      from JObj.prems mem kv have e: "visible k" "envelope_like v" by (auto simp: list_all_iff)
      then obtain ts where "reads v (indented (Suc d) v) ts" using JObj.IH [of kv v] mem kv by auto
      then have "reads v (32 # indented (Suc d) v) ts"
        using reads_pad [of v "indented (Suc d) v" ts "[32]" "[]"] by (simp add: json_space_def)
      then show ?thesis using e(1) sp [of "2 * d + 2"]
        unfolding kv prod.case
        by (intro exI [of _ "10 # replicate (2 * d + 2) 32"] exI [of _ "32 # indented (Suc d) v"] exI [of _ ts])
          (simp add: header_text_visible)
    qed
    then have "list_all2 ?P kvs (map ?u kvs)" by (simp add: list_all2_conv_all_nth)
    then obtain us where us: "joined 44 (map ?u kvs) @ 10 # replicate (2 * d) 32 = joined 44 us" "list_all2 ?P kvs us"
      using joined_pad [of kvs "map ?u kvs" "10 # replicate (2 * d) 32"] sp [of "2 * d"] Cons by auto
    have "indented d (JObj kvs) = 123 # joined 44 us @ [125]"
      using us(1) Cons by (simp flip: append_assoc)
    then show ?thesis using reads_dict [OF us(2)] JObj.prems by simp
  qed
qed simp_all

lemma indented_ascii: "envelope_like v \<Longrightarrow> c \<in> set (indented d v) \<Longrightarrow> c < 127"
proof (induction v arbitrary: d c)
  case (JInt n)
  then show ?case using int_text_ascii [of n] by (auto simp: header_text_int list_all_iff simp del: int_text.simps)
next
  case (JStr s)
  then show ?case using visible_json_string [of s] by (auto simp: header_text_visible list_all_iff)
next
  case (JObj kvs)
  show ?case
  proof (cases kvs)
    case Nil
    with JObj.prems(2) show ?thesis by (auto simp: header_text_def ascii_char_def)
  next
    case (Cons kv kvs')
    let ?u = "\<lambda>(k, v). 10 # replicate (2 * d + 2) 32 @ header_text (JStr k) @ [58, 32] @ indented (Suc d) v"
    have "c < 127" if "kv \<in> set kvs" "c \<in> set (?u kv)" for kv
      using that JObj.IH [of kv "snd kv" c "Suc d"] JObj.prems(1) visible_json_string [of "fst kv"]
      by (cases kv) (auto simp: header_text_visible list_all_iff)
    moreover have "c \<in> {123, 125, 10, 32, 44} \<or> (\<exists>kv \<in> set kvs. c \<in> set (?u kv))"
      using JObj.prems(2) Cons by (auto dest!: set_joined)
    ultimately show ?thesis by auto
  qed
qed simp_all

section \<open>The store reads back\<close>

definition store_law :: "'k store_library \<Rightarrow> bool" where
  "store_law lib \<longleftrightarrow> (\<forall>k iv x. byte_list x \<longrightarrow>
     sl_decrypt lib k iv (sl_encrypt lib k iv x) = Some x \<and> byte_list (sl_encrypt lib k iv x))"

text \<open>Python characters, which every text of the program is made of.\<close>

definition proper_profiles :: "profiles \<Rightarrow> bool" where
  "proper_profiles ps \<longleftrightarrow> distinct (map fst ps) \<and> (\<forall>c \<in> json_chars (profiles_to_json ps). c < 0x110000)"

lemma readable_profile: "readable ft (profile_to_json p)"
  by (simp add: profile_to_json_def opt_text_def split: option.split)

lemma readable_profiles: "distinct (map fst ps) \<Longrightarrow> readable ft (profiles_to_json ps)"
  by (auto simp: profiles_to_json_def list_all_iff readable_profile o_def case_prod_beta)

lemma plain_profiles_back:
  assumes "proper_profiles ps" "dumps (\<lambda>_. []) (profiles_to_json ps) = Some t" "utf8 t = Some bs"
  shows "plain_profiles bs = Inr ps"
proof -
  have "\<forall>c \<in> set t. c < 0x110000"
    using dumps_chars [OF assms(2)] assms(1) by (fastforce simp: proper_profiles_def)
  then have "utf8_decode False bs = Some t" using utf8_decode_utf8 [OF assms(3)] by blast
  moreover have "loads t = Some (profiles_to_json ps)"
    using loads_dumps [OF assms(2)] readable_profiles assms(1) by (simp add: proper_profiles_def)
  moreover have "profiles_to_json ps = JObj [(lit ''profiles'', JObj (map (\<lambda>(n, p). (n, profile_to_json p)) ps))]"
    by (simp add: profiles_to_json_def)
  ultimately show ?thesis using profiles_json_roundtrip [of ps] by (simp add: plain_profiles_def)
qed

lemma b64_visible: "byte_list bs \<Longrightarrow> visible (b64encode bs)"
  using b64_data_text [of bs False] by (auto simp: byte_list_def b64encode_def b64_pads_def b64_text_def list_all_iff)

lemma envelope_like_envelope:
  assumes "byte_list salt" "byte_list iv" "byte_list ct"
  shows "envelope_like (envelope_json salt iv ct)"
proof -
  have n: "length (int_text m) \<le> max_int_digits" if "m \<in> {1, 8, 32, 32768}" for m
    using that length_digits_of [of 10 "nat m" 5] by (auto simp: max_int_digits_def fmt_dec_0)
  have v: "visible (lit w)" if "w \<in> {''version'', ''kdf'', ''name'', ''scrypt'', ''n'', ''r'', ''p'', ''length'', ''salt'',
      ''nonce'', ''ciphertext''}" for w
    using that by (auto simp: lit_def)
  show ?thesis using assms b64_visible n v
    by (simp add: envelope_json_def FILE_VERSION_def SCRYPT_def del: int_text.simps)
qed

lemma read_envelope_back:
  assumes "store_law lib" "byte_list salt" "byte_list iv" "byte_list plaintext" "sl_scrypt lib pw salt SCRYPT = Inr key"
  shows "read_envelope lib pw (envelope_json salt iv (sl_encrypt lib key iv plaintext)) = plain_profiles plaintext"
proof -
  let ?env = "envelope_json salt iv (sl_encrypt lib key iv plaintext)"
  have j: "jget (lit ''version'') ?env = Some (JInt FILE_VERSION)" "jget (lit ''salt'') ?env = Some (JStr (b64encode salt))"
    "jget (lit ''nonce'') ?env = Some (JStr (b64encode iv))"
    "jget (lit ''ciphertext'') ?env = Some (JStr (b64encode (sl_encrypt lib key iv plaintext)))"
    by (simp_all add: envelope_json_def)
  have "kdf_of ?env = Inr SCRYPT"
    by (simp add: kdf_of_def envelope_json_def kdf_int_def SCRYPT_def)
  moreover have "b64decode_strict (b64encode (sl_encrypt lib key iv plaintext)) = Some (sl_encrypt lib key iv plaintext)"
    using assms(1, 4) by (intro b64encode_reads_back) (simp add: store_law_def byte_list_def list_all_iff)
  moreover have "b64decode_strict (b64encode salt) = Some salt" "b64decode_strict (b64encode iv) = Some iv"
    using assms(2, 3) by (simp_all add: b64encode_reads_back byte_list_def list_all_iff)
  moreover have "\<exists>kvs. ?env = JObj kvs" by (simp add: envelope_json_def)
  ultimately show ?thesis
    using assms(1, 4, 5) j by (simp add: read_envelope_def version_ok_def unb64_def store_law_def)
qed

lemma store_bytes_back:
  assumes "store_law lib" "byte_list salt" "byte_list iv" "proper_profiles ps"
    "store_bytes lib pw salt iv ps = Inr bs"
  shows "read_store lib pw (Content bs) = Inr ps"
proof -
  obtain t pt key where t: "dumps (\<lambda>_. []) (profiles_to_json ps) = Some t" "utf8 t = Some pt"
      "sl_scrypt lib pw salt SCRYPT = Inr key"
      "utf8 (indented 0 (envelope_json salt iv (sl_encrypt lib key iv pt))) = Some bs"
    using assms(5) by (auto simp: store_bytes_def py_splits bind_eq_Some_conv split: option.splits)
  let ?env = "envelope_json salt iv (sl_encrypt lib key iv pt)"
  have "\<forall>c \<in> set t. c < 0x110000"
    using dumps_chars [OF t(1)] assms(4) by (fastforce simp: proper_profiles_def)
  then have pt: "byte_list pt" using utf8_bytes [OF t(2)] by blast
  then have e: "envelope_like ?env"
    using assms(1-3) by (intro envelope_like_envelope) (simp_all add: store_law_def)
  then have ascii: "\<forall>c \<in> set (indented 0 ?env). c < 127" using indented_ascii by blast
  then have bs: "utf8_decode False bs = Some (indented 0 ?env)"
    using utf8_decode_utf8 [OF t(4)] by fastforce
  obtain ts where "reads ?env (indented 0 ?env) ts" using reads_indented [OF e] by blast
  then have "loads (indented 0 ?env) = Some ?env"
    using readsD(1) [of ?env "indented 0 ?env" ts "[]"] readsD(2) [of ?env "indented 0 ?env" ts "[]" "[]"]
    by (simp add: loads_def emits_def)
  then show ?thesis
    using bs read_envelope_back [OF assms(1-3) pt t(3)] plain_profiles_back [OF assms(4) t(1, 2)]
    by (simp add: read_store_def)
qed

section \<open>A write is all or nothing\<close>

lemma write_stages_safe:
  "list_all (\<lambda>st. fo_store st \<in> {fo_store fo, Some (data, PRIVATE_MODE)} \<and>
     (fo_temp st \<in> {fo_temp fo, None} \<or> snd (the (fo_temp st)) = PRIVATE_MODE)) (write_stages data fo mi)"
proof -
  consider "mi_steps mi = 0" | "mi_steps mi = 1" | "mi_steps mi = 2" | "mi_steps mi = 3" | "mi_steps mi = 4" | "5 \<le> mi_steps mi"
    by linarith
  then show ?thesis by cases (simp_all add: write_stages_def numeral_eq_Suc take_Cons' Let_def)
qed

lemma atomic_write_outcome:
  "case atomic_write mi data fo of
     (Inr _, fo') \<Rightarrow> fo_store fo' = Some (data, PRIVATE_MODE) \<and> fo_temp fo' = None
   | (Inl e, fo') \<Rightarrow> fo_store fo' = fo_store fo \<and>
       (mi_stuck mi \<or> fo_temp fo' = (if mi_steps mi < 2 then fo_temp fo else None))"
proof -
  consider "mi_steps mi = 0" | "mi_steps mi = 1" | "mi_steps mi = 2" | "mi_steps mi = 3" | "mi_steps mi = 4" | "5 \<le> mi_steps mi"
    by linarith
  then show ?thesis by cases (simp_all add: write_stages_def atomic_write_def numeral_eq_Suc take_Cons' Let_def)
qed


lemma atomic_write_cases:
  assumes "atomic_write mi data fo = (r, fo')"
  obtains "r = Inr ()" "fo_store fo' = Some (data, PRIVATE_MODE)" | e where "r = Inl e" "fo_store fo' = fo_store fo"
  using atomic_write_outcome [where mi = mi and data = data and fo = fo] assms by (cases r) auto

section \<open>A history of the store\<close>

datatype store_op = SaveOp profile | DeleteOp pystr

text \<open>An operation with the salt and the nonce it draws and what goes wrong with its write.\<close>

record store_call =
  so_op :: store_op
  so_salt :: bytes
  so_nonce :: bytes
  so_mishap :: mishap

definition call_store :: "'k store_library \<Rightarrow> bytes \<Rightarrow> store_call \<Rightarrow> (folder, unit) io" where
  "call_store lib pw c =
     (case so_op c of
        SaveOp p \<Rightarrow> save_in_folder lib pw (so_salt c) (so_nonce c) (so_mishap c) p
      | DeleteOp name \<Rightarrow> delete_in_folder lib pw (so_salt c) (so_nonce c) (so_mishap c) name)"

text \<open>The promise of the store: the profiles after the calls that were answered without an exception.\<close>

definition apply_op :: "store_op \<Rightarrow> profiles \<Rightarrow> profiles" where
  "apply_op c ps = (case c of SaveOp p \<Rightarrow> dict_set (prof_name p) p ps | DeleteOp name \<Rightarrow> dict_del name ps)"

fun store_history :: "'k store_library \<Rightarrow> bytes \<Rightarrow> store_call list \<Rightarrow> folder \<Rightarrow> profiles \<Rightarrow> folder \<times> profiles" where
  "store_history lib pw [] fo ps = (fo, ps)"
| "store_history lib pw (c # cs) fo ps =
     (case call_store lib pw c fo of
        (Inr _, fo') \<Rightarrow> store_history lib pw cs fo' (apply_op (so_op c) ps)
      | (Inl _, fo') \<Rightarrow> store_history lib pw cs fo' ps)"

definition proper_call :: "store_call \<Rightarrow> bool" where
  "proper_call c \<longleftrightarrow> byte_list (so_salt c) \<and> byte_list (so_nonce c) \<and>
     (case so_op c of SaveOp p \<Rightarrow> \<forall>c \<in> set (prof_name p) \<union> json_chars (profile_to_json p). c < 0x110000 | _ \<Rightarrow> True)"

lemma dict_set_subset: "set (dict_set k v d) \<subseteq> insert (k, v) (set d)"
  by (induction d) (auto split: if_splits)

lemma proper_profiles_op:
  assumes "proper_profiles ps" "proper_call c"
  shows "proper_profiles (apply_op (so_op c) ps)"
proof (cases "so_op c")
  case (SaveOp p)
  have "json_chars (profiles_to_json (dict_set (prof_name p) p ps)) \<subseteq>
      json_chars (profiles_to_json ps) \<union> set (prof_name p) \<union> json_chars (profile_to_json p)"
    using dict_set_subset [of "prof_name p" p ps] by (fastforce simp: profiles_to_json_def)
  with assms show ?thesis
    by (auto simp: SaveOp proper_profiles_def proper_call_def apply_op_def distinct_dict_set)
next
  case (DeleteOp name)
  have "json_chars (profiles_to_json (dict_del name ps)) \<subseteq> json_chars (profiles_to_json ps)"
    by (fastforce simp: profiles_to_json_def dict_del_def)
  with assms show ?thesis by (auto simp: DeleteOp proper_profiles_def apply_op_def distinct_dict_del)
qed

text \<open>A call that succeeds stores what it promises, a call that raises changes nothing.\<close>

lemma call_store_step:
  assumes "store_law lib" "proper_call c" "proper_profiles ps" "read_store lib pw (disk_of (fo_store fo)) = Inr ps"
    "call_store lib pw c fo = (r, fo')"
  shows "case r of Inr _ \<Rightarrow> read_store lib pw (disk_of (fo_store fo')) = Inr (apply_op (so_op c) ps)
    | Inl _ \<Rightarrow> fo_store fo' = fo_store fo"
proof -
  have written: "case r of Inr _ \<Rightarrow> read_store lib pw (disk_of (fo_store fo')) = Inr (apply_op (so_op c) ps)
      | Inl _ \<Rightarrow> fo_store fo' = fo_store fo"
    if w: "atomic_write (so_mishap c) data fo = (r, fo')"
      and d: "store_bytes lib pw (so_salt c) (so_nonce c) (apply_op (so_op c) ps) = Inr data" for data
    using w
  proof (cases rule: atomic_write_cases)
    case 1
    have "byte_list (so_salt c)" "byte_list (so_nonce c)" using assms(2) by (simp_all add: proper_call_def)
    then have "read_store lib pw (Content data) = Inr (apply_op (so_op c) ps)"
      by (rule store_bytes_back [OF assms(1) _ _ proper_profiles_op [OF assms(3, 2)] d])
    with 1 show ?thesis by (simp add: disk_of_def)
  qed simp
  show ?thesis
  proof (cases "so_op c")
    case (SaveOp p)
    then show ?thesis using assms(4, 5) written
      by (auto simp: call_store_def save_in_folder_def saved_bytes_def apply_op_def bindE_def split: sum.splits)
  next
    case (DeleteOp name)
    then show ?thesis using assms(4, 5) written
      by (auto simp: call_store_def delete_in_folder_def apply_op_def bindE_def split: sum.splits if_splits)
  qed
qed

lemma store_history_from:
  assumes "store_law lib" "list_all proper_call cs" "proper_profiles ps" "read_store lib pw (disk_of (fo_store fo)) = Inr ps"
    "store_history lib pw cs fo ps = (fo', ps')"
  shows "read_store lib pw (disk_of (fo_store fo')) = Inr ps'"
  using assms(2-)
proof (induction cs arbitrary: fo ps)
  case (Cons c cs)
  obtain r fo1 where c: "call_store lib pw c fo = (r, fo1)" by fastforce
  from Cons.prems have pc: "proper_call c" and pcs: "list_all proper_call cs" by auto
  note step = call_store_step [OF assms(1) pc Cons.prems(2, 3) c]
  show ?case
  proof (cases r)
    case (Inl e)
    with step have "read_store lib pw (disk_of (fo_store fo1)) = Inr ps" using Cons.prems(3) by simp
    with Cons.IH [OF pcs Cons.prems(2)] c Inl Cons.prems(4) show ?thesis by simp
  next
    case (Inr u)
    with step have "read_store lib pw (disk_of (fo_store fo1)) = Inr (apply_op (so_op c) ps)" by simp
    with Cons.IH [OF pcs proper_profiles_op [OF Cons.prems(2) pc]] c Inr Cons.prems(4) show ?thesis by simp
  qed
qed simp

text \<open>
  C19. Over any history of saves and deletions, starting without a file, whatever goes wrong with their
  writes, the bytes on the disk are read back under the passphrase as exactly the profiles the calls
  that were answered without an exception amount to.
\<close>

theorem store_history_reads_back:
  assumes "store_law lib" "list_all proper_call cs" "fo_store fo = None"
    "store_history lib pw cs fo [] = (fo', ps)"
  shows "read_store lib pw (disk_of (fo_store fo')) = Inr ps"
  using assms(4)
  by (intro store_history_from [OF assms(1, 2), of "[]" pw fo fo'])
    (simp_all add: proper_profiles_def profiles_to_json_def lit_def assms(3) disk_of_def read_store_def)

section \<open>Overlapping calls\<close>

text \<open>
  An operation holds no lock between reading the store and writing it. \<open>pending_write\<close> is its first half,
  the bytes it is going to write.
\<close>

definition pending_write :: "'k store_library \<Rightarrow> bytes \<Rightarrow> store_call \<Rightarrow> folder \<Rightarrow> bytes result" where
  "pending_write lib pw c fo =
     (case so_op c of
        SaveOp p \<Rightarrow> saved_bytes lib pw (so_salt c) (so_nonce c) p (disk_of (fo_store fo))
      | DeleteOp name \<Rightarrow> bindE (read_store lib pw (disk_of (fo_store fo))) (\<lambda>ps.
          if map_of ps name = None then Inl ConfigurationError
          else store_bytes lib pw (so_salt c) (so_nonce c) (dict_del name ps)))"

lemma call_store_halves:
  "call_store lib pw c fo = (case pending_write lib pw c fo of
     Inl e \<Rightarrow> (Inl e, fo) | Inr data \<Rightarrow> atomic_write (so_mishap c) data fo)"
  by (simp add: call_store_def pending_write_def save_in_folder_def delete_in_folder_def split: store_op.split)

lemma pending_write_stores:
  assumes "read_store lib pw (disk_of (fo_store fo)) = Inr ps" "pending_write lib pw c fo = Inr data"
  shows "store_bytes lib pw (so_salt c) (so_nonce c) (apply_op (so_op c) ps) = Inr data"
  using assms by (auto simp: pending_write_def saved_bytes_def apply_op_def bindE_def split: store_op.splits sum.splits if_splits)

text \<open>
  Of two calls that read the store before either has written it, both are answered, and the store ends
  as if the first had never been made.
\<close>

theorem overlapping_calls_lose:
  assumes "store_law lib" "proper_call c'" "proper_profiles ps" "read_store lib pw (disk_of (fo_store fo)) = Inr ps"
    "pending_write lib pw c fo = Inr data" "pending_write lib pw c' fo = Inr data'"
    "5 \<le> mi_steps (so_mishap c)" "5 \<le> mi_steps (so_mishap c')"
  shows "\<exists>fo1 fo2. atomic_write (so_mishap c) data fo = (Inr (), fo1) \<and>
    atomic_write (so_mishap c') data' fo1 = (Inr (), fo2) \<and>
    read_store lib pw (disk_of (fo_store fo2)) = Inr (apply_op (so_op c') ps)"
proof -
  obtain fo1 where 1: "atomic_write (so_mishap c) data fo = (Inr (), fo1)"
    using assms(7) by (simp add: atomic_write_def Let_def)
  obtain fo2 where 2: "atomic_write (so_mishap c') data' fo1 = (Inr (), fo2)"
    using assms(8) by (simp add: atomic_write_def Let_def)
  have "byte_list (so_salt c')" "byte_list (so_nonce c')" using assms(2) by (simp_all add: proper_call_def)
  then have "read_store lib pw (Content data') = Inr (apply_op (so_op c') ps)"
    by (rule store_bytes_back [OF assms(1) _ _ proper_profiles_op [OF assms(3, 2)] pending_write_stores [OF assms(4, 6)]])
  moreover have "fo_store fo2 = Some (data', PRIVATE_MODE)"
    using 2 by (cases rule: atomic_write_cases) simp_all
  ultimately show ?thesis using 1 2 by (auto simp: disk_of_def)
qed

definition sample_store_library :: "unit store_library" where
  "sample_store_library = \<lparr>sl_scrypt = (\<lambda>_ _ _. Inr ()), sl_encrypt = (\<lambda>_ _ x. rev x), sl_decrypt = (\<lambda>_ _ x. Some (rev x))\<rparr>"

definition sample_call :: "store_op \<Rightarrow> nat \<Rightarrow> store_call" where
  "sample_call op steps = \<lparr>so_op = op, so_salt = [1], so_nonce = [2],
     so_mishap = \<lparr>mi_steps = steps, mi_written = 3, mi_stuck = False\<rparr>\<rparr>"

text \<open>A profile is saved, its deletion fails while the bytes are written, and the profile is still there.\<close>

theorem store_history_reads_back_witness:
  "\<exists>fo. store_history sample_store_library [7]
       [sample_call (SaveOp sample_profile) 5, sample_call (DeleteOp (lit ''shop'')) 2]
       \<lparr>fo_store = None, fo_temp = None\<rparr> [] = (fo, [(lit ''shop'', sample_profile)]) \<and>
     read_store sample_store_library [7] (disk_of (fo_store fo)) = Inr [(lit ''shop'', sample_profile)]"
proof -
  let ?lib = sample_store_library and ?fo = "\<lparr>fo_store = None, fo_temp = None\<rparr>"
  let ?save = "sample_call (SaveOp sample_profile) 5" and ?del = "sample_call (DeleteOp (lit ''shop'')) 2"
  have law: "store_law ?lib" by (simp add: store_law_def sample_store_library_def byte_list_def list_all_iff)
  have proper: "list_all proper_call [?save, ?del]"
    by (auto simp: proper_call_def sample_call_def byte_list_def sample_profile_def profile_to_json_def opt_text_def
        environment_text_def lit_def)
  obtain fo ps where h: "store_history ?lib [7] [?save, ?del] ?fo [] = (fo, ps)" by fastforce
  have total: "\<exists>bs. store_bytes ?lib [7] [1] [2] qs = Inr bs" if qs: "qs \<in> {[], [(lit ''shop'', sample_profile)]}" for qs
  proof -
    have "json_floats (profiles_to_json qs) = []"
      using qs by (auto simp: profiles_to_json_def profile_to_json_def opt_text_def split: option.splits)
    then obtain t where t: "dumps (\<lambda>_. []) (profiles_to_json qs) = Some t"
      using dumps_eq_None [of "\<lambda>_. []" "profiles_to_json qs"] by auto
    have "\<forall>c \<in> json_chars (profiles_to_json qs). c < 128"
      using qs by (auto simp: profiles_to_json_def profile_to_json_def sample_profile_def opt_text_def environment_text_def lit_def)
    then have "\<forall>c \<in> set t. c < 128" using dumps_chars [OF t] by fastforce
    moreover from this have "utf8 t = Some t" by (rule utf8_ascii)
    moreover from calculation have "\<forall>c \<in> set (indented 0 (envelope_json [1] [2] (rev t))). c < 127"
      using indented_ascii [OF envelope_like_envelope [of "[1]" "[2]" "rev t"]] by (fastforce simp: byte_list_def list_all_iff)
    then have "utf8 (indented 0 (envelope_json [1] [2] (rev t))) = Some (indented 0 (envelope_json [1] [2] (rev t)))"
      by (intro utf8_ascii) force
    ultimately show ?thesis using t by (simp add: store_bytes_def sample_store_library_def)
  qed
  have "ps = [(lit ''shop'', sample_profile)]"
  proof -
    obtain bs where bs: "store_bytes ?lib [7] [1] [2] [(lit ''shop'', sample_profile)] = Inr bs" using total by blast
    obtain bs' where bs': "store_bytes ?lib [7] [1] [2] [] = Inr bs'" using total by blast
    let ?fo1 = "\<lparr>fo_store = Some (bs, PRIVATE_MODE), fo_temp = None\<rparr>"
    have "saved_bytes ?lib [7] [1] [2] sample_profile Absent = Inr bs"
      using bs by (simp add: saved_bytes_def read_store_def) (simp add: sample_profile_def)
    then have c1: "call_store ?lib [7] ?save ?fo = (Inr (), ?fo1)"
      by (simp add: call_store_def sample_call_def save_in_folder_def disk_of_def atomic_write_def write_stages_def Let_def)
    have "proper_profiles [(lit ''shop'', sample_profile)]"
      by (auto simp: proper_profiles_def profiles_to_json_def profile_to_json_def sample_profile_def opt_text_def
          environment_text_def lit_def)
    then have "read_store ?lib [7] (Content bs) = Inr [(lit ''shop'', sample_profile)]"
      by (intro store_bytes_back [OF law _ _ _ bs]) (simp_all add: byte_list_def)
    then have "fst (call_store ?lib [7] ?del ?fo1) = Inl OSError"
      using bs' by (simp add: call_store_def sample_call_def delete_in_folder_def disk_of_def dict_del_def atomic_write_def Let_def)
    then obtain fo2 where c2: "call_store ?lib [7] ?del ?fo1 = (Inl OSError, fo2)"
      by (cases "call_store ?lib [7] ?del ?fo1") auto
    from h c1 c2 show ?thesis by (simp add: apply_op_def) (simp add: sample_call_def sample_profile_def)
  qed
  moreover have "read_store ?lib [7] (disk_of (fo_store fo)) = Inr ps"
    by (rule store_history_reads_back [OF law proper _ h]) simp
  ultimately show ?thesis using h by blast
qed

end
