(* ===== verification/DevCert.thy ===== *)
theory DevCert
  imports Keys
begin

text \<open>
  \<open>tools/gen_dev_cert.py\<close>: a self-signed certificate with its key for development.

  Generating a key, signing a certificate and writing both as PEM are the \<open>cryptography\<close> package's and
  parameters. An instant is a number of seconds, a path a text, a mode the permission bits of a file.
  An error of the file system ends the script and is not modelled.
\<close>

section \<open>Writing a private file\<close>

text \<open>The permission bits a new file gets from the wanted ones under the umask of the process.\<close>

definition masked :: "nat \<Rightarrow> nat \<Rightarrow> nat" where
  "masked umask mode = and mode (xor (umask mod 512) 0x1FF)"

definition OWNER_ONLY :: nat where "OWNER_ONLY = 0x180"

text \<open>Group or others may read: the bits \<open>0o40\<close> and \<open>0o4\<close>.\<close>

definition readable_by_others :: "nat \<Rightarrow> bool" where
  "readable_by_others mode \<longleftrightarrow> and mode 0x20 \<noteq> 0 \<or> and mode 0x4 \<noteq> 0"

definition regular_file :: "nat list \<Rightarrow> nat \<Rightarrow> disk_file" where
  "regular_file data mode = \<lparr>f_bytes = Some data, f_regular = True, f_mode = mode\<rparr>"

text \<open>
  \<open>_write_private\<close> as the states of the file one after the other: opened (and created or truncated),
  written, and its mode set. An existing file keeps its mode until the last step.
\<close>

definition write_private :: "nat \<Rightarrow> nat list \<Rightarrow> disk_file option \<Rightarrow> disk_file list" where
  "write_private umask data before =
     (let mode = (case before of None \<Rightarrow> masked umask OWNER_ONLY | Some f \<Rightarrow> f_mode f)
      in [regular_file [] mode, regular_file data mode, regular_file data OWNER_ONLY])"

text \<open>\<open>Path.write_bytes\<close>\<close>

definition write_plain :: "nat \<Rightarrow> nat list \<Rightarrow> disk_file option \<Rightarrow> disk_file" where
  "write_plain umask data before =
     regular_file data (case before of None \<Rightarrow> masked umask 0x1B6 | Some f \<Rightarrow> f_mode f)"

section \<open>The certificate\<close>

record cert_plan =
  cp_subject :: "(string \<times> pystr) list"
  cp_issuer :: "(string \<times> pystr) list"
  cp_from :: int
  cp_until :: int
  cp_ca :: bool
  cp_usages :: "string list"

record ('cert, 'key) dev_library =
  dl_certificate :: "'key \<Rightarrow> cert_plan \<Rightarrow> 'cert"
  dl_key_pem :: "'key \<Rightarrow> nat list"
  dl_cert_pem :: "'cert \<Rightarrow> nat list"
  dl_public_pem :: "'key \<Rightarrow> nat list"

definition dev_plan :: "pystr \<Rightarrow> pystr \<Rightarrow> pystr \<Rightarrow> int \<Rightarrow> int \<Rightarrow> cert_plan" where
  "dev_plan national_id common_name org days now =
     (let subject = [(''commonName'', common_name), (''organizationName'', org), (''countryName'', lit ''IR''),
                     (''serialNumber'', national_id)]
      in \<lparr>cp_subject = subject, cp_issuer = subject, cp_from = now - 5 * 60, cp_until = now + days * 86400,
          cp_ca = False, cp_usages = [''digital_signature'', ''content_commitment'']\<rparr>)"

definition KEY_FILE :: pystr where "KEY_FILE = lit ''privatekey.pem''"
definition CERTIFICATE_FILE :: pystr where "CERTIFICATE_FILE = lit ''certificate.crt''"
definition PUBLIC_FILE :: pystr where "PUBLIC_FILE = lit ''publickey.pem''"

text \<open>\<open>out_dir / name\<close>\<close>

definition in_dir :: "pystr \<Rightarrow> pystr \<Rightarrow> pystr" where
  "in_dir dir name = dir @ [47] @ name"

text \<open>\<open>generate\<close>, with the key it drew: the files afterwards and the paths it returns.\<close>

definition generate ::
    "('cert, 'key) dev_library \<Rightarrow> nat \<Rightarrow> 'key \<Rightarrow> int \<Rightarrow> pystr \<Rightarrow> pystr \<Rightarrow> pystr \<Rightarrow> pystr \<Rightarrow> int \<Rightarrow> file_system \<Rightarrow>
     (pystr \<times> pystr \<times> pystr) \<times> file_system" where
  "generate lib umask key now dir national_id common_name org days fs =
     (let cert = dl_certificate lib key (dev_plan national_id common_name org days now);
          key_path = in_dir dir KEY_FILE; cert_path = in_dir dir CERTIFICATE_FILE; pub_path = in_dir dir PUBLIC_FILE;
          fs1 = fs(key_path \<mapsto> last (write_private umask (dl_key_pem lib key) (fs key_path)));
          fs2 = fs1(cert_path \<mapsto> write_plain umask (dl_cert_pem lib cert) (fs1 cert_path));
          fs3 = fs2(pub_path \<mapsto> write_plain umask (dl_public_pem lib key) (fs2 pub_path))
      in ((key_path, cert_path, pub_path), fs3))"

definition gen_dev_cert_main ::
    "('cert, 'key) dev_library \<Rightarrow> nat \<Rightarrow> 'key \<Rightarrow> int \<Rightarrow> pystr list \<Rightarrow> file_system \<Rightarrow>
     (pystr \<times> pystr \<times> pystr) \<times> file_system" where
  "gen_dev_cert_main lib umask key now args fs =
     generate lib umask key now (case args of [] \<Rightarrow> lit ''dev-certs'' | dir # _ \<Rightarrow> dir) (lit ''14003778990'')
       (lit ''Moadian Dev'') (lit ''Moadian Framework Development'') 825 fs"

section \<open>The key is never exposed\<close>

lemma and_swap: "and (and a x) b = and (and a b) (x :: nat)"
  by (simp add: ac_simps)

lemma masked_owner [simp]: "\<not> readable_by_others (masked umask OWNER_ONLY)" "\<not> readable_by_others OWNER_ONLY"
  by (simp_all add: readable_by_others_def masked_def OWNER_ONLY_def and_swap [of _ _ "0x20"] and_swap [of _ _ "4"]
      and_swap [of _ _ "Suc (Suc (Suc (Suc 0)))"])

text \<open>
  A private key written where no file was is readable by its owner alone at every moment. Over an
  existing file with loose permissions it is not: the key is in the file before its mode is set.
\<close>

theorem private_key_exposure:
  "list_all (\<lambda>f. readable_by_others (f_mode f) \<longrightarrow> before \<noteq> None) (write_private umask data before) \<and>
   \<not> readable_by_others (f_mode (last (write_private umask data before))) \<and>
   (case before of None \<Rightarrow> True
    | Some f \<Rightarrow> list_ex (\<lambda>g. f_bytes g = Some data \<and> readable_by_others (f_mode g)) (write_private umask data before) \<longleftrightarrow>
        readable_by_others (f_mode f))"
  by (cases before) (auto simp: write_private_def regular_file_def Let_def)

section \<open>The pair is usable\<close>

text \<open>
  What the \<open>cryptography\<close> package documents: what it writes as PEM it reads back, the certificate
  carries the public half of the key and the window it was given.
\<close>

definition dev_law :: "('cert, 'key) dev_library \<Rightarrow> ('cert, 'key) key_library \<Rightarrow> 'key \<Rightarrow> bool" where
  "dev_law lib ks key \<longleftrightarrow> load_pem_key ks (dl_key_pem lib key) None = RsaPrivate key \<and>
     (\<forall>c. contains BEGIN_MARK (dl_cert_pem lib c) \<and> load_pem_cert ks (dl_cert_pem lib c) = Some c) \<and>
     (\<forall>plan. let c = dl_certificate lib key plan in
        public_half_of ks c = RsaNumbers (fst (key_numbers ks key)) (snd (key_numbers ks key)) \<and>
        valid_from ks c = cp_from plan \<and> valid_until ks c = cp_until plan)"

lemma in_dir_inject [simp]: "in_dir d a = in_dir d b \<longleftrightarrow> a = b"
  by (simp add: in_dir_def)

lemma file_names [simp]:
  "KEY_FILE \<noteq> CERTIFICATE_FILE" "KEY_FILE \<noteq> PUBLIC_FILE" "CERTIFICATE_FILE \<noteq> PUBLIC_FILE"
  "CERTIFICATE_FILE \<noteq> KEY_FILE" "PUBLIC_FILE \<noteq> KEY_FILE" "PUBLIC_FILE \<noteq> CERTIFICATE_FILE"
  by (simp_all add: KEY_FILE_def CERTIFICATE_FILE_def PUBLIC_FILE_def)

text \<open>
  C31. The generated pair loads from the files that were written and passes the checks of the application
  exactly from five minutes before it was made until its last day.
\<close>

theorem generated_pair_usable:
  assumes "dev_law lib ks key"
    and "generate lib umask key now dir national_id common_name org days fs = ((key_path, cert_path, pub_path), fs')"
  shows "\<exists>cr. from_files ks fs' cert_path key_path None = Inr cr \<and> sc_private_key cr = key \<and>
    (assert_usable ks t cr = Inr () \<longleftrightarrow> now - 300 \<le> t \<and> t \<le> now + days * 86400) \<and>
    \<not> readable_by_others (f_mode (the (fs' key_path)))"
proof -
  let ?cert = "dl_certificate lib key (dev_plan national_id common_name org days now)"
  let ?cr = "\<lparr>sc_certificate = ?cert, sc_private_key = key\<rparr>"
  have paths: "key_path = in_dir dir KEY_FILE" "cert_path = in_dir dir CERTIFICATE_FILE"
    and fs': "fs' key_path = Some (regular_file (dl_key_pem lib key) OWNER_ONLY)"
      "\<exists>mode. fs' cert_path = Some (regular_file (dl_cert_pem lib ?cert) mode)"
    using assms(2) by (auto simp: generate_def Let_def write_private_def write_plain_def)
  from fs' have rd: "read_bytes fs' key_path = Some (dl_key_pem lib key)"
      "read_bytes fs' cert_path = Some (dl_cert_pem lib ?cert)"
    by (auto simp: read_bytes_def regular_file_def)
  have cert: "load_certificate ks (dl_cert_pem lib ?cert) = Inr ?cert"
    using assms(1) by (simp add: load_certificate_def dev_law_def)
  have key: "load_private_key ks (dl_key_pem lib key) None = Inr key"
    using assms(1) by (simp add: load_private_key_def dev_law_def)
  have "from_files ks fs' cert_path key_path None = Inr ?cr"
    by (simp add: from_files_def rd from_pem_def cert key)
  moreover have "assert_usable ks t ?cr = Inr () \<longleftrightarrow> now - 300 \<le> t \<and> t \<le> now + days * 86400"
    using assms(1) by (auto simp: assert_usable_def dev_law_def dev_plan_def Let_def)
  moreover have "\<not> readable_by_others (f_mode (the (fs' key_path)))" by (simp add: fs'(1) regular_file_def)
  ultimately show ?thesis by (intro exI [of _ ?cr]) simp
qed

text \<open>A certificate that is the list of its window, and a key that is its modulus.\<close>

definition sign_and_size :: "int \<Rightarrow> nat list" where
  "sign_and_size z = [if z < 0 then 1 else 0, nat \<bar>z\<bar>]"

definition signed :: "nat \<Rightarrow> nat \<Rightarrow> int" where
  "signed s n = (if s = 1 then - int n else int n)"

definition sample_dev_library :: "(nat list, nat) dev_library" where
  "sample_dev_library = \<lparr>dl_certificate = (\<lambda>k plan. sign_and_size (cp_from plan) @ sign_and_size (cp_until plan) @ [k]),
     dl_key_pem = (\<lambda>k. [k]), dl_cert_pem = (\<lambda>c. BEGIN_MARK @ c), dl_public_pem = (\<lambda>k. [])\<rparr>"

definition sample_dev_keys :: "(nat list, nat) key_library" where
  "sample_dev_keys = \<lparr>load_pem_cert = (\<lambda>d. Some (drop (length BEGIN_MARK) d)), load_der_cert = (\<lambda>d. None),
     load_pem_key = (\<lambda>d pw. RsaPrivate (hd d)), public_half_of = (\<lambda>c. RsaNumbers (int (c ! 4)) 65537),
     key_numbers = (\<lambda>k. (int k, 65537)), valid_from = (\<lambda>c. signed (c ! 0) (c ! 1)),
     valid_until = (\<lambda>c. signed (c ! 2) (c ! 3)), der_of = id, sign_with = (\<lambda>_ _. None)\<rparr>"

theorem generated_pair_usable_witness:
  "case gen_dev_cert_main sample_dev_library 0x12 7 1000 [] (\<lambda>_. None) of
     ((key_path, cert_path, pub_path), fs) \<Rightarrow>
       \<exists>cr. from_files sample_dev_keys fs cert_path key_path None = Inr cr \<and> assert_usable sample_dev_keys 2000 cr = Inr ()"
proof -
  have "contains BEGIN_MARK (BEGIN_MARK @ x)" for x
    by (simp add: BEGIN_MARK_def lit_def)
  then have law: "dev_law sample_dev_library sample_dev_keys 7"
    by (simp add: dev_law_def sample_dev_library_def sample_dev_keys_def sign_and_size_def signed_def Let_def)
  obtain key_path cert_path pub_path fs where
    g: "gen_dev_cert_main sample_dev_library 0x12 7 1000 [] (\<lambda>_. None) = ((key_path, cert_path, pub_path), fs)"
    by (metis prod.collapse)
  from generated_pair_usable [OF law g [unfolded gen_dev_cert_main_def], of 2000] g show ?thesis by auto
qed

end
