(* ===== verification/Panel.thy ===== *)
theory Panel
  imports Desk Accounts
begin

text \<open>
  What the admin panel shows of the signing material: the JSON of \<open>MaterialStatus.as_dict\<close>,
  \<open>SigningMaterial.describe\<close>, \<open>SigningMaterial.verify\<close> and \<open>Profile.redacted\<close>, and that nothing
  of it depends on the bytes of a private key beyond whether it is the one of the certificate.

  What the \<open>cryptography\<close> package reads off a certificate and SHA-256 are parameters. The Persian
  message of a report and the text of an error that stops a redaction are not rendered.
\<close>

section \<open>Status of a file\<close>

definition nullable :: "('a \<Rightarrow> json) \<Rightarrow> 'a option \<Rightarrow> json" where
  "nullable f v = (case v of None \<Rightarrow> JNull | Some x \<Rightarrow> f x)"

text \<open>\<open>format(mode, "04o")\<close>\<close>

definition octal_mode :: "nat \<Rightarrow> pystr" where
  "octal_mode mode = render 8 dec_char 4 mode"

definition status_problem :: "material_status \<Rightarrow> pystr option" where
  "status_problem s =
     (if \<not> ms_error s then None
      else if \<not> ms_exists s then Some (lit ''file not found'')
      else Some (lit ''readable by group or other; chmod 600 it''))"

definition status_json :: "material_status \<Rightarrow> json" where
  "status_json s = JObj
     [(lit ''configured'', JBool (ms_configured s)), (lit ''path'', opt_text (ms_path s)),
      (lit ''exists'', JBool (ms_exists s)), (lit ''mode'', nullable (JStr \<circ> octal_mode) (ms_mode s)),
      (lit ''worldReadable'', JBool (ms_world_readable s)), (lit ''error'', opt_text (status_problem s))]"

definition describe_material :: "file_system \<Rightarrow> pystr option \<Rightarrow> signing_material \<Rightarrow> json" where
  "describe_material fs password m = JObj
     [(lit ''environment'', JStr (environment_text (sm_environment m))),
      (lit ''certificate'', status_json (status_of fs False (sm_certificate_path m))),
      (lit ''privateKey'', status_json (status_of fs True (sm_private_key_path m))),
      (lit ''keyPassphraseSet'', JBool (password \<noteq> None))]"

section \<open>Summary of a certificate\<close>

record 'cert cert_reader =
  cv_subject :: "'cert \<Rightarrow> pystr"
  cv_issuer :: "'cert \<Rightarrow> pystr"
  cv_serial :: "'cert \<Rightarrow> nat"
  cv_not_before :: "'cert \<Rightarrow> pystr"
  cv_not_after :: "'cert \<Rightarrow> pystr"
  cv_national_ids :: "'cert \<Rightarrow> pystr list"
  cv_key_size :: "'cert \<Rightarrow> int"
  cv_public_der :: "'cert \<Rightarrow> bytes"
  cv_sha256 :: "bytes \<Rightarrow> bytes"

definition first_of :: "pystr list \<Rightarrow> pystr option" where
  "first_of xs = (case xs of [] \<Rightarrow> None | x # _ \<Rightarrow> Some x)"

text \<open>\<open>format(serial, "x")\<close>\<close>

definition serial_text :: "nat \<Rightarrow> pystr" where
  "serial_text n = map hex_lower (digits_of 16 n)"

definition fingerprint :: "bytes \<Rightarrow> pystr" where
  "fingerprint digest = joined 58 (chunks 4 (take 32 (bytes_hex digest)))"

definition certificate_summary :: "'cert cert_reader \<Rightarrow> 'cert \<Rightarrow> json" where
  "certificate_summary cv c = JObj
     [(lit ''subject'', JStr (cv_subject cv c)), (lit ''issuer'', JStr (cv_issuer cv c)),
      (lit ''serialNumber'', JStr (serial_text (cv_serial cv c))),
      (lit ''notBefore'', JStr (cv_not_before cv c)), (lit ''notAfter'', JStr (cv_not_after cv c)),
      (lit ''nationalId'', opt_text (first_of (cv_national_ids cv c))), (lit ''keySize'', JInt (cv_key_size cv c)),
      (lit ''publicKeyFingerprint'', JStr (fingerprint (cv_sha256 cv (cv_public_der cv c))))]"

text \<open>The report of \<open>verify\<close> without its message.\<close>

definition report_json :: "'cert cert_reader \<Rightarrow> pystr option \<Rightarrow> signing_material \<Rightarrow> 'cert material_report \<Rightarrow> json" where
  "report_json cv password m r = JObj
     [(lit ''environment'', JStr (environment_text (sm_environment m))),
      (lit ''environmentLabel'', JStr (environment_label (sm_environment m))),
      (lit ''certificatePath'', opt_text (sm_certificate_path m)),
      (lit ''privateKeyPath'', opt_text (sm_private_key_path m)),
      (lit ''keyPassphraseSet'', JBool (password \<noteq> None)), (lit ''ok'', JBool (mr_ok r)),
      (lit ''matches'', nullable JBool (mr_matches r)),
      (lit ''certificate'', nullable (certificate_summary cv) (mr_certificate r))]"

text \<open>\<open>Profile.redacted\<close>, without the text of a certificate error.\<close>

definition redacted_json :: "'cert cert_reader \<Rightarrow> 'cert redacted_profile \<Rightarrow> json" where
  "redacted_json cv rp = JObj
     [(lit ''name'', JStr (rp_name rp)), (lit ''memory_id'', JStr (rp_memory_id rp)),
      (lit ''environment'', JStr (environment_text (rp_environment rp))),
      (lit ''environment_label'', JStr (rp_environment_label rp)),
      (lit ''is_production'', JBool (rp_is_production rp)), (lit ''base_url'', JStr (rp_base_url rp)),
      (lit ''economic_code'', opt_text (rp_economic_code rp)),
      (lit ''certificate'', nullable (\<lambda>c. JObj
         [(lit ''subject'', JStr (cv_subject cv c)), (lit ''serial_number'', JStr (serial_text (cv_serial cv c))),
          (lit ''not_before'', JStr (cv_not_before cv c)), (lit ''not_after'', JStr (cv_not_after cv c)),
          (lit ''national_id'', opt_text (first_of (cv_national_ids cv c)))]) (rp_certificate rp))]"

section \<open>The replies\<close>

definition signing_material_shown :: "file_system \<Rightarrow> pystr option \<Rightarrow> settings \<Rightarrow> json" where
  "signing_material_shown fs password st =
     JList (map (\<lambda>e. describe_material fs password (signing_material_of st e)) ENVIRONMENTS)"

definition verification_shown ::
    "('cert, 'key) key_library \<Rightarrow> 'cert cert_reader \<Rightarrow> file_system \<Rightarrow> pystr option \<Rightarrow> int \<Rightarrow> settings \<Rightarrow>
     json list option" where
  "verification_shown ks cv fs password now st =
     map_option (map2 (\<lambda>e. report_json cv password (signing_material_of st e)) ENVIRONMENTS)
       (verify_signing_material ks fs password now st)"

section \<open>The bytes of a key are not shown\<close>

text \<open>Two disks that differ in the bytes of one file only.\<close>

definition rewritten :: "pystr \<Rightarrow> file_system \<Rightarrow> file_system \<Rightarrow> bool" where
  "rewritten p fs fs' \<longleftrightarrow> (\<forall>q. q \<noteq> p \<longrightarrow> fs' q = fs q) \<and>
     (case (fs p, fs' p) of
        (None, None) \<Rightarrow> True
      | (Some f, Some g) \<Rightarrow> f_regular f = f_regular g \<and> f_mode f = f_mode g
      | _ \<Rightarrow> False)"

lemma rewritten_reads: "rewritten p fs fs' \<Longrightarrow> q \<noteq> p \<Longrightarrow> read_bytes fs' q = read_bytes fs q"
  by (simp add: rewritten_def read_bytes_def)

lemma rewritten_is_file: "rewritten p fs fs' \<Longrightarrow> is_file fs' q = is_file fs q"
  by (cases "q = p") (auto simp: rewritten_def is_file_def split: option.splits)

lemma rewritten_status: "rewritten p fs fs' \<Longrightarrow> status_of fs' b q = status_of fs b q"
  by (cases "q = Some p") (auto simp: rewritten_def status_of_def Let_def split: option.splits)

lemma rewritten_require:
  assumes "rewritten p fs fs'"
  shows "require_paths fs' m = require_paths fs m" "require_material fs' m = require_material fs m"
proof -
  show "require_paths fs' m = require_paths fs m"
    by (simp add: require_paths_def rewritten_is_file [OF assms] split: option.splits)
  then show "require_material fs' m = require_material fs m" by (simp add: require_material_def)
qed

definition certificate_paths :: "settings \<Rightarrow> pystr option list" where
  "certificate_paths st = map (\<lambda>e. sm_certificate_path (signing_material_of st e)) ENVIRONMENTS"

lemma certificate_path_listed: "sm_certificate_path (signing_material_of st e) \<in> set (certificate_paths st)"
  by (cases e) (simp_all add: certificate_paths_def ENVIRONMENTS_def)

lemma require_material_certificate: "require_material fs m = Inr (c, k) \<Longrightarrow> sm_certificate_path m = Some c"
  by (auto simp: require_material_def require_paths_def split: sum.splits option.splits if_splits)

lemma rewritten_redacted:
  assumes "rewritten p fs fs'" "Some p \<notin> set (certificate_paths st)"
  shows "redacted ks fs' st pr = redacted ks fs st pr"
proof -
  let ?m = "signing_material_of st (prof_environment pr)"
  have "c \<noteq> p" if "require_material fs ?m = Inr (c, k)" for c k
    using require_material_certificate [OF that] certificate_path_listed [of st "prof_environment pr"] assms(2) by auto
  then have "profile_certificate ks fs' st pr = profile_certificate ks fs st pr"
    using rewritten_reads [OF assms(1)]
    by (auto simp: profile_certificate_def rewritten_require [OF assms(1)] bindE_def split: sum.splits)
  then show ?thesis by (simp add: redacted_def)
qed

text \<open>What the check of a pair reads off the bytes of the key: its public numbers, if there is a key.\<close>

definition numbers_in :: "('cert, 'key) key_library \<Rightarrow> pystr option \<Rightarrow> nat list option \<Rightarrow> (int \<times> int) option" where
  "numbers_in ks password data =
     Option.bind data (\<lambda>d. case load_private_key ks d password of Inl _ \<Rightarrow> None | Inr k \<Rightarrow> Some (key_numbers ks k))"

lemma rewritten_verify:
  assumes "rewritten p fs fs'" "Some p \<notin> set (certificate_paths st)" "m = signing_material_of st e"
  shows "map_option mr_certificate (verify_material ks fs' password now m) =
      map_option mr_certificate (verify_material ks fs password now m) \<and>
    (numbers_in ks password (read_bytes fs' p) = numbers_in ks password (read_bytes fs p) \<longrightarrow>
      verify_material ks fs' password now m = verify_material ks fs password now m)"
proof (cases "require_paths fs m")
  case (Inl x)
  then show ?thesis by (simp add: verify_material_def rewritten_require [OF assms(1)])
next
  case (Inr x)
  obtain c k where x: "x = (c, k)" by (cases x)
  have "sm_certificate_path m = Some c"
    using Inr x by (auto simp: require_paths_def split: option.splits if_splits)
  then have "c \<noteq> p" using certificate_path_listed [of st e] assms(2,3) by auto
  with assms(1) have c: "read_bytes fs' c = read_bytes fs c" by (rule rewritten_reads)
  have k: "read_bytes fs' k = read_bytes fs k" if "k \<noteq> p" using rewritten_reads [OF assms(1) that] .
  show ?thesis
    using k by (cases "k = p")
      (auto simp: verify_material_def rewritten_require [OF assms(1)] Inr x c numbers_in_def keys_match_def Let_def
        split: option.splits sum.splits public_half.splits if_splits bind_splits)
qed

text \<open>A report without the two fields that say whether the pair fits.\<close>

definition without_verdict :: "json \<Rightarrow> json" where
  "without_verdict v = (case v of JObj kvs \<Rightarrow> JObj (filter (\<lambda>kv. fst kv \<notin> {lit ''ok'', lit ''matches''}) kvs) | _ \<Rightarrow> v)"

lemma without_verdict_report:
  "mr_certificate r = mr_certificate r' \<Longrightarrow>
     without_verdict (report_json cv password m r) = without_verdict (report_json cv password m r')"
  by (simp add: without_verdict_def report_json_def)


section \<open>Fingerprints\<close>

lemma hex_lower_no_colon: "n < 16 \<Longrightarrow> hex_lower n \<noteq> 58"
  by (auto simp: hex_lower_def)

lemma length_bytes_hex: "length (bytes_hex bs) = 2 * length bs"
  by (induction bs) (simp_all add: bytes_hex_def)

lemma take_bytes_hex: "take (2 * n) (bytes_hex bs) = bytes_hex (take n bs)"
proof (induction bs arbitrary: n)
  case (Cons b bs)
  then show ?case by (cases n) (simp_all add: bytes_hex_def)
qed (simp add: bytes_hex_def)

lemma bytes_hex_no_colon: "\<forall>b \<in> set bs. b < 256 \<Longrightarrow> 58 \<notin> set (bytes_hex bs)"
  by (induction bs) (auto simp: bytes_hex_def hex_lower_no_colon less_mult_imp_div_less dest: not_sym)

lemma filter_joined: "filter (\<lambda>c. c \<noteq> s) (joined s xss) = filter (\<lambda>c. c \<noteq> s) (concat xss)"
  by (induction s xss rule: joined.induct) simp_all

text \<open>Without its colons a fingerprint is the first 16 bytes of the digest in hex, and eight groups long.\<close>

lemma fingerprint_shape:
  assumes "\<forall>b \<in> set digest. b < 256" "length digest = 32"
  shows "filter (\<lambda>c. c \<noteq> 58) (fingerprint digest) = bytes_hex (take 16 digest)"
proof -
  have "58 \<notin> set (bytes_hex (take 16 digest))"
    using assms(1) by (intro bytes_hex_no_colon) (auto dest: in_set_takeD)
  then have "filter (\<lambda>c. c \<noteq> 58) (bytes_hex (take 16 digest)) = bytes_hex (take 16 digest)"
    by (intro filter_True) auto
  then show ?thesis using take_bytes_hex [of 16 digest] by (simp add: fingerprint_def filter_joined concat_chunks)
qed

section \<open>A concrete pair\<close>

definition sample_pair_keys :: "(nat list, nat) key_library" where
  "sample_pair_keys = \<lparr>load_pem_cert = (\<lambda>_. None), load_der_cert = Some, load_pem_key = (\<lambda>d pw. RsaPrivate (hd d)),
     public_half_of = (\<lambda>c. RsaNumbers (int (hd c)) 3), key_numbers = (\<lambda>k. (int k, 3)),
     valid_from = (\<lambda>_. 0), valid_until = (\<lambda>_. 9), der_of = id, sign_with = (\<lambda>_ _. None)\<rparr>"

definition disk_with_key :: "nat \<Rightarrow> file_system" where
  "disk_with_key k = [[99] \<mapsto> \<lparr>f_bytes = Some [7], f_regular = True, f_mode = 0x1A4\<rparr>,
     [107] \<mapsto> \<lparr>f_bytes = Some [k], f_regular = True, f_mode = 0x180\<rparr>]"

lemma octal_0600: "octal_mode 0x180 = lit ''0600''"
  by (simp add: octal_mode_def render_def digits_of.simps dec_char_def lit_def)


end
