(* ===== verification/Locking.thy ===== *)
theory Locking
  imports Counter
begin

text \<open>
  The locks of \<open>MonotonicSerialCounter\<close>: threads of several processes draw from one counter file, each
  through a counter object of its process, while \<open>tools/serial.py\<close> may repair it.

  A call takes the thread lock of its object and then the advisory lock of the sidecar file, which a
  platform without \<open>fcntl\<close> leaves out, reads the file, writes it, and gives both locks back in the
  other order. One action is one such moment of one thread; a run is any sequence of them, with
  processes that are killed at any moment. The rename that ends a write is one moment, so the outcomes
  of \<open>Counter.write_counter\<close> are all a reader can see.

  Without a repair in progress every run issues the serials of a sequence of atomic calls, as
  \<open>Counter\<close> takes for granted; no run blocks itself. The repair tool holds no lock when it writes and
  can reissue serials; so can two processes without \<open>fcntl\<close>.
\<close>

section \<open>Threads and locks\<close>

datatype job = NextSerial | ReadCurrent | Repair int bool

text \<open>
  Where a thread is: outside; waiting for the thread lock; behind it; behind both locks; with the serial
  it is going to write; with a result and both locks; with the thread lock left. The repair tool then
  still has its value to write, under no lock, over the value it read. A run of the tool that writes
  nothing is a \<open>ReadCurrent\<close>.
\<close>

datatype phase =
    Outside
  | Waiting job
  | Owner job
  | Inside job
  | Ready int
  | Leaving job "int result"
  | Left job "int result"
  | Repairing int bool int

text \<open>
  A deployment: whether the platform has \<open>fcntl\<close>, whether the repair tool may be run, and the counter
  object and the process of each thread.
\<close>

record deployment =
  dp_flock :: bool
  dp_repairs :: bool
  dp_object :: "nat \<Rightarrow> nat"
  dp_process :: "nat \<Rightarrow> nat"

record system =
  sy_file :: counter_file
  sy_flock :: "nat option"
  sy_mutex :: "nat \<Rightarrow> nat option"
  sy_phase :: "nat \<Rightarrow> phase"
  sy_issued :: "int list"
  sy_returned :: "int list"

definition at_rest :: "counter_file \<Rightarrow> system" where
  "at_rest f = \<lparr>sy_file = f, sy_flock = None, sy_mutex = (\<lambda>_. None), sy_phase = (\<lambda>_. Outside),
     sy_issued = [], sy_returned = []\<rparr>"

section \<open>Actions\<close>

datatype action =
    Call nat job
  | Enter nat
  | Lock nat
  | Read nat
  | Write nat write_outcome
  | Unlock nat
  | Return nat
  | RepairWrite nat write_outcome
  | Kill nat

definition go :: "nat \<Rightarrow> phase \<Rightarrow> system \<Rightarrow> system" where
  "go t ph s = s\<lparr>sy_phase := (sy_phase s)(t := ph)\<rparr>"

text \<open>\<open>_read() + 1\<close> with the check of the limit, or the value itself.\<close>

definition after_read :: "job \<Rightarrow> int result \<Rightarrow> phase" where
  "after_read j r =
     (case j of
        NextSerial \<Rightarrow>
          (case r of
             Inl e \<Rightarrow> Leaving j (Inl e)
           | Inr v \<Rightarrow> if max_serial < v + 1 then Leaving j (Inl ConfigurationError) else Ready (v + 1))
      | _ \<Rightarrow> Leaving j r)"

text \<open>After the locks are back: the tool goes on with what it read, and ends on an error.\<close>

definition after_return :: "job \<Rightarrow> int result \<Rightarrow> phase" where
  "after_return j r =
     (case (j, r) of (Repair target force, Inr current) \<Rightarrow> Repairing target force current | _ \<Rightarrow> Outside)"

definition answered :: "job \<Rightarrow> int result \<Rightarrow> int list" where
  "answered j r = (case (j, r) of (NextSerial, Inr n) \<Rightarrow> [n] | _ \<Rightarrow> [])"

definition is_repair :: "job \<Rightarrow> bool" where
  "is_repair j = (case j of Repair _ _ \<Rightarrow> True | _ \<Rightarrow> False)"

text \<open>One action; nothing when the thread is not there or the lock is taken.\<close>

fun act :: "deployment \<Rightarrow> action \<Rightarrow> system \<Rightarrow> system option" where
  "act dp (Call t j) s =
     (if sy_phase s t = Outside \<and> (is_repair j \<longrightarrow> dp_repairs dp) then Some (go t (Waiting j) s) else None)"
| "act dp (Enter t) s =
     (case sy_phase s t of
        Waiting j \<Rightarrow>
          if sy_mutex s (dp_object dp t) \<noteq> None then None
          else Some (go t (Owner j) (s\<lparr>sy_mutex := (sy_mutex s)(dp_object dp t := Some t)\<rparr>))
      | _ \<Rightarrow> None)"
| "act dp (Lock t) s =
     (case sy_phase s t of
        Owner j \<Rightarrow>
          if \<not> dp_flock dp then Some (go t (Inside j) s)
          else if sy_flock s \<noteq> None then None
          else Some (go t (Inside j) (s\<lparr>sy_flock := Some t\<rparr>))
      | _ \<Rightarrow> None)"
| "act dp (Read t) s =
     (case sy_phase s t of
        Inside j \<Rightarrow> Some (go t (after_read j (read_counter (sy_file s))) s)
      | _ \<Rightarrow> None)"
| "act dp (Write t w) s =
     (case sy_phase s t of
        Ready n \<Rightarrow>
          (case write_counter w n (sy_file s) of
             (Inl e, f) \<Rightarrow> Some (go t (Leaving NextSerial (Inl e)) (s\<lparr>sy_file := f\<rparr>))
           | (Inr _, f) \<Rightarrow>
               Some (go t (Leaving NextSerial (Inr n)) (s\<lparr>sy_file := f, sy_issued := sy_issued s @ [n]\<rparr>)))
      | _ \<Rightarrow> None)"
| "act dp (Unlock t) s =
     (case sy_phase s t of
        Leaving j r \<Rightarrow> Some (go t (Left j r) (if dp_flock dp then s\<lparr>sy_flock := None\<rparr> else s))
      | _ \<Rightarrow> None)"
| "act dp (Return t) s =
     (case sy_phase s t of
        Left j r \<Rightarrow>
          Some (go t (after_return j r)
            (s\<lparr>sy_mutex := (sy_mutex s)(dp_object dp t := None), sy_returned := sy_returned s @ answered j r\<rparr>))
      | _ \<Rightarrow> None)"
| "act dp (RepairWrite t w) s =
     (case sy_phase s t of
        Repairing target force current \<Rightarrow>
          Some (go t Outside (s\<lparr>sy_file := snd (set_counter w target current force (sy_file s))\<rparr>))
      | _ \<Rightarrow> None)"
| "act dp (Kill p) s =
     Some (s\<lparr>sy_phase := (\<lambda>t. if dp_process dp t = p then Outside else sy_phase s t),
       sy_mutex := (\<lambda>o'. case sy_mutex s o' of
          None \<Rightarrow> None | Some t \<Rightarrow> if dp_process dp t = p then None else Some t),
       sy_flock := (case sy_flock s of None \<Rightarrow> None | Some t \<Rightarrow> if dp_process dp t = p then None else Some t)\<rparr>)"

fun run :: "deployment \<Rightarrow> action list \<Rightarrow> system \<Rightarrow> system option" where
  "run dp [] s = Some s"
| "run dp (a # as) s = Option.bind (act dp a s) (run dp as)"

section \<open>The invariant\<close>

text \<open>The file is protected: by its lock, or because one object serves every thread.\<close>

definition protected :: "deployment \<Rightarrow> bool" where
  "protected dp \<longleftrightarrow> dp_flock dp \<or> (\<forall>t u. dp_object dp t = dp_object dp u)"

fun owns :: "phase \<Rightarrow> bool" where
  "owns (Owner j) = True"
| "owns (Inside j) = True"
| "owns (Ready n) = True"
| "owns (Leaving j r) = True"
| "owns (Left j r) = True"
| "owns _ = False"

fun critical :: "phase \<Rightarrow> bool" where
  "critical (Inside j) = True"
| "critical (Ready n) = True"
| "critical (Leaving j r) = True"
| "critical _ = False"

text \<open>The serial a thread is bringing home.\<close>

fun bringing :: "phase \<Rightarrow> int option" where
  "bringing (Leaving NextSerial (Inr n)) = Some n"
| "bringing (Left NextSerial (Inr n)) = Some n"
| "bringing _ = None"

fun repairs :: "phase \<Rightarrow> bool" where
  "repairs (Waiting j) = is_repair j"
| "repairs (Owner j) = is_repair j"
| "repairs (Inside j) = is_repair j"
| "repairs (Leaving j r) = is_repair j"
| "repairs (Left j r) = is_repair j"
| "repairs (Repairing a b c) = True"
| "repairs _ = False"

text \<open>The locks are held by those who are behind them, and by nobody else.\<close>

definition locks_ok :: "deployment \<Rightarrow> system \<Rightarrow> bool" where
  "locks_ok dp s \<longleftrightarrow>
     (\<forall>t. owns (sy_phase s t) \<longleftrightarrow> sy_mutex s (dp_object dp t) = Some t) \<and>
     (\<forall>ob t. sy_mutex s ob = Some t \<longrightarrow> dp_object dp t = ob) \<and>
     (dp_flock dp \<longrightarrow> (\<forall>t. critical (sy_phase s t) \<longleftrightarrow> sy_flock s = Some t))"

lemma go_simps [simp]:
  "sy_phase (go t ph s) = (sy_phase s)(t := ph)" "sy_file (go t ph s) = sy_file s" "sy_flock (go t ph s) = sy_flock s"
  "sy_mutex (go t ph s) = sy_mutex s" "sy_issued (go t ph s) = sy_issued s" "sy_returned (go t ph s) = sy_returned s"
  by (simp_all add: go_def)

lemma after_read_simps [simp]: "owns (after_read j r)" "critical (after_read j r)" "bringing (after_read j r) = None"
  by (auto simp: after_read_def split: job.splits sum.splits)

lemma after_return_simps [simp]:
  "\<not> owns (after_return j r)" "\<not> critical (after_return j r)" "bringing (after_return j r) = None"
  by (auto simp: after_return_def split: job.splits sum.splits)

text \<open>What an action needs and does.\<close>

lemma actE:
  assumes "act dp a s = Some s'"
  obtains
    (call) t j where "a = Call t j" "sy_phase s t = Outside" "is_repair j \<longrightarrow> dp_repairs dp" "s' = go t (Waiting j) s"
  | (enter) t j where "a = Enter t" "sy_phase s t = Waiting j" "sy_mutex s (dp_object dp t) = None"
      "s' = go t (Owner j) (s\<lparr>sy_mutex := (sy_mutex s)(dp_object dp t := Some t)\<rparr>)"
  | (skip) t j where "a = Lock t" "sy_phase s t = Owner j" "\<not> dp_flock dp" "s' = go t (Inside j) s"
  | (lock) t j where "a = Lock t" "sy_phase s t = Owner j" "dp_flock dp" "sy_flock s = None"
      "s' = go t (Inside j) (s\<lparr>sy_flock := Some t\<rparr>)"
  | (read) t j where "a = Read t" "sy_phase s t = Inside j" "s' = go t (after_read j (read_counter (sy_file s))) s"
  | (failed) t n w e f where "a = Write t w" "sy_phase s t = Ready n" "write_counter w n (sy_file s) = (Inl e, f)"
      "s' = go t (Leaving NextSerial (Inl e)) (s\<lparr>sy_file := f\<rparr>)"
  | (written) t n w f where "a = Write t w" "sy_phase s t = Ready n" "write_counter w n (sy_file s) = (Inr (), f)"
      "s' = go t (Leaving NextSerial (Inr n)) (s\<lparr>sy_file := f, sy_issued := sy_issued s @ [n]\<rparr>)"
  | (unlock) t j r where "a = Unlock t" "sy_phase s t = Leaving j r"
      "s' = go t (Left j r) (if dp_flock dp then s\<lparr>sy_flock := None\<rparr> else s)"
  | (return) t j r where "a = Return t" "sy_phase s t = Left j r"
      "s' = go t (after_return j r)
        (s\<lparr>sy_mutex := (sy_mutex s)(dp_object dp t := None), sy_returned := sy_returned s @ answered j r\<rparr>)"
  | (repair) t w target force current where "a = RepairWrite t w" "sy_phase s t = Repairing target force current"
      "s' = go t Outside (s\<lparr>sy_file := snd (set_counter w target current force (sy_file s))\<rparr>)"
  | (kill) p where "a = Kill p"
      "sy_phase s' = (\<lambda>t. if dp_process dp t = p then Outside else sy_phase s t)"
      "sy_mutex s' = (\<lambda>ob. case sy_mutex s ob of
          None \<Rightarrow> None | Some t \<Rightarrow> if dp_process dp t = p then None else Some t)"
      "sy_flock s' = (case sy_flock s of None \<Rightarrow> None | Some t \<Rightarrow> if dp_process dp t = p then None else Some t)"
      "sy_file s' = sy_file s" "sy_issued s' = sy_issued s" "sy_returned s' = sy_returned s"
proof (cases a)
  case (Write t w)
  with assms failed written show ?thesis
    by (cases "write_counter w (case sy_phase s t of Ready n \<Rightarrow> n) (sy_file s)")
      (auto split: phase.splits sum.splits)
qed (use assms call enter skip lock read unlock return repair kill in \<open>fastforce split: phase.splits if_splits option.splits\<close>)+

lemma locks_okD:
  assumes "locks_ok dp s"
  shows "owns (sy_phase s t) \<longleftrightarrow> sy_mutex s (dp_object dp t) = Some t"
    "sy_mutex s ob = Some t \<Longrightarrow> dp_object dp t = ob"
    "dp_flock dp \<Longrightarrow> critical (sy_phase s t) \<longleftrightarrow> sy_flock s = Some t"
  using assms by (auto simp: locks_ok_def)

lemma locks_ok_same:
  assumes "locks_ok dp s" "sy_mutex s' = sy_mutex s" "sy_flock s' = sy_flock s" "sy_phase s' = (sy_phase s)(t := ph)"
    "owns ph = owns (sy_phase s t)" "dp_flock dp \<Longrightarrow> critical ph = critical (sy_phase s t)"
  shows "locks_ok dp s'"
  using locks_okD [OF assms(1)] assms(2-6) by (simp add: locks_ok_def)

text \<open>A thread that takes or gives back a lock nobody else holds.\<close>

lemma locks_ok_moved:
  assumes "locks_ok dp s" "sy_phase s' = (sy_phase s)(t := ph)"
    "sy_mutex s' = (sy_mutex s)(dp_object dp t := if owns ph then Some t else None)"
    "\<And>u. u \<noteq> t \<Longrightarrow> sy_mutex s (dp_object dp t) \<noteq> Some u"
    "sy_flock s' = (if dp_flock dp then if critical ph then Some t else None else sy_flock s) \<and>
       (\<forall>u. u \<noteq> t \<longrightarrow> dp_flock dp \<longrightarrow> sy_flock s \<noteq> Some u) \<or>
     sy_flock s' = sy_flock s \<and> critical ph = critical (sy_phase s t)"
  shows "locks_ok dp s'"
  unfolding locks_ok_def
proof (intro conjI allI impI)
  fix u
  show "owns (sy_phase s' u) \<longleftrightarrow> sy_mutex s' (dp_object dp u) = Some u"
  proof (cases "u = t")
    case False
    with assms(2,3) assms(4) [OF False] locks_okD(1) [OF assms(1), of u] show ?thesis
      by (cases "dp_object dp u = dp_object dp t") auto
  qed (simp add: assms(2,3))
next
  fix ob u
  assume "sy_mutex s' ob = Some u"
  then show "dp_object dp u = ob"
    using assms(3) locks_okD(2) [OF assms(1), of ob u] by (cases "ob = dp_object dp t") (auto split: if_splits)
next
  fix u
  assume fl: "dp_flock dp"
  show "critical (sy_phase s' u) \<longleftrightarrow> sy_flock s' = Some u"
    using assms(2,5) fl locks_okD(3) [OF assms(1) fl, of u] by (cases "u = t") (auto split: if_splits)
qed

lemma locks_ok_act:
  assumes "locks_ok dp s" "act dp a s = Some s'"
  shows "locks_ok dp s'"
  using assms(2)
proof (cases rule: actE)
  case (enter t j)
  then have "\<not> critical (sy_phase s t)" by simp
  with enter show ?thesis by (intro locks_ok_moved [OF assms(1), of s' t "Owner j"]) simp_all
next
  case (lock t j)
  then show ?thesis using locks_okD(1) [OF assms(1), of t]
    by (intro locks_ok_moved [OF assms(1), of s' t "Inside j"]) (simp_all add: fun_upd_idem)
next
  case (unlock t j r)
  then show ?thesis using locks_okD(1,3) [OF assms(1), of t]
    by (intro locks_ok_moved [OF assms(1), of s' t "Left j r"]) (auto simp: fun_upd_idem)
next
  case (return t j r)
  then show ?thesis using locks_okD(1,3) [OF assms(1), of t]
    by (intro locks_ok_moved [OF assms(1), of s' t "after_return j r"]) simp_all
next
  case (kill p)
  then show ?thesis using assms(1) by (auto simp: locks_ok_def split: option.splits)
next
  case (call t j)
  then show ?thesis by (intro locks_ok_same [OF assms(1), of s' t "Waiting j"]) simp_all
next
  case (skip t j)
  then show ?thesis by (intro locks_ok_same [OF assms(1), of s' t "Inside j"]) simp_all
next
  case (read t j)
  then show ?thesis by (intro locks_ok_same [OF assms(1), of s' t "after_read j (read_counter (sy_file s))"]) simp_all
next
  case (failed t n w e f)
  then show ?thesis by (intro locks_ok_same [OF assms(1), of s' t "Leaving NextSerial (Inl e)"]) simp_all
next
  case (written t n w f)
  then show ?thesis by (intro locks_ok_same [OF assms(1), of s' t "Leaving NextSerial (Inr n)"]) simp_all
next
  case (repair t w target force current)
  then show ?thesis by (intro locks_ok_same [OF assms(1), of s' t Outside]) simp_all
qed

lemma critical_owns: "critical ph \<Longrightarrow> owns ph"
  by (cases ph) simp_all

lemma mutual_exclusion:
  assumes "locks_ok dp s" "protected dp" "critical (sy_phase s t)" "critical (sy_phase s u)"
  shows "t = u"
proof (cases "dp_flock dp")
  case True
  with assms have "sy_flock s = Some t" "sy_flock s = Some u" by (simp_all add: locks_ok_def)
  then show ?thesis by simp
next
  case False
  with assms(2) have "dp_object dp t = dp_object dp u" unfolding protected_def by blast
  moreover have "sy_mutex s (dp_object dp v) = Some v" if "critical (sy_phase s v)" for v
    using locks_okD(1) [OF assms(1), of v] critical_owns [OF that] by blast
  ultimately show ?thesis using assms(3,4) by (metis option.inject)
qed

definition no_repairs :: "system \<Rightarrow> bool" where
  "no_repairs s \<longleftrightarrow> (\<forall>t. \<not> repairs (sy_phase s t))"

lemma repairs_after [simp]: "\<not> is_repair j \<Longrightarrow> \<not> repairs (after_read j r)" "\<not> is_repair j \<Longrightarrow> \<not> repairs (after_return j r)"
  by (auto simp: after_read_def after_return_def is_repair_def split: job.splits sum.splits)

lemma no_repairs_act:
  assumes "no_repairs s" "\<not> dp_repairs dp" "act dp a s = Some s'"
  shows "no_repairs s'"
proof -
  have n: "\<not> repairs (sy_phase s t)" for t using assms(1) by (simp add: no_repairs_def)
  from assms(3) show ?thesis
  proof (cases rule: actE)
    case (enter t j)
    with n [of t] n show ?thesis by (simp add: no_repairs_def)
  next
    case (skip t j)
    with n [of t] n show ?thesis by (simp add: no_repairs_def)
  next
    case (lock t j)
    with n [of t] n show ?thesis by (simp add: no_repairs_def)
  next
    case (read t j)
    with n [of t] n show ?thesis by (simp add: no_repairs_def)
  next
    case (unlock t j r)
    with n [of t] n show ?thesis by (simp add: no_repairs_def)
  next
    case (return t j r)
    with n [of t] n show ?thesis by (simp add: no_repairs_def)
  qed (use n assms(2) in \<open>auto simp: no_repairs_def is_repair_def\<close>)
qed

text \<open>Who is about to write has read what the file still holds.\<close>

definition ready_ok :: "system \<Rightarrow> bool" where
  "ready_ok s \<longleftrightarrow> (\<forall>t n. sy_phase s t = Ready n \<longrightarrow> read_counter (sy_file s) = Inr (n - 1) \<and> n \<le> max_serial)"

lemma ready_after [simp]:
  "after_read j r = Ready n \<longleftrightarrow> j = NextSerial \<and> r = Inr (n - 1) \<and> n \<le> max_serial" "after_return j r \<noteq> Ready n"
  by (auto simp: after_read_def after_return_def split: job.splits sum.splits)

lemma only_writer:
  assumes "locks_ok dp s" "protected dp" "sy_phase s t = Ready n" "sy_phase s u = Ready m"
  shows "u = t"
  using mutual_exclusion [OF assms(1,2), of u t] assms(3,4) by simp

lemma ready_ok_act:
  assumes "ready_ok s" "locks_ok dp s" "protected dp" "no_repairs s" "act dp a s = Some s'"
  shows "ready_ok s'"
  using assms(5)
proof (cases rule: actE)
  case (failed t n w e f)
  have "sy_phase s u \<noteq> Ready m" if "u \<noteq> t" for u m using only_writer [OF assms(2,3) failed(2)] that by blast
  then show ?thesis by (simp add: failed(4) ready_ok_def)
next
  case (written t n w f)
  have "sy_phase s u \<noteq> Ready m" if "u \<noteq> t" for u m using only_writer [OF assms(2,3) written(2)] that by blast
  then show ?thesis by (simp add: written(4) ready_ok_def)
next
  case (repair t w target force current)
  then show ?thesis using assms(4) unfolding no_repairs_def by (metis repairs.simps(6))
qed (use assms(1) in \<open>auto simp: ready_ok_def split: if_splits\<close>)

section \<open>A run is a sequence of atomic calls\<close>

lemma draws_snoc:
  "draws draw (cs @ [c]) s = (case draws draw cs s of (ns, t) \<Rightarrow>
     (case draw c t of (Inr n, t') \<Rightarrow> (ns @ [n], t') | (Inl e, t') \<Rightarrow> (ns, t')))"
  by (induction draw cs s rule: draws.induct) (auto split: prod.splits sum.splits)

definition atomic_history :: "counter_file \<Rightarrow> system \<Rightarrow> bool" where
  "atomic_history f s \<longleftrightarrow> (\<exists>ws. draws next_serial ws f = (sy_issued s, sy_file s))"

lemma next_serial_ready:
  assumes "read_counter f = Inr (n - 1)" "n \<le> max_serial"
  shows "next_serial w f = (case write_counter w n f of (Inl e, f') \<Rightarrow> (Inl e, f') | (Inr _, f') \<Rightarrow> (Inr n, f'))"
  using assms by (simp add: next_serial_def)

lemma atomic_history_act:
  assumes "atomic_history f0 s" "ready_ok s" "no_repairs s" "act dp a s = Some s'"
  shows "atomic_history f0 s'"
proof -
  obtain ws where ws: "draws next_serial ws f0 = (sy_issued s, sy_file s)"
    using assms(1) by (auto simp: atomic_history_def)
  note snoc = draws_snoc [of next_serial ws _ f0]
  from assms(4) show ?thesis
  proof (cases rule: actE)
    case (failed t n w e f)
    with assms(2) have "next_serial w (sy_file s) = (Inl e, f)" by (auto simp: ready_ok_def next_serial_ready)
    with snoc [of w] ws failed show ?thesis unfolding atomic_history_def by (intro exI [of _ "ws @ [w]"]) simp
  next
    case (written t n w f)
    with assms(2) have "next_serial w (sy_file s) = (Inr n, f)" by (auto simp: ready_ok_def next_serial_ready)
    with snoc [of w] ws written show ?thesis unfolding atomic_history_def by (intro exI [of _ "ws @ [w]"]) simp
  next
    case (repair t w target force current)
    then show ?thesis using assms(3) unfolding no_repairs_def by (metis repairs.simps(6))
  qed (use ws in \<open>auto simp: atomic_history_def\<close>)
qed

section \<open>What callers get\<close>

text \<open>A serial is on its way to one caller at most, and was never answered before.\<close>

definition homing :: "system \<Rightarrow> bool" where
  "homing s \<longleftrightarrow> distinct (sy_returned s) \<and> set (sy_returned s) \<subseteq> set (sy_issued s) \<and>
     (\<forall>t n. bringing (sy_phase s t) = Some n \<longrightarrow> n \<in> set (sy_issued s) \<and> n \<notin> set (sy_returned s)) \<and>
     (\<forall>t u n. bringing (sy_phase s t) = Some n \<longrightarrow> bringing (sy_phase s u) = Some n \<longrightarrow> t = u)"

lemma bringing_simps [simp]: "bringing (Leaving j (Inl e)) = None" "bringing (Left j r) = bringing (Leaving j r)"
  by (cases j; simp) (cases j; cases r; simp)

lemma answered_bringing:
  "answered j r = (case bringing (Leaving j r) of None \<Rightarrow> [] | Some n \<Rightarrow> [n])"
  by (cases j; cases r) (simp_all add: answered_def)

lemma homing_kept:
  assumes "homing s" "sy_issued s' = sy_issued s" "sy_returned s' = sy_returned s"
    "\<And>u n. bringing (sy_phase s' u) = Some n \<Longrightarrow> bringing (sy_phase s u) = Some n"
  shows "homing s'"
  using assms unfolding homing_def by metis

lemma fresh_serial:
  assumes "atomic_history f0 s" "read_counter (sy_file s) = Inr (n - 1)"
  shows "n \<notin> set (sy_issued s)"
proof -
  from assms(1) obtain ws where "draws next_serial ws f0 = (sy_issued s, sy_file s)" by (auto simp: atomic_history_def)
  from file_counter.draws_above [OF _ this] assms(2) show ?thesis by (auto simp: counter_level_def)
qed

lemma homing_act:
  assumes "homing s" "atomic_history f0 s" "ready_ok s" "act dp a s = Some s'"
  shows "homing s'"
  using assms(4)
proof (cases rule: actE)
  case (written t n w f)
  have "n \<notin> set (sy_issued s)"
    using fresh_serial [OF assms(2)] assms(3) written(2) by (simp add: ready_ok_def)
  moreover have "m \<in> set (sy_issued s)" if "m \<in> set (sy_returned s) \<or> bringing (sy_phase s u) = Some m" for m u
    using that assms(1) by (auto simp: homing_def)
  ultimately show ?thesis using assms(1) unfolding homing_def written(4) by (auto split: if_splits)
next
  case (return t j r)
  show ?thesis
  proof (cases "bringing (Leaving j r)")
    case None
    with return assms(1) show ?thesis
      by (intro homing_kept [OF assms(1)]) (auto simp: answered_bringing split: if_splits)
  next
    case (Some n)
    then have n: "bringing (sy_phase s t) = Some n" by (simp add: return(2))
    then have "bringing (sy_phase s u) \<noteq> Some n" if "u \<noteq> t" for u
      using that assms(1) unfolding homing_def by metis
    with assms(1) n show ?thesis
      unfolding homing_def return(3) by (auto simp: answered_bringing Some split: if_splits)
  qed
next
  case (unlock t j r)
  then show ?thesis by (intro homing_kept [OF assms(1)]) (auto split: if_splits)
next
  case (kill p)
  then show ?thesis by (intro homing_kept [OF assms(1)]) (auto split: if_splits)
qed (use assms(1) in \<open>auto intro!: homing_kept [OF assms(1)] split: if_splits\<close>)

definition sound :: "deployment \<Rightarrow> counter_file \<Rightarrow> system \<Rightarrow> bool" where
  "sound dp f s \<longleftrightarrow> locks_ok dp s \<and> no_repairs s \<and> ready_ok s \<and> atomic_history f s \<and> homing s"

lemma locks_ok_rest: "locks_ok dp (at_rest f)"
  by (simp add: locks_ok_def at_rest_def)

lemma sound_rest: "sound dp f (at_rest f)"
proof -
  have "draws next_serial [] f = ([], f)" by simp
  then show ?thesis
    unfolding sound_def no_repairs_def ready_ok_def atomic_history_def homing_def
    using locks_ok_rest by (auto simp: at_rest_def simp del: draws.simps)
qed

lemma sound_act:
  "sound dp f s \<Longrightarrow> protected dp \<Longrightarrow> \<not> dp_repairs dp \<Longrightarrow> act dp a s = Some s' \<Longrightarrow> sound dp f s'"
  unfolding sound_def using locks_ok_act no_repairs_act ready_ok_act atomic_history_act homing_act by metis

lemma run_induct [consumes 1, case_names step]:
  assumes "run dp as s = Some s'" "\<And>a s s'. P s \<Longrightarrow> act dp a s = Some s' \<Longrightarrow> P s'" "P s"
  shows "P s'"
  using assms(1,3)
proof (induction as arbitrary: s)
  case (Cons a as)
  from Cons.prems(1) obtain s1 where "act dp a s = Some s1" "run dp as s1 = Some s'" by (auto split: bind_splits)
  with Cons assms(2) show ?case by blast
qed simp

text \<open>
  C7. However the calls of threads and processes interleave, and whichever of them are killed, the
  counter file and the serials written are those of a sequence of atomic calls; every caller gets a
  serial of its own, above all that the file held at the start.
\<close>

theorem interleaved_calls_atomic:
  assumes "run dp as (at_rest f) = Some s" "protected dp" "\<not> dp_repairs dp"
  shows "(\<exists>ws. draws next_serial ws f = (sy_issued s, sy_file s)) \<and> distinct (sy_returned s) \<and>
    set (sy_returned s) \<subseteq> set (sy_issued s) \<and> (\<forall>n \<in> set (sy_returned s). counter_level f < n \<and> n \<le> max_serial)"
proof -
  have "sound dp f s" using assms(1)
  proof (induction rule: run_induct)
    case (step a s s')
    then show ?case using sound_act assms(2,3) by blast
  qed (rule sound_rest)
  then obtain ws where ws: "draws next_serial ws f = (sy_issued s, sy_file s)" and h: "homing s"
    by (auto simp: sound_def atomic_history_def)
  from file_counter.draws_above [OF _ ws] h show ?thesis using ws by (auto simp: homing_def)
qed

section \<open>No run blocks itself\<close>

text \<open>The actions a thread still has before it.\<close>

fun work :: "phase \<Rightarrow> nat" where
  "work Outside = 0"
| "work (Repairing a b c) = 1"
| "work (Left j r) = 2"
| "work (Leaving j r) = 3"
| "work (Ready n) = 4"
| "work (Inside j) = 5"
| "work (Owner j) = 6"
| "work (Waiting j) = 7"

text \<open>The actions that go on with what was begun, no write failing.\<close>

fun goes_on :: "action \<Rightarrow> bool" where
  "goes_on (Call t j) = False"
| "goes_on (Kill p) = False"
| "goes_on (Write t w) = (w = Written)"
| "goes_on (RepairWrite t w) = (w = Written)"
| "goes_on _ = True"

lemma work_0 [simp]: "work ph = 0 \<longleftrightarrow> ph = Outside"
  by (cases ph) simp_all

definition can_go :: "deployment \<Rightarrow> system \<Rightarrow> nat \<Rightarrow> bool" where
  "can_go dp s t \<longleftrightarrow> (\<exists>a s'. goes_on a \<and> act dp a s = Some s' \<and>
     (\<forall>u. u \<noteq> t \<longrightarrow> sy_phase s' u = sy_phase s u) \<and> work (sy_phase s' t) < work (sy_phase s t))"

lemma can_goI:
  "act dp a s = Some s' \<Longrightarrow> goes_on a \<Longrightarrow> (\<And>u. u \<noteq> t \<Longrightarrow> sy_phase s' u = sy_phase s u) \<Longrightarrow>
   work (sy_phase s' t) < work (sy_phase s t) \<Longrightarrow> can_go dp s t"
  unfolding can_go_def by blast

lemma work_after [simp]: "work (after_read j r) < 5" "work (after_return j r) < 2"
  by (auto simp: after_read_def after_return_def split: job.splits sum.splits)

lemma free_to_go:
  assumes "critical (sy_phase s t) \<or> (\<exists>j r. sy_phase s t = Left j r) \<or> (\<exists>a b c. sy_phase s t = Repairing a b c)"
  shows "can_go dp s t"
proof (cases "sy_phase s t")
  case (Inside j)
  then show ?thesis
    by (intro can_goI [of dp "Read t" s "go t (after_read j (read_counter (sy_file s))) s"]) simp_all
next
  case (Ready n)
  then show ?thesis
    by (intro can_goI [of dp "Write t Written" s "the (act dp (Write t Written) s)"])
      (simp_all add: write_counter_def)
next
  case (Leaving j r)
  then show ?thesis
    by (intro can_goI [of dp "Unlock t" s "go t (Left j r) (if dp_flock dp then s\<lparr>sy_flock := None\<rparr> else s)"]) simp_all
next
  case (Left j r)
  then show ?thesis by (intro can_goI [of dp "Return t" s "the (act dp (Return t) s)"]) simp_all
next
  case (Repairing target force current)
  then show ?thesis
    by (intro can_goI [of dp "RepairWrite t Written" s "the (act dp (RepairWrite t Written) s)"]) simp_all
qed (use assms in auto)

lemma owner_can_go:
  assumes "locks_ok dp s" "owns (sy_phase s t)"
  shows "\<exists>u. can_go dp s u"
proof (cases "\<exists>j. sy_phase s t = Owner j")
  case True
  then obtain j where j: "sy_phase s t = Owner j" by blast
  show ?thesis
  proof (cases "dp_flock dp \<and> sy_flock s \<noteq> None")
    case True
    then obtain u where "critical (sy_phase s u)" using locks_okD(3) [OF assms(1)] by blast
    then show ?thesis using free_to_go by blast
  next
    case False
    with j have "can_go dp s t"
      by (intro can_goI [of dp "Lock t" s "go t (Inside j) (if dp_flock dp then s\<lparr>sy_flock := Some t\<rparr> else s)"]) auto
    then show ?thesis ..
  qed
next
  case False
  with assms(2) have "can_go dp s t" by (intro free_to_go) (cases "sy_phase s t"; simp)
  then show ?thesis ..
qed

lemma some_can_go:
  assumes "locks_ok dp s" "sy_phase s t \<noteq> Outside"
  shows "\<exists>u. can_go dp s u"
proof (cases "sy_phase s t")
  case (Waiting j)
  show ?thesis
  proof (cases "sy_mutex s (dp_object dp t)")
    case None
    with Waiting have "can_go dp s t" by (intro can_goI [of dp "Enter t" s "the (act dp (Enter t) s)"]) simp_all
    then show ?thesis ..
  next
    case (Some u)
    then have "owns (sy_phase s u)" using locks_okD(1,2) [OF assms(1)] by metis
    then show ?thesis using owner_can_go [OF assms(1)] by blast
  qed
next
  case (Repairing target force current)
  then show ?thesis using free_to_go by blast
qed (use assms owner_can_go [OF assms(1), of t] in auto)

lemma comes_to_rest:
  assumes "locks_ok dp s" "finite T" "\<forall>t. t \<notin> T \<longrightarrow> sy_phase s t = Outside"
  shows "\<exists>as s'. list_all goes_on as \<and> run dp as s = Some s' \<and> (\<forall>t. sy_phase s' t = Outside)"
  using assms(1,3)
proof (induction "\<Sum>t\<in>T. work (sy_phase s t)" arbitrary: s rule: less_induct)
  case less
  show ?case
  proof (cases "\<forall>t. sy_phase s t = Outside")
    case True
    then show ?thesis by (intro exI [of _ "[]"]) simp
  next
    case False
    then obtain u a s1 where u: "goes_on a" "act dp a s = Some s1" "\<forall>t. t \<noteq> u \<longrightarrow> sy_phase s1 t = sy_phase s t"
      "work (sy_phase s1 u) < work (sy_phase s u)"
      using some_can_go [OF less.prems(1)] unfolding can_go_def by blast
    have "u \<in> T" using u(4) less.prems(2) by (cases "u \<in> T") auto
    have "work (sy_phase s1 t) \<le> work (sy_phase s t)" for t using u(3,4) by (cases "t = u") auto
    then have "(\<Sum>t\<in>T. work (sy_phase s1 t)) < (\<Sum>t\<in>T. work (sy_phase s t))"
      using assms(2) u(4) \<open>u \<in> T\<close> by (intro sum_strict_mono_ex1) auto
    moreover have "\<forall>t. t \<notin> T \<longrightarrow> sy_phase s1 t = Outside" using u(3) less.prems(2) \<open>u \<in> T\<close> by metis
    ultimately obtain as s' where "list_all goes_on as" "run dp as s1 = Some s'" "\<forall>t. sy_phase s' t = Outside"
      using less.hyps [of s1] locks_ok_act [OF less.prems(1) u(2)] by blast
    with u(1,2) show ?thesis by (intro exI [of _ "a # as"]) auto
  qed
qed

text \<open>Only finitely many threads are ever inside.\<close>

fun actor :: "action \<Rightarrow> nat" where
  "actor (Call t j) = t"
| "actor (Enter t) = t"
| "actor (Lock t) = t"
| "actor (Read t) = t"
| "actor (Write t w) = t"
| "actor (Unlock t) = t"
| "actor (Return t) = t"
| "actor (RepairWrite t w) = t"
| "actor (Kill p) = 0"

lemma others_stay:
  assumes "act dp a s = Some s'" "u \<noteq> actor a" "sy_phase s' u \<noteq> Outside"
  shows "sy_phase s u \<noteq> Outside"
  using assms(1)
proof (cases rule: actE)
  case (unlock t j r)
  then show ?thesis using assms(2,3) by (simp split: if_splits)
qed (use assms(2,3) in \<open>auto split: if_splits\<close>)

lemma few_inside:
  assumes "finite {t. sy_phase s t \<noteq> Outside}" "act dp a s = Some s'"
  shows "finite {t. sy_phase s' t \<noteq> Outside}"
  by (rule finite_subset [OF _ finite.insertI [OF assms(1), of "actor a"]])
    (use others_stay [OF assms(2)] in auto)

text \<open>
  C23. The locks never block each other: from every state a run can reach, repairs and kills included,
  the threads that are inside can all finish, without another call and without a failing write.
\<close>

theorem calls_can_finish:
  assumes "run dp as (at_rest f) = Some s"
  shows "\<exists>bs s'. list_all goes_on bs \<and> run dp bs s = Some s' \<and> (\<forall>t. sy_phase s' t = Outside)"
proof -
  have "locks_ok dp s \<and> finite {t. sy_phase s t \<noteq> Outside}" using assms
  proof (induction rule: run_induct)
    case (step a s s')
    then show ?case using locks_ok_act few_inside by blast
  qed (simp add: locks_ok_rest, simp add: at_rest_def)
  then show ?thesis using comes_to_rest [of dp s "{t. sy_phase s t \<noteq> Outside}"] by blast
qed

section \<open>Two ways to reissue a serial\<close>

definition one_call :: "nat \<Rightarrow> action list" where
  "one_call t = [Call t NextSerial, Enter t, Lock t, Read t, Write t Written, Unlock t, Return t]"

definition sample_deployment :: "bool \<Rightarrow> bool \<Rightarrow> deployment" where
  "sample_deployment posix tool = \<lparr>dp_flock = posix, dp_repairs = tool, dp_object = id, dp_process = id\<rparr>"

lemma small_counters:
  "read_counter Absent = Inr 0" "read_counter (Content (counter_text 1)) = Inr 1"
  "read_counter (Content (counter_text 2)) = Inr 2"
  by (simp_all add: serial_reads_back max_serial_def) (simp add: read_counter_def)

lemmas counter_eval = write_counter_def small_counters after_read_def after_return_def answered_def is_repair_def
  go_def at_rest_def sample_deployment_def max_serial_def

text \<open>
  The repair tool reads the counter under the locks and writes it without them. While a server draws
  the serials 1 and 2, a repair to 1 without \<open>--force\<close>, begun on the empty counter, sets it back, and 2
  is issued again.
\<close>

definition repair_race :: "action list" where
  "repair_race = [Call 0 (Repair 1 False), Enter 0, Lock 0, Read 0, Unlock 0, Return 0] @
     one_call 1 @ one_call 1 @ [RepairWrite 0 Written] @ one_call 1"

theorem repair_reissues:
  "\<exists>s. run (sample_deployment True True) repair_race (at_rest Absent) = Some s \<and> sy_returned s = [1, 2, 2]"
  by (simp add: repair_race_def one_call_def counter_eval
      set_counter_def)

text \<open>Without \<open>fcntl\<close> two processes that read at the same time get the same serial.\<close>

definition windows_race :: "action list" where
  "windows_race = [Call 0 NextSerial, Call 1 NextSerial, Enter 0, Enter 1, Lock 0, Lock 1, Read 0, Read 1,
     Write 0 Written, Write 1 Written, Unlock 0, Unlock 1, Return 0, Return 1]"

theorem no_flock_reissues:
  "\<exists>s. run (sample_deployment False False) windows_race (at_rest Absent) = Some s \<and> sy_returned s = [1, 1]"
  by (simp add: windows_race_def counter_eval)

section \<open>Concrete runs\<close>

text \<open>Two processes interleave, a third is killed while it holds both locks.\<close>

definition sample_run :: "action list" where
  "sample_run = [Call 2 NextSerial, Enter 2, Lock 2, Read 2, Call 0 NextSerial, Enter 0, Call 1 NextSerial, Enter 1,
     Kill 2, Lock 1, Read 1, Write 1 Written, Unlock 1, Lock 0, Read 0, Return 1, Write 0 Written, Unlock 0, Return 0]"

theorem interleaved_calls_atomic_witness:
  "\<exists>s ws. run (sample_deployment True False) sample_run (at_rest Absent) = Some s \<and> sy_returned s = [1, 2] \<and>
     draws next_serial ws Absent = (sy_issued s, sy_file s)"
proof -
  obtain s where s: "run (sample_deployment True False) sample_run (at_rest Absent) = Some s" "sy_returned s = [1, 2]"
    by (simp add: sample_run_def counter_eval)
  moreover have "protected (sample_deployment True False)" "\<not> dp_repairs (sample_deployment True False)"
    by (simp_all add: protected_def sample_deployment_def)
  ultimately show ?thesis using interleaved_calls_atomic [OF s(1)] by blast
qed

theorem calls_can_finish_witness:
  "\<exists>s bs s'. run (sample_deployment True True) (take 10 repair_race) (at_rest Absent) = Some s \<and>
     sy_phase s 1 = Ready 1 \<and> run (sample_deployment True True) bs s = Some s' \<and> sy_phase s' 1 = Outside"
proof -
  obtain s where s: "run (sample_deployment True True) (take 10 repair_race) (at_rest Absent) = Some s" "sy_phase s 1 = Ready 1"
    by (simp add: repair_race_def one_call_def counter_eval)
  from calls_can_finish [OF s(1)] s show ?thesis by blast
qed

end
