(* ===== verification/Spec2Isabelle.thy ===== *)
theory Spec2Isabelle
  imports Overlaps Verdicts ErrorCodes Startup Calls Probes Extract ProfileFile DevCert Panel Locking
begin

text \<open>
  Verification of the Moadian tax client, the Python package \<open>src/backend/src/moadian\<close> with its
  operator tools under \<open>src/backend/tools\<close>.

  \<^bold>\<open>The program.\<close> A taxpayer's invoices are checked offline against the obligation matrix, the code
  lists and the money rules (\<open>rules/\<close>); each gets a serial from a counter file and a tax id derived
  from the memory, the day and the serial (\<open>taxid/\<close>, \<open>pipeline.py\<close>); it is written as canonical JSON,
  signed and encrypted (\<open>crypto/\<close>), sent to the tax organisation (\<open>client/\<close>) and later asked for by
  its reference number. A web application (\<open>api/\<close>) keeps drafts, filings, buyers, goods and the
  published catalogue in SQLite stores (\<open>store/\<close>), fiscal profiles in an encrypted file (\<open>config/\<close>),
  and accounts with bearer tokens (\<open>auth/\<close>). \<open>mock/server.py\<close> stands in for the organisation and runs
  its checks.

  \<^bold>\<open>Conventions\<close> (\<open>Prelude\<close>, \<open>Errors\<close>, \<open>Effects\<close>). Python text is a list of code points, \<open>lit ''abc''\<close>
  the text of an ASCII literal; a byte string is a list of integers. An exception is a value of
  \<open>exn\<close>, a call that may raise answers \<open>exn + 'a\<close>, and a handler or a service is a function from the
  state before to the answer and the state after, so that what was written before an exception stays
  written. Python integers are \<open>int\<close>. A Python float is the real number it denotes, rounded by
  \<open>fl\<close> of \<open>PyFloat\<close> after every operation (binary64, nearest even, gradual underflow, \<open>OverflowError\<close>
  or infinity where the source can see it).

  \<^bold>\<open>Texts and values.\<close>
  \<^item> \<open>PyFloat\<close>, \<open>PyInt\<close>: the float operations the source uses; \<open>int(text, base)\<close>, padded formats.
    The locale \<open>numeral_format\<close> gives both bases their round trips.
  \<^item> \<open>Persian\<close> (\<open>persian.py\<close>), \<open>Units\<close> (\<open>units.py\<close>): folding for search, digits of identifiers, the
    table of units.
  \<^item> \<open>Json\<close> (\<open>crypto/canonical.py\<close>): JSON values, the text \<open>json.dumps\<close> writes, \<open>canonical_json\<close>.
  \<^item> \<open>JsonText\<close>: \<open>bytes.decode\<close> and \<open>json.loads\<close> with its detection of UTF-16 and UTF-32; what is signed
    reads back as what was meant.

  \<^bold>\<open>Identity of an invoice.\<close>
  \<^item> \<open>Verhoeff\<close> (\<open>taxid/verhoeff.py\<close>), \<open>TaxId\<close> (\<open>taxid/provider.py\<close>, \<open>serial_of\<close> of \<open>tools/serial.py\<close>):
    the check digit and its error detection; which inputs give a tax id, its shape, that it is
    injective, that the serial is read back, and that the day is exact from 1970 to 2242 in spite of
    the float timestamp.
  \<^item> \<open>Counter\<close> (\<open>MonotonicSerialCounter\<close>, \<open>tools/serial.py\<close>): the counter file with failing writes;
    serials rise strictly over every history; the repair tool never lowers the counter unless forced.
    \<open>Locking\<close>: its two locks, with the threads of several processes interleaved and killed at any moment;
    every run is a sequence of atomic calls and can finish, while the repair tool, which writes under no
    lock, can reissue serials.

  \<^bold>\<open>Validation.\<close>
  \<^item> \<open>Invoice\<close> (\<open>models/invoice.py\<close>): the four records with their wire names and \<open>to_wire_dict\<close>.
  \<^item> \<open>Rules\<close> (\<open>rules/spec.py\<close>): the typed matrix and its loader on the parsed rule file.
  \<^item> \<open>Arithmetic\<close> (\<open>rules/arithmetic.py\<close>, \<open>rules/violations.py\<close>): the money rules in doubles and
    \<open>recompute\<close>; on amounts up to \<open>2 ^ 51\<close> the doubles decide the exact integer rule.
  \<^item> \<open>Engine\<close> (\<open>rules/engine.py\<close>): \<open>validate_invoice\<close>, equivalent to its declarative reading.
  \<^item> \<open>Extract\<close> (\<open>tools/extract_table1.py\<close>): the matrix transcribed from the grid of the document, its
    anchors and the rule file written from it, which \<open>Rules\<close> can evaluate.

  \<^bold>\<open>Filing.\<close>
  \<^item> \<open>Responses\<close>, \<open>Wire\<close> (\<open>models/packet.py\<close>, \<open>models/responses.py\<close>, \<open>models/enums.py\<close>): the records on the
    wire and how an answer is read.
  \<^item> \<open>Pipeline\<close> (\<open>InvoicePipeline\<close>): validate, number, pack, submit in chunks of 1000, match, poll.
    \<open>services\<close> is what it calls. The locale \<open>serial_source\<close> is the contract of a counter, proved for the
    file counter in \<open>Counter\<close>; \<open>pipeline_services\<close> extends it with the calls of the client and is
    interpreted on the file counter in \<open>Pipeline\<close>.
  \<^item> \<open>Jose\<close> (\<open>crypto/signatory.py\<close>, \<open>crypto/encryptor.py\<close>, the token of \<open>client/auth.py\<close>): base64, the JWS
    and the JWE around abstract RSA and AES-GCM.
  \<^item> \<open>Client\<close>, \<open>Calls\<close> (\<open>client/\<close>): addresses, parameters, the nonce and the token of each request.
  \<^item> \<open>MockServer\<close>, \<open>Organisation\<close>, \<open>Agreement\<close> (\<open>mock/server.py\<close>): its handlers as a step function on
    its state, what they guarantee over a history, and that they accept what \<open>Jose\<close> builds. \<open>Calendar\<close>:
    the instants it writes, whose fields are in range and give the instant back.
  \<^item> \<open>Exchange\<close>, \<open>Deliveries\<close>: the routes of the organisation as the network of the client; a batch
    the pipeline builds and the client submits is stored packet by packet.

  \<^bold>\<open>The application.\<close>
  \<^item> \<open>Tables\<close>, \<open>Records\<close> (\<open>store/records.py\<close>): tables with ids that are never reused (locale
    \<open>row_store\<close>), buyers, goods, invoice records, and the upgrade from the first schema.
  \<^item> \<open>Catalogue\<close> (\<open>store/catalogue.py\<close>, \<open>tools/import_catalogue.py\<close>): the list of goods and its index.
  \<^item> \<open>InvoiceApi\<close> (\<open>api/app.py\<close>): drafts, filing, inquiry, cancellation. \<open>Lifecycle\<close> closes the handlers
    into a step relation and proves what no request can change; \<open>Filing\<close> refines an append-only
    ledger; \<open>Verdicts\<close> follows the answers; \<open>Overlaps\<close> interleaves requests at their \<open>await\<close>s.
  \<^item> \<open>Profiles\<close> (\<open>config/environment.py\<close>, \<open>config/profiles.py\<close>), \<open>Keys\<close> (\<open>config/keyring.py\<close>,
    \<open>config/settings.py\<close>, \<open>crypto/keys.py\<close>): the encrypted profile store; which files sign for which
    environment and when they are accepted. \<open>ProfileFile\<close> is the store as bytes: its envelope read back,
    its atomic write under every failure, histories of saves and deletions, and what two overlapping
    calls lose. \<open>Panel\<close> is the JSON the admin panel shows of all this, which does not depend on the
    bytes of a key.
  \<^item> \<open>Desk\<close>, \<open>Connections\<close> (\<open>api/app.py\<close>, \<open>api/deps.py\<close>): the other handlers, alone and against the
    organisation. \<open>ErrorCodes\<close> (\<open>errors.py\<close>): the catalogue of error codes.
  \<^item> \<open>Accounts\<close>, \<open>Sessions\<close>, \<open>Revocation\<close>, \<open>Logins\<close> (\<open>auth/\<close>): accounts, tokens and their revocation.
  \<^item> \<open>Gateway\<close> (\<open>api/app.py\<close>, \<open>auth/routes.py\<close>): the table of routes with their guards, the dispatch of a
    request to its handler over one installation and the mount of the built UI; nothing happens without
    a session, and no route hides another. \<open>Startup\<close> (\<open>auth/security.py\<close>, \<open>create_app\<close>): where the secret, the
    life of a session and the first account come from, and what a restart keeps.
  \<^item> \<open>Probes\<close> (\<open>tools/preflight.py\<close>, \<open>tools/check_connectivity.py\<close>): the scripts run before filing. \<open>DevCert\<close>
    (\<open>tools/gen_dev_cert.py\<close>): the development pair and the modes of its files.

  \<^bold>\<open>Bounds and fuel.\<close> The only loop with fuel is \<open>Pipeline.poll\<close>: with
  \<open>Suc (nat \<lceil>timeout / interval\<rceil>)\<close> units it returns, since each round sleeps at least the interval
  or up to the deadline. The JSON reader recurses on its input. Integer texts
  are limited to 4300 digits as in CPython. Days and timestamps are exact from 1970 to 2242, the range
  of the five hex digits of a tax id.

  \<^bold>\<open>Parameters\<close> stand for code outside the repository: RSA, AES-GCM, PBKDF2 and the signed tokens of
  PyJWT, the parsers of PEM, DER and X.509, NFC, NFKC and \<open>casefold\<close>, the shortest text of a float and
  the reading of one, the clock and the random source, what pydantic and FastAPI take for a number or
  a bool, \<open>datetime.fromisoformat\<close>, the ranking of FTS5, CSV and YAML readers, the tables pdfplumber
  finds, and the network. Matching a path is written out as Starlette documents it (the first template
  that fits, a parameter takes one segment). Where a property needs their documented behaviour (a signature verifies, what
  was encrypted decrypts, random draws differ) it is a named hypothesis, and a witness instantiates it.

  \<^bold>\<open>Not modelled.\<close> The sign of a zero float, and the compensated \<open>sum\<close> of Python 3.12 (the source
  runs on 3.11); the wording of messages; failures and locks
  inside SQLite; the parsing of request bodies by pydantic; \<open>strftime\<close> below year 1000; the names and
  titles shown by the pattern endpoints; CORS, the redirect of a final slash and the documentation
  pages FastAPI adds. The TypeScript front
  end, the C# clients and the documents are not part of the package.
\<close>

end
